(* ===== verification/Prelude.thy ===== *)
theory Prelude
  imports Main "HOL-Library.Word" "HOL-Library.State_Monad"
begin

text \<open>
  Shared vocabulary of the development: the machine types of the two images (boot0 is an
  ILP32 AArch32 program, the AR100S firmware an ILP32 RISC-V one, so \<open>size_t\<close>, pointers and
  \<open>unsigned int\<close> are all 32 bits wide), byte buffers, the two effect disciplines used by the
  component theories and the word lemmas their proofs share.

  \<^item> A buffer is a partial map from byte index to byte. A read outside the buffer is \<open>None\<close>,
    the model of an access the C program must never make.
  \<^item> Reading code lives in the option monad, where \<open>None\<close> is an out-of-range access;
    \<open>allM\<close> and \<open>anyM\<close> are C's short-circuit conjunction and disjunction.
  \<^item> Code with effects lives in the state monad of the library.
\<close>

unbundle bit_operations_syntax

type_synonym u8 = "8 word"
type_synonym u16 = "16 word"
type_synonym u32 = "32 word"
type_synonym u64 = "64 word"
type_synonym buf = "nat \<Rightarrow> u8 option"

named_theorems run_simps \<open>execution equations of the effectful operations\<close>
named_theorems word_facts \<open>bit-field facts the component proofs share\<close>

abbreviation ret :: "'a \<Rightarrow> ('s, 'a) state" where
  "ret \<equiv> State_Monad.return"

text \<open>Short-circuit evaluation of conditions whose operands may read memory.\<close>

fun allM :: "bool option list \<Rightarrow> bool option" where
  "allM [] = Some True"
| "allM (c # cs) = do { b \<leftarrow> c; if b then allM cs else Some False }"

fun anyM :: "bool option list \<Rightarrow> bool option" where
  "anyM [] = Some False"
| "anyM (c # cs) = do { b \<leftarrow> c; if b then Some True else anyM cs }"

text \<open>The buffer that holds exactly the bytes of a list.\<close>

definition buf_of_list :: "u8 list \<Rightarrow> buf" where
  "buf_of_list xs = (\<lambda>i. if i < length xs then Some (xs ! i) else None)"

text \<open>A buffer is defined on every index below a length.\<close>

definition readable :: "buf \<Rightarrow> nat \<Rightarrow> bool" where
  "readable b n \<longleftrightarrow> (\<forall>i<n. b i \<noteq> None)"

lemma readableD: "readable b n \<Longrightarrow> i < n \<Longrightarrow> b i = Some (the (b i))"
  by (auto simp: readable_def)

lemma readable_mono: "readable b n \<Longrightarrow> m \<le> n \<Longrightarrow> readable b m"
  by (auto simp: readable_def)

lemma readable_buf_of_list [simp]: "readable (buf_of_list xs) n \<longleftrightarrow> n \<le> length xs"
  by (auto simp: readable_def buf_of_list_def not_le)

lemma allM_map_Some [simp]: "allM (map Some bs) = Some (\<forall>b\<in>set bs. b)"
  by (induction bs) auto

lemma allM_True: "allM cs = Some True \<longleftrightarrow> (\<forall>c\<in>set cs. c = Some True)"
proof (induction cs)
  case (Cons c cs)
  then show ?case by (cases c) auto
qed simp

lemma anyM_False: "anyM cs = Some False \<longleftrightarrow> (\<forall>c\<in>set cs. c = Some False)"
proof (induction cs)
  case (Cons c cs)
  then show ?case by (cases c) auto
qed simp

lemma allM_defined: "(\<forall>c\<in>set cs. c \<noteq> None) \<Longrightarrow> allM cs \<noteq> None"
  by (induction cs) auto

lemma anyM_defined: "(\<forall>c\<in>set cs. c \<noteq> None) \<Longrightarrow> anyM cs \<noteq> None"
  by (induction cs) auto

section \<open>Words\<close>

lemma unat_lt [simp]: "unat (w :: 'a::len word) < 2 ^ LENGTH('a)"
  by (rule unsigned_less)

lemma unat_u8_lt [simp]: "unat (w :: u8) < 256"
  using unat_lt [of w] by simp

lemma unat_u32_lt [simp]: "unat (w :: u32) < 4294967296"
  using unat_lt [of w] by simp

lemma unat_u64_lt [simp]: "unat (w :: u64) < 18446744073709551616"
  using unat_lt [of w] by simp

lemma unat_ucast_32_64 [simp]: "unat (ucast (w :: u32) :: u64) = unat w"
  by (simp add: unsigned_ucast_eq take_bit_nat_eq_self order_less_trans [OF unat_u32_lt])

lemma unat_ucast_8_32 [simp]: "unat (ucast (w :: u8) :: u32) = unat w"
  by (simp add: unsigned_ucast_eq take_bit_nat_eq_self order_less_trans [OF unat_u8_lt])

lemma unat_ucast_64_32: "unat (w :: u64) < 4294967296 \<Longrightarrow> unat (ucast w :: u32) = unat w"
  by (simp add: unsigned_ucast_eq take_bit_nat_eq_self)

lemma unat_max_u64 [simp]: "unat (- 1 :: u64) = 18446744073709551615"
  by (simp add: unsigned_minus_1_eq_mask mask_eq_exp_minus_1)

lemma le_u32_lt_64: "m \<le> unat (w :: u32) \<Longrightarrow> m < 2 ^ 64"
  by (rule le_less_trans, assumption, rule less_trans [OF unat_u32_lt]) simp

lemma unat_and_le: "unat (x AND m :: 'a::len word) \<le> unat m"
  unfolding word_le_nat_alt [symmetric] by (rule word_and_le1)

lemma and_and_not [simp]: "(x AND k) AND NOT k = (0 :: 'a::len word)"
  by (simp add: and.assoc)

lemma word_or_push_bit:
  fixes v w :: "'a::len word"
  assumes "unat v < 2 ^ k"
  shows "v OR push_bit k w = v + push_bit k w"
proof -
  have "\<not> bit v n" if "k \<le> n" for n
  proof -
    have "unat v < 2 ^ n"
      using assms that by (meson less_le_trans one_le_numeral power_increasing)
    then have "\<not> bit (unat v) n" by (simp add: bit_iff_odd)
    then show ?thesis by (auto simp: bit_unsigned_iff)
  qed
  then have "\<And>n. \<not> bit v n \<or> \<not> bit (push_bit k w) n"
    by (meson bit_push_bit_iff not_le)
  then show ?thesis by (simp add: disjunctive_add)
qed

end
