(* ===== verification/Fip.thy ===== *)
theory Fip
  imports Prelude
begin

text \<open>
  The TF-A FIP loader of boot0 (\<^verbatim>\<open>src/src/sunxi_fip.c\<close>): the byte decoders, the payload
  validators, the table-of-contents parser, the copy of the images to their load windows and
  the redundant (primary, backup) read from the boot medium.
\<close>

unbundle bit_operations_syntax

section \<open>Data\<close>

record sunxi_fip_image =
  img_offset :: u32
  img_size :: u32

record sunxi_fip_layout =
  scp_bl2 :: sunxi_fip_image
  bl31 :: sunxi_fip_image
  bl33 :: sunxi_fip_image
  hw_config :: sunxi_fip_image

abbreviation (input) SUNXI_FIP_MAX_SIZE :: u32 where "SUNXI_FIP_MAX_SIZE \<equiv> 0x200000"
abbreviation (input) SUNXI_FIP_BL31_BASE :: u32 where "SUNXI_FIP_BL31_BASE \<equiv> 0x48000000"
abbreviation (input) SUNXI_FIP_BL31_MAX_SIZE :: u32 where "SUNXI_FIP_BL31_MAX_SIZE \<equiv> 0x100000"
abbreviation (input) SUNXI_FIP_BL33_BASE :: u32 where "SUNXI_FIP_BL33_BASE \<equiv> 0x4a000000"
abbreviation (input) SUNXI_FIP_BL33_MAX_SIZE :: u32 where "SUNXI_FIP_BL33_MAX_SIZE \<equiv> 0x180000"
abbreviation (input) SUNXI_FIP_SCP_BL2_BASE :: u32 where "SUNXI_FIP_SCP_BL2_BASE \<equiv> 0x44000"
abbreviation (input) SUNXI_FIP_SCP_BL2_MAX_SIZE :: u32 where "SUNXI_FIP_SCP_BL2_MAX_SIZE \<equiv> 0x28000"
abbreviation (input) SUNXI_FIP_HW_CONFIG_BASE :: u32 where "SUNXI_FIP_HW_CONFIG_BASE \<equiv> 0x48100000"
abbreviation (input) SUNXI_FIP_HW_CONFIG_MAX_SIZE :: u32 where
  "SUNXI_FIP_HW_CONFIG_MAX_SIZE \<equiv> 0x100000"

abbreviation (input) FIP_TOC_HEADER_NAME :: u32 where "FIP_TOC_HEADER_NAME \<equiv> 0xaa640001"
abbreviation (input) FIP_TOC_SERIAL_NUMBER :: u32 where "FIP_TOC_SERIAL_NUMBER \<equiv> 0x12345678"
abbreviation (input) FIP_HEADER_SIZE :: u32 where "FIP_HEADER_SIZE \<equiv> 16"
abbreviation (input) FIP_ENTRY_SIZE :: u32 where "FIP_ENTRY_SIZE \<equiv> 40"
abbreviation (input) FIP_SECTOR_SIZE :: u32 where "FIP_SECTOR_SIZE \<equiv> 512"
abbreviation (input) FIP_TOC_SECTORS :: u32 where "FIP_TOC_SECTORS \<equiv> 3"
abbreviation (input) FIP_METADATA_SIZE :: u32 where "FIP_METADATA_SIZE \<equiv> 1536"
text \<open>\<open>(FIP_METADATA_SIZE - FIP_HEADER_SIZE) / FIP_ENTRY_SIZE\<close>.\<close>
abbreviation (input) FIP_MAX_TOC_ENTRIES :: nat where "FIP_MAX_TOC_ENTRIES \<equiv> 38"

abbreviation (input) FIP_FOUND_SCP_BL2 :: u32 where "FIP_FOUND_SCP_BL2 \<equiv> 1"
abbreviation (input) FIP_FOUND_BL31 :: u32 where "FIP_FOUND_BL31 \<equiv> 2"
abbreviation (input) FIP_FOUND_BL33 :: u32 where "FIP_FOUND_BL33 \<equiv> 4"
abbreviation (input) FIP_FOUND_HW_CONFIG :: u32 where "FIP_FOUND_HW_CONFIG \<equiv> 8"
abbreviation (input) FIP_FOUND_REQUIRED :: u32 where "FIP_FOUND_REQUIRED \<equiv> 7"

definition scp_bl2_uuid :: "u8 list" where
  "scp_bl2_uuid = [0x97, 0x66, 0xfd, 0x3d, 0x89, 0xbe, 0xe8, 0x49,
                   0xae, 0x5d, 0x78, 0xa1, 0x40, 0x60, 0x82, 0x13]"

definition bl31_uuid :: "u8 list" where
  "bl31_uuid = [0x47, 0xd4, 0x08, 0x6d, 0x4c, 0xfe, 0x98, 0x46,
                0x9b, 0x95, 0x29, 0x50, 0xcb, 0xbd, 0x5a, 0x00]"

definition bl33_uuid :: "u8 list" where
  "bl33_uuid = [0xd6, 0xd0, 0xee, 0xa7, 0xfc, 0xea, 0xd5, 0x4b,
                0x97, 0x82, 0x99, 0x34, 0xf2, 0x34, 0xb6, 0xe4]"

definition hw_config_uuid :: "u8 list" where
  "hw_config_uuid = [0x08, 0xb8, 0xf1, 0xd9, 0xc9, 0xcf, 0x93, 0x49,
                     0xa9, 0x62, 0x6f, 0xbc, 0x6b, 0x72, 0x65, 0xcc]"

section \<open>Byte decoders\<close>

definition get_le32 :: "buf \<Rightarrow> nat \<Rightarrow> u32 option" where
  "get_le32 b p = do {
     b0 \<leftarrow> b p; b1 \<leftarrow> b (p + 1); b2 \<leftarrow> b (p + 2); b3 \<leftarrow> b (p + 3);
     Some (ucast b0 OR push_bit 8 (ucast b1) OR push_bit 16 (ucast b2) OR push_bit 24 (ucast b3))
   }"

function get_le64_loop :: "buf \<Rightarrow> nat \<Rightarrow> nat \<Rightarrow> u64 \<Rightarrow> u64 option" where
  "get_le64_loop b p i value =
     (if i < 8 then
        (case b (p + i) of None \<Rightarrow> None
         | Some x \<Rightarrow> get_le64_loop b p (i + 1) (value OR push_bit (i * 8) (ucast x)))
      else Some value)"
  by pat_completeness auto
termination
  by (relation "measure (\<lambda>(b, p, i, value). 8 - i)") auto

declare get_le64_loop.simps [simp del]

definition get_le64 :: "buf \<Rightarrow> nat \<Rightarrow> u64 option" where
  "get_le64 b p = get_le64_loop b p 0 0"

definition get_be32 :: "buf \<Rightarrow> nat \<Rightarrow> u32 option" where
  "get_be32 b p = do {
     b0 \<leftarrow> b p; b1 \<leftarrow> b (p + 1); b2 \<leftarrow> b (p + 2); b3 \<leftarrow> b (p + 3);
     Some (push_bit 24 (ucast b0) OR push_bit 16 (ucast b1) OR push_bit 8 (ucast b2) OR ucast b3)
   }"

text \<open>The comparison loops stop at the first difference, so bytes after it are not read.\<close>

function bytes_equal_loop :: "buf \<Rightarrow> nat \<Rightarrow> buf \<Rightarrow> nat \<Rightarrow> nat \<Rightarrow> nat \<Rightarrow> bool option" where
  "bytes_equal_loop l lp r rp i n =
     (if i < n then
        (case (l (lp + i), r (rp + i)) of
           (Some x, Some y) \<Rightarrow> if x \<noteq> y then Some False else bytes_equal_loop l lp r rp (i + 1) n
         | _ \<Rightarrow> None)
      else Some True)"
  by pat_completeness auto
termination
  by (relation "measure (\<lambda>(l, lp, r, rp, i, n). n - i)") auto

declare bytes_equal_loop.simps [simp del]

definition bytes_equal :: "buf \<Rightarrow> nat \<Rightarrow> buf \<Rightarrow> nat \<Rightarrow> nat \<Rightarrow> bool option" where
  "bytes_equal l lp r rp n = bytes_equal_loop l lp r rp 0 n"

definition uuid_equal :: "buf \<Rightarrow> nat \<Rightarrow> buf \<Rightarrow> nat \<Rightarrow> bool option" where
  "uuid_equal l lp r rp = bytes_equal_loop l lp r rp 0 16"

definition uuid_is_null :: "buf \<Rightarrow> nat \<Rightarrow> bool option" where
  "uuid_is_null b p = uuid_equal b p (buf_of_list (replicate 16 0)) 0"

section \<open>Payload validators\<close>

definition scp_bl2_is_valid :: "buf \<Rightarrow> sunxi_fip_image \<Rightarrow> bool option" where
  "scp_bl2_is_valid bytes img =
     (if img_offset img AND 3 \<noteq> 0 \<or> img_size img < 64 then Some False
      else let entry = unat (img_offset img) in
        allM [map_option (\<lambda>v. v = 0x30047073) (get_le32 bytes entry),
              map_option (\<lambda>v. v = 0x070902b7) (get_le32 bytes (entry + 4)),
              map_option (\<lambda>v. v = 0x11c28293) (get_le32 bytes (entry + 8)),
              map_option (\<lambda>v. v = 0xe9020337) (get_le32 bytes (entry + 12)),
              map_option (\<lambda>v. v = 0xa0230305) (get_le32 bytes (entry + 16)),
              map_option (\<lambda>v. v = 0x40810062) (get_le32 bytes (entry + 20))])"

text \<open>The bytes of \<open>monitor_magic\<close>: the letters of "monitor" and a terminating zero.\<close>

definition monitor_magic :: "u8 list" where
  "monitor_magic = [0x6d, 0x6f, 0x6e, 0x69, 0x74, 0x6f, 0x72, 0]"

definition bl31_is_valid :: "buf \<Rightarrow> sunxi_fip_image \<Rightarrow> bool option" where
  "bl31_is_valid bytes img =
     (if img_size img < 0x1004 then Some False
      else let monitor = unat (img_offset img) in do {
        code_entry \<leftarrow> get_le32 bytes (monitor + 0x1000);
        allM [map_option (\<lambda>v. v = 0xea0003fe) (get_le32 bytes monitor),
              bytes_equal bytes (monitor + 4) (buf_of_list monitor_magic) 0 8,
              map_option (\<lambda>v. v = SUNXI_FIP_BL31_BASE) (get_le32 bytes (monitor + 0x2c)),
              Some (code_entry \<noteq> 0), Some (code_entry \<noteq> 0xffffffff)]
      })"

text \<open>
  The signed arithmetic of \<open>bl33_is_valid\<close> stays far inside 64 bits, so it is done on
  integers: the 24-bit immediate is sign extended, scaled by 4 and moved by the pipeline
  offset of 8.
\<close>

definition bl33_is_valid :: "buf \<Rightarrow> sunxi_fip_image \<Rightarrow> bool option" where
  "bl33_is_valid bytes img =
     (if img_size img < 64 then Some False
      else do {
        instruction \<leftarrow> get_le32 bytes (unat (img_offset img));
        if instruction AND 0xff000000 \<noteq> 0xea000000 then Some False
        else let imm0 = instruction AND 0x00ffffff;
                 immediate = (if imm0 AND 0x00800000 \<noteq> 0 then uint imm0 - 0x01000000
                              else uint imm0);
                 target = 8 + immediate * 4
             in Some (target \<ge> 0 \<and> target + 4 \<le> uint (img_size img))
      })"

definition layout_is_loadable :: "buf \<Rightarrow> sunxi_fip_layout \<Rightarrow> bool option" where
  "layout_is_loadable bytes layout =
     allM [Some (img_size (bl31 layout) \<le> SUNXI_FIP_BL31_MAX_SIZE),
           Some (img_size (bl33 layout) \<le> SUNXI_FIP_BL33_MAX_SIZE),
           Some (img_size (scp_bl2 layout) \<le> SUNXI_FIP_SCP_BL2_MAX_SIZE),
           Some (img_size (hw_config layout) \<le> SUNXI_FIP_HW_CONFIG_MAX_SIZE),
           scp_bl2_is_valid bytes (scp_bl2 layout),
           bl31_is_valid bytes (bl31 layout),
           bl33_is_valid bytes (bl33 layout)]"

text \<open>
  The device tree starts at index \<open>fdt\<close> of the package; the pointer is derived from the
  non-null package pointer, so its null test never fires.
\<close>

definition hw_config_is_valid :: "buf \<Rightarrow> nat \<Rightarrow> u32 \<Rightarrow> bool option" where
  "hw_config_is_valid bytes fdt image_size =
     (if image_size < 40 then Some False
      else do {
        magic \<leftarrow> get_be32 bytes fdt;
        if magic \<noteq> 0xd00dfeed then Some False
        else do {
          total_size \<leftarrow> get_be32 bytes (fdt + 4);
          struct_offset \<leftarrow> get_be32 bytes (fdt + 8);
          strings_offset \<leftarrow> get_be32 bytes (fdt + 12);
          reserve_offset \<leftarrow> get_be32 bytes (fdt + 16);
          version \<leftarrow> get_be32 bytes (fdt + 20);
          last_compatible_version \<leftarrow> get_be32 bytes (fdt + 24);
          strings_size \<leftarrow> get_be32 bytes (fdt + 32);
          struct_size \<leftarrow> get_be32 bytes (fdt + 36);
          Some (total_size = image_size \<and> total_size \<ge> 40 \<and>
                version \<ge> 16 \<and> version \<le> 17 \<and> last_compatible_version \<le> 17 \<and>
                reserve_offset \<ge> 40 \<and> reserve_offset AND 7 = 0 \<and>
                reserve_offset \<le> total_size - 16 \<and>
                struct_offset \<ge> 40 \<and> struct_offset \<le> total_size \<and>
                struct_size \<le> total_size - struct_offset \<and>
                strings_offset \<ge> 40 \<and> strings_offset \<le> total_size \<and>
                strings_size \<le> total_size - strings_offset)
        }
      })"

section \<open>Table-of-contents entries\<close>

definition set_image :: "buf \<Rightarrow> nat \<Rightarrow> sunxi_fip_image option" where
  "set_image bytes entry = do {
     off \<leftarrow> get_le64 bytes (entry + 16);
     sz \<leftarrow> get_le64 bytes (entry + 24);
     Some \<lparr>img_offset = ucast off, img_size = ucast sz\<rparr>
   }"

definition entry_in_buffer :: "buf \<Rightarrow> nat \<Rightarrow> u32 \<Rightarrow> bool option" where
  "entry_in_buffer bytes entry image_size = do {
     off \<leftarrow> get_le64 bytes (entry + 16);
     sz \<leftarrow> get_le64 bytes (entry + 24);
     let buffer_size = (ucast image_size :: u64) in
     Some (sz \<noteq> 0 \<and> off \<le> buffer_size \<and> sz \<le> buffer_size - off)
   }"

text \<open>Address of entry \<open>i\<close> of the table.\<close>

abbreviation toc_pos :: "nat \<Rightarrow> nat" where
  "toc_pos i \<equiv> 16 + i * 40"

function entry_overlaps_loop :: "buf \<Rightarrow> u64 \<Rightarrow> u64 \<Rightarrow> nat \<Rightarrow> nat \<Rightarrow> bool option" where
  "entry_overlaps_loop bytes off end i entry_count =
     (if i < entry_count then
        (case (get_le64 bytes (toc_pos i + 16), get_le64 bytes (toc_pos i + 24)) of
           (Some previous_offset, Some previous_size) \<Rightarrow>
             if off < previous_offset + previous_size \<and> previous_offset < end then Some True
             else entry_overlaps_loop bytes off end (i + 1) entry_count
         | _ \<Rightarrow> None)
      else Some False)"
  by pat_completeness auto
termination
  by (relation "measure (\<lambda>(bytes, off, end, i, n). n - i)") auto

declare entry_overlaps_loop.simps [simp del]

definition entry_overlaps_previous :: "buf \<Rightarrow> nat \<Rightarrow> nat \<Rightarrow> bool option" where
  "entry_overlaps_previous bytes entry entry_count = do {
     off \<leftarrow> get_le64 bytes (entry + 16);
     sz \<leftarrow> get_le64 bytes (entry + 24);
     entry_overlaps_loop bytes off (off + sz) 0 entry_count
   }"

function entry_uuid_seen_loop :: "buf \<Rightarrow> nat \<Rightarrow> nat \<Rightarrow> nat \<Rightarrow> bool option" where
  "entry_uuid_seen_loop bytes entry i entry_count =
     (if i < entry_count then
        (case uuid_equal bytes (toc_pos i) bytes entry of None \<Rightarrow> None
         | Some same \<Rightarrow> if same then Some True
                        else entry_uuid_seen_loop bytes entry (i + 1) entry_count)
      else Some False)"
  by pat_completeness auto
termination
  by (relation "measure (\<lambda>(bytes, entry, i, n). n - i)") auto

declare entry_uuid_seen_loop.simps [simp del]

definition entry_uuid_seen :: "buf \<Rightarrow> nat \<Rightarrow> nat \<Rightarrow> bool option" where
  "entry_uuid_seen bytes entry entry_count = entry_uuid_seen_loop bytes entry 0 entry_count"

section \<open>The parser\<close>

text \<open>
  The variables the parsing loop carries from entry to entry, the caller's layout included:
  on a failure the C function has already written to it.
\<close>

record parse_state =
  found :: u32
  payload_start :: u64
  payload_end :: u64
  layout :: sunxi_fip_layout

definition zero_image :: sunxi_fip_image where
  "zero_image = \<lparr>img_offset = 0, img_size = 0\<rparr>"

definition zero_layout :: sunxi_fip_layout where
  "zero_layout = \<lparr>scp_bl2 = zero_image, bl31 = zero_image, bl33 = zero_image,
                  hw_config = zero_image\<rparr>"

definition parse_init :: parse_state where
  "parse_init = \<lparr>found = 0, payload_start = NOT 0, payload_end = 0, layout = zero_layout\<rparr>"

text \<open>The branch for the all-zero UUID that ends the table: the code returned.\<close>

definition fip_parse_terminator :: "buf \<Rightarrow> u32 \<Rightarrow> u32 \<Rightarrow> parse_state \<Rightarrow> int option" where
  "fip_parse_terminator bytes image_size entry_offset st = (
     let entry = unat entry_offset;
         metadata_end = (ucast (entry_offset + FIP_ENTRY_SIZE) :: u64) in do {
     fip_size \<leftarrow> get_le64 bytes (entry + 16);
     bad \<leftarrow> anyM [map_option (\<lambda>v. v \<noteq> 0) (get_le64 bytes (entry + 24)),
                  map_option (\<lambda>v. v \<noteq> 0) (get_le64 bytes (entry + 32)),
                  Some (fip_size > ucast image_size), Some (fip_size < metadata_end),
                  Some (payload_start st < metadata_end), Some (payload_end st > fip_size)];
     if bad then Some (-1)
     else if found st AND FIP_FOUND_REQUIRED \<noteq> FIP_FOUND_REQUIRED then Some (-1)
     else do {
       fdt_ok \<leftarrow> (if found st AND FIP_FOUND_HW_CONFIG \<noteq> 0
                  then hw_config_is_valid bytes (unat (img_offset (hw_config (layout st))))
                         (img_size (hw_config (layout st)))
                  else Some True);
       if \<not> fdt_ok then Some (-1)
       else do {
         loadable \<leftarrow> layout_is_loadable bytes (layout st);
         if \<not> loadable then Some (-1) else Some 0
       }
     }
   })"

text \<open>Recording a payload entry: the window of all payloads and the image it describes.\<close>

definition fip_note_entry :: "buf \<Rightarrow> nat \<Rightarrow> parse_state \<Rightarrow> parse_state option" where
  "fip_note_entry bytes entry st = do {
     off \<leftarrow> get_le64 bytes (entry + 16);
     sz \<leftarrow> get_le64 bytes (entry + 24);
     let st = (if off < payload_start st then st\<lparr>payload_start := off\<rparr> else st);
     let st = (if off + sz > payload_end st then st\<lparr>payload_end := off + sz\<rparr> else st);
     is_scp \<leftarrow> uuid_equal bytes entry (buf_of_list scp_bl2_uuid) 0;
     if is_scp then do {
       img \<leftarrow> set_image bytes entry;
       Some (st\<lparr>layout := (layout st)\<lparr>scp_bl2 := img\<rparr>, found := found st OR FIP_FOUND_SCP_BL2\<rparr>)
     } else do {
     is_bl31 \<leftarrow> uuid_equal bytes entry (buf_of_list bl31_uuid) 0;
     if is_bl31 then do {
       img \<leftarrow> set_image bytes entry;
       Some (st\<lparr>layout := (layout st)\<lparr>bl31 := img\<rparr>, found := found st OR FIP_FOUND_BL31\<rparr>)
     } else do {
     is_bl33 \<leftarrow> uuid_equal bytes entry (buf_of_list bl33_uuid) 0;
     if is_bl33 then do {
       img \<leftarrow> set_image bytes entry;
       Some (st\<lparr>layout := (layout st)\<lparr>bl33 := img\<rparr>, found := found st OR FIP_FOUND_BL33\<rparr>)
     } else do {
     is_hw \<leftarrow> uuid_equal bytes entry (buf_of_list hw_config_uuid) 0;
     if is_hw then do {
       img \<leftarrow> set_image bytes entry;
       Some (st\<lparr>layout := (layout st)\<lparr>hw_config := img\<rparr>, found := found st OR FIP_FOUND_HW_CONFIG\<rparr>)
     } else Some st }}}
   }"

text \<open>The checks a payload entry has to pass before it is recorded.\<close>

definition fip_entry_rejected :: "buf \<Rightarrow> u32 \<Rightarrow> nat \<Rightarrow> nat \<Rightarrow> bool option" where
  "fip_entry_rejected bytes image_size entry entry_count =
     anyM [entry_uuid_seen bytes entry entry_count,
           map_option Not (entry_in_buffer bytes entry image_size),
           entry_overlaps_previous bytes entry entry_count]"

function sunxi_fip_parse_loop ::
  "buf \<Rightarrow> u32 \<Rightarrow> nat \<Rightarrow> u32 \<Rightarrow> parse_state \<Rightarrow> (int \<times> sunxi_fip_layout) option" where
  "sunxi_fip_parse_loop bytes image_size entry_count entry_offset st =
     (if entry_count < FIP_MAX_TOC_ENTRIES then
        if entry_offset > image_size \<or> image_size - entry_offset < FIP_ENTRY_SIZE
        then Some (-1, layout st)
        else (case uuid_is_null bytes (unat entry_offset) of None \<Rightarrow> None
          | Some True \<Rightarrow>
              map_option (\<lambda>r. (r, layout st))
                (fip_parse_terminator bytes image_size entry_offset st)
          | Some False \<Rightarrow>
             (case fip_entry_rejected bytes image_size (unat entry_offset) entry_count of
                None \<Rightarrow> None
              | Some True \<Rightarrow> Some (-1, layout st)
              | Some False \<Rightarrow>
                 (case fip_note_entry bytes (unat entry_offset) st of None \<Rightarrow> None
                  | Some st' \<Rightarrow>
                     sunxi_fip_parse_loop bytes image_size (entry_count + 1)
                       (entry_offset + FIP_ENTRY_SIZE) st')))
      else Some (-1, layout st))"
  by pat_completeness auto
termination
  by (relation "measure (\<lambda>(bytes, image_size, n, off, st). FIP_MAX_TOC_ENTRIES - n)") auto

declare sunxi_fip_parse_loop.simps [simp del]

text \<open>
  \<open>image\<close> and \<open>layout\<close> are pointers, \<open>None\<close> is NULL. The result is the return code with the
  layout as the function leaves it.
\<close>

definition sunxi_fip_parse ::
  "buf option \<Rightarrow> u32 \<Rightarrow> sunxi_fip_layout option \<Rightarrow> (int \<times> sunxi_fip_layout option) option" where
  "sunxi_fip_parse img image_size lay =
     (case (img, lay) of
        (Some bytes, Some layout0) \<Rightarrow>
          if image_size < FIP_HEADER_SIZE \<or> image_size > SUNXI_FIP_MAX_SIZE
          then Some (-1, lay)
          else do {
            bad_header \<leftarrow> anyM [map_option (\<lambda>v. v \<noteq> FIP_TOC_HEADER_NAME) (get_le32 bytes 0),
                               map_option (\<lambda>v. v \<noteq> FIP_TOC_SERIAL_NUMBER) (get_le32 bytes 4)];
            if bad_header then Some (-1, lay)
            else do {
              (r, l) \<leftarrow> sunxi_fip_parse_loop bytes image_size 0 FIP_HEADER_SIZE parse_init;
              Some (r, Some l)
            }
          }
      | _ \<Rightarrow> Some (-1, lay))"

section \<open>Copying the images and reading the package\<close>

text \<open>
  The callbacks act on a world \<open>'w\<close>. A copy callback gets the destination address, the index
  of the source in the package and the size; a read callback gets the first sector and the
  number of sectors and fills the staging buffer, which a view \<open>'w \<Rightarrow> buf\<close> shows. The result
  \<open>None\<close> is an out-of-range access of the caller.
\<close>

type_synonym 'w copy_fn = "u32 \<Rightarrow> nat \<Rightarrow> u32 \<Rightarrow> ('w, int) state"
type_synonym 'w read_fn = "u32 \<Rightarrow> u32 \<Rightarrow> ('w, int) state"

definition copy_parsed :: "'w copy_fn \<Rightarrow> sunxi_fip_layout \<Rightarrow> ('w, int) state" where
  "copy_parsed copy lay = do {
     r \<leftarrow> copy SUNXI_FIP_BL31_BASE (unat (img_offset (bl31 lay))) (img_size (bl31 lay));
     if r \<noteq> 0 then ret (-1) else do {
     r \<leftarrow> copy SUNXI_FIP_BL33_BASE (unat (img_offset (bl33 lay))) (img_size (bl33 lay));
     if r \<noteq> 0 then ret (-1) else do {
     r \<leftarrow> (if img_size (hw_config lay) \<noteq> 0
          then copy SUNXI_FIP_HW_CONFIG_BASE (unat (img_offset (hw_config lay)))
                 (img_size (hw_config lay))
          else ret 0);
     if r \<noteq> 0 then ret (-1) else do {
     r \<leftarrow> copy SUNXI_FIP_SCP_BL2_BASE (unat (img_offset (scp_bl2 lay))) (img_size (scp_bl2 lay));
     if r \<noteq> 0 then ret (-1) else ret 0 }}}
   }"

definition sunxi_fip_copy_images ::
  "buf option \<Rightarrow> u32 \<Rightarrow> 'w copy_fn option \<Rightarrow> ('w, int option) state" where
  "sunxi_fip_copy_images img image_size copy =
     (case copy of None \<Rightarrow> ret (Some (-1))
      | Some cp \<Rightarrow>
         (case sunxi_fip_parse img image_size (Some zero_layout) of
            None \<Rightarrow> ret None
          | Some (r, lay) \<Rightarrow>
              if r \<noteq> 0 then ret (Some (-1))
              else (case lay of None \<Rightarrow> ret None
                    | Some l \<Rightarrow> do { r \<leftarrow> copy_parsed cp l; ret (Some r) })))"

text \<open>
  \<open>Some (Some n)\<close> is the return value 0 with \<open>*fip_size = n\<close>, \<open>Some None\<close> the return value -1.
\<close>

function fip_size_loop :: "buf \<Rightarrow> u32 \<Rightarrow> u32 \<Rightarrow> nat \<Rightarrow> u32 \<Rightarrow> u32 option option" where
  "fip_size_loop bytes metadata_size capacity entry_count entry_offset =
     (if entry_count < FIP_MAX_TOC_ENTRIES then
        if entry_offset > metadata_size \<or> metadata_size - entry_offset < FIP_ENTRY_SIZE
        then Some None
        else (case uuid_is_null bytes (unat entry_offset) of None \<Rightarrow> None
          | Some False \<Rightarrow>
              fip_size_loop bytes metadata_size capacity (entry_count + 1)
                (entry_offset + FIP_ENTRY_SIZE)
          | Some True \<Rightarrow> let entry = unat entry_offset in do {
              declared_size \<leftarrow> get_le64 bytes (entry + 16);
              let rounded_size = (declared_size + 511) AND NOT 511;
              bad \<leftarrow> anyM [map_option (\<lambda>v. v \<noteq> 0) (get_le64 bytes (entry + 24)),
                           map_option (\<lambda>v. v \<noteq> 0) (get_le64 bytes (entry + 32)),
                           Some (declared_size < ucast (entry_offset + FIP_ENTRY_SIZE)),
                           Some (declared_size > ucast SUNXI_FIP_MAX_SIZE),
                           Some (rounded_size < declared_size),
                           Some (rounded_size > ucast capacity)];
              if bad then Some None else Some (Some (ucast declared_size))
            })
      else Some None)"
  by pat_completeness auto
termination
  by (relation "measure (\<lambda>(bytes, ms, cap, n, off). FIP_MAX_TOC_ENTRIES - n)") auto

declare fip_size_loop.simps [simp del]

definition get_fip_size_from_toc :: "buf \<Rightarrow> u32 \<Rightarrow> u32 \<Rightarrow> u32 option option" where
  "get_fip_size_from_toc bytes metadata_size capacity = do {
     bad_header \<leftarrow> anyM [map_option (\<lambda>v. v \<noteq> FIP_TOC_HEADER_NAME) (get_le32 bytes 0),
                        map_option (\<lambda>v. v \<noteq> FIP_TOC_SERIAL_NUMBER) (get_le32 bytes 4)];
     if bad_header then Some None
     else fip_size_loop bytes metadata_size capacity 0 FIP_HEADER_SIZE
   }"

text \<open>
  The result is the return code and the value left in \<open>*fip_size\<close>; \<open>None\<close> for the pointer
  is NULL.
\<close>

definition sunxi_fip_read_image ::
  "u32 \<Rightarrow> ('w \<Rightarrow> buf) option \<Rightarrow> u32 \<Rightarrow> 'w read_fn option \<Rightarrow> u32 option
     \<Rightarrow> ('w, (int \<times> u32 option) option) state" where
  "sunxi_fip_read_image start_sector buffer capacity read fip_size =
     (case fip_size of None \<Rightarrow> ret (Some (-1, None))
      | Some _ \<Rightarrow>
     (case (buffer, read) of
        (Some view, Some rd) \<Rightarrow>
          if capacity < FIP_METADATA_SIZE then ret (Some (-1, Some 0))
          else do {
            r \<leftarrow> rd start_sector FIP_TOC_SECTORS;
            if r \<noteq> 1 then ret (Some (-1, Some 0)) else do {
            w \<leftarrow> State_Monad.get;
            case get_fip_size_from_toc (view w) FIP_METADATA_SIZE capacity of
              None \<Rightarrow> ret None
            | Some None \<Rightarrow> ret (Some (-1, Some 0))
            | Some (Some declared_size) \<Rightarrow>
                let sector_count = (declared_size + FIP_SECTOR_SIZE - 1) div FIP_SECTOR_SIZE in do {
                r \<leftarrow> rd start_sector sector_count;
                if r \<noteq> 1 then ret (Some (-1, Some 0)) else do {
                w \<leftarrow> State_Monad.get;
                case sunxi_fip_parse (Some (view w)) declared_size (Some zero_layout) of
                  None \<Rightarrow> ret None
                | Some (r, _) \<Rightarrow>
                    if r \<noteq> 0 then ret (Some (-1, Some 0))
                    else ret (Some (0, Some declared_size)) }}}
          }
      | _ \<Rightarrow> ret (Some (-1, Some 0))))"

text \<open>The result is the return code with the values left in \<open>*fip_size\<close> and \<open>*used_sector\<close>.\<close>

definition sunxi_fip_read_redundant ::
  "u32 \<Rightarrow> u32 \<Rightarrow> ('w \<Rightarrow> buf) option \<Rightarrow> u32 \<Rightarrow> 'w read_fn option \<Rightarrow> u32 option \<Rightarrow> u32 option
     \<Rightarrow> ('w, (int \<times> u32 option \<times> u32 option) option) state" where
  "sunxi_fip_read_redundant primary_sector backup_sector buffer capacity read fip_size used_sector =
     (case (fip_size, used_sector) of
        (Some _, Some _) \<Rightarrow> do {
          r \<leftarrow> sunxi_fip_read_image primary_sector buffer capacity read (Some 0);
          case r of None \<Rightarrow> ret None
          | Some (rc, n) \<Rightarrow>
              if rc = 0 then ret (Some (0, n, Some primary_sector))
              else if backup_sector = 0 \<or> backup_sector = primary_sector
              then ret (Some (-1, n, Some 0))
              else do {
                r \<leftarrow> sunxi_fip_read_image backup_sector buffer capacity read n;
                case r of None \<Rightarrow> ret None
                | Some (rc, n) \<Rightarrow>
                    if rc \<noteq> 0 then ret (Some (-1, n, Some 0))
                    else ret (Some (0, n, Some backup_sector))
              }
        }
      | _ \<Rightarrow> ret (Some (-1, fip_size, used_sector)))"

definition sunxi_fip_load_redundant ::
  "u32 \<Rightarrow> u32 \<Rightarrow> ('w \<Rightarrow> buf) option \<Rightarrow> u32 \<Rightarrow> 'w read_fn option \<Rightarrow> 'w copy_fn option
     \<Rightarrow> u32 option \<Rightarrow> u32 option \<Rightarrow> ('w, (int \<times> u32 option \<times> u32 option) option) state" where
  "sunxi_fip_load_redundant primary_sector backup_sector buffer capacity read copy
       fip_size used_sector = do {
     r \<leftarrow> sunxi_fip_read_redundant primary_sector backup_sector buffer capacity read
            fip_size used_sector;
     case r of None \<Rightarrow> ret None
     | Some (rc, n, u) \<Rightarrow>
         if rc \<noteq> 0 then ret (Some (-1, n, u))
         else do {
           w \<leftarrow> State_Monad.get;
           c \<leftarrow> sunxi_fip_copy_images (map_option (\<lambda>view. view w) buffer)
                  (case n of Some k \<Rightarrow> k | None \<Rightarrow> 0) copy;
           case c of None \<Rightarrow> ret None
           | Some c \<Rightarrow> if c \<noteq> 0 then ret (Some (-1, Some 0, Some 0)) else ret (Some (0, n, u))
         }
   }"

end
