(* ===== verification/Fip_Toc.thy ===== *)
theory Fip_Toc
  imports Fip
begin

text \<open>
  The table of contents as a mathematical object: what the byte decoders of the FIP loader
  compute, the entries a package describes as natural numbers (no wrap-around), and the
  meaning of the per-entry checks of \<^verbatim>\<open>sunxi_fip.c\<close> over them.
\<close>

unbundle bit_operations_syntax

section \<open>The decoders\<close>

text \<open>The number written little-endian in \<open>n\<close> bytes at \<open>p\<close>.\<close>

definition le_nat :: "buf \<Rightarrow> nat \<Rightarrow> nat \<Rightarrow> nat" where
  "le_nat b p n = (\<Sum>k<n. unat (the (b (p + k))) * 256 ^ k)"

lemma le_nat_Suc: "le_nat b p (Suc n) = le_nat b p n + unat (the (b (p + n))) * 256 ^ n"
  by (simp add: le_nat_def)

lemma le_nat_bound: "le_nat b p n < 256 ^ n"
proof (induction n)
  case (Suc n)
  have "unat (the (b (p + n))) \<le> 255"
    using unat_u8_lt [of "the (b (p + n))"] by linarith
  then have "unat (the (b (p + n))) * 256 ^ n \<le> 255 * 256 ^ n"
    by (rule mult_le_mono1)
  with Suc show ?case unfolding le_nat_Suc power_Suc by linarith
qed (simp add: le_nat_def)

lemma unat_push_bit_u8:
  fixes x :: u8
  assumes "i < 8"
  shows "unat (push_bit (i * 8) (ucast x) :: u64) = unat x * 256 ^ i"
proof -
  have "unat x < 2 ^ 8" by simp
  moreover have "(2::nat) ^ 8 * 2 ^ (i * 8) \<le> 2 ^ 64"
    unfolding power_add [symmetric] by (rule power_increasing) (use assms in auto)
  ultimately have "unat x * 2 ^ (i * 8) < 2 ^ 64"
    by (meson less_le_trans mult_less_mono1 zero_less_numeral zero_less_power)
  moreover have "unat (ucast x :: u64) = unat x"
    by (simp add: unsigned_ucast_eq take_bit_nat_eq_self order_less_trans [OF unat_u8_lt])
  moreover have "unat (push_bit (i * 8) (ucast x) :: u64) =
      take_bit 64 (push_bit (i * 8) (unat (ucast x :: u64)))"
    by (simp add: unsigned_push_bit_eq)
  ultimately show ?thesis
    by (simp add: take_bit_eq_mod push_bit_nat_def mult.commute [of i 8] power_mult)
qed

lemma get_le64_loop_eq:
  assumes "readable b (p + 8)"
  shows "i \<le> 8 \<Longrightarrow> unat v = le_nat b p i \<Longrightarrow>
    \<exists>w. get_le64_loop b p i v = Some w \<and> unat w = le_nat b p 8"
proof (induction "8 - i" arbitrary: i v)
  case 0
  then show ?case by (simp add: get_le64_loop.simps)
next
  case (Suc d)
  then have i: "i < 8" by simp
  obtain x where x: "b (p + i) = Some x"
    using readableD [OF assms, of "p + i"] i by auto
  let ?v = "v OR push_bit (i * 8) (ucast x)"
  have small: "unat v < 2 ^ (i * 8)"
    using le_nat_bound [of b p i] Suc.prems by (simp add: mult.commute [of i 8] power_mult)
  have v: "unat (push_bit (i * 8) (ucast x) :: u64) = unat x * 256 ^ i"
    using i by (rule unat_push_bit_u8)
  have S: "le_nat b p (Suc i) = unat v + unat x * 256 ^ i"
    using Suc.prems x by (simp add: le_nat_Suc)
  have "le_nat b p (Suc i) < 256 ^ Suc i" by (rule le_nat_bound)
  also have "(256::nat) ^ Suc i \<le> 256 ^ 8" using i by (intro power_increasing) auto
  finally have "unat v + unat x * 256 ^ i < 2 ^ 64" using S by simp
  then have "unat ?v = le_nat b p (Suc i)"
    using small S v by (simp add: word_or_push_bit unat_word_ariths)
  moreover have "d = 8 - Suc i" and "Suc i \<le> 8" using Suc.hyps(2) i by auto
  ultimately obtain w where "get_le64_loop b p (Suc i) ?v = Some w \<and> unat w = le_nat b p 8"
    using Suc.hyps(1) [of "Suc i" ?v] by auto
  then show ?case using i x by (simp add: get_le64_loop.simps [of b p i])
qed

lemma get_le64_eq:
  assumes "readable b (p + 8)"
  obtains w where "get_le64 b p = Some w" and "unat w = le_nat b p 8"
  using get_le64_loop_eq [OF assms, of 0 0] by (auto simp: get_le64_def le_nat_def)

text \<open>The decoded value where the bytes are there.\<close>

definition le64 :: "buf \<Rightarrow> nat \<Rightarrow> u64" where "le64 b p = the (get_le64 b p)"
definition le32 :: "buf \<Rightarrow> nat \<Rightarrow> u32" where "le32 b p = the (get_le32 b p)"
definition be32 :: "buf \<Rightarrow> nat \<Rightarrow> u32" where "be32 b p = the (get_be32 b p)"

lemma get_le64_readable: "readable b n \<Longrightarrow> p + 8 \<le> n \<Longrightarrow> get_le64 b p = Some (le64 b p)"
  by (metis get_le64_eq le64_def option.sel readable_mono)

lemma get_le32_readable:
  assumes "readable b n" and "p + 4 \<le> n"
  shows "get_le32 b p = Some (le32 b p)"
proof -
  obtain b0 b1 b2 b3 where "b p = Some b0" "b (p + 1) = Some b1" "b (p + 2) = Some b2"
    "b (p + 3) = Some b3"
    using assms by (fastforce simp: readable_def)
  then show ?thesis by (simp add: get_le32_def le32_def)
qed

lemma get_be32_readable:
  assumes "readable b n" and "p + 4 \<le> n"
  shows "get_be32 b p = Some (be32 b p)"
proof -
  obtain b0 b1 b2 b3 where "b p = Some b0" "b (p + 1) = Some b1" "b (p + 2) = Some b2"
    "b (p + 3) = Some b3"
    using assms by (fastforce simp: readable_def)
  then show ?thesis by (simp add: get_be32_def be32_def)
qed

lemmas decode_readable = get_le64_readable get_le32_readable get_be32_readable

section \<open>Comparisons\<close>

text \<open>The \<open>n\<close> bytes at \<open>p\<close>.\<close>

definition bytes_at :: "buf \<Rightarrow> nat \<Rightarrow> nat \<Rightarrow> u8 list" where
  "bytes_at b p n = map (\<lambda>k. the (b (p + k))) [0..<n]"

lemma length_bytes_at [simp]: "length (bytes_at b p n) = n"
  by (simp add: bytes_at_def)

lemma bytes_at_eq_iff:
  "bytes_at l lp n = bytes_at r rp n \<longleftrightarrow> (\<forall>k<n. the (l (lp + k)) = the (r (rp + k)))"
  by (auto simp: bytes_at_def)

lemma bytes_at_buf_of_list [simp]: "length xs = n \<Longrightarrow> bytes_at (buf_of_list xs) 0 n = xs"
  by (auto simp: bytes_at_def buf_of_list_def intro: nth_equalityI)

lemma bytes_equal_loop_eq:
  assumes "readable l (lp + n)" and "readable r (rp + n)"
  shows "bytes_equal_loop l lp r rp i n =
    Some (\<forall>k<n. i \<le> k \<longrightarrow> the (l (lp + k)) = the (r (rp + k)))"
  using assms
proof (induction l lp r rp i n rule: bytes_equal_loop.induct)
  case (1 l lp r rp i n)
  show ?case
  proof (cases "i < n")
    case True
    then obtain x y where xy: "l (lp + i) = Some x" "r (rp + i) = Some y"
      using readableD [OF "1.prems"(1), of "lp + i"] readableD [OF "1.prems"(2), of "rp + i"]
      by auto
    have split: "(\<forall>k<n. i \<le> k \<longrightarrow> P k) \<longleftrightarrow> P i \<and> (\<forall>k<n. Suc i \<le> k \<longrightarrow> P k)" for P
      using True by (metis Suc_leD Suc_leI le_neq_implies_less order_refl)
    show ?thesis
    proof (cases "x = y")
      case True
      then show ?thesis
        using "1.IH" [OF \<open>i < n\<close> refl xy] "1.prems" xy \<open>i < n\<close>
        by (subst split) (simp add: bytes_equal_loop.simps [of l lp r rp i n])
    next
      case False
      then show ?thesis
        using xy \<open>i < n\<close> by (subst split) (simp add: bytes_equal_loop.simps [of l lp r rp i n])
    qed
  next
    case False
    then show ?thesis by (simp add: bytes_equal_loop.simps [of l lp r rp i n])
  qed
qed

lemma bytes_equal_readable:
  assumes "readable l (lp + n)" and "readable r (rp + n)"
  shows "bytes_equal l lp r rp n = Some (bytes_at l lp n = bytes_at r rp n)"
  using bytes_equal_loop_eq [OF assms, of 0] by (simp add: bytes_equal_def bytes_at_eq_iff)

lemma uuid_equal_readable:
  assumes "readable l (lp + 16)" and "readable r (rp + 16)"
  shows "uuid_equal l lp r rp = Some (bytes_at l lp 16 = bytes_at r rp 16)"
  using bytes_equal_loop_eq [OF assms, of 0] by (simp add: uuid_equal_def bytes_at_eq_iff)

lemma uuid_equal_const:
  "readable b (p + 16) \<Longrightarrow> length u = 16 \<Longrightarrow>
     uuid_equal b p (buf_of_list u) 0 = Some (bytes_at b p 16 = u)"
  by (simp add: uuid_equal_readable)

lemma uuid_is_null_readable:
  "readable b (p + 16) \<Longrightarrow> uuid_is_null b p = Some (bytes_at b p 16 = replicate 16 0)"
  by (simp add: uuid_is_null_def uuid_equal_const)

section \<open>The entries of a package\<close>

definition toc_uuid :: "buf \<Rightarrow> nat \<Rightarrow> u8 list" where
  "toc_uuid b i = bytes_at b (toc_pos i) 16"

definition toc_off :: "buf \<Rightarrow> nat \<Rightarrow> nat" where
  "toc_off b i = unat (le64 b (toc_pos i + 16))"

definition toc_size :: "buf \<Rightarrow> nat \<Rightarrow> nat" where
  "toc_size b i = unat (le64 b (toc_pos i + 24))"

definition toc_end :: "buf \<Rightarrow> nat \<Rightarrow> nat" where
  "toc_end b i = toc_off b i + toc_size b i"

definition toc_flags :: "buf \<Rightarrow> nat \<Rightarrow> nat" where
  "toc_flags b i = unat (le64 b (toc_pos i + 32))"

definition null_uuid :: "u8 list" where
  "null_uuid = replicate 16 0"

lemmas toc_defs = toc_uuid_def toc_off_def toc_size_def toc_end_def toc_flags_def

text \<open>Entry \<open>i\<close> is a payload that fits the package and clashes with no entry before it.\<close>

definition toc_entry_ok :: "buf \<Rightarrow> nat \<Rightarrow> nat \<Rightarrow> bool" where
  "toc_entry_ok b sz i \<longleftrightarrow>
     0 < toc_size b i \<and> toc_end b i \<le> sz \<and>
     (\<forall>j<i. toc_uuid b j \<noteq> toc_uuid b i \<and>
            (toc_end b i \<le> toc_off b j \<or> toc_end b j \<le> toc_off b i))"

lemma entry_in_buffer_eq:
  assumes "readable b n" and "toc_pos i + 40 \<le> n"
  shows "entry_in_buffer b (toc_pos i) image_size =
    Some (0 < toc_size b i \<and> toc_end b i \<le> unat image_size)"
proof -
  have "(sz \<noteq> 0 \<and> off \<le> ucast image_size \<and> sz \<le> ucast image_size - off) \<longleftrightarrow>
     0 < unat sz \<and> unat off + unat sz \<le> unat image_size" for off sz :: u64
    by (auto simp: word_le_nat_alt unat_sub unat_gt_0)
  then show ?thesis
    using assms by (simp add: entry_in_buffer_def decode_readable [OF assms(1)] toc_defs Let_def)
qed

text \<open>
  The entries before a payload have been accepted, so the sum of their offset and size does
  not wrap around.
\<close>

lemma unat_toc_end:
  "toc_end b i < 2 ^ 64 \<Longrightarrow>
     unat (le64 b (toc_pos i + 16) + le64 b (toc_pos i + 24)) = toc_end b i"
  by (simp add: toc_defs unat_word_ariths)

lemma less_le_Suc_split: "i < n \<Longrightarrow> (\<exists>j<n. i \<le> j \<and> P j) \<longleftrightarrow> P i \<or> (\<exists>j<n. Suc i \<le> j \<and> P j)"
  by (metis Suc_leD Suc_leI le_neq_implies_less order_refl)

lemma entry_overlaps_loop_eq:
  assumes "readable b n" and "toc_pos m \<le> n" and "\<forall>j<m. toc_end b j < 2 ^ 64"
  shows "entry_overlaps_loop b off e i m =
    Some (\<exists>j<m. i \<le> j \<and> unat off < toc_end b j \<and> toc_off b j < unat e)"
  using assms
proof (induction b off e i m rule: entry_overlaps_loop.induct)
  case (1 b off e i m)
  show ?case
  proof (cases "i < m")
    case True
    then have dec: "get_le64 b (toc_pos i + 16) = Some (le64 b (toc_pos i + 16))"
      "get_le64 b (toc_pos i + 24) = Some (le64 b (toc_pos i + 24))"
      using "1.prems"(2) by (auto intro!: get_le64_readable [OF "1.prems"(1)])
    have cond: "off < le64 b (toc_pos i + 16) + le64 b (toc_pos i + 24) \<longleftrightarrow> unat off < toc_end b i"
      "le64 b (toc_pos i + 16) < e \<longleftrightarrow> toc_off b i < unat e"
      unfolding word_less_nat_alt using "1.prems"(3) True
      by (subst unat_toc_end) (simp_all add: toc_off_def)
    show ?thesis
      using "1.IH" [OF True refl dec] "1.prems" True dec cond
      by (simp add: entry_overlaps_loop.simps [of b off e i m] less_le_Suc_split) blast
  next
    case False
    then show ?thesis by (auto simp: entry_overlaps_loop.simps [of b off e i m])
  qed
qed

lemma entry_uuid_seen_loop_eq:
  assumes "readable b n" and "toc_pos m \<le> n" and "p + 16 \<le> n"
  shows "entry_uuid_seen_loop b p i m =
    Some (\<exists>j<m. i \<le> j \<and> toc_uuid b j = bytes_at b p 16)"
  using assms
proof (induction b p i m rule: entry_uuid_seen_loop.induct)
  case (1 b p i m)
  show ?case
  proof (cases "i < m")
    case True
    have eq: "uuid_equal b (toc_pos i) b p = Some (toc_uuid b i = bytes_at b p 16)"
      unfolding toc_uuid_def using "1.prems" True
      by (intro uuid_equal_readable) (auto intro: readable_mono)
    show ?thesis
      using "1.IH" [OF True eq] "1.prems" True eq
      by (simp add: entry_uuid_seen_loop.simps [of b p i m] less_le_Suc_split)
  next
    case False
    then show ?thesis by (auto simp: entry_uuid_seen_loop.simps [of b p i m])
  qed
qed

lemma fip_entry_rejected_eq:
  assumes "readable b (unat image_size)" and "toc_pos (Suc i) \<le> unat image_size"
    and "\<forall>j<i. toc_end b j \<le> unat image_size"
  shows "fip_entry_rejected b image_size (toc_pos i) i = Some (\<not> toc_entry_ok b (unat image_size) i)"
proof -
  let ?sz = "unat image_size"
  have small: "m < 2 ^ 64" if "m \<le> ?sz" for m
    using that by (rule le_u32_lt_64)
  have seen: "entry_uuid_seen b (toc_pos i) i = Some (\<exists>j<i. toc_uuid b j = toc_uuid b i)"
    using assms by (simp add: entry_uuid_seen_def entry_uuid_seen_loop_eq toc_uuid_def)
  have inb: "entry_in_buffer b (toc_pos i) image_size = Some (0 < toc_size b i \<and> toc_end b i \<le> ?sz)"
    using assms by (intro entry_in_buffer_eq) auto
  have dec: "get_le64 b (toc_pos i + 16) = Some (le64 b (toc_pos i + 16))"
    "get_le64 b (toc_pos i + 24) = Some (le64 b (toc_pos i + 24))"
    using assms(2) by (auto intro!: get_le64_readable [OF assms(1)])
  have loop: "entry_overlaps_loop b off e 0 i =
      Some (\<exists>j<i. 0 \<le> j \<and> unat off < toc_end b j \<and> toc_off b j < unat e)" for off e
    using assms(2,3) small by (intro entry_overlaps_loop_eq [OF assms(1)]) auto
  have "entry_overlaps_previous b (toc_pos i) i =
      Some (\<exists>j<i. toc_off b i < toc_end b j \<and>
              toc_off b j < unat (le64 b (toc_pos i + 16) + le64 b (toc_pos i + 24)))"
    unfolding entry_overlaps_previous_def dec loop toc_off_def [of b i] by simp
  moreover have "unat (le64 b (toc_pos i + 16) + le64 b (toc_pos i + 24)) = toc_end b i"
    if "toc_end b i \<le> ?sz"
    using that by (intro unat_toc_end small)
  ultimately show ?thesis
    unfolding fip_entry_rejected_def
    by (auto simp: seen inb toc_entry_ok_def not_less not_le)
qed

end
