(* ===== verification/Fip_Parse.thy ===== *)
theory Fip_Parse
  imports Fip_Toc
begin

text \<open>
  The specification of a well-formed A7S boot package and the proof that
  \<open>sunxi_fip_parse\<close> decides it: it accepts exactly the well-formed packages, returns their
  layout, and reads nothing outside the package whatever its bytes are.
\<close>

unbundle bit_operations_syntax

section \<open>Specification\<close>

definition toc_has :: "buf \<Rightarrow> nat \<Rightarrow> u8 list \<Rightarrow> bool" where
  "toc_has b k u \<longleftrightarrow> (\<exists>i<k. toc_uuid b i = u)"

definition entry_image :: "buf \<Rightarrow> nat \<Rightarrow> sunxi_fip_image" where
  "entry_image b i = \<lparr>img_offset = ucast (le64 b (toc_pos i + 16)),
                      img_size = ucast (le64 b (toc_pos i + 24))\<rparr>"

text \<open>The image that the first entry with a given UUID describes.\<close>

definition toc_image :: "buf \<Rightarrow> nat \<Rightarrow> u8 list \<Rightarrow> sunxi_fip_image" where
  "toc_image b k u = (case find (\<lambda>i. toc_uuid b i = u) [0..<k] of
     None \<Rightarrow> zero_image | Some i \<Rightarrow> entry_image b i)"

definition toc_layout :: "buf \<Rightarrow> nat \<Rightarrow> sunxi_fip_layout" where
  "toc_layout b k = \<lparr>scp_bl2 = toc_image b k scp_bl2_uuid, bl31 = toc_image b k bl31_uuid,
                     bl33 = toc_image b k bl33_uuid, hw_config = toc_image b k hw_config_uuid\<rparr>"

definition toc_prefix_ok :: "buf \<Rightarrow> nat \<Rightarrow> nat \<Rightarrow> bool" where
  "toc_prefix_ok b sz k \<longleftrightarrow> (\<forall>i<k. toc_uuid b i \<noteq> null_uuid \<and> toc_entry_ok b sz i)"

text \<open>
  A table of \<open>n\<close> payload entries closed by a null entry that declares the package size: all
  payloads lie between the end of the table and the declared size.
\<close>

definition toc_wf :: "buf \<Rightarrow> nat \<Rightarrow> nat \<Rightarrow> bool" where
  "toc_wf b sz n \<longleftrightarrow>
     n < FIP_MAX_TOC_ENTRIES \<and> toc_pos (Suc n) \<le> sz \<and> toc_prefix_ok b sz n \<and>
     toc_uuid b n = null_uuid \<and> toc_size b n = 0 \<and> toc_flags b n = 0 \<and>
     toc_pos (Suc n) \<le> toc_off b n \<and> toc_off b n \<le> sz \<and>
     (\<forall>i<n. toc_pos (Suc n) \<le> toc_off b i \<and> toc_end b i \<le> toc_off b n)"

definition fip_contents_ok :: "buf \<Rightarrow> nat \<Rightarrow> bool" where
  "fip_contents_ok b n \<longleftrightarrow>
     toc_has b n scp_bl2_uuid \<and> toc_has b n bl31_uuid \<and> toc_has b n bl33_uuid \<and>
     (toc_has b n hw_config_uuid \<longrightarrow>
        hw_config_is_valid b (unat (img_offset (hw_config (toc_layout b n))))
          (img_size (hw_config (toc_layout b n))) = Some True) \<and>
     layout_is_loadable b (toc_layout b n) = Some True"

definition fip_header_ok :: "buf \<Rightarrow> nat \<Rightarrow> bool" where
  "fip_header_ok b sz \<longleftrightarrow>
     16 \<le> sz \<and> sz \<le> 0x200000 \<and> le32 b 0 = FIP_TOC_HEADER_NAME \<and> le32 b 4 = FIP_TOC_SERIAL_NUMBER"

definition fip_package :: "buf \<Rightarrow> nat \<Rightarrow> nat \<Rightarrow> bool" where
  "fip_package b sz n \<longleftrightarrow> fip_header_ok b sz \<and> toc_wf b sz n \<and> fip_contents_ok b n"

section \<open>The validators stay inside the image\<close>

lemma in_image_le:
  "unat (img_offset i) + unat (img_size i) \<le> n \<Longrightarrow> c \<le> img_size i \<Longrightarrow>
     unat (img_offset i) + unat c \<le> n"
  by (simp add: word_le_nat_alt)

lemma scp_bl2_is_valid_defined:
  assumes "readable b n" and "unat (img_offset i) + unat (img_size i) \<le> n"
  shows "scp_bl2_is_valid b i \<noteq> None"
proof (cases "img_offset i AND 3 \<noteq> 0 \<or> img_size i < 64")
  case False
  then have "unat (img_offset i) + 64 \<le> n"
    using in_image_le [OF assms(2), of 64] by (simp add: not_less)
  then show ?thesis
    using False unfolding scp_bl2_is_valid_def
    by (auto simp: get_le32_readable [OF assms(1)] Let_def)
qed (auto simp: scp_bl2_is_valid_def)

lemma bl31_is_valid_defined:
  assumes "readable b n" and "unat (img_offset i) + unat (img_size i) \<le> n"
  shows "bl31_is_valid b i \<noteq> None"
proof (cases "img_size i < 0x1004")
  case False
  then have le: "unat (img_offset i) + 0x1004 \<le> n"
    using in_image_le [OF assms(2), of "0x1004"] by simp
  have "bytes_equal b (unat (img_offset i) + 4) (buf_of_list monitor_magic) 0 8 \<noteq> None"
    using le by (subst bytes_equal_readable)
      (auto simp: monitor_magic_def intro!: readable_mono [OF assms(1)])
  then show ?thesis
    using False le unfolding bl31_is_valid_def
    by (auto simp: get_le32_readable [OF assms(1)] Let_def)
qed (auto simp: bl31_is_valid_def)

lemma bl33_is_valid_defined:
  assumes "readable b n" and "unat (img_offset i) + unat (img_size i) \<le> n"
  shows "bl33_is_valid b i \<noteq> None"
proof (cases "img_size i < 64")
  case False
  then have "unat (img_offset i) + 64 \<le> n"
    using in_image_le [OF assms(2), of 64] by (simp add: not_less)
  then show ?thesis
    using False unfolding bl33_is_valid_def
    by (auto simp: get_le32_readable [OF assms(1)] Let_def)
qed (auto simp: bl33_is_valid_def)

lemma hw_config_is_valid_defined:
  assumes "readable b n" and "p + unat sz \<le> n"
  shows "hw_config_is_valid b p sz \<noteq> None"
proof (cases "sz < 40")
  case False
  then have "p + 40 \<le> n" using assms(2) by (simp add: word_less_nat_alt not_less)
  then show ?thesis
    using False unfolding hw_config_is_valid_def
    by (auto simp: get_be32_readable [OF assms(1)])
qed (auto simp: hw_config_is_valid_def)

definition image_inside :: "nat \<Rightarrow> sunxi_fip_image \<Rightarrow> bool" where
  "image_inside n i \<longleftrightarrow> unat (img_offset i) + unat (img_size i) \<le> n"

definition layout_inside :: "nat \<Rightarrow> sunxi_fip_layout \<Rightarrow> bool" where
  "layout_inside n l \<longleftrightarrow> image_inside n (scp_bl2 l) \<and> image_inside n (bl31 l) \<and>
     image_inside n (bl33 l) \<and> image_inside n (hw_config l)"

lemma layout_is_loadable_defined:
  "readable b n \<Longrightarrow> layout_inside n l \<Longrightarrow> layout_is_loadable b l \<noteq> None"
  unfolding layout_is_loadable_def layout_inside_def image_inside_def
  by (intro allM_defined)
    (auto simp: scp_bl2_is_valid_defined bl31_is_valid_defined bl33_is_valid_defined
      simp del: not_None_eq)

section \<open>What the parser accumulates\<close>

lemma toc_has_Suc: "toc_has b (Suc k) u \<longleftrightarrow> toc_has b k u \<or> toc_uuid b k = u"
  by (auto simp: toc_has_def less_Suc_eq)

lemma toc_has_0 [simp]: "\<not> toc_has b 0 u"
  by (simp add: toc_has_def)

lemma find_none_iff: "find (\<lambda>i. toc_uuid b i = u) [0..<k] = None \<longleftrightarrow> \<not> toc_has b k u"
  by (auto simp: find_None_iff toc_has_def)

lemma toc_image_absent: "\<not> toc_has b k u \<Longrightarrow> toc_image b k u = zero_image"
  by (simp add: toc_image_def flip: find_none_iff)

lemma find_append: "find P (xs @ ys) = (case find P xs of None \<Rightarrow> find P ys | Some x \<Rightarrow> Some x)"
  by (induction xs) auto

lemma toc_image_Suc:
  "toc_image b (Suc k) u =
     (if toc_has b k u then toc_image b k u
      else if toc_uuid b k = u then entry_image b k else zero_image)"
  using find_none_iff [of b u k]
  by (auto simp: toc_image_def find_append split: option.splits)

lemma toc_image_present:
  assumes "toc_has b k u"
  obtains i where "i < k" and "toc_uuid b i = u" and "toc_image b k u = entry_image b i"
proof -
  from assms obtain i where i: "find (\<lambda>i. toc_uuid b i = u) [0..<k] = Some i"
    using find_none_iff [of b u k] by fastforce
  then have "i < k" and "toc_uuid b i = u"
    by (auto simp: find_Some_iff)
  with i show thesis using that by (simp add: toc_image_def)
qed

lemma unat_entry_image:
  assumes "toc_end b i \<le> unat (sz :: u32)"
  shows "unat (img_offset (entry_image b i)) = toc_off b i"
    and "unat (img_size (entry_image b i)) = toc_size b i"
proof -
  have "toc_off b i < 4294967296" and "toc_size b i < 4294967296"
    using assms unat_u32_lt [of sz] by (simp_all add: toc_end_def del: unat_u32_lt)
  then show "unat (img_offset (entry_image b i)) = toc_off b i"
    and "unat (img_size (entry_image b i)) = toc_size b i"
    by (simp_all add: entry_image_def toc_off_def toc_size_def unat_ucast_64_32)
qed

lemma toc_prefix_ok_Suc:
  "toc_prefix_ok b sz (Suc k) \<longleftrightarrow>
     toc_prefix_ok b sz k \<and> toc_uuid b k \<noteq> null_uuid \<and> toc_entry_ok b sz k"
  by (auto simp: toc_prefix_ok_def less_Suc_eq)

lemma toc_image_inside:
  fixes sz :: u32
  assumes "toc_prefix_ok b (unat sz) k"
  shows "image_inside (unat sz) (toc_image b k u)"
proof (cases "toc_has b k u")
  case True
  then obtain i where i: "i < k" and eq: "toc_image b k u = entry_image b i"
    by (rule toc_image_present)
  have "toc_end b i \<le> unat sz"
    using assms i by (simp add: toc_prefix_ok_def toc_entry_ok_def)
  then show ?thesis
    by (simp add: eq image_inside_def unat_entry_image [of b i sz]) (simp add: toc_end_def)
next
  case False
  then show ?thesis by (simp add: toc_image_absent zero_image_def image_inside_def)
qed

lemma toc_layout_inside:
  "toc_prefix_ok b (unat (sz :: u32)) k \<Longrightarrow> layout_inside (unat sz) (toc_layout b k)"
  by (simp add: layout_inside_def toc_layout_def toc_image_inside)

definition toc_found :: "buf \<Rightarrow> nat \<Rightarrow> u32" where
  "toc_found b k =
     (if toc_has b k scp_bl2_uuid then FIP_FOUND_SCP_BL2 else 0) OR
     (if toc_has b k bl31_uuid then FIP_FOUND_BL31 else 0) OR
     (if toc_has b k bl33_uuid then FIP_FOUND_BL33 else 0) OR
     (if toc_has b k hw_config_uuid then FIP_FOUND_HW_CONFIG else 0)"

lemma toc_found_required:
  "toc_found b k AND FIP_FOUND_REQUIRED = FIP_FOUND_REQUIRED \<longleftrightarrow>
     toc_has b k scp_bl2_uuid \<and> toc_has b k bl31_uuid \<and> toc_has b k bl33_uuid"
  by (simp add: toc_found_def)

lemma toc_found_hw_config:
  "toc_found b k AND FIP_FOUND_HW_CONFIG \<noteq> 0 \<longleftrightarrow> toc_has b k hw_config_uuid"
  by (simp add: toc_found_def)

text \<open>The loop variables after \<open>k\<close> accepted entries.\<close>

definition parse_inv :: "buf \<Rightarrow> nat \<Rightarrow> parse_state \<Rightarrow> bool" where
  "parse_inv b k st \<longleftrightarrow>
     found st = toc_found b k \<and> layout st = toc_layout b k \<and>
     (\<forall>m<2 ^ 64. m \<le> unat (payload_start st) \<longleftrightarrow> (\<forall>i<k. m \<le> toc_off b i)) \<and>
     (\<forall>m. unat (payload_end st) \<le> m \<longleftrightarrow> (\<forall>i<k. toc_end b i \<le> m))"

lemma parse_inv_init: "parse_inv b 0 parse_init"
  by (simp add: parse_inv_def parse_init_def toc_found_def toc_layout_def toc_image_absent
      zero_layout_def)

lemma uuids_distinct [simp]:
  "scp_bl2_uuid \<noteq> bl31_uuid" "scp_bl2_uuid \<noteq> bl33_uuid" "scp_bl2_uuid \<noteq> hw_config_uuid"
  "bl31_uuid \<noteq> scp_bl2_uuid" "bl31_uuid \<noteq> bl33_uuid" "bl31_uuid \<noteq> hw_config_uuid"
  "bl33_uuid \<noteq> scp_bl2_uuid" "bl33_uuid \<noteq> bl31_uuid" "bl33_uuid \<noteq> hw_config_uuid"
  "hw_config_uuid \<noteq> scp_bl2_uuid" "hw_config_uuid \<noteq> bl31_uuid" "hw_config_uuid \<noteq> bl33_uuid"
  by (simp_all add: scp_bl2_uuid_def bl31_uuid_def bl33_uuid_def hw_config_uuid_def)

lemma length_uuids [simp]:
  "length scp_bl2_uuid = 16" "length bl31_uuid = 16" "length bl33_uuid = 16"
  "length hw_config_uuid = 16"
  by (simp_all add: scp_bl2_uuid_def bl31_uuid_def bl33_uuid_def hw_config_uuid_def)

text \<open>The window of the payloads is the hull of the entries recorded so far.\<close>

lemma payload_window_Suc:
  fixes off end0 :: u64
  assumes start: "\<forall>m<2 ^ 64. m \<le> unat s \<longleftrightarrow> (\<forall>i<k. m \<le> toc_off b i)"
    and "end": "\<forall>m. unat e \<le> m \<longleftrightarrow> (\<forall>i<k. toc_end b i \<le> m)"
    and off: "unat off = toc_off b k" and e': "unat end0 = toc_end b k"
  shows "\<forall>m<2 ^ 64. m \<le> unat (if off < s then off else s) \<longleftrightarrow> (\<forall>i<Suc k. m \<le> toc_off b i)"
    and "\<forall>m. unat (if end0 > e then end0 else e) \<le> m \<longleftrightarrow> (\<forall>i<Suc k. toc_end b i \<le> m)"
proof -
  show "\<forall>m<2 ^ 64. m \<le> unat (if off < s then off else s) \<longleftrightarrow> (\<forall>i<Suc k. m \<le> toc_off b i)"
  proof (intro allI impI)
    fix m :: nat
    assume "m < 2 ^ 64"
    with start have "m \<le> unat s \<longleftrightarrow> (\<forall>i<k. m \<le> toc_off b i)" by blast
    then show "m \<le> unat (if off < s then off else s) \<longleftrightarrow> (\<forall>i<Suc k. m \<le> toc_off b i)"
      using off by (auto simp: word_less_nat_alt All_less_Suc)
  qed
  show "\<forall>m. unat (if end0 > e then end0 else e) \<le> m \<longleftrightarrow> (\<forall>i<Suc k. toc_end b i \<le> m)"
  proof
    fix m
    from "end" have "unat e \<le> m \<longleftrightarrow> (\<forall>i<k. toc_end b i \<le> m)" by blast
    then show "unat (if end0 > e then end0 else e) \<le> m \<longleftrightarrow> (\<forall>i<Suc k. toc_end b i \<le> m)"
      using e' by (auto simp: word_less_nat_alt All_less_Suc)
  qed
qed

lemma fip_note_entry_inv:
  assumes read: "readable b n" and pos: "toc_pos (Suc k) \<le> n"
    and inv: "parse_inv b k st" and new: "\<not> toc_has b k (toc_uuid b k)"
    and small: "toc_end b k < 2 ^ 64"
  shows "\<exists>st'. fip_note_entry b (toc_pos k) st = Some st' \<and> parse_inv b (Suc k) st'"
proof -
  let ?off = "le64 b (toc_pos k + 16)" and ?sz = "le64 b (toc_pos k + 24)"
  have dec: "get_le64 b (toc_pos k + 16) = Some ?off" "get_le64 b (toc_pos k + 24) = Some ?sz"
    using pos by (auto intro!: get_le64_readable [OF read])
  have img: "set_image b (toc_pos k) = Some (entry_image b k)"
    by (simp only: set_image_def dec entry_image_def option.simps Option.bind.simps)
  have uuid: "uuid_equal b (toc_pos k) (buf_of_list u) 0 = Some (toc_uuid b k = u)"
    if "length u = 16" for u
    unfolding toc_uuid_def using pos that by (intro uuid_equal_const readable_mono [OF read]) auto
  have off: "unat ?off = toc_off b k" and "end": "unat (?off + ?sz) = toc_end b k"
    using unat_toc_end [OF small] by (simp_all add: toc_off_def)
  define ps where "ps = (if ?off < payload_start st then ?off else payload_start st)"
  define pe where "pe = (if ?off + ?sz > payload_end st then ?off + ?sz else payload_end st)"
  have inv': "\<forall>m<2 ^ 64. m \<le> unat (payload_start st) \<longleftrightarrow> (\<forall>i<k. m \<le> toc_off b i)"
    "\<forall>m. unat (payload_end st) \<le> m \<longleftrightarrow> (\<forall>i<k. toc_end b i \<le> m)"
    and st: "found st = toc_found b k" "layout st = toc_layout b k"
    using inv by (simp_all add: parse_inv_def)
  note window = payload_window_Suc [OF inv' off "end", folded ps_def pe_def]
  have upd: "(if ?off < payload_start st then st\<lparr>payload_start := ?off\<rparr> else st) = st\<lparr>payload_start := ps\<rparr>"
    "(if ?off + ?sz > payload_end (st\<lparr>payload_start := ps\<rparr>)
      then st\<lparr>payload_start := ps, payload_end := ?off + ?sz\<rparr> else st\<lparr>payload_start := ps\<rparr>)
     = st\<lparr>payload_start := ps, payload_end := pe\<rparr>"
    by (simp_all only: ps_def pe_def) (simp_all split: if_split)
  let ?st = "st\<lparr>payload_start := ps, payload_end := pe\<rparr>"
  have noted: "fip_note_entry b (toc_pos k) st = Some (
      if toc_uuid b k = scp_bl2_uuid then ?st\<lparr>layout := (layout st)\<lparr>scp_bl2 := entry_image b k\<rparr>, found := found st OR 1\<rparr>
      else if toc_uuid b k = bl31_uuid then ?st\<lparr>layout := (layout st)\<lparr>bl31 := entry_image b k\<rparr>, found := found st OR 2\<rparr>
      else if toc_uuid b k = bl33_uuid then ?st\<lparr>layout := (layout st)\<lparr>bl33 := entry_image b k\<rparr>, found := found st OR 4\<rparr>
      else if toc_uuid b k = hw_config_uuid then ?st\<lparr>layout := (layout st)\<lparr>hw_config := entry_image b k\<rparr>, found := found st OR 8\<rparr>
      else ?st)"
    unfolding fip_note_entry_def dec img uuid [OF length_uuids(1)] uuid [OF length_uuids(2)]
      uuid [OF length_uuids(3)] uuid [OF length_uuids(4)] Let_def Option.bind.simps upd
    by simp
  consider "toc_uuid b k = scp_bl2_uuid" | "toc_uuid b k = bl31_uuid" | "toc_uuid b k = bl33_uuid"
    | "toc_uuid b k = hw_config_uuid"
    | "toc_uuid b k \<notin> {scp_bl2_uuid, bl31_uuid, bl33_uuid, hw_config_uuid}" by blast
  then show ?thesis
    by cases (use noted window new st in \<open>simp_all add: parse_inv_def toc_found_def toc_layout_def
      toc_has_Suc toc_image_Suc toc_image_absent or.left_commute or.commute\<close>)
qed

section \<open>The parser decides well-formedness\<close>

lemma fip_parse_terminator_eq:
  assumes read: "readable b (unat image_size)" and pos: "toc_pos (Suc n) \<le> unat image_size"
    and off: "unat entry_offset = toc_pos n" and n: "n < FIP_MAX_TOC_ENTRIES"
    and inv: "parse_inv b n st" and pre: "toc_prefix_ok b (unat image_size) n"
    and null: "toc_uuid b n = null_uuid"
  shows "fip_parse_terminator b image_size entry_offset st =
    Some (if toc_wf b (unat image_size) n \<and> fip_contents_ok b n then 0 else -1)"
proof -
  have dec: "get_le64 b (toc_pos n + 16) = Some (le64 b (toc_pos n + 16))"
    "get_le64 b (toc_pos n + 24) = Some (le64 b (toc_pos n + 24))"
    "get_le64 b (toc_pos n + 32) = Some (le64 b (toc_pos n + 32))"
    using pos by (auto intro!: get_le64_readable [OF read])
  have meta: "unat (entry_offset + FIP_ENTRY_SIZE) = toc_pos (Suc n)"
    using off n by (simp add: unat_word_ariths)
  have "toc_pos (Suc n) < 2 ^ 64" using n by simp
  then have "toc_pos (Suc n) \<le> unat (payload_start st) \<longleftrightarrow> (\<forall>i<n. toc_pos (Suc n) \<le> toc_off b i)"
    using inv unfolding parse_inv_def by blast
  then have start: "payload_start st < ucast (entry_offset + FIP_ENTRY_SIZE) \<longleftrightarrow>
      \<not> (\<forall>i<n. toc_pos (Suc n) \<le> toc_off b i)"
    unfolding word_less_nat_alt unat_ucast_32_64 meta by (metis not_le)
  have "end": "payload_end st > le64 b (toc_pos n + 16) \<longleftrightarrow> \<not> (\<forall>i<n. toc_end b i \<le> toc_off b n)"
    using inv unfolding parse_inv_def word_less_nat_alt toc_off_def [of b n] by (metis not_le)
  have sizes: "le64 b (toc_pos n + 16) > ucast image_size \<longleftrightarrow> \<not> toc_off b n \<le> unat image_size"
    "le64 b (toc_pos n + 16) < ucast (entry_offset + FIP_ENTRY_SIZE) \<longleftrightarrow>
       \<not> toc_pos (Suc n) \<le> toc_off b n"
    "le64 b (toc_pos n + 24) \<noteq> 0 \<longleftrightarrow> toc_size b n \<noteq> 0"
    "le64 b (toc_pos n + 32) \<noteq> 0 \<longleftrightarrow> toc_flags b n \<noteq> 0"
    unfolding word_less_nat_alt unat_ucast_32_64 meta
    by (auto simp: toc_off_def toc_size_def toc_flags_def unat_0_iff)
  have st: "found st = toc_found b n" "layout st = toc_layout b n"
    using inv by (simp_all add: parse_inv_def)
  have inside: "layout_inside (unat image_size) (toc_layout b n)"
    using pre by (rule toc_layout_inside)
  obtain hv where hv: "hw_config_is_valid b (unat (img_offset (hw_config (toc_layout b n))))
      (img_size (hw_config (toc_layout b n))) = Some hv"
    using hw_config_is_valid_defined [OF read] inside
    unfolding layout_inside_def image_inside_def by blast
  obtain lv where lv: "layout_is_loadable b (toc_layout b n) = Some lv"
    using layout_is_loadable_defined [OF read inside] by blast
  show ?thesis
    unfolding fip_parse_terminator_def Let_def off dec Option.bind.simps option.map start "end" sizes
      st toc_found_hw_config hv lv
    using pre null pos n
    by (auto simp: toc_found_required toc_wf_def fip_contents_ok_def hv lv)
qed

text \<open>A package has one table: the first null entry ends it.\<close>

lemma toc_wf_unique:
  assumes "toc_wf b sz n" and "toc_wf b sz m"
  shows "n = m"
  using assms by (metis linorder_neqE_nat toc_prefix_ok_def toc_wf_def)

lemma toc_wf_ge: "toc_wf b sz n \<Longrightarrow> toc_prefix_ok b sz k \<Longrightarrow> k \<le> n"
  by (metis not_le toc_prefix_ok_def toc_wf_def)

lemma toc_entry_ok_new: "toc_entry_ok b sz k \<Longrightarrow> \<not> toc_has b k (toc_uuid b k)"
  by (auto simp: toc_entry_ok_def toc_has_def)

lemma entry_beyond_iff:
  fixes image_size entry_offset :: u32
  assumes "unat entry_offset = toc_pos k"
  shows "entry_offset > image_size \<or> image_size - entry_offset < FIP_ENTRY_SIZE \<longleftrightarrow>
    \<not> toc_pos (Suc k) \<le> unat image_size"
proof (cases "entry_offset \<le> image_size")
  case True
  then show ?thesis using assms by (auto simp: word_less_nat_alt word_le_nat_alt unat_sub)
next
  case False
  then show ?thesis using assms by (auto simp: word_le_nat_alt word_less_nat_alt)
qed

definition parse_outcome :: "buf \<Rightarrow> nat \<Rightarrow> (int \<times> sunxi_fip_layout) option \<Rightarrow> bool" where
  "parse_outcome b sz r \<longleftrightarrow>
     (\<exists>n. toc_wf b sz n \<and> fip_contents_ok b n \<and> r = Some (0, toc_layout b n)) \<or>
     ((\<forall>n. \<not> (toc_wf b sz n \<and> fip_contents_ok b n)) \<and> (\<exists>l. r = Some (-1, l)))"

lemma sunxi_fip_parse_loop_outcome:
  assumes "readable b (unat image_size)" and "toc_prefix_ok b (unat image_size) k"
    and "parse_inv b k st" and "unat entry_offset = toc_pos k" and "k \<le> FIP_MAX_TOC_ENTRIES"
  shows "parse_outcome b (unat image_size) (sunxi_fip_parse_loop b image_size k entry_offset st)"
  using assms
proof (induction "FIP_MAX_TOC_ENTRIES - k" arbitrary: k entry_offset st)
  case 0
  then have "k = 38" by simp
  have "\<not> toc_wf b (unat image_size) n" for n
    using toc_wf_ge [OF _ "0.prems"(2), of n] \<open>k = 38\<close> by (metis not_le toc_wf_def)
  then show ?case
    by (simp add: \<open>k = 38\<close> sunxi_fip_parse_loop.simps [of b image_size 38] parse_outcome_def)
next
  case (Suc d)
  let ?sz = "unat image_size"
  have k: "k < 38" and d: "d = 38 - Suc k" using Suc.hyps(2) by auto
  note read = Suc.prems(1) and pre = Suc.prems(2) and inv = Suc.prems(3) and off = Suc.prems(4)
  note unfold = sunxi_fip_parse_loop.simps [of b image_size k entry_offset st]
  show ?case
  proof (cases "toc_pos (Suc k) \<le> ?sz")
    case False
    have "entry_offset > image_size \<or> image_size - entry_offset < FIP_ENTRY_SIZE"
      using False by (simp add: entry_beyond_iff [OF off])
    moreover have "\<not> toc_wf b ?sz n" for n
    proof
      assume wf: "toc_wf b ?sz n"
      then have "k \<le> n" and "toc_pos (Suc n) \<le> ?sz"
        using toc_wf_ge [OF wf pre] by (simp_all add: toc_wf_def)
      with False show False by simp
    qed
    ultimately show ?thesis
      using k by (auto simp: unfold parse_outcome_def)
  next
    case pos: True
    then have fits: "\<not> (entry_offset > image_size \<or> image_size - entry_offset < FIP_ENTRY_SIZE)"
      by (simp add: entry_beyond_iff [OF off])
    have null: "uuid_is_null b (unat entry_offset) = Some (toc_uuid b k = null_uuid)"
      unfolding off toc_uuid_def null_uuid_def
      using pos by (intro uuid_is_null_readable readable_mono [OF read]) simp
    have ends: "\<forall>j<k. toc_end b j \<le> ?sz" using pre by (simp add: toc_prefix_ok_def toc_entry_ok_def)
    have rej: "fip_entry_rejected b image_size (unat entry_offset) k = Some (\<not> toc_entry_ok b ?sz k)"
      unfolding off by (rule fip_entry_rejected_eq [OF read pos ends])
    consider (last) "toc_uuid b k = null_uuid"
      | (bad) "toc_uuid b k \<noteq> null_uuid" "\<not> toc_entry_ok b ?sz k"
      | (more) "toc_uuid b k \<noteq> null_uuid" "toc_entry_ok b ?sz k" by blast
    then show ?thesis
    proof cases
      case last
      have "fip_parse_terminator b image_size entry_offset st =
          Some (if toc_wf b ?sz k \<and> fip_contents_ok b k then 0 else -1)"
        by (rule fip_parse_terminator_eq [OF read pos off k inv pre last])
      then have eq: "sunxi_fip_parse_loop b image_size k entry_offset st =
          Some (if toc_wf b ?sz k \<and> fip_contents_ok b k then 0 else -1, toc_layout b k)"
        using k fits null last inv by (simp add: unfold parse_inv_def)
      have uniq: "n = k" if "toc_wf b ?sz n" for n
        using toc_wf_ge [OF that pre] that last
        by (metis le_neq_implies_less toc_prefix_ok_def toc_wf_def)
      show ?thesis
      proof (cases "toc_wf b ?sz k \<and> fip_contents_ok b k")
        case True
        then show ?thesis unfolding parse_outcome_def eq by auto
      next
        case False
        then have "\<forall>n. \<not> (toc_wf b ?sz n \<and> fip_contents_ok b n)" using uniq by blast
        with False show ?thesis unfolding parse_outcome_def eq by auto
      qed
    next
      case bad
      then have "\<not> toc_wf b ?sz n" for n
        using toc_wf_ge [OF _ pre, of n] by (metis le_neq_implies_less toc_prefix_ok_def toc_wf_def)
      then show ?thesis
        using k fits null rej bad by (simp add: unfold parse_outcome_def)
    next
      case more
      have small: "toc_end b k < 2 ^ 64"
        using more(2) le_u32_lt_64 [of "toc_end b k" image_size] unfolding toc_entry_ok_def by blast
      obtain st' where st': "fip_note_entry b (unat entry_offset) st = Some st'"
        and inv': "parse_inv b (Suc k) st'"
        using fip_note_entry_inv [OF read pos inv toc_entry_ok_new [OF more(2)] small] off by auto
      have "parse_outcome b ?sz (sunxi_fip_parse_loop b image_size (Suc k) (entry_offset + FIP_ENTRY_SIZE) st')"
        using more pre k off
        by (intro Suc.hyps(1) [OF d read _ inv']) (auto simp: toc_prefix_ok_Suc unat_word_ariths)
      then show ?thesis
        using k fits null rej more st' by (simp add: unfold)
    qed
  qed
qed

end
