(* ===== verification/Fip_Sample.thy ===== *)
theory Fip_Sample
  imports Fip
begin

text \<open>
  A small well-formed boot package (the smallest payloads the validators accept, laid out like
  the package of \<^verbatim>\<open>tests/test_sunxi_fip.c\<close>), on which the properties of the FIP loader are
  instantiated.
\<close>

unbundle bit_operations_syntax

text \<open>A sparse byte array: segments over a zero background.\<close>

fun seg_at :: "(nat \<times> u8 list) list \<Rightarrow> nat \<Rightarrow> u8" where
  "seg_at [] i = 0"
| "seg_at ((p, xs) # ss) i = (if p \<le> i \<and> i < p + length xs then xs ! (i - p) else seg_at ss i)"

text \<open>A number below \<open>2 ^ 24\<close> as the eight bytes of a table field.\<close>

definition put_le64 :: "nat \<Rightarrow> u8 list" where
  "put_le64 n = [of_nat n, of_nat (n div 256), of_nat (n div 65536), 0, 0, 0, 0, 0]"

text \<open>
  SCP_BL2 at 256, BL31 at 512 and BL33 at 4624 of a package of 5120 bytes; the rest is zero.
\<close>

definition sample_fip :: buf where
  "sample_fip = (\<lambda>i. if i < 5120 then Some (seg_at
     [(0, [0x01, 0x00, 0x64, 0xaa, 0x78, 0x56, 0x34, 0x12]),
      (16, scp_bl2_uuid @ put_le64 256 @ put_le64 64),
      (56, bl31_uuid @ put_le64 512 @ put_le64 0x1004),
      (96, bl33_uuid @ put_le64 4624 @ put_le64 64),
      (152, put_le64 5120),
      (256, [0x73, 0x70, 0x04, 0x30, 0xb7, 0x02, 0x09, 0x07, 0x93, 0x82, 0xc2, 0x11,
             0x37, 0x03, 0x02, 0xe9, 0x05, 0x03, 0x23, 0xa0, 0x62, 0x00, 0x81, 0x40]),
      (512, [0xfe, 0x03, 0x00, 0xea] @ monitor_magic),
      (556, [0, 0, 0, 0x48]),
      (4608, [0xf4, 0x03, 0x00, 0xaa]),
      (4624, [0x05, 0x00, 0x00, 0xea])] i) else None)"


lemmas sample_bytes = sample_fip_def put_le64_def scp_bl2_uuid_def bl31_uuid_def bl33_uuid_def monitor_magic_def

lemma sample_readable: "readable sample_fip 5120"
  by (simp add: readable_def sample_fip_def)

lemma sample_le64:
  "get_le64 sample_fip 32 = Some 256" "get_le64 sample_fip 40 = Some 64"
  "get_le64 sample_fip 72 = Some 512" "get_le64 sample_fip 80 = Some 0x1004"
  "get_le64 sample_fip 112 = Some 4624" "get_le64 sample_fip 120 = Some 64"
  "get_le64 sample_fip 152 = Some 5120" "get_le64 sample_fip 160 = Some 0"
  "get_le64 sample_fip 168 = Some 0"
  by (simp_all add: get_le64_def get_le64_loop.simps sample_bytes)
lemma sample_le32:
  "get_le32 sample_fip 0 = Some 0xaa640001" "get_le32 sample_fip 4 = Some 0x12345678"
  "get_le32 sample_fip 256 = Some 0x30047073" "get_le32 sample_fip 260 = Some 0x070902b7"
  "get_le32 sample_fip 264 = Some 0x11c28293" "get_le32 sample_fip 268 = Some 0xe9020337"
  "get_le32 sample_fip 272 = Some 0xa0230305" "get_le32 sample_fip 276 = Some 0x40810062"
  "get_le32 sample_fip 512 = Some 0xea0003fe" "get_le32 sample_fip 556 = Some 0x48000000"
  "get_le32 sample_fip 4608 = Some 0xaa0003f4" "get_le32 sample_fip 4624 = Some 0xea000005"
  by (simp_all add: get_le32_def sample_bytes)
lemma sample_uuid:
 "uuid_is_null sample_fip 16 = Some False" "uuid_is_null sample_fip 56 = Some False"
 "uuid_is_null sample_fip 96 = Some False" "uuid_is_null sample_fip 136 = Some True"
 "uuid_equal sample_fip 16 (buf_of_list scp_bl2_uuid) 0 = Some True"
 "uuid_equal sample_fip 56 (buf_of_list scp_bl2_uuid) 0 = Some False"
 "uuid_equal sample_fip 56 (buf_of_list bl31_uuid) 0 = Some True"
 "uuid_equal sample_fip 96 (buf_of_list scp_bl2_uuid) 0 = Some False"
 "uuid_equal sample_fip 96 (buf_of_list bl31_uuid) 0 = Some False"
 "uuid_equal sample_fip 96 (buf_of_list bl33_uuid) 0 = Some True"
 "uuid_equal sample_fip 16 sample_fip 56 = Some False" "uuid_equal sample_fip 16 sample_fip 96 = Some False"
 "uuid_equal sample_fip 56 sample_fip 96 = Some False"
 "bytes_equal sample_fip 516 (buf_of_list monitor_magic) 0 8 = Some True"
  by (simp_all add: uuid_is_null_def uuid_equal_def bytes_equal_def bytes_equal_loop.simps sample_bytes buf_of_list_def nth_Cons')

text \<open>The layout of the sample package.\<close>

definition sample_layout :: sunxi_fip_layout where
  "sample_layout =
     \<lparr>scp_bl2 = \<lparr>img_offset = 256, img_size = 64\<rparr>,
      bl31 = \<lparr>img_offset = 512, img_size = 0x1004\<rparr>,
      bl33 = \<lparr>img_offset = 4624, img_size = 64\<rparr>, hw_config = zero_image\<rparr>"

lemma sample_parse: "sunxi_fip_parse (Some sample_fip) 5120 (Some zero_layout) =
   Some (0, Some sample_layout)"
  by (simp add: sunxi_fip_parse_def sunxi_fip_parse_loop.simps sample_le64 sample_le32 sample_uuid
   fip_entry_rejected_def entry_uuid_seen_def entry_uuid_seen_loop.simps entry_in_buffer_def
   entry_overlaps_previous_def entry_overlaps_loop.simps fip_note_entry_def set_image_def 
   fip_parse_terminator_def parse_init_def zero_layout_def layout_is_loadable_def scp_bl2_is_valid_def
   bl31_is_valid_def bl33_is_valid_def Let_def zero_image_def sample_layout_def)
end
