(* ===== verification/Fip_Correct.thy ===== *)
theory Fip_Correct
  imports Fip_Parse Fip_Sample
begin

text \<open>
  What \<open>sunxi_fip_parse\<close> guarantees: the set of packages it accepts, the absence of
  out-of-range reads, and the geometry of the layouts it returns.
\<close>

section \<open>The parser\<close>

lemma fip_package_unique: "fip_package b sz n \<Longrightarrow> fip_package b sz m \<Longrightarrow> m = n"
  unfolding fip_package_def using toc_wf_unique by blast

lemma fip_header_dec:
  assumes "readable b (unat image_size)" and "16 \<le> unat image_size"
  shows "get_le32 b 0 = Some (le32 b 0)" and "get_le32 b 4 = Some (le32 b 4)"
  using assms(2) by (auto intro!: get_le32_readable [OF assms(1)])

lemma sunxi_fip_parse_eq:
  assumes "readable b (unat image_size)"
  shows "(\<exists>n. fip_package b (unat image_size) n \<and>
            sunxi_fip_parse (Some b) image_size (Some l0) = Some (0, Some (toc_layout b n))) \<or>
         ((\<forall>n. \<not> fip_package b (unat image_size) n) \<and>
            (\<exists>l. sunxi_fip_parse (Some b) image_size (Some l0) = Some (-1, Some l)))"
proof (cases "fip_header_ok b (unat image_size)")
  case True
  let ?r = "sunxi_fip_parse_loop b image_size 0 FIP_HEADER_SIZE parse_init"
  have out: "parse_outcome b (unat image_size) ?r"
    using assms by (intro sunxi_fip_parse_loop_outcome parse_inv_init) (auto simp: toc_prefix_ok_def)
  have sz: "\<not> image_size < FIP_HEADER_SIZE" "\<not> SUNXI_FIP_MAX_SIZE < image_size"
    using True by (auto simp: fip_header_ok_def word_less_nat_alt)
  have "16 \<le> unat image_size" using True by (simp add: fip_header_ok_def)
  note dec = fip_header_dec [OF assms this]
  have "sunxi_fip_parse (Some b) image_size (Some l0) = map_option (\<lambda>(r, l). (r, Some l)) ?r"
    using True sz unfolding sunxi_fip_parse_def
    by (cases ?r) (auto simp: dec fip_header_ok_def)
  then show ?thesis
    using out True unfolding parse_outcome_def fip_package_def by auto
next
  case False
  show ?thesis
  proof (cases "image_size < FIP_HEADER_SIZE \<or> SUNXI_FIP_MAX_SIZE < image_size")
    case True
    then show ?thesis using False by (auto simp: sunxi_fip_parse_def fip_package_def)
  next
    case sz: False
    then have "16 \<le> unat image_size" and "unat image_size \<le> 0x200000"
      by (auto simp: word_less_nat_alt)
    then show ?thesis
      using False sz fip_header_dec [OF assms \<open>16 \<le> unat image_size\<close>]
      by (auto simp: sunxi_fip_parse_def fip_package_def fip_header_ok_def)
  qed
qed

text \<open>
  C1: \<open>sunxi_fip_parse\<close> returns 0 exactly for the well-formed boot packages, and then the
  layout is the one the table of contents describes. Well-formed means: a valid header, at
  most 37 payload entries with distinct UUIDs whose ranges lie in the package, behind the
  table, below the declared size and do not overlap, the three mandatory images, and payloads
  that pass their validators.
\<close>
theorem sunxi_fip_parse_accepts_iff:
  assumes "readable b (unat image_size)"
  shows "sunxi_fip_parse (Some b) image_size (Some l0) = Some (0, Some l) \<longleftrightarrow>
    (\<exists>n. fip_package b (unat image_size) n \<and> l = toc_layout b n)"
  using sunxi_fip_parse_eq [OF assms, of l0]
proof (elim disjE exE conjE)
  fix n
  assume n: "fip_package b (unat image_size) n"
    and eq: "sunxi_fip_parse (Some b) image_size (Some l0) = Some (0, Some (toc_layout b n))"
  show ?thesis unfolding eq using n by (auto dest: fip_package_unique [OF n])
next
  fix l'
  assume "\<forall>n. \<not> fip_package b (unat image_size) n"
    and "sunxi_fip_parse (Some b) image_size (Some l0) = Some (-1, Some l')"
  then show ?thesis by simp
qed

theorem sunxi_fip_parse_accepts_iff_witness:
  "\<exists>n. fip_package sample_fip 5120 n \<and> sample_layout = toc_layout sample_fip n"
  using sunxi_fip_parse_accepts_iff [of sample_fip 5120 zero_layout sample_layout]
  by (simp add: sample_readable sample_parse)

text \<open>
  C4: the parser is total and reads nothing outside the package: for every content of a
  package of the given size it returns 0 or -1, whatever the offsets and sizes in its table.
\<close>
theorem sunxi_fip_parse_memory_safe:
  assumes "\<And>bytes. img = Some bytes \<Longrightarrow> readable bytes (unat image_size)"
  shows "\<exists>r l. sunxi_fip_parse img image_size lay = Some (r, l) \<and> (r = 0 \<or> r = -1)"
proof (cases img)
  case None
  then show ?thesis by (simp add: sunxi_fip_parse_def)
next
  case (Some bytes)
  show ?thesis
  proof (cases lay)
    case None
    then show ?thesis using Some by (simp add: sunxi_fip_parse_def)
  next
    case lay: (Some l0)
    then show ?thesis
      using sunxi_fip_parse_eq [OF assms [OF Some], of l0] Some by auto
  qed
qed

theorem sunxi_fip_parse_memory_safe_witness:
  "\<exists>r l. sunxi_fip_parse (Some sample_fip) 5120 None = Some (r, l) \<and> (r = 0 \<or> r = -1)"
  by (rule sunxi_fip_parse_memory_safe) (simp add: sample_readable)

section \<open>Accepted layouts\<close>

text \<open>Two payload ranges of the package have no byte in common.\<close>

definition images_disjoint :: "sunxi_fip_image \<Rightarrow> sunxi_fip_image \<Rightarrow> bool" where
  "images_disjoint i j \<longleftrightarrow>
     unat (img_offset i) + unat (img_size i) \<le> unat (img_offset j) \<or>
     unat (img_offset j) + unat (img_size j) \<le> unat (img_offset i)"

lemma toc_wf_entry:
  fixes sz :: u32
  assumes wf: "toc_wf b (unat sz) n" and has: "toc_has b n u"
  obtains i where "i < n" and "toc_uuid b i = u" and "0 < toc_size b i"
    and "unat (img_offset (toc_image b n u)) = toc_off b i"
    and "unat (img_size (toc_image b n u)) = toc_size b i"
    and "16 \<le> toc_off b i" and "toc_end b i \<le> unat sz"
proof -
  obtain i where i: "i < n" "toc_uuid b i = u" "toc_image b n u = entry_image b i"
    using has by (rule toc_image_present)
  have ok: "toc_entry_ok b (unat sz) i" and "toc_pos (Suc n) \<le> toc_off b i"
    using wf i(1) by (simp_all add: toc_wf_def toc_prefix_ok_def)
  then have "0 < toc_size b i" "toc_end b i \<le> unat sz" "16 \<le> toc_off b i"
    by (simp_all add: toc_entry_ok_def)
  moreover note unat_entry_image [OF this(2)]
  ultimately show thesis using that i by simp
qed

lemma toc_images_disjoint:
  fixes sz :: u32
  assumes wf: "toc_wf b (unat sz) n" and "toc_has b n u" and "toc_has b n v" and "u \<noteq> v"
  shows "images_disjoint (toc_image b n u) (toc_image b n v)"
proof -
  obtain i where i: "i < n" "toc_uuid b i = u"
    "unat (img_offset (toc_image b n u)) = toc_off b i" "unat (img_size (toc_image b n u)) = toc_size b i"
    by (rule toc_wf_entry [OF wf assms(2)])
  obtain j where j: "j < n" "toc_uuid b j = v"
    "unat (img_offset (toc_image b n v)) = toc_off b j" "unat (img_size (toc_image b n v)) = toc_size b j"
    by (rule toc_wf_entry [OF wf assms(3)])
  have ok: "toc_entry_ok b (unat sz) i" "toc_entry_ok b (unat sz) j"
    using wf i(1) j(1) by (simp_all add: toc_wf_def toc_prefix_ok_def)
  have "i \<noteq> j" using i(2) j(2) assms(4) by auto
  then show ?thesis
    unfolding images_disjoint_def i(3,4) j(3,4) toc_end_def [symmetric]
    using ok by (metis linorder_neqE_nat toc_entry_ok_def)
qed

text \<open>The geometry that makes a layout safe to load.\<close>

definition layout_safe :: "nat \<Rightarrow> sunxi_fip_layout \<Rightarrow> bool" where
  "layout_safe sz l \<longleftrightarrow>
     (\<forall>i\<in>{scp_bl2 l, bl31 l, bl33 l}.
        0 < img_size i \<and> 16 \<le> unat (img_offset i) \<and> image_inside sz i) \<and>
     images_disjoint (scp_bl2 l) (bl31 l) \<and> images_disjoint (scp_bl2 l) (bl33 l) \<and>
     images_disjoint (bl31 l) (bl33 l) \<and>
     (hw_config l = zero_image \<or>
        0 < img_size (hw_config l) \<and> image_inside sz (hw_config l) \<and>
        (\<forall>i\<in>{scp_bl2 l, bl31 l, bl33 l}. images_disjoint i (hw_config l))) \<and>
     img_size (scp_bl2 l) \<le> SUNXI_FIP_SCP_BL2_MAX_SIZE \<and>
     img_size (bl31 l) \<le> SUNXI_FIP_BL31_MAX_SIZE \<and>
     img_size (bl33 l) \<le> SUNXI_FIP_BL33_MAX_SIZE \<and>
     img_size (hw_config l) \<le> SUNXI_FIP_HW_CONFIG_MAX_SIZE"

lemma fip_package_layout_safe:
  fixes image_size :: u32
  assumes pkg: "fip_package b (unat image_size) n"
  shows "layout_safe (unat image_size) (toc_layout b n)"
proof -
  let ?l = "toc_layout b n"
  have wf: "toc_wf b (unat image_size) n" and has: "toc_has b n scp_bl2_uuid"
    "toc_has b n bl31_uuid" "toc_has b n bl33_uuid"
    and load: "layout_is_loadable b ?l = Some True"
    using pkg by (simp_all add: fip_package_def fip_contents_ok_def)
  have img: "0 < img_size (toc_image b n u) \<and> 16 \<le> unat (img_offset (toc_image b n u)) \<and>
      image_inside (unat image_size) (toc_image b n u)" if "toc_has b n u" for u
    by (rule toc_wf_entry [OF wf that]) (auto simp: image_inside_def word_less_nat_alt toc_end_def)
  have mandatory: "\<forall>i\<in>{scp_bl2 ?l, bl31 ?l, bl33 ?l}.
      0 < img_size i \<and> 16 \<le> unat (img_offset i) \<and> image_inside (unat image_size) i"
    using img has by (auto simp: toc_layout_def)
  have disjoint: "images_disjoint (scp_bl2 ?l) (bl31 ?l) \<and> images_disjoint (scp_bl2 ?l) (bl33 ?l) \<and>
      images_disjoint (bl31 ?l) (bl33 ?l)"
    using has by (auto simp: toc_layout_def intro!: toc_images_disjoint [OF wf])
  have optional: "hw_config ?l = zero_image \<or> 0 < img_size (hw_config ?l) \<and>
      image_inside (unat image_size) (hw_config ?l) \<and>
      (\<forall>i\<in>{scp_bl2 ?l, bl31 ?l, bl33 ?l}. images_disjoint i (hw_config ?l))"
    using img [of hw_config_uuid] has toc_image_absent [of b n hw_config_uuid]
    by (cases "toc_has b n hw_config_uuid")
      (auto simp: toc_layout_def intro!: toc_images_disjoint [OF wf])
  have "img_size (scp_bl2 ?l) \<le> SUNXI_FIP_SCP_BL2_MAX_SIZE \<and>
      img_size (bl31 ?l) \<le> SUNXI_FIP_BL31_MAX_SIZE \<and> img_size (bl33 ?l) \<le> SUNXI_FIP_BL33_MAX_SIZE \<and>
      img_size (hw_config ?l) \<le> SUNXI_FIP_HW_CONFIG_MAX_SIZE"
    using load unfolding layout_is_loadable_def allM_True by simp
  with mandatory disjoint optional show ?thesis unfolding layout_safe_def by blast
qed

text \<open>
  C6: every accepted layout is safe to load: the package is at most 2 MiB, the three
  mandatory images are non-empty, all images lie inside the package behind its header and are
  pairwise disjoint, and each fits the load window of its kind.
\<close>
theorem sunxi_fip_parse_layout_safe:
  assumes "readable b (unat image_size)"
    and "sunxi_fip_parse (Some b) image_size (Some l0) = Some (0, Some l)"
  shows "image_size \<le> SUNXI_FIP_MAX_SIZE \<and> layout_safe (unat image_size) l"
proof -
  obtain n where "fip_package b (unat image_size) n" and "l = toc_layout b n"
    using sunxi_fip_parse_eq [OF assms(1), of l0] assms(2) by auto
  then show ?thesis
    using fip_package_layout_safe [of b image_size n]
    by (simp add: fip_package_def fip_header_ok_def word_le_nat_alt)
qed

theorem sunxi_fip_parse_layout_safe_witness:
  "(5120::u32) \<le> SUNXI_FIP_MAX_SIZE \<and> layout_safe 5120 sample_layout"
  using sunxi_fip_parse_layout_safe [of sample_fip 5120 zero_layout sample_layout]
  by (simp add: sample_readable sample_parse)

end
