(* ===== verification/Fip_Load.thy ===== *)
theory Fip_Load
  imports Fip_Correct
begin

text \<open>
  Reading the package from the boot medium and copying its images: the size taken from the
  table, the two-step read, the fall-back to the backup copy and the order of the copies. The
  callbacks of \<^verbatim>\<open>sunxi_fip.c\<close> are interfaces: \<open>fip_medium\<close> states what the loader relies on
  from a block-read callback and \<open>fip_target\<close> what it relies on from a copy callback.
\<close>

unbundle bit_operations_syntax

section \<open>The declared size\<close>

lemma unat_round_up_sectors:
  fixes d :: u64
  assumes "unat d \<le> 0x200000"
  shows "unat ((d + 511) AND NOT 511) = (unat d + 511) div 512 * 512"
proof -
  let ?x = "d + 511"
  have "NOT (511 :: u64) = NOT (mask 9)" by (simp add: mask_eq_exp_minus_1)
  then have "?x AND NOT 511 = push_bit 9 (drop_bit 9 ?x)"
    by (auto simp: bit_eq_iff bit_simps)
  moreover have "unat ?x = unat d + 511"
    using assms by (simp add: unat_word_ariths)
  ultimately show ?thesis
    using assms by (simp add: unsigned_push_bit_eq unsigned_drop_bit_eq take_bit_eq_mod
        push_bit_nat_def drop_bit_nat_def)
qed

text \<open>What an accepted size satisfies: the sectors it takes fit the staging buffer.\<close>

definition fits_staging :: "u32 \<Rightarrow> u32 \<Rightarrow> bool" where
  "fits_staging capacity n \<longleftrightarrow>
     56 \<le> unat n \<and> unat n \<le> 0x200000 \<and> (unat n + 511) div 512 * 512 \<le> unat capacity"

text \<open>The checks on the null entry \<open>k\<close>.\<close>

definition size_entry_ok :: "buf \<Rightarrow> u32 \<Rightarrow> nat \<Rightarrow> bool" where
  "size_entry_ok b capacity k \<longleftrightarrow>
     toc_size b k = 0 \<and> toc_flags b k = 0 \<and> toc_pos (Suc k) \<le> toc_off b k \<and>
     toc_off b k \<le> 0x200000 \<and> (toc_off b k + 511) div 512 * 512 \<le> unat capacity"

lemma fip_size_loop_last:
  assumes read: "readable b (unat ms)" and pos: "toc_pos (Suc k) \<le> unat ms"
    and off: "unat entry_offset = toc_pos k" and k: "k < FIP_MAX_TOC_ENTRIES"
    and null: "toc_uuid b k = null_uuid"
  shows "fip_size_loop b ms capacity k entry_offset =
    Some (if size_entry_ok b capacity k then Some (ucast (le64 b (toc_pos k + 16))) else None)"
proof -
  let ?d = "le64 b (toc_pos k + 16)"
  have dec: "get_le64 b (toc_pos k + 16) = Some ?d"
    "get_le64 b (toc_pos k + 24) = Some (le64 b (toc_pos k + 24))"
    "get_le64 b (toc_pos k + 32) = Some (le64 b (toc_pos k + 32))"
    using pos by (auto intro!: get_le64_readable [OF read])
  have isnull: "uuid_is_null b (toc_pos k) = Some True"
    using pos null unfolding toc_uuid_def null_uuid_def
    by (subst uuid_is_null_readable) (auto intro!: readable_mono [OF read])
  have meta: "unat (entry_offset + FIP_ENTRY_SIZE) = toc_pos (Suc k)"
    using off k by (simp add: unat_word_ariths)
  have rounded: "?d > 0x200000 \<or> (?d + 511) AND NOT 511 < ?d \<or> (?d + 511) AND NOT 511 > ucast capacity \<longleftrightarrow>
      \<not> (toc_off b k \<le> 0x200000 \<and> (toc_off b k + 511) div 512 * 512 \<le> unat capacity)"
  proof (cases "unat ?d \<le> 0x200000")
    case True
    show ?thesis
      unfolding word_less_nat_alt unat_ucast_32_64 unat_round_up_sectors [OF True] toc_off_def
      using True by auto
  next
    case False
    then show ?thesis unfolding word_less_nat_alt toc_off_def by simp
  qed
  have conds: "?d < ucast (entry_offset + FIP_ENTRY_SIZE) \<longleftrightarrow> \<not> toc_pos (Suc k) \<le> toc_off b k"
    "le64 b (toc_pos k + 24) \<noteq> 0 \<longleftrightarrow> toc_size b k \<noteq> 0"
    "le64 b (toc_pos k + 32) \<noteq> 0 \<longleftrightarrow> toc_flags b k \<noteq> 0"
    unfolding word_less_nat_alt unat_ucast_32_64 meta
    by (auto simp: toc_off_def toc_size_def toc_flags_def unat_0_iff)
  have fits: "\<not> (entry_offset > ms \<or> ms - entry_offset < FIP_ENTRY_SIZE)"
    using pos by (simp add: entry_beyond_iff [OF off])
  show ?thesis
    using fits k rounded
    unfolding fip_size_loop.simps [of b ms capacity k] off isnull dec Let_def Option.bind.simps
      option.map conds size_entry_ok_def
    by auto
qed

lemma fip_size_loop_skip:
  assumes read: "readable b (unat ms)" and pos: "toc_pos (Suc k) \<le> unat ms"
    and off: "unat entry_offset = toc_pos k" and k: "k < FIP_MAX_TOC_ENTRIES"
    and null: "toc_uuid b k \<noteq> null_uuid"
  shows "fip_size_loop b ms capacity k entry_offset =
    fip_size_loop b ms capacity (Suc k) (entry_offset + FIP_ENTRY_SIZE)"
proof -
  have isnull: "uuid_is_null b (unat entry_offset) = Some False"
    using pos null unfolding toc_uuid_def null_uuid_def off
    by (subst uuid_is_null_readable) (auto intro!: readable_mono [OF read])
  have fits: "\<not> (entry_offset > ms \<or> ms - entry_offset < FIP_ENTRY_SIZE)"
    using pos by (simp add: entry_beyond_iff [OF off])
  show ?thesis using k isnull fits by (simp add: fip_size_loop.simps [of b ms capacity k])
qed

lemma size_entry_fits:
  assumes "size_entry_ok b capacity k"
  shows "fits_staging capacity (ucast (le64 b (toc_pos k + 16)))"
    and "unat (ucast (le64 b (toc_pos k + 16)) :: u32) = toc_off b k"
proof -
  have "unat (le64 b (toc_pos k + 16)) < 4294967296"
    using assms by (simp add: size_entry_ok_def toc_off_def)
  then show eq: "unat (ucast (le64 b (toc_pos k + 16)) :: u32) = toc_off b k"
    by (simp add: unat_ucast_64_32 toc_off_def)
  show "fits_staging capacity (ucast (le64 b (toc_pos k + 16)))"
    using assms unfolding fits_staging_def eq size_entry_ok_def by simp
qed

text \<open>The size search is total, and a size it returns fits the staging buffer.\<close>

lemma fip_size_loop_outcome:
  assumes "readable b (unat ms)" and "unat entry_offset = toc_pos k" and "k \<le> FIP_MAX_TOC_ENTRIES"
  shows "\<exists>r. fip_size_loop b ms capacity k entry_offset = Some r \<and>
    (\<forall>n. r = Some n \<longrightarrow> fits_staging capacity n)"
  using assms
proof (induction "FIP_MAX_TOC_ENTRIES - k" arbitrary: k entry_offset)
  case 0
  then have "k = 38" by simp
  then show ?case by (simp add: fip_size_loop.simps [of b ms capacity 38])
next
  case (Suc d)
  then have k: "k < 38" and d: "d = 38 - Suc k" by auto
  show ?case
  proof (cases "toc_pos (Suc k) \<le> unat ms")
    case False
    then have "entry_offset > ms \<or> ms - entry_offset < FIP_ENTRY_SIZE"
      by (simp add: entry_beyond_iff [OF Suc.prems(2)])
    then show ?thesis using k by (auto simp: fip_size_loop.simps [of b ms capacity k])
  next
    case pos: True
    show ?thesis
    proof (cases "toc_uuid b k = null_uuid")
      case True
      then show ?thesis
        using size_entry_fits(1) [of b capacity k]
        by (auto simp: fip_size_loop_last [OF Suc.prems(1) pos Suc.prems(2) k])
    next
      case False
      have "unat (entry_offset + FIP_ENTRY_SIZE) = toc_pos (Suc k)"
        using Suc.prems(2) k by (simp add: unat_word_ariths)
      then show ?thesis
        using Suc.hyps(1) [OF d Suc.prems(1)] k
        by (simp add: fip_size_loop_skip [OF Suc.prems(1) pos Suc.prems(2) k False])
    qed
  qed
qed

lemma get_fip_size_outcome:
  assumes "readable b 1536"
  shows "\<exists>r. get_fip_size_from_toc b FIP_METADATA_SIZE capacity = Some r \<and>
    (\<forall>n. r = Some n \<longrightarrow> fits_staging capacity n)"
proof -
  have dec: "get_le32 b 0 = Some (le32 b 0)" "get_le32 b 4 = Some (le32 b 4)"
    using get_le32_readable [OF assms, of 0] get_le32_readable [OF assms, of 4] by simp_all
  show ?thesis
    unfolding get_fip_size_from_toc_def dec
    using fip_size_loop_outcome [of b FIP_METADATA_SIZE FIP_HEADER_SIZE 0 capacity] assms by auto
qed

text \<open>The search finds the size that the first null entry declares.\<close>

lemma fip_size_loop_finds:
  assumes read: "readable b 1536" and n: "n < FIP_MAX_TOC_ENTRIES"
    and pre: "\<forall>i<n. toc_uuid b i \<noteq> null_uuid" and null: "toc_uuid b n = null_uuid"
    and ok: "size_entry_ok b capacity n"
  shows "k \<le> n \<Longrightarrow> unat entry_offset = toc_pos k \<Longrightarrow>
    fip_size_loop b FIP_METADATA_SIZE capacity k entry_offset = Some (Some (ucast (le64 b (toc_pos n + 16))))"
proof (induction "n - k" arbitrary: k entry_offset)
  case 0
  then show ?case
    using read n null ok by (simp add: fip_size_loop_last)
next
  case (Suc d)
  then have "k < n" "d = n - Suc k" by auto
  moreover have "unat (entry_offset + FIP_ENTRY_SIZE) = toc_pos (Suc k)"
    using Suc.prems \<open>k < n\<close> n by (simp add: unat_word_ariths)
  ultimately show ?case
    using Suc.hyps(1) [of "Suc k" "entry_offset + FIP_ENTRY_SIZE"] Suc.prems read n pre
    by (simp add: fip_size_loop_skip)
qed

section \<open>Reading one copy\<close>

lemma unat_sector_count:
  fixes n :: u32
  assumes "unat n \<le> 0x200000"
  shows "unat ((n + FIP_SECTOR_SIZE - 1) div FIP_SECTOR_SIZE) = (unat n + 511) div 512"
proof -
  have "n + FIP_SECTOR_SIZE - 1 = n + 511" by simp
  then show ?thesis using assms by (simp add: unat_div unat_word_ariths)
qed

text \<open>
  The outcome of reading one copy: a failure leaves the size 0; a success leaves an accepted
  package of the returned size in the staging buffer.
\<close>

definition read_outcome :: "('w \<Rightarrow> buf) \<Rightarrow> u32 \<Rightarrow> int \<Rightarrow> u32 \<Rightarrow> 'w \<Rightarrow> bool" where
  "read_outcome view capacity rc n w \<longleftrightarrow>
     rc = -1 \<and> n = 0 \<or>
     rc = 0 \<and> fits_staging capacity n \<and> (\<exists>k. fip_package (view w) (unat n) k)"

lemma read_image_outcome:
  assumes view: "\<And>w. readable (view w) (unat capacity)"
    and keep: "\<And>s c w. unat c * 512 \<le> unat capacity \<Longrightarrow> I w \<Longrightarrow> I (snd (run_state (rd s c) w))"
    and I: "I w"
  shows "\<exists>rc n w'. run_state (sunxi_fip_read_image start (Some view) capacity (Some rd) (Some z)) w
      = (Some (rc, Some n), w') \<and> I w' \<and> read_outcome view capacity rc n w'"
proof (cases "capacity < FIP_METADATA_SIZE")
  case True
  then show ?thesis using I by (simp add: sunxi_fip_read_image_def read_outcome_def)
next
  case False
  then have cap: "1536 \<le> unat capacity" by (simp add: word_less_nat_alt)
  obtain r1 w1 where r1: "run_state (rd start FIP_TOC_SECTORS) w = (r1, w1)" by fastforce
  have I1: "I w1" using keep [of FIP_TOC_SECTORS w start] I cap r1 by simp
  obtain sz where sz: "get_fip_size_from_toc (view w1) FIP_METADATA_SIZE capacity = Some sz"
    and fits: "\<And>n. sz = Some n \<Longrightarrow> fits_staging capacity n"
    using get_fip_size_outcome [of "view w1" capacity] readable_mono [OF view cap] by blast
  show ?thesis
  proof (cases "r1 = 1 \<and> sz \<noteq> None")
    case False
    then show ?thesis
      using I1 sz r1 \<open>\<not> capacity < FIP_METADATA_SIZE\<close>
      by (auto simp: sunxi_fip_read_image_def read_outcome_def)
  next
    case True
    then obtain n where n: "sz = Some n" by auto
    note fit = fits [OF n]
    let ?c = "(n + FIP_SECTOR_SIZE - 1) div FIP_SECTOR_SIZE"
    obtain r2 w2 where r2: "run_state (rd start ?c) w1 = (r2, w2)" by fastforce
    have "unat ?c * 512 \<le> unat capacity"
      using fit by (subst unat_sector_count) (simp_all add: fits_staging_def)
    then have I2: "I w2" using keep [of ?c w1 start] I1 r2 by simp
    have "unat n \<le> unat capacity" using fit by (auto simp: fits_staging_def)
    then have read: "readable (view w2) (unat n)" using readable_mono [OF view] by blast
    note run = sunxi_fip_read_image_def Let_def
    show ?thesis
      using sunxi_fip_parse_eq [OF read, of zero_layout]
    proof (elim disjE exE conjE)
      fix k
      assume "fip_package (view w2) (unat n) k"
        and "sunxi_fip_parse (Some (view w2)) n (Some zero_layout) =
          Some (0, Some (toc_layout (view w2) k))"
      then show ?thesis
        using True n sz r1 r2 I2 fit \<open>\<not> capacity < FIP_METADATA_SIZE\<close>
        by (auto simp: run read_outcome_def)
    next
      fix l
      assume "sunxi_fip_parse (Some (view w2)) n (Some zero_layout) = Some (-1, Some l)"
      then show ?thesis
        using True n sz r1 r2 I2 \<open>\<not> capacity < FIP_METADATA_SIZE\<close>
        by (auto simp: run read_outcome_def)
    qed
  qed
qed

section \<open>Primary and backup\<close>

lemma read_redundant_outcome:
  assumes view: "\<And>w. readable (view w) (unat capacity)"
    and keep: "\<And>s c w. unat c * 512 \<le> unat capacity \<Longrightarrow> I w \<Longrightarrow> I (snd (run_state (rd s c) w))"
    and I: "I w"
  shows "\<exists>rc n u w'. run_state (sunxi_fip_read_redundant primary backup (Some view) capacity (Some rd)
        (Some z) (Some z')) w = (Some (rc, Some n, Some u), w') \<and> I w' \<and>
      read_outcome view capacity rc n w' \<and> (rc = -1 \<longrightarrow> u = 0) \<and>
      (rc = 0 \<longrightarrow> u = primary \<or>
         u = backup \<and> backup \<noteq> 0 \<and>
         fst (run_state (sunxi_fip_read_image primary (Some view) capacity (Some rd) (Some 0)) w)
           = Some (-1, Some 0))"
proof -
  obtain rc n w1 where p: "run_state (sunxi_fip_read_image primary (Some view) capacity (Some rd) (Some 0)) w
      = (Some (rc, Some n), w1)" and I1: "I w1" and o1: "read_outcome view capacity rc n w1"
    using read_image_outcome [of view capacity I rd w primary 0] view keep I by blast
  obtain rc' n' w2 where b: "run_state (sunxi_fip_read_image backup (Some view) capacity (Some rd) (Some n)) w1
      = (Some (rc', Some n'), w2)" and I2: "I w2" and o2: "read_outcome view capacity rc' n' w2"
    using read_image_outcome [of view capacity I rd w1 backup n] view keep I1 by blast
  show ?thesis
  proof (cases "rc = 0 \<or> backup = 0 \<or> backup = primary")
    case True
    then show ?thesis
      using p I1 o1 by (auto simp: sunxi_fip_read_redundant_def read_outcome_def)
  next
    case False
    then have "rc = -1" "n = 0" using o1 by (auto simp: read_outcome_def)
    then show ?thesis
      using False p b I2 o2 by (auto simp: sunxi_fip_read_redundant_def read_outcome_def)
  qed
qed

text \<open>
  C7: the redundant load never leaves the staging buffer and reports honestly. The read
  callback is only called for sector counts that fit the buffer (any property \<open>I\<close> of the world
  that such reads and the copies keep is kept by the load); the load returns; on failure the
  reported size and sector are 0; on success the buffer held an accepted package of the
  reported size, its images were copied by a successful run of the copies, and the sector is
  the primary one or, only after reading the primary copy failed, the backup one.
\<close>
theorem sunxi_fip_load_redundant_outcome:
  assumes view: "\<And>w. readable (view w) (unat capacity)"
    and read: "\<And>s c w. unat c * 512 \<le> unat capacity \<Longrightarrow> I w \<Longrightarrow> I (snd (run_state (rd s c) w))"
    and copy: "\<And>l w. I w \<Longrightarrow> I (snd (run_state (copy_parsed cp l) w))"
    and I: "I w"
  shows "\<exists>rc n u w'. run_state (sunxi_fip_load_redundant primary backup (Some view) capacity
        (Some rd) (Some cp) (Some z) (Some z')) w = (Some (rc, Some n, Some u), w') \<and> I w' \<and>
      (rc = -1 \<and> n = 0 \<and> u = 0 \<or>
       rc = 0 \<and> fits_staging capacity n \<and>
       (\<exists>w1 k. fip_package (view w1) (unat n) k \<and>
               run_state (copy_parsed cp (toc_layout (view w1) k)) w1 = (0, w')) \<and>
       (u = primary \<or>
        u = backup \<and> backup \<noteq> 0 \<and>
        fst (run_state (sunxi_fip_read_image primary (Some view) capacity (Some rd) (Some 0)) w)
          = Some (-1, Some 0)))"
proof -
  obtain rc n u w1 where r: "run_state (sunxi_fip_read_redundant primary backup (Some view) capacity
        (Some rd) (Some z) (Some z')) w = (Some (rc, Some n, Some u), w1)" and I1: "I w1"
    and o1: "read_outcome view capacity rc n w1" and u0: "rc = -1 \<longrightarrow> u = 0"
    and u: "rc = 0 \<longrightarrow> u = primary \<or> u = backup \<and> backup \<noteq> 0 \<and>
         fst (run_state (sunxi_fip_read_image primary (Some view) capacity (Some rd) (Some 0)) w)
           = Some (-1, Some 0)"
    using read_redundant_outcome [of view capacity I rd w primary backup z z'] view read I by blast
  show ?thesis
  proof (cases "rc = 0")
    case False
    then have "rc = -1" "n = 0" using o1 by (auto simp: read_outcome_def)
    then show ?thesis using r I1 u0 by (simp add: sunxi_fip_load_redundant_def)
  next
    case True
    then have fit: "fits_staging capacity n" and "\<exists>k. fip_package (view w1) (unat n) k"
      using o1 by (auto simp: read_outcome_def)
    then obtain k where k: "fip_package (view w1) (unat n) k" by blast
    have "unat n \<le> unat capacity" using fit by (auto simp: fits_staging_def)
    then have "readable (view w1) (unat n)" using readable_mono [OF view] by blast
    then have parse: "sunxi_fip_parse (Some (view w1)) n (Some zero_layout) =
        Some (0, Some (toc_layout (view w1) k))"
      using sunxi_fip_parse_eq [of "view w1" n zero_layout] k fip_package_unique by metis
    obtain c w2 where c: "run_state (copy_parsed cp (toc_layout (view w1) k)) w1 = (c, w2)" by fastforce
    have "I w2" using copy [OF I1, of "toc_layout (view w1) k"] c by simp
    then show ?thesis
      using True r parse c fit k u
      by (cases "c = 0") (auto simp: sunxi_fip_load_redundant_def sunxi_fip_copy_images_def)
  qed
qed

theorem sunxi_fip_load_redundant_outcome_witness:
  "\<exists>rc n u w'. run_state (sunxi_fip_load_redundant 32800 24576 (Some (\<lambda>_::unit. sample_fip)) 5120
        (Some (\<lambda>_ _. ret 1)) (Some (\<lambda>_ _ _. ret 0)) (Some 0) (Some 0)) () = (Some (rc, Some n, Some u), w')"
proof -
  have read: "readable sample_fip (unat (5120::u32))" by (simp add: sample_readable)
  show ?thesis
    using sunxi_fip_load_redundant_outcome [of "\<lambda>_. sample_fip" 5120 "\<lambda>_. True" "\<lambda>_ _. ret 1"
        "\<lambda>_ _ _. ret 0" "()" 32800 24576 0 0, OF read TrueI TrueI TrueI]
    by blast
qed

section \<open>Only the bytes of the package matter\<close>

definition agree :: "nat \<Rightarrow> buf \<Rightarrow> buf \<Rightarrow> bool" where
  "agree n b b' \<longleftrightarrow> (\<forall>i<n. b i = b' i)"

lemma agree_mono: "agree n b b' \<Longrightarrow> m \<le> n \<Longrightarrow> agree m b b'"
  by (simp add: agree_def)

lemma agree_le32: "agree n b b' \<Longrightarrow> p + 4 \<le> n \<Longrightarrow> get_le32 b p = get_le32 b' p"
  by (simp add: agree_def get_le32_def)

lemma agree_be32: "agree n b b' \<Longrightarrow> p + 4 \<le> n \<Longrightarrow> get_be32 b p = get_be32 b' p"
  by (simp add: agree_def get_be32_def)

lemma get_le64_loop_cong:
  "\<forall>j<8. b (p + j) = b' (p + j) \<Longrightarrow> get_le64_loop b p i v = get_le64_loop b' p i v"
proof (induction b p i v rule: get_le64_loop.induct)
  case (1 b p i v)
  then show ?case
    by (subst (1 2) get_le64_loop.simps) (auto split: option.split)
qed

lemma agree_le64: "agree n b b' \<Longrightarrow> p + 8 \<le> n \<Longrightarrow> get_le64 b p = get_le64 b' p"
  unfolding get_le64_def by (rule get_le64_loop_cong) (simp add: agree_def)

lemma agree_bytes_at: "agree n b b' \<Longrightarrow> p + m \<le> n \<Longrightarrow> bytes_at b p m = bytes_at b' p m"
  by (simp add: agree_def bytes_at_def)

lemma agree_readable: "agree n b b' \<Longrightarrow> m \<le> n \<Longrightarrow> readable b m \<Longrightarrow> readable b' m"
  by (simp add: agree_def readable_def)

lemma agree_toc:
  assumes "agree n b b'" and "toc_pos (Suc i) \<le> n"
  shows "toc_uuid b' i = toc_uuid b i" "toc_off b' i = toc_off b i" "toc_size b' i = toc_size b i"
    "toc_end b' i = toc_end b i" "toc_flags b' i = toc_flags b i" "entry_image b' i = entry_image b i"
  using assms(2) agree_le64 [OF assms(1), of "toc_pos i + 16"]
    agree_le64 [OF assms(1), of "toc_pos i + 24"] agree_le64 [OF assms(1), of "toc_pos i + 32"]
    agree_bytes_at [OF assms(1), of "toc_pos i" 16]
  by (simp_all add: toc_defs le64_def entry_image_def)

lemma agree_scp_bl2_is_valid:
  assumes "agree n b b'" and "image_inside n i"
  shows "scp_bl2_is_valid b' i = scp_bl2_is_valid b i"
proof (cases "img_size i < 64")
  case False
  then have "unat (img_offset i) + 64 \<le> n"
    using assms(2) by (simp add: word_less_nat_alt image_inside_def)
  then have eqs: "get_le32 b' (unat (img_offset i) + 0) = get_le32 b (unat (img_offset i))"
    "get_le32 b' (unat (img_offset i) + 4) = get_le32 b (unat (img_offset i) + 4)"
    "get_le32 b' (unat (img_offset i) + 8) = get_le32 b (unat (img_offset i) + 8)"
    "get_le32 b' (unat (img_offset i) + 12) = get_le32 b (unat (img_offset i) + 12)"
    "get_le32 b' (unat (img_offset i) + 16) = get_le32 b (unat (img_offset i) + 16)"
    "get_le32 b' (unat (img_offset i) + 20) = get_le32 b (unat (img_offset i) + 20)"
    by (simp_all add: agree_le32 [OF assms(1)])
  show ?thesis unfolding scp_bl2_is_valid_def Let_def eqs [unfolded add_0_right] ..
qed (simp add: scp_bl2_is_valid_def)

lemma agree_bl31_is_valid:
  assumes ag: "agree n b b'" and read: "readable b n" and "image_inside n i"
  shows "bl31_is_valid b' i = bl31_is_valid b i"
proof (cases "img_size i < 0x1004")
  case False
  let ?m = "unat (img_offset i)"
  have room: "?m + 0x1004 \<le> n"
    using False assms(3) by (simp add: word_less_nat_alt image_inside_def)
  then have eqs: "get_le32 b' ?m = get_le32 b ?m" "get_le32 b' (?m + 0x2c) = get_le32 b (?m + 0x2c)"
    "get_le32 b' (?m + 0x1000) = get_le32 b (?m + 0x1000)"
    by (simp_all add: agree_le32 [OF ag])
  have p: "?m + 4 + 8 \<le> n" using room by simp
  have "readable b (?m + 4 + 8)" "readable b' (?m + 4 + 8)"
    using readable_mono [OF read p] agree_readable [OF ag p] by blast+
  moreover have "readable (buf_of_list monitor_magic) (0 + 8)" by (simp add: monitor_magic_def)
  ultimately have magic: "bytes_equal b' (?m + 4) (buf_of_list monitor_magic) 0 8 =
      bytes_equal b (?m + 4) (buf_of_list monitor_magic) 0 8"
    using agree_bytes_at [OF ag p] by (simp only: bytes_equal_readable)
  show ?thesis unfolding bl31_is_valid_def Let_def eqs magic ..
qed (simp add: bl31_is_valid_def)

lemma agree_bl33_is_valid:
  assumes "agree n b b'" and "image_inside n i"
  shows "bl33_is_valid b' i = bl33_is_valid b i"
proof (cases "img_size i < 64")
  case False
  then have "unat (img_offset i) + 4 \<le> n"
    using assms(2) by (simp add: word_less_nat_alt image_inside_def)
  note eq = agree_le32 [OF assms(1) this]
  show ?thesis unfolding bl33_is_valid_def eq ..
qed (simp add: bl33_is_valid_def)

lemma agree_layout_is_loadable:
  assumes "agree n b b'" and "readable b n" and "layout_inside n l"
  shows "layout_is_loadable b' l = layout_is_loadable b l"
  using assms
  by (simp add: layout_is_loadable_def layout_inside_def agree_scp_bl2_is_valid
      agree_bl31_is_valid agree_bl33_is_valid)

lemma agree_hw_config_is_valid:
  assumes "agree n b b'" and "p + unat sz \<le> n"
  shows "hw_config_is_valid b' p sz = hw_config_is_valid b p sz"
proof (cases "sz < 40")
  case False
  then have "p + 40 \<le> n" using assms(2) by (simp add: word_less_nat_alt)
  then have eqs: "get_be32 b' p = get_be32 b p" "get_be32 b' (p + 4) = get_be32 b (p + 4)"
    "get_be32 b' (p + 8) = get_be32 b (p + 8)" "get_be32 b' (p + 12) = get_be32 b (p + 12)"
    "get_be32 b' (p + 16) = get_be32 b (p + 16)" "get_be32 b' (p + 20) = get_be32 b (p + 20)"
    "get_be32 b' (p + 24) = get_be32 b (p + 24)" "get_be32 b' (p + 32) = get_be32 b (p + 32)"
    "get_be32 b' (p + 36) = get_be32 b (p + 36)"
    by (simp_all add: agree_be32 [OF assms(1)])
  show ?thesis unfolding hw_config_is_valid_def eqs ..
qed (simp add: hw_config_is_valid_def)

lemma fip_package_agree:
  fixes sz :: u32
  assumes ag: "agree (unat sz) b b'" and read: "readable b (unat sz)"
    and pkg: "fip_package b (unat sz) k"
  shows "fip_package b' (unat sz) k" and "toc_layout b' k = toc_layout b k"
proof -
  have wf: "toc_wf b (unat sz) k" and hdr: "fip_header_ok b (unat sz)" and cont: "fip_contents_ok b k"
    using pkg by (simp_all add: fip_package_def)
  have pos: "toc_pos (Suc i) \<le> unat sz" if "i \<le> k" for i
    using wf that by (auto simp: toc_wf_def)
  note toc = agree_toc [OF ag pos]
  have has: "toc_has b' k u = toc_has b k u" for u
    using toc(1) by (auto simp: toc_has_def)
  have "find (\<lambda>i. toc_uuid b' i = u) [0..<k] = find (\<lambda>i. toc_uuid b i = u) [0..<k]" for u
    using toc(1) by (intro find_cong) auto
  moreover have "entry_image b' i = entry_image b i" if "find P [0..<k] = Some i" for P i
    using that toc(6) [of i] by (auto simp: find_Some_iff)
  ultimately have img: "toc_image b' k u = toc_image b k u" for u
    by (auto simp: toc_image_def split: option.split)
  then show lay: "toc_layout b' k = toc_layout b k" by (simp add: toc_layout_def)
  have "toc_entry_ok b' (unat sz) i = toc_entry_ok b (unat sz) i" if "i < k" for i
    using that toc by (auto simp: toc_entry_ok_def)
  then have "toc_prefix_ok b' (unat sz) k"
    using wf toc(1) by (simp add: toc_wf_def toc_prefix_ok_def)
  then have wf': "toc_wf b' (unat sz) k"
    using wf toc by (simp add: toc_wf_def)
  have "toc_prefix_ok b (unat sz) k" using wf by (simp add: toc_wf_def)
  then have inside: "layout_inside (unat sz) (toc_layout b k)" by (rule toc_layout_inside)
  have "unat (img_offset (hw_config (toc_layout b k))) + unat (img_size (hw_config (toc_layout b k))) \<le> unat sz"
    using inside by (simp add: layout_inside_def image_inside_def)
  then have "fip_contents_ok b' k"
    using cont agree_layout_is_loadable [OF ag read inside] agree_hw_config_is_valid [OF ag]
    by (simp add: fip_contents_ok_def has lay)
  moreover have "fip_header_ok b' (unat sz)"
    using hdr agree_le32 [OF ag, of 0] agree_le32 [OF ag, of 4] by (simp add: fip_header_ok_def le32_def)
  ultimately show "fip_package b' (unat sz) k" using wf' by (simp add: fip_package_def)
qed

section \<open>The boot medium\<close>

text \<open>
  What the loader relies on in its read callback: a read of \<open>c\<close> sectors from sector \<open>s\<close> that
  fits the staging buffer and returns 1 has put the bytes of the medium there. The law is
  conditional on \<open>contract\<close>, what the callback in turn expects of the storage driver below it.
\<close>

locale fip_medium =
  fixes view :: "'w \<Rightarrow> buf" and rd :: "'w read_fn" and capacity :: u32
    and medium :: "nat \<Rightarrow> u8" and contract :: bool
  assumes capacity_min: "1536 \<le> unat capacity"
    and view_readable: "readable (view w) (unat capacity)"
    and rd_fills: "contract \<Longrightarrow> run_state (rd s c) w = (1, w') \<Longrightarrow> unat c * 512 \<le> unat capacity \<Longrightarrow>
           i < unat c * 512 \<Longrightarrow> view w' i = Some (medium (unat s * 512 + i))"
begin

text \<open>The medium from a sector on, as a buffer.\<close>

definition medium_at :: "u32 \<Rightarrow> buf" where
  "medium_at s = (\<lambda>i. Some (medium (unat s * 512 + i)))"

lemma medium_at_readable [simp]: "readable (medium_at s) n"
  by (simp add: readable_def medium_at_def)

lemma rd_agree:
  "contract \<Longrightarrow> run_state (rd s c) w = (1, w') \<Longrightarrow> unat c * 512 \<le> unat capacity \<Longrightarrow> n \<le> unat c * 512 \<Longrightarrow>
     agree n (medium_at s) (view w')"
  by (auto simp: agree_def medium_at_def rd_fills)

text \<open>A valid package at sector \<open>s\<close> whose terminator declares its size \<open>n\<close>.\<close>

definition package_at :: "u32 \<Rightarrow> u32 \<Rightarrow> nat \<Rightarrow> bool" where
  "package_at s n k \<longleftrightarrow> fip_package (medium_at s) (unat n) k \<and>
     toc_off (medium_at s) k = unat n \<and> fits_staging capacity n"

lemma toc_size_found:
  assumes pkg: "package_at s n k" and ag: "agree 1536 (medium_at s) b"
  shows "get_fip_size_from_toc b FIP_METADATA_SIZE capacity = Some (Some n)"
proof -
  have wf: "toc_wf (medium_at s) (unat n) k" and hdr: "fip_header_ok (medium_at s) (unat n)"
    and off: "toc_off (medium_at s) k = unat n" and fit: "fits_staging capacity n"
    using pkg by (simp_all add: package_at_def fip_package_def)
  have k: "k < FIP_MAX_TOC_ENTRIES" using wf by (simp add: toc_wf_def)
  have read: "readable b 1536" by (rule agree_readable [OF ag order_refl]) simp
  have toc: "toc_uuid b i = toc_uuid (medium_at s) i" "toc_off b i = toc_off (medium_at s) i"
    "toc_size b i = toc_size (medium_at s) i" "toc_flags b i = toc_flags (medium_at s) i"
    if "i \<le> k" for i
    using agree_toc [OF ag, of i] that k by simp_all
  have ok: "size_entry_ok b capacity k"
    using wf off fit toc [of k] by (simp add: size_entry_ok_def toc_wf_def fits_staging_def)
  have "unat (ucast (le64 b (toc_pos k + 16)) :: u32) = unat n"
    using toc(2) [of k] off unat_u32_lt [of n]
    by (subst unat_ucast_64_32) (simp_all add: toc_off_def)
  then have n: "ucast (le64 b (toc_pos k + 16)) = n" by (simp only: word_unat_eq_iff)
  have "get_le32 b p = Some (le32 (medium_at s) p)" if "p + 4 \<le> 1536" for p
    using agree_le32 [OF ag that] get_le32_readable [OF medium_at_readable that] by (rule trans [OF sym])
  then have "get_le32 b 0 = Some FIP_TOC_HEADER_NAME" "get_le32 b 4 = Some FIP_TOC_SERIAL_NUMBER"
    using hdr by (simp_all add: fip_header_ok_def)
  moreover have "fip_size_loop b FIP_METADATA_SIZE capacity 0 FIP_HEADER_SIZE = Some (Some n)"
    using fip_size_loop_finds [OF read k _ _ ok, of 0 FIP_HEADER_SIZE] wf toc(1) n
    by (simp add: toc_wf_def toc_prefix_ok_def)
  ultimately show ?thesis by (simp add: get_fip_size_from_toc_def)
qed

lemma parse_view:
  assumes pkg: "fip_package (medium_at s) (unat n) k" and ag: "agree (unat n) (medium_at s) b"
  shows "sunxi_fip_parse (Some b) n (Some l) = Some (0, Some (toc_layout (medium_at s) k))"
proof -
  have "readable b (unat n)" by (rule agree_readable [OF ag order_refl]) simp
  moreover have "fip_package b (unat n) k" and "toc_layout b k = toc_layout (medium_at s) k"
    using fip_package_agree [OF ag _ pkg] by simp_all
  ultimately show ?thesis
    using sunxi_fip_parse_eq [of b n l] fip_package_unique by metis
qed

text \<open>A valid package whose reads succeed is found, and the staging buffer holds it.\<close>

lemma read_image_complete:
  assumes con: contract and pkg: "package_at s n k" and ok: "\<And>c w. fst (run_state (rd s c) w) = 1"
  obtains w' where "run_state (sunxi_fip_read_image s (Some view) capacity (Some rd) (Some z)) w
      = (Some (0, Some n), w')" and "agree (unat n) (medium_at s) (view w')"
proof -
  have cap: "\<not> capacity < FIP_METADATA_SIZE" using capacity_min by (simp add: word_less_nat_alt)
  have fit: "fits_staging capacity n" and pkg': "fip_package (medium_at s) (unat n) k"
    using pkg by (simp_all add: package_at_def)
  let ?c = "(n + FIP_SECTOR_SIZE - 1) div FIP_SECTOR_SIZE"
  obtain w1 where r1: "run_state (rd s FIP_TOC_SECTORS) w = (1, w1)"
    using ok [of FIP_TOC_SECTORS w] by (metis prod.collapse)
  obtain w2 where r2: "run_state (rd s ?c) w1 = (1, w2)"
    using ok [of ?c w1] by (metis prod.collapse)
  have "agree 1536 (medium_at s) (view w1)"
    using rd_agree [OF con r1] capacity_min by simp
  note found = toc_size_found [OF pkg this]
  have c: "unat ?c = (unat n + 511) div 512"
    using fit by (intro unat_sector_count) (simp add: fits_staging_def)
  have ag: "agree (unat n) (medium_at s) (view w2)"
    using fit c by (intro rd_agree [OF con r2]) (simp_all add: fits_staging_def)
  have "run_state (sunxi_fip_read_image s (Some view) capacity (Some rd) (Some z)) w
      = (Some (0, Some n), w2)"
    using cap r1 found r2 parse_view [OF pkg' ag]
    by (simp add: sunxi_fip_read_image_def Let_def)
  then show thesis using ag that by blast
qed

text \<open>A copy that is accepted is a valid package of the medium.\<close>

lemma read_image_sound:
  assumes con: contract and run: "run_state (sunxi_fip_read_image s (Some view) capacity (Some rd) (Some z)) w
      = (Some (0, Some n), w')"
  shows "agree (unat n) (medium_at s) (view w')"
    and "\<exists>k. fip_package (medium_at s) (unat n) k \<and> toc_layout (view w') k = toc_layout (medium_at s) k"
proof -
  obtain w1 where r1: "run_state (rd s FIP_TOC_SECTORS) w = (1, w1)"
    and sz: "get_fip_size_from_toc (view w1) FIP_METADATA_SIZE capacity = Some (Some n)"
    and r2: "run_state (rd s ((n + FIP_SECTOR_SIZE - 1) div FIP_SECTOR_SIZE)) w1 = (1, w')"
    and parse: "\<exists>l. sunxi_fip_parse (Some (view w')) n (Some zero_layout) = Some (0, l)"
    using run by (auto simp: sunxi_fip_read_image_def Let_def split: if_splits option.splits prod.splits)
  have "readable (view w1) 1536" by (rule readable_mono [OF view_readable capacity_min])
  then have fit: "fits_staging capacity n"
    using get_fip_size_outcome [of "view w1" capacity] sz by auto
  then have "unat ((n + FIP_SECTOR_SIZE - 1) div FIP_SECTOR_SIZE) = (unat n + 511) div 512"
    by (intro unat_sector_count) (simp add: fits_staging_def)
  then show ag: "agree (unat n) (medium_at s) (view w')"
    using fit by (intro rd_agree [OF con r2]) (simp_all add: fits_staging_def)
  have ag': "agree (unat n) (view w') (medium_at s)" using ag by (simp add: agree_def)
  have read: "readable (view w') (unat n)" by (rule agree_readable [OF ag order_refl]) simp
  then obtain k where "fip_package (view w') (unat n) k"
    using sunxi_fip_parse_eq [of "view w'" n zero_layout] parse by auto
  then show "\<exists>k. fip_package (medium_at s) (unat n) k \<and>
      toc_layout (view w') k = toc_layout (medium_at s) k"
    using fip_package_agree [OF ag' read] by metis
qed

text \<open>
  The redundant read returns only packages of the medium, and it finds one when the backup
  copy is valid and readable, whatever the primary copy holds.
\<close>

lemma read_redundant_sound:
  assumes con: contract
    and run: "run_state (sunxi_fip_read_redundant primary backup (Some view) capacity (Some rd)
      (Some z) (Some z')) w = (Some (0, Some n, Some u), w')"
  shows "(u = primary \<or> u = backup) \<and> agree (unat n) (medium_at u) (view w') \<and>
    (\<exists>k. fip_package (medium_at u) (unat n) k \<and> toc_layout (view w') k = toc_layout (medium_at u) k)"
proof -
  have "run_state (sunxi_fip_read_image u (Some view) capacity (Some rd) (Some z1)) w1 = (Some (0, Some n), w')
      \<Longrightarrow> ?thesis" if "u = primary \<or> u = backup" for z1 w1
    using read_image_sound [OF con, of u z1 w1 n w'] that by blast
  moreover have "\<exists>z1 w1. run_state (sunxi_fip_read_image u (Some view) capacity (Some rd) (Some z1)) w1 =
      (Some (0, Some n), w') \<and> (u = primary \<or> u = backup)"
  proof -
    obtain r w1 where p: "run_state (sunxi_fip_read_image primary (Some view) capacity (Some rd) (Some 0)) w
        = (r, w1)" by fastforce
    obtain rc z1 where r: "r = Some (rc, Some z1)"
      using run p read_image_outcome [of view capacity "\<lambda>_. True" rd w primary 0, OF view_readable]
      by auto
    show ?thesis
    proof (cases "rc = 0")
      case True
      then show ?thesis using run p r by (auto simp: sunxi_fip_read_redundant_def)
    next
      case False
      then show ?thesis
        using run p r
        by (auto simp: sunxi_fip_read_redundant_def split: if_splits option.splits prod.splits)
    qed
  qed
  ultimately show ?thesis by blast
qed

lemma read_redundant_complete:
  assumes con: contract and pkg: "package_at backup n k" and ok: "\<And>c w. fst (run_state (rd backup c) w) = 1"
    and nz: "backup \<noteq> 0"
  shows "\<exists>m u w'. run_state (sunxi_fip_read_redundant primary backup (Some view) capacity (Some rd)
      (Some z) (Some z')) w = (Some (0, Some m, Some u), w')"
proof -
  obtain rc m w1 where p: "run_state (sunxi_fip_read_image primary (Some view) capacity (Some rd) (Some 0)) w
      = (Some (rc, Some m), w1)"
    using read_image_outcome [of view capacity "\<lambda>_. True" rd w primary 0, OF view_readable] by auto
  obtain w2 where b: "run_state (sunxi_fip_read_image backup (Some view) capacity (Some rd) (Some m)) w1
      = (Some (0, Some n), w2)"
    by (rule read_image_complete [OF con pkg ok])
  have same: "rc = 0" if "backup = primary"
    using read_image_complete [OF con pkg ok, of 0 w] p that by auto
  show ?thesis
    using p b nz same by (cases "rc = 0") (auto simp: sunxi_fip_read_redundant_def)
qed

end

section \<open>The load windows\<close>

text \<open>
  What the loader relies on in its copy callback, for the four load windows with their sizes:
  a copy that fits its window succeeds, leaves the staging buffer alone, puts the bytes of the
  image where the next stage will find them (\<open>loaded\<close>) and keeps the windows that are already
  filled. The window of the SCP image is served last.
\<close>

definition window_size :: "u32 \<Rightarrow> nat option" where
  "window_size d = (if d = SUNXI_FIP_BL31_BASE then Some (unat SUNXI_FIP_BL31_MAX_SIZE)
     else if d = SUNXI_FIP_BL33_BASE then Some (unat SUNXI_FIP_BL33_MAX_SIZE)
     else if d = SUNXI_FIP_HW_CONFIG_BASE then Some (unat SUNXI_FIP_HW_CONFIG_MAX_SIZE)
     else if d = SUNXI_FIP_SCP_BL2_BASE then Some (unat SUNXI_FIP_SCP_BL2_MAX_SIZE) else None)"

locale fip_target =
  fixes view :: "'w \<Rightarrow> buf" and cp :: "'w copy_fn" and capacity :: u32
    and loaded :: "'w \<Rightarrow> u32 \<Rightarrow> nat \<Rightarrow> u8"
  assumes cp_copies: "window_size d = Some m \<Longrightarrow> unat n \<le> m \<Longrightarrow> src + unat n \<le> unat capacity \<Longrightarrow>
      \<exists>w'. run_state (cp d src n) w = (0, w') \<and> view w' = view w \<and>
        (\<forall>i<unat n. view w (src + i) = Some (loaded w' d i)) \<and>
        (\<forall>d' m'. window_size d' = Some m' \<longrightarrow> d' \<noteq> d \<longrightarrow> d' \<noteq> SUNXI_FIP_SCP_BL2_BASE \<longrightarrow>
           (\<forall>i<m'. loaded w' d' i = loaded w d' i))"
begin

text \<open>The window of an image holds its bytes of the package \<open>b\<close>.\<close>

definition image_loaded :: "buf \<Rightarrow> 'w \<Rightarrow> u32 \<Rightarrow> sunxi_fip_image \<Rightarrow> bool" where
  "image_loaded b w d im \<longleftrightarrow>
     (\<forall>i<unat (img_size im). b (unat (img_offset im) + i) = Some (loaded w d i))"

text \<open>A copy to window \<open>d\<close> keeps the images in the windows that are served before the SCP image.\<close>

definition keeps_images :: "u32 \<Rightarrow> 'w \<Rightarrow> 'w \<Rightarrow> bool" where
  "keeps_images d w w' \<longleftrightarrow> (\<forall>d' m im b. window_size d' = Some m \<longrightarrow> d' \<noteq> d \<longrightarrow>
     d' \<noteq> SUNXI_FIP_SCP_BL2_BASE \<longrightarrow> unat (img_size im) \<le> m \<longrightarrow> image_loaded b w d' im \<longrightarrow>
     image_loaded b w' d' im)"

lemma keeps_imagesD:
  "keeps_images d w w' \<Longrightarrow> image_loaded b w d' im \<Longrightarrow> window_size d' = Some m \<Longrightarrow>
     unat (img_size im) \<le> m \<Longrightarrow> d' \<noteq> d \<Longrightarrow> d' \<noteq> SUNXI_FIP_SCP_BL2_BASE \<Longrightarrow> image_loaded b w' d' im"
  by (simp add: keeps_images_def)

lemma cp_image:
  assumes "window_size d = Some m" and "unat (img_size im) \<le> m" and "image_inside (unat capacity) im"
  obtains w' where "run_state (cp d (unat (img_offset im)) (img_size im)) w = (0, w')"
    and "view w' = view w" and "image_loaded (view w) w' d im" and "keeps_images d w w'"
proof -
  obtain w' where w': "run_state (cp d (unat (img_offset im)) (img_size im)) w = (0, w')"
    "view w' = view w" "\<forall>i<unat (img_size im). view w (unat (img_offset im) + i) = Some (loaded w' d i)"
    "\<forall>d' m'. window_size d' = Some m' \<longrightarrow> d' \<noteq> d \<longrightarrow> d' \<noteq> SUNXI_FIP_SCP_BL2_BASE \<longrightarrow>
       (\<forall>i<m'. loaded w' d' i = loaded w d' i)"
    using cp_copies [OF assms(1,2)] assms(3) unfolding image_inside_def by blast
  have "keeps_images d w w'" using w'(4) by (simp add: keeps_images_def image_loaded_def)
  moreover have "image_loaded (view w) w' d im" using w'(3) by (simp add: image_loaded_def)
  ultimately show thesis using that w' by blast
qed

definition layout_loaded :: "buf \<Rightarrow> 'w \<Rightarrow> sunxi_fip_layout \<Rightarrow> bool" where
  "layout_loaded b w l \<longleftrightarrow>
     image_loaded b w SUNXI_FIP_BL31_BASE (bl31 l) \<and> image_loaded b w SUNXI_FIP_BL33_BASE (bl33 l) \<and>
     (img_size (hw_config l) \<noteq> 0 \<longrightarrow> image_loaded b w SUNXI_FIP_HW_CONFIG_BASE (hw_config l)) \<and>
     image_loaded b w SUNXI_FIP_SCP_BL2_BASE (scp_bl2 l)"

lemma copy_parsed_loads:
  assumes safe: "layout_safe sz l" and sz: "sz \<le> unat capacity"
  shows "\<exists>w'. run_state (copy_parsed cp l) w = (0, w') \<and> view w' = view w \<and> layout_loaded (view w) w' l"
proof -
  note win = window_size_def word_le_nat_alt
  have inside: "image_inside (unat capacity) im"
    if "im \<in> {bl31 l, bl33 l, scp_bl2 l} \<or> im = hw_config l \<and> img_size im \<noteq> 0" for im
    using safe sz that
    by (auto simp: layout_safe_def image_inside_def zero_image_def dest: le_trans)
  have size: "unat (img_size (bl31 l)) \<le> unat SUNXI_FIP_BL31_MAX_SIZE"
    "unat (img_size (bl33 l)) \<le> unat SUNXI_FIP_BL33_MAX_SIZE"
    "unat (img_size (hw_config l)) \<le> unat SUNXI_FIP_HW_CONFIG_MAX_SIZE"
    "unat (img_size (scp_bl2 l)) \<le> unat SUNXI_FIP_SCP_BL2_MAX_SIZE"
    using safe by (simp_all add: layout_safe_def word_le_nat_alt)
  have ws: "window_size SUNXI_FIP_BL31_BASE = Some (unat SUNXI_FIP_BL31_MAX_SIZE)"
    "window_size SUNXI_FIP_BL33_BASE = Some (unat SUNXI_FIP_BL33_MAX_SIZE)"
    "window_size SUNXI_FIP_HW_CONFIG_BASE = Some (unat SUNXI_FIP_HW_CONFIG_MAX_SIZE)"
    "window_size SUNXI_FIP_SCP_BL2_BASE = Some (unat SUNXI_FIP_SCP_BL2_MAX_SIZE)"
    by (simp_all add: window_size_def)
  obtain w1 where w1: "run_state (cp SUNXI_FIP_BL31_BASE (unat (img_offset (bl31 l))) (img_size (bl31 l))) w = (0, w1)"
    "view w1 = view w" "image_loaded (view w) w1 SUNXI_FIP_BL31_BASE (bl31 l)"
    by (rule cp_image [OF ws(1) size(1) inside, of w]) auto
  obtain w2 where w2: "run_state (cp SUNXI_FIP_BL33_BASE (unat (img_offset (bl33 l))) (img_size (bl33 l))) w1 = (0, w2)"
    "view w2 = view w1" "image_loaded (view w1) w2 SUNXI_FIP_BL33_BASE (bl33 l)"
    and k2: "keeps_images SUNXI_FIP_BL33_BASE w1 w2"
    by (rule cp_image [OF ws(2) size(2) inside, of w1]) auto
  note a2 = keeps_imagesD [OF k2 w1(3) ws(1) size(1)]
  obtain w3 where w3: "run_state (if img_size (hw_config l) \<noteq> 0
      then cp SUNXI_FIP_HW_CONFIG_BASE (unat (img_offset (hw_config l))) (img_size (hw_config l)) else ret 0) w2
      = (0, w3)" "view w3 = view w2"
    "img_size (hw_config l) \<noteq> 0 \<longrightarrow> image_loaded (view w2) w3 SUNXI_FIP_HW_CONFIG_BASE (hw_config l)"
    and k3: "keeps_images SUNXI_FIP_HW_CONFIG_BASE w2 w3"
  proof (cases "img_size (hw_config l) = 0")
    case True
    then show thesis using that [of w2] by (simp add: keeps_images_def)
  next
    case False
    show thesis
      by (rule cp_image [OF ws(3) size(3) inside, of w2]) (use False that in auto)
  qed
  note a3 = keeps_imagesD [OF k3 a2 ws(1) size(1)] keeps_imagesD [OF k3 w2(3) ws(2) size(2)]
  obtain w4 where w4: "run_state (cp SUNXI_FIP_SCP_BL2_BASE (unat (img_offset (scp_bl2 l))) (img_size (scp_bl2 l))) w3
      = (0, w4)" "view w4 = view w3" "image_loaded (view w3) w4 SUNXI_FIP_SCP_BL2_BASE (scp_bl2 l)"
    and k4: "keeps_images SUNXI_FIP_SCP_BL2_BASE w3 w4"
    by (rule cp_image [OF ws(4) size(4) inside, of w3]) auto
  note a4 = keeps_imagesD [OF k4 a3(1) ws(1) size(1)] keeps_imagesD [OF k4 a3(2) ws(2) size(2)]
    keeps_imagesD [OF k4 mp [OF w3(3)] ws(3) size(3)]
  have "run_state (copy_parsed cp l) w = (0, w4)"
    using w1(1) w2(1) w3(1) w4(1) by (simp add: copy_parsed_def)
  moreover have "layout_loaded (view w) w4 l"
    unfolding layout_loaded_def using a4 w4(2,3) w3(2) w2(2) w1(2) by simp
  ultimately show ?thesis using w1(2) w2(2) w3(2) w4(2) by auto
qed

end

end
