(* ===== verification/Machine.thy ===== *)
theory Machine
  imports Prelude
begin

text \<open>
  The machine the two images run on. Everything a program does to the outside is an event of a
  trace, newest event first: register reads and writes (\<open>readl\<close>, \<open>writel\<close>), delays, and calls
  of functions that are linked in as objects without source. The devices and those functions
  are an environment \<open>env\<close>, an arbitrary function of the history, so a theorem that says
  nothing else about the environment holds whatever the hardware answers.

  The second half is the proof kit for such code: the weakest precondition \<open>wp\<close> of a
  computation, computed by the simplifier from \<open>wp_simps\<close>, and \<open>emits\<close>, the statement that a
  computation adds only events of a given kind to the trace.
\<close>

unbundle bit_operations_syntax

section \<open>Events and environment\<close>

datatype ext_fn =
    Pmic_bus_init | Pmic_bus_read | Pmic_bus_write
  | Mmc_init | Mmc_bread_ext | Sunxi_mmc_init_ext | Timer_get_us
  | Toc1_start | Toc1_bak_start
  | Board_init_early | Board_late_init | Board_exit | Serial_init | Set_debug_mode
  | Rtc_probe_fel_flag | Rtc_clear_fel_flag | Get_uart_input
  | Bootparam_load | Init_DRAM | Mmu_enable | Mmu_disable | Malloc_init
  | Dcache_clean | Icache_invalidate | Fip_handoff | Boot0_jmp
  | Get_MSTATUS | Disable_irq | Set_MSTATUS | Get_MCAUSE | Cdelay | Code u32
  | Mctl_mdfs_software | Wfi | Uninit | Dram_power_save_process | Dram_power_up_process

datatype event =
    Rd u32 u32
  | Wr u32 u32
  | Udelay u32
  | Mdelay u32
  | Call ext_fn "u32 list" int u32
  | Print string "string list" "u32 list"

type_synonym history = "event list"

text \<open>
  \<open>dev_read\<close> is the value a device register shows after a history; \<open>ext_call\<close> the return
  value of an external function and the value it stores through its output pointer.
\<close>

record env =
  dev_read :: "history \<Rightarrow> u32 \<Rightarrow> u32"
  ext_call :: "history \<Rightarrow> ext_fn \<Rightarrow> u32 list \<Rightarrow> int \<times> u32"

record machine =
  trace :: history

definition readl :: "env \<Rightarrow> u32 \<Rightarrow> ('a machine_scheme, u32) state" where
  "readl E a = do {
     w \<leftarrow> State_Monad.get;
     let v = dev_read E (trace w) a;
     _ \<leftarrow> State_Monad.set (w\<lparr>trace := Rd a v # trace w\<rparr>);
     ret v
   }"

definition writel :: "u32 \<Rightarrow> u32 \<Rightarrow> ('a machine_scheme, unit) state" where
  "writel v a = State_Monad.update (\<lambda>w. w\<lparr>trace := Wr a v # trace w\<rparr>)"

definition udelay :: "u32 \<Rightarrow> ('a machine_scheme, unit) state" where
  "udelay n = State_Monad.update (\<lambda>w. w\<lparr>trace := Udelay n # trace w\<rparr>)"

definition mdelay :: "u32 \<Rightarrow> ('a machine_scheme, unit) state" where
  "mdelay n = State_Monad.update (\<lambda>w. w\<lparr>trace := Mdelay n # trace w\<rparr>)"

definition call_out :: "env \<Rightarrow> ext_fn \<Rightarrow> u32 list \<Rightarrow> ('a machine_scheme, int \<times> u32) state" where
  "call_out E f args = do {
     w \<leftarrow> State_Monad.get;
     let (r, v) = ext_call E (trace w) f args;
     _ \<leftarrow> State_Monad.set (w\<lparr>trace := Call f args r v # trace w\<rparr>);
     ret (r, v)
   }"

definition call :: "env \<Rightarrow> ext_fn \<Rightarrow> u32 list \<Rightarrow> ('a machine_scheme, int) state" where
  "call E f args = do { (r, _) \<leftarrow> call_out E f args; ret r }"

section \<open>Weakest preconditions\<close>

definition wp :: "('w, 'a) state \<Rightarrow> ('a \<Rightarrow> 'w \<Rightarrow> bool) \<Rightarrow> 'w \<Rightarrow> bool" where
  "wp m Q w \<longleftrightarrow> Q (fst (run_state m w)) (snd (run_state m w))"

named_theorems wp_simps \<open>weakest preconditions of the basic operations\<close>

lemma wp_return [wp_simps]: "wp (ret x) Q w \<longleftrightarrow> Q x w"
  by (simp add: wp_def)

lemma wp_bind [wp_simps]: "wp (m \<bind> f) Q w \<longleftrightarrow> wp m (\<lambda>r. wp (f r) Q) w"
  by (simp add: wp_def split_beta)

lemma wp_get [wp_simps]: "wp State_Monad.get Q w \<longleftrightarrow> Q w w"
  by (simp add: wp_def State_Monad.get_def)

lemma wp_set [wp_simps]: "wp (State_Monad.set v) Q w \<longleftrightarrow> Q () v"
  by (simp add: wp_def State_Monad.set_def)

lemma wp_update [wp_simps]: "wp (State_Monad.update f) Q w \<longleftrightarrow> Q () (f w)"
  by (simp add: State_Monad.update_def wp_simps)

lemma wp_if [wp_simps]:
  "wp (if c then m else n) Q w \<longleftrightarrow> (if c then wp m Q w else wp n Q w)"
  by simp

lemma wp_split [wp_simps]: "wp (case p of (a, b) \<Rightarrow> f a b) Q w \<longleftrightarrow> wp (f (fst p) (snd p)) Q w"
  by (simp add: split_beta)

lemma wp_readl [wp_simps]:
  "wp (readl E a) Q w \<longleftrightarrow>
     Q (dev_read E (trace w) a) (w\<lparr>trace := Rd a (dev_read E (trace w) a) # trace w\<rparr>)"
  by (simp add: readl_def wp_simps Let_def)

lemma wp_writel [wp_simps]: "wp (writel v a) Q w \<longleftrightarrow> Q () (w\<lparr>trace := Wr a v # trace w\<rparr>)"
  by (simp add: writel_def wp_simps)

lemma wp_udelay [wp_simps]: "wp (udelay n) Q w \<longleftrightarrow> Q () (w\<lparr>trace := Udelay n # trace w\<rparr>)"
  by (simp add: udelay_def wp_simps)

lemma wp_mdelay [wp_simps]: "wp (mdelay n) Q w \<longleftrightarrow> Q () (w\<lparr>trace := Mdelay n # trace w\<rparr>)"
  by (simp add: mdelay_def wp_simps)

lemma wp_call_out [wp_simps]:
  "wp (call_out E f xs) Q w \<longleftrightarrow>
     (let c = ext_call E (trace w) f xs in
      Q c (w\<lparr>trace := Call f xs (fst c) (snd c) # trace w\<rparr>))"
  by (simp add: call_out_def wp_simps Let_def split_beta)

lemma wp_call [wp_simps]:
  "wp (call E f xs) Q w \<longleftrightarrow>
     (let c = ext_call E (trace w) f xs in
      Q (fst c) (w\<lparr>trace := Call f xs (fst c) (snd c) # trace w\<rparr>))"
  by (simp add: call_def wp_simps Let_def split_beta)

lemma wp_ifI: "(c \<Longrightarrow> wp m Q w) \<Longrightarrow> (\<not> c \<Longrightarrow> wp n Q w) \<Longrightarrow> wp (if c then m else n) Q w"
  by simp

lemma wp_returnI: "Q x w \<Longrightarrow> wp (ret x) Q w"
  by (simp add: wp_return)

lemma wp_bindI: "wp m (\<lambda>r. wp (f r) Q) w \<Longrightarrow> wp (m \<bind> f) Q w"
  by (simp add: wp_bind)

lemma wp_mono: "wp m Q w \<Longrightarrow> (\<And>r w'. Q r w' \<Longrightarrow> Q' r w') \<Longrightarrow> wp m Q' w"
  by (simp add: wp_def)

lemma wp_conj: "wp m P w \<Longrightarrow> wp m Q w \<Longrightarrow> wp m (\<lambda>r v. P r v \<and> Q r v) w"
  by (simp add: wp_def)

lemma wp_run: "wp m Q w \<longleftrightarrow> (\<exists>r w'. run_state m w = (r, w') \<and> Q r w')"
  by (cases "run_state m w") (simp add: wp_def)

lemma wp_runD: "wp m Q w \<Longrightarrow> run_state m w = (r, w') \<Longrightarrow> Q r w'"
  by (simp add: wp_def)

section \<open>Events a computation can cause\<close>

definition emits :: "(event \<Rightarrow> bool) \<Rightarrow> ('a machine_scheme, 'b) state \<Rightarrow> bool" where
  "emits P m \<longleftrightarrow>
     (\<forall>w. \<exists>es. trace (snd (run_state m w)) = es @ trace w \<and> (\<forall>e\<in>set es. P e))"

named_theorems emits_intros \<open>introduction rules for the events of a computation\<close>

lemma emitsE:
  assumes "emits P m"
  obtains es where "trace (snd (run_state m w)) = es @ trace w" and "\<forall>e\<in>set es. P e"
  using assms unfolding emits_def by blast

lemma emits_return [emits_intros]: "emits P (ret x)"
  by (simp add: emits_def)

lemma emits_bind [emits_intros]:
  assumes "emits P m" and "\<And>x. emits P (f x)"
  shows "emits P (m \<bind> f)"
  unfolding emits_def
proof
  fix w
  obtain es where es: "trace (snd (run_state m w)) = es @ trace w" "\<forall>e\<in>set es. P e"
    using assms(1) by (rule emitsE)
  obtain fs where fs: "trace (snd (run_state (f (fst (run_state m w))) (snd (run_state m w)))) =
      fs @ trace (snd (run_state m w))" "\<forall>e\<in>set fs. P e"
    using assms(2) by (rule emitsE)
  show "\<exists>gs. trace (snd (run_state (m \<bind> f) w)) = gs @ trace w \<and> (\<forall>e\<in>set gs. P e)"
    by (rule exI [of _ "fs @ es"]) (use es fs in \<open>auto simp: split_beta\<close>)
qed

lemma emits_if [emits_intros]: "emits P m \<Longrightarrow> emits P n \<Longrightarrow> emits P (if c then m else n)"
  by simp

lemma emits_Let [emits_intros]: "(\<And>x. emits P (f x)) \<Longrightarrow> emits P (Let a f)"
  by simp

lemma emits_split [emits_intros]:
  "(\<And>a b. emits P (g a b)) \<Longrightarrow> emits P (case p of (a, b) \<Rightarrow> g a b)"
  by (cases p) simp

lemma emits_option [emits_intros]:
  "emits P m \<Longrightarrow> (\<And>x. emits P (g x)) \<Longrightarrow> emits P (case p of None \<Rightarrow> m | Some x \<Rightarrow> g x)"
  by (cases p) simp_all

lemma emits_bool [emits_intros]:
  "emits P m \<Longrightarrow> emits P n \<Longrightarrow> emits P (case b of True \<Rightarrow> m | False \<Rightarrow> n)"
  by (cases b) simp_all

lemma emits_get [emits_intros]: "emits P State_Monad.get"
  by (simp add: emits_def State_Monad.get_def)

lemma emits_update [emits_intros]:
  "(\<And>w. trace (f w) = trace w) \<Longrightarrow> emits P (State_Monad.update f)"
  by (simp add: emits_def State_Monad.update_def State_Monad.get_def State_Monad.set_def)

lemma emits_readl [emits_intros]: "(\<And>v. P (Rd a v)) \<Longrightarrow> emits P (readl E a)"
  by (simp add: emits_def readl_def State_Monad.get_def State_Monad.set_def Let_def)

lemma emits_writel [emits_intros]: "P (Wr a v) \<Longrightarrow> emits P (writel v a)"
  by (simp add: emits_def writel_def State_Monad.update_def State_Monad.get_def State_Monad.set_def)

lemma emits_udelay [emits_intros]: "P (Udelay n) \<Longrightarrow> emits P (udelay n)"
  by (simp add: emits_def udelay_def State_Monad.update_def State_Monad.get_def State_Monad.set_def)

lemma emits_mdelay [emits_intros]: "P (Mdelay n) \<Longrightarrow> emits P (mdelay n)"
  by (simp add: emits_def mdelay_def State_Monad.update_def State_Monad.get_def State_Monad.set_def)

lemma emits_call_out [emits_intros]: "(\<And>r v. P (Call f xs r v)) \<Longrightarrow> emits P (call_out E f xs)"
  by (simp add: emits_def call_out_def State_Monad.get_def State_Monad.set_def Let_def split_beta)

lemma emits_call [emits_intros]: "(\<And>r v. P (Call f xs r v)) \<Longrightarrow> emits P (call E f xs)"
  unfolding call_def by (intro emits_intros) (auto intro!: emits_intros split: prod.split)

lemma emits_mono: "emits P m \<Longrightarrow> (\<And>e. P e \<Longrightarrow> Q e) \<Longrightarrow> emits Q m"
  unfolding emits_def by blast

section \<open>Parts of the state a computation keeps\<close>

definition frames :: "('w \<Rightarrow> 'c) \<Rightarrow> ('w, 'a) state \<Rightarrow> bool" where
  "frames f m \<longleftrightarrow> (\<forall>w. f (snd (run_state m w)) = f w)"

named_theorems frames_intros \<open>computations that keep a part of the state\<close>

lemma framesD: "frames f m \<Longrightarrow> f (snd (run_state m w)) = f w"
  by (simp add: frames_def)

lemma frames_wp: "frames f m \<Longrightarrow> wp m (\<lambda>_ w'. f w' = f w) w"
  by (simp add: wp_def framesD)

lemma frames_return [frames_intros]: "frames f (ret x)"
  by (simp add: frames_def)

lemma frames_bind [frames_intros]: "frames f m \<Longrightarrow> (\<And>x. frames f (g x)) \<Longrightarrow> frames f (m \<bind> g)"
  by (simp add: frames_def split_beta)

lemma frames_if [frames_intros]: "frames f m \<Longrightarrow> frames f n \<Longrightarrow> frames f (if c then m else n)"
  by simp

lemma frames_Let [frames_intros]: "(\<And>x. frames f (g x)) \<Longrightarrow> frames f (Let a g)"
  by simp

lemma frames_split [frames_intros]:
  "(\<And>a b. frames f (g a b)) \<Longrightarrow> frames f (case p of (a, b) \<Rightarrow> g a b)"
  by (cases p) simp

lemma frames_option [frames_intros]:
  "frames f m \<Longrightarrow> (\<And>x. frames f (g x)) \<Longrightarrow> frames f (case p of None \<Rightarrow> m | Some x \<Rightarrow> g x)"
  by (cases p) simp_all

lemma frames_bool [frames_intros]:
  "frames f m \<Longrightarrow> frames f n \<Longrightarrow> frames f (case b of True \<Rightarrow> m | False \<Rightarrow> n)"
  by (cases b) simp_all

lemma frames_get [frames_intros]: "frames f State_Monad.get"
  by (simp add: frames_def State_Monad.get_def)

lemma frames_update [frames_intros]: "(\<And>w. f (g w) = f w) \<Longrightarrow> frames f (State_Monad.update g)"
  by (simp add: frames_def State_Monad.update_def State_Monad.get_def State_Monad.set_def)

lemma frames_trace [frames_intros]:
  assumes "\<And>w t. f (w\<lparr>trace := t\<rparr>) = f w"
  shows "frames f (readl E a)" "frames f (writel v a)" "frames f (udelay n)" "frames f (mdelay n)"
    "frames f (call_out E g xs)" "frames f (call E g xs)"
  by (simp_all add: frames_def readl_def writel_def udelay_def mdelay_def call_def call_out_def assms
      State_Monad.update_def State_Monad.get_def State_Monad.set_def Let_def split_beta)

section \<open>Registers\<close>

fun last_write :: "history \<Rightarrow> u32 \<Rightarrow> u32 option" where
  "last_write [] a = None"
| "last_write (Wr b v # t) a = (if a = b then Some v else last_write t a)"
| "last_write (_ # t) a = last_write t a"

text \<open>
  The documented behaviour of a read-write register field: it reads back what was last
  written there.
\<close>

definition latches :: "env \<Rightarrow> u32 \<Rightarrow> u32 \<Rightarrow> bool" where
  "latches E a m \<longleftrightarrow> (\<forall>t v. last_write t a = Some v \<longrightarrow> dev_read E t a AND m = v AND m)"

lemma latchesD: "latches E a m \<Longrightarrow> last_write t a = Some v \<Longrightarrow> dev_read E t a AND m = v AND m"
  by (simp add: latches_def)

fun writes_reg :: "u32 \<Rightarrow> event \<Rightarrow> bool" where
  "writes_reg a (Wr b _) = (a = b)"
| "writes_reg a _ = False"

lemma last_write_frame: "\<forall>e\<in>set es. \<not> writes_reg a e \<Longrightarrow> last_write (es @ t) a = last_write t a"
proof (induction es)
  case (Cons e es)
  then show ?case by (cases e) auto
qed simp

lemma emits_last_write:
  assumes "emits P m" and "\<And>e. P e \<Longrightarrow> \<not> writes_reg a e"
  shows "last_write (trace (snd (run_state m w))) a = last_write (trace w) a"
  by (rule emitsE [OF assms(1), of w]) (metis assms(2) last_write_frame)

text \<open>A device whose registers all hold what was last written, and 0 before.\<close>

definition ram_dev :: "history \<Rightarrow> u32 \<Rightarrow> u32" where
  "ram_dev t a = (case last_write t a of None \<Rightarrow> 0 | Some v \<Rightarrow> v)"

lemma ram_dev_latches: "dev_read E = ram_dev \<Longrightarrow> latches E a m"
  by (simp add: latches_def ram_dev_def)

end
