(* ===== verification/Clock.thy ===== *)
theory Clock
  imports Machine
begin

text \<open>
  The clock bring-up of boot0 (\<^verbatim>\<open>src/src/clock_a733.c\<close>): lock polling, the programming
  sequence of a PLL, the reference and peripheral PLLs, the switching of the system buses
  between the 24 MHz source and their nominal rates, and \<open>a7s_clock_init\<close> itself.
\<close>

unbundle bit_operations_syntax

section \<open>Registers\<close>

abbreviation (input) A7S_PLL_ENABLE :: u32 where "A7S_PLL_ENABLE \<equiv> 0x80000000"
abbreviation (input) A7S_PLL_LDO_ENABLE :: u32 where "A7S_PLL_LDO_ENABLE \<equiv> 0x40000000"
abbreviation (input) A7S_PLL_LOCK_ENABLE :: u32 where "A7S_PLL_LOCK_ENABLE \<equiv> 0x20000000"
abbreviation (input) A7S_PLL_LOCK :: u32 where "A7S_PLL_LOCK \<equiv> 0x10000000"
abbreviation (input) A7S_REF_OUTPUT_GATE :: u32 where "A7S_REF_OUTPUT_GATE \<equiv> 0x08000000"
abbreviation (input) A7S_REF_REG_ENABLE :: u32 where "A7S_REF_REG_ENABLE \<equiv> 0x01000000"
abbreviation (input) A7S_PERI_OUTPUT_GATES :: u32 where "A7S_PERI_OUTPUT_GATES \<equiv> 0x0e000000"
abbreviation (input) A7S_PERI_REF_PLL :: u32 where "A7S_PERI_REF_PLL \<equiv> 0x01000000"

abbreviation (input) SUNXI_CCMU_BASE :: u32 where "SUNXI_CCMU_BASE \<equiv> 0x02002000"
abbreviation (input) A7S_RTC_XO_CTRL0 :: u32 where "A7S_RTC_XO_CTRL0 \<equiv> 0x07090160"
abbreviation (input) A7S_RTC_DCXO_STATUS_MASK :: u32 where "A7S_RTC_DCXO_STATUS_MASK \<equiv> 0xc000"
abbreviation (input) A7S_PLL_LOCK_TIMEOUT_US :: nat where "A7S_PLL_LOCK_TIMEOUT_US \<equiv> 1000"
abbreviation (input) A7S_PLL_LOCK_STABLE_READS :: nat where "A7S_PLL_LOCK_STABLE_READS \<equiv> 3"

abbreviation (input) PLL_REF_CTRL_REG :: u32 where "PLL_REF_CTRL_REG \<equiv> 0x0"
abbreviation (input) PLL_PERI0_CTRL_REG :: u32 where "PLL_PERI0_CTRL_REG \<equiv> 0xa0"
abbreviation (input) PLL_PERI1_CTRL_REG :: u32 where "PLL_PERI1_CTRL_REG \<equiv> 0xc0"
abbreviation (input) AHB_CLK_REG :: u32 where "AHB_CLK_REG \<equiv> 0x500"
abbreviation (input) APB0_CLK_REG :: u32 where "APB0_CLK_REG \<equiv> 0x510"
abbreviation (input) APB1_CLK_REG :: u32 where "APB1_CLK_REG \<equiv> 0x518"
abbreviation (input) APB_UART_CLK_REG :: u32 where "APB_UART_CLK_REG \<equiv> 0x538"
abbreviation (input) PERI0PLL_GATE_EN_REG :: u32 where "PERI0PLL_GATE_EN_REG \<equiv> 0x1908"
abbreviation (input) PERI1PLL_GATE_EN_REG :: u32 where "PERI1PLL_GATE_EN_REG \<equiv> 0x190c"

abbreviation (input) A7S_AHB_APB_SOURCE_MASK :: u32 where "A7S_AHB_APB_SOURCE_MASK \<equiv> 0x03000000"
abbreviation (input) A7S_UART_SOURCE_MASK :: u32 where "A7S_UART_SOURCE_MASK \<equiv> 0x07000000"
abbreviation (input) A7S_BUS_DIV_MASK :: u32 where "A7S_BUS_DIV_MASK \<equiv> 0x1f"
abbreviation (input) A7S_AHB_SOURCE_PERI0_600 :: u32 where "A7S_AHB_SOURCE_PERI0_600 \<equiv> 0x03000000"
abbreviation (input) A7S_APB_SOURCE_PERI0_600 :: u32 where "A7S_APB_SOURCE_PERI0_600 \<equiv> 0x03000000"
abbreviation (input) A7S_UART_SOURCE_PERI0_480 :: u32 where "A7S_UART_SOURCE_PERI0_480 \<equiv> 0x04000000"
abbreviation (input) A7S_AHB_DIV_3 :: u32 where "A7S_AHB_DIV_3 \<equiv> 2"
abbreviation (input) A7S_APB_DIV_6 :: u32 where "A7S_APB_DIV_6 \<equiv> 5"
abbreviation (input) A7S_UART_DIV_20 :: u32 where "A7S_UART_DIV_20 \<equiv> 19"
abbreviation (input) A7S_PERI_DISTRIBUTION_GATES :: u32 where "A7S_PERI_DISTRIBUTION_GATES \<equiv> 0x8fff0fff"

abbreviation (input) A7S_CLOCK_OK :: int where "A7S_CLOCK_OK \<equiv> 0"
abbreviation (input) A7S_CLOCK_ERR_REF_PLL :: int where "A7S_CLOCK_ERR_REF_PLL \<equiv> -1"
abbreviation (input) A7S_CLOCK_ERR_PERI0_PLL :: int where "A7S_CLOCK_ERR_PERI0_PLL \<equiv> -2"
abbreviation (input) A7S_CLOCK_ERR_PERI1_PLL :: int where "A7S_CLOCK_ERR_PERI1_PLL \<equiv> -3"
abbreviation (input) A7S_CLOCK_ERR_BUS :: int where "A7S_CLOCK_ERR_BUS \<equiv> -4"

record a7s_pll_config =
  pll_reg :: u32
  pattern_reg :: u32
  config_mask :: u32
  config_value :: u32
  output_mask :: u32
  supply_mask :: u32

definition a7s_ccu_reg :: "u32 \<Rightarrow> u32" where
  "a7s_ccu_reg offset = SUNXI_CCMU_BASE + offset"

section \<open>PLLs\<close>

text \<open>The polling loop, on the number of rounds left and the good reads in a row so far.\<close>

primrec a7s_pll_wait_loop :: "env \<Rightarrow> u32 \<Rightarrow> nat \<Rightarrow> nat \<Rightarrow> ('a machine_scheme, int) state" where
  "a7s_pll_wait_loop E reg 0 stable_count = ret (-1)"
| "a7s_pll_wait_loop E reg (Suc n) stable_count = do {
     v \<leftarrow> readl E reg;
     if v AND A7S_PLL_LOCK \<noteq> 0 then
       if stable_count + 1 = A7S_PLL_LOCK_STABLE_READS then ret 0
       else do { _ \<leftarrow> udelay 1; a7s_pll_wait_loop E reg n (stable_count + 1) }
     else do { _ \<leftarrow> udelay 1; a7s_pll_wait_loop E reg n 0 }
   }"

definition a7s_pll_wait_stable :: "env \<Rightarrow> u32 \<Rightarrow> ('a machine_scheme, int) state" where
  "a7s_pll_wait_stable E reg = do {
     _ \<leftarrow> udelay 3;
     a7s_pll_wait_loop E reg A7S_PLL_LOCK_TIMEOUT_US 0
   }"

definition a7s_pll_is_running ::
  "env \<Rightarrow> a7s_pll_config \<Rightarrow> bool \<Rightarrow> ('a machine_scheme, bool) state" where
  "a7s_pll_is_running E pll check_config = do {
     let required = A7S_PLL_ENABLE OR A7S_PLL_LDO_ENABLE OR A7S_PLL_LOCK_ENABLE OR
                    output_mask pll OR supply_mask pll;
     v \<leftarrow> readl E (pll_reg pll);
     if v AND required \<noteq> required then ret False
     else if check_config \<and> v AND config_mask pll \<noteq> config_value pll then ret False
     else do {
       sdm \<leftarrow> (if pattern_reg pll \<noteq> 0
               then do { p \<leftarrow> readl E (pattern_reg pll); ret (p AND 0x80000000 \<noteq> 0) }
               else ret False);
       if sdm then ret False
       else do { r \<leftarrow> a7s_pll_wait_stable E (pll_reg pll); ret (r = 0) }
     }
   }"

definition a7s_pll_program :: "env \<Rightarrow> a7s_pll_config \<Rightarrow> ('a machine_scheme, int) state" where
  "a7s_pll_program E pll = do {
     v \<leftarrow> readl E (pll_reg pll);
     let was_enabled = (v AND A7S_PLL_ENABLE \<noteq> 0);
     running \<leftarrow> a7s_pll_is_running E pll True;
     if running then ret 0 else do {
     _ \<leftarrow> (if pattern_reg pll \<noteq> 0 then do {
            v \<leftarrow> readl E (pattern_reg pll);
            writel (v AND NOT 0x80000000) (pattern_reg pll)
          } else ret ());
     v \<leftarrow> readl E (pll_reg pll);
     _ \<leftarrow> (if was_enabled then do {
            _ \<leftarrow> writel (v AND NOT (output_mask pll)) (pll_reg pll);
            v \<leftarrow> readl E (pll_reg pll);
            writel (v AND NOT A7S_PLL_LOCK_ENABLE) (pll_reg pll)
          } else do {
            let v = v OR (A7S_PLL_LDO_ENABLE OR supply_mask pll);
            _ \<leftarrow> writel v (pll_reg pll);
            writel (v OR output_mask pll) (pll_reg pll)
          });
     v \<leftarrow> readl E (pll_reg pll);
     _ \<leftarrow> writel ((v AND NOT (config_mask pll)) OR
                 (config_value pll OR A7S_PLL_LDO_ENABLE OR supply_mask pll)) (pll_reg pll);
     v \<leftarrow> readl E (pll_reg pll);
     let v = v OR A7S_PLL_ENABLE;
     _ \<leftarrow> writel v (pll_reg pll);
     _ \<leftarrow> writel (v OR A7S_PLL_LOCK_ENABLE) (pll_reg pll);
     unlocked \<leftarrow> a7s_pll_wait_stable E (pll_reg pll);
     if unlocked \<noteq> 0 then do {
       v \<leftarrow> readl E (pll_reg pll);
       _ \<leftarrow> writel (v AND NOT (output_mask pll)) (pll_reg pll);
       ret (-1)
     } else do {
       _ \<leftarrow> udelay 20;
       _ \<leftarrow> (if was_enabled then do {
              v \<leftarrow> readl E (pll_reg pll);
              writel (v OR output_mask pll) (pll_reg pll)
            } else ret ());
       ret 0
     } }
   }"

text \<open>The retry loop of \<open>a7s_read_dcxo_rate\<close>, on the attempts left; \<open>None\<close> after eight misses.\<close>

primrec a7s_read_dcxo_loop :: "env \<Rightarrow> nat \<Rightarrow> ('a machine_scheme, u32 option) state" where
  "a7s_read_dcxo_loop E 0 = ret None"
| "a7s_read_dcxo_loop E (Suc n) = do {
     first \<leftarrow> readl E A7S_RTC_XO_CTRL0;
     let first = first AND A7S_RTC_DCXO_STATUS_MASK;
     _ \<leftarrow> udelay 1;
     second \<leftarrow> readl E A7S_RTC_XO_CTRL0;
     let second = second AND A7S_RTC_DCXO_STATUS_MASK;
     _ \<leftarrow> udelay 1;
     third \<leftarrow> readl E A7S_RTC_XO_CTRL0;
     let third = third AND A7S_RTC_DCXO_STATUS_MASK;
     if first = second \<and> second = third then ret (Some first) else a7s_read_dcxo_loop E n
   }"

definition a7s_read_dcxo_rate :: "env \<Rightarrow> ('a machine_scheme, u32) state" where
  "a7s_read_dcxo_rate E = do {
     r \<leftarrow> a7s_read_dcxo_loop E 8;
     case r of None \<Rightarrow> ret 0
     | Some first \<Rightarrow>
         ret (if drop_bit 14 first = 1 then 19200000
              else if drop_bit 14 first = 2 then 26000000 else 24000000)
   }"

text \<open>The switch of \<open>a7s_ref_pll_init\<close>: the multiplier and divider for an oscillator rate.\<close>

definition ref_pll_factors :: "u32 \<Rightarrow> (u32 \<times> u32) option" where
  "ref_pll_factors dcxo_rate =
     (if dcxo_rate = 19200000 then Some (100, 80)
      else if dcxo_rate = 24000000 then Some (100, 100)
      else if dcxo_rate = 26000000 then Some (96, 104)
      else None)"

definition ref_pll :: a7s_pll_config where
  "ref_pll = \<lparr>pll_reg = a7s_ccu_reg PLL_REF_CTRL_REG, pattern_reg = 0,
     config_mask = push_bit 16 0x7f OR push_bit 8 0xff OR 2, config_value = 0,
     output_mask = A7S_REF_OUTPUT_GATE, supply_mask = A7S_REF_REG_ENABLE\<rparr>"

definition a7s_ref_pll_init :: "env \<Rightarrow> ('a machine_scheme, int) state" where
  "a7s_ref_pll_init E = do {
     running \<leftarrow> a7s_pll_is_running E ref_pll False;
     if running then ret 0 else do {
     dcxo_rate \<leftarrow> a7s_read_dcxo_rate E;
     case ref_pll_factors dcxo_rate of None \<Rightarrow> ret (-1)
     | Some (n, output_div) \<Rightarrow>
         a7s_pll_program E (ref_pll\<lparr>config_value :=
           push_bit 16 (output_div - 1) OR push_bit 8 (n - 1)\<rparr>) }
   }"

definition peri_pll :: "u32 \<Rightarrow> u32 \<Rightarrow> a7s_pll_config" where
  "peri_pll offset n = \<lparr>pll_reg = a7s_ccu_reg offset, pattern_reg = a7s_ccu_reg (offset + 8),
     config_mask = A7S_PERI_REF_PLL OR push_bit 20 7 OR push_bit 16 7 OR push_bit 8 0xff OR
                   push_bit 2 7 OR 2,
     config_value = A7S_PERI_REF_PLL OR push_bit 20 1 OR push_bit 16 2 OR push_bit 8 (n - 1) OR
                    push_bit 2 4,
     output_mask = A7S_PERI_OUTPUT_GATES, supply_mask = 0\<rparr>"

definition a7s_peri_pll_init :: "env \<Rightarrow> u32 \<Rightarrow> u32 \<Rightarrow> ('a machine_scheme, int) state" where
  "a7s_peri_pll_init E offset n = a7s_pll_program E (peri_pll offset n)"

section \<open>System buses\<close>

definition a7s_bus_switch_to_sys24 :: "env \<Rightarrow> u32 \<Rightarrow> u32 \<Rightarrow> ('a machine_scheme, unit) state" where
  "a7s_bus_switch_to_sys24 E offset source_mask = do {
     let reg = a7s_ccu_reg offset;
     v \<leftarrow> readl E reg;
     _ \<leftarrow> writel (v AND NOT source_mask) reg;
     v \<leftarrow> readl E reg;
     writel (v AND NOT A7S_BUS_DIV_MASK) reg
   }"

definition a7s_bus_use_sys24 :: "env \<Rightarrow> ('a machine_scheme, int) state" where
  "a7s_bus_use_sys24 E = do {
     _ \<leftarrow> a7s_bus_switch_to_sys24 E AHB_CLK_REG A7S_AHB_APB_SOURCE_MASK;
     _ \<leftarrow> a7s_bus_switch_to_sys24 E APB0_CLK_REG A7S_AHB_APB_SOURCE_MASK;
     _ \<leftarrow> a7s_bus_switch_to_sys24 E APB1_CLK_REG A7S_AHB_APB_SOURCE_MASK;
     _ \<leftarrow> a7s_bus_switch_to_sys24 E APB_UART_CLK_REG A7S_UART_SOURCE_MASK;
     v \<leftarrow> readl E (a7s_ccu_reg AHB_CLK_REG);
     if v AND (A7S_AHB_APB_SOURCE_MASK OR A7S_BUS_DIV_MASK) \<noteq> 0 then ret (-1) else do {
     v \<leftarrow> readl E (a7s_ccu_reg APB0_CLK_REG);
     if v AND (A7S_AHB_APB_SOURCE_MASK OR A7S_BUS_DIV_MASK) \<noteq> 0 then ret (-1) else do {
     v \<leftarrow> readl E (a7s_ccu_reg APB1_CLK_REG);
     if v AND (A7S_AHB_APB_SOURCE_MASK OR A7S_BUS_DIV_MASK) \<noteq> 0 then ret (-1) else do {
     v \<leftarrow> readl E (a7s_ccu_reg APB_UART_CLK_REG);
     if v AND (A7S_UART_SOURCE_MASK OR A7S_BUS_DIV_MASK) \<noteq> 0 then ret (-1) else ret 0 }}}
   }"

definition a7s_bus_switch_up ::
  "env \<Rightarrow> u32 \<Rightarrow> u32 \<Rightarrow> u32 \<Rightarrow> u32 \<Rightarrow> ('a machine_scheme, unit) state" where
  "a7s_bus_switch_up E offset source_mask source divider = do {
     let reg = a7s_ccu_reg offset;
     v \<leftarrow> readl E reg;
     _ \<leftarrow> writel ((v AND NOT A7S_BUS_DIV_MASK) OR divider) reg;
     v \<leftarrow> readl E reg;
     writel ((v AND NOT source_mask) OR source) reg
   }"

definition a7s_bus_use_nominal_rates :: "env \<Rightarrow> ('a machine_scheme, int) state" where
  "a7s_bus_use_nominal_rates E = do {
     _ \<leftarrow> a7s_bus_switch_up E AHB_CLK_REG A7S_AHB_APB_SOURCE_MASK
            A7S_AHB_SOURCE_PERI0_600 A7S_AHB_DIV_3;
     _ \<leftarrow> a7s_bus_switch_up E APB0_CLK_REG A7S_AHB_APB_SOURCE_MASK
            A7S_APB_SOURCE_PERI0_600 A7S_APB_DIV_6;
     _ \<leftarrow> a7s_bus_switch_up E APB1_CLK_REG A7S_AHB_APB_SOURCE_MASK
            A7S_APB_SOURCE_PERI0_600 A7S_APB_DIV_6;
     _ \<leftarrow> a7s_bus_switch_up E APB_UART_CLK_REG A7S_UART_SOURCE_MASK
            A7S_UART_SOURCE_PERI0_480 A7S_UART_DIV_20;
     v \<leftarrow> readl E (a7s_ccu_reg AHB_CLK_REG);
     if v AND (A7S_AHB_APB_SOURCE_MASK OR A7S_BUS_DIV_MASK) \<noteq>
        A7S_AHB_SOURCE_PERI0_600 OR A7S_AHB_DIV_3 then ret (-1) else do {
     v \<leftarrow> readl E (a7s_ccu_reg APB0_CLK_REG);
     if v AND (A7S_AHB_APB_SOURCE_MASK OR A7S_BUS_DIV_MASK) \<noteq>
        A7S_APB_SOURCE_PERI0_600 OR A7S_APB_DIV_6 then ret (-1) else do {
     v \<leftarrow> readl E (a7s_ccu_reg APB1_CLK_REG);
     if v AND (A7S_AHB_APB_SOURCE_MASK OR A7S_BUS_DIV_MASK) \<noteq>
        A7S_APB_SOURCE_PERI0_600 OR A7S_APB_DIV_6 then ret (-1) else do {
     v \<leftarrow> readl E (a7s_ccu_reg APB_UART_CLK_REG);
     if v AND (A7S_UART_SOURCE_MASK OR A7S_BUS_DIV_MASK) \<noteq>
        A7S_UART_SOURCE_PERI0_480 OR A7S_UART_DIV_20 then ret (-1) else ret 0 }}}
   }"

definition a7s_peri_distribution_enable :: "env \<Rightarrow> u32 \<Rightarrow> ('a machine_scheme, int) state" where
  "a7s_peri_distribution_enable E offset = do {
     let reg = a7s_ccu_reg offset;
     v \<leftarrow> readl E reg;
     _ \<leftarrow> writel (v OR A7S_PERI_DISTRIBUTION_GATES) reg;
     v \<leftarrow> readl E reg;
     ret (if v AND A7S_PERI_DISTRIBUTION_GATES = A7S_PERI_DISTRIBUTION_GATES then 0 else -1)
   }"

definition a7s_clock_reset :: "env \<Rightarrow> ('a machine_scheme, unit) state" where
  "a7s_clock_reset E = do { _ \<leftarrow> a7s_bus_use_sys24 E; ret () }"

definition a7s_clock_init :: "env \<Rightarrow> ('a machine_scheme, int) state" where
  "a7s_clock_init E = do {
     r \<leftarrow> a7s_bus_use_sys24 E;
     if r \<noteq> 0 then ret A7S_CLOCK_ERR_BUS else do {
     r \<leftarrow> a7s_ref_pll_init E;
     if r \<noteq> 0 then ret A7S_CLOCK_ERR_REF_PLL else do {
     r \<leftarrow> a7s_peri_pll_init E PLL_PERI0_CTRL_REG 100;
     if r \<noteq> 0 then ret A7S_CLOCK_ERR_PERI0_PLL else do {
     r \<leftarrow> a7s_peri_pll_init E PLL_PERI1_CTRL_REG 100;
     if r \<noteq> 0 then do { _ \<leftarrow> a7s_bus_use_sys24 E; ret A7S_CLOCK_ERR_PERI1_PLL } else do {
     r \<leftarrow> a7s_peri_distribution_enable E PERI0PLL_GATE_EN_REG;
     bad \<leftarrow> (if r \<noteq> 0 then ret True
             else do { r \<leftarrow> a7s_peri_distribution_enable E PERI1PLL_GATE_EN_REG; ret (r \<noteq> 0) });
     if bad then do { _ \<leftarrow> a7s_bus_use_sys24 E; ret A7S_CLOCK_ERR_BUS } else do {
     r \<leftarrow> a7s_bus_use_nominal_rates E;
     if r \<noteq> 0 then do { _ \<leftarrow> a7s_bus_use_sys24 E; ret A7S_CLOCK_ERR_BUS }
     else ret A7S_CLOCK_OK }}}}}
   }"

end
