(* ===== verification/Clock_Correct.thy ===== *)
theory Clock_Correct
  imports Clock
begin

text \<open>
  What the clock bring-up guarantees. The PLL lock test is judged against the reads it made;
  the bus switching against the last value written to the clock register of each bus, under
  the documented behaviour that the source and divider fields of these registers read back
  what was written.
\<close>

unbundle bit_operations_syntax

section \<open>Lock polling\<close>

definition lock_bit :: "u32 \<Rightarrow> bool" where
  "lock_bit v \<longleftrightarrow> v AND A7S_PLL_LOCK \<noteq> 0"

text \<open>The newest \<open>n\<close> rounds of the polling loop each saw the lock bit.\<close>

fun good_rounds :: "u32 \<Rightarrow> history \<Rightarrow> nat \<Rightarrow> bool" where
  "good_rounds reg t 0 = True"
| "good_rounds reg (Udelay d # Rd a v # t) (Suc n) \<longleftrightarrow>
     d = 1 \<and> a = reg \<and> lock_bit v \<and> good_rounds reg t n"
| "good_rounds reg _ (Suc n) = False"

text \<open>The three newest reads of a register, a microsecond apart, all saw the lock bit.\<close>

definition locked_thrice :: "u32 \<Rightarrow> history \<Rightarrow> bool" where
  "locked_thrice reg t \<longleftrightarrow> (\<exists>v t'. t = Rd reg v # t' \<and> lock_bit v \<and> good_rounds reg t' 2)"

lemma wait_loop_sound:
  "stable_count < 3 \<Longrightarrow> good_rounds reg (trace w) stable_count \<Longrightarrow>
     wp (a7s_pll_wait_loop E reg n stable_count)
       (\<lambda>r w'. r = 0 \<and> locked_thrice reg (trace w') \<or> r = -1) w"
proof (induction n arbitrary: stable_count w)
  case (Suc n)
  show ?case
  proof (cases "lock_bit (dev_read E (trace w) reg)")
    case True
    show ?thesis
    proof (cases "stable_count = 2")
      case True
      then show ?thesis
        using Suc.prems \<open>lock_bit _\<close> by (auto simp: wp_simps lock_bit_def locked_thrice_def)
    next
      case False
      then show ?thesis
        using Suc.prems \<open>lock_bit _\<close>
          Suc.IH [of "stable_count + 1"
            "w\<lparr>trace := Udelay 1 # Rd reg (dev_read E (trace w) reg) # trace w\<rparr>"]
        by (simp add: wp_simps lock_bit_def)
    qed
  next
    case False
    then show ?thesis
      using Suc.IH [of 0 "w\<lparr>trace := Udelay 1 # Rd reg (dev_read E (trace w) reg) # trace w\<rparr>"]
      by (simp add: wp_simps lock_bit_def)
  qed
qed (simp add: wp_simps)

lemma wait_stable_sound:
  "wp (a7s_pll_wait_stable E reg) (\<lambda>r w'. r = 0 \<and> locked_thrice reg (trace w') \<or> r = -1) w"
  unfolding a7s_pll_wait_stable_def wp_simps by (rule wait_loop_sound) simp_all

text \<open>The number of microseconds a history has waited.\<close>

fun waited :: "history \<Rightarrow> nat" where
  "waited [] = 0"
| "waited (Udelay d # t) = unat d + waited t"
| "waited (_ # t) = waited t"

text \<open>A PLL that reports lock from some time on is found locked three rounds later.\<close>

lemma wait_loop_locked:
  assumes lock: "\<And>t. k \<le> waited t \<Longrightarrow> lock_bit (dev_read E t reg)"
  shows "k \<le> waited (trace w) \<Longrightarrow> stable_count < 3 \<Longrightarrow> 3 \<le> n + stable_count \<Longrightarrow>
    wp (a7s_pll_wait_loop E reg n stable_count) (\<lambda>r w'. r = 0) w"
proof (induction n arbitrary: stable_count w)
  case (Suc n)
  have "dev_read E (trace w) reg AND A7S_PLL_LOCK \<noteq> 0"
    using lock [OF Suc.prems(1)] by (simp add: lock_bit_def)
  then show ?case
    using Suc.prems
      Suc.IH [of "w\<lparr>trace := Udelay 1 # Rd reg (dev_read E (trace w) reg) # trace w\<rparr>" "stable_count + 1"]
    by (simp add: wp_simps)
qed simp

lemma wait_loop_live:
  assumes lock: "\<And>t. k \<le> waited t \<Longrightarrow> lock_bit (dev_read E t reg)"
  shows "k \<le> waited (trace w) + m \<Longrightarrow> stable_count < 3 \<Longrightarrow>
    wp (a7s_pll_wait_loop E reg (m + 3) stable_count) (\<lambda>r w'. r = 0) w"
proof (induction m arbitrary: stable_count w)
  case 0
  then show ?case using wait_loop_locked [OF lock, of k w stable_count "0 + 3"] by simp
next
  case (Suc m)
  let ?w = "w\<lparr>trace := Udelay 1 # Rd reg (dev_read E (trace w) reg) # trace w\<rparr>"
  have "Suc m + 3 = Suc (m + 3)" by simp
  then show ?case
    using Suc.prems Suc.IH [of ?w 0] Suc.IH [of ?w "stable_count + 1"]
    by (simp only: a7s_pll_wait_loop.simps) (simp add: wp_simps)
qed

lemma wait_stable_live:
  assumes "\<And>t. k \<le> waited t \<Longrightarrow> lock_bit (dev_read E t reg)" and "k \<le> waited (trace w) + 1000"
  shows "wp (a7s_pll_wait_stable E reg) (\<lambda>r w'. r = 0) w"
proof -
  let ?w = "w\<lparr>trace := Udelay 3 # trace w\<rparr>"
  have "k \<le> waited (trace ?w) + 997" using assms(2) by simp
  then have "wp (a7s_pll_wait_loop E reg (997 + 3) 0) (\<lambda>r w'. r = 0) ?w"
    using assms(1) by (intro wait_loop_live) auto
  then show ?thesis by (simp add: a7s_pll_wait_stable_def wp_simps)
qed

text \<open>
  The lock test of a PLL is sound and complete: it returns 0 only when the last three reads
  of the control register, one microsecond apart, all had the lock bit, it returns 0 or -1 in
  any case, and it does return 0 for a PLL that holds its lock from at most 1000 microseconds
  after the call on.
\<close>
theorem a7s_pll_wait_stable_correct:
  assumes "run_state (a7s_pll_wait_stable E reg) w = (r, w')"
  shows "(r = 0 \<or> r = -1) \<and> (r = 0 \<longrightarrow> locked_thrice reg (trace w')) \<and>
    (\<forall>k. (\<forall>t. k \<le> waited t \<longrightarrow> lock_bit (dev_read E t reg)) \<longrightarrow>
         k \<le> waited (trace w) + 1000 \<longrightarrow> r = 0)"
  using wp_runD [OF wait_stable_sound assms] wp_runD [OF wait_stable_live [of _ E reg w] assms]
  by auto

theorem a7s_pll_wait_stable_correct_witness:
  "\<exists>w'. run_state (a7s_pll_wait_stable \<lparr>dev_read = (\<lambda>_ _. A7S_PLL_LOCK),
        ext_call = (\<lambda>_ _ _. (0, 0))\<rparr> 0x02002000) \<lparr>trace = []\<rparr> = (0, w')"
proof -
  let ?E = "\<lparr>dev_read = (\<lambda>_ _. A7S_PLL_LOCK), ext_call = (\<lambda>_ _ _. (0, 0))\<rparr>"
  obtain r w' where run: "run_state (a7s_pll_wait_stable ?E 0x02002000) \<lparr>trace = []\<rparr> = (r, w')"
    by fastforce
  have "\<forall>k. (\<forall>t. k \<le> waited t \<longrightarrow> lock_bit (dev_read ?E t 0x02002000)) \<longrightarrow>
      k \<le> waited (trace \<lparr>trace = []\<rparr>) + 1000 \<longrightarrow> r = 0"
    using a7s_pll_wait_stable_correct [OF run] by (elim conjE)
  from spec [OF this, of 0] have "r = 0" by (simp add: lock_bit_def)
  then show ?thesis using run by simp
qed

section \<open>Bus registers\<close>

text \<open>The clock registers of the four system buses with the mask of their fields.\<close>

definition bus_regs :: "(u32 \<times> u32) list" where
  "bus_regs = [(AHB_CLK_REG, A7S_AHB_APB_SOURCE_MASK OR A7S_BUS_DIV_MASK),
               (APB0_CLK_REG, A7S_AHB_APB_SOURCE_MASK OR A7S_BUS_DIV_MASK),
               (APB1_CLK_REG, A7S_AHB_APB_SOURCE_MASK OR A7S_BUS_DIV_MASK),
               (APB_UART_CLK_REG, A7S_UART_SOURCE_MASK OR A7S_BUS_DIV_MASK)]"

definition bus_latches :: "env \<Rightarrow> bool" where
  "bus_latches E \<longleftrightarrow> (\<forall>(off, m)\<in>set bus_regs. latches E (a7s_ccu_reg off) m)"

text \<open>The last value written to a bus clock register has the given fields.\<close>

definition bus_field :: "history \<Rightarrow> u32 \<Rightarrow> u32 \<Rightarrow> u32 \<Rightarrow> bool" where
  "bus_field t off m f \<longleftrightarrow> (\<exists>x. last_write t (a7s_ccu_reg off) = Some x \<and> x AND m = f)"

definition sys24_selected :: "history \<Rightarrow> bool" where
  "sys24_selected t \<longleftrightarrow> (\<forall>(off, m)\<in>set bus_regs. bus_field t off m 0)"

definition nominal_selected :: "history \<Rightarrow> bool" where
  "nominal_selected t \<longleftrightarrow>
     bus_field t AHB_CLK_REG (A7S_AHB_APB_SOURCE_MASK OR A7S_BUS_DIV_MASK) 0x03000002 \<and>
     bus_field t APB0_CLK_REG (A7S_AHB_APB_SOURCE_MASK OR A7S_BUS_DIV_MASK) 0x03000005 \<and>
     bus_field t APB1_CLK_REG (A7S_AHB_APB_SOURCE_MASK OR A7S_BUS_DIV_MASK) 0x03000005 \<and>
     bus_field t APB_UART_CLK_REG (A7S_UART_SOURCE_MASK OR A7S_BUS_DIV_MASK) 0x04000013"

lemma bus_field_simps [simp]:
  "bus_field (Rd a v # t) off m f = bus_field t off m f"
  "bus_field (Udelay n # t) off m f = bus_field t off m f"
  "bus_field (Wr a v # t) off m f =
     (if a = a7s_ccu_reg off then v AND m = f else bus_field t off m f)"
  by (auto simp: bus_field_def)

lemma ccu_reg_eq [simp]: "a7s_ccu_reg x = a7s_ccu_reg y \<longleftrightarrow> x = y"
  by (simp add: a7s_ccu_reg_def)

lemma bus_field_read:
  "latches E (a7s_ccu_reg off) m \<Longrightarrow> bus_field t off m f \<Longrightarrow> dev_read E t (a7s_ccu_reg off) AND m = f"
  unfolding bus_field_def using latchesD by blast

lemma bus_field_emits:
  assumes "emits P m" and "\<And>e. P e \<Longrightarrow> \<not> writes_reg (a7s_ccu_reg off) e"
  shows "bus_field (trace (snd (run_state m w))) off k f = bus_field (trace w) off k f"
  unfolding bus_field_def using emits_last_write [OF assms] by simp

lemma masked_clear_source:
  fixes x v :: "'a::len word"
  assumes "x AND (s OR d) = (v AND NOT s) AND (s OR d)"
  shows "(x AND NOT d) AND (s OR d) = 0"
proof (rule bit_word_eqI)
  fix n
  assume n: "n < LENGTH('a)"
  have "bit (x AND (s OR d)) n = bit ((v AND NOT s) AND (s OR d)) n" using assms by simp
  then show "bit ((x AND NOT d) AND (s OR d)) n = bit (0 :: 'a word) n"
    using n by (auto simp: bit_and_iff bit_or_iff bit_not_iff)
qed

lemma masked_set_fields:
  fixes x v :: "'a::len word"
  assumes "x AND (s OR d) = ((v AND NOT d) OR dv) AND (s OR d)"
    and "dv AND d = dv" and "sv AND s = sv" and "s AND d = 0"
  shows "((x AND NOT s) OR sv) AND (s OR d) = sv OR dv"
proof (rule bit_word_eqI)
  fix n
  assume n: "n < LENGTH('a)"
  have "bit (x AND (s OR d)) n = bit (((v AND NOT d) OR dv) AND (s OR d)) n"
    "bit (dv AND d) n = bit dv n" "bit (sv AND s) n = bit sv n" "bit (s AND d) n = bit (0::'a word) n"
    using assms by simp_all
  then show "bit (((x AND NOT s) OR sv) AND (s OR d)) n = bit (sv OR dv) n"
    using n by (auto simp: bit_and_iff bit_or_iff bit_not_iff)
qed

text \<open>Switching one bus sets its own fields and leaves the other buses alone.\<close>

definition only_bus :: "u32 \<Rightarrow> history \<Rightarrow> history \<Rightarrow> bool" where
  "only_bus off t t' \<longleftrightarrow> (\<forall>o' m f. o' \<noteq> off \<longrightarrow> bus_field t' o' m f = bus_field t o' m f)"

lemma switch_to_sys24:
  assumes "latches E (a7s_ccu_reg off) (src OR A7S_BUS_DIV_MASK)"
    and "\<And>w'. bus_field (trace w') off (src OR A7S_BUS_DIV_MASK) 0 \<Longrightarrow>
           only_bus off (trace w) (trace w') \<Longrightarrow> Q () w'"
  shows "wp (a7s_bus_switch_to_sys24 E off src) Q w"
proof -
  let ?r = "a7s_ccu_reg off"
  let ?v = "dev_read E (trace w) ?r"
  let ?t = "Wr ?r (?v AND NOT src) # Rd ?r ?v # trace w"
  have "dev_read E ?t ?r AND (src OR A7S_BUS_DIV_MASK) = (?v AND NOT src) AND (src OR A7S_BUS_DIV_MASK)"
    using assms(1) by (rule latchesD) simp
  from masked_clear_source [OF this] show ?thesis
    unfolding a7s_bus_switch_to_sys24_def Let_def wp_simps by (intro assms(2)) (simp_all add: only_bus_def)
qed

lemma switch_up:
  assumes "latches E (a7s_ccu_reg off) (src OR A7S_BUS_DIV_MASK)"
    and "dv AND A7S_BUS_DIV_MASK = dv" and "sv AND src = sv" and "src AND A7S_BUS_DIV_MASK = 0"
    and "\<And>w'. bus_field (trace w') off (src OR A7S_BUS_DIV_MASK) (sv OR dv) \<Longrightarrow>
           only_bus off (trace w) (trace w') \<Longrightarrow> Q () w'"
  shows "wp (a7s_bus_switch_up E off src sv dv) Q w"
proof -
  let ?r = "a7s_ccu_reg off"
  let ?v = "dev_read E (trace w) ?r"
  let ?t = "Wr ?r ((?v AND NOT A7S_BUS_DIV_MASK) OR dv) # Rd ?r ?v # trace w"
  have "dev_read E ?t ?r AND (src OR A7S_BUS_DIV_MASK) =
      ((?v AND NOT A7S_BUS_DIV_MASK) OR dv) AND (src OR A7S_BUS_DIV_MASK)"
    using assms(1) by (rule latchesD) simp
  from masked_set_fields [OF this assms(2-4)] show ?thesis
    unfolding a7s_bus_switch_up_def Let_def wp_simps by (intro assms(5)) (simp_all add: only_bus_def)
qed

lemma bus_latchesD:
  assumes "bus_latches E"
  shows "latches E (a7s_ccu_reg AHB_CLK_REG) (A7S_AHB_APB_SOURCE_MASK OR A7S_BUS_DIV_MASK)"
    "latches E (a7s_ccu_reg APB0_CLK_REG) (A7S_AHB_APB_SOURCE_MASK OR A7S_BUS_DIV_MASK)"
    "latches E (a7s_ccu_reg APB1_CLK_REG) (A7S_AHB_APB_SOURCE_MASK OR A7S_BUS_DIV_MASK)"
    "latches E (a7s_ccu_reg APB_UART_CLK_REG) (A7S_UART_SOURCE_MASK OR A7S_BUS_DIV_MASK)"
  using assms unfolding bus_latches_def bus_regs_def by auto

lemma bus_reads:
  assumes "bus_latches E"
  shows "bus_field t AHB_CLK_REG 0x0300001f f \<Longrightarrow> dev_read E t (a7s_ccu_reg AHB_CLK_REG) AND 0x0300001f = f"
    "bus_field t APB0_CLK_REG 0x0300001f f \<Longrightarrow> dev_read E t (a7s_ccu_reg APB0_CLK_REG) AND 0x0300001f = f"
    "bus_field t APB1_CLK_REG 0x0300001f f \<Longrightarrow> dev_read E t (a7s_ccu_reg APB1_CLK_REG) AND 0x0300001f = f"
    "bus_field t APB_UART_CLK_REG 0x0700001f f \<Longrightarrow>
       dev_read E t (a7s_ccu_reg APB_UART_CLK_REG) AND 0x0700001f = f"
  using bus_latchesD [OF assms] by (auto intro: bus_field_read)

lemma use_sys24:
  assumes L: "bus_latches E"
  shows "wp (a7s_bus_use_sys24 E) (\<lambda>r w'. r = 0 \<and> sys24_selected (trace w')) w"
  unfolding a7s_bus_use_sys24_def wp_bind
  apply (rule switch_to_sys24 [OF bus_latchesD(1) [OF L]])
  apply (rule switch_to_sys24 [OF bus_latchesD(2) [OF L]])
  apply (rule switch_to_sys24 [OF bus_latchesD(3) [OF L]])
  apply (rule switch_to_sys24 [OF bus_latchesD(4) [OF L]])
  apply (simp add: wp_simps only_bus_def bus_reads [OF L] sys24_selected_def bus_regs_def)
  done

lemma use_nominal_rates:
  assumes L: "bus_latches E"
  shows "wp (a7s_bus_use_nominal_rates E) (\<lambda>r w'. r = 0 \<and> nominal_selected (trace w')) w"
  unfolding a7s_bus_use_nominal_rates_def wp_bind
  apply (rule switch_up [OF bus_latchesD(1) [OF L]], (simp; fail)+)
  apply (rule switch_up [OF bus_latchesD(2) [OF L]], (simp; fail)+)
  apply (rule switch_up [OF bus_latchesD(3) [OF L]], (simp; fail)+)
  apply (rule switch_up [OF bus_latchesD(4) [OF L]], (simp; fail)+)
  apply (simp add: wp_simps only_bus_def bus_reads [OF L] nominal_selected_def)
  done

section \<open>The PLL code leaves the buses alone\<close>

lemma wait_loop_emits:
  "(\<And>v. P (Rd reg v)) \<Longrightarrow> P (Udelay 1) \<Longrightarrow> emits P (a7s_pll_wait_loop E reg n stable_count)"
  by (induction n arbitrary: stable_count) (auto intro!: emits_intros)

lemma wait_stable_emits [emits_intros]:
  "(\<And>v. P (Rd reg v)) \<Longrightarrow> P (Udelay 1) \<Longrightarrow> P (Udelay 3) \<Longrightarrow> emits P (a7s_pll_wait_stable E reg)"
  unfolding a7s_pll_wait_stable_def by (intro emits_intros wait_loop_emits)

lemma is_running_emits [emits_intros]:
  assumes "\<And>a v. P (Rd a v)" and "\<And>n. P (Udelay n)"
  shows "emits P (a7s_pll_is_running E pll c)"
  unfolding a7s_pll_is_running_def Let_def by (intro emits_intros assms)

lemma pll_program_emits [emits_intros]:
  assumes "\<And>a v. P (Rd a v)" and "\<And>n. P (Udelay n)"
    and "\<And>v. P (Wr (pll_reg pll) v)" and "\<And>v. P (Wr (pattern_reg pll) v)"
  shows "emits P (a7s_pll_program E pll)"
  unfolding a7s_pll_program_def Let_def by (intro emits_intros assms)

lemma read_dcxo_emits [emits_intros]:
  assumes "\<And>a v. P (Rd a v)" and "\<And>n. P (Udelay n)"
  shows "emits P (a7s_read_dcxo_rate E)"
proof -
  have "emits P (a7s_read_dcxo_loop E n)" for n
    by (induction n) (auto simp: Let_def intro!: emits_intros assms)
  then show ?thesis
    unfolding a7s_read_dcxo_rate_def by (intro emits_bind) (auto intro!: emits_intros split: option.split)
qed

text \<open>Neither the PLL registers nor the distribution gates are bus clock registers.\<close>

definition not_bus :: "event \<Rightarrow> bool" where
  "not_bus e \<longleftrightarrow> (\<forall>(off, m)\<in>set bus_regs. \<not> writes_reg (a7s_ccu_reg off) e)"

lemma not_bus_simps [simp]:
  "not_bus (Rd a v)" "not_bus (Udelay n)"
  "not_bus (Wr a v) \<longleftrightarrow> (\<forall>(off, m)\<in>set bus_regs. a \<noteq> a7s_ccu_reg off)"
  by (auto simp: not_bus_def)

lemma ref_pll_init_emits: "emits not_bus (a7s_ref_pll_init E)"
  unfolding a7s_ref_pll_init_def
  by (intro emits_intros)
    (auto simp: ref_pll_def bus_regs_def a7s_ccu_reg_def intro!: emits_intros split: option.split)

lemma peri_pll_init_emits:
  "off \<in> {PLL_PERI0_CTRL_REG, PLL_PERI1_CTRL_REG} \<Longrightarrow> emits not_bus (a7s_peri_pll_init E off n)"
  unfolding a7s_peri_pll_init_def
  by (intro emits_intros) (auto simp: peri_pll_def bus_regs_def a7s_ccu_reg_def)

lemma distribution_emits:
  "off \<in> {PERI0PLL_GATE_EN_REG, PERI1PLL_GATE_EN_REG} \<Longrightarrow>
     emits not_bus (a7s_peri_distribution_enable E off)"
  unfolding a7s_peri_distribution_enable_def Let_def
  by (intro emits_intros) (auto simp: bus_regs_def a7s_ccu_reg_def)

lemma sys24_frame:
  assumes "emits not_bus m" and "sys24_selected (trace w)"
  shows "wp m (\<lambda>r w'. sys24_selected (trace w')) w"
  unfolding wp_def sys24_selected_def
proof (clarify)
  fix off k
  assume *: "(off, k) \<in> set bus_regs"
  then have "\<not> writes_reg (a7s_ccu_reg off) e" if "not_bus e" for e
    using that by (auto simp: not_bus_def)
  with * show "bus_field (trace (snd (run_state m w))) off k 0"
    using assms(2) by (subst bus_field_emits [OF assms(1)]) (auto simp: sys24_selected_def)
qed

section \<open>Initialisation\<close>

lemma clock_init_outcome:
  assumes L: "bus_latches E"
  shows "wp (a7s_clock_init E)
    (\<lambda>r w'. r \<in> {A7S_CLOCK_OK, A7S_CLOCK_ERR_REF_PLL, A7S_CLOCK_ERR_PERI0_PLL,
               A7S_CLOCK_ERR_PERI1_PLL, A7S_CLOCK_ERR_BUS} \<and>
       (if r = A7S_CLOCK_OK then nominal_selected (trace w') else sys24_selected (trace w'))) w"
proof -
  note sys24 = use_sys24 [OF L, THEN wp_mono]
  note frame = sys24_frame [THEN wp_mono]
  show ?thesis
    unfolding a7s_clock_init_def wp_bind
    apply (rule sys24, clarsimp simp: wp_simps)
    apply (rule frame [OF ref_pll_init_emits], assumption, clarsimp simp: wp_simps)
    apply (rule frame [OF peri_pll_init_emits], simp, assumption, clarsimp simp: wp_simps)
    apply (rule frame [OF peri_pll_init_emits], simp, assumption, clarsimp simp: wp_simps)
    apply (rule conjI)
     apply (clarify, rule sys24, clarsimp simp: wp_simps)
    apply clarify
    apply (rule frame [OF distribution_emits], simp, assumption, clarsimp simp: wp_simps)
    apply (rule conjI)
     apply (clarify, rule sys24, clarsimp simp: wp_simps)
    apply clarify
    apply (rule frame [OF distribution_emits], simp, assumption, clarsimp simp: wp_simps)
    apply (rule conjI)
     apply (clarify, rule sys24, clarsimp simp: wp_simps)
    apply clarify
    apply (rule use_nominal_rates [OF L, THEN wp_mono], clarsimp simp: wp_simps)
    done
qed

end
