(* ===== verification/Pll_Correct.thy ===== *)
theory Pll_Correct
  imports Clock_Correct
begin

text \<open>
  The programming sequence of a PLL, on a control register whose bits other than the lock
  status are plain storage: when \<open>a7s_pll_program\<close> returns 0 the register enables the PLL, its
  regulator, its lock detector and its outputs with the requested factors, and the PLL was
  seen locked in its last three samples.
\<close>

unbundle bit_operations_syntax

section \<open>Plain storage\<close>

text \<open>
  The field \<open>m\<close> of register \<open>a\<close> changes only when the register is written and then holds what
  was written.
\<close>

definition stores :: "env \<Rightarrow> u32 \<Rightarrow> u32 \<Rightarrow> bool" where
  "stores E a m \<longleftrightarrow>
     (\<forall>t v. dev_read E (Wr a v # t) a AND m = v AND m) \<and>
     (\<forall>t e. \<not> writes_reg a e \<longrightarrow> dev_read E (e # t) a AND m = dev_read E t a AND m)"

definition holds :: "env \<Rightarrow> u32 \<Rightarrow> u32 \<Rightarrow> u32 \<Rightarrow> 'a machine_scheme \<Rightarrow> bool" where
  "holds E a m c w \<longleftrightarrow> dev_read E (trace w) a AND m = c"

lemma stores_frame:
  "stores E a m \<Longrightarrow> \<forall>e\<in>set es. \<not> writes_reg a e \<Longrightarrow> dev_read E (es @ t) a AND m = dev_read E t a AND m"
  by (induction es) (auto simp: stores_def)

lemma stores_latches: "stores E a m \<Longrightarrow> latches E a m"
  unfolding latches_def
proof (intro allI impI)
  fix t v
  assume s: "stores E a m"
  show "last_write t a = Some v \<Longrightarrow> dev_read E t a AND m = v AND m"
  proof (induction t)
    case (Cons e t)
    show ?case
    proof (cases "writes_reg a e")
      case True
      then show ?thesis using Cons.prems s by (cases e) (auto simp: stores_def)
    next
      case False
      then have "last_write t a = Some v" using Cons.prems by (cases e) auto
      then show ?thesis using Cons.IH False s by (simp add: stores_def)
    qed
  qed simp
qed

lemma wp_other:
  assumes "stores E a m" and "holds E a m c w" and "emits (\<lambda>e. \<not> writes_reg a e) f"
    and "\<And>r w'. holds E a m c w' \<Longrightarrow> Q r w'"
  shows "wp f Q w"
proof -
  have "holds E a m c (snd (run_state f w))"
    using emitsE [OF assms(3), of w] stores_frame [OF assms(1)] assms(2)
    unfolding holds_def by metis
  then show ?thesis using assms(4) by (simp add: wp_def)
qed

lemma wp_readl_at:
  assumes "stores E a m" and "holds E a m c w"
    and "\<And>v w'. v AND m = c \<Longrightarrow> holds E a m c w' \<Longrightarrow> Q v w'"
  shows "wp (readl E a) Q w"
  using assms unfolding wp_readl holds_def by (simp add: stores_def)

lemma wp_writel_at:
  assumes "stores E a m" and "\<And>w'. holds E a m (v AND m) w' \<Longrightarrow> Q () w'"
  shows "wp (writel v a) Q w"
  using assms unfolding wp_writel holds_def by (simp add: stores_def)

section \<open>Programming a PLL\<close>

text \<open>All bits of a control register but the lock status.\<close>

definition pll_bits :: u32 where "pll_bits = NOT A7S_PLL_LOCK"

definition pll_required :: "a7s_pll_config \<Rightarrow> u32" where
  "pll_required pll = A7S_PLL_ENABLE OR A7S_PLL_LDO_ENABLE OR A7S_PLL_LOCK_ENABLE OR
     output_mask pll OR supply_mask pll"

text \<open>The bit fields of a configuration do not clash.\<close>

definition pll_config_ok :: "a7s_pll_config \<Rightarrow> bool" where
  "pll_config_ok pll \<longleftrightarrow>
     config_value pll AND config_mask pll = config_value pll \<and>
     config_mask pll AND pll_required pll = 0 \<and>
     output_mask pll AND (A7S_PLL_ENABLE OR A7S_PLL_LDO_ENABLE OR A7S_PLL_LOCK_ENABLE OR supply_mask pll) = 0 \<and>
     (pll_required pll OR config_mask pll) AND A7S_PLL_LOCK = 0 \<and>
     pattern_reg pll \<noteq> pll_reg pll"

definition pll_configured :: "a7s_pll_config \<Rightarrow> u32 \<Rightarrow> bool" where
  "pll_configured pll c \<longleftrightarrow>
     c AND pll_required pll = pll_required pll \<and> c AND config_mask pll = config_value pll"

text \<open>
  A PLL was seen locked at the end of a history: the three newest samples of its register,
  with the settling delay and a write that opens its outputs at most after them.
\<close>

definition seen_locked :: "u32 \<Rightarrow> history \<Rightarrow> bool" where
  "seen_locked reg t \<longleftrightarrow> (\<exists>t' es. t = es @ t' \<and> length es \<le> 3 \<and> locked_thrice reg t')"

lemma and_mask_free:
  fixes v c m k :: "'a::len word"
  assumes "v AND NOT k = c" and "m AND k = 0"
  shows "v AND m = c AND m"
proof (rule bit_word_eqI)
  fix n
  assume "n < LENGTH('a)"
  have "bit (v AND NOT k) n = bit c n" "bit (m AND k) n = bit (0::'a word) n"
    using assms by simp_all
  then show "bit (v AND m) n = bit (c AND m) n"
    using \<open>n < LENGTH('a)\<close> by (auto simp: bit_and_iff bit_not_iff)
qed

lemma or_free:
  fixes m k l :: "'a::len word"
  assumes "(m OR k) AND l = 0"
  shows "m AND l = 0" "k AND l = 0"
proof -
  have "\<not> (bit m n \<and> bit l n) \<and> \<not> (bit k n \<and> bit l n)" for n
    using assms by (metis bit_0_eq bit_and_iff bit_or_iff bot_apply bot_bool_def)
  then show "m AND l = 0" "k AND l = 0" by (auto intro!: bit_word_eqI simp: bit_and_iff)
qed

lemma or_keeps:
  fixes x m l :: "'a::len word"
  assumes "m AND l = 0"
  shows "((x OR m) AND NOT l) AND m = m"
proof (rule bit_word_eqI)
  fix n
  assume "n < LENGTH('a)"
  moreover have "\<not> (bit m n \<and> bit l n)" using assms by (metis bit_0_eq bit_and_iff bot_apply bot_bool_def)
  ultimately show "bit (((x OR m) AND NOT l) AND m) n = bit m n"
    by (auto simp: bit_and_iff bit_or_iff bit_not_iff)
qed

lemma is_running_at:
  assumes ok: "pll_config_ok pll" and st: "stores E (pll_reg pll) pll_bits"
    and h: "holds E (pll_reg pll) pll_bits c w"
  shows "wp (a7s_pll_is_running E pll True)
    (\<lambda>r w'. holds E (pll_reg pll) pll_bits c w' \<and>
       (r \<longrightarrow> pll_configured pll c \<and> locked_thrice (pll_reg pll) (trace w'))) w"
proof -
  have free: "pll_required pll AND A7S_PLL_LOCK = 0" "config_mask pll AND A7S_PLL_LOCK = 0"
    using ok or_free unfolding pll_config_ok_def by blast+
  have lock: "wp (a7s_pll_wait_stable E (pll_reg pll))
      (\<lambda>r w'. holds E (pll_reg pll) pll_bits c w' \<and> (r = 0 \<longrightarrow> locked_thrice (pll_reg pll) (trace w'))) w"
    if "holds E (pll_reg pll) pll_bits c w" for w :: "'a machine_scheme"
    by (rule wp_conj)
      (auto intro: wp_other [OF st that] wp_mono [OF wait_stable_sound] intro!: emits_intros)
  have conf: "pll_configured pll c"
    if "v AND pll_bits = c" "v AND pll_required pll = pll_required pll"
      "v AND config_mask pll = config_value pll" for v
    using that and_mask_free [OF that(1) [unfolded pll_bits_def]] free unfolding pll_configured_def by metis
  show ?thesis
    unfolding a7s_pll_is_running_def Let_def wp_bind pll_required_def [symmetric]
    apply (rule wp_readl_at [OF st h])
    apply (rule wp_ifI, rule wp_returnI, simp)
    apply (rule wp_ifI, rule wp_returnI, simp)
    apply (rule wp_bindI)
    apply (rule wp_other [OF st], assumption, (intro emits_intros, simp)+)
    apply (rule wp_ifI, rule wp_returnI, simp)
    apply (rule wp_bindI)
    apply (rule wp_mono [OF lock], assumption)
    apply (rule wp_returnI)
    apply (insert conf, blast)
    done
qed

text \<open>The bits the final writes leave, with the fields as arbitrary words.\<close>

lemma configured_bits:
  fixes v3 v4 v5 en ldo le out sup cm cv l :: "'a::len word"
  assumes "v4 AND NOT l = ((v3 AND NOT cm) OR (cv OR ldo OR sup)) AND NOT l"
    and "v5 AND NOT l = ((v4 OR en) OR le) AND NOT l"
    and "cv AND cm = cv" and "cm AND (en OR ldo OR le OR out OR sup) = 0"
    and "((en OR ldo OR le OR out OR sup) OR cm) AND l = 0"
  shows "((v5 OR out) AND NOT l) AND (en OR ldo OR le OR out OR sup) = en OR ldo OR le OR out OR sup"
    and "((v5 OR out) AND NOT l) AND cm = cv"
    and "v3 AND out = out \<Longrightarrow> (v5 AND NOT l) AND (en OR ldo OR le OR out OR sup) = en OR ldo OR le OR out OR sup"
    and "(v5 AND NOT l) AND cm = cv"
proof -
  have b: "bit v4 n \<and> \<not> bit l n \<longleftrightarrow> (bit v3 n \<and> \<not> bit cm n \<or> bit cv n \<or> bit ldo n \<or> bit sup n) \<and> \<not> bit l n"
    "bit v5 n \<and> \<not> bit l n \<longleftrightarrow> (bit v4 n \<or> bit en n \<or> bit le n) \<and> \<not> bit l n"
    "bit cv n \<longrightarrow> bit cm n"
    "\<not> (bit cm n \<and> (bit en n \<or> bit ldo n \<or> bit le n \<or> bit out n \<or> bit sup n))"
    "\<not> ((bit en n \<or> bit ldo n \<or> bit le n \<or> bit out n \<or> bit sup n \<or> bit cm n) \<and> bit l n)"
    if "n < LENGTH('a)" for n
    using assms [THEN arg_cong, of "\<lambda>w. bit w n"] that
    by (auto simp: bit_and_iff bit_or_iff bit_not_iff)
  show "((v5 OR out) AND NOT l) AND (en OR ldo OR le OR out OR sup) = en OR ldo OR le OR out OR sup"
    apply (rule bit_word_eqI)
    subgoal for n using b [of n] by (auto simp: bit_and_iff bit_or_iff bit_not_iff)
    done
  show "((v5 OR out) AND NOT l) AND cm = cv"
    apply (rule bit_word_eqI)
    subgoal for n using b [of n] by (auto simp: bit_and_iff bit_or_iff bit_not_iff)
    done
  show "(v5 AND NOT l) AND cm = cv"
    apply (rule bit_word_eqI)
    subgoal for n using b [of n] by (auto simp: bit_and_iff bit_or_iff bit_not_iff)
    done
  assume "v3 AND out = out"
  then have o: "bit out n \<longrightarrow> bit v3 n" for n
    by (metis bit_and_iff)
  show "(v5 AND NOT l) AND (en OR ldo OR le OR out OR sup) = en OR ldo OR le OR out OR sup"
    apply (rule bit_word_eqI)
    subgoal for n using b [of n] o [of n] by (auto simp: bit_and_iff bit_or_iff bit_not_iff)
    done
qed

text \<open>What a successful run of the sequence leaves.\<close>

definition pll_up :: "env \<Rightarrow> a7s_pll_config \<Rightarrow> 'a machine_scheme \<Rightarrow> bool" where
  "pll_up E pll w \<longleftrightarrow>
     (\<exists>c. holds E (pll_reg pll) pll_bits c w \<and> pll_configured pll c) \<and>
     seen_locked (pll_reg pll) (trace w)"

lemma locked_seen: "locked_thrice reg t \<Longrightarrow> length es \<le> 3 \<Longrightarrow> seen_locked reg (es @ t)"
  unfolding seen_locked_def by blast

lemma wait_stable_at:
  assumes st: "stores E reg m" and h: "holds E reg m c w"
  shows "wp (a7s_pll_wait_stable E reg)
    (\<lambda>r w'. holds E reg m c w' \<and> (r = 0 \<longrightarrow> locked_thrice reg (trace w'))) w"
  by (rule wp_conj) (auto intro: wp_other [OF st h] wp_mono [OF wait_stable_sound] intro!: emits_intros)

lemma pll_up_intro:
  assumes "dev_read E (es @ trace w) (pll_reg pll) AND pll_bits = c" and "pll_configured pll c"
    and "locked_thrice (pll_reg pll) (trace w)" and "length es \<le> 3"
  shows "pll_up E pll (w\<lparr>trace := es @ trace w\<rparr>)"
  using assms locked_seen unfolding pll_up_def holds_def by auto

text \<open>The end of the sequence: the settling delay and the outputs.\<close>

lemma pll_finish:
  assumes ok: "pll_config_ok pll" and st: "stores E (pll_reg pll) pll_bits"
    and v4: "v4 AND pll_bits = ((v3 AND NOT (config_mask pll)) OR
        (config_value pll OR A7S_PLL_LDO_ENABLE OR supply_mask pll)) AND pll_bits"
    and h: "holds E (pll_reg pll) pll_bits (((v4 OR A7S_PLL_ENABLE) OR A7S_PLL_LOCK_ENABLE) AND pll_bits) w"
    and out: "\<not> was_enabled \<Longrightarrow> v3 AND output_mask pll = output_mask pll"
    and lock: "locked_thrice (pll_reg pll) (trace w)"
  shows "wp (udelay 20 \<bind> (\<lambda>_. (if was_enabled then do {
              v \<leftarrow> readl E (pll_reg pll);
              writel (v OR output_mask pll) (pll_reg pll)
            } else ret ()) \<bind> (\<lambda>_. ret 0)))
         (\<lambda>r w'. r = (0::int) \<longrightarrow> pll_up E pll w') w"
proof -
  let ?R = "pll_reg pll"
  let ?t = "Udelay 20 # trace w"
  let ?v5 = "dev_read E ?t ?R"
  have v5: "?v5 AND pll_bits = ((v4 OR A7S_PLL_ENABLE) OR A7S_PLL_LOCK_ENABLE) AND pll_bits"
    using st h by (simp add: stores_def holds_def)
  have bits: "config_value pll AND config_mask pll = config_value pll"
    "config_mask pll AND (A7S_PLL_ENABLE OR A7S_PLL_LDO_ENABLE OR A7S_PLL_LOCK_ENABLE OR
       output_mask pll OR supply_mask pll) = 0"
    "((A7S_PLL_ENABLE OR A7S_PLL_LDO_ENABLE OR A7S_PLL_LOCK_ENABLE OR
       output_mask pll OR supply_mask pll) OR config_mask pll) AND A7S_PLL_LOCK = 0"
    using ok unfolding pll_config_ok_def pll_required_def by blast+
  note final = configured_bits [OF v4 [unfolded pll_bits_def] v5 [unfolded pll_bits_def] bits,
      folded pll_bits_def pll_required_def]
  show ?thesis
  proof (cases was_enabled)
    case True
    have "pll_up E pll (w\<lparr>trace := [Wr ?R (?v5 OR output_mask pll), Rd ?R ?v5, Udelay 20] @ trace w\<rparr>)"
    proof (rule pll_up_intro)
      show "pll_configured pll ((?v5 OR output_mask pll) AND pll_bits)"
        unfolding pll_configured_def using final(1,2) by blast
    qed (use st lock in \<open>simp_all add: stores_def\<close>)
    then show ?thesis using True by (simp add: wp_simps)
  next
    case False
    have "pll_up E pll (w\<lparr>trace := [Udelay 20] @ trace w\<rparr>)"
    proof (rule pll_up_intro)
      show "pll_configured pll (?v5 AND pll_bits)"
        unfolding pll_configured_def using final(3) [OF out [OF False]] final(4) by blast
    qed (use lock in simp_all)
    then show ?thesis using False by (simp add: wp_simps)
  qed
qed

text \<open>The common tail: enable the PLL, wait for its lock, open its outputs.\<close>

lemma pll_tail:
  assumes ok: "pll_config_ok pll" and st: "stores E (pll_reg pll) pll_bits"
    and h: "holds E (pll_reg pll) pll_bits c w"
    and out: "\<not> was_enabled \<Longrightarrow> c AND output_mask pll = output_mask pll"
  shows "wp (do {
     v \<leftarrow> readl E (pll_reg pll);
     _ \<leftarrow> writel ((v AND NOT (config_mask pll)) OR
                 (config_value pll OR A7S_PLL_LDO_ENABLE OR supply_mask pll)) (pll_reg pll);
     v \<leftarrow> readl E (pll_reg pll);
     _ \<leftarrow> writel (v OR A7S_PLL_ENABLE) (pll_reg pll);
     _ \<leftarrow> writel ((v OR A7S_PLL_ENABLE) OR A7S_PLL_LOCK_ENABLE) (pll_reg pll);
     unlocked \<leftarrow> a7s_pll_wait_stable E (pll_reg pll);
     if unlocked \<noteq> 0 then do {
       v \<leftarrow> readl E (pll_reg pll);
       _ \<leftarrow> writel (v AND NOT (output_mask pll)) (pll_reg pll);
       ret (-1 :: int)
     } else do {
       _ \<leftarrow> udelay 20;
       _ \<leftarrow> (if was_enabled then do {
              v \<leftarrow> readl E (pll_reg pll);
              writel (v OR output_mask pll) (pll_reg pll)
            } else ret ());
       ret 0
     } }) (\<lambda>r w'. r = 0 \<longrightarrow> pll_up E pll w') w"
proof -
  have free: "output_mask pll AND A7S_PLL_LOCK = 0"
    using ok unfolding pll_config_ok_def pll_required_def by (meson or_free)
  have keep: "v3 AND output_mask pll = output_mask pll"
    if "\<not> was_enabled" "v3 AND pll_bits = c" for v3
    using out [OF that(1)] and_mask_free [OF that(2) [unfolded pll_bits_def] free] by simp
  show ?thesis
    unfolding wp_bind
    apply (rule wp_readl_at [OF st h])
    apply (rule wp_writel_at [OF st])
    apply (rule wp_readl_at [OF st], assumption)
    apply (rule wp_writel_at [OF st])
    apply (rule wp_writel_at [OF st])
    apply (rule wp_mono [OF wait_stable_at [OF st]], assumption)
    apply (rule wp_ifI)
     apply (simp add: wp_simps)
    apply (rule pll_finish [OF ok st], assumption)
      apply blast
     apply (erule (1) keep)
    apply blast
    done
qed

lemma pll_program_up:
  assumes ok: "pll_config_ok pll" and st: "stores E (pll_reg pll) pll_bits"
  shows "wp (a7s_pll_program E pll) (\<lambda>r w'. r = 0 \<longrightarrow> pll_up E pll w') w"
proof -
  have ne: "pattern_reg pll \<noteq> pll_reg pll" using ok by (simp add: pll_config_ok_def)
  have h: "holds E (pll_reg pll) pll_bits (dev_read E (trace w) (pll_reg pll) AND pll_bits) w"
    by (simp add: holds_def)
  have "output_mask pll AND A7S_PLL_LOCK = 0"
    using ok unfolding pll_config_ok_def pll_required_def by (meson or_free)
  note out = or_keeps [OF this, folded pll_bits_def]
  show ?thesis
    unfolding a7s_pll_program_def Let_def
    apply (rule wp_bindI)
    apply (rule wp_readl_at [OF st h])
    apply (rule wp_bindI)
    apply (rule wp_mono [OF is_running_at [OF ok st]], assumption)
    apply (rule wp_ifI)
     apply (rule wp_returnI)
    subgoal using locked_seen [of "pll_reg pll" _ "[]"] unfolding pll_up_def by auto
    apply (rule wp_bindI)
    apply (rule wp_other [OF st], blast)
     apply (intro emits_intros, simp, simp add: ne [symmetric])
    apply (rule wp_bindI)
    apply (rule wp_readl_at [OF st], assumption)
    apply (rule wp_bindI)
    apply (rule wp_ifI)
     apply (rule wp_bindI, rule wp_writel_at [OF st])
     apply (rule wp_bindI, rule wp_readl_at [OF st], assumption)
     apply (rule wp_writel_at [OF st])
     apply (rule pll_tail [OF ok st], assumption, simp)
    apply (rule wp_bindI, rule wp_writel_at [OF st])
    apply (rule wp_writel_at [OF st])
    apply (rule pll_tail [OF ok st], assumption, rule out)
    done
qed

section \<open>Theorems\<close>

text \<open>A device that is plain storage except that every PLL reports lock at once.\<close>

definition locked_dev :: env where
  "locked_dev = \<lparr>dev_read = (\<lambda>t a. ram_dev t a OR A7S_PLL_LOCK), ext_call = (\<lambda>_ _ _. (0, 0))\<rparr>"

lemma locked_dev_stores: "stores locked_dev a pll_bits"
proof -
  have "last_write (e # t) a = last_write t a" if "\<not> writes_reg a e" for e t
    using that by (cases e) auto
  then show ?thesis
    unfolding stores_def locked_dev_def ram_dev_def pll_bits_def
    by (simp add: bit.conj_disj_distrib2 del: last_write.simps(3-))
qed

lemma wait_loop_numeral:
  "a7s_pll_wait_loop E reg (numeral k) stable_count = do {
     v \<leftarrow> readl E reg;
     if v AND A7S_PLL_LOCK \<noteq> 0 then
       if stable_count + 1 = A7S_PLL_LOCK_STABLE_READS then ret 0
       else do { _ \<leftarrow> udelay 1; a7s_pll_wait_loop E reg (pred_numeral k) (stable_count + 1) }
     else do { _ \<leftarrow> udelay 1; a7s_pll_wait_loop E reg (pred_numeral k) 0 }
   }"
  by (simp add: numeral_eq_Suc del: pred_numeral_simps)

lemma peri_pll_ok: "pll_config_ok (peri_pll PLL_PERI0_CTRL_REG 100)"
  by (simp add: pll_config_ok_def peri_pll_def pll_required_def a7s_ccu_reg_def)

lemma peri_pll_program_locked:
  "wp (a7s_pll_program locked_dev (peri_pll PLL_PERI0_CTRL_REG 100)) (\<lambda>r _. r = 0) \<lparr>trace = []\<rparr>"
  by (simp add: a7s_pll_program_def a7s_pll_is_running_def a7s_pll_wait_stable_def peri_pll_def
      a7s_ccu_reg_def wp_simps Let_def locked_dev_def ram_dev_def wait_loop_numeral
      del: a7s_pll_wait_loop.simps)

lemma locked_dev_bus: "bus_latches locked_dev"
proof -
  have "A7S_PLL_LOCK AND m = 0 \<Longrightarrow> latches locked_dev a m" for a m
    unfolding latches_def locked_dev_def ram_dev_def by (simp add: bit.conj_disj_distrib2)
  then show ?thesis by (simp add: bus_latches_def bus_regs_def)
qed

text \<open>
  C8: \<open>a7s_clock_init\<close> returns one of its five status codes, and whatever the PLLs and the
  oscillator do, the last values written to the clock registers of the four system buses select
  the nominal PLL rates exactly when it returns success; on every error path they select the
  24 MHz source with divider 1.
\<close>
theorem a7s_clock_init_buses:
  assumes "bus_latches E" and "run_state (a7s_clock_init E) w = (r, w')"
  shows "r \<in> {A7S_CLOCK_OK, A7S_CLOCK_ERR_REF_PLL, A7S_CLOCK_ERR_PERI0_PLL,
              A7S_CLOCK_ERR_PERI1_PLL, A7S_CLOCK_ERR_BUS} \<and>
    (if r = A7S_CLOCK_OK then nominal_selected (trace w') else sys24_selected (trace w'))"
  using wp_runD [OF clock_init_outcome [OF assms(1)] assms(2)] .

theorem a7s_clock_init_buses_witness:
  "\<exists>r w'. run_state (a7s_clock_init locked_dev) \<lparr>trace = []\<rparr> = (r, w') \<and>
     (if r = A7S_CLOCK_OK then nominal_selected (trace w') else sys24_selected (trace w'))"
proof -
  obtain r w' where run: "run_state (a7s_clock_init locked_dev) \<lparr>trace = []\<rparr> = (r, w')" by fastforce
  show ?thesis using a7s_clock_init_buses [OF locked_dev_bus run] run by blast
qed

text \<open>
  C9: when \<open>a7s_pll_program\<close> returns 0, the control register of the PLL (whose bits other than
  the lock status are storage) enables the PLL, its regulator, its lock detector and its
  outputs, holds exactly the requested factors, and the PLL was seen locked in three
  consecutive samples at the end of the sequence.
\<close>
theorem a7s_pll_program_correct:
  assumes "pll_config_ok pll" and "stores E (pll_reg pll) pll_bits"
    and "run_state (a7s_pll_program E pll) w = (0, w')"
  shows "\<exists>c. dev_read E (trace w') (pll_reg pll) AND pll_bits = c \<and>
    c AND pll_required pll = pll_required pll \<and> c AND config_mask pll = config_value pll \<and>
    seen_locked (pll_reg pll) (trace w')"
  using wp_runD [OF pll_program_up [OF assms(1,2)] assms(3)]
  by (auto simp: pll_up_def holds_def pll_configured_def)

theorem a7s_pll_program_correct_witness:
  "\<exists>w'. run_state (a7s_pll_program locked_dev (peri_pll PLL_PERI0_CTRL_REG 100)) \<lparr>trace = []\<rparr> = (0, w') \<and>
     seen_locked (pll_reg (peri_pll PLL_PERI0_CTRL_REG 100)) (trace w')"
proof -
  obtain w' where run: "run_state (a7s_pll_program locked_dev (peri_pll PLL_PERI0_CTRL_REG 100))
      \<lparr>trace = []\<rparr> = (0, w')"
    using peri_pll_program_locked by (auto simp: wp_run)
  show ?thesis using a7s_pll_program_correct [OF peri_pll_ok locked_dev_stores run] run by blast
qed

end
