(* ===== verification/Memory.thy ===== *)
theory Memory
  imports Machine
begin

text \<open>
  Byte-addressed memory of boot0: little-endian 32-bit accesses, \<open>memcpy\<close>, and the state of
  the board code, the machine with memory and the static variables of the platform files.
\<close>

unbundle bit_operations_syntax

type_synonym memory = "u32 \<Rightarrow> u8"

definition load32 :: "memory \<Rightarrow> u32 \<Rightarrow> u32" where
  "load32 m a = ucast (m a) OR push_bit 8 (ucast (m (a + 1))) OR
     push_bit 16 (ucast (m (a + 2))) OR push_bit 24 (ucast (m (a + 3)))"

definition store32 :: "u32 \<Rightarrow> u32 \<Rightarrow> memory \<Rightarrow> memory" where
  "store32 a v m = m(a := ucast v, a + 1 := ucast (drop_bit 8 v),
     a + 2 := ucast (drop_bit 16 v), a + 3 := ucast (drop_bit 24 v))"

text \<open>Bytes \<open>[a, a + n)\<close> of the address space, which does not wrap for the regions in use.\<close>

definition region :: "u32 \<Rightarrow> nat \<Rightarrow> u32 set" where
  "region a n = {b. unat (b - a) < n}"

definition memcpy :: "u32 \<Rightarrow> u32 \<Rightarrow> u32 \<Rightarrow> memory \<Rightarrow> memory" where
  "memcpy dest src n m = (\<lambda>b. if b - dest < n then m (src + (b - dest)) else m b)"

text \<open>A device or loader fills \<open>n\<close> bytes at \<open>dest\<close> with the given bytes.\<close>

definition fill :: "u32 \<Rightarrow> nat \<Rightarrow> (nat \<Rightarrow> u8) \<Rightarrow> memory \<Rightarrow> memory" where
  "fill dest n d m = (\<lambda>b. if unat (b - dest) < n then d (unat (b - dest)) else m b)"

lemma memcpy_outside: "b \<notin> region dest (unat n) \<Longrightarrow> memcpy dest src n m b = m b"
  by (simp add: memcpy_def region_def word_less_nat_alt)

lemma memcpy_inside: "unat i < unat n \<Longrightarrow> memcpy dest src n m (dest + i) = m (src + i)"
  by (simp add: memcpy_def word_less_nat_alt)

lemma fill_outside: "b \<notin> region dest n \<Longrightarrow> fill dest n d m b = m b"
  by (simp add: fill_def region_def)

lemma fill_inside: "unat i < n \<Longrightarrow> fill dest n d m (dest + i) = d (unat i)"
  by (simp add: fill_def)

text \<open>Two regions that do not wrap are disjoint when one ends before the other starts.\<close>

lemma region_disjoint:
  assumes "unat a + n \<le> unat b" and "unat b + k \<le> 2 ^ 32"
  shows "region a n \<inter> region b k = {}"
proof -
  have sub: "unat (c - d) = unat c - unat d" if "unat d \<le> unat c" for c d :: u32
    using that by (simp add: unat_sub word_le_nat_alt)
  have wrap: "unat (c - d) = 2 ^ 32 - (unat d - unat c)" if "unat c < unat d" for c d :: u32
    using that unat_u32_lt [of d] by (simp add: unat_sub_if')
  have False if c: "unat (c - a) < n" "unat (c - b) < k" for c
  proof (cases "unat b \<le> unat c")
    case True
    then have "unat (c - a) = unat c - unat a" using assms by (intro sub) auto
    then show ?thesis using c(1) True assms(1) by linarith
  next
    case False
    then have "unat (c - b) = 2 ^ 32 - (unat b - unat c)" by (intro wrap) simp
    then show ?thesis using c(2) assms(2) False by linarith
  qed
  then show ?thesis by (auto simp: region_def)
qed

lemma store32_other: "b \<notin> region a 4 \<Longrightarrow> store32 a v m b = m b"
proof -
  assume "b \<notin> region a 4"
  then have "b \<noteq> a" "b \<noteq> a + 1" "b \<noteq> a + 2" "b \<noteq> a + 3" by (auto simp: region_def)
  then show ?thesis by (simp add: store32_def)
qed

lemma load32_store32: "load32 (store32 a v m) a = v"
proof -
  have "ucast (ucast v :: u8) OR push_bit 8 (ucast (ucast (drop_bit 8 v) :: u8)) OR
      push_bit 16 (ucast (ucast (drop_bit 16 v) :: u8)) OR
      push_bit 24 (ucast (ucast (drop_bit 24 v) :: u8)) = v"
    apply (rule bit_word_eqI)
    subgoal for n by (cases "n < 8"; cases "n < 16"; cases "n < 24") (auto simp: bit_simps)
    done
  then show ?thesis by (simp add: load32_def store32_def)
qed

lemma load32_cong: "\<forall>b\<in>region a 4. m b = m' b \<Longrightarrow> load32 m a = load32 m' a"
  by (simp add: load32_def region_def)

lemma load32_store32_other:
  "region a 4 \<inter> region b 4 = {} \<Longrightarrow> load32 (store32 b v m) a = load32 m a"
  by (intro load32_cong ballI store32_other) blast

section \<open>The state of the board code\<close>

record board = machine +
  mem :: memory
  a7s_axp8191_ready :: bool
  mmc_devices :: "u32 \<Rightarrow> u32"

definition get32 :: "u32 \<Rightarrow> (('a board_scheme), u32) state" where
  "get32 a = do { w \<leftarrow> State_Monad.get; ret (load32 (mem w) a) }"

definition put32 :: "u32 \<Rightarrow> u32 \<Rightarrow> (('a board_scheme), unit) state" where
  "put32 a v = State_Monad.update (\<lambda>w. w\<lparr>mem := store32 a v (mem w)\<rparr>)"

lemma wp_get32 [wp_simps]: "wp (get32 a) Q w \<longleftrightarrow> Q (load32 (mem w) a) w"
  by (simp add: get32_def wp_simps)

lemma wp_put32 [wp_simps]: "wp (put32 a v) Q w \<longleftrightarrow> Q () (w\<lparr>mem := store32 a v (mem w)\<rparr>)"
  by (simp add: put32_def wp_simps)

lemma emits_get32 [emits_intros]: "emits P (get32 a)"
  unfolding get32_def by (intro emits_intros)

lemma emits_put32 [emits_intros]: "emits P (put32 a v)"
  unfolding put32_def by (intro emits_intros) simp

end
