(* ===== verification/Axp_Voltage.thy ===== *)
theory Axp_Voltage
  imports Prelude
begin

text \<open>
  The AXP8191 voltage tables of boot0 (\<^verbatim>\<open>src/src/axp8191_voltage.c\<close>): the selector ranges of
  each rail and the search for the selector of a requested voltage. The rails are described
  independently by the set of (selector, millivolt) pairs the PMIC offers; the search is shown
  to pick the smallest offered voltage that is not below the clamped request.
\<close>

section \<open>Model\<close>

record a7s_axp8191_linear_range =
  min_mv :: u32
  min_selector :: u32
  max_selector :: u32
  step_mv :: u32

definition mk_range :: "u32 \<Rightarrow> u32 \<Rightarrow> u32 \<Rightarrow> u32 \<Rightarrow> a7s_axp8191_linear_range" where
  "mk_range mv lo hi st = \<lparr>min_mv = mv, min_selector = lo, max_selector = hi, step_mv = st\<rparr>"

definition dcdc6_ranges :: "a7s_axp8191_linear_range list" where
  "dcdc6_ranges = [mk_range 500 0x00 0x46 10, mk_range 1220 0x47 0x57 20,
                   mk_range 1800 0x58 0x67 20, mk_range 2440 0x68 0x70 40]"

definition dcdc7_ranges :: "a7s_axp8191_linear_range list" where
  "dcdc7_ranges = [mk_range 500 0x00 0x46 10, mk_range 1220 0x47 0x57 20]"

definition dcdc8_ranges :: "a7s_axp8191_linear_range list" where
  "dcdc8_ranges = [mk_range 500 0x00 0x46 10, mk_range 1220 0x47 0x57 20,
                   mk_range 1900 0x58 0x67 100]"

definition eldo_ranges :: "a7s_axp8191_linear_range list" where
  "eldo_ranges = [mk_range 500 0x00 0x28 25]"

definition cldo_ranges :: "a7s_axp8191_linear_range list" where
  "cldo_ranges = [mk_range 500 0x00 0x1d 100]"

text \<open>The rails of \<open>enum a7s_axp8191_voltage_rail\<close>, the indices of \<open>voltage_descs\<close>.\<close>

abbreviation (input) A7S_AXP8191_DCDC6 :: u32 where "A7S_AXP8191_DCDC6 \<equiv> 0"
abbreviation (input) A7S_AXP8191_DCDC7 :: u32 where "A7S_AXP8191_DCDC7 \<equiv> 1"
abbreviation (input) A7S_AXP8191_DCDC8 :: u32 where "A7S_AXP8191_DCDC8 \<equiv> 2"
abbreviation (input) A7S_AXP8191_ELDO :: u32 where "A7S_AXP8191_ELDO \<equiv> 3"
abbreviation (input) A7S_AXP8191_CLDO :: u32 where "A7S_AXP8191_CLDO \<equiv> 4"

definition voltage_descs :: "a7s_axp8191_linear_range list list" where
  "voltage_descs = [dcdc6_ranges, dcdc7_ranges, dcdc8_ranges, eldo_ranges, cldo_ranges]"

definition range_max_mv :: "a7s_axp8191_linear_range \<Rightarrow> u32" where
  "range_max_mv r = min_mv r + (max_selector r - min_selector r) * step_mv r"

fun voltage_selector_loop :: "a7s_axp8191_linear_range list \<Rightarrow> u32 \<Rightarrow> u32 \<Rightarrow> int \<times> u32" where
  "voltage_selector_loop [] millivolts selector = (-1, selector)"
| "voltage_selector_loop (rng # rs) millivolts selector =
     (if step_mv rng = 0 \<or> min_selector rng > max_selector rng then (-1, selector)
      else if millivolts > range_max_mv rng then voltage_selector_loop rs millivolts selector
      else if millivolts \<le> min_mv rng then (0, min_selector rng)
      else let offset = (millivolts - min_mv rng + step_mv rng - 1) div step_mv rng in
        if min_selector rng + offset > max_selector rng
        then voltage_selector_loop rs millivolts selector
        else (0, min_selector rng + offset))"

text \<open>The output pointer is an option, \<open>None\<close> is NULL.\<close>

definition a7s_axp8191_voltage_selector :: "u32 \<Rightarrow> u32 \<Rightarrow> u32 option \<Rightarrow> int \<times> u32 option" where
  "a7s_axp8191_voltage_selector rail millivolts selector =
     (case selector of None \<Rightarrow> (-1, None)
      | Some sel \<Rightarrow>
        if unat rail \<ge> length voltage_descs then (-1, Some sel)
        else let ranges = voltage_descs ! unat rail in
          if ranges = [] then (-1, Some sel)
          else let millivolts = (if millivolts < min_mv (ranges ! 0) then min_mv (ranges ! 0)
                                 else millivolts);
                   max_mv = range_max_mv (ranges ! (length ranges - 1));
                   millivolts = (if millivolts > max_mv then max_mv else millivolts);
                   (r, s) = voltage_selector_loop ranges millivolts sel
               in (r, Some s))"

section \<open>What the rails offer\<close>

text \<open>The (selector, millivolt) pairs of a range, on natural numbers.\<close>

definition range_volts :: "a7s_axp8191_linear_range \<Rightarrow> (nat \<times> nat) set" where
  "range_volts r = (\<lambda>k. (unat (min_selector r) + k, unat (min_mv r) + k * unat (step_mv r))) `
     {0..unat (max_selector r) - unat (min_selector r)}"

definition volts :: "a7s_axp8191_linear_range list \<Rightarrow> (nat \<times> nat) set" where
  "volts rs = (\<Union>r\<in>set rs. range_volts r)"

definition rail_volts :: "u32 \<Rightarrow> (nat \<times> nat) set" where
  "rail_volts rail = volts (voltage_descs ! unat rail)"

definition max_volt :: "a7s_axp8191_linear_range \<Rightarrow> nat" where
  "max_volt r = unat (min_mv r) + (unat (max_selector r) - unat (min_selector r)) * unat (step_mv r)"

definition range_ok :: "a7s_axp8191_linear_range \<Rightarrow> bool" where
  "range_ok r \<longleftrightarrow> 0 < unat (step_mv r) \<and> unat (min_selector r) \<le> unat (max_selector r) \<and>
     unat (max_selector r) < 256 \<and> unat (min_mv r) < 0x10000 \<and> unat (step_mv r) < 256"

text \<open>Ranges in increasing order of selectors and voltages.\<close>

fun ranges_ok :: "a7s_axp8191_linear_range list \<Rightarrow> bool" where
  "ranges_ok [] = True"
| "ranges_ok (r # rs) \<longleftrightarrow> range_ok r \<and> ranges_ok rs \<and>
     (\<forall>q\<in>set rs. max_volt r < unat (min_mv q) \<and> unat (max_selector r) < unat (min_selector q))"

lemma ranges_ok_member: "ranges_ok rs \<Longrightarrow> q \<in> set rs \<Longrightarrow> range_ok q"
  by (induction rs) auto

lemma max_volt_bound: "range_ok r \<Longrightarrow> max_volt r < 0x20000"
proof -
  assume "range_ok r"
  then have "(unat (max_selector r) - unat (min_selector r)) * unat (step_mv r) \<le> 255 * 255"
    by (intro mult_le_mono) (auto simp: range_ok_def)
  with \<open>range_ok r\<close> show ?thesis by (simp add: range_ok_def max_volt_def)
qed

lemma unat_range_max_mv: "range_ok r \<Longrightarrow> unat (range_max_mv r) = max_volt r"
proof -
  assume ok: "range_ok r"
  have sub: "unat (max_selector r - min_selector r) = unat (max_selector r) - unat (min_selector r)"
    using ok by (simp add: range_ok_def unat_sub word_le_nat_alt)
  show ?thesis
    using max_volt_bound [OF ok]
    by (simp add: range_max_mv_def max_volt_def unat_word_ariths sub)
qed

lemma range_volts_bounds:
  assumes "(s, v) \<in> range_volts r" and "range_ok r"
  shows "unat (min_mv r) \<le> v" "v \<le> max_volt r" "unat (min_selector r) \<le> s" "s \<le> unat (max_selector r)"
  using assms by (auto simp: range_volts_def max_volt_def range_ok_def)

text \<open>The chosen pair of a range: the least voltage that is not below the request.\<close>

definition least_volt :: "a7s_axp8191_linear_range list \<Rightarrow> nat \<Rightarrow> nat \<Rightarrow> nat \<Rightarrow> bool" where
  "least_volt rs mv s v \<longleftrightarrow> (s, v) \<in> volts rs \<and> mv \<le> v \<and>
     (\<forall>(s', v')\<in>volts rs. mv \<le> v' \<longrightarrow> v \<le> v' \<and> s \<le> s')"

lemma ceil_div_le: "0 < (st::nat) \<Longrightarrow> (d + st - 1) div st \<le> k \<longleftrightarrow> d \<le> k * st"
proof -
  assume st: "0 < st"
  have "(d + st - 1) div st \<le> k \<longleftrightarrow> d + st - 1 < Suc k * st"
    using div_less_iff_less_mult [OF st, of "d + st - 1" "Suc k"] by (simp only: less_Suc_eq_le)
  then show ?thesis using st by auto
qed

lemma least_volt_here:
  assumes ok: "ranges_ok (r # rs)" and mv: "unat (min_mv r) \<le> mv" "mv \<le> max_volt r"
  defines "k \<equiv> (mv - unat (min_mv r) + unat (step_mv r) - 1) div unat (step_mv r)"
  shows "unat (min_selector r) + k \<le> unat (max_selector r)"
    and "least_volt (r # rs) mv (unat (min_selector r) + k) (unat (min_mv r) + k * unat (step_mv r))"
proof -
  have r: "range_ok r" and st: "0 < unat (step_mv r)" using ok by (auto simp: range_ok_def)
  note div = ceil_div_le [OF st, of "mv - unat (min_mv r)", folded k_def]
  have k: "k \<le> unat (max_selector r) - unat (min_selector r)"
    using mv by (simp add: div max_volt_def)
  then show sel: "unat (min_selector r) + k \<le> unat (max_selector r)"
    using r unfolding range_ok_def by linarith
  let ?v = "unat (min_mv r) + k * unat (step_mv r)"
  have here: "(unat (min_selector r) + k, ?v) \<in> range_volts r"
    using k by (auto simp: range_volts_def)
  have le: "mv \<le> ?v" using div [of k] mv(1) by simp
  have "?v \<le> v' \<and> unat (min_selector r) + k \<le> s'" if "(s', v') \<in> range_volts r" "mv \<le> v'" for s' v'
  proof -
    obtain j where j: "s' = unat (min_selector r) + j" "v' = unat (min_mv r) + j * unat (step_mv r)"
      using \<open>(s', v') \<in> range_volts r\<close> by (auto simp: range_volts_def)
    then have "k \<le> j" using \<open>mv \<le> v'\<close> by (simp add: div)
    then show ?thesis using j by simp
  qed
  moreover have "?v \<le> v' \<and> unat (min_selector r) + k \<le> s'"
    if q: "q \<in> set rs" "(s', v') \<in> range_volts q" for q s' v'
  proof -
    have "range_ok q" using ranges_ok_member [OF ok, of q] q(1) by simp
    then have "unat (min_mv q) \<le> v'" "unat (min_selector q) \<le> s'"
      using range_volts_bounds [OF q(2)] by auto
    moreover have "max_volt r < unat (min_mv q)" "unat (max_selector r) < unat (min_selector q)"
      using ok q(1) by auto
    ultimately show ?thesis using range_volts_bounds(2) [OF here r] sel by linarith
  qed
  ultimately show "least_volt (r # rs) mv (unat (min_selector r) + k) ?v"
    using here le by (fastforce simp: least_volt_def volts_def)
qed

lemma least_volt_below: "least_volt (r # rs) (unat (min_mv r)) s v \<Longrightarrow> mv \<le> unat (min_mv r) \<Longrightarrow>
    ranges_ok (r # rs) \<Longrightarrow> least_volt (r # rs) mv s v"
proof -
  assume l: "least_volt (r # rs) (unat (min_mv r)) s v" and mv: "mv \<le> unat (min_mv r)"
    and ok: "ranges_ok (r # rs)"
  have "unat (min_mv r) \<le> v'" if "(s', v') \<in> volts (r # rs)" for s' v'
  proof -
    obtain q where q: "q \<in> set (r # rs)" "(s', v') \<in> range_volts q"
      using \<open>(s', v') \<in> volts (r # rs)\<close> by (auto simp: volts_def)
    have "range_ok q" using ranges_ok_member [OF ok, of q] q(1) by simp
    then have "unat (min_mv q) \<le> v'" using range_volts_bounds(1) [OF q(2)] by simp
    moreover have "unat (min_mv r) \<le> unat (min_mv q)"
      using ok q(1) by (fastforce simp: max_volt_def)
    ultimately show ?thesis by simp
  qed
  then show ?thesis using l mv by (fastforce simp: least_volt_def)
qed

lemma least_volt_skip:
  assumes "least_volt rs mv s v" and "range_ok r" and "max_volt r < mv"
  shows "least_volt (r # rs) mv s v"
proof -
  have "\<not> mv \<le> v'" if "(s', v') \<in> range_volts r" for s' v'
    using range_volts_bounds(2) [OF that assms(2)] assms(3) by simp
  then show ?thesis using assms(1) by (auto simp: least_volt_def volts_def)
qed

lemma voltage_selector_loop_least:
  assumes "ranges_ok rs" and "rs \<noteq> []" and "unat mv \<le> max_volt (last rs)"
  shows "\<exists>s v. voltage_selector_loop rs mv x = (0, s) \<and> least_volt rs (unat mv) (unat s) v"
  using assms
proof (induction rs)
  case (Cons r rs)
  have r: "range_ok r" using Cons.prems by simp
  then have guard: "\<not> (step_mv r = 0 \<or> min_selector r > max_selector r)"
    by (auto simp: range_ok_def word_less_nat_alt unat_eq_0)
  show ?case
  proof (cases "mv > range_max_mv r")
    case True
    then have skip: "max_volt r < unat mv" by (simp add: word_less_nat_alt unat_range_max_mv [OF r])
    then have "rs \<noteq> []" using Cons.prems by auto
    then obtain s v where "voltage_selector_loop rs mv x = (0, s)" "least_volt rs (unat mv) (unat s) v"
      using Cons by auto
    then show ?thesis using guard True least_volt_skip [OF _ r skip] by auto
  next
    case False
    then have top: "unat mv \<le> max_volt r" by (simp add: word_less_nat_alt unat_range_max_mv [OF r])
    note here = least_volt_here [OF Cons.prems(1)]
    show ?thesis
    proof (cases "mv \<le> min_mv r")
      case True
      have le: "unat (min_mv r) \<le> max_volt r" by (simp add: max_volt_def)
      have z: "(0 + unat (step_mv r) - 1) div unat (step_mv r) = 0"
        using r by (simp add: range_ok_def)
      have "least_volt (r # rs) (unat (min_mv r)) (unat (min_selector r)) (unat (min_mv r))"
        using here(2) [OF order_refl le] unfolding diff_self_eq_0 z mult_0 add_0_right .
      from least_volt_below [OF this _ Cons.prems(1)] True
      have "least_volt (r # rs) (unat mv) (unat (min_selector r)) (unat (min_mv r))"
        by (simp add: word_le_nat_alt)
      then show ?thesis using guard False True by auto
    next
      case above: False
      let ?o = "(mv - min_mv r + step_mv r - 1) div step_mv r"
      have lo: "unat (min_mv r) \<le> unat mv" using above by (simp add: word_le_nat_alt)
      have d: "unat (mv - min_mv r) = unat mv - unat (min_mv r)"
        using lo by (simp add: unat_sub word_le_nat_alt)
      have st: "0 < unat (step_mv r)" "unat (step_mv r) < 256" "unat mv < 0x20000"
        using r top max_volt_bound [OF r] by (auto simp: range_ok_def)
      have "unat (mv - min_mv r + step_mv r) = unat mv - unat (min_mv r) + unat (step_mv r)"
        using st d by (simp add: unat_word_ariths)
      then have "unat (mv - min_mv r + step_mv r - 1) = unat mv - unat (min_mv r) + unat (step_mv r) - 1"
        using st by (subst unat_sub) (auto simp: word_le_nat_alt)
      then have o: "unat ?o = (unat mv - unat (min_mv r) + unat (step_mv r) - 1) div unat (step_mv r)"
        by (simp add: unat_div)
      have sel: "unat (min_selector r) + unat ?o \<le> unat (max_selector r)"
        using here(1) [OF lo top] o by simp
      then have sum: "unat (min_selector r + ?o) = unat (min_selector r) + unat ?o"
        using r by (simp add: unat_word_ariths range_ok_def)
      then have "\<not> min_selector r + ?o > max_selector r" using sel by (simp add: word_less_nat_alt)
      then show ?thesis
        using guard False above here(2) [OF lo top] sum o by (auto simp: Let_def)
    qed
  qed
qed simp

definition clamp_mv :: "u32 \<Rightarrow> nat \<Rightarrow> nat" where
  "clamp_mv rail mv = (let rs = voltage_descs ! unat rail in
     min (max_volt (last rs)) (max (unat (min_mv (hd rs))) mv))"

lemmas range_tables = voltage_descs_def dcdc6_ranges_def dcdc7_ranges_def dcdc8_ranges_def
  eldo_ranges_def cldo_ranges_def mk_range_def

lemma voltage_descs_ok:
  "\<forall>rs\<in>set voltage_descs. rs \<noteq> [] \<and> ranges_ok rs \<and> unat (min_mv (hd rs)) \<le> max_volt (last rs)"
  by (simp add: range_tables range_ok_def max_volt_def)

lemma voltage_selector_picks:
  assumes rail: "unat rail < length voltage_descs"
  shows "\<exists>s v. a7s_axp8191_voltage_selector rail mv (Some x) = (0, Some s) \<and>
    least_volt (voltage_descs ! unat rail) (clamp_mv rail (unat mv)) (unat s) v"
proof -
  let ?rs = "voltage_descs ! unat rail"
  have "?rs \<in> set voltage_descs" using rail by simp
  then have rs: "?rs \<noteq> []" "ranges_ok ?rs" "unat (min_mv (hd ?rs)) \<le> max_volt (last ?rs)"
    using voltage_descs_ok by blast+
  have hd: "?rs ! 0 = hd ?rs" and last: "?rs ! (length ?rs - 1) = last ?rs"
    using rs(1) by (simp_all add: hd_conv_nth last_conv_nth)
  have "range_ok (last ?rs)" by (rule ranges_ok_member [OF rs(2)]) (simp add: rs(1))
  then have max: "unat (range_max_mv (last ?rs)) = max_volt (last ?rs)" by (rule unat_range_max_mv)
  let ?m = "if mv < min_mv (hd ?rs) then min_mv (hd ?rs) else mv"
  let ?c = "if ?m > range_max_mv (last ?rs) then range_max_mv (last ?rs) else ?m"
  have c: "unat ?c = clamp_mv rail (unat mv)"
    using max rs(3) by (auto simp: clamp_mv_def Let_def word_less_nat_alt)
  have "unat ?c \<le> max_volt (last ?rs)" unfolding c by (simp add: clamp_mv_def Let_def)
  from voltage_selector_loop_least [OF rs(2,1) this, of x] obtain s v
    where "voltage_selector_loop ?rs ?c x = (0, s)" "least_volt ?rs (unat ?c) (unat s) v" by blast
  moreover from this(1) have "a7s_axp8191_voltage_selector rail mv (Some x) = (0, Some s)"
    unfolding a7s_axp8191_voltage_selector_def Let_def hd last using rail rs(1) by simp
  ultimately show ?thesis unfolding c by blast
qed

text \<open>
  For every rail and every requested voltage the search succeeds and returns the selector
  of the least voltage the rail offers that is not below the request, the request first being
  clamped to the voltages of the rail. No intermediate value wraps around.
\<close>
theorem a7s_axp8191_voltage_selector_least:
  assumes "unat rail < length voltage_descs"
  shows "\<exists>s v. a7s_axp8191_voltage_selector rail mv (Some x) = (0, Some s) \<and>
    (unat s, v) \<in> rail_volts rail \<and> clamp_mv rail (unat mv) \<le> v \<and>
    (\<forall>(s', v')\<in>rail_volts rail. clamp_mv rail (unat mv) \<le> v' \<longrightarrow> v \<le> v' \<and> unat s \<le> s')"
  using voltage_selector_picks [OF assms, of mv x] by (auto simp: least_volt_def rail_volts_def)

theorem a7s_axp8191_voltage_selector_least_witness:
  "\<exists>s v. a7s_axp8191_voltage_selector A7S_AXP8191_CLDO 1800 (Some 0) = (0, Some s) \<and>
     (unat s, v) \<in> rail_volts A7S_AXP8191_CLDO \<and> 1800 \<le> v"
proof -
  have "unat A7S_AXP8191_CLDO < length voltage_descs" by (simp add: voltage_descs_def)
  moreover have "clamp_mv A7S_AXP8191_CLDO (unat (1800 :: u32)) = 1800"
    by (simp add: clamp_mv_def range_tables max_volt_def)
  ultimately show ?thesis
    using a7s_axp8191_voltage_selector_least [of A7S_AXP8191_CLDO 1800 0] by auto
qed

end
