(* ===== verification/Platform.thy ===== *)
theory Platform
  imports Memory Axp_Voltage
begin

text \<open>
  The board hooks of boot0: pin configuration, the AXP8191 power rails and the MMC
  registration (\<^verbatim>\<open>src/src/platform_shims.c\<close>) with the SDC2 clock setup they install
  (\<^verbatim>\<open>src/src/mmc_a733.c\<close>). The PMIC bus, the MMC core and the microsecond timer are functions
  of objects without source and are reached through the environment. Diagnostic \<open>printf\<close>
  calls have no effect on the state and are left out.
\<close>

unbundle bit_operations_syntax

section \<open>Pins\<close>

record normal_gpio_cfg =
  gpio_port :: u8
  port_num :: u8
  mul_sel :: u8
  gpio_pull :: u8
  drv_level :: u8
  gpio_data :: u8
  gpio_reserved :: "u8 list"

abbreviation (input) SUNXI_PIO_BASE :: u32 where "SUNXI_PIO_BASE \<equiv> 0x02000000"
abbreviation (input) SUNXI_R_PIO_BASE :: u32 where "SUNXI_R_PIO_BASE \<equiv> 0x07025000"

record gpio_regs =
  cfg_reg :: u32
  pull_reg :: u32
  drv_reg :: u32
  data_reg :: u32

definition a7s_gpio_registers :: "u32 \<Rightarrow> u32 \<Rightarrow> gpio_regs" where
  "a7s_gpio_registers port pin =
     (if port < 12 then
        let bank = SUNXI_PIO_BASE + (port - 1) * 0x80 in
        \<lparr>cfg_reg = bank + 0x80 + drop_bit 3 pin * 4, pull_reg = bank + 0xb0 + drop_bit 4 pin * 4,
         drv_reg = bank + 0xa0 + drop_bit 3 pin * 4, data_reg = bank + 0x90\<rparr>
      else
        let bank = SUNXI_R_PIO_BASE + (port - 12) * 0x30 in
        \<lparr>cfg_reg = bank + 0x00 + drop_bit 3 pin * 4, pull_reg = bank + 0x24 + drop_bit 4 pin * 4,
         drv_reg = bank + 0x14 + drop_bit 3 pin * 4, data_reg = bank + 0x10\<rparr>)"

text \<open>The read-modify-write of a field: \<open>val &= ~mask; val |= bits; writel(val, reg)\<close>.\<close>

definition set_field :: "env \<Rightarrow> u32 \<Rightarrow> u32 \<Rightarrow> u32 \<Rightarrow> ('a machine_scheme, unit) state" where
  "set_field E reg m bits = do {
     v \<leftarrow> readl E reg;
     writel ((v AND NOT m) OR bits) reg
   }"

text \<open>One round of the loop of \<open>a7s_boot_set_gpio_v3\<close>; characters are unsigned on ARM.\<close>

definition a7s_boot_set_one_gpio ::
  "env \<Rightarrow> normal_gpio_cfg \<Rightarrow> bool \<Rightarrow> ('a machine_scheme, unit) state" where
  "a7s_boot_set_one_gpio E gpio set_gpio = (
     let port = (ucast (gpio_port gpio) :: u32);
         pin = (ucast (port_num gpio) :: u32);
         cfg_shift = unat (pin AND 0x7) * 4;
         pull_shift = unat (pin AND 0xf) * 2;
         drv_shift = unat (pin AND 0x7) * 4;
         pull = sint (gpio_pull gpio);
         drv = sint (drv_level gpio);
         pin_data = sint (gpio_data gpio);
         regs = a7s_gpio_registers port pin in
     if port = 0 then ret ()
     else do {
       _ \<leftarrow> set_field E (cfg_reg regs) (push_bit cfg_shift 0xf)
              (if set_gpio then push_bit cfg_shift (ucast (mul_sel gpio) AND 0xf) else 0);
       _ \<leftarrow> (if pull \<ge> 0
            then set_field E (pull_reg regs) (push_bit pull_shift 0x3)
                   (push_bit pull_shift (word_of_int pull AND 0x3))
            else ret ());
       _ \<leftarrow> (if drv \<ge> 0
            then set_field E (drv_reg regs) (push_bit drv_shift 0x3)
                   (push_bit drv_shift (word_of_int drv AND 0x3))
            else ret ());
       if mul_sel gpio = 1 \<and> pin_data \<ge> 0
       then set_field E (data_reg regs) (push_bit (unat pin) 1)
              (push_bit (unat pin) (word_of_int pin_data AND 1))
       else ret ()
     })"

fun a7s_boot_set_gpio_loop ::
  "env \<Rightarrow> normal_gpio_cfg list \<Rightarrow> bool \<Rightarrow> ('a machine_scheme, unit) state" where
  "a7s_boot_set_gpio_loop E [] set_gpio = ret ()"
| "a7s_boot_set_gpio_loop E (gpio # gs) set_gpio = do {
     _ \<leftarrow> a7s_boot_set_one_gpio E gpio set_gpio;
     a7s_boot_set_gpio_loop E gs set_gpio
   }"

text \<open>The pin list is a pointer to an array, here the function from index to entry.\<close>

definition a7s_boot_set_gpio_v3 ::
  "env \<Rightarrow> (nat \<Rightarrow> normal_gpio_cfg) option \<Rightarrow> u32 \<Rightarrow> int \<Rightarrow> ('a machine_scheme, int) state" where
  "a7s_boot_set_gpio_v3 E gpio_list group_count_max set_gpio =
     (case gpio_list of None \<Rightarrow> ret (-1)
      | Some gl \<Rightarrow>
          if group_count_max = 0 then ret (-1)
          else do {
            _ \<leftarrow> a7s_boot_set_gpio_loop E (map gl [0..<unat group_count_max]) (set_gpio \<noteq> 0);
            ret 0
          })"

definition boot_set_gpio ::
  "env \<Rightarrow> (nat \<Rightarrow> normal_gpio_cfg) option \<Rightarrow> u32 \<Rightarrow> int \<Rightarrow> ('a machine_scheme, int) state" where
  "boot_set_gpio E gpio_list group_count_max set_gpio =
     a7s_boot_set_gpio_v3 E gpio_list group_count_max set_gpio"

section \<open>The AXP8191\<close>

abbreviation (input) AXP8191_DEVICE_ADDR :: u32 where "AXP8191_DEVICE_ADDR \<equiv> 400000"
abbreviation (input) AXP8191_RUNTIME_ADDR :: u32 where "AXP8191_RUNTIME_ADDR \<equiv> 0x36"
abbreviation (input) AXP8191_CHIP_ID :: u8 where "AXP8191_CHIP_ID \<equiv> 0x0e"
abbreviation (input) AXP8191_CHIP_ID_A :: u8 where "AXP8191_CHIP_ID_A \<equiv> 0x03"
abbreviation (input) AXP8191_DCDC_CTRL1 :: u8 where "AXP8191_DCDC_CTRL1 \<equiv> 0x10"
abbreviation (input) AXP8191_DCDC_CTRL2 :: u8 where "AXP8191_DCDC_CTRL2 \<equiv> 0x11"
abbreviation (input) AXP8191_DC1SW2_ENABLE :: u8 where "AXP8191_DC1SW2_ENABLE \<equiv> 0x10"
abbreviation (input) AXP8191_DCDC2_VOL :: u8 where "AXP8191_DCDC2_VOL \<equiv> 0x13"
abbreviation (input) AXP8191_DCDC2_840MV :: u8 where "AXP8191_DCDC2_840MV \<equiv> 0x22"
abbreviation (input) AXP8191_DCDC6_VOL :: u8 where "AXP8191_DCDC6_VOL \<equiv> 0x17"
abbreviation (input) AXP8191_DCDC7_VOL :: u8 where "AXP8191_DCDC7_VOL \<equiv> 0x18"
abbreviation (input) AXP8191_DCDC8_VOL :: u8 where "AXP8191_DCDC8_VOL \<equiv> 0x19"
abbreviation (input) AXP8191_LDO_CTRL2 :: u8 where "AXP8191_LDO_CTRL2 \<equiv> 0x21"
abbreviation (input) AXP8191_LDO_CTRL3 :: u8 where "AXP8191_LDO_CTRL3 \<equiv> 0x22"
abbreviation (input) AXP8191_CLDO5_VOL :: u8 where "AXP8191_CLDO5_VOL \<equiv> 0x33"
abbreviation (input) AXP8191_ELDO1_VOL :: u8 where "AXP8191_ELDO1_VOL \<equiv> 0x3a"
abbreviation (input) AXP8191_ELDO2_VOL :: u8 where "AXP8191_ELDO2_VOL \<equiv> 0x3b"
abbreviation (input) AXP8191_AP_RESET_CTRL :: u8 where "AXP8191_AP_RESET_CTRL \<equiv> 0x55"
abbreviation (input) AXP8191_WRITE_LOCK :: u8 where "AXP8191_WRITE_LOCK \<equiv> 0xf0"
abbreviation (input) AXP8191_EFUSE_CTRL :: u8 where "AXP8191_EFUSE_CTRL \<equiv> 0xf1"
abbreviation (input) AXP8191_EXT_ADDR :: u8 where "AXP8191_EXT_ADDR \<equiv> 0xff"

record a7s_axp8191_rail =
  rail_name :: string
  voltage_reg :: u8
  voltage_mask :: u8
  enable_reg :: u8
  enable_bit :: nat
  voltage_rail :: u32

definition mk_rail :: "string \<Rightarrow> u8 \<Rightarrow> u8 \<Rightarrow> u8 \<Rightarrow> nat \<Rightarrow> u32 \<Rightarrow> a7s_axp8191_rail" where
  "mk_rail n vr vm er eb r = \<lparr>rail_name = n, voltage_reg = vr, voltage_mask = vm,
     enable_reg = er, enable_bit = eb, voltage_rail = r\<rparr>"

definition a7s_dram_rails :: "a7s_axp8191_rail list" where
  "a7s_dram_rails =
     [mk_rail ''dcdc6'' AXP8191_DCDC6_VOL 0x7f AXP8191_DCDC_CTRL1 5 A7S_AXP8191_DCDC6,
      mk_rail ''dcdc7'' AXP8191_DCDC7_VOL 0x7f AXP8191_DCDC_CTRL1 6 A7S_AXP8191_DCDC7,
      mk_rail ''dcdc8'' AXP8191_DCDC8_VOL 0x7f AXP8191_DCDC_CTRL1 7 A7S_AXP8191_DCDC8,
      mk_rail ''eldo1'' AXP8191_ELDO1_VOL 0x3f AXP8191_LDO_CTRL3 6 A7S_AXP8191_ELDO,
      mk_rail ''eldo2'' AXP8191_ELDO2_VOL 0x3f AXP8191_LDO_CTRL3 7 A7S_AXP8191_ELDO,
      mk_rail ''cldo5'' AXP8191_CLDO5_VOL 0x1f AXP8191_LDO_CTRL2 7 A7S_AXP8191_CLDO]"

text \<open>The external bus functions; the read returns its status and the byte it stored.\<close>

definition pmic_bus_init :: "env \<Rightarrow> u32 \<Rightarrow> u32 \<Rightarrow> ('a machine_scheme, int) state" where
  "pmic_bus_init E device_addr runtime_addr = call E Pmic_bus_init [device_addr, runtime_addr]"

definition pmic_bus_read :: "env \<Rightarrow> u32 \<Rightarrow> u8 \<Rightarrow> ('a machine_scheme, int \<times> u8) state" where
  "pmic_bus_read E runtime_addr reg = do {
     (r, v) \<leftarrow> call_out E Pmic_bus_read [runtime_addr, ucast reg];
     ret (r, ucast v)
   }"

definition pmic_bus_write :: "env \<Rightarrow> u32 \<Rightarrow> u8 \<Rightarrow> u8 \<Rightarrow> ('a machine_scheme, int) state" where
  "pmic_bus_write E runtime_addr reg v = call E Pmic_bus_write [runtime_addr, ucast reg, ucast v]"

definition a7s_axp8191_update_bits :: "env \<Rightarrow> u8 \<Rightarrow> u8 \<Rightarrow> u8 \<Rightarrow> ('a machine_scheme, int) state" where
  "a7s_axp8191_update_bits E reg m v = do {
     (r, reg_value) \<leftarrow> pmic_bus_read E AXP8191_RUNTIME_ADDR reg;
     if r \<noteq> 0 then ret (-1)
     else pmic_bus_write E AXP8191_RUNTIME_ADDR reg ((reg_value AND NOT m) OR (v AND m))
   }"

text \<open>The extended-page part of the probe, up to the label \<open>restore_normal_page\<close>.\<close>

definition axp8191_ext_config :: "env \<Rightarrow> ('a machine_scheme, int) state" where
  "axp8191_ext_config E = do {
     status \<leftarrow> pmic_bus_write E AXP8191_RUNTIME_ADDR AXP8191_WRITE_LOCK 0x06;
     if status \<noteq> 0 then ret status else do {
     status \<leftarrow> pmic_bus_write E AXP8191_RUNTIME_ADDR AXP8191_EFUSE_CTRL 0x04;
     if status \<noteq> 0 then ret status else do {
     status \<leftarrow> pmic_bus_write E AXP8191_RUNTIME_ADDR AXP8191_EXT_ADDR 0x01;
     if status \<noteq> 0 then ret status else do {
     (status, ext_cfg) \<leftarrow> pmic_bus_read E AXP8191_RUNTIME_ADDR 0x00;
     if status \<noteq> 0 then ret status
     else pmic_bus_write E AXP8191_RUNTIME_ADDR 0x00 (ext_cfg OR 0x40) }}}
   }"

text \<open>The code at \<open>restore_normal_page\<close>: the first failure becomes the status.\<close>

definition axp8191_restore_page :: "env \<Rightarrow> int \<Rightarrow> ('a machine_scheme, int) state" where
  "axp8191_restore_page E status = do {
     r \<leftarrow> pmic_bus_write E AXP8191_RUNTIME_ADDR AXP8191_EXT_ADDR 0x00;
     let status = (if status = 0 \<and> r \<noteq> 0 then r else status);
     r \<leftarrow> pmic_bus_write E AXP8191_RUNTIME_ADDR AXP8191_EFUSE_CTRL 0x00;
     let status = (if status = 0 \<and> r \<noteq> 0 then r else status);
     r \<leftarrow> pmic_bus_write E AXP8191_RUNTIME_ADDR AXP8191_WRITE_LOCK 0x00;
     ret (if status = 0 \<and> r \<noteq> 0 then r else status)
   }"

definition a7s_axp8191_init :: "env \<Rightarrow> ('a board_scheme, int) state" where
  "a7s_axp8191_init E = do {
     w \<leftarrow> State_Monad.get;
     if a7s_axp8191_ready w then ret 0 else do {
     r \<leftarrow> pmic_bus_init E AXP8191_DEVICE_ADDR AXP8191_RUNTIME_ADDR;
     if r \<noteq> 0 then ret (-1) else do {
     (r, chip_id) \<leftarrow> pmic_bus_read E AXP8191_RUNTIME_ADDR AXP8191_CHIP_ID;
     if r \<noteq> 0 then ret (-1)
     else if chip_id \<noteq> AXP8191_CHIP_ID_A then ret (-1) else do {
     status \<leftarrow> axp8191_ext_config E;
     status \<leftarrow> axp8191_restore_page E status;
     if status \<noteq> 0 then ret status else do {
     status \<leftarrow> a7s_axp8191_update_bits E AXP8191_AP_RESET_CTRL 0x08 0x08;
     if status \<noteq> 0 then ret status else do {
     _ \<leftarrow> State_Monad.update (\<lambda>w. w\<lparr>a7s_axp8191_ready := True\<rparr>);
     ret 0 }}}}}
   }"

definition a7s_axp8191_enable_sd_power :: "env \<Rightarrow> ('a machine_scheme, int) state" where
  "a7s_axp8191_enable_sd_power E = do {
     status \<leftarrow> a7s_axp8191_update_bits E AXP8191_DCDC_CTRL2 AXP8191_DC1SW2_ENABLE AXP8191_DC1SW2_ENABLE;
     if status \<noteq> 0 then ret status else ret 0
   }"

definition a7s_axp8191_find_rail :: "string \<Rightarrow> a7s_axp8191_rail option" where
  "a7s_axp8191_find_rail name = find (\<lambda>r. name = rail_name r) a7s_dram_rails"

text \<open>The selector as \<open>a7s_axp8191_set_rail\<close> takes it: \<open>None\<close> when it is refused.\<close>

definition rail_selector :: "a7s_axp8191_rail \<Rightarrow> int \<Rightarrow> u32 option" where
  "rail_selector rail set_vol =
     (case a7s_axp8191_voltage_selector (voltage_rail rail) (word_of_int set_vol) (Some 0) of
        (r, Some selector) \<Rightarrow>
          if r \<noteq> 0 \<or> selector AND NOT (ucast (voltage_mask rail)) \<noteq> 0 then None else Some selector
      | (r, None) \<Rightarrow> None)"

definition a7s_axp8191_set_rail :: "env \<Rightarrow> string \<Rightarrow> int \<Rightarrow> int \<Rightarrow> ('a board_scheme, int) state" where
  "a7s_axp8191_set_rail E name set_vol onoff =
     (case a7s_axp8191_find_rail name of None \<Rightarrow> ret (-1)
      | Some rail \<Rightarrow> do {
          r \<leftarrow> a7s_axp8191_init E;
          if r \<noteq> 0 then ret (-1) else do {
          r \<leftarrow> (if set_vol > 0 then
                 (case rail_selector rail set_vol of None \<Rightarrow> ret (-1)
                  | Some selector \<Rightarrow>
                      a7s_axp8191_update_bits E (voltage_reg rail) (voltage_mask rail) (ucast selector))
               else ret 0);
          if r \<noteq> 0 then ret (-1)
          else if onoff < 0 then ret 0
          else a7s_axp8191_update_bits E (enable_reg rail) (push_bit (enable_bit rail) 1)
                 (if onoff \<noteq> 0 then push_bit (enable_bit rail) 1 else 0) }})"

abbreviation (input) A7S_PIO_B_POWER_MODE_SELECT :: u32 where
  "A7S_PIO_B_POWER_MODE_SELECT \<equiv> 0x02000040"

definition a7s_pio_emmc_withstand_auto :: "env \<Rightarrow> ('a machine_scheme, unit) state" where
  "a7s_pio_emmc_withstand_auto E = do {
     before \<leftarrow> readl E A7S_PIO_B_POWER_MODE_SELECT;
     _ \<leftarrow> writel ((before AND NOT 0x30) OR 0x10) A7S_PIO_B_POWER_MODE_SELECT;
     after \<leftarrow> readl E A7S_PIO_B_POWER_MODE_SELECT;
     ret ()
   }"

definition a7s_axp8191_configure_emmc_io :: "env \<Rightarrow> ('a board_scheme, int) state" where
  "a7s_axp8191_configure_emmc_io E = do {
     r \<leftarrow> a7s_axp8191_set_rail E ''cldo5'' 1800 1;
     if r \<noteq> 0 then ret (-1) else do {
     (r, selector) \<leftarrow> pmic_bus_read E AXP8191_RUNTIME_ADDR AXP8191_CLDO5_VOL;
     if r \<noteq> 0 then ret (-1) else do {
     (r, enable) \<leftarrow> pmic_bus_read E AXP8191_RUNTIME_ADDR AXP8191_LDO_CTRL2;
     if r \<noteq> 0 \<or> selector AND 0x1f \<noteq> 0x0d \<or> enable AND 0x80 = 0 then ret (-1) else do {
     _ \<leftarrow> mdelay 1;
     _ \<leftarrow> a7s_pio_emmc_withstand_auto E;
     ret 0 }}}
   }"

definition a7s_axp8191_set_npu_rail :: "env \<Rightarrow> ('a machine_scheme, int) state" where
  "a7s_axp8191_set_npu_rail E = do {
     r \<leftarrow> a7s_axp8191_update_bits E AXP8191_DCDC_CTRL1 0x02 0x02;
     if r \<noteq> 0 then ret (-1) else do {
     r \<leftarrow> pmic_bus_write E AXP8191_RUNTIME_ADDR AXP8191_DCDC2_VOL AXP8191_DCDC2_840MV;
     if r \<noteq> 0 then ret (-1) else do {
     (r, v) \<leftarrow> pmic_bus_read E AXP8191_RUNTIME_ADDR AXP8191_DCDC2_VOL;
     if r \<noteq> 0 \<or> v AND 0x7f \<noteq> AXP8191_DCDC2_840MV then ret (-1) else ret 0 }}
   }"

definition sunxi_board_init :: "env \<Rightarrow> ('a board_scheme, int) state" where
  "sunxi_board_init E = do {
     v \<leftarrow> readl E 0x08020000;
     _ \<leftarrow> writel (v OR 1) 0x08020000;
     r \<leftarrow> a7s_axp8191_init E;
     if r \<noteq> 0 then ret (-1) else do {
     r \<leftarrow> a7s_axp8191_configure_emmc_io E;
     if r \<noteq> 0 then ret (-1) else do {
     r \<leftarrow> a7s_axp8191_set_npu_rail E;
     if r \<noteq> 0 then ret (-1) else a7s_axp8191_enable_sd_power E }}
   }"

definition set_ddr_voltage_ext :: "env \<Rightarrow> string \<Rightarrow> int \<Rightarrow> int \<Rightarrow> ('a board_scheme, int) state" where
  "set_ddr_voltage_ext E name set_vol onoff = a7s_axp8191_set_rail E name set_vol onoff"

section \<open>MMC\<close>

abbreviation (input) A7S_MMC0_PF_CFG :: u32 where "A7S_MMC0_PF_CFG \<equiv> 0x02000300"
abbreviation (input) A7S_MMC0_PF_DRV :: u32 where "A7S_MMC0_PF_DRV \<equiv> 0x02000320"
abbreviation (input) A7S_MMC0_PF_PULL :: u32 where "A7S_MMC0_PF_PULL \<equiv> 0x02000330"

definition a7s_mmc0_config_pins :: "env \<Rightarrow> ('a machine_scheme, unit) state" where
  "a7s_mmc0_config_pins E = do {
     v \<leftarrow> readl E A7S_MMC0_PF_CFG;
     _ \<leftarrow> writel ((v AND NOT 0x00ffffff) OR 0x00222222) A7S_MMC0_PF_CFG;
     v \<leftarrow> readl E A7S_MMC0_PF_DRV;
     _ \<leftarrow> writel ((v AND NOT 0x00ffffff) OR 0x00111211) A7S_MMC0_PF_DRV;
     v \<leftarrow> readl E A7S_MMC0_PF_PULL;
     writel ((v AND NOT 0x00000fff) OR 0x00000555) A7S_MMC0_PF_PULL
   }"

abbreviation (input) SDC2_CLK :: u32 where "SDC2_CLK \<equiv> 0x02002d20"

definition REG :: "u32 \<Rightarrow> u32" where "REG off = 0x04022000 + off"

text \<open>
  The loop that waits for the clock update, with a bound on its rounds: \<open>None\<close> when the bound
  is used up. The time-out is the difference of two readings of the microsecond timer, modulo
  \<open>2 ^ 32\<close>.
\<close>

primrec update_clock_wait :: "env \<Rightarrow> u32 \<Rightarrow> nat \<Rightarrow> ('a machine_scheme, bool option) state" where
  "update_clock_wait E start 0 = ret None"
| "update_clock_wait E start (Suc fuel) = do {
     v \<leftarrow> readl E (REG 0x18);
     if v AND 0x80000000 = 0 then ret (Some True) else do {
     (_, now) \<leftarrow> call_out E Timer_get_us [];
     if now - start \<ge> 100000 then ret (Some False)
     else update_clock_wait E start fuel }
   }"

definition a7s_mmc2_update_clock :: "env \<Rightarrow> nat \<Rightarrow> u32 \<Rightarrow> ('a machine_scheme, int option) state" where
  "a7s_mmc2_update_clock E fuel clock_control = do {
     (_, start) \<leftarrow> call_out E Timer_get_us [];
     _ \<leftarrow> writel (clock_control OR 0x80000000) (REG 0x04);
     _ \<leftarrow> writel 0x80202000 (REG 0x18);
     done \<leftarrow> update_clock_wait E start fuel;
     case done of None \<Rightarrow> ret None
     | Some False \<Rightarrow> ret (Some (-1))
     | Some True \<Rightarrow> do {
         v \<leftarrow> readl E (REG 0x38);
         _ \<leftarrow> writel v (REG 0x38);
         _ \<leftarrow> writel clock_control (REG 0x04);
         ret (Some 0)
       }
   }"

text \<open>The label \<open>failed\<close>: mark the host controller as broken.\<close>

definition mmc2_failed :: "u32 \<Rightarrow> ('a board_scheme, unit option) state" where
  "mmc2_failed host = do { _ \<leftarrow> put32 (host + 0x1c) 1; ret (Some ()) }"

definition mmc2_program :: "env \<Rightarrow> u32 \<Rightarrow> u32 \<Rightarrow> ('a machine_scheme, unit) state" where
  "mmc2_program E divider width = do {
     _ \<leftarrow> writel 0 SDC2_CLK;
     _ \<leftarrow> writel (0x80000000 OR (divider - 1)) SDC2_CLK;
     v \<leftarrow> readl E (REG 0x5c);
     _ \<leftarrow> writel (v AND NOT 0x80000000) (REG 0x5c);
     v \<leftarrow> readl E (REG 0x00);
     _ \<leftarrow> writel (v AND NOT 0x400) (REG 0x00);
     v \<leftarrow> readl E (REG 0x10c);
     _ \<leftarrow> writel (v AND NOT 0x80000000) (REG 0x10c);
     _ \<leftarrow> writel (if width = 8 then 2 else if width = 4 then 1 else 0) (REG 0x0c);
     v \<leftarrow> readl E (REG 0x140);
     let v = v AND NOT (0x30000 OR 0x80);
     _ \<leftarrow> writel (divider - 1) SDC2_CLK;
     _ \<leftarrow> writel (v OR 0x10000) (REG 0x140);
     _ \<leftarrow> writel (0x80000000 OR (divider - 1)) SDC2_CLK;
     v \<leftarrow> readl E (REG 0x144);
     _ \<leftarrow> writel ((v AND NOT 0x3f) OR 0x80) (REG 0x144);
     v \<leftarrow> readl E (REG 0x104);
     writel (v OR 1) (REG 0x104)
   }"

definition a7s_mmc2_set_ios :: "env \<Rightarrow> nat \<Rightarrow> u32 \<Rightarrow> ('a board_scheme, unit option) state" where
  "a7s_mmc2_set_ios E fuel mmc = do {
     requested \<leftarrow> get32 (mmc + 0x48);
     width \<leftarrow> get32 (mmc + 0x44);
     host \<leftarrow> get32 (mmc + 0x20);
     r \<leftarrow> a7s_mmc2_update_clock E fuel 0;
     case r of None \<Rightarrow> ret None
     | Some r \<Rightarrow>
       if r \<noteq> 0 then mmc2_failed host
       else if requested = 0 then ret (Some ())
       else do {
         timing \<leftarrow> get32 (mmc + 0x104);
         if requested < 400000 \<or> requested > 12000000 \<or> timing > 1 \<or>
            (width \<noteq> 1 \<and> width \<noteq> 4 \<and> width \<noteq> 8) then mmc2_failed host
         else let divider = (12000000 + requested - 1) div requested in do {
           _ \<leftarrow> mmc2_program E divider width;
           r \<leftarrow> a7s_mmc2_update_clock E fuel 0x10000;
           case r of None \<Rightarrow> ret None
           | Some r \<Rightarrow>
             if r \<noteq> 0 then mmc2_failed host
             else do {
               _ \<leftarrow> put32 (mmc + 0x48) (12000000 div divider);
               _ \<leftarrow> readl E SDC2_CLK;
               _ \<leftarrow> readl E (REG 0x04);
               _ \<leftarrow> readl E (REG 0x104);
               ret (Some ())
             }
         }
       }
   }"

text \<open>\<open>set_ios_fn\<close> is the address of \<open>a7s_mmc2_set_ios\<close> in the image.\<close>

definition a7s_mmc2_install_clock :: "u32 \<Rightarrow> u32 \<Rightarrow> ('a board_scheme, unit) state" where
  "a7s_mmc2_install_clock set_ios_fn mmc = do {
     _ \<leftarrow> put32 (mmc + 0x34) 400000;
     _ \<leftarrow> put32 (mmc + 0x38) 12000000;
     _ \<leftarrow> put32 (mmc + 0x3c) 12000000;
     put32 (mmc + 0xac) set_ios_fn
   }"

definition mmc_register :: "env \<Rightarrow> u32 \<Rightarrow> u32 \<Rightarrow> u32 \<Rightarrow> ('a board_scheme, int) state" where
  "mmc_register E set_ios_fn sdc_no mmc = do {
     _ \<leftarrow> State_Monad.update (\<lambda>w. w\<lparr>mmc_devices := (mmc_devices w)(sdc_no := mmc)\<rparr>);
     timeout \<leftarrow> get32 (mmc + 0xe8);
     _ \<leftarrow> (if timeout = 0 then put32 (mmc + 0xe8) 0xffff else ret ());
     _ \<leftarrow> (if sdc_no = 0 then a7s_mmc0_config_pins E
          else if sdc_no = 2 then a7s_mmc2_install_clock set_ios_fn mmc
          else ret ());
     call E Mmc_init [mmc]
   }"

end
