(* ===== verification/Early_Uart.thy ===== *)
theory Early_Uart
  imports Platform
begin

text \<open>
  The first output of boot0 (\<^verbatim>\<open>src/src/early_uart.c\<close>): pins, clock and line settings of UART0
  and its polled transmitter; and the pin setup of the board code seen from the pins: which
  register bits a list of pins can change.
\<close>

unbundle bit_operations_syntax

section \<open>Model\<close>

abbreviation (input) CCMU_UART_BGR_REG :: u32 where "CCMU_UART_BGR_REG \<equiv> 0x02002e00"
abbreviation (input) SUNXI_UART0_BASE :: u32 where "SUNXI_UART0_BASE \<equiv> 0x02500000"

definition a7s_gpio_set_cfg :: "env \<Rightarrow> u32 \<Rightarrow> u32 \<Rightarrow> u32 \<Rightarrow> ('a machine_scheme, unit) state" where
  "a7s_gpio_set_cfg E bank pin mux = do {
     let reg = SUNXI_PIO_BASE + bank * 0x80 + 0x80 + push_bit 2 (drop_bit 3 pin);
     let shift = unat (push_bit 2 (pin AND 0x7));
     v \<leftarrow> readl E reg;
     let v = v AND NOT (push_bit shift 0xf);
     let v = v OR push_bit shift (mux AND 0xf);
     writel v reg
   }"

definition a7s_gpio_set_pull :: "env \<Rightarrow> u32 \<Rightarrow> u32 \<Rightarrow> u32 \<Rightarrow> ('a machine_scheme, unit) state" where
  "a7s_gpio_set_pull E bank pin pull = do {
     let reg = SUNXI_PIO_BASE + bank * 0x80 + 0xb0 + push_bit 2 (drop_bit 4 pin);
     let shift = unat (push_bit 1 (pin AND 0xf));
     v \<leftarrow> readl E reg;
     let v = v AND NOT (push_bit shift 0x3);
     let v = v OR push_bit shift (pull AND 0x3);
     writel v reg
   }"

definition a7s_gpio_set_drv :: "env \<Rightarrow> u32 \<Rightarrow> u32 \<Rightarrow> u32 \<Rightarrow> ('a machine_scheme, unit) state" where
  "a7s_gpio_set_drv E bank pin drv = do {
     let reg = SUNXI_PIO_BASE + bank * 0x80 + 0xa0 + push_bit 2 (drop_bit 3 pin);
     let shift = unat (push_bit 2 (pin AND 0x7));
     v \<leftarrow> readl E reg;
     let v = v AND NOT (push_bit shift 0x3);
     let v = v OR push_bit shift (drv AND 0x3);
     writel v reg
   }"

definition a7s_uart0_clock_init :: "env \<Rightarrow> ('a machine_scheme, unit) state" where
  "a7s_uart0_clock_init E = do {
     v \<leftarrow> readl E CCMU_UART_BGR_REG;
     let v = v AND NOT 0x10000;
     _ \<leftarrow> writel v CCMU_UART_BGR_REG;
     let v = v OR 0x10000;
     _ \<leftarrow> writel v CCMU_UART_BGR_REG;
     let v = v AND NOT 1;
     _ \<leftarrow> writel v CCMU_UART_BGR_REG;
     let v = v OR 1;
     writel v CCMU_UART_BGR_REG
   }"

definition a7s_early_uart_init :: "env \<Rightarrow> ('a machine_scheme, unit) state" where
  "a7s_early_uart_init E = do {
     _ \<leftarrow> a7s_gpio_set_cfg E 1 9 2;
     _ \<leftarrow> a7s_gpio_set_cfg E 1 10 2;
     _ \<leftarrow> a7s_gpio_set_pull E 1 9 1;
     _ \<leftarrow> a7s_gpio_set_pull E 1 10 1;
     _ \<leftarrow> a7s_gpio_set_drv E 1 9 1;
     _ \<leftarrow> a7s_gpio_set_drv E 1 10 1;
     _ \<leftarrow> a7s_uart0_clock_init E;
     _ \<leftarrow> writel 0 (SUNXI_UART0_BASE + 0x04);
     _ \<leftarrow> writel 0x80 (SUNXI_UART0_BASE + 0x0c);
     _ \<leftarrow> writel 13 (SUNXI_UART0_BASE + 0x00);
     _ \<leftarrow> writel 0 (SUNXI_UART0_BASE + 0x04);
     _ \<leftarrow> writel 0x03 (SUNXI_UART0_BASE + 0x0c);
     writel (0x01 OR 0x02 OR 0x04) (SUNXI_UART0_BASE + 0x08)
   }"

text \<open>The polling loop of \<open>a7s_early_uart_putc\<close>, on the tries left.\<close>

primrec a7s_early_uart_wait :: "env \<Rightarrow> nat \<Rightarrow> ('a machine_scheme, unit) state" where
  "a7s_early_uart_wait E 0 = ret ()"
| "a7s_early_uart_wait E (Suc timeout) = do {
     v \<leftarrow> readl E (SUNXI_UART0_BASE + 0x14);
     if v AND 0x20 \<noteq> 0 then ret () else a7s_early_uart_wait E timeout
   }"

definition a7s_early_uart_putc :: "env \<Rightarrow> u8 \<Rightarrow> ('a machine_scheme, unit) state" where
  "a7s_early_uart_putc E c = do {
     _ \<leftarrow> a7s_early_uart_wait E 100000;
     writel (ucast c) SUNXI_UART0_BASE
   }"

text \<open>A C string is the list of its characters without the terminating zero.\<close>

fun a7s_early_uart_puts_loop :: "env \<Rightarrow> u8 list \<Rightarrow> u8 \<Rightarrow> ('a machine_scheme, unit) state" where
  "a7s_early_uart_puts_loop E [] prev = ret ()"
| "a7s_early_uart_puts_loop E (c # s) prev = do {
     _ \<leftarrow> (if c = 10 \<and> prev \<noteq> 13 then a7s_early_uart_putc E 13 else ret ());
     _ \<leftarrow> a7s_early_uart_putc E c;
     a7s_early_uart_puts_loop E s c
   }"

definition a7s_early_uart_puts :: "env \<Rightarrow> u8 list \<Rightarrow> ('a machine_scheme, unit) state" where
  "a7s_early_uart_puts E s = a7s_early_uart_puts_loop E s 0"

section \<open>What is transmitted\<close>

text \<open>The values written to the transmit register, oldest first.\<close>

fun thr_writes :: "history \<Rightarrow> u32 list" where
  "thr_writes [] = []"
| "thr_writes (Wr a v # t) = thr_writes t @ (if a = SUNXI_UART0_BASE then [v] else [])"
| "thr_writes (_ # t) = thr_writes t"

text \<open>The text on the wire: every line feed is preceded by a carriage return.\<close>

fun crlf :: "u8 \<Rightarrow> u8 list \<Rightarrow> u8 list" where
  "crlf prev [] = []"
| "crlf prev (c # s) = (if c = 10 \<and> prev \<noteq> 13 then [13, 10] else [c]) @ crlf c s"

lemma uart_wait_thr:
  "wp (a7s_early_uart_wait E n) (\<lambda>_ w'. thr_writes (trace w') = thr_writes (trace w)) w"
proof (induction n arbitrary: w)
  case (Suc n)
  let ?v = "dev_read E (trace w) (SUNXI_UART0_BASE + 0x14)"
  show ?case using Suc.IH [of "w\<lparr>trace := Rd (SUNXI_UART0_BASE + 0x14) ?v # trace w\<rparr>"]
    by (simp add: wp_simps)
qed (simp add: wp_simps)

lemma uart_putc_thr:
  "wp (a7s_early_uart_putc E c) (\<lambda>_ w'. thr_writes (trace w') = thr_writes (trace w) @ [ucast c]) w"
  unfolding a7s_early_uart_putc_def wp_bind
  by (rule wp_mono [OF uart_wait_thr]) (simp add: wp_simps)

lemma uart_puts_thr:
  "wp (a7s_early_uart_puts_loop E s prev)
     (\<lambda>_ w'. thr_writes (trace w') = thr_writes (trace w) @ map ucast (crlf prev s)) w"
proof (induction s arbitrary: prev w)
  case (Cons c s)
  have step: "wp (do { _ \<leftarrow> a7s_early_uart_putc E c; a7s_early_uart_puts_loop E s c })
      (\<lambda>_ w'. thr_writes (trace w') = thr_writes (trace w) @ ucast c # map ucast (crlf c s)) w"
    for w :: "'a machine_scheme"
    unfolding wp_bind
    by (rule wp_mono [OF uart_putc_thr], rule wp_mono [OF Cons.IH]) simp
  show ?case
  proof (cases "c = 10 \<and> prev \<noteq> 13")
    case True
    have "wp (do { _ \<leftarrow> a7s_early_uart_putc E 13;
                   do { _ \<leftarrow> a7s_early_uart_putc E c; a7s_early_uart_puts_loop E s c } })
        (\<lambda>_ w'. thr_writes (trace w') = thr_writes (trace w) @ 13 # ucast c # map ucast (crlf c s)) w"
      by (rule wp_bindI, rule wp_mono [OF uart_putc_thr], rule wp_mono [OF step]) simp
    then show ?thesis using True by simp
  next
    case False
    then show ?thesis using step [of w] by (auto simp: wp_simps)
  qed
qed (simp add: wp_simps)

text \<open>
  The early console sends exactly its text with line ends completed. Whatever the line
  status register shows, \<open>a7s_early_uart_puts\<close> ends, and the values it writes to the transmit
  register are the characters of the string in order, with a carriage return inserted before
  each line feed that does not already follow one.
\<close>
theorem a7s_early_uart_puts_output:
  "\<exists>w'. run_state (a7s_early_uart_puts E s) w = ((), w') \<and>
     thr_writes (trace w') = thr_writes (trace w) @ map ucast (crlf 0 s)"
  using uart_puts_thr [of E s 0 w] by (auto simp: a7s_early_uart_puts_def wp_run)

theorem a7s_early_uart_puts_output_witness:
  "thr_writes (trace (snd (run_state (a7s_early_uart_puts \<lparr>dev_read = (\<lambda>_ _. 0), ext_call = (\<lambda>_ _ _. (0, 0))\<rparr>
      [0x41, 10]) \<lparr>trace = []\<rparr>))) = [0x41, 13, 10]"
  using a7s_early_uart_puts_output [of "\<lparr>dev_read = (\<lambda>_ _. 0), ext_call = (\<lambda>_ _ _. (0, 0))\<rparr>"
      "[0x41, 10]" "\<lparr>trace = []\<rparr>"] by auto

section \<open>Pins\<close>

text \<open>
  A history (newest first) made of read-modify-writes that change only the bits of the given
  (register, mask) pairs.
\<close>

fun rmw_only :: "(u32 \<times> u32) set \<Rightarrow> history \<Rightarrow> bool" where
  "rmw_only F [] = True"
| "rmw_only F (Wr a v # Rd b u # t) \<longleftrightarrow>
     a = b \<and> (\<exists>m. (a, m) \<in> F \<and> v AND NOT m = u AND NOT m) \<and> rmw_only F t"
| "rmw_only F _ = False"

lemma rmw_only_append: "rmw_only F xs \<Longrightarrow> rmw_only F ys \<Longrightarrow> rmw_only F (xs @ ys)"
  by (induction F xs rule: rmw_only.induct) auto

lemma rmw_only_mono: "rmw_only F xs \<Longrightarrow> F \<subseteq> G \<Longrightarrow> rmw_only G xs"
  by (induction F xs rule: rmw_only.induct) auto

definition rmw :: "(u32 \<times> u32) set \<Rightarrow> ('a machine_scheme, 'b) state \<Rightarrow> bool" where
  "rmw F m \<longleftrightarrow> (\<forall>w. \<exists>es. trace (snd (run_state m w)) = es @ trace w \<and> rmw_only F es)"

named_theorems rmw_intros \<open>computations made of read-modify-writes\<close>

lemma rmw_return [rmw_intros]: "rmw F (ret x)"
  by (simp add: rmw_def)

lemma rmw_if [rmw_intros]: "(c \<Longrightarrow> rmw F m) \<Longrightarrow> (\<not> c \<Longrightarrow> rmw F n) \<Longrightarrow> rmw F (if c then m else n)"
  by simp

lemma rmw_bind [rmw_intros]:
  assumes "rmw F m" and "\<And>x. rmw F (f x)"
  shows "rmw F (m \<bind> f)"
  unfolding rmw_def
proof
  fix w
  obtain es where es: "trace (snd (run_state m w)) = es @ trace w" "rmw_only F es"
    using assms(1) unfolding rmw_def by blast
  obtain fs where fs: "trace (snd (run_state (f (fst (run_state m w))) (snd (run_state m w)))) =
      fs @ trace (snd (run_state m w))" "rmw_only F fs"
    using assms(2) unfolding rmw_def by blast
  show "\<exists>gs. trace (snd (run_state (m \<bind> f) w)) = gs @ trace w \<and> rmw_only F gs"
    by (rule exI [of _ "fs @ es"]) (use es fs rmw_only_append in \<open>auto simp: split_beta\<close>)
qed

lemma rmw_set_field [rmw_intros]:
  assumes "(reg, m) \<in> F" and "bits AND NOT m = 0"
  shows "rmw F (set_field E reg m bits)"
proof -
  have "((v AND NOT m) OR bits) AND NOT m = v AND NOT m" for v
    using assms(2) by (simp add: bit.conj_disj_distrib2)
  then have "\<exists>m'. (reg, m') \<in> F \<and> ((v AND NOT m) OR bits) AND NOT m' = v AND NOT m'" for v
    using assms(1) by blast
  moreover have "\<exists>v. trace (snd (run_state (set_field E reg m bits) w)) =
      [Wr reg ((v AND NOT m) OR bits), Rd reg v] @ trace w" for w :: "'a machine_scheme"
    by (simp add: set_field_def readl_def writel_def State_Monad.update_def State_Monad.get_def
        State_Monad.set_def Let_def)
  ultimately show ?thesis unfolding rmw_def by (metis rmw_only.simps(1,2))
qed

text \<open>The register bits that belong to a pin: function, pull, drive strength and level.\<close>

definition pin_fields :: "normal_gpio_cfg \<Rightarrow> (u32 \<times> u32) set" where
  "pin_fields g = (let pin = (ucast (port_num g) :: u32); regs = a7s_gpio_registers (ucast (gpio_port g)) pin in
     {(cfg_reg regs, push_bit (unat (pin AND 7) * 4) 0xf), (pull_reg regs, push_bit (unat (pin AND 0xf) * 2) 3),
      (drv_reg regs, push_bit (unat (pin AND 7) * 4) 3), (data_reg regs, push_bit (unat pin) 1)})"

lemma set_one_gpio_rmw: "rmw (pin_fields g) (a7s_boot_set_one_gpio E g b)"
  unfolding a7s_boot_set_one_gpio_def Let_def
  by (intro rmw_intros) (auto simp: pin_fields_def Let_def)

lemma rmw_mono: "rmw F m \<Longrightarrow> F \<subseteq> G \<Longrightarrow> rmw G m"
  unfolding rmw_def using rmw_only_mono by blast

lemma set_gpio_loop_rmw:
  "(\<Union>g\<in>set gs. pin_fields g) \<subseteq> F \<Longrightarrow> rmw F (a7s_boot_set_gpio_loop E gs b)"
  by (induction gs) (auto intro!: rmw_intros intro: rmw_mono [OF set_one_gpio_rmw])

text \<open>
  Pin setup is confined to the listed pins. Whatever the pin registers hold, the history
  that \<open>boot_set_gpio\<close> adds consists of read-modify-writes only, each of which changes no bit
  outside a field of one of the listed pins; an empty list or a null pointer changes nothing.
\<close>
theorem boot_set_gpio_confined:
  fixes w :: "'a machine_scheme"
  shows "\<exists>es. trace (snd (run_state (boot_set_gpio E gl n set_gpio) w)) = es @ trace w \<and>
     rmw_only (case gl of None \<Rightarrow> {} | Some l \<Rightarrow> \<Union>i<unat n. pin_fields (l i)) es"
proof (cases gl)
  case None
  then show ?thesis by (simp add: boot_set_gpio_def a7s_boot_set_gpio_v3_def)
next
  case (Some l)
  have "rmw (\<Union>i<unat n. pin_fields (l i)) (a7s_boot_set_gpio_loop E (map l [0..<unat n]) b)" for b
    by (rule set_gpio_loop_rmw) (simp add: lessThan_atLeast0)
  then have "rmw (\<Union>i<unat n. pin_fields (l i)) 
      (boot_set_gpio E gl n set_gpio :: ('a machine_scheme, int) state)"
    unfolding boot_set_gpio_def a7s_boot_set_gpio_v3_def Some by (auto intro!: rmw_intros)
  then show ?thesis unfolding Some rmw_def by simp
qed

theorem boot_set_gpio_confined_witness:
  "rmw_only (pin_fields \<lparr>gpio_port = 2, port_num = 9, mul_sel = 2, gpio_pull = 1, drv_level = 0xff,
                        gpio_data = 0xff, gpio_reserved = [0, 0]\<rparr>)
     (trace (snd (run_state (boot_set_gpio \<lparr>dev_read = ram_dev, ext_call = (\<lambda>_ _ _. (0, 0))\<rparr>
      (Some (\<lambda>_. \<lparr>gpio_port = 2, port_num = 9, mul_sel = 2, gpio_pull = 1, drv_level = 0xff, gpio_data = 0xff, gpio_reserved = [0, 0]\<rparr>))
      1 1) \<lparr>trace = []\<rparr>)))"
  using boot_set_gpio_confined [of "\<lparr>dev_read = ram_dev, ext_call = (\<lambda>_ _ _. (0, 0))\<rparr>"
      "Some (\<lambda>_. \<lparr>gpio_port = 2, port_num = 9, mul_sel = 2, gpio_pull = 1, drv_level = 0xff, gpio_data = 0xff, gpio_reserved = [0, 0]\<rparr>)"
      1 1 "\<lparr>trace = []\<rparr>"]
  by (simp add: lessThan_Suc)

section \<open>The two register maps agree\<close>

lemma push_bit_2_mult: "push_bit 2 (x :: u32) = x * 4"
  by (simp add: push_bit_eq_mult)

lemma unat_push_small: "unat (x :: u32) \<le> 15 \<Longrightarrow> unat (push_bit 2 x) = unat x * 4"
  "unat (x :: u32) \<le> 15 \<Longrightarrow> unat (push_bit 1 x) = unat x * 2"
  by (simp_all add: push_bit_eq_mult unat_word_ariths)

lemma unat_shift4: "unat (push_bit 2 (pin AND 0x7 :: u32)) = unat (pin AND 0x7) * 4"
  by (rule unat_push_small) (use unat_and_le [of pin 7] in simp)

lemma unat_shift2: "unat (push_bit 1 (pin AND 0xf :: u32)) = unat (pin AND 0xf) * 2"
  by (rule unat_push_small) (use unat_and_le [of pin 15] in simp)

text \<open>
  The early console and the board code agree on the pin controller. For every bank of the
  main controller the three pin routines of the early console are the read-modify-writes that
  the board code does for port \<open>bank + 1\<close>, at the same registers and with the same fields.
\<close>
theorem early_uart_pins_equiv:
  assumes "bank < 11"
  shows "a7s_gpio_set_cfg E bank pin mux = (set_field E (cfg_reg (a7s_gpio_registers (bank + 1) pin))
      (push_bit (unat (pin AND 7) * 4) 0xf) (push_bit (unat (pin AND 7) * 4) (mux AND 0xf))
        :: ('a machine_scheme, unit) state) \<and>
    a7s_gpio_set_pull E bank pin pull = (set_field E (pull_reg (a7s_gpio_registers (bank + 1) pin))
      (push_bit (unat (pin AND 0xf) * 2) 3) (push_bit (unat (pin AND 0xf) * 2) (pull AND 3))
        :: ('a machine_scheme, unit) state) \<and>
    a7s_gpio_set_drv E bank pin drv = (set_field E (drv_reg (a7s_gpio_registers (bank + 1) pin))
      (push_bit (unat (pin AND 7) * 4) 3) (push_bit (unat (pin AND 7) * 4) (drv AND 3))
        :: ('a machine_scheme, unit) state)"
proof -
  have "bank + 1 < 12" using assms unat_plus_if' [of bank 1] by (simp add: word_less_nat_alt)
  then show ?thesis
    unfolding a7s_gpio_registers_def a7s_gpio_set_cfg_def a7s_gpio_set_pull_def
      a7s_gpio_set_drv_def set_field_def Let_def unat_shift4 unat_shift2
    unfolding push_bit_2_mult
    by (simp add: ac_simps)
qed

theorem early_uart_pins_equiv_witness:
  "a7s_gpio_set_cfg \<lparr>dev_read = ram_dev, ext_call = (\<lambda>_ _ _. (0, 0))\<rparr> 1 9 2 =
     (set_field \<lparr>dev_read = ram_dev, ext_call = (\<lambda>_ _ _. (0, 0))\<rparr> 0x02000104 0xf0 0x20 :: (machine, unit) state)"
  using early_uart_pins_equiv [where 'a = unit, of 1 "\<lparr>dev_read = ram_dev, ext_call = (\<lambda>_ _ _. (0, 0))\<rparr>" 9 2 1 1]
  by (simp add: a7s_gpio_registers_def Let_def)

end
