(* ===== verification/Hw_Config.thy ===== *)
theory Hw_Config
  imports Memory
begin

text \<open>
  The update of the device tree with the trained DRAM parameters
  (\<^verbatim>\<open>src/src/hw_config_a733.c\<close>). The device-tree library is a parameter: a record of the
  functions the code calls, on the memory that holds the tree at an address.
\<close>

record fdt_ops =
  fdt_check_header :: "memory \<Rightarrow> u32 \<Rightarrow> int"
  fdt_totalsize :: "memory \<Rightarrow> u32 \<Rightarrow> u32"
  fdt_path_offset :: "memory \<Rightarrow> u32 \<Rightarrow> string \<Rightarrow> int"
  fdt_getprop :: "memory \<Rightarrow> u32 \<Rightarrow> int \<Rightarrow> string \<Rightarrow> int option"
  fdt_setprop_inplace_u32 :: "memory \<Rightarrow> u32 \<Rightarrow> int \<Rightarrow> string \<Rightarrow> u32 \<Rightarrow> int \<times> memory"

abbreviation (input) A733_DRAM_PARA_COUNT :: nat where "A733_DRAM_PARA_COUNT \<equiv> 96"

text \<open>The property name with its last two characters set to the decimal digits of the index.\<close>

definition para_name :: "nat \<Rightarrow> string" where
  "para_name index = ''dram_para'' @ [char_of (48 + index div 10), char_of (48 + index mod 10)]"

text \<open>The loop over the parameters, on the indices left.\<close>

primrec update_dram_loop ::
  "fdt_ops \<Rightarrow> u32 \<Rightarrow> int \<Rightarrow> (nat \<Rightarrow> u32) \<Rightarrow> nat list \<Rightarrow> memory \<Rightarrow> int \<times> memory" where
  "update_dram_loop F fdt node dram_para [] m = (0, m)"
| "update_dram_loop F fdt node dram_para (index # is) m =
     (case fdt_getprop F m fdt node (para_name index) of None \<Rightarrow> (-1, m)
      | Some len \<Rightarrow>
          if len \<noteq> 4 then (-1, m)
          else let (r, m') = fdt_setprop_inplace_u32 F m fdt node (para_name index) (dram_para index) in
            if r \<noteq> 0 then (-1, m')
            else update_dram_loop F fdt node dram_para is m')"

text \<open>The pointers are an address (0 is NULL) and an optional array.\<close>

definition a733_hw_config_update_dram ::
  "fdt_ops \<Rightarrow> u32 \<Rightarrow> u32 \<Rightarrow> (nat \<Rightarrow> u32) option \<Rightarrow> nat \<Rightarrow> memory \<Rightarrow> int \<times> memory" where
  "a733_hw_config_update_dram F fdt loaded_size dram_para count m =
     (case dram_para of None \<Rightarrow> (-1, m)
      | Some dp \<Rightarrow>
          if fdt = 0 \<or> count \<noteq> A733_DRAM_PARA_COUNT \<or> fdt_check_header F m fdt \<noteq> 0 \<or>
             fdt_totalsize F m fdt > loaded_size then (-1, m)
          else let node = fdt_path_offset F m fdt ''/dram'' in
            if node < 0 then (-1, m)
            else update_dram_loop F fdt node dp [0..<A733_DRAM_PARA_COUNT] m)"

section \<open>What the update leaves\<close>

text \<open>
  The documented behaviour of the library that the update relies on, with \<open>prop\<close> the value of a
  32-bit property: setting an existing property in place changes that property only, keeps the
  other properties of the node, and writes nothing outside the tree.
\<close>

definition fdt_sets :: "fdt_ops \<Rightarrow> (memory \<Rightarrow> u32 \<Rightarrow> int \<Rightarrow> string \<Rightarrow> u32) \<Rightarrow> bool" where
  "fdt_sets F prop \<longleftrightarrow> (\<forall>m fdt node name v m'.
     fdt_setprop_inplace_u32 F m fdt node name v = (0, m') \<longrightarrow>
       prop m' fdt node name = v \<and>
       (\<forall>other. other \<noteq> name \<longrightarrow> prop m' fdt node other = prop m fdt node other)) \<and>
     (\<forall>m fdt node name v b. b \<notin> region fdt (unat (fdt_totalsize F m fdt)) \<longrightarrow>
        snd (fdt_setprop_inplace_u32 F m fdt node name v) b = m b) \<and>
     (\<forall>m fdt node name v. fdt_totalsize F (snd (fdt_setprop_inplace_u32 F m fdt node name v)) fdt =
        fdt_totalsize F m fdt)"

lemma para_name_inj:
  assumes "i < 100" and "j < 100" and "para_name i = para_name j"
  shows "i = j"
proof -
  have digit: "(48 + a) mod 256 = (48 + b) mod 256 \<Longrightarrow> a = b" if "a < 10" "b < 10" for a b :: nat
    using that by simp
  have c: "(char_of (48 + i div 10) :: char) = char_of (48 + j div 10)"
    "(char_of (48 + i mod 10) :: char) = char_of (48 + j mod 10)"
    using assms(3) by (simp_all add: para_name_def)
  from arg_cong [OF c(1), of "of_char :: char \<Rightarrow> nat"] arg_cong [OF c(2), of "of_char :: char \<Rightarrow> nat"]
  have "(48 + i div 10) mod 256 = (48 + j div 10) mod 256" "(48 + i mod 10) mod 256 = (48 + j mod 10) mod 256"
    by simp_all
  moreover have "i div 10 < 10" "j div 10 < 10" "i mod 10 < 10" "j mod 10 < 10" using assms(1,2) by auto
  ultimately have "i div 10 = j div 10" "i mod 10 = j mod 10" using digit by blast+
  then show ?thesis by (metis div_mult_mod_eq)
qed

lemma update_dram_loop_sets:
  assumes F: "fdt_sets F prop"
  shows "distinct is \<Longrightarrow> \<forall>i\<in>set is. i < 100 \<Longrightarrow> update_dram_loop F fdt node dp is m = (0, m') \<Longrightarrow>
    (\<forall>i\<in>set is. prop m' fdt node (para_name i) = dp i) \<and>
    (\<forall>name. name \<notin> para_name ` set is \<longrightarrow> prop m' fdt node name = prop m fdt node name)"
proof (induction "is" arbitrary: m)
  case (Cons i "is")
  obtain r m1 where s: "fdt_setprop_inplace_u32 F m fdt node (para_name i) (dp i) = (r, m1)" by fastforce
  have r: "r = 0" and rest: "update_dram_loop F fdt node dp is m1 = (0, m')"
    using Cons.prems(3) s by (auto split: option.splits if_splits)
  have set: "prop m1 fdt node (para_name i) = dp i"
    "\<forall>other. other \<noteq> para_name i \<longrightarrow> prop m1 fdt node other = prop m fdt node other"
    using F s r unfolding fdt_sets_def by blast+
  have IH: "\<forall>j\<in>set is. prop m' fdt node (para_name j) = dp j"
    "\<forall>name. name \<notin> para_name ` set is \<longrightarrow> prop m' fdt node name = prop m1 fdt node name"
    using Cons.IH [OF _ _ rest] Cons.prems(1,2) by auto
  have "para_name i \<notin> para_name ` set is"
    using Cons.prems(1,2) para_name_inj [of i] by auto
  then show ?case using IH set by auto
qed simp

lemma update_dram_loop_confined:
  assumes F: "fdt_sets F prop"
  shows "b \<notin> region fdt (unat (fdt_totalsize F m fdt)) \<Longrightarrow> snd (update_dram_loop F fdt node dp is m) b = m b"
proof (induction "is" arbitrary: m)
  case (Cons i "is")
  obtain r m1 where s: "fdt_setprop_inplace_u32 F m fdt node (para_name i) (dp i) = (r, m1)" by fastforce
  have "m1 b = m b" and "fdt_totalsize F m1 fdt = fdt_totalsize F m fdt"
    using F Cons.prems s unfolding fdt_sets_def by (metis snd_conv)+
  then show ?case using Cons s by (auto split: option.split)
qed simp

lemma update_dram_confined:
  assumes F: "fdt_sets F prop" and b: "b \<notin> region fdt (unat loaded_size)"
  shows "snd (a733_hw_config_update_dram F fdt loaded_size dp count m) b = m b"
proof -
  have "b \<notin> region fdt (unat (fdt_totalsize F m fdt))" if "\<not> fdt_totalsize F m fdt > loaded_size"
    using b that by (auto simp: region_def word_less_nat_alt)
  then show ?thesis
    using update_dram_loop_confined [OF F]
    by (auto simp: a733_hw_config_update_dram_def Let_def split: option.split)
qed

text \<open>
  C14: patching the device tree. When \<open>a733_hw_config_update_dram\<close> returns 0, each of the 96
  properties \<open>dram_para00\<close> to \<open>dram_para95\<close> of the \<open>/dram\<close> node holds its trained parameter and
  no other property of the node changed; and in any case no byte outside the loaded tree is
  written.
\<close>
theorem a733_hw_config_update_dram_correct:
  assumes "fdt_sets F prop"
    and "a733_hw_config_update_dram F fdt loaded_size dram_para count m = (r, m')"
  shows "(r = 0 \<longrightarrow> (\<exists>dp node. dram_para = Some dp \<and> node = fdt_path_offset F m fdt ''/dram'' \<and>
        (\<forall>i<96. prop m' fdt node (para_name i) = dp i) \<and>
        (\<forall>name. name \<notin> para_name ` {..<96} \<longrightarrow> prop m' fdt node name = prop m fdt node name))) \<and>
    (\<forall>b. b \<notin> region fdt (unat loaded_size) \<longrightarrow> m' b = m b)"
proof -
  have "\<exists>dp node. dram_para = Some dp \<and> node = fdt_path_offset F m fdt ''/dram'' \<and>
        (\<forall>i<96. prop m' fdt node (para_name i) = dp i) \<and>
        (\<forall>name. name \<notin> para_name ` {..<96} \<longrightarrow> prop m' fdt node name = prop m fdt node name)"
    if r0: "r = 0"
  proof -
    obtain dp where dp: "dram_para = Some dp"
      and run: "update_dram_loop F fdt (fdt_path_offset F m fdt ''/dram'') dp [0..<A733_DRAM_PARA_COUNT] m = (0, m')"
      using assms(2) r0 by (auto simp: a733_hw_config_update_dram_def Let_def split: option.splits if_splits)
    from update_dram_loop_sets [OF assms(1) _ _ run]
    show ?thesis using dp by (auto simp: lessThan_atLeast0)
  qed
  moreover have "m' b = m b" if "b \<notin> region fdt (unat loaded_size)" for b
    using update_dram_confined [OF assms(1) that] assms(2) by (metis snd_conv)
  ultimately show ?thesis by blast
qed

text \<open>A library for a tree of four bytes that can set one property.\<close>

definition one_prop_fdt :: fdt_ops where
  "one_prop_fdt = \<lparr>fdt_check_header = (\<lambda>_ _. 0), fdt_totalsize = (\<lambda>_ _. 4),
     fdt_path_offset = (\<lambda>_ _ _. 8), fdt_getprop = (\<lambda>_ _ _ _. Some 4),
     fdt_setprop_inplace_u32 = (\<lambda>m a _ name v. if name = para_name 0 then (0, store32 a v m) else (-1, m))\<rparr>"

theorem a733_hw_config_update_dram_correct_witness:
  "\<exists>r m'. a733_hw_config_update_dram one_prop_fdt 0x48100000 4 (Some (\<lambda>i. of_nat i)) 96 (\<lambda>_. 0) = (r, m') \<and>
     m' 0x48100004 = 0"
proof -
  obtain r m' where run: "a733_hw_config_update_dram one_prop_fdt 0x48100000 4 (Some (\<lambda>i. of_nat i)) 96 (\<lambda>_. 0)
      = (r, m')" by fastforce
  have "fdt_sets one_prop_fdt (\<lambda>m a _ name. if name = para_name 0 then load32 m a else 0)"
    by (auto simp: fdt_sets_def one_prop_fdt_def load32_store32 store32_other split: if_splits)
  from a733_hw_config_update_dram_correct [OF this run] have "m' 0x48100004 = (\<lambda>_. 0) 0x48100004"
    by (simp add: region_def)
  then show ?thesis using run by simp
qed

end
