(* ===== verification/Boot0.thy ===== *)
theory Boot0
  imports Fip_Load Pll_Correct Early_Uart Hw_Config
begin

text \<open>
  The boot0 image itself: its header (\<^verbatim>\<open>src/src/boot0_head.c\<close>) and its main program
  (\<^verbatim>\<open>src/src/boot0_main.c\<close>): the callbacks of the FIP loader, the loading of the images, the
  handoff to the next stage and the sequence of \<open>main\<close> with its error path to FEL mode.
  Functions linked in as objects are calls through the environment; the sectors that the
  storage driver delivers are a parameter \<open>D\<close>, the device-tree library a parameter \<open>F\<close>.
\<close>

unbundle bit_operations_syntax

section \<open>The header\<close>

record boot0_head =
  jump_instruction :: u32
  debug_mode :: u8
  head_dram_para :: "u32 list"
  uart_port :: int
  uart_ctrl :: "normal_gpio_cfg list"
  enable_jtag :: int
  jtag_gpio :: "normal_gpio_cfg list"
  storage_gpio :: "normal_gpio_cfg list"
  storage_data :: "nat \<Rightarrow> u8"
  i2c_gpio :: "normal_gpio_cfg list"
  head_dram_size :: u32

definition gpio :: "u8 \<Rightarrow> u8 \<Rightarrow> u8 \<Rightarrow> u8 \<Rightarrow> u8 \<Rightarrow> u8 \<Rightarrow> normal_gpio_cfg" where
  "gpio p n mux pull drv d = \<lparr>gpio_port = p, port_num = n, mul_sel = mux, gpio_pull = pull,
     drv_level = drv, gpio_data = d, gpio_reserved = [0, 0]\<rparr>"

definition no_gpio :: normal_gpio_cfg where
  "no_gpio = gpio 0 0 0 0 0 0"

text \<open>\<open>JUMP_INSTRUCTION\<close> for a header of \<open>head_size\<close> bytes.\<close>

definition JUMP_INSTRUCTION :: "u32 \<Rightarrow> u32" where
  "JUMP_INSTRUCTION head_size = ((head_size + 4 - 1) div 4 - 2) OR 0xEA000000"

definition BT0_head :: "u32 \<Rightarrow> boot0_head" where
  "BT0_head head_size = \<lparr>
     jump_instruction = JUMP_INSTRUCTION head_size,
     debug_mode = 1,
     head_dram_para = [2400, 9, 0x0e0e0e0e, 0x0f0f0f0f, 0xec030e0f, 0, 0xa10a, 0x1001, 0, 0, 0, 0x6,
       0, 0, 0, 0x13, 0x44, 0, 0x2e, 0, 0x6, 0, 0x4040, 0, 0x170b0703, 0x3800, 0x3514, 0x325f0000,
       0, 0, 0x10065, 0],
     uart_port = 0,
     uart_ctrl = [gpio 2 9 2 1 0xff 0xff, gpio 2 10 2 1 0xff 0xff],
     enable_jtag = 0,
     jtag_gpio = [no_gpio, no_gpio, no_gpio, no_gpio, no_gpio],
     storage_gpio =
       [gpio 6 2 2 1 1 0xff, gpio 6 3 2 1 1 0xff, gpio 6 1 2 1 1 0xff, gpio 6 0 2 1 1 0xff,
        gpio 6 5 2 1 1 0xff, gpio 6 4 2 1 1 0xff] @ replicate 10 no_gpio @
       [gpio 3 5 3 1 1 0xff, gpio 3 6 3 1 1 0xff, gpio 3 10 3 1 1 0xff, gpio 3 13 3 1 1 0xff,
        gpio 3 15 3 1 1 0xff, gpio 3 8 3 1 1 0xff, gpio 3 9 3 1 1 0xff, gpio 3 11 3 1 1 0xff,
        gpio 3 14 3 1 1 0xff, gpio 3 16 3 1 1 0xff, gpio 3 1 3 1 1 0xff, gpio 3 0 3 2 1 0xff] @
       replicate 4 no_gpio,
     storage_data = (\<lambda>i. if i = 40 then 4 else if i = 48 then 8 else 0),
     i2c_gpio = map (\<lambda>g. g\<lparr>gpio_reserved := [6, 0]\<rparr>) [gpio 12 0 2 1 0xff 0xff, gpio 12 1 2 1 0xff 0xff],
     head_dram_size = 0\<rparr>"

section \<open>Loading the images\<close>

abbreviation (input) CONFIG_BOOTPKG_BASE :: u32 where "CONFIG_BOOTPKG_BASE \<equiv> 0x42e00000"
abbreviation (input) CONFIG_FIP_STAGING_SIZE :: u32 where "CONFIG_FIP_STAGING_SIZE \<equiv> 0x200000"
abbreviation (input) CONFIG_MONITOR_BASE :: u32 where "CONFIG_MONITOR_BASE \<equiv> 0x48000000"
abbreviation (input) CONFIG_UBOOT_BASE :: u32 where "CONFIG_UBOOT_BASE \<equiv> 0x4a000000"
abbreviation (input) CONFIG_FIP_HANDOFF_BASE :: u32 where "CONFIG_FIP_HANDOFF_BASE \<equiv> 0x42dff000"
abbreviation (input) CONFIG_FIP_HANDOFF_SIZE :: u32 where "CONFIG_FIP_HANDOFF_SIZE \<equiv> 0x1000"
abbreviation (input) CONFIG_HEAP_BASE :: u32 where "CONFIG_HEAP_BASE \<equiv> 0x40800000"
abbreviation (input) CONFIG_HEAP_SIZE :: u32 where "CONFIG_HEAP_SIZE \<equiv> 0x1000000"
abbreviation (input) FEL_BASE :: u32 where "FEL_BASE \<equiv> 0x20"
abbreviation (input) MAX_DRAMPARA_SIZE :: nat where "MAX_DRAMPARA_SIZE \<equiv> 96"

text \<open>The state of the program: the board and \<open>struct fip_boot_images\<close>.\<close>

record boot0 = board +
  scp_source :: u32
  scp_size :: u32
  dtb_base :: u32
  dtb_size :: u32

text \<open>The staging buffer as the FIP loader sees it.\<close>

definition staging_view :: "boot0 \<Rightarrow> buf" where
  "staging_view w = (\<lambda>i. if i < unat CONFIG_FIP_STAGING_SIZE
     then Some (mem w (CONFIG_BOOTPKG_BASE + of_nat i)) else None)"

text \<open>
  \<open>mmc_bread_ext\<close> fills the destination with the bytes the driver delivers, \<open>D\<close> of the
  history and the sectors, and returns its status.
\<close>

type_synonym sector_data = "history \<Rightarrow> u32 \<Rightarrow> u32 \<Rightarrow> nat \<Rightarrow> u8"

definition mmc_bread_ext :: "env \<Rightarrow> sector_data \<Rightarrow> u32 \<Rightarrow> u32 \<Rightarrow> u32 \<Rightarrow> (boot0, int) state" where
  "mmc_bread_ext E D start_sector sector_count destination = do {
     w \<leftarrow> State_Monad.get;
     let d = D (trace w) start_sector sector_count;
     r \<leftarrow> call E Mmc_bread_ext [start_sector, sector_count, destination];
     _ \<leftarrow> State_Monad.update (\<lambda>w. w\<lparr>mem := fill destination (unat sector_count * 512) d (mem w)\<rparr>);
     ret r
   }"

definition fip_mmc_read :: "env \<Rightarrow> sector_data \<Rightarrow> u32 \<Rightarrow> u32 \<Rightarrow> (boot0, int) state" where
  "fip_mmc_read E D start_sector sector_count = do {
     r \<leftarrow> mmc_bread_ext E D start_sector sector_count CONFIG_BOOTPKG_BASE;
     ret (if r = 0 then 1 else 0)
   }"

text \<open>The source is the index of the image in the staging buffer.\<close>

definition fip_copy_image :: "u32 \<Rightarrow> nat \<Rightarrow> u32 \<Rightarrow> (boot0, int) state" where
  "fip_copy_image destination src img_sz =
     (let source = CONFIG_BOOTPKG_BASE + of_nat src in
      if destination = SUNXI_FIP_SCP_BL2_BASE then do {
        _ \<leftarrow> State_Monad.update (\<lambda>w. w\<lparr>scp_source := source, scp_size := img_sz\<rparr>);
        ret 0
      } else do {
        _ \<leftarrow> State_Monad.update (\<lambda>w. w\<lparr>mem := memcpy destination source img_sz (mem w)\<rparr>);
        _ \<leftarrow> (if destination = SUNXI_FIP_HW_CONFIG_BASE
             then State_Monad.update (\<lambda>w. w\<lparr>dtb_base := destination, dtb_size := img_sz\<rparr>)
             else ret ());
        ret 0
      })"

text \<open>
  The result is the return code with the values left in \<open>*uboot_base\<close> and \<open>*monitor_base\<close>;
  \<open>None\<close> is an access outside the staging buffer.
\<close>

definition load_fip_images ::
  "env \<Rightarrow> sector_data \<Rightarrow> fdt_ops \<Rightarrow> (nat \<Rightarrow> u32) \<Rightarrow> (boot0, (int \<times> u32 \<times> u32) option) state" where
  "load_fip_images E D F dram_para = do {
     r \<leftarrow> call E Sunxi_mmc_init_ext [];
     if r \<noteq> 0 then ret (Some (-1, 0, 0)) else do {
     primary_sector \<leftarrow> call E Toc1_start [1];
     backup_sector \<leftarrow> call E Toc1_bak_start [1];
     r \<leftarrow> sunxi_fip_load_redundant (word_of_int primary_sector) (word_of_int backup_sector)
            (Some staging_view) CONFIG_FIP_STAGING_SIZE (Some (fip_mmc_read E D))
            (Some fip_copy_image) (Some 0) (Some 0);
     case r of None \<Rightarrow> ret None
     | Some (rc, fip_size, used_sector) \<Rightarrow>
       if rc \<noteq> 0 then ret (Some (-1, 0, 0)) else do {
       w \<leftarrow> State_Monad.get;
       if scp_source w = 0 \<or> scp_size w = 0 then ret (Some (-1, 0, 0)) else do {
       _ \<leftarrow> (if dtb_base w \<noteq> 0 then
              let (r, m) = a733_hw_config_update_dram F (dtb_base w) (dtb_size w) (Some dram_para)
                             MAX_DRAMPARA_SIZE (mem w) in do {
              _ \<leftarrow> State_Monad.update (\<lambda>w. w\<lparr>mem := m\<rparr>);
              if r \<noteq> 0 then State_Monad.update (\<lambda>w. w\<lparr>dtb_base := 0, dtb_size := 0\<rparr>) else ret ()
            } else ret ());
       ret (Some (0, CONFIG_UBOOT_BASE, CONFIG_MONITOR_BASE)) }}}
   }"

section \<open>The handoff\<close>

definition invalidate_instruction_cache :: "env \<Rightarrow> ('a machine_scheme, unit) state" where
  "invalidate_instruction_cache E = do { _ \<leftarrow> call E Icache_invalidate []; ret () }"

text \<open>The cleaning loop with a bound on its rounds, \<open>None\<close> when it is used up.\<close>

primrec clean_dcache_loop :: "env \<Rightarrow> nat \<Rightarrow> u32 \<Rightarrow> u32 \<Rightarrow> ('a machine_scheme, unit option) state" where
  "clean_dcache_loop E 0 addr end_addr = ret None"
| "clean_dcache_loop E (Suc fuel) addr end_addr =
     (if addr < end_addr then do {
        _ \<leftarrow> call E Dcache_clean [addr];
        clean_dcache_loop E fuel (addr + 32) end_addr
      } else ret (Some ()))"

definition clean_dcache_range :: "env \<Rightarrow> u32 \<Rightarrow> u32 \<Rightarrow> ('a machine_scheme, unit option) state" where
  "clean_dcache_range E start img_sz =
     (let end_addr = start + img_sz; start = start AND NOT (32 - 1) in
      clean_dcache_loop E (unat img_sz + 33) start end_addr)"

text \<open>\<open>hs\<close> and \<open>he\<close> are the link addresses of \<open>fip_handoff_start\<close> and \<open>fip_handoff_end\<close>.\<close>

definition run_fip_handoff :: "env \<Rightarrow> u32 \<Rightarrow> u32 \<Rightarrow> (boot0, int option) state" where
  "run_fip_handoff E hs he = (
     let handoff_src = hs AND NOT 1;
         handoff_end_addr = he AND NOT 1;
         handoff_size = handoff_end_addr - handoff_src in do {
     w \<leftarrow> State_Monad.get;
     if scp_source w = 0 \<or> scp_size w = 0 \<or> handoff_size = 0 \<or>
        handoff_size > CONFIG_FIP_HANDOFF_SIZE then ret (Some (-1)) else do {
     _ \<leftarrow> State_Monad.update (\<lambda>w. w\<lparr>mem := memcpy CONFIG_FIP_HANDOFF_BASE handoff_src handoff_size (mem w)\<rparr>);
     r1 \<leftarrow> clean_dcache_range E CONFIG_FIP_HANDOFF_BASE handoff_size;
     r2 \<leftarrow> clean_dcache_range E CONFIG_MONITOR_BASE SUNXI_FIP_BL31_MAX_SIZE;
     r3 \<leftarrow> clean_dcache_range E CONFIG_UBOOT_BASE SUNXI_FIP_BL33_MAX_SIZE;
     r4 \<leftarrow> clean_dcache_range E (scp_source w) (scp_size w);
     r5 \<leftarrow> (if dtb_base w \<noteq> 0 then clean_dcache_range E (dtb_base w) (dtb_size w) else ret (Some ()));
     if r1 = None \<or> r2 = None \<or> r3 = None \<or> r4 = None \<or> r5 = None then ret None else do {
     _ \<leftarrow> invalidate_instruction_cache E;
     _ \<leftarrow> call E Fip_handoff [scp_source w, scp_size w, dtb_base w];
     ret (Some (-1)) }}})"

section \<open>The main program\<close>

definition boot0_clear_env :: "env \<Rightarrow> ('a machine_scheme, int) state" where
  "boot0_clear_env E = do {
     _ \<leftarrow> call E Board_exit [];
     _ \<leftarrow> a7s_clock_reset E;
     _ \<leftarrow> call E Mmu_disable [];
     _ \<leftarrow> mdelay 10;
     ret 0
   }"

definition print_commit_log :: "env \<Rightarrow> boot0_head \<Rightarrow> ('a machine_scheme, unit) state" where
  "print_commit_log E H = do {
     _ \<leftarrow> call E Set_debug_mode [ucast (debug_mode H), 0];
     ret ()
   }"

text \<open>The header words of the monitor that tell it where the next stage is.\<close>

definition write_monitor_head :: "u32 \<Rightarrow> u32 \<Rightarrow> int \<Rightarrow> ('a board_scheme, unit) state" where
  "write_monitor_head monitor_base uboot_base dram_size = do {
     _ \<leftarrow> put32 (monitor_base + 24) 0;
     _ \<leftarrow> put32 (monitor_base + 16) uboot_base;
     put32 (monitor_base + 48) (word_of_int dram_size)
   }"

text \<open>
  The part of \<open>main\<close> after DRAM is up: memory management, loading and handoff. It ends at the
  label \<open>_BOOT_ERROR\<close>.
\<close>

definition boot0_load_and_jump ::
  "env \<Rightarrow> sector_data \<Rightarrow> fdt_ops \<Rightarrow> (nat \<Rightarrow> u32) \<Rightarrow> u32 \<Rightarrow> u32 \<Rightarrow> int \<Rightarrow> (boot0, unit option) state" where
  "boot0_load_and_jump E D F dram_para hs he dram_size = do {
     _ \<leftarrow> call E Mmu_enable [word_of_int dram_size];
     _ \<leftarrow> call E Malloc_init [CONFIG_HEAP_BASE, CONFIG_HEAP_SIZE];
     status \<leftarrow> call E Board_late_init [];
     if status \<noteq> 0 then ret (Some ()) else do {
     r \<leftarrow> load_fip_images E D F dram_para;
     case r of None \<Rightarrow> ret None
     | Some (status, uboot_base, monitor_base) \<Rightarrow>
       if status \<noteq> 0 then ret (Some ()) else do {
       _ \<leftarrow> (if monitor_base \<noteq> 0 then write_monitor_head monitor_base uboot_base dram_size else ret ());
       r \<leftarrow> run_fip_handoff E hs he;
       case r of None \<Rightarrow> ret None | Some _ \<Rightarrow> ret (Some ()) }}
   }"

text \<open>The part of \<open>main\<close> up to DRAM: \<open>None\<close> when it jumps to \<open>_BOOT_ERROR\<close>.\<close>

definition boot0_bring_up :: "env \<Rightarrow> boot0_head \<Rightarrow> (boot0, int option) state" where
  "boot0_bring_up E H = do {
     _ \<leftarrow> a7s_early_uart_init E;
     _ \<leftarrow> a7s_early_uart_puts E [13, 10, 65, 55, 83, 32, 66, 79, 79, 84, 48, 58, 32, 101, 97, 114, 108,
            121, 32, 117, 97, 114, 116, 48, 32, 97, 108, 105, 118, 101, 13, 10];
     _ \<leftarrow> call E Board_init_early [];
     _ \<leftarrow> call E Serial_init [word_of_int (uart_port H), 2];
     _ \<leftarrow> a7s_early_uart_init E;
     _ \<leftarrow> print_commit_log E H;
     status \<leftarrow> sunxi_board_init E;
     if status \<noteq> 0 then ret None else do {
     status \<leftarrow> a7s_clock_init E;
     if status \<noteq> 0 then ret None else do {
     fel \<leftarrow> call E Rtc_probe_fel_flag [];
     if fel \<noteq> 0 then do { _ \<leftarrow> call E Rtc_clear_fel_flag []; ret None } else do {
     _ \<leftarrow> (if enable_jtag H \<noteq> 0
          then do { _ \<leftarrow> boot_set_gpio E (Some (\<lambda>i. jtag_gpio H ! i)) 5 1; ret () } else ret ());
     uart_input_value \<leftarrow> call E Get_uart_input [];
     if uart_input_value = 50 then ret None else do {
     _ \<leftarrow> call E Bootparam_load [];
     dram_size \<leftarrow> call E Init_DRAM [0];
     if dram_size = 0 then ret None else do {
     let dram_size = (if head_dram_size H > 0 then sint (head_dram_size H) else dram_size);
     uart_input_value \<leftarrow> call E Get_uart_input [];
     if uart_input_value = 50 then do { _ \<leftarrow> call E Set_debug_mode [3, 0]; ret None }
     else do {
       _ \<leftarrow> (if uart_input_value = 100 then do { _ \<leftarrow> call E Set_debug_mode [8, 1]; ret () }
            else if uart_input_value = 113 then do { _ \<leftarrow> call E Set_debug_mode [0, 1]; ret () }
            else ret ());
       ret (Some dram_size)
     } }}}}}
   }"

definition boot0_main ::
  "env \<Rightarrow> sector_data \<Rightarrow> fdt_ops \<Rightarrow> (nat \<Rightarrow> u32) \<Rightarrow> u32 \<Rightarrow> u32 \<Rightarrow> boot0_head \<Rightarrow> (boot0, unit option) state" where
  "boot0_main E D F dram_para hs he H = do {
     _ \<leftarrow> State_Monad.update (\<lambda>w. w\<lparr>scp_source := 0, scp_size := 0, dtb_base := 0, dtb_size := 0\<rparr>);
     r \<leftarrow> boot0_bring_up E H;
     r \<leftarrow> (case r of None \<Rightarrow> ret (Some ())
          | Some dram_size \<Rightarrow> boot0_load_and_jump E D F dram_para hs he dram_size);
     case r of None \<Rightarrow> ret None
     | Some _ \<Rightarrow> do {
         _ \<leftarrow> boot0_clear_env E;
         _ \<leftarrow> call E Boot0_jmp [FEL_BASE];
         ret (Some ())
       }
   }"

end
