(* ===== verification/Boot0_Correct.thy ===== *)
theory Boot0_Correct
  imports Boot0
begin

text \<open>
  The boot0 program meets the two interfaces of the FIP loader, so its loading of the images
  inherits the loader's guarantees: what reaches the load windows is a valid package of the
  disk, byte for byte, and a damaged primary copy is survived.
\<close>

unbundle bit_operations_syntax

section \<open>The staging buffer as a medium\<close>

text \<open>
  The documented behaviour of the storage driver: status 0 means the destination holds the
  sectors of the card.
\<close>

definition mmc_reads :: "env \<Rightarrow> sector_data \<Rightarrow> (nat \<Rightarrow> u8) \<Rightarrow> bool" where
  "mmc_reads E D disk \<longleftrightarrow> (\<forall>t s c. fst (ext_call E t Mmc_bread_ext [s, c, CONFIG_BOOTPKG_BASE]) = 0 \<longrightarrow>
     (\<forall>i<unat c * 512. D t s c i = disk (unat s * 512 + i)))"

lemma fip_mmc_read_wp:
  "wp (fip_mmc_read E D s c) Q w \<longleftrightarrow>
     (let r = ext_call E (trace w) Mmc_bread_ext [s, c, CONFIG_BOOTPKG_BASE] in
      Q (if fst r = 0 then 1 else 0)
        (w\<lparr>trace := Call Mmc_bread_ext [s, c, CONFIG_BOOTPKG_BASE] (fst r) (snd r) # trace w,
           mem := fill CONFIG_BOOTPKG_BASE (unat c * 512) (D (trace w) s c) (mem w)\<rparr>))"
  by (simp add: fip_mmc_read_def mmc_bread_ext_def wp_simps Let_def)

lemma unat_of_nat_small: "i < 2 ^ 32 \<Longrightarrow> unat (of_nat i :: u32) = i"
  by (simp add: unat_of_nat)

lemma region_offset: "i < n \<Longrightarrow> i < 2 ^ 32 \<Longrightarrow> a + of_nat i \<in> region a n"
  by (simp add: region_def unat_of_nat)

lemma region_mono: "m \<le> n \<Longrightarrow> region a m \<subseteq> region a n"
  by (auto simp: region_def)

interpretation boot: fip_medium staging_view "fip_mmc_read E D" CONFIG_FIP_STAGING_SIZE disk
  "mmc_reads E D disk" for E D disk
proof unfold_locales
  show "1536 \<le> unat CONFIG_FIP_STAGING_SIZE" by simp
  show "readable (staging_view w) (unat CONFIG_FIP_STAGING_SIZE)" for w
    by (simp add: readable_def staging_view_def)
  fix s c :: u32 and w w' :: boot0 and i :: nat
  assume con: "mmc_reads E D disk" and run: "run_state (fip_mmc_read E D s c) w = (1, w')"
    and fit: "unat c * 512 \<le> unat CONFIG_FIP_STAGING_SIZE" and i: "i < unat c * 512"
  have "wp (fip_mmc_read E D s c) (\<lambda>r v. r = 1 \<longrightarrow> staging_view v i = Some (disk (unat s * 512 + i))) w"
    unfolding fip_mmc_read_wp
    using con fit i by (auto simp: Let_def staging_view_def fill_inside unat_of_nat mmc_reads_def)
  then show "staging_view w' i = Some (disk (unat s * 512 + i))"
    using wp_runD [OF _ run] by blast
qed

section \<open>The load windows as a target\<close>

text \<open>
  Where the next stage finds an image: in its window, or for the SCP image at the source that
  is passed to the handoff.
\<close>

definition loaded_byte :: "boot0 \<Rightarrow> u32 \<Rightarrow> nat \<Rightarrow> u8" where
  "loaded_byte w d i = (if d = SUNXI_FIP_SCP_BL2_BASE then mem w (scp_source w + of_nat i)
     else mem w (d + of_nat i))"

lemma windows_apart:
  assumes "window_size d = Some m" and "d \<noteq> SUNXI_FIP_SCP_BL2_BASE"
  shows "region d m \<inter> region CONFIG_BOOTPKG_BASE (unat CONFIG_FIP_STAGING_SIZE) = {}"
    and "window_size d' = Some m' \<Longrightarrow> d' \<noteq> d \<Longrightarrow> d' \<noteq> SUNXI_FIP_SCP_BL2_BASE \<Longrightarrow> region d m \<inter> region d' m' = {}"
    and "m < 2 ^ 32"
proof -
  have far: "region a k \<inter> region b l = {}"
    if "unat a + k \<le> unat b \<and> unat b + l \<le> 2 ^ 32 \<or> unat b + l \<le> unat a \<and> unat a + k \<le> 2 ^ 32" for a b k l
    using region_disjoint [of a k b l] region_disjoint [of b l a k] that by blast
  show "region d m \<inter> region CONFIG_BOOTPKG_BASE (unat CONFIG_FIP_STAGING_SIZE) = {}"
    using assms by (intro far) (auto simp: window_size_def split: if_splits)
  show "region d m \<inter> region d' m' = {}"
    if "window_size d' = Some m'" "d' \<noteq> d" "d' \<noteq> SUNXI_FIP_SCP_BL2_BASE"
    using assms that by (intro far) (auto simp: window_size_def split: if_splits)
  show "m < 2 ^ 32" using assms by (auto simp: window_size_def split: if_splits)
qed

interpretation boot: fip_target staging_view fip_copy_image CONFIG_FIP_STAGING_SIZE loaded_byte
proof unfold_locales
  fix d n :: u32 and m src :: nat and w :: boot0
  assume win: "window_size d = Some m" and n: "unat n \<le> m"
    and src: "src + unat n \<le> unat CONFIG_FIP_STAGING_SIZE"
  show "\<exists>w'. run_state (fip_copy_image d src n) w = (0, w') \<and> staging_view w' = staging_view w \<and>
      (\<forall>i<unat n. staging_view w (src + i) = Some (loaded_byte w' d i)) \<and>
      (\<forall>d' m'. window_size d' = Some m' \<longrightarrow> d' \<noteq> d \<longrightarrow> d' \<noteq> SUNXI_FIP_SCP_BL2_BASE \<longrightarrow>
         (\<forall>i<m'. loaded_byte w' d' i = loaded_byte w d' i))"
  proof (cases "d = SUNXI_FIP_SCP_BL2_BASE")
    case True
    let ?w = "w\<lparr>scp_source := CONFIG_BOOTPKG_BASE + of_nat src, scp_size := n\<rparr>"
    have "run_state (fip_copy_image d src n) w = (0, ?w)"
      using True by (simp add: fip_copy_image_def Let_def State_Monad.update_def State_Monad.get_def
          State_Monad.set_def)
    moreover have "staging_view w (src + i) = Some (loaded_byte ?w d i)" if "i < unat n" for i
      using src that True by (simp add: staging_view_def loaded_byte_def add.assoc)
    ultimately show ?thesis by (auto simp: staging_view_def loaded_byte_def)
  next
    case False
    let ?src = "CONFIG_BOOTPKG_BASE + of_nat src"
    let ?m = "memcpy d ?src n (mem w)"
    define w' where "w' = (if d = SUNXI_FIP_HW_CONFIG_BASE then w\<lparr>mem := ?m, dtb_base := d, dtb_size := n\<rparr>
      else w\<lparr>mem := ?m\<rparr>)"
    have mem: "mem w' = ?m" and scp: "scp_source w' = scp_source w" by (simp_all add: w'_def)
    have run: "run_state (fip_copy_image d src n) w = (0, w')"
      using False by (simp add: fip_copy_image_def Let_def w'_def State_Monad.update_def State_Monad.get_def
          State_Monad.set_def)
    note apart = windows_apart [OF win False]
    have out: "?m b = mem w b" if "b \<notin> region d m" for b
      using that region_mono [OF n, of d] by (intro memcpy_outside) blast
    have "staging_view w' = staging_view w"
    proof
      fix i
      have "CONFIG_BOOTPKG_BASE + of_nat i \<notin> region d m" if "i < unat CONFIG_FIP_STAGING_SIZE"
        using apart(1) region_offset [OF that, of CONFIG_BOOTPKG_BASE] that by auto
      then show "staging_view w' i = staging_view w i" by (simp add: staging_view_def mem out)
    qed
    moreover have "staging_view w (src + i) = Some (loaded_byte w' d i)" if "i < unat n" for i
      using src that False n apart(3)
      by (simp add: staging_view_def loaded_byte_def mem memcpy_inside unat_of_nat_small add.assoc)
    moreover have "loaded_byte w' d' i = loaded_byte w d' i"
      if d': "window_size d' = Some m'" "d' \<noteq> d" "d' \<noteq> SUNXI_FIP_SCP_BL2_BASE" and i: "i < m'" for d' m' i
    proof -
      have "m' < 2 ^ 32" using windows_apart(3) [OF d'(1,3)] .
      then have "d' + of_nat i \<notin> region d m"
        using apart(2) [OF d'] region_offset [OF i, of d'] i by auto
      then show ?thesis using d'(3) by (simp add: loaded_byte_def mem out)
    qed
    ultimately show ?thesis using run by blast
  qed
qed


section \<open>What a successful load leaves in memory\<close>

definition sector_bytes :: "(nat \<Rightarrow> u8) \<Rightarrow> u32 \<Rightarrow> buf" where
  "sector_bytes disk s = (\<lambda>i. Some (disk (unat s * 512 + i)))"

lemma medium_at_sector_bytes: "boot.medium_at disk s = sector_bytes disk s"
  by (simp add: boot.medium_at_def sector_bytes_def)

text \<open>The bytes of an image of the package \<open>b\<close> are in memory from address \<open>d\<close> on.\<close>

definition image_at :: "buf \<Rightarrow> sunxi_fip_image \<Rightarrow> u32 \<Rightarrow> memory \<Rightarrow> bool" where
  "image_at b im d m \<longleftrightarrow> (\<forall>i<unat (img_size im). b (unat (img_offset im) + i) = Some (m (d + of_nat i)))"

text \<open>
  The monitor and U-Boot are in their windows; the SCP image is in the staging buffer, where
  the record that is passed to the handoff says.
\<close>

definition package_loaded :: "buf \<Rightarrow> sunxi_fip_layout \<Rightarrow> boot0 \<Rightarrow> bool" where
  "package_loaded b l w \<longleftrightarrow>
     image_at b (bl31 l) SUNXI_FIP_BL31_BASE (mem w) \<and> image_at b (bl33 l) SUNXI_FIP_BL33_BASE (mem w) \<and>
     image_at b (scp_bl2 l) (scp_source w) (mem w) \<and>
     scp_source w = CONFIG_BOOTPKG_BASE + img_offset (scp_bl2 l) \<and> scp_size w = img_size (scp_bl2 l)"

lemma image_at_frame:
  assumes "image_at b im d m" and "\<And>i. i < unat (img_size im) \<Longrightarrow> m' (d + of_nat i) = m (d + of_nat i)"
  shows "image_at b im d m'"
  using assms by (simp add: image_at_def)

lemma copy_parsed_records:
  "wp (copy_parsed fip_copy_image l) (\<lambda>r v. r = 0 \<and>
     scp_source v = CONFIG_BOOTPKG_BASE + img_offset (scp_bl2 l) \<and> scp_size v = img_size (scp_bl2 l) \<and>
     (if img_size (hw_config l) = 0 then dtb_base v = dtb_base w \<and> dtb_size v = dtb_size w
      else dtb_base v = SUNXI_FIP_HW_CONFIG_BASE \<and> dtb_size v = img_size (hw_config l))) w"
  by (simp add: copy_parsed_def fip_copy_image_def wp_simps Let_def)

lemma copy_parsed_package_loaded:
  assumes safe: "layout_safe sz l" and sz: "sz \<le> unat CONFIG_FIP_STAGING_SIZE"
    and ag: "agree sz b (staging_view w)"
  shows "wp (copy_parsed fip_copy_image l) (\<lambda>r v. r = 0 \<and> package_loaded b l v) w"
proof -
  obtain v where v: "run_state (copy_parsed fip_copy_image l) w = (0, v)"
    and lay: "boot.layout_loaded (staging_view w) v l"
    using boot.copy_parsed_loads [OF safe sz, of w] by blast
  have rec: "scp_source v = CONFIG_BOOTPKG_BASE + img_offset (scp_bl2 l)" "scp_size v = img_size (scp_bl2 l)"
    using wp_runD [OF copy_parsed_records v] by blast+
  have "b (unat (img_offset im) + i) = staging_view w (unat (img_offset im) + i)"
    if "im \<in> {scp_bl2 l, bl31 l, bl33 l}" "i < unat (img_size im)" for im i
    using safe ag that unfolding layout_safe_def image_inside_def agree_def by fastforce
  then have "package_loaded b l v"
    using lay rec unfolding package_loaded_def boot.layout_loaded_def boot.image_loaded_def image_at_def
    by (simp add: loaded_byte_def)
  then show ?thesis using v by (simp add: wp_def)
qed


text \<open>The ranges that the records name lie in the staging buffer and in the HW_CONFIG window.\<close>

definition records_ok :: "boot0 \<Rightarrow> bool" where
  "records_ok v \<longleftrightarrow> unat CONFIG_BOOTPKG_BASE \<le> unat (scp_source v) \<and> scp_size v \<noteq> 0 \<and>
     unat (scp_source v) + unat (scp_size v) \<le> unat CONFIG_BOOTPKG_BASE + unat CONFIG_FIP_STAGING_SIZE \<and>
     (dtb_base v = 0 \<or> dtb_base v = SUNXI_FIP_HW_CONFIG_BASE \<and> dtb_size v \<noteq> 0 \<and>
        unat (dtb_size v) \<le> unat SUNXI_FIP_HW_CONFIG_MAX_SIZE)"

lemma copy_parsed_records_ok:
  assumes safe: "layout_safe sz l" and sz: "sz \<le> unat CONFIG_FIP_STAGING_SIZE" and "dtb_base w = 0"
  shows "wp (copy_parsed fip_copy_image l) (\<lambda>r v. r = 0 \<and> records_ok v) w"
proof (rule wp_mono [OF copy_parsed_records])
  fix r :: int and v :: boot0
  assume *: "r = 0 \<and> scp_source v = CONFIG_BOOTPKG_BASE + img_offset (scp_bl2 l) \<and> scp_size v = img_size (scp_bl2 l) \<and>
     (if img_size (hw_config l) = 0 then dtb_base v = dtb_base w \<and> dtb_size v = dtb_size w
      else dtb_base v = SUNXI_FIP_HW_CONFIG_BASE \<and> dtb_size v = img_size (hw_config l))"
  have scp: "unat (img_offset (scp_bl2 l)) + unat (img_size (scp_bl2 l)) \<le> unat CONFIG_FIP_STAGING_SIZE"
    "0 < img_size (scp_bl2 l)" and dtb: "unat (img_size (hw_config l)) \<le> unat SUNXI_FIP_HW_CONFIG_MAX_SIZE"
    using safe sz by (auto simp: layout_safe_def image_inside_def word_le_nat_alt)
  have "unat (scp_source v) = unat CONFIG_BOOTPKG_BASE + unat (img_offset (scp_bl2 l))"
    using * scp(1) by (simp add: unat_word_ariths)
  then show "r = 0 \<and> records_ok v"
    using * scp dtb assms(3) by (auto simp: records_ok_def split: if_splits)
qed

text \<open>A layout that the medium holds from sector \<open>u\<close> on.\<close>

definition package_of :: "(nat \<Rightarrow> u8) \<Rightarrow> u32 \<Rightarrow> sunxi_fip_layout \<Rightarrow> bool" where
  "package_of disk u l \<longleftrightarrow> (\<exists>(n :: u32) k. fip_package (sector_bytes disk u) (unat n) k \<and>
     unat n \<le> unat CONFIG_FIP_STAGING_SIZE \<and> l = toc_layout (sector_bytes disk u) k)"

lemma package_of_safe: "package_of disk u l \<Longrightarrow> \<exists>sz \<le> unat CONFIG_FIP_STAGING_SIZE. layout_safe sz l"
  unfolding package_of_def using fip_package_layout_safe by blast

text \<open>
  The result of the redundant load in boot0. Without the contract of the driver it still
  returns, and it keeps the device-tree record and the events so far.
\<close>

definition load_result :: "(nat \<Rightarrow> u8) \<Rightarrow> u32 \<Rightarrow> u32 \<Rightarrow> boot0 \<Rightarrow> bool" where
  "load_result disk primary backup v \<longleftrightarrow> (\<exists>u l. (u = primary \<or> u = backup) \<and> package_of disk u l \<and>
     package_loaded (sector_bytes disk u) l v \<and>
     (dtb_base v = 0 \<or> dtb_base v = SUNXI_FIP_HW_CONFIG_BASE \<and> dtb_size v = img_size (hw_config l)))"

text \<open>A history goes on from another without a handoff.\<close>

definition extends :: "history \<Rightarrow> history \<Rightarrow> bool" where
  "extends t t' \<longleftrightarrow> (\<exists>es. t' = es @ t \<and> (\<forall>args r v. Call Fip_handoff args r v \<notin> set es))"

lemma extends_refl [simp]: "extends t t"
  by (simp add: extends_def)

lemma extends_Cons: "extends t t' \<Longrightarrow> (\<And>args r v. e \<noteq> Call Fip_handoff args r v) \<Longrightarrow> extends t (e # t')"
  unfolding extends_def by (elim exE conjE) (metis append_Cons set_ConsD)

lemma extends_trans: "extends t t' \<Longrightarrow> extends t' t'' \<Longrightarrow> extends t t''"
  unfolding extends_def by (elim exE conjE) (metis append.assoc Un_iff set_append)

lemma extends_mem: "extends t t' \<Longrightarrow> e \<in> set t \<Longrightarrow> e \<in> set t'"
  by (auto simp: extends_def)

definition kept :: "history \<Rightarrow> boot0 \<Rightarrow> bool" where
  "kept t w \<longleftrightarrow> dtb_base w = 0 \<and> extends t (trace w)"

lemma fip_mmc_read_kept: "kept t w \<Longrightarrow> kept t (snd (run_state (fip_mmc_read E D s c) w))"
proof -
  assume "kept t w"
  then have "wp (fip_mmc_read E D s c) (\<lambda>_. kept t) w"
    unfolding fip_mmc_read_wp kept_def Let_def by (auto intro: extends_Cons)
  then show ?thesis by (simp add: wp_def)
qed

lemma staging_readable: "readable (staging_view w) (unat CONFIG_FIP_STAGING_SIZE)"
  by (simp add: readable_def staging_view_def)

lemma read_redundant_boot:
  assumes "kept t w"
  obtains rc n u v where "run_state (sunxi_fip_read_redundant primary backup (Some staging_view)
      CONFIG_FIP_STAGING_SIZE (Some (fip_mmc_read E D)) (Some 0) (Some 0)) w = (Some (rc, Some n, Some u), v)"
    and "kept t v" and "read_outcome staging_view CONFIG_FIP_STAGING_SIZE rc n v"
  using read_redundant_outcome [of staging_view CONFIG_FIP_STAGING_SIZE "kept t" "fip_mmc_read E D" w
      primary backup 0 0, OF staging_readable fip_mmc_read_kept assms] by blast

text \<open>A valid package at sector \<open>b\<close> that the driver can read.\<close>

definition copy_ok :: "env \<Rightarrow> (nat \<Rightarrow> u8) \<Rightarrow> u32 \<Rightarrow> bool" where
  "copy_ok E disk b \<longleftrightarrow> b \<noteq> 0 \<and> (\<forall>t c. fst (ext_call E t Mmc_bread_ext [b, c, CONFIG_BOOTPKG_BASE]) = 0) \<and>
     (\<exists>n k. fip_package (sector_bytes disk b) (unat n) k \<and> toc_off (sector_bytes disk b) k = unat n \<and>
        fits_staging CONFIG_FIP_STAGING_SIZE n)"

lemma copy_ok_found:
  assumes "mmc_reads E D disk" and "copy_ok E disk backup"
    and "run_state (sunxi_fip_read_redundant primary backup (Some staging_view)
      CONFIG_FIP_STAGING_SIZE (Some (fip_mmc_read E D)) (Some 0) (Some 0)) w = (Some (rc, n, u), v)"
  shows "rc = 0"
proof -
  obtain m k where "boot.package_at disk backup m k"
    using assms(2) unfolding copy_ok_def boot.package_at_def medium_at_sector_bytes by blast
  moreover have "fst (run_state (fip_mmc_read E D backup c) w) = 1" for c w
  proof -
    have "wp (fip_mmc_read E D backup c) (\<lambda>r _. r = 1) w"
      unfolding fip_mmc_read_wp using assms(2) by (simp add: copy_ok_def Let_def)
    then show ?thesis by (simp add: wp_def)
  qed
  ultimately show ?thesis
    using boot.read_redundant_complete [OF assms(1), of backup m k primary 0 0 w] assms(2,3)
    by (auto simp: copy_ok_def)
qed

lemma load_redundant_boot:
  assumes "kept t w"
  shows "wp (sunxi_fip_load_redundant primary backup (Some staging_view) CONFIG_FIP_STAGING_SIZE
      (Some (fip_mmc_read E D)) (Some fip_copy_image) (Some 0) (Some 0))
    (\<lambda>r v. \<exists>rc n u. r = Some (rc, Some n, Some u) \<and> extends t (trace v) \<and>
       (rc = -1 \<and> \<not> (mmc_reads E D disk \<and> copy_ok E disk backup) \<or>
        rc = 0 \<and> records_ok v \<and> (mmc_reads E D disk \<longrightarrow> load_result disk primary backup v))) w"
proof -
  obtain rc n u v where r: "run_state (sunxi_fip_read_redundant primary backup (Some staging_view)
      CONFIG_FIP_STAGING_SIZE (Some (fip_mmc_read E D)) (Some 0) (Some 0)) w = (Some (rc, Some n, Some u), v)"
    and kept: "kept t v" and out: "read_outcome staging_view CONFIG_FIP_STAGING_SIZE rc n v"
    by (rule read_redundant_boot [OF assms])
  show ?thesis
  proof (cases "rc = 0")
    case False
    then show ?thesis
      using r kept copy_ok_found [OF _ _ r] by (auto simp: wp_def sunxi_fip_load_redundant_def kept_def)
  next
    case True
    then obtain k where fit: "fits_staging CONFIG_FIP_STAGING_SIZE n"
      and k: "fip_package (staging_view v) (unat n) k"
      using out by (auto simp: read_outcome_def)
    have n: "unat n \<le> unat CONFIG_FIP_STAGING_SIZE" using fit by (auto simp: fits_staging_def)
    let ?l = "toc_layout (staging_view v) k"
    have parse: "sunxi_fip_parse (Some (staging_view v)) n (Some zero_layout) = Some (0, Some ?l)"
      using sunxi_fip_parse_eq [of "staging_view v" n zero_layout] k fip_package_unique
        readable_mono [OF staging_readable n] by metis
    note safe = fip_package_layout_safe [OF k]
    have loaded: "load_result disk primary backup v'"
      if con: "mmc_reads E D disk" and c: "run_state (copy_parsed fip_copy_image ?l) v = (c, v')" for c v'
    proof -
      from boot.read_redundant_sound [OF con r [unfolded True]] obtain k' where
        u: "u = primary \<or> u = backup" and ag: "agree (unat n) (sector_bytes disk u) (staging_view v)"
        and k': "fip_package (sector_bytes disk u) (unat n) k'"
        unfolding medium_at_sector_bytes by blast
      have "readable (sector_bytes disk u) (unat n)" by (simp add: readable_def sector_bytes_def)
      note same = fip_package_agree [OF ag this k']
      then have l: "toc_layout (sector_bytes disk u) k' = ?l" using fip_package_unique [OF k] by metis
      then have "package_of disk u ?l" using k' n unfolding package_of_def by metis
      moreover have "package_loaded (sector_bytes disk u) ?l v'"
        using wp_runD [OF copy_parsed_package_loaded [OF safe n ag] c] by blast
      ultimately show ?thesis
        using u wp_runD [OF copy_parsed_records c] kept
        unfolding load_result_def kept_def by (metis (full_types))
    qed
    have "wp (copy_parsed fip_copy_image ?l) (\<lambda>c v'. c = 0 \<and> trace v' = trace v \<and> records_ok v' \<and>
        (mmc_reads E D disk \<longrightarrow> load_result disk primary backup v')) v"
    proof -
      have "wp (copy_parsed fip_copy_image ?l) (\<lambda>c v'. c = 0 \<and> trace v' = trace v) v"
        by (simp add: copy_parsed_def fip_copy_image_def wp_simps Let_def)
      moreover have "wp (copy_parsed fip_copy_image ?l) (\<lambda>c v'. mmc_reads E D disk \<longrightarrow> load_result disk primary backup v') v"
        unfolding wp_run using loaded by (metis surj_pair)
      ultimately show ?thesis
        using copy_parsed_records_ok [OF safe n, of v] kept by (simp add: wp_def kept_def)
    qed
    then show ?thesis
      using True r parse kept
      by (auto simp: wp_run sunxi_fip_load_redundant_def sunxi_fip_copy_images_def kept_def)
  qed
qed


text \<open>Patching the device tree keeps the loaded images.\<close>

lemma package_loaded_frame:
  assumes safe: "layout_safe sz l" and sz: "sz \<le> unat CONFIG_FIP_STAGING_SIZE"
    and load: "package_loaded b l w"
    and out: "\<And>a. a \<notin> region SUNXI_FIP_HW_CONFIG_BASE (unat SUNXI_FIP_HW_CONFIG_MAX_SIZE) \<Longrightarrow> mem v a = mem w a"
    and scp: "scp_source v = scp_source w" "scp_size v = scp_size w"
  shows "package_loaded b l v"
proof -
  have win: "window_size SUNXI_FIP_HW_CONFIG_BASE = Some (unat SUNXI_FIP_HW_CONFIG_MAX_SIZE)"
    "window_size SUNXI_FIP_BL31_BASE = Some (unat SUNXI_FIP_BL31_MAX_SIZE)"
    "window_size SUNXI_FIP_BL33_BASE = Some (unat SUNXI_FIP_BL33_MAX_SIZE)"
    by (simp_all add: window_size_def)
  have size: "unat (img_size (bl31 l)) \<le> unat SUNXI_FIP_BL31_MAX_SIZE"
    "unat (img_size (bl33 l)) \<le> unat SUNXI_FIP_BL33_MAX_SIZE"
    "unat (img_offset (scp_bl2 l)) + unat (img_size (scp_bl2 l)) \<le> unat CONFIG_FIP_STAGING_SIZE"
    using safe sz by (simp_all add: layout_safe_def word_le_nat_alt image_inside_def)
  have apart: "mem v (d + of_nat i) = mem w (d + of_nat i)"
    if "window_size d = Some m" "d \<noteq> SUNXI_FIP_HW_CONFIG_BASE" "d \<noteq> SUNXI_FIP_SCP_BL2_BASE" "i < m" for d m i
    using windows_apart(2) [OF win(1) _ that(1,2,3)] windows_apart(3) [OF that(1,3)]
      region_offset [OF that(4), of d] that(4) by (intro out) auto
  have staged: "mem v (scp_source w + of_nat i) = mem w (scp_source w + of_nat i)"
    if "i < unat (img_size (scp_bl2 l))" for i
  proof -
    have src: "scp_source w + of_nat i = CONFIG_BOOTPKG_BASE + of_nat (unat (img_offset (scp_bl2 l)) + i)"
      using load by (simp add: package_loaded_def add.assoc)
    have j: "unat (img_offset (scp_bl2 l)) + i < unat CONFIG_FIP_STAGING_SIZE" using that size(3) by linarith
    show ?thesis
      unfolding src using windows_apart(1) [OF win(1)] region_offset [OF j, of CONFIG_BOOTPKG_BASE] j
      by (intro out) auto
  qed
  have w: "image_at b (bl31 l) SUNXI_FIP_BL31_BASE (mem w)" "image_at b (bl33 l) SUNXI_FIP_BL33_BASE (mem w)"
    "image_at b (scp_bl2 l) (scp_source w) (mem w)"
    using load unfolding package_loaded_def by blast+
  have "image_at b (bl31 l) SUNXI_FIP_BL31_BASE (mem v)"
    using size(1) by (intro image_at_frame [OF w(1)] apart [OF win(2)]) auto
  moreover have "image_at b (bl33 l) SUNXI_FIP_BL33_BASE (mem v)"
    using size(2) by (intro image_at_frame [OF w(2)] apart [OF win(3)]) auto
  moreover have "image_at b (scp_bl2 l) (scp_source w) (mem v)"
    by (rule image_at_frame [OF w(3) staged])
  ultimately show ?thesis using load scp by (simp add: package_loaded_def)
qed

lemma load_result_frame:
  assumes "load_result disk primary backup w"
    and "\<And>a. a \<notin> region SUNXI_FIP_HW_CONFIG_BASE (unat SUNXI_FIP_HW_CONFIG_MAX_SIZE) \<Longrightarrow> mem v a = mem w a"
    and "scp_source v = scp_source w" "scp_size v = scp_size w"
    and "dtb_base v = 0 \<or> dtb_base v = dtb_base w \<and> dtb_size v = dtb_size w"
  shows "load_result disk primary backup v"
proof -
  obtain u l where "u = primary \<or> u = backup" and pkg: "package_of disk u l"
    and load: "package_loaded (sector_bytes disk u) l w"
    and dtb: "dtb_base w = 0 \<or> dtb_base w = SUNXI_FIP_HW_CONFIG_BASE \<and> dtb_size w = img_size (hw_config l)"
    using assms(1) by (auto simp: load_result_def)
  moreover obtain sz where "sz \<le> unat CONFIG_FIP_STAGING_SIZE" "layout_safe sz l"
    using package_of_safe [OF pkg] by blast
  then have "package_loaded (sector_bytes disk u) l v"
    using package_loaded_frame [OF _ _ load assms(2-4)] by blast
  ultimately show ?thesis
    using assms(5) unfolding load_result_def by (metis (full_types))
qed

text \<open>The device-tree record of a successful load names the HW_CONFIG window.\<close>

lemma load_result_dtb:
  assumes "load_result disk primary backup w" and "dtb_base w \<noteq> 0"
  shows "dtb_base w = SUNXI_FIP_HW_CONFIG_BASE"
    and "a \<notin> region SUNXI_FIP_HW_CONFIG_BASE (unat SUNXI_FIP_HW_CONFIG_MAX_SIZE) \<Longrightarrow>
      a \<notin> region (dtb_base w) (unat (dtb_size w))"
proof -
  obtain u l where pkg: "package_of disk u l" and dtb: "dtb_base w = SUNXI_FIP_HW_CONFIG_BASE"
    and sz: "dtb_size w = img_size (hw_config l)"
    using assms by (auto simp: load_result_def)
  have "unat (dtb_size w) \<le> unat SUNXI_FIP_HW_CONFIG_MAX_SIZE"
    using package_of_safe [OF pkg] sz by (auto simp: layout_safe_def word_le_nat_alt)
  then show "dtb_base w = SUNXI_FIP_HW_CONFIG_BASE"
    and "a \<notin> region SUNXI_FIP_HW_CONFIG_BASE (unat SUNXI_FIP_HW_CONFIG_MAX_SIZE) \<Longrightarrow>
      a \<notin> region (dtb_base w) (unat (dtb_size w))"
    using dtb region_mono by auto
qed


section \<open>Loading\<close>

lemma wp_option: "(p = None \<Longrightarrow> wp m Q w) \<Longrightarrow> (\<And>x. p = Some x \<Longrightarrow> wp (g x) Q w) \<Longrightarrow>
    wp (case p of None \<Rightarrow> m | Some x \<Rightarrow> g x) Q w"
  by (cases p) simp_all

text \<open>
  What is loaded when the driver and the device-tree library behave as documented: a package
  from one of the two sectors of the flash map.
\<close>

definition boot_loaded :: "env \<Rightarrow> sector_data \<Rightarrow> fdt_ops \<Rightarrow> (memory \<Rightarrow> u32 \<Rightarrow> int \<Rightarrow> string \<Rightarrow> u32) \<Rightarrow>
    (nat \<Rightarrow> u8) \<Rightarrow> boot0 \<Rightarrow> bool" where
  "boot_loaded E D F prop disk v \<longleftrightarrow> (mmc_reads E D disk \<longrightarrow> fdt_sets F prop \<longrightarrow>
     (\<exists>p b o1 o2. Call Toc1_start [1] p o1 \<in> set (trace v) \<and> Call Toc1_bak_start [1] b o2 \<in> set (trace v) \<and>
        load_result disk (word_of_int p) (word_of_int b) v))"

definition patched :: "fdt_ops \<Rightarrow> (nat \<Rightarrow> u32) \<Rightarrow> boot0 \<Rightarrow> boot0" where
  "patched F dp v = (if dtb_base v = 0 then v else
     let (r, m) = a733_hw_config_update_dram F (dtb_base v) (dtb_size v) (Some dp) MAX_DRAMPARA_SIZE (mem v) in
     if r \<noteq> 0 then v\<lparr>mem := m, dtb_base := 0, dtb_size := 0\<rparr> else v\<lparr>mem := m\<rparr>)"

lemma boot_loaded_patched:
  assumes "boot_loaded E D F prop disk v"
  shows "boot_loaded E D F prop disk (patched F dp v)"
proof -
  have "load_result disk p b (patched F dp v)" if F: "fdt_sets F prop" and v: "load_result disk p b v" for p b
  proof (cases "dtb_base v = 0")
    case False
    have "snd (a733_hw_config_update_dram F (dtb_base v) (dtb_size v) (Some dp) MAX_DRAMPARA_SIZE (mem v)) a = mem v a"
      if "a \<notin> region SUNXI_FIP_HW_CONFIG_BASE (unat SUNXI_FIP_HW_CONFIG_MAX_SIZE)" for a
      using update_dram_confined [OF F load_result_dtb(2) [OF v False that]] .
    then show ?thesis
      using False by (intro load_result_frame [OF v]) (auto simp: patched_def split_beta Let_def)
  qed (use v in \<open>simp add: patched_def\<close>)
  moreover have "trace (patched F dp v) = trace v" by (simp add: patched_def split_beta Let_def)
  ultimately show ?thesis using assms unfolding boot_loaded_def by metis
qed

lemma load_redundant_boot_loaded:
  assumes "dtb_base v = 0" and "\<exists>o1. Call Toc1_start [1] p o1 \<in> set (trace v)"
    and "\<exists>o2. Call Toc1_bak_start [1] b o2 \<in> set (trace v)"
  shows "wp (sunxi_fip_load_redundant (word_of_int p) (word_of_int b) (Some staging_view)
      CONFIG_FIP_STAGING_SIZE (Some (fip_mmc_read E D)) (Some fip_copy_image) (Some 0) (Some 0))
    (\<lambda>r v'. \<exists>rc n u. r = Some (rc, Some n, Some u) \<and> extends (trace v) (trace v') \<and>
       (rc = -1 \<and> \<not> (mmc_reads E D disk \<and> copy_ok E disk (word_of_int b)) \<or>
        rc = 0 \<and> boot_loaded E D F prop disk v' \<and> records_ok v')) v"
proof (rule wp_mono [OF load_redundant_boot [of "trace v" v "word_of_int p" "word_of_int b" E D disk]])
  show "kept (trace v) v" using assms by (simp add: kept_def)
  fix r v'
  assume "\<exists>rc n u. r = Some (rc, Some n, Some u) \<and> extends (trace v) (trace v') \<and>
     (rc = -1 \<and> \<not> (mmc_reads E D disk \<and> copy_ok E disk (word_of_int b)) \<or>
      rc = 0 \<and> records_ok v' \<and> (mmc_reads E D disk \<longrightarrow> load_result disk (word_of_int p) (word_of_int b) v'))"
  then show "\<exists>rc n u. r = Some (rc, Some n, Some u) \<and> extends (trace v) (trace v') \<and>
     (rc = -1 \<and> \<not> (mmc_reads E D disk \<and> copy_ok E disk (word_of_int b)) \<or>
      rc = 0 \<and> boot_loaded E D F prop disk v' \<and> records_ok v')"
    using assms extends_mem [of "trace v" "trace v'"] unfolding boot_loaded_def by metis
qed

text \<open>The storage is up and the backup copy of the flash map is a valid, readable package.\<close>

definition backup_ok :: "env \<Rightarrow> (nat \<Rightarrow> u8) \<Rightarrow> bool" where
  "backup_ok E disk \<longleftrightarrow> (\<forall>t. fst (ext_call E t Sunxi_mmc_init_ext []) = 0) \<and>
     (\<forall>t. copy_ok E disk (word_of_int (fst (ext_call E t Toc1_bak_start [1]))))"

lemma load_fip_images_wp:
  assumes "dtb_base w = 0"
  shows "wp (load_fip_images E D F dp) (\<lambda>r v. \<exists>rc ub mb. r = Some (rc, ub, mb) \<and> extends (trace w) (trace v) \<and>
      (rc = -1 \<and> \<not> (mmc_reads E D disk \<and> backup_ok E disk) \<or>
       rc = 0 \<and> ub = CONFIG_UBOOT_BASE \<and> mb = CONFIG_MONITOR_BASE \<and>
         boot_loaded E D F prop disk v \<and> records_ok v)) w"
  unfolding load_fip_images_def wp_bind wp_call Let_def
  apply (rule wp_ifI)
   apply (simp add: wp_simps backup_ok_def extends_Cons, blast)
  unfolding wp_bind wp_call Let_def
  apply (rule wp_mono [OF load_redundant_boot_loaded [of _ _ _ E D disk F "prop"]])
     apply (simp add: assms)
    apply force
   apply force
  apply (elim exE conjE)
  subgoal premises prems for r v rc n u
  proof -
    have "extends (trace w) (trace v)"
      by (rule extends_trans [OF _ prems(3)]) (simp add: extends_Cons)
    then show ?thesis
      using prems boot_loaded_patched [of E D F "prop" disk v dp]
      by (auto simp: wp_simps split_beta Let_def patched_def backup_ok_def records_ok_def)
  qed
  done



text \<open>A card that holds the sample package at sector 24576, and a board around it.\<close>

definition sample_disk :: "nat \<Rightarrow> u8" where
  "sample_disk i = (if 24576 * 512 \<le> i \<and> i < 24576 * 512 + 5120 then the (sample_fip (i - 24576 * 512)) else 0)"

definition sample_env :: env where
  "sample_env = \<lparr>dev_read = ram_dev, ext_call = (\<lambda>_ f _. (case f of Toc1_start \<Rightarrow> 32800 | Toc1_bak_start \<Rightarrow> 24576 | _ \<Rightarrow> 0, 0))\<rparr>"

definition sample_data :: sector_data where
  "sample_data = (\<lambda>_ s _ i. sample_disk (unat s * 512 + i))"

definition boot_state :: boot0 where
  "boot_state = \<lparr>trace = [], mem = (\<lambda>_. 0), a7s_axp8191_ready = False, mmc_devices = (\<lambda>_. 0),
     scp_source = 0, scp_size = 0, dtb_base = 0, dtb_size = 0\<rparr>"

definition inert_fdt :: fdt_ops where
  "inert_fdt = \<lparr>fdt_check_header = (\<lambda>_ _. -1), fdt_totalsize = (\<lambda>_ _. 0), fdt_path_offset = (\<lambda>_ _ _. -1),
     fdt_getprop = (\<lambda>_ _ _ _. None), fdt_setprop_inplace_u32 = (\<lambda>m _ _ _ _. (-1, m))\<rparr>"

lemma sample_reads: "mmc_reads sample_env sample_data sample_disk"
  by (simp add: mmc_reads_def sample_data_def)

lemma inert_fdt_sets: "fdt_sets inert_fdt (\<lambda>_ _ _ _. 0)"
  by (simp add: fdt_sets_def inert_fdt_def)

lemma sample_toc_end:
  assumes "fip_package sample_fip 5120 k"
  shows "k = 3" and "toc_off sample_fip 3 = 5120"
proof -
  have null: "toc_uuid sample_fip i = null_uuid \<longleftrightarrow> uuid_is_null sample_fip (toc_pos i) = Some True" if "i \<le> 3" for i
    using that unfolding toc_uuid_def null_uuid_def
    by (subst uuid_is_null_readable) (auto intro!: readable_mono [OF sample_readable])
  have "toc_uuid sample_fip 0 \<noteq> null_uuid" "toc_uuid sample_fip 1 \<noteq> null_uuid"
    "toc_uuid sample_fip 2 \<noteq> null_uuid" "toc_uuid sample_fip 3 = null_uuid"
    by (simp_all add: null sample_uuid)
  moreover have "toc_uuid sample_fip k = null_uuid" and "\<forall>i<k. toc_uuid sample_fip i \<noteq> null_uuid"
    using assms by (simp_all add: fip_package_def toc_wf_def toc_prefix_ok_def)
  ultimately have "\<not> 3 < k" "k \<noteq> 0" "k \<noteq> 1" "k \<noteq> 2" by metis+
  then show "k = 3" by linarith
  show "toc_off sample_fip 3 = 5120" by (simp add: toc_off_def le64_def sample_le64)
qed

lemma sample_backup_ok: "backup_ok sample_env sample_disk"
proof -
  have ag: "agree 5120 sample_fip (sector_bytes sample_disk 24576)"
    using sample_readable by (auto simp: agree_def sector_bytes_def sample_disk_def dest: readableD)
  obtain k where k: "fip_package sample_fip (unat (5120 :: u32)) k"
    using sunxi_fip_parse_eq [of sample_fip 5120 zero_layout] sample_readable sample_parse by auto
  have pkg: "fip_package (sector_bytes sample_disk 24576) (unat (5120 :: u32)) k"
    using fip_package_agree(1) [OF _ _ k] ag sample_readable by simp
  have "toc_off (sector_bytes sample_disk 24576) k = 5120"
    using sample_toc_end [of k] k agree_toc(2) [OF ag, of 3] by simp
  then show ?thesis
    using pkg unfolding backup_ok_def copy_ok_def
    by (auto simp: sample_env_def fits_staging_def intro!: exI [of _ "5120 :: u32"] exI [of _ k])
qed



section \<open>The header\<close>

text \<open>
  The first word of the image is an unconditional ARM branch over its header: for a header
  of a whole number of words the condition and opcode are those of \<open>B\<close>, and the branch target,
  8 bytes plus four times the offset field, is the first byte after the header.
\<close>
theorem JUMP_INSTRUCTION_target:
  assumes "4 dvd unat head_size" and "8 \<le> unat head_size" and "unat head_size < 0x2000000"
  shows "drop_bit 24 (JUMP_INSTRUCTION head_size) = 0xEA \<and>
    8 + 4 * unat (JUMP_INSTRUCTION head_size AND 0xffffff) = unat head_size"
proof -
  let ?i = "(head_size + 4 - 1) div 4 - 2"
  obtain k where k: "unat head_size = 4 * k" using assms(1) by (auto simp: dvd_def)
  have "head_size + 4 - 1 = head_size + 3" by simp
  then have "unat (head_size + 4 - 1) = unat head_size + 3" using assms(3) by (simp add: unat_word_ariths)
  then have d: "unat ((head_size + 4 - 1) div 4) = k" using k by (simp add: unat_div)
  then have "2 \<le> (head_size + 4 - 1) div 4" using assms(2) k by (simp add: word_le_nat_alt)
  then have i: "unat ?i = k - 2" using d by (simp add: unat_sub)
  then have small: "unat ?i < 2 ^ 24" using assms(3) k by simp
  define i0 where "i0 = ?i"
  have hi: "n < 24" if "bit i0 n" for n
  proof (rule ccontr)
    assume "\<not> n < 24"
    then have "unat i0 < 2 ^ n" using small unfolding i0_def
      by (meson less_le_trans not_less one_le_numeral power_increasing)
    then have "\<not> bit (unat i0) n" by (simp add: bit_iff_odd)
    then show False using that by (auto simp: bit_unsigned_iff)
  qed
  have hi0: "drop_bit 24 i0 = 0" by (rule bit_word_eqI) (auto simp: bit_simps dest: hi)
  have m: "(0xffffff :: u32) = mask 24" by (simp add: mask_eq_exp_minus_1)
  have lo0: "i0 AND 0xffffff = i0" unfolding m by (rule bit_word_eqI) (auto simp: bit_simps dest: hi)
  have "JUMP_INSTRUCTION head_size = i0 OR 0xEA000000" by (simp add: JUMP_INSTRUCTION_def i0_def)
  moreover have "drop_bit 24 (i0 OR 0xEA000000) = 0xEA" using hi0 by simp
  moreover have "(i0 OR 0xEA000000) AND 0xffffff = i0" using lo0 by (simp add: bit.conj_disj_distrib2)
  moreover have "unat i0 = k - 2" using i by (simp add: i0_def)
  ultimately show ?thesis using k assms(2) by simp
qed

theorem JUMP_INSTRUCTION_target_witness:
  "drop_bit 24 (jump_instruction (BT0_head 1664)) = 0xEA \<and>
   8 + 4 * unat (jump_instruction (BT0_head 1664) AND 0xffffff) = 1664"
  using JUMP_INSTRUCTION_target [of 1664] by (simp add: BT0_head_def dvd_def)

end
