(* ===== verification/Handoff_Correct.thy ===== *)
theory Handoff_Correct
  imports Boot0_Correct
begin

text \<open>
  The handoff to the next stage: cache maintenance over exactly the loaded ranges, what is in
  memory when the handoff code is entered, and the error path to FEL mode.
\<close>

unbundle bit_operations_syntax

section \<open>Cache maintenance\<close>

lemma unat_line: "unat (b AND NOT 31 :: u32) = unat b div 32 * 32"
proof -
  have "NOT (31 :: u32) = NOT (mask 5)" by (simp add: mask_eq_exp_minus_1)
  then have "b AND NOT 31 = push_bit 5 (drop_bit 5 b)" by (auto simp: bit_eq_iff bit_simps)
  moreover have "unat b div 32 * 32 < 4294967296"
    using unat_u32_lt [of b] by (meson le_less_trans div_times_less_eq_dividend)
  ultimately show ?thesis
    by (simp add: unsigned_push_bit_eq unsigned_drop_bit_eq take_bit_eq_mod push_bit_nat_def drop_bit_nat_def)
qed

lemma unat_line_mask [simp]: "unat (b AND - 32 :: u32) = unat b div 32 * 32"
  using unat_line [of b] by simp

definition cleaned :: "history \<Rightarrow> u32 set" where
  "cleaned es = {a. \<exists>r v. Call Dcache_clean [a] r v \<in> set es}"

lemma cleaned_simps [simp]:
  "cleaned [] = {}" "cleaned (es @ fs) = cleaned es \<union> cleaned fs"
  "cleaned (Call Dcache_clean [a] r v # es) = insert a (cleaned es)"
  by (auto simp: cleaned_def)

definition only_cleans :: "history \<Rightarrow> bool" where
  "only_cleans es \<longleftrightarrow> (\<forall>e\<in>set es. \<exists>a r v. e = Call Dcache_clean [a] r v)"

lemma clean_dcache_loop_wp:
  assumes "unat end_addr + 32 \<le> 2 ^ 32" and "unat end_addr + 32 \<le> unat addr + 32 * fuel" and "0 < fuel"
  shows "wp (clean_dcache_loop E fuel addr end_addr) (\<lambda>r v. r = Some () \<and>
    (\<exists>es. v = w\<lparr>trace := es @ trace w\<rparr> \<and> only_cleans es \<and>
       cleaned es = {a. unat a < unat end_addr \<and> (\<exists>i. unat a = unat addr + 32 * i)})) w"
  using assms
proof (induction fuel arbitrary: addr w)
  case (Suc fuel)
  show ?case
  proof (cases "addr < end_addr")
    case False
    then have "{a. unat a < unat end_addr \<and> (\<exists>i. unat a = unat addr + 32 * i)} = {}"
      by (auto simp: word_less_nat_alt)
    then show ?thesis using False by (auto simp: wp_simps only_cleans_def intro!: exI [of _ "[]"])
  next
    case True
    let ?c = "ext_call E (trace w) Dcache_clean [addr]"
    let ?w = "w\<lparr>trace := Call Dcache_clean [addr] (fst ?c) (snd ?c) # trace w\<rparr>"
    have less: "unat addr < unat end_addr" using True by (simp add: word_less_nat_alt)
    then have next_addr: "unat (addr + 32) = unat addr + 32"
      using Suc.prems(1) by (simp add: unat_word_ariths)
    have lines: "insert addr {a. unat a < unat end_addr \<and> (\<exists>i. unat a = unat (addr + 32) + 32 * i)} =
        {a. unat a < unat end_addr \<and> (\<exists>i. unat a = unat addr + 32 * i)}" (is "?l = ?r")
    proof (intro set_eqI iffI)
      fix a
      show "a \<in> ?r" if "a \<in> ?l"
        using that less next_addr by (auto intro: exI [of _ 0] exI [of _ "Suc _"])
      assume "a \<in> ?r"
      then obtain i where a: "unat a < unat end_addr" "unat a = unat addr + 32 * i" by auto
      then show "a \<in> ?l" using next_addr by (cases i) (auto simp: word_unat_eq_iff)
    qed
    have "wp (clean_dcache_loop E fuel (addr + 32) end_addr) (\<lambda>r v. r = Some () \<and>
       (\<exists>es. v = ?w\<lparr>trace := es @ trace ?w\<rparr> \<and> only_cleans es \<and>
         cleaned es = {a. unat a < unat end_addr \<and> (\<exists>i. unat a = unat (addr + 32) + 32 * i)})) ?w"
      using Suc.prems less next_addr by (intro Suc.IH) simp_all
    then have "wp (clean_dcache_loop E fuel (addr + 32) end_addr) (\<lambda>r v. r = Some () \<and>
       (\<exists>es. v = w\<lparr>trace := es @ trace w\<rparr> \<and> only_cleans es \<and>
         cleaned es = {a. unat a < unat end_addr \<and> (\<exists>i. unat a = unat addr + 32 * i)})) ?w"
    proof (rule wp_mono)
      fix r v
      assume *: "r = Some () \<and> (\<exists>es. v = ?w\<lparr>trace := es @ trace ?w\<rparr> \<and> only_cleans es \<and>
         cleaned es = {a. unat a < unat end_addr \<and> (\<exists>i. unat a = unat (addr + 32) + 32 * i)})"
      then obtain es where "r = Some ()" "v = w\<lparr>trace := (es @ [Call Dcache_clean [addr] (fst ?c) (snd ?c)]) @ trace w\<rparr>"
        "only_cleans es" and c: "cleaned es = {a. unat a < unat end_addr \<and> (\<exists>i. unat a = unat (addr + 32) + 32 * i)}"
        by auto
      moreover have "only_cleans (es @ [Call Dcache_clean [addr] (fst ?c) (snd ?c)])"
        using \<open>only_cleans es\<close> by (auto simp: only_cleans_def)
      moreover have "cleaned (es @ [Call Dcache_clean [addr] (fst ?c) (snd ?c)]) =
          {a. unat a < unat end_addr \<and> (\<exists>i. unat a = unat addr + 32 * i)}"
        using lines c by simp
      ultimately show "r = Some () \<and> (\<exists>es. v = w\<lparr>trace := es @ trace w\<rparr> \<and> only_cleans es \<and>
         cleaned es = {a. unat a < unat end_addr \<and> (\<exists>i. unat a = unat addr + 32 * i)})" by blast
    qed
    then show ?thesis using True by (simp add: wp_simps Let_def)
  qed
qed simp


lemma clean_dcache_range_wp:
  assumes room: "unat start + unat n + 32 \<le> 2 ^ 32"
  shows "wp (clean_dcache_range E start n) (\<lambda>r v. r = Some () \<and>
    (\<exists>es. v = w\<lparr>trace := es @ trace w\<rparr> \<and> only_cleans es \<and>
       cleaned es = {a. unat a < unat start + unat n \<and> (\<exists>i. unat a = unat (start AND NOT 31) + 32 * i)})) w"
proof -
  have end_addr: "unat (start + n) = unat start + unat n"
    using room by (simp add: unat_word_ariths)
  have "unat start \<le> unat (start AND NOT 31) + 31" unfolding unat_line by presburger
  then show ?thesis
    using clean_dcache_loop_wp [of "start + n" "start AND NOT 31" "unat n + 33" E w] room
    unfolding clean_dcache_range_def Let_def end_addr by simp
qed

text \<open>The cache lines that hold a byte of a range.\<close>

definition lines :: "u32 \<Rightarrow> u32 \<Rightarrow> u32 set" where
  "lines start n = (\<lambda>b. b AND NOT 31) ` region start (unat n)"

lemma clean_dcache_range_lines:
  assumes room: "unat start + unat n + 32 \<le> 2 ^ 32" and n: "n \<noteq> 0"
  shows "wp (clean_dcache_range E start n) (\<lambda>r v. r = Some () \<and>
    (\<exists>es. v = w\<lparr>trace := es @ trace w\<rparr> \<and> only_cleans es \<and> cleaned es = lines start n)) w"
proof -
  have "{a. unat a < unat start + unat n \<and> (\<exists>i. unat a = unat (start AND NOT 31) + 32 * i)} =
      (\<lambda>b. b AND NOT 31) ` region start (unat n)" (is "?l = ?r")
  proof (intro set_eqI iffI)
    fix a
    assume "a \<in> ?l"
    then obtain i where a: "unat a < unat start + unat n" "unat a = (unat start div 32 + i) * 32"
      by (auto simp: unat_line algebra_simps)
    have line: "a AND NOT 31 = a" using a(2) by (simp add: word_unat_eq_iff unat_line)
    show "a \<in> ?r"
    proof (cases "unat start \<le> unat a")
      case True
      then have "a \<in> region start (unat n)"
        using a(1) by (simp add: region_def unat_sub word_le_nat_alt)
      then show ?thesis using line by (intro image_eqI [of _ _ a]) auto
    next
      case False
      then have "i = 0" using a(2) by presburger
      then have "a = start AND NOT 31" using a(2) by (simp add: word_unat_eq_iff unat_line)
      moreover have "start \<in> region start (unat n)" using n by (simp add: region_def unat_gt_0)
      ultimately show ?thesis by blast
    qed
  next
    fix a
    assume "a \<in> ?r"
    then obtain b where a: "a = b AND NOT 31" and b: "unat (b - start) < unat n"
      by (auto simp: region_def)
    have "unat b = unat start + unat (b - start)"
      using room b unat_word_ariths(1) [of start "b - start"] by simp
    then have less: "unat b < unat start + unat n" and ge: "unat start div 32 \<le> unat b div 32"
      using b by (auto intro: div_le_mono)
    have "unat a = unat (start AND NOT 31) + 32 * (unat b div 32 - unat start div 32)"
      using ge by (simp add: a unat_line algebra_simps)
    moreover have "unat a \<le> unat b" by (simp add: a unat_line)
    ultimately show "a \<in> ?l" using less by auto
  qed
  then show ?thesis
    using clean_dcache_range_wp [OF room, of E w] unfolding lines_def by simp
qed


text \<open>
  C13: the cache maintenance before the handoff covers the range it is given. For a non-empty
  range that ends a cache line below the top of the address space, \<open>clean_dcache_range\<close>
  terminates, changes nothing but the data cache, and cleans exactly the 32-byte lines that
  contain a byte of the range.
\<close>
theorem clean_dcache_range_exact:
  assumes "unat start + unat n + 32 \<le> 2 ^ 32" and "n \<noteq> 0"
  shows "\<exists>es. run_state (clean_dcache_range E start n) w = (Some (), w\<lparr>trace := es @ trace w\<rparr>) \<and>
    only_cleans es \<and> cleaned es = (\<lambda>b. b AND NOT 31) ` region start (unat n)"
  using clean_dcache_range_lines [OF assms, of E w] unfolding wp_run lines_def by blast

theorem clean_dcache_range_exact_witness:
  "\<exists>es. run_state (clean_dcache_range sample_env 0x48000010 0x40) boot_state =
     (Some (), boot_state\<lparr>trace := es @ trace boot_state\<rparr>) \<and> 0x48000040 \<in> cleaned es"
proof -
  obtain es where es: "run_state (clean_dcache_range sample_env 0x48000010 0x40) boot_state =
     (Some (), boot_state\<lparr>trace := es @ trace boot_state\<rparr>)"
    "cleaned es = (\<lambda>b. b AND NOT 31) ` region 0x48000010 (unat (0x40 :: u32))"
    using clean_dcache_range_exact [of "0x48000010" "0x40" sample_env boot_state] by auto
  have "0x48000040 \<in> cleaned es"
    unfolding es(2) by (rule image_eqI [of _ _ "0x48000048"]) (simp_all add: region_def)
  then show ?thesis using es(1) by blast
qed


section \<open>The handoff\<close>

lemma only_cleans_append [simp]: "only_cleans (es @ fs) \<longleftrightarrow> only_cleans es \<and> only_cleans fs"
  by (auto simp: only_cleans_def)

text \<open>One cleaning step of a sequence, after the lines \<open>L\<close>.\<close>

definition cleaned_to :: "boot0 \<Rightarrow> u32 set \<Rightarrow> boot0 \<Rightarrow> bool" where
  "cleaned_to w L v \<longleftrightarrow> (\<exists>es. v = w\<lparr>trace := es @ trace w\<rparr> \<and> only_cleans es \<and> cleaned es = L)"

lemma cleaned_to_step:
  assumes "cleaned_to w L v" and "unat start + unat n + 32 \<le> 2 ^ 32" and "n \<noteq> 0"
  shows "wp (clean_dcache_range E start n) (\<lambda>r v. r = Some () \<and> cleaned_to w (L \<union> lines start n) v) v"
proof -
  obtain es where es: "v = w\<lparr>trace := es @ trace w\<rparr>" "only_cleans es" "cleaned es = L"
    using assms(1) by (auto simp: cleaned_to_def)
  show ?thesis
  proof (rule wp_mono [OF clean_dcache_range_lines [OF assms(2,3), of E v]])
    fix r u
    assume "r = Some () \<and> (\<exists>fs. u = v\<lparr>trace := fs @ trace v\<rparr> \<and> only_cleans fs \<and> cleaned fs = lines start n)"
    then obtain fs where "r = Some ()" "u = v\<lparr>trace := fs @ trace v\<rparr>" "only_cleans fs" "cleaned fs = lines start n"
      by blast
    then show "r = Some () \<and> cleaned_to w (L \<union> lines start n) u"
      unfolding cleaned_to_def using es by (auto intro!: exI [of _ "fs @ es"])
  qed
qed

text \<open>The ranges cleaned before the handoff.\<close>

definition handoff_lines :: "boot0 \<Rightarrow> u32 \<Rightarrow> u32 set" where
  "handoff_lines w n = lines CONFIG_FIP_HANDOFF_BASE n \<union> lines CONFIG_MONITOR_BASE SUNXI_FIP_BL31_MAX_SIZE \<union>
     lines CONFIG_UBOOT_BASE SUNXI_FIP_BL33_MAX_SIZE \<union> lines (scp_source w) (scp_size w) \<union>
     (if dtb_base w = 0 then {} else lines (dtb_base w) (dtb_size w))"

lemma run_fip_handoff_wp:
  assumes rec: "records_ok w" and n_def: "n = (he AND NOT 1) - (hs AND NOT 1)"
  shows "wp (run_fip_handoff E hs he) (\<lambda>r v. r = Some (-1) \<and>
     (if n = 0 \<or> n > CONFIG_FIP_HANDOFF_SIZE then v = w
      else \<exists>es r1 o1 r2 o2. only_cleans es \<and> cleaned es = handoff_lines w n \<and>
        v = w\<lparr>mem := memcpy CONFIG_FIP_HANDOFF_BASE (hs AND NOT 1) n (mem w),
              trace := Call Fip_handoff [scp_source w, scp_size w, dtb_base w] r1 o1 #
                Call Icache_invalidate [] r2 o2 # es @ trace w\<rparr>)) w"
proof (cases "n = 0 \<or> n > CONFIG_FIP_HANDOFF_SIZE")
  case True
  then show ?thesis unfolding run_fip_handoff_def n_def [symmetric] Let_def by (auto simp: wp_simps)
next
  case False
  then have n: "n \<noteq> 0" "unat n \<le> unat CONFIG_FIP_HANDOFF_SIZE" by (auto simp: word_less_nat_alt)
  let ?w = "w\<lparr>mem := memcpy CONFIG_FIP_HANDOFF_BASE (hs AND NOT 1) n (mem w)\<rparr>"
  have start: "cleaned_to ?w {} ?w" by (simp add: cleaned_to_def only_cleans_def exI [of _ "[]"])
  have scp: "scp_source w \<noteq> 0" "scp_size w \<noteq> 0" "unat (scp_source w) + unat (scp_size w) + 32 \<le> 2 ^ 32"
    using rec by (auto simp: records_ok_def)
  have dtb: "dtb_size w \<noteq> 0" "unat (dtb_base w) + unat (dtb_size w) + 32 \<le> 2 ^ 32" if "dtb_base w \<noteq> 0"
    using rec that by (auto simp: records_ok_def)
  show ?thesis
    unfolding run_fip_handoff_def n_def [symmetric] Let_def
    apply (rule wp_bindI)
    apply (simp only: wp_get)
    apply (rule wp_ifI)
     apply (use False scp in simp)
    apply (rule wp_bindI)
    apply (simp only: wp_update)
    apply (rule wp_bindI, rule wp_mono [OF cleaned_to_step [OF start]])
      apply (use n in simp, use n in simp)
    apply (elim conjE, rule wp_bindI, rule wp_mono [OF cleaned_to_step], assumption, simp, simp)
    apply (elim conjE, rule wp_bindI, rule wp_mono [OF cleaned_to_step], assumption, simp, simp)
    apply (elim conjE, rule wp_bindI, rule wp_mono [OF cleaned_to_step], assumption, use scp in simp, use scp in simp)
    apply (elim conjE, rule wp_bindI)
    apply (rule wp_mono [where Q = "\<lambda>r v. r = Some () \<and> cleaned_to ?w (handoff_lines w n) v"])
     apply (rule wp_ifI)
      apply (rule wp_mono [OF cleaned_to_step], assumption)
        apply (use dtb in simp, use dtb in simp)
      apply (simp add: handoff_lines_def)
     apply (simp add: wp_simps handoff_lines_def)
    apply (auto simp: wp_simps invalidate_instruction_cache_def cleaned_to_def Let_def False)
    apply blast
    done
qed

end
