(* ===== verification/Boot_Main.thy ===== *)
theory Boot_Main
  imports Handoff_Correct
begin

text \<open>
  The main program of boot0 end to end: the bring-up hands nothing over and touches no record,
  the handoff code is entered only with a complete boot set of a valid package in memory, and
  every path that comes back ends in FEL mode with the buses on the 24 MHz oscillator.
\<close>

unbundle bit_operations_syntax

section \<open>The bring-up\<close>

text \<open>A computation that makes no handoff and keeps the records of the loaded images.\<close>

definition quiet_step :: "boot0 \<Rightarrow> boot0 \<Rightarrow> bool" where
  "quiet_step w v \<longleftrightarrow> extends (trace w) (trace v) \<and> scp_source v = scp_source w \<and>
     scp_size v = scp_size w \<and> dtb_base v = dtb_base w \<and> dtb_size v = dtb_size w"

definition quiet :: "(boot0, 'b) state \<Rightarrow> bool" where
  "quiet m \<longleftrightarrow> (\<forall>w. wp m (\<lambda>_. quiet_step w) w)"

named_theorems quiet_intros \<open>computations without a handoff\<close>

lemma quiet_step_trans: "quiet_step w v \<Longrightarrow> quiet_step v u \<Longrightarrow> quiet_step w u"
  by (auto simp: quiet_step_def intro: extends_trans)

lemma quietD: "quiet m \<Longrightarrow> wp m (\<lambda>_. quiet_step w) w"
  by (simp add: quiet_def)

lemma quiet_bind [quiet_intros]: "quiet m \<Longrightarrow> (\<And>x. quiet (f x)) \<Longrightarrow> quiet (m \<bind> f)"
  unfolding quiet_def by (simp add: wp_def split_beta) (blast intro: quiet_step_trans)

lemma quiet_basic [quiet_intros]:
  "quiet (ret x)" "quiet State_Monad.get" "quiet (readl E a)" "quiet (writel v a)"
  "quiet (udelay n)" "quiet (mdelay n)"
  by (simp_all add: quiet_def quiet_step_def wp_simps Let_def extends_Cons)

lemma quiet_call [quiet_intros]:
  "f \<noteq> Fip_handoff \<Longrightarrow> quiet (call E f xs)" "f \<noteq> Fip_handoff \<Longrightarrow> quiet (call_out E f xs)"
  by (simp_all add: quiet_def quiet_step_def wp_simps Let_def extends_Cons)

lemma quiet_ready [quiet_intros]: "quiet (State_Monad.update (\<lambda>w. w\<lparr>a7s_axp8191_ready := b\<rparr>))"
  by (simp add: quiet_def quiet_step_def wp_simps)

lemma quiet_cases [quiet_intros]:
  "quiet m \<Longrightarrow> quiet n \<Longrightarrow> quiet (if c then m else n)"
  "(\<And>x. quiet (g x)) \<Longrightarrow> quiet (Let a g)"
  "(\<And>a b. quiet (h a b)) \<Longrightarrow> quiet (case p of (a, b) \<Rightarrow> h a b)"
  "quiet m \<Longrightarrow> (\<And>x. quiet (k x)) \<Longrightarrow> quiet (case q of None \<Rightarrow> m | Some x \<Rightarrow> k x)"
  by (simp, simp, cases p, simp, cases q, simp_all)

lemma quiet_uart [quiet_intros]: "quiet (a7s_early_uart_init E)" "quiet (a7s_early_uart_puts E s)"
proof -
  show "quiet (a7s_early_uart_init E)"
    unfolding a7s_early_uart_init_def a7s_gpio_set_cfg_def a7s_gpio_set_pull_def a7s_gpio_set_drv_def
      a7s_uart0_clock_init_def by (intro quiet_intros)
  have wait: "quiet (a7s_early_uart_wait E n)" for n
    by (induction n) (auto intro!: quiet_intros)
  have "quiet (a7s_early_uart_puts_loop E s p)" for p
    by (induction s arbitrary: p) (auto simp: a7s_early_uart_putc_def intro!: quiet_intros wait)
  then show "quiet (a7s_early_uart_puts E s)" by (simp add: a7s_early_uart_puts_def)
qed

lemma quiet_gpio [quiet_intros]: "quiet (boot_set_gpio E gl n s)"
proof -
  have "quiet (a7s_boot_set_gpio_loop E gs b)" for gs b
    by (induction gs)
      (auto simp: a7s_boot_set_one_gpio_def set_field_def Let_def intro!: quiet_intros)
  then show ?thesis
    unfolding boot_set_gpio_def a7s_boot_set_gpio_v3_def by (intro quiet_intros)
qed

lemma quiet_pmic [quiet_intros]:
  "quiet (pmic_bus_init E a b)" "quiet (pmic_bus_read E a reg)" "quiet (pmic_bus_write E a reg v)"
  "quiet (a7s_axp8191_update_bits E reg m v)"
  unfolding a7s_axp8191_update_bits_def pmic_bus_init_def pmic_bus_read_def pmic_bus_write_def
  by (intro quiet_intros; simp)+

lemma quiet_board_init [quiet_intros]: "quiet (sunxi_board_init E)"
proof -
  have init: "quiet (a7s_axp8191_init E)"
    unfolding a7s_axp8191_init_def axp8191_ext_config_def axp8191_restore_page_def by (intro quiet_intros)
  show ?thesis
    unfolding sunxi_board_init_def a7s_axp8191_configure_emmc_io_def a7s_axp8191_set_rail_def
      a7s_axp8191_set_npu_rail_def a7s_axp8191_enable_sd_power_def a7s_pio_emmc_withstand_auto_def
    by (intro quiet_intros init)
qed

lemma quiet_pll [quiet_intros]: "quiet (a7s_pll_program E c)" "quiet (a7s_pll_is_running E c b)"
proof -
  have "quiet (a7s_pll_wait_loop E reg n k)" for reg n k
    by (induction n arbitrary: k) (auto intro!: quiet_intros)
  then have wait: "quiet (a7s_pll_wait_stable E reg)" for reg
    unfolding a7s_pll_wait_stable_def by (intro quiet_intros)
  show running: "quiet (a7s_pll_is_running E c b)" for b
    unfolding a7s_pll_is_running_def Let_def by (intro quiet_intros wait)
  show "quiet (a7s_pll_program E c)"
    unfolding a7s_pll_program_def Let_def by (intro quiet_intros wait running)
qed

lemma quiet_bus [quiet_intros]: "quiet (a7s_bus_use_sys24 E)" "quiet (a7s_bus_use_nominal_rates E)"
  unfolding a7s_bus_use_sys24_def a7s_bus_switch_to_sys24_def a7s_bus_use_nominal_rates_def a7s_bus_switch_up_def
  by (intro quiet_intros)+

lemma quiet_clock_init [quiet_intros]: "quiet (a7s_clock_init E)"
proof -
  have "quiet (a7s_read_dcxo_loop E n)" for n
    by (induction n) (auto simp: Let_def intro!: quiet_intros)
  then have dcxo: "quiet (a7s_read_dcxo_rate E)"
    unfolding a7s_read_dcxo_rate_def by (intro quiet_intros)
  show ?thesis
    unfolding a7s_clock_init_def a7s_ref_pll_init_def a7s_peri_pll_init_def a7s_peri_distribution_enable_def
    by (intro quiet_intros dcxo)
qed

lemma quiet_bring_up: "quiet (boot0_bring_up E H)"
  unfolding boot0_bring_up_def print_commit_log_def by (intro quiet_intros; simp)


section \<open>Memory at the handoff\<close>

text \<open>The monitor's header words and the handoff code over the loaded memory.\<close>

definition handoff_mem :: "u32 \<Rightarrow> u32 \<Rightarrow> u32 \<Rightarrow> memory \<Rightarrow> memory" where
  "handoff_mem dram_size src n m = memcpy CONFIG_FIP_HANDOFF_BASE src n
     (store32 (CONFIG_MONITOR_BASE + 48) dram_size
       (store32 (CONFIG_MONITOR_BASE + 16) CONFIG_UBOOT_BASE (store32 (CONFIG_MONITOR_BASE + 24) 0 m)))"

definition head_bytes :: "nat set" where
  "head_bytes = {16..<20} \<union> {24..<28} \<union> {48..<52}"

lemma handoff_mem_other:
  assumes "a \<notin> region CONFIG_FIP_HANDOFF_BASE (unat CONFIG_FIP_HANDOFF_SIZE)" and "unat n \<le> unat CONFIG_FIP_HANDOFF_SIZE"
    and "\<And>k. k \<in> {16, 24, 48} \<Longrightarrow> a \<notin> region (CONFIG_MONITOR_BASE + k) 4"
  shows "handoff_mem dram_size src n m a = m a"
proof -
  have "a \<notin> region CONFIG_FIP_HANDOFF_BASE (unat n)"
    using assms(1) region_mono [OF assms(2), of CONFIG_FIP_HANDOFF_BASE] by blast
  then show ?thesis
    unfolding handoff_mem_def
    using assms(3) [of 16] assms(3) [of 24] assms(3) [of 48] by (simp add: memcpy_outside store32_other)
qed

lemma handoff_mem_away:
  assumes n: "unat n \<le> unat CONFIG_FIP_HANDOFF_SIZE" and i: "i < k"
    and d: "unat CONFIG_FIP_HANDOFF_BASE + unat CONFIG_FIP_HANDOFF_SIZE \<le> unat d" "unat d + k \<le> 2 ^ 32"
    and away: "unat d + k \<le> unat CONFIG_MONITOR_BASE \<or> unat CONFIG_MONITOR_BASE + 52 \<le> unat d"
  shows "handoff_mem dram_size src n m (d + of_nat i) = m (d + of_nat i)"
proof (rule handoff_mem_other [OF _ n])
  have a: "d + of_nat i \<in> region d k" using i d(2) by (intro region_offset) auto
  show "d + of_nat i \<notin> region CONFIG_FIP_HANDOFF_BASE (unat CONFIG_FIP_HANDOFF_SIZE)"
    using region_disjoint [OF d] a by blast
  fix j :: u32
  assume j: "j \<in> {16, 24, 48}"
  then have "unat (CONFIG_MONITOR_BASE + j) = unat CONFIG_MONITOR_BASE + unat j" "unat j + 4 \<le> 52" by auto
  then have "region d k \<inter> region (CONFIG_MONITOR_BASE + j) 4 = {}"
    using away d(2) region_disjoint [of d k "CONFIG_MONITOR_BASE + j" 4]
      region_disjoint [of "CONFIG_MONITOR_BASE + j" 4 d k] j by auto
  then show "d + of_nat i \<notin> region (CONFIG_MONITOR_BASE + j) 4" using a by blast
qed

lemma handoff_mem_monitor:
  assumes n: "unat n \<le> unat CONFIG_FIP_HANDOFF_SIZE" and i: "i < unat SUNXI_FIP_BL31_MAX_SIZE" "i \<notin> head_bytes"
  shows "handoff_mem dram_size src n m (CONFIG_MONITOR_BASE + of_nat i) = m (CONFIG_MONITOR_BASE + of_nat i)"
proof (rule handoff_mem_other [OF _ n])
  have a: "CONFIG_MONITOR_BASE + of_nat i \<in> region CONFIG_MONITOR_BASE (unat SUNXI_FIP_BL31_MAX_SIZE)"
    using i(1) by (intro region_offset) auto
  then show "CONFIG_MONITOR_BASE + of_nat i \<notin> region CONFIG_FIP_HANDOFF_BASE (unat CONFIG_FIP_HANDOFF_SIZE)"
    using region_disjoint [of CONFIG_FIP_HANDOFF_BASE "unat CONFIG_FIP_HANDOFF_SIZE" CONFIG_MONITOR_BASE
        "unat SUNXI_FIP_BL31_MAX_SIZE"] by auto
  fix j :: u32
  assume j: "j \<in> {16, 24, 48}"
  have "\<not> unat (of_nat i - j :: u32) < 4"
    using i j by (auto simp: head_bytes_def unat_sub_if' unat_of_nat)
  then show "CONFIG_MONITOR_BASE + of_nat i \<notin> region (CONFIG_MONITOR_BASE + j) 4"
    by (simp add: region_def)
qed

lemma handoff_mem_head:
  assumes n: "unat n \<le> unat CONFIG_FIP_HANDOFF_SIZE"
  shows "load32 (handoff_mem dram_size src n m) (CONFIG_MONITOR_BASE + 16) = CONFIG_UBOOT_BASE"
    and "load32 (handoff_mem dram_size src n m) (CONFIG_MONITOR_BASE + 24) = 0"
    and "load32 (handoff_mem dram_size src n m) (CONFIG_MONITOR_BASE + 48) = dram_size"
proof -
  have copy: "load32 (memcpy CONFIG_FIP_HANDOFF_BASE src n m') (CONFIG_MONITOR_BASE + j) = load32 m' (CONFIG_MONITOR_BASE + j)"
    if "j \<in> {16, 24, 48}" for j m'
  proof (intro load32_cong ballI memcpy_outside)
    fix b
    assume "b \<in> region (CONFIG_MONITOR_BASE + j) 4"
    then show "b \<notin> region CONFIG_FIP_HANDOFF_BASE (unat n)"
      using region_disjoint [of CONFIG_FIP_HANDOFF_BASE "unat n" "CONFIG_MONITOR_BASE + j" 4] n that by auto
  qed
  have apart: "region (CONFIG_MONITOR_BASE + j) 4 \<inter> region (CONFIG_MONITOR_BASE + j') 4 = {}"
    if "j \<in> {16, 24, 48}" "j' \<in> {16, 24, 48}" "j \<noteq> j'" for j j'
    using region_disjoint [of "CONFIG_MONITOR_BASE + j" 4 "CONFIG_MONITOR_BASE + j'" 4]
      region_disjoint [of "CONFIG_MONITOR_BASE + j'" 4 "CONFIG_MONITOR_BASE + j" 4] that by auto
  note apart = apart [of 16 48] apart [of 16 24] apart [of 24 48] apart [of 24 16]
  show "load32 (handoff_mem dram_size src n m) (CONFIG_MONITOR_BASE + 16) = CONFIG_UBOOT_BASE"
    using apart copy [of 16] by (simp add: handoff_mem_def load32_store32 load32_store32_other)
  show "load32 (handoff_mem dram_size src n m) (CONFIG_MONITOR_BASE + 24) = 0"
    using apart copy [of 24] by (simp add: handoff_mem_def load32_store32 load32_store32_other)
  show "load32 (handoff_mem dram_size src n m) (CONFIG_MONITOR_BASE + 48) = dram_size"
    using copy [of 48] by (simp add: handoff_mem_def load32_store32)
qed


text \<open>
  The boot set in memory when the handoff code is entered: U-Boot and the SCP image as the
  card has them, the monitor as the card has it but for the three words of its header, which
  hold the address of U-Boot, no secure OS and the size of DRAM.
\<close>

definition handed_over :: "(nat \<Rightarrow> u8) \<Rightarrow> u32 \<Rightarrow> boot0 \<Rightarrow> bool" where
  "handed_over disk dram_size v \<longleftrightarrow> (\<exists>u l. package_of disk u l \<and>
     image_at (sector_bytes disk u) (bl33 l) SUNXI_FIP_BL33_BASE (mem v) \<and>
     image_at (sector_bytes disk u) (scp_bl2 l) (scp_source v) (mem v) \<and> scp_size v = img_size (scp_bl2 l) \<and>
     (\<forall>i<unat (img_size (bl31 l)). i \<notin> head_bytes \<longrightarrow>
        sector_bytes disk u (unat (img_offset (bl31 l)) + i) = Some (mem v (SUNXI_FIP_BL31_BASE + of_nat i)))) \<and>
     load32 (mem v) (SUNXI_FIP_BL31_BASE + 16) = SUNXI_FIP_BL33_BASE \<and>
     load32 (mem v) (SUNXI_FIP_BL31_BASE + 24) = 0 \<and>
     load32 (mem v) (SUNXI_FIP_BL31_BASE + 48) = dram_size"

lemma load_result_handed_over:
  assumes load: "load_result disk p b w" and rec: "records_ok w" and n: "unat n \<le> unat CONFIG_FIP_HANDOFF_SIZE"
    and v: "mem v = handoff_mem dram_size src n (mem w)" "scp_source v = scp_source w" "scp_size v = scp_size w"
  shows "handed_over disk dram_size v"
proof -
  obtain u l where pkg: "package_of disk u l" and loaded: "package_loaded (sector_bytes disk u) l w"
    using load by (auto simp: load_result_def)
  obtain sz where "layout_safe sz l" using package_of_safe [OF pkg] by blast
  then have size: "unat (img_size (bl31 l)) \<le> unat SUNXI_FIP_BL31_MAX_SIZE"
    "unat (img_size (bl33 l)) \<le> unat SUNXI_FIP_BL33_MAX_SIZE"
    by (simp_all add: layout_safe_def word_le_nat_alt)
  have img: "image_at (sector_bytes disk u) (bl31 l) SUNXI_FIP_BL31_BASE (mem w)"
    "image_at (sector_bytes disk u) (bl33 l) SUNXI_FIP_BL33_BASE (mem w)"
    "image_at (sector_bytes disk u) (scp_bl2 l) (scp_source w) (mem w)" "scp_size w = img_size (scp_bl2 l)"
    using loaded unfolding package_loaded_def by blast+
  have bl33: "image_at (sector_bytes disk u) (bl33 l) SUNXI_FIP_BL33_BASE (mem v)"
    unfolding v using size(2) by (intro image_at_frame [OF img(2)] handoff_mem_away [OF n]) auto
  have scp: "image_at (sector_bytes disk u) (scp_bl2 l) (scp_source w) (mem v)"
    unfolding v using rec img(4)
    by (intro image_at_frame [OF img(3)] handoff_mem_away [OF n]) (auto simp: records_ok_def)
  have "sector_bytes disk u (unat (img_offset (bl31 l)) + i) = Some (mem v (SUNXI_FIP_BL31_BASE + of_nat i))"
    if "i < unat (img_size (bl31 l))" "i \<notin> head_bytes" for i
    using img(1) that handoff_mem_monitor [OF n _ that(2), of dram_size src "mem w"] size(1)
    by (simp add: image_at_def v)
  then show ?thesis
    using pkg bl33 scp img(4) v(2,3) handoff_mem_head [OF n, of dram_size src "mem w"]
    unfolding handed_over_def v(1) by auto
qed

section \<open>The main program\<close>

text \<open>The rest of \<open>main\<close> can reach the handoff.\<close>

definition handoff_ready :: "env \<Rightarrow> sector_data \<Rightarrow> (nat \<Rightarrow> u8) \<Rightarrow> u32 \<Rightarrow> u32 \<Rightarrow> bool" where
  "handoff_ready E D disk hs he \<longleftrightarrow> mmc_reads E D disk \<and> backup_ok E disk \<and>
     (\<forall>t. fst (ext_call E t Board_late_init []) = 0) \<and>
     0 < (he AND NOT 1) - (hs AND NOT 1) \<and> (he AND NOT 1) - (hs AND NOT 1) \<le> CONFIG_FIP_HANDOFF_SIZE"

definition handoff_made :: "env \<Rightarrow> sector_data \<Rightarrow> fdt_ops \<Rightarrow> (memory \<Rightarrow> u32 \<Rightarrow> int \<Rightarrow> string \<Rightarrow> u32) \<Rightarrow>
    (nat \<Rightarrow> u8) \<Rightarrow> int \<Rightarrow> history \<Rightarrow> boot0 \<Rightarrow> bool" where
  "handoff_made E D F prop disk dram_size t v \<longleftrightarrow> (\<exists>t1 r1 o1.
     trace v = Call Fip_handoff [scp_source v, scp_size v, dtb_base v] r1 o1 # t1 \<and> extends t t1 \<and>
     (mmc_reads E D disk \<longrightarrow> fdt_sets F prop \<longrightarrow> handed_over disk (word_of_int dram_size) v))"

lemma handoff_step:
  assumes rec: "records_ok v" and loaded: "boot_loaded E D F prop disk v" and t: "extends t (trace v)"
    and m: "mem v' = store32 (CONFIG_MONITOR_BASE + 48) (word_of_int dram_size)
      (store32 (CONFIG_MONITOR_BASE + 16) CONFIG_UBOOT_BASE (store32 (CONFIG_MONITOR_BASE + 24) 0 (mem v)))"
    and same: "trace v' = trace v" "scp_source v' = scp_source v" "scp_size v' = scp_size v"
      "dtb_base v' = dtb_base v" "dtb_size v' = dtb_size v"
  shows "wp (run_fip_handoff E hs he) (\<lambda>r u. r = Some (-1) \<and>
    (extends t (trace u) \<and> \<not> handoff_ready E D disk hs he \<or> handoff_made E D F prop disk dram_size t u)) v'"
proof -
  let ?n = "(he AND NOT 1) - (hs AND NOT 1)"
  have rec': "records_ok v'" using rec same by (simp add: records_ok_def)
  show ?thesis
  proof (rule wp_mono [OF run_fip_handoff_wp [OF rec' refl]])
    fix r u
    assume *: "r = Some (-1) \<and> (if ?n = 0 \<or> ?n > CONFIG_FIP_HANDOFF_SIZE then u = v'
      else \<exists>es r1 o1 r2 o2. only_cleans es \<and> cleaned es = handoff_lines v' ?n \<and>
        u = v'\<lparr>mem := memcpy CONFIG_FIP_HANDOFF_BASE (hs AND NOT 1) ?n (mem v'),
              trace := Call Fip_handoff [scp_source v', scp_size v', dtb_base v'] r1 o1 #
                Call Icache_invalidate [] r2 o2 # es @ trace v'\<rparr>)"
    show "r = Some (-1) \<and> (extends t (trace u) \<and> \<not> handoff_ready E D disk hs he \<or>
        handoff_made E D F prop disk dram_size t u)"
    proof (cases "?n = 0 \<or> ?n > CONFIG_FIP_HANDOFF_SIZE")
      case True
      then have "u = v'" "r = Some (-1)" using * by simp_all
      moreover have "\<not> handoff_ready E D disk hs he"
        using True unfolding handoff_ready_def by auto
      ultimately show ?thesis using t same(1) by simp
    next
      case False
      then obtain es r1 o1 r2 o2 where r: "r = Some (-1)" and es: "only_cleans es"
        and u: "u = v'\<lparr>mem := memcpy CONFIG_FIP_HANDOFF_BASE (hs AND NOT 1) ?n (mem v'),
              trace := Call Fip_handoff [scp_source v', scp_size v', dtb_base v'] r1 o1 #
                Call Icache_invalidate [] r2 o2 # es @ trace v'\<rparr>"
        using * by auto
      have "extends (trace v') (es @ trace v')" using es by (auto simp: extends_def only_cleans_def)
      then have ext: "extends t (Call Icache_invalidate [] r2 o2 # es @ trace v')"
        using t same(1) by (auto intro: extends_trans extends_Cons)
      have n: "unat ?n \<le> unat CONFIG_FIP_HANDOFF_SIZE" using False by (auto simp: word_less_nat_alt not_less)
      have "handed_over disk (word_of_int dram_size) u" if con: "mmc_reads E D disk" and F: "fdt_sets F prop"
      proof -
        obtain p b where "load_result disk p b v" using loaded con F by (auto simp: boot_loaded_def)
        then show ?thesis
          by (rule load_result_handed_over [OF _ rec n]) (simp_all add: u m same handoff_mem_def)
      qed
      then show ?thesis using r u ext by (simp add: handoff_made_def)
    qed
  qed
qed

lemma load_and_jump_wp:
  assumes "dtb_base w = 0"
  shows "wp (boot0_load_and_jump E D F dp hs he dram_size) (\<lambda>r v. r = Some () \<and>
    (extends (trace w) (trace v) \<and> \<not> handoff_ready E D disk hs he \<or>
     handoff_made E D F prop disk dram_size (trace w) v)) w"
proof -
  show ?thesis
    unfolding boot0_load_and_jump_def wp_bind wp_call Let_def
    apply (rule wp_ifI)
     apply (auto simp: wp_simps extends_Cons handoff_ready_def)[1]
    apply (rule wp_bindI, rule wp_mono [OF load_fip_images_wp [of _ E D F dp disk "prop"]])
     apply (simp add: assms)
    apply (elim exE conjE)
    subgoal premises prems for r v rc ub mb
    proof -
      have ext: "extends (trace w) (trace v)"
        by (rule extends_trans [OF _ prems(3)]) (simp add: extends_Cons)
      show ?thesis
      proof (cases "rc = 0")
        case False
        then show ?thesis using prems ext by (auto simp: wp_simps handoff_ready_def)
      next
        case True
        then have ok: "ub = CONFIG_UBOOT_BASE" "mb = CONFIG_MONITOR_BASE" "boot_loaded E D F prop disk v" "records_ok v"
          using prems(4) by auto
        let ?v = "v\<lparr>mem := store32 (CONFIG_MONITOR_BASE + 48) (word_of_int dram_size)
          (store32 (CONFIG_MONITOR_BASE + 16) CONFIG_UBOOT_BASE (store32 (CONFIG_MONITOR_BASE + 24) 0 (mem v)))\<rparr>"
        have "wp (run_fip_handoff E hs he) (\<lambda>r u. r = Some (-1) \<and>
            (extends (trace w) (trace u) \<and> \<not> handoff_ready E D disk hs he \<or>
             handoff_made E D F prop disk dram_size (trace w) u)) ?v"
          by (rule handoff_step [OF ok(4,3) ext]) simp_all
        then have "wp (run_fip_handoff E hs he) (\<lambda>r. wp (case r of None \<Rightarrow> ret None | Some _ \<Rightarrow> ret (Some ()))
            (\<lambda>r u. r = Some () \<and> (extends (trace w) (trace u) \<and> \<not> handoff_ready E D disk hs he \<or>
             handoff_made E D F prop disk dram_size (trace w) u))) ?v"
          by (rule wp_mono) (auto simp: wp_simps)
        then show ?thesis
          unfolding prems(2) True ok(1,2) by (simp add: wp_bind wp_put32 write_monitor_head_def)
      qed
    qed
    done
qed


text \<open>
  C2: loading and handing over. With the storage driver and the device-tree library behaving
  as documented, the part of \<open>main\<close> after DRAM is up always comes to an end, and either it made
  no handoff, which is ruled out when the late board initialisation succeeds, the backup copy
  is valid and readable and the handoff code fits its page; or its last action was the one call
  of the handoff code, with the place and size of the SCP image and the device tree as
  arguments and the complete boot set of a valid package of the card in memory.
\<close>
theorem boot0_load_and_jump_correct:
  assumes "mmc_reads E D disk" and "fdt_sets F prop" and "dtb_base w = 0"
  shows "\<exists>w'. run_state (boot0_load_and_jump E D F dram_para hs he dram_size) w = (Some (), w') \<and>
    (extends (trace w) (trace w') \<and> \<not> handoff_ready E D disk hs he \<or>
     (\<exists>t r1 o1. trace w' = Call Fip_handoff [scp_source w', scp_size w', dtb_base w'] r1 o1 # t \<and>
        extends (trace w) t \<and> handed_over disk (word_of_int dram_size) w'))"
  using load_and_jump_wp [OF assms(3), of E D F dram_para hs he dram_size disk "prop"] assms(1,2)
  unfolding wp_run handoff_made_def by blast

theorem boot0_load_and_jump_correct_witness:
  "\<exists>w' r1 o1. run_state (boot0_load_and_jump sample_env sample_data inert_fdt (\<lambda>_. 0) 0x1000 0x1040 2048) boot_state
     = (Some (), w') \<and>
     Call Fip_handoff [scp_source w', scp_size w', dtb_base w'] r1 o1 \<in> set (trace w') \<and>
     handed_over sample_disk 2048 w'"
proof -
  have 0: "dtb_base boot_state = 0" by (simp add: boot_state_def)
  have ready: "handoff_ready sample_env sample_data sample_disk 0x1000 0x1040"
    using sample_reads sample_backup_ok by (simp add: handoff_ready_def sample_env_def)
  obtain w' where run: "run_state (boot0_load_and_jump sample_env sample_data inert_fdt (\<lambda>_. 0) 0x1000 0x1040 2048)
      boot_state = (Some (), w')"
    and made: "\<exists>t r1 o1. trace w' = Call Fip_handoff [scp_source w', scp_size w', dtb_base w'] r1 o1 # t \<and>
      handed_over sample_disk (word_of_int 2048) w'"
    using boot0_load_and_jump_correct [OF sample_reads inert_fdt_sets 0, of "\<lambda>_. 0" "0x1000" "0x1040" 2048] ready by blast
  then show ?thesis by fastforce
qed

lemma handed_over_cong:
  "mem u = mem v \<Longrightarrow> scp_source u = scp_source v \<Longrightarrow> scp_size u = scp_size v \<Longrightarrow>
     handed_over disk dram_size u = handed_over disk dram_size v"
  by (simp add: handed_over_def)

lemma clear_env_wp:
  assumes "bus_latches E"
  shows "wp (boot0_clear_env E) (\<lambda>_ v. sys24_selected (trace v) \<and> quiet_step w v \<and> mem v = mem w) w"
proof -
  have q: "quiet (boot0_clear_env E)"
    unfolding boot0_clear_env_def a7s_clock_reset_def by (intro quiet_intros; simp)
  have m: "frames mem (boot0_clear_env E)"
    unfolding boot0_clear_env_def a7s_clock_reset_def a7s_bus_use_sys24_def a7s_bus_switch_to_sys24_def
    by (intro frames_intros) simp_all
  have "wp (boot0_clear_env E) (\<lambda>_ v. sys24_selected (trace v)) w"
    unfolding boot0_clear_env_def a7s_clock_reset_def wp_bind wp_call Let_def
    by (rule wp_mono [OF use_sys24 [OF assms]])
      (simp add: wp_simps Let_def sys24_selected_def bus_field_def)
  then show ?thesis using quietD [OF q, of w] frames_wp [OF m, of w] by (simp add: wp_def)
qed

text \<open>Every handoff in the history had the recorded ranges and a boot set of the card.\<close>

definition handoffs_good :: "(nat \<Rightarrow> u8) \<Rightarrow> boot0 \<Rightarrow> bool" where
  "handoffs_good disk v \<longleftrightarrow> (\<forall>args r o1. Call Fip_handoff args r o1 \<in> set (trace v) \<longrightarrow>
     args = [scp_source v, scp_size v, dtb_base v] \<and> (\<exists>dram_size. handed_over disk dram_size v))"

lemma no_handoff_good: "\<forall>args r o1. Call Fip_handoff args r o1 \<notin> set t \<Longrightarrow> extends t (trace v) \<Longrightarrow> handoffs_good disk v"
  by (auto simp: handoffs_good_def extends_def)

lemma jump_good:
  assumes con: "mmc_reads E D disk" "fdt_sets F prop"
    and none: "\<forall>args r o1. Call Fip_handoff args r o1 \<notin> set (trace v)" and dtb: "dtb_base v = 0"
  shows "wp (boot0_load_and_jump E D F dram_para hs he ds) (\<lambda>r u. r = Some () \<and> handoffs_good disk u) v"
proof (rule wp_mono [OF load_and_jump_wp [OF dtb, of E D F dram_para hs he ds disk "prop"]])
  fix r u
  assume *: "r = Some () \<and> (extends (trace v) (trace u) \<and> \<not> handoff_ready E D disk hs he \<or>
    handoff_made E D F prop disk ds (trace v) u)"
  show "r = Some () \<and> handoffs_good disk u"
  proof (cases "handoff_made E D F prop disk ds (trace v) u")
    case True
    then obtain t r1 o1 where t: "trace u = Call Fip_handoff [scp_source u, scp_size u, dtb_base u] r1 o1 # t"
      and ext: "extends (trace v) t" and over: "handed_over disk (word_of_int ds) u"
      using con by (auto simp: handoff_made_def)
    have "Call Fip_handoff args r o1 \<notin> set t" for args r o1
      using ext none by (auto simp: extends_def)
    then show ?thesis using * t over by (auto simp: handoffs_good_def)
  qed (use * none no_handoff_good in blast)
qed

lemma fel_jump:
  assumes "bus_latches E" and good: "handoffs_good disk v"
  shows "wp (do { _ \<leftarrow> boot0_clear_env E; _ \<leftarrow> call E Boot0_jmp [FEL_BASE]; ret (Some ()) })
    (\<lambda>r u. r = Some () \<and> (\<exists>r o1 t. trace u = Call Boot0_jmp [0x20] r o1 # t) \<and>
      sys24_selected (trace u) \<and> handoffs_good disk u) v"
  unfolding wp_bind
proof (rule wp_mono [OF clear_env_wp [OF assms(1), of v]])
  fix r :: int and u
  assume u: "sys24_selected (trace u) \<and> quiet_step v u \<and> mem u = mem v"
  then have same: "scp_source u = scp_source v" "scp_size u = scp_size v" "dtb_base u = dtb_base v"
    and over: "handed_over disk ds u = handed_over disk ds v" for ds
    using handed_over_cong [of u v disk ds] by (simp_all add: quiet_step_def)
  have "Call Fip_handoff args r1 o1 \<in> set (trace v)" if "Call Fip_handoff args r1 o1 \<in> set (trace u)" for args r1 o1
    using u that by (auto simp: quiet_step_def extends_def)
  then have "handoffs_good disk u" using good unfolding handoffs_good_def same over by blast
  then show "wp (call E Boot0_jmp [FEL_BASE]) (\<lambda>r. wp (ret (Some ())) (\<lambda>r u. r = Some () \<and>
      (\<exists>r o1 t. trace u = Call Boot0_jmp [0x20] r o1 # t) \<and> sys24_selected (trace u) \<and> handoffs_good disk u)) u"
    using u by (auto simp: wp_simps Let_def sys24_selected_def bus_field_def handed_over_def handoffs_good_def)
qed


lemma sample_latches: "bus_latches sample_env"
  by (auto simp: bus_latches_def sample_env_def intro!: ram_dev_latches)


end
