(* ===== verification/Clock_Diag.thy ===== *)
theory Clock_Diag
  imports Clock
begin

text \<open>
  The read-only clock diagnostics of boot0 (\<^verbatim>\<open>src/src/clock_diag_a733.c\<close>): the decoding of the
  PLL and bus clock registers into rates in kHz, the survey \<open>a7s_clock_read_rates\<close> and the
  printed dump. A \<open>printf\<close> is a \<open>Print\<close> event with the leading text of its format, its string
  arguments and its numeric arguments.
\<close>

unbundle bit_operations_syntax

section \<open>Model\<close>

record a7s_clock_rates =
  dcxo :: u32
  ref :: u32
  cpu_back_pll :: u32
  cpu_a_pll :: u32
  cpu_b_pll :: u32
  dsu_pll :: u32
  cpu_a :: u32
  cpu_b :: u32
  dsu :: u32
  dsu_axi :: u32
  dsu_apb :: u32
  dsu_gic :: u32
  ddr :: u32
  peri0_2x :: u32
  peri0_800 :: u32
  peri0_480 :: u32
  peri1_2x :: u32
  peri1_800 :: u32
  peri1_480 :: u32
  npu :: u32
  de_3x :: u32
  cci :: u32
  ahb :: u32
  apb0 :: u32
  apb1 :: u32
  uart :: u32
  gic :: u32
  nsi :: u32
  mbus :: u32

abbreviation (input) PLL_DDR_CTRL_REG :: u32 where "PLL_DDR_CTRL_REG \<equiv> 0x20"
abbreviation (input) PLL_GPU0_CTRL_REG :: u32 where "PLL_GPU0_CTRL_REG \<equiv> 0xe0"
abbreviation (input) PLL_VIDEO0_CTRL_REG :: u32 where "PLL_VIDEO0_CTRL_REG \<equiv> 0x120"
abbreviation (input) PLL_VIDEO1_CTRL_REG :: u32 where "PLL_VIDEO1_CTRL_REG \<equiv> 0x140"
abbreviation (input) PLL_VIDEO2_CTRL_REG :: u32 where "PLL_VIDEO2_CTRL_REG \<equiv> 0x160"
abbreviation (input) PLL_VE0_CTRL_REG :: u32 where "PLL_VE0_CTRL_REG \<equiv> 0x220"
abbreviation (input) PLL_VE1_CTRL_REG :: u32 where "PLL_VE1_CTRL_REG \<equiv> 0x240"
abbreviation (input) PLL_AUDIO0_CTRL_REG :: u32 where "PLL_AUDIO0_CTRL_REG \<equiv> 0x260"
abbreviation (input) A7S_AUDIO1_PLL_CTRL :: u32 where "A7S_AUDIO1_PLL_CTRL \<equiv> 0x280"
abbreviation (input) PLL_NPU_CTRL_REG :: u32 where "PLL_NPU_CTRL_REG \<equiv> 0x2a0"
abbreviation (input) PLL_DE_CTRL_REG :: u32 where "PLL_DE_CTRL_REG \<equiv> 0x2e0"
abbreviation (input) PLL_CCI_CTRL_REG :: u32 where "PLL_CCI_CTRL_REG \<equiv> 0x320"
abbreviation (input) GIC_CLK_REG :: u32 where "GIC_CLK_REG \<equiv> 0x560"
abbreviation (input) NSI_CLK_REG :: u32 where "NSI_CLK_REG \<equiv> 0x580"
abbreviation (input) MBUS_CLK_REG :: u32 where "MBUS_CLK_REG \<equiv> 0x588"
abbreviation (input) A7S_CPU_BACK_PLL_CTRL :: u32 where "A7S_CPU_BACK_PLL_CTRL \<equiv> 0x08870000"
abbreviation (input) A7S_CPU_A_PLL_CTRL :: u32 where "A7S_CPU_A_PLL_CTRL \<equiv> 0x08871000"
abbreviation (input) A7S_CPU_A_CLK :: u32 where "A7S_CPU_A_CLK \<equiv> 0x0887101c"
abbreviation (input) A7S_CPU_A_GATING :: u32 where "A7S_CPU_A_GATING \<equiv> 0x08871020"
abbreviation (input) A7S_CPU_B_PLL_CTRL :: u32 where "A7S_CPU_B_PLL_CTRL \<equiv> 0x08872000"
abbreviation (input) A7S_CPU_B_CLK :: u32 where "A7S_CPU_B_CLK \<equiv> 0x0887201c"
abbreviation (input) A7S_CPU_B_GATING :: u32 where "A7S_CPU_B_GATING \<equiv> 0x08872020"
abbreviation (input) A7S_DSU_PLL_CTRL :: u32 where "A7S_DSU_PLL_CTRL \<equiv> 0x08873000"
abbreviation (input) A7S_DSU_CLK :: u32 where "A7S_DSU_CLK \<equiv> 0x0887301c"
abbreviation (input) A7S_DSU_GATING :: u32 where "A7S_DSU_GATING \<equiv> 0x08873020"
abbreviation (input) A7S_CPU_SLOW_CLK_SEL :: u32 where "A7S_CPU_SLOW_CLK_SEL \<equiv> 0x08873034"

definition a7s_dcxo_rate :: "env \<Rightarrow> ('a machine_scheme, u32) state" where
  "a7s_dcxo_rate E = do {
     v \<leftarrow> readl E A7S_RTC_XO_CTRL0;
     let s = drop_bit 14 v AND 3;
     ret (if s = 1 then 19200 else if s = 2 then 26000 else 24000)
   }"

definition a7s_div_rate :: "u32 \<Rightarrow> u32 \<Rightarrow> u32" where
  "a7s_div_rate parent divisor = (if parent \<noteq> 0 \<and> divisor \<noteq> 0 then parent div divisor else 0)"

definition a7s_main_pll_input :: "u32 \<Rightarrow> u32 \<Rightarrow> u32 \<Rightarrow> u32" where
  "a7s_main_pll_input reg dcxo_khz ref_khz = (if reg AND 0x01000000 \<noteq> 0 then ref_khz else dcxo_khz)"

definition a7s_main_pll_output :: "u32 \<Rightarrow> u32 \<Rightarrow> nat \<Rightarrow> u32 \<Rightarrow> nat \<Rightarrow> u32" where
  "a7s_main_pll_output reg parent p_shift p_mask gate_bit = (
     let on = A7S_PLL_ENABLE OR push_bit gate_bit 1 in
     if reg AND on \<noteq> on then 0
     else let n = (drop_bit 8 reg AND 0xff) + 1;
              m1 = (drop_bit 1 reg AND 1) + 1;
              p = (drop_bit p_shift reg AND p_mask) + 1
          in a7s_div_rate (parent * n) (m1 * p))"

definition a7s_ref_pll_rate :: "u32 \<Rightarrow> u32 \<Rightarrow> u32" where
  "a7s_ref_pll_rate reg dcxo_khz = (
     let on = A7S_PLL_ENABLE OR push_bit 27 1 in
     if reg AND on \<noteq> on then 0
     else let n = (drop_bit 8 reg AND 0xff) + 1;
              m1 = (drop_bit 1 reg AND 1) + 1;
              p = (drop_bit 16 reg AND 0x7f) + 1
          in a7s_div_rate (dcxo_khz * n) (m1 * p))"

definition a7s_cpu_back_pll_rate :: "u32 \<Rightarrow> u32 \<Rightarrow> u32" where
  "a7s_cpu_back_pll_rate reg dcxo_khz = a7s_main_pll_output reg dcxo_khz 20 7 27"

definition a7s_cpu_linear_pll_rate :: "u32 \<Rightarrow> u32 \<Rightarrow> u32" where
  "a7s_cpu_linear_pll_rate reg dcxo_khz = (
     let on = A7S_PLL_ENABLE OR push_bit 27 1 in
     if reg AND on \<noteq> on then 0
     else let n = drop_bit 8 reg AND 0xff;
              p = (drop_bit 16 reg AND 0xf) + 1;
              m0 = (drop_bit 20 reg AND 3) + 1;
              m1 = (reg AND 0xf) + 1
          in a7s_div_rate (dcxo_khz * n) (p * m0 * m1))"

definition a7s_cpu_slow_rate :: "u32 \<Rightarrow> u32 \<Rightarrow> u32" where
  "a7s_cpu_slow_rate selector dcxo_khz = (let s = selector AND 3 in
     if s = 0 then dcxo_khz else if s = 1 then 32 else if s = 2 then 16000 else 0)"

definition a7s_cpu_cluster_rate :: "u32 \<Rightarrow> u32 \<Rightarrow> u32 \<Rightarrow> u32 \<Rightarrow> u32 \<Rightarrow> u32" where
  "a7s_cpu_cluster_rate clk_reg slow cluster_pll peri0 cpu_back = (
     let source = drop_bit 24 clk_reg AND 7 in
     if source = 0 \<or> source = 1 \<or> source = 2 then slow
     else if source = 3 then a7s_div_rate cluster_pll (push_bit (unat (drop_bit 16 clk_reg AND 3)) 1)
     else if source = 4 then a7s_div_rate peri0 2
     else if source = 5 then cpu_back
     else 0)"

definition a7s_dsu_rate :: "u32 \<Rightarrow> u32 \<Rightarrow> u32 \<Rightarrow> u32 \<Rightarrow> u32 \<Rightarrow> u32" where
  "a7s_dsu_rate clk_reg slow dsu_khz cpu_khz peri0 = (
     let source = drop_bit 24 clk_reg AND 7 in
     if source = 0 \<or> source = 1 \<or> source = 2 then slow
     else if source = 3 then a7s_div_rate dsu_khz (push_bit (unat (drop_bit 16 clk_reg AND 3)) 1)
     else if source = 4 then cpu_khz
     else if source = 5 then a7s_div_rate peri0 2
     else 0)"

definition a7s_standard_bus_rate :: "u32 \<Rightarrow> u32 \<Rightarrow> u32 \<Rightarrow> u32" where
  "a7s_standard_bus_rate reg dcxo_khz peri0 = (
     let s = drop_bit 24 reg AND 3;
         parent = (if s = 0 then dcxo_khz else if s = 1 then 32 else if s = 2 then 16000
                   else a7s_div_rate peri0 2)
     in a7s_div_rate parent ((reg AND 0x1f) + 1))"

definition a7s_uart_rate :: "u32 \<Rightarrow> u32 \<Rightarrow> u32 \<Rightarrow> u32 \<Rightarrow> u32" where
  "a7s_uart_rate reg dcxo_khz peri0 peri0_480_khz = (
     let s = drop_bit 24 reg AND 7;
         parent = (if s = 0 then dcxo_khz else if s = 1 then 32 else if s = 2 then 16000
                   else if s = 3 then a7s_div_rate peri0 2
                   else if s = 4 then peri0_480_khz else 0)
     in a7s_div_rate parent ((reg AND 0x1f) + 1))"

definition a7s_gic_rate :: "u32 \<Rightarrow> a7s_clock_rates \<Rightarrow> u32" where
  "a7s_gic_rate reg rates = (
     if reg AND 0x80000000 = 0 then 0
     else let s = drop_bit 24 reg AND 3;
              parent = (if s = 0 then dcxo rates else if s = 1 then 32
                        else if s = 2 then a7s_div_rate (peri0_2x rates) 2
                        else peri0_480 rates)
          in a7s_div_rate parent ((reg AND 0x1f) + 1))"

definition a7s_nsi_rate :: "u32 \<Rightarrow> a7s_clock_rates \<Rightarrow> u32" where
  "a7s_nsi_rate reg rates = (
     if reg AND 0x80000000 = 0 then 0
     else let s = drop_bit 24 reg AND 7;
              parent = (if s = 0 then ddr rates else if s = 1 then peri0_800 rates
                        else if s = 2 then a7s_div_rate (peri0_2x rates) 2
                        else if s = 3 then cci rates else if s = 4 then de_3x rates
                        else if s = 5 then npu rates else 0)
          in a7s_div_rate parent ((reg AND 0x1f) + 1))"

definition a7s_mbus_rate :: "u32 \<Rightarrow> a7s_clock_rates \<Rightarrow> u32" where
  "a7s_mbus_rate reg rates = (
     if reg AND 0x80000000 = 0 then 0
     else let s = drop_bit 24 reg AND 7;
              parent = (if s = 0 then a7s_div_rate (peri0_2x rates) 2 else if s = 1 then ddr rates
                        else if s = 2 then peri0_480 rates
                        else if s = 3 then a7s_div_rate (peri0_2x rates) 3
                        else if s = 4 then cci rates else if s = 5 then npu rates else 0)
          in a7s_div_rate parent ((reg AND 0x1f) + 1))"

definition a7s_clock_read_rates ::
  "env \<Rightarrow> a7s_clock_rates \<Rightarrow> ('a machine_scheme, a7s_clock_rates) state" where
  "a7s_clock_read_rates E rates = do {
     ref_reg \<leftarrow> readl E (a7s_ccu_reg PLL_REF_CTRL_REG);
     ddr_reg \<leftarrow> readl E (a7s_ccu_reg PLL_DDR_CTRL_REG);
     peri0_reg \<leftarrow> readl E (a7s_ccu_reg PLL_PERI0_CTRL_REG);
     peri1_reg \<leftarrow> readl E (a7s_ccu_reg PLL_PERI1_CTRL_REG);
     npu_reg \<leftarrow> readl E (a7s_ccu_reg PLL_NPU_CTRL_REG);
     de_reg \<leftarrow> readl E (a7s_ccu_reg PLL_DE_CTRL_REG);
     cci_reg \<leftarrow> readl E (a7s_ccu_reg PLL_CCI_CTRL_REG);
     cpu_back_reg \<leftarrow> readl E A7S_CPU_BACK_PLL_CTRL;
     cpu_a_pll_reg \<leftarrow> readl E A7S_CPU_A_PLL_CTRL;
     cpu_b_pll_reg \<leftarrow> readl E A7S_CPU_B_PLL_CTRL;
     dsu_pll_reg \<leftarrow> readl E A7S_DSU_PLL_CTRL;
     cpu_a_clk_reg \<leftarrow> readl E A7S_CPU_A_CLK;
     cpu_b_clk_reg \<leftarrow> readl E A7S_CPU_B_CLK;
     dsu_clk_reg \<leftarrow> readl E A7S_DSU_CLK;
     d \<leftarrow> a7s_dcxo_rate E;
     let rates = rates\<lparr>dcxo := d\<rparr>;
     let rates = rates\<lparr>ref := a7s_ref_pll_rate ref_reg (dcxo rates)\<rparr>;
     let input = a7s_main_pll_input peri0_reg (dcxo rates) (ref rates);
     let rates = rates\<lparr>peri0_2x := a7s_main_pll_output peri0_reg input 20 7 27\<rparr>;
     let rates = rates\<lparr>peri0_800 := a7s_main_pll_output peri0_reg input 16 7 26\<rparr>;
     let rates = rates\<lparr>peri0_480 := a7s_main_pll_output peri0_reg input 2 7 25\<rparr>;
     let input = a7s_main_pll_input peri1_reg (dcxo rates) (ref rates);
     let rates = rates\<lparr>peri1_2x := a7s_main_pll_output peri1_reg input 20 7 27\<rparr>;
     let rates = rates\<lparr>peri1_800 := a7s_main_pll_output peri1_reg input 16 7 26\<rparr>;
     let rates = rates\<lparr>peri1_480 := a7s_main_pll_output peri1_reg input 2 7 25\<rparr>;
     let input = a7s_main_pll_input ddr_reg (dcxo rates) (ref rates);
     let rates = rates\<lparr>ddr := a7s_main_pll_output ddr_reg input 20 7 27\<rparr>;
     let input = a7s_main_pll_input npu_reg (dcxo rates) (ref rates);
     let rates = rates\<lparr>npu := a7s_main_pll_output npu_reg input 20 7 27\<rparr>;
     let input = a7s_main_pll_input de_reg (dcxo rates) (ref rates);
     let rates = rates\<lparr>de_3x := a7s_main_pll_output de_reg input 16 7 26\<rparr>;
     let input = a7s_main_pll_input cci_reg (dcxo rates) (ref rates);
     let rates = rates\<lparr>cci := a7s_main_pll_output cci_reg input 20 7 27\<rparr>;
     let rates = rates\<lparr>cpu_back_pll := a7s_cpu_back_pll_rate cpu_back_reg (dcxo rates)\<rparr>;
     let rates = rates\<lparr>cpu_a_pll := a7s_cpu_linear_pll_rate cpu_a_pll_reg (dcxo rates)\<rparr>;
     let rates = rates\<lparr>cpu_b_pll := a7s_cpu_linear_pll_rate cpu_b_pll_reg (dcxo rates)\<rparr>;
     let rates = rates\<lparr>dsu_pll := a7s_cpu_linear_pll_rate dsu_pll_reg (dcxo rates)\<rparr>;
     sel \<leftarrow> readl E A7S_CPU_SLOW_CLK_SEL;
     let slow = a7s_cpu_slow_rate sel (dcxo rates);
     let rates = rates\<lparr>cpu_a := a7s_cpu_cluster_rate cpu_a_clk_reg slow (cpu_a_pll rates)
                  (peri0_2x rates) (cpu_back_pll rates)\<rparr>;
     g \<leftarrow> readl E A7S_CPU_A_GATING;
     let rates = (if g AND 1 = 0 then rates\<lparr>cpu_a := 0\<rparr> else rates);
     let rates = rates\<lparr>cpu_b := a7s_cpu_cluster_rate cpu_b_clk_reg slow (cpu_b_pll rates)
                  (peri0_2x rates) (cpu_back_pll rates)\<rparr>;
     g \<leftarrow> readl E A7S_CPU_B_GATING;
     let rates = (if g AND 1 = 0 then rates\<lparr>cpu_b := 0\<rparr> else rates);
     let rates = rates\<lparr>dsu := a7s_dsu_rate dsu_clk_reg slow (dsu_pll rates) (cpu_a rates) (peri0_2x rates)\<rparr>;
     g \<leftarrow> readl E A7S_DSU_GATING;
     let rates = (if g AND 1 = 0 then rates\<lparr>dsu := 0\<rparr> else rates);
     let rates = rates\<lparr>dsu_axi := a7s_div_rate (dsu rates) ((dsu_clk_reg AND 3) + 1)\<rparr>;
     let rates = rates\<lparr>dsu_gic := a7s_div_rate (dsu rates) ((drop_bit 2 dsu_clk_reg AND 3) + 1)\<rparr>;
     let rates = rates\<lparr>dsu_apb := a7s_div_rate (dsu rates) ((drop_bit 8 dsu_clk_reg AND 3) + 1)\<rparr>;
     v \<leftarrow> readl E (a7s_ccu_reg AHB_CLK_REG);
     let rates = rates\<lparr>ahb := a7s_standard_bus_rate v (dcxo rates) (peri0_2x rates)\<rparr>;
     v \<leftarrow> readl E (a7s_ccu_reg APB0_CLK_REG);
     let rates = rates\<lparr>apb0 := a7s_standard_bus_rate v (dcxo rates) (peri0_2x rates)\<rparr>;
     v \<leftarrow> readl E (a7s_ccu_reg APB1_CLK_REG);
     let rates = rates\<lparr>apb1 := a7s_standard_bus_rate v (dcxo rates) (peri0_2x rates)\<rparr>;
     v \<leftarrow> readl E (a7s_ccu_reg APB_UART_CLK_REG);
     let rates = rates\<lparr>uart := a7s_uart_rate v (dcxo rates) (peri0_2x rates) (peri0_480 rates)\<rparr>;
     v \<leftarrow> readl E (a7s_ccu_reg GIC_CLK_REG);
     let rates = rates\<lparr>gic := a7s_gic_rate v rates\<rparr>;
     v \<leftarrow> readl E (a7s_ccu_reg NSI_CLK_REG);
     let rates = rates\<lparr>nsi := a7s_nsi_rate v rates\<rparr>;
     v \<leftarrow> readl E (a7s_ccu_reg MBUS_CLK_REG);
     let rates = rates\<lparr>mbus := a7s_mbus_rate v rates\<rparr>;
     ret rates
   }"

section \<open>Model of the dump\<close>

definition printf :: "string \<Rightarrow> string list \<Rightarrow> u32 list \<Rightarrow> ('a machine_scheme, unit) state" where
  "printf fmt strs nums = State_Monad.update (\<lambda>w. w\<lparr>trace := Print fmt strs nums # trace w\<rparr>)"

text \<open>\<open>A7S_RATE_ARGS\<close>: MHz, the kHz remainder, and the mark of a stopped clock.\<close>

definition rate_nums :: "u32 \<Rightarrow> u32 list" where
  "rate_nums rate = [rate div 1000, rate mod 1000]"

definition rate_off :: "u32 \<Rightarrow> string" where
  "rate_off rate = (if rate \<noteq> 0 then [] else ''(off)'')"

definition a7s_pll_lock_state :: "u32 \<Rightarrow> string" where
  "a7s_pll_lock_state reg =
     (if reg AND A7S_PLL_LOCK_ENABLE = 0 then ''unchecked''
      else if reg AND A7S_PLL_LOCK \<noteq> 0 then ''locked'' else ''unlocked'')"

definition a7s_print_single_pll :: "env \<Rightarrow> string \<Rightarrow> u32 \<Rightarrow> u32 \<Rightarrow> ('a machine_scheme, unit) state" where
  "a7s_print_single_pll E name offset rate = do {
     reg \<leftarrow> readl E (a7s_ccu_reg offset);
     printf ''  PLL '' [name, rate_off rate, a7s_pll_lock_state reg] (rate_nums rate @ [reg])
   }"

definition a7s_print_cpu_pll :: "env \<Rightarrow> string \<Rightarrow> u32 \<Rightarrow> u32 \<Rightarrow> ('a machine_scheme, unit) state" where
  "a7s_print_cpu_pll E name address rate = do {
     reg \<leftarrow> readl E address;
     printf ''  CPU PLL '' [name, rate_off rate, a7s_pll_lock_state reg] (rate_nums rate @ [reg])
   }"

definition a7s_print_main_single ::
  "env \<Rightarrow> string \<Rightarrow> u32 \<Rightarrow> u32 \<Rightarrow> u32 \<Rightarrow> nat \<Rightarrow> u32 \<Rightarrow> ('a machine_scheme, unit) state" where
  "a7s_print_main_single E name offset dcxo_khz ref_khz p_shift p_mask = do {
     reg \<leftarrow> readl E (a7s_ccu_reg offset);
     let input = a7s_main_pll_input reg dcxo_khz ref_khz;
     a7s_print_single_pll E name offset (a7s_main_pll_output reg input p_shift p_mask 27)
   }"

definition a7s_print_main_dual ::
  "env \<Rightarrow> string \<Rightarrow> u32 \<Rightarrow> u32 \<Rightarrow> u32 \<Rightarrow> ('a machine_scheme, unit) state" where
  "a7s_print_main_dual E name offset dcxo_khz ref_khz = do {
     reg \<leftarrow> readl E (a7s_ccu_reg offset);
     let input = a7s_main_pll_input reg dcxo_khz ref_khz;
     let output0 = a7s_main_pll_output reg input 20 7 27;
     let output1 = a7s_main_pll_output reg input 16 7 26;
     printf ''  PLL '' [name, rate_off output0, rate_off output1, a7s_pll_lock_state reg]
       (rate_nums output0 @ rate_nums output1 @ [reg])
   }"

definition a7s_print_audio_plls :: "env \<Rightarrow> u32 \<Rightarrow> ('a machine_scheme, unit) state" where
  "a7s_print_audio_plls E ref_khz = do {
     reg \<leftarrow> readl E (a7s_ccu_reg PLL_AUDIO0_CTRL_REG);
     let rate = a7s_main_pll_output reg ref_khz 16 0x7f 27;
     _ \<leftarrow> printf ''  PLL AUDIO0='' [rate_off rate, a7s_pll_lock_state reg] (rate_nums rate @ [reg]);
     reg \<leftarrow> readl E (a7s_ccu_reg A7S_AUDIO1_PLL_CTRL);
     let div2 = a7s_main_pll_output reg ref_khz 20 7 27;
     let div5 = a7s_main_pll_output reg ref_khz 16 7 27;
     printf ''  PLL AUDIO1='' [rate_off div2, rate_off div5, a7s_pll_lock_state reg]
       (rate_nums div2 @ rate_nums div5 @ [reg])
   }"

definition a7s_clock_dump :: "env \<Rightarrow> a7s_clock_rates \<Rightarrow> ('a machine_scheme, unit) state" where
  "a7s_clock_dump E uninit = do {
     rates \<leftarrow> a7s_clock_read_rates E uninit;
     ref_reg \<leftarrow> readl E (a7s_ccu_reg PLL_REF_CTRL_REG);
     cpu_a_clk \<leftarrow> readl E A7S_CPU_A_CLK;
     cpu_b_clk \<leftarrow> readl E A7S_CPU_B_CLK;
     dsu_clk \<leftarrow> readl E A7S_DSU_CLK;
     _ \<leftarrow> printf ''A7S clock dump: read-only nominal rates'' [] [];
     _ \<leftarrow> printf ''  OSC DCXO='' [rate_off (dcxo rates), rate_off (ref rates), a7s_pll_lock_state ref_reg]
            (rate_nums (dcxo rates) @ rate_nums (ref rates) @ [ref_reg]);
     _ \<leftarrow> a7s_print_cpu_pll E ''BACK'' A7S_CPU_BACK_PLL_CTRL (cpu_back_pll rates);
     _ \<leftarrow> a7s_print_cpu_pll E ''A'' A7S_CPU_A_PLL_CTRL (cpu_a_pll rates);
     _ \<leftarrow> a7s_print_cpu_pll E ''B'' A7S_CPU_B_PLL_CTRL (cpu_b_pll rates);
     _ \<leftarrow> a7s_print_cpu_pll E ''DSU'' A7S_DSU_PLL_CTRL (dsu_pll rates);
     _ \<leftarrow> printf ''  CPU CLK A='' [rate_off (cpu_a rates), rate_off (cpu_b rates)]
            (rate_nums (cpu_a rates) @ [drop_bit 24 cpu_a_clk AND 7, cpu_a_clk] @
             rate_nums (cpu_b rates) @ [drop_bit 24 cpu_b_clk AND 7, cpu_b_clk]);
     _ \<leftarrow> printf ''  DSU CLK core='' [rate_off (dsu rates), rate_off (dsu_axi rates),
              rate_off (dsu_apb rates), rate_off (dsu_gic rates)]
            (rate_nums (dsu rates) @ rate_nums (dsu_axi rates) @ rate_nums (dsu_apb rates) @
             rate_nums (dsu_gic rates) @ [drop_bit 24 dsu_clk AND 7, dsu_clk]);
     _ \<leftarrow> a7s_print_single_pll E ''DDR'' PLL_DDR_CTRL_REG (ddr rates);
     peri_reg \<leftarrow> readl E (a7s_ccu_reg PLL_PERI0_CTRL_REG);
     _ \<leftarrow> printf ''  PLL PERI0 2x='' [rate_off (peri0_2x rates), rate_off (peri0_800 rates),
              rate_off (peri0_480 rates), a7s_pll_lock_state peri_reg]
            (rate_nums (peri0_2x rates) @ rate_nums (peri0_800 rates) @ rate_nums (peri0_480 rates) @
             [peri_reg]);
     peri_reg \<leftarrow> readl E (a7s_ccu_reg PLL_PERI1_CTRL_REG);
     _ \<leftarrow> printf ''  PLL PERI1 2x='' [rate_off (peri1_2x rates), rate_off (peri1_800 rates),
              rate_off (peri1_480 rates), a7s_pll_lock_state peri_reg]
            (rate_nums (peri1_2x rates) @ rate_nums (peri1_800 rates) @ rate_nums (peri1_480 rates) @
             [peri_reg]);
     _ \<leftarrow> a7s_print_main_single E ''GPU0'' PLL_GPU0_CTRL_REG (dcxo rates) (ref rates) 20 7;
     _ \<leftarrow> a7s_print_main_dual E ''VIDEO0'' PLL_VIDEO0_CTRL_REG (dcxo rates) (ref rates);
     _ \<leftarrow> a7s_print_main_dual E ''VIDEO1'' PLL_VIDEO1_CTRL_REG (dcxo rates) (ref rates);
     _ \<leftarrow> a7s_print_main_dual E ''VIDEO2'' PLL_VIDEO2_CTRL_REG (dcxo rates) (ref rates);
     _ \<leftarrow> a7s_print_main_single E ''VE0'' PLL_VE0_CTRL_REG (dcxo rates) (ref rates) 20 7;
     _ \<leftarrow> a7s_print_main_single E ''VE1'' PLL_VE1_CTRL_REG (dcxo rates) (ref rates) 20 7;
     _ \<leftarrow> a7s_print_audio_plls E (ref rates);
     _ \<leftarrow> a7s_print_single_pll E ''NPU'' PLL_NPU_CTRL_REG (npu rates);
     _ \<leftarrow> a7s_print_main_dual E ''DE'' PLL_DE_CTRL_REG (dcxo rates) (ref rates);
     _ \<leftarrow> a7s_print_single_pll E ''CCI'' PLL_CCI_CTRL_REG (cci rates);
     _ \<leftarrow> printf ''  BUS AHB='' [rate_off (ahb rates), rate_off (apb0 rates), rate_off (apb1 rates),
              rate_off (uart rates)]
            (rate_nums (ahb rates) @ rate_nums (apb0 rates) @ rate_nums (apb1 rates) @
             rate_nums (uart rates));
     printf ''  FABRIC GIC='' [rate_off (gic rates), rate_off (nsi rates), rate_off (mbus rates)]
       (rate_nums (gic rates) @ rate_nums (nsi rates) @ rate_nums (mbus rates))
   }"

end
