(* ===== verification/Clock_Diag_Correct.thy ===== *)
theory Clock_Diag_Correct
  imports Clock_Diag Pll_Correct
begin

text \<open>
  The diagnostics only observe the hardware, their 32-bit arithmetic is exact for every
  register content, and they decode the settings of the clock bring-up to the documented
  rates.
\<close>

unbundle bit_operations_syntax

section \<open>Observation only\<close>

fun observes :: "event \<Rightarrow> bool" where
  "observes (Rd _ _) = True"
| "observes (Print _ _ _) = True"
| "observes _ = False"

lemma printf_emits [emits_intros]: "P (Print f s n) \<Longrightarrow> emits P (printf f s n)"
  by (simp add: emits_def printf_def State_Monad.update_def State_Monad.get_def State_Monad.set_def)

lemma read_rates_observes [emits_intros]: "emits observes (a7s_clock_read_rates E rates)"
  unfolding a7s_clock_read_rates_def a7s_dcxo_rate_def by (intro emits_intros; simp)

lemma print_observes [emits_intros]:
  "emits observes (a7s_print_single_pll E name off rate)"
  "emits observes (a7s_print_cpu_pll E name addr rate)"
  "emits observes (a7s_print_main_single E name off d r sh m)"
  "emits observes (a7s_print_main_dual E name off d r)"
  "emits observes (a7s_print_audio_plls E r)"
  unfolding a7s_print_single_pll_def a7s_print_cpu_pll_def a7s_print_main_single_def
    a7s_print_main_dual_def a7s_print_audio_plls_def Let_def
  by (intro emits_intros; simp)+

lemma clock_dump_observes: "emits observes (a7s_clock_dump E uninit)"
  unfolding a7s_clock_dump_def by (intro emits_intros; simp)

text \<open>
  The clock dump is read-only: whatever the registers hold, it adds nothing but register
  reads and printed lines to the history, so it writes no register and waits for nothing.
\<close>
theorem a7s_clock_dump_read_only:
  "\<exists>es. trace (snd (run_state (a7s_clock_dump E uninit) w)) = es @ trace w \<and>
     (\<forall>e\<in>set es. observes e)"
  using clock_dump_observes unfolding emits_def by blast

theorem a7s_clock_dump_read_only_witness:
  "\<exists>es. trace (snd (run_state (a7s_clock_dump locked_dev
      \<lparr>dcxo = 0, ref = 0, cpu_back_pll = 0, cpu_a_pll = 0, cpu_b_pll = 0, dsu_pll = 0, cpu_a = 0,
       cpu_b = 0, dsu = 0, dsu_axi = 0, dsu_apb = 0, dsu_gic = 0, ddr = 0, peri0_2x = 0, peri0_800 = 0,
       peri0_480 = 0, peri1_2x = 0, peri1_800 = 0, peri1_480 = 0, npu = 0, de_3x = 0, cci = 0, ahb = 0,
       apb0 = 0, apb1 = 0, uart = 0, gic = 0, nsi = 0, mbus = 0\<rparr>) \<lparr>trace = []\<rparr>)) = es \<and>
     (\<forall>e\<in>set es. observes e)"
  using a7s_clock_dump_read_only [of locked_dev _ "\<lparr>trace = []\<rparr>"] by fastforce

section \<open>Exact arithmetic\<close>

text \<open>A register field as a number.\<close>

definition reg_field :: "u32 \<Rightarrow> nat \<Rightarrow> u32 \<Rightarrow> nat" where
  "reg_field reg sh m = unat (drop_bit sh reg AND m)"

lemma reg_field_le: "reg_field reg sh m \<le> unat m"
  unfolding reg_field_def by (rule unat_and_le)

lemma unat_field_Suc:
  "unat m < 2 ^ 32 - 1 \<Longrightarrow> unat ((drop_bit sh reg AND m) + 1) = reg_field reg sh m + 1"
  using reg_field_le [of reg sh m] by (simp add: reg_field_def unat_word_ariths)

lemma unat_div_rate: "unat (a7s_div_rate p d) = unat p div unat d"
  by (simp add: a7s_div_rate_def unat_div)

definition gate_on :: "u32 \<Rightarrow> nat \<Rightarrow> bool" where
  "gate_on reg g \<longleftrightarrow> reg AND (A7S_PLL_ENABLE OR push_bit g 1) = A7S_PLL_ENABLE OR push_bit g 1"

text \<open>The rates over natural numbers, without a bound.\<close>

definition main_pll_khz :: "u32 \<Rightarrow> nat \<Rightarrow> nat \<Rightarrow> u32 \<Rightarrow> nat \<Rightarrow> nat" where
  "main_pll_khz reg parent sh m g = (if gate_on reg g
     then parent * (reg_field reg 8 0xff + 1) div ((reg_field reg 1 1 + 1) * (reg_field reg sh m + 1)) else 0)"

definition linear_pll_khz :: "u32 \<Rightarrow> nat \<Rightarrow> nat" where
  "linear_pll_khz reg parent = (if gate_on reg 27
     then parent * reg_field reg 8 0xff div
       ((reg_field reg 16 0xf + 1) * (reg_field reg 20 3 + 1) * (reg_field reg 0 0xf + 1)) else 0)"

lemma main_pll_output_exact:
  assumes parent: "unat parent < 2 ^ 24" and m: "unat m \<le> 0x7f"
  shows "unat (a7s_main_pll_output reg parent sh m g) = main_pll_khz reg (unat parent) sh m g"
proof -
  let ?n = "(drop_bit 8 reg AND 0xff) + 1" and ?m1 = "(drop_bit 1 reg AND 1) + 1"
    and ?p = "(drop_bit sh reg AND m) + 1"
  have n: "unat ?n = reg_field reg 8 0xff + 1" and m1: "unat ?m1 = reg_field reg 1 1 + 1"
    and p: "unat ?p = reg_field reg sh m + 1"
    using m by (simp_all add: unat_field_Suc)
  have "unat parent * (reg_field reg 8 0xff + 1) \<le> (2 ^ 24 - 1) * 256"
    using parent reg_field_le [of reg 8 "0xff"] by (intro mult_le_mono) auto
  then have mul: "unat (parent * ?n) = unat parent * (reg_field reg 8 0xff + 1)"
    using n by (simp add: unat_word_ariths)
  have "(reg_field reg 1 1 + 1) * (reg_field reg sh m + 1) \<le> 2 * 128"
    using m reg_field_le [of reg 1 1] reg_field_le [of reg sh m] by (intro mult_le_mono) auto
  then have "unat (?m1 * ?p) = (reg_field reg 1 1 + 1) * (reg_field reg sh m + 1)"
    using m1 p by (simp add: unat_word_ariths)
  then show ?thesis
    using mul by (simp add: a7s_main_pll_output_def Let_def main_pll_khz_def gate_on_def unat_div_rate)
qed

lemma linear_pll_exact:
  assumes parent: "unat parent < 2 ^ 24"
  shows "unat (a7s_cpu_linear_pll_rate reg parent) = linear_pll_khz reg (unat parent)"
proof -
  let ?n = "drop_bit 8 reg AND 0xff" and ?p = "(drop_bit 16 reg AND 0xf) + 1"
    and ?m0 = "(drop_bit 20 reg AND 3) + 1" and ?m1 = "(reg AND 0xf) + 1"
  have "unat ?p = reg_field reg 16 0xf + 1" "unat ?m0 = reg_field reg 20 3 + 1"
    "unat ?m1 = reg_field reg 0 0xf + 1"
    using unat_field_Suc [of "0xf" 0 reg] by (simp_all add: unat_field_Suc)
  moreover have "(reg_field reg 16 0xf + 1) * (reg_field reg 20 3 + 1) * (reg_field reg 0 0xf + 1) \<le> 16 * 4 * 16"
    using reg_field_le [of reg 16 "0xf"] reg_field_le [of reg 20 3] reg_field_le [of reg 0 "0xf"]
    by (intro mult_le_mono) auto
  moreover from this have "(reg_field reg 16 0xf + 1) * (reg_field reg 20 3 + 1) \<le> 16 * 4"
    using reg_field_le [of reg 16 "0xf"] reg_field_le [of reg 20 3] by (intro mult_le_mono) auto
  ultimately have d: "unat (?p * ?m0 * ?m1) =
      (reg_field reg 16 0xf + 1) * (reg_field reg 20 3 + 1) * (reg_field reg 0 0xf + 1)"
    by (simp add: unat_word_ariths)
  have "unat parent * reg_field reg 8 0xff \<le> (2 ^ 24 - 1) * 255"
    using parent reg_field_le [of reg 8 "0xff"] by (intro mult_le_mono) auto
  then have "unat (parent * ?n) = unat parent * reg_field reg 8 0xff"
    by (simp add: unat_word_ariths reg_field_def)
  with d show ?thesis
    by (simp add: a7s_cpu_linear_pll_rate_def Let_def linear_pll_khz_def gate_on_def unat_div_rate)
qed

lemma ref_pll_as_main: "a7s_ref_pll_rate reg d = a7s_main_pll_output reg d 16 0x7f 27"
  by (simp add: a7s_ref_pll_rate_def a7s_main_pll_output_def)

lemma main_pll_khz_le: "main_pll_khz reg parent sh m g \<le> parent * 256"
proof -
  have "main_pll_khz reg parent sh m g \<le> parent * (reg_field reg 8 0xff + 1)"
    unfolding main_pll_khz_def by (simp add: div_le_dividend)
  also have "\<dots> \<le> parent * 256"
    using reg_field_le [of reg 8 "0xff"] by (intro mult_le_mono) auto
  finally show ?thesis .
qed

lemma pll_input_bound:
  assumes d: "dcxo_khz \<in> {19200, 24000, 26000}"
  shows "unat (a7s_main_pll_input reg dcxo_khz (a7s_ref_pll_rate ref_reg dcxo_khz)) < 2 ^ 24"
proof -
  have D: "unat dcxo_khz \<le> 26000" using d by auto
  then have "unat (a7s_ref_pll_rate ref_reg dcxo_khz) = main_pll_khz ref_reg (unat dcxo_khz) 16 0x7f 27"
    unfolding ref_pll_as_main by (intro main_pll_output_exact) auto
  moreover have "main_pll_khz ref_reg (unat dcxo_khz) 16 0x7f 27 \<le> 26000 * 256"
    using main_pll_khz_le [of ref_reg "unat dcxo_khz" 16 "0x7f" 27] D by linarith
  ultimately show ?thesis using D by (simp add: a7s_main_pll_input_def)
qed

text \<open>
  The 32-bit rate arithmetic is exact. For each oscillator rate the code can report and
  every content of the PLL registers, the reference rate, the outputs of the main PLLs driven
  from it or from the oscillator, and the linear CPU PLLs equal the same formula over the
  natural numbers: no product wraps around.
\<close>
theorem a7s_pll_rates_exact:
  assumes "dcxo_khz \<in> {19200, 24000, 26000}" and "unat m \<le> 0x7f"
  shows "unat (a7s_ref_pll_rate ref_reg dcxo_khz) = main_pll_khz ref_reg (unat dcxo_khz) 16 0x7f 27 \<and>
    unat (a7s_main_pll_output reg
        (a7s_main_pll_input reg dcxo_khz (a7s_ref_pll_rate ref_reg dcxo_khz)) sh m g) =
      main_pll_khz reg (if reg AND 0x01000000 \<noteq> 0
        then main_pll_khz ref_reg (unat dcxo_khz) 16 0x7f 27 else unat dcxo_khz) sh m g \<and>
    unat (a7s_cpu_linear_pll_rate reg dcxo_khz) = linear_pll_khz reg (unat dcxo_khz)"
proof -
  have D: "unat dcxo_khz < 2 ^ 24" using assms(1) by auto
  have ref: "unat (a7s_ref_pll_rate ref_reg dcxo_khz) = main_pll_khz ref_reg (unat dcxo_khz) 16 0x7f 27"
    unfolding ref_pll_as_main using D by (intro main_pll_output_exact) auto
  moreover have "unat (a7s_main_pll_input reg dcxo_khz (a7s_ref_pll_rate ref_reg dcxo_khz)) =
      (if reg AND 0x01000000 \<noteq> 0 then main_pll_khz ref_reg (unat dcxo_khz) 16 0x7f 27 else unat dcxo_khz)"
    using ref by (simp add: a7s_main_pll_input_def)
  ultimately show ?thesis
    using main_pll_output_exact [OF pll_input_bound [OF assms(1)] assms(2)] linear_pll_exact [OF D] by simp
qed

theorem a7s_pll_rates_exact_witness:
  "unat (a7s_ref_pll_rate 0xe9636300 24000) = main_pll_khz 0xe9636300 24000 16 0x7f 27 \<and>
   unat (a7s_cpu_linear_pll_rate 0xe8003c00 24000) = linear_pll_khz 0xe8003c00 24000"
  using a7s_pll_rates_exact [of 24000 7 "0xe9636300" "0xe8003c00" 20 27] by simp

section \<open>The rates of the bring-up\<close>

lemma reg_field_of_mask:
  fixes c M V m :: "'a::len word"
  assumes "c AND M = V" and "push_bit k m AND M = push_bit k m" and "drop_bit k (push_bit k m) = m"
  shows "drop_bit k c AND m = drop_bit k V AND m"
proof (rule bit_word_eqI)
  fix n
  assume "n < LENGTH('a)"
  have "bit M (k + n)" if "bit m n"
  proof -
    have "bit (drop_bit k (push_bit k m)) n" using that assms(3) by simp
    then have "bit (push_bit k m) (k + n)" by (simp add: bit_drop_bit_eq)
    then show ?thesis using assms(2) by (metis bit_and_iff)
  qed
  then show "bit (drop_bit k c AND m) n = bit (drop_bit k V AND m) n"
    using assms(1) by (auto simp: bit_and_iff bit_drop_bit_eq)
qed

lemma mask_sub:
  fixes c M V m :: "'a::len word"
  assumes "c AND M = V" and "m AND M = m"
  shows "c AND m = V AND m"
proof -
  have "c AND m = (c AND M) AND m" using assms(2) by (metis and.assoc and.commute)
  then show ?thesis using assms(1) by simp
qed

lemma ref_pll_24mhz:
  assumes "ref_pll_factors dcxo_hz = Some (n, d)"
    and "c AND (pll_required ref_pll OR config_mask ref_pll) =
      pll_required ref_pll OR (push_bit 16 (d - 1) OR push_bit 8 (n - 1))"
  shows "a7s_ref_pll_rate c (dcxo_hz div 1000) = 24000"
proof -
  have M: "pll_required ref_pll OR config_mask ref_pll = 0xe97fff02"
    by (simp add: ref_pll_def pll_required_def)
  have c: "c AND 0xe97fff02 = 0xe9000000 OR (push_bit 16 (d - 1) OR push_bit 8 (n - 1))"
    using assms(2) unfolding M by (simp add: ref_pll_def pll_required_def)
  have on: "c AND 0x88000000 = (0xe9000000 OR (push_bit 16 (d - 1) OR push_bit 8 (n - 1))) AND 0x88000000"
    by (rule mask_sub [OF c]) simp
  note f = reg_field_of_mask [OF c]
  have n: "drop_bit 8 c AND 0xff = drop_bit 8 (0xe9000000 OR (push_bit 16 (d - 1) OR push_bit 8 (n - 1))) AND 0xff"
    by (rule f) simp_all
  have m1: "drop_bit 1 c AND 1 = drop_bit 1 (0xe9000000 OR (push_bit 16 (d - 1) OR push_bit 8 (n - 1))) AND 1"
    by (rule f) simp_all
  have p: "drop_bit 16 c AND 0x7f = drop_bit 16 (0xe9000000 OR (push_bit 16 (d - 1) OR push_bit 8 (n - 1))) AND 0x7f"
    by (rule f) simp_all
  show ?thesis
    using assms(1) on n m1 p
    by (auto simp: ref_pll_factors_def a7s_ref_pll_rate_def Let_def a7s_div_rate_def split: if_splits)
qed

lemma peri_pll_rates:
  assumes "pll_configured (peri_pll off 100) c"
  shows "a7s_main_pll_input c d r = r" "a7s_main_pll_output c 24000 20 7 27 = 1200000"
    "a7s_main_pll_output c 24000 16 7 26 = 800000" "a7s_main_pll_output c 24000 2 7 25 = 480000"
proof -
  have req: "c AND 0xee000000 = 0xee000000" and cfg: "c AND 0x0177ff1e = 0x01126310"
    using assms by (simp_all add: pll_configured_def peri_pll_def pll_required_def)
  have on: "c AND 0x88000000 = 0x88000000" "c AND 0x84000000 = 0x84000000" "c AND 0x82000000 = 0x82000000"
    using mask_sub [OF req, of "0x88000000"] mask_sub [OF req, of "0x84000000"]
      mask_sub [OF req, of "0x82000000"] by simp_all
  have sel: "c AND 0x01000000 = 0x01000000" using mask_sub [OF cfg, of "0x01000000"] by simp
  have "drop_bit 8 c AND 0xff = 99" "drop_bit 1 c AND 1 = 0" "drop_bit 20 c AND 7 = 1"
    "drop_bit 16 c AND 7 = 2" "drop_bit 2 c AND 7 = 4"
    using reg_field_of_mask [OF cfg, of 8 "0xff"] reg_field_of_mask [OF cfg, of 1 1]
      reg_field_of_mask [OF cfg, of 20 7] reg_field_of_mask [OF cfg, of 16 7]
      reg_field_of_mask [OF cfg, of 2 7] by simp_all
  then show "a7s_main_pll_output c 24000 20 7 27 = 1200000"
    "a7s_main_pll_output c 24000 16 7 26 = 800000" "a7s_main_pll_output c 24000 2 7 25 = 480000"
    using on by (simp_all add: a7s_main_pll_output_def Let_def a7s_div_rate_def)
  show "a7s_main_pll_input c d r = r" using sel by (simp add: a7s_main_pll_input_def)
qed

lemma nominal_bus_rates:
  "c AND 0x0300001f = 0x03000002 \<Longrightarrow> a7s_standard_bus_rate c d 1200000 = 200000"
  "c AND 0x0300001f = 0x03000005 \<Longrightarrow> a7s_standard_bus_rate c d 1200000 = 100000"
  "c AND 0x0700001f = 0x04000013 \<Longrightarrow> a7s_uart_rate c d 1200000 480000 = 24000"
proof -
  show "a7s_standard_bus_rate c d 1200000 = 200000" if c: "c AND 0x0300001f = 0x03000002"
    using reg_field_of_mask [OF c, of 24 3] reg_field_of_mask [OF c, of 0 "0x1f"]
    by (simp add: a7s_standard_bus_rate_def Let_def a7s_div_rate_def)
  show "a7s_standard_bus_rate c d 1200000 = 100000" if c: "c AND 0x0300001f = 0x03000005"
    using reg_field_of_mask [OF c, of 24 3] reg_field_of_mask [OF c, of 0 "0x1f"]
    by (simp add: a7s_standard_bus_rate_def Let_def a7s_div_rate_def)
  show "a7s_uart_rate c d 1200000 480000 = 24000" if c: "c AND 0x0700001f = 0x04000013"
    using reg_field_of_mask [OF c, of 24 7] reg_field_of_mask [OF c, of 0 "0x1f"]
    by (simp add: a7s_uart_rate_def Let_def a7s_div_rate_def)
qed

text \<open>
  The diagnostics confirm the bring-up. A reference PLL register with the factors that
  \<open>a7s_ref_pll_init\<close> chooses for its oscillator decodes to 24 MHz; a peripheral PLL register
  configured by \<open>a7s_peri_pll_init\<close> with factor 100 is driven from it and decodes to 1200, 800
  and 480 MHz; and the nominal bus settings then decode to 200 MHz for AHB, 100 MHz for APB0 and
  APB1 and 24 MHz for the UARTs.
\<close>
theorem a7s_clock_nominal_rates:
  assumes "ref_pll_factors dcxo_hz = Some (n, d)"
    and "ref_reg AND (pll_required ref_pll OR config_mask ref_pll) =
      pll_required ref_pll OR (push_bit 16 (d - 1) OR push_bit 8 (n - 1))"
    and "pll_configured (peri_pll off 100) peri_reg"
    and "ahb_reg AND 0x0300001f = A7S_AHB_SOURCE_PERI0_600 OR A7S_AHB_DIV_3"
    and "apb_reg AND 0x0300001f = A7S_APB_SOURCE_PERI0_600 OR A7S_APB_DIV_6"
    and "uart_reg AND 0x0700001f = A7S_UART_SOURCE_PERI0_480 OR A7S_UART_DIV_20"
  shows "let khz = dcxo_hz div 1000; ref_khz = a7s_ref_pll_rate ref_reg khz;
             input = a7s_main_pll_input peri_reg khz ref_khz;
             peri2x = a7s_main_pll_output peri_reg input 20 7 27;
             peri480 = a7s_main_pll_output peri_reg input 2 7 25
         in ref_khz = 24000 \<and> peri2x = 1200000 \<and>
            a7s_main_pll_output peri_reg input 16 7 26 = 800000 \<and> peri480 = 480000 \<and>
            a7s_standard_bus_rate ahb_reg khz peri2x = 200000 \<and>
            a7s_standard_bus_rate apb_reg khz peri2x = 100000 \<and>
            a7s_uart_rate uart_reg khz peri2x peri480 = 24000"
  using ref_pll_24mhz [OF assms(1,2)] peri_pll_rates [OF assms(3)] nominal_bus_rates assms(4-)
  by (simp add: Let_def)

theorem a7s_clock_nominal_rates_witness:
  "ref_pll_factors 26000000 = Some (96, 104) \<and> a7s_ref_pll_rate 0xe9675f00 26000 = 24000 \<and>
   a7s_standard_bus_rate 0x03000002 26000 (a7s_main_pll_output 0xef126310 24000 20 7 27) = 200000"
  using a7s_clock_nominal_rates [of 26000000 96 104 "0xe9675f00" "0xa0" "0xef126310" "0x03000002"
      "0x03000005" "0x04000013"]
  by (simp add: ref_pll_factors_def ref_pll_def pll_required_def pll_configured_def peri_pll_def Let_def
      a7s_main_pll_input_def) (elim conjE, simp)

end
