(* ===== verification/Platform_Correct.thy ===== *)
theory Platform_Correct
  imports Platform
begin

text \<open>
  The board hooks: the extended register page of the PMIC is closed again on every path, a
  rail ends up at the least offered voltage that satisfies the request without disturbing its
  neighbours, pin setup changes only the fields of the listed pins, and the SDC2 clock setup
  never exceeds the requested rate.
\<close>

unbundle bit_operations_syntax

section \<open>The extended page\<close>

text \<open>The last value a history tried to write to a PMIC register.\<close>

fun pmic_last :: "history \<Rightarrow> u8 \<Rightarrow> u8 option" where
  "pmic_last [] reg = None"
| "pmic_last (Call Pmic_bus_write [a, r, v] s z # t) reg =
     (if reg = ucast r then Some (ucast v) else pmic_last t reg)"
| "pmic_last (_ # t) reg = pmic_last t reg"

text \<open>The page selector, the efuse control and the write lock are closed.\<close>

definition page_normal :: "history \<Rightarrow> bool" where
  "page_normal t \<longleftrightarrow> (\<forall>reg\<in>{AXP8191_EXT_ADDR, AXP8191_EFUSE_CTRL, AXP8191_WRITE_LOCK}.
     pmic_last t reg \<in> {None, Some 0})"

lemma wp_pmic_bus_init [wp_simps]:
  "wp (pmic_bus_init E d a) Q w \<longleftrightarrow> wp (call E Pmic_bus_init [d, a]) Q w"
  by (simp add: pmic_bus_init_def)

lemma wp_pmic_bus_read [wp_simps]:
  "wp (pmic_bus_read E a reg) Q w \<longleftrightarrow>
     wp (call_out E Pmic_bus_read [a, ucast reg]) (\<lambda>c. Q (fst c, ucast (snd c))) w"
  by (simp add: pmic_bus_read_def wp_simps Let_def)

lemma wp_pmic_bus_write [wp_simps]:
  "wp (pmic_bus_write E a reg v) Q w \<longleftrightarrow> wp (call E Pmic_bus_write [a, ucast reg, ucast v]) Q w"
  by (simp add: pmic_bus_write_def)

lemma wp_trivial: "wp m (\<lambda>_ _. True) w"
  by (simp add: wp_def)

lemma ucast_u8_u32_u8 [simp]: "ucast (ucast (a :: u8) :: u32) = a"
  by (rule bit_word_eqI) (simp add: bit_simps)

lemma restore_page_closes:
  "wp (axp8191_restore_page E status) (\<lambda>_ w'. page_normal (trace w')) w"
  by (simp add: axp8191_restore_page_def wp_simps Let_def page_normal_def)

lemma update_bits_page:
  assumes "page_normal (trace w)" and "reg \<notin> {AXP8191_EXT_ADDR, AXP8191_EFUSE_CTRL, AXP8191_WRITE_LOCK}"
  shows "wp (a7s_axp8191_update_bits E reg m v) (\<lambda>_ w'. page_normal (trace w')) w"
  using assms by (simp add: a7s_axp8191_update_bits_def wp_simps Let_def page_normal_def)

text \<open>The PMIC code changes nothing of the state but the ready flag.\<close>

lemma update_bits_state:
  fixes w :: "'a board_scheme"
  shows "wp (a7s_axp8191_update_bits E reg m v)
     (\<lambda>_ w'. a7s_axp8191_ready w' = a7s_axp8191_ready w \<and> mem w' = mem w) w"
  by (simp add: a7s_axp8191_update_bits_def wp_simps Let_def)

lemma ext_restore_state:
  fixes w :: "'a board_scheme"
  shows "wp (axp8191_ext_config E)
      (\<lambda>_ w'. a7s_axp8191_ready w' = a7s_axp8191_ready w \<and> mem w' = mem w) w"
    and "wp (axp8191_restore_page E status)
      (\<lambda>_ w'. a7s_axp8191_ready w' = a7s_axp8191_ready w \<and> mem w' = mem w) w"
  by (simp_all add: axp8191_ext_config_def axp8191_restore_page_def wp_simps Let_def)

text \<open>The probe leaves the ready flag and the page in step with its result.\<close>

lemma init_outcome:
  assumes "page_normal (trace w)"
  shows "wp (a7s_axp8191_init E)
    (\<lambda>r w'. page_normal (trace w') \<and> (a7s_axp8191_ready w' \<longleftrightarrow> r = 0) \<and> mem w' = mem w) w"
proof (cases "a7s_axp8191_ready w")
  case True
  then show ?thesis using assms by (simp add: a7s_axp8191_init_def wp_simps)
next
  case False
  have page [simp]: "page_normal (Call Pmic_bus_init xs r z # t) = page_normal t"
    "page_normal (Call Pmic_bus_read xs r z # t) = page_normal t" for xs r z t
    by (simp_all add: page_normal_def)
  have tail: "wp (do {
         status \<leftarrow> axp8191_restore_page E status;
         if status \<noteq> 0 then ret status else do {
         status \<leftarrow> a7s_axp8191_update_bits E AXP8191_AP_RESET_CTRL 0x08 0x08;
         if status \<noteq> 0 then ret status else do {
         _ \<leftarrow> State_Monad.update (\<lambda>w. w\<lparr>a7s_axp8191_ready := True\<rparr>);
         ret 0 }}})
      (\<lambda>r w'. page_normal (trace w') \<and> (a7s_axp8191_ready w' \<longleftrightarrow> r = 0) \<and> mem w' = mem w) v"
    if v: "\<not> a7s_axp8191_ready v" "mem v = mem w" for v :: "'a board_scheme" and status
    apply (rule wp_bindI)
    apply (rule wp_mono [OF wp_conj [OF restore_page_closes ext_restore_state(2)]])
    apply (rule wp_ifI)
     apply (rule wp_returnI, simp add: v)
    apply (rule wp_bindI)
    apply (rule wp_mono [OF wp_conj [OF update_bits_page update_bits_state]])
      apply (auto simp: wp_simps v)
    done
  show ?thesis
    unfolding a7s_axp8191_init_def
    apply (simp add: wp_simps False Let_def assms)
    apply (intro impI conjI)
    apply (rule wp_mono [OF ext_restore_state(1)])
    apply (rule tail)
     apply (simp_all add: False)
    done
qed

text \<open>
  C11: whatever the PMIC bus answers, the AXP8191 probe closes what it opened: from a history
  in which the page selector, the efuse control and the write lock were left at 0 or never
  written, every path of \<open>a7s_axp8191_init\<close>, failed accesses included, ends in such a history
  again. The ready flag is set exactly when the probe returns 0, and memory is not touched.
\<close>
theorem a7s_axp8191_init_restores:
  assumes "page_normal (trace w)" and "run_state (a7s_axp8191_init E) w = (r, w')"
  shows "page_normal (trace w') \<and> (a7s_axp8191_ready w' \<longleftrightarrow> r = 0) \<and> mem w' = mem w"
  using wp_runD [OF init_outcome [OF assms(1)] assms(2)] .

text \<open>A board at reset, and a PMIC that identifies itself and then fails every write.\<close>

definition reset_board :: board where
  "reset_board = \<lparr>trace = [], mem = (\<lambda>_. 0), a7s_axp8191_ready = False, mmc_devices = (\<lambda>_. 0)\<rparr>"

definition failing_pmic :: env where
  "failing_pmic = \<lparr>dev_read = ram_dev,
     ext_call = (\<lambda>t f args. if f = Pmic_bus_read then (0, 3) else if f = Pmic_bus_write then (-5, 0)
                            else (0, 0))\<rparr>"

theorem a7s_axp8191_init_restores_witness:
  "\<exists>r w'. run_state (a7s_axp8191_init failing_pmic) reset_board = (r, w') \<and> page_normal (trace w') \<and>
     (a7s_axp8191_ready w' \<longleftrightarrow> r = 0)"
proof -
  obtain r w' where run: "run_state (a7s_axp8191_init failing_pmic) reset_board = (r, w')" by fastforce
  have "page_normal (trace reset_board)" by (simp add: page_normal_def reset_board_def)
  then show ?thesis using a7s_axp8191_init_restores [OF _ run] run by blast
qed

section \<open>Setting a rail\<close>

fun pmic_writes :: "u8 \<Rightarrow> event \<Rightarrow> bool" where
  "pmic_writes reg (Call Pmic_bus_write [a, r, v] s z) \<longleftrightarrow> reg = ucast r"
| "pmic_writes reg _ = False"

text \<open>
  The documented behaviour of the PMIC register file on its normal page, for a content
  function: a successful read returns the content, a successful write sets it, and nothing but
  a write to a register changes its content.
\<close>

definition pmic_stores :: "env \<Rightarrow> (history \<Rightarrow> u8 \<Rightarrow> u8) \<Rightarrow> bool" where
  "pmic_stores E content \<longleftrightarrow>
     (\<forall>t reg. page_normal t \<longrightarrow> fst (ext_call E t Pmic_bus_read [AXP8191_RUNTIME_ADDR, ucast reg]) = 0 \<longrightarrow>
        ucast (snd (ext_call E t Pmic_bus_read [AXP8191_RUNTIME_ADDR, ucast reg])) = content t reg) \<and>
     (\<forall>t reg v z. page_normal t \<longrightarrow>
        content (Call Pmic_bus_write [AXP8191_RUNTIME_ADDR, ucast reg, ucast v] 0 z # t) reg = v) \<and>
     (\<forall>t reg e. \<not> pmic_writes reg e \<longrightarrow> content (e # t) reg = content t reg)"

lemma pmic_stores_frame:
  "pmic_stores E content \<Longrightarrow> \<forall>e\<in>set es. \<not> pmic_writes reg e \<Longrightarrow> content (es @ t) reg = content t reg"
  by (induction es) (auto simp: pmic_stores_def)

lemma page_normal_read [simp]: "page_normal (Call Pmic_bus_read xs r z # t) = page_normal t"
  by (simp add: page_normal_def)

lemma pmic_emits [emits_intros]:
  assumes "\<And>xs r z. P (Call Pmic_bus_read xs r z)"
  shows "emits P (pmic_bus_read E a reg)"
    and "(\<And>r z. P (Call Pmic_bus_write [a, ucast reg, ucast v] r z)) \<Longrightarrow> emits P (pmic_bus_write E a reg v)"
  unfolding pmic_bus_read_def pmic_bus_write_def
  by (intro emits_intros; auto simp: assms split: prod.split intro!: emits_intros)+

lemma update_bits_emits [emits_intros]:
  assumes "\<And>xs r z. P (Call Pmic_bus_read xs r z)"
    and "\<And>v r z. P (Call Pmic_bus_write [AXP8191_RUNTIME_ADDR, ucast reg, v] r z)"
  shows "emits P (a7s_axp8191_update_bits E reg m v)"
  unfolding a7s_axp8191_update_bits_def
  by (intro emits_intros; auto simp: assms split: prod.split intro!: emits_intros)

lemma update_bits_content:
  assumes pm: "pmic_stores E content" and page: "page_normal (trace w)"
    and reg: "reg \<notin> {AXP8191_EXT_ADDR, AXP8191_EFUSE_CTRL, AXP8191_WRITE_LOCK}"
  shows "wp (a7s_axp8191_update_bits E reg m v) (\<lambda>r w'. page_normal (trace w') \<and>
      (r = 0 \<longrightarrow> content (trace w') reg = (content (trace w) reg AND NOT m) OR (v AND m)) \<and>
      (\<forall>reg'. reg' \<noteq> reg \<longrightarrow> content (trace w') reg' = content (trace w) reg')) w"
proof -
  let ?a = "[AXP8191_RUNTIME_ADDR, ucast reg]"
  let ?c = "ext_call E (trace w) Pmic_bus_read ?a"
  let ?t = "Call Pmic_bus_read ?a (fst ?c) (snd ?c) # trace w"
  have read: "ucast (snd ?c) = content (trace w) reg" if "fst ?c = 0"
    using pm page that by (simp add: pmic_stores_def)
  have keep: "content ?t reg' = content (trace w) reg'" for reg'
    using pm by (simp add: pmic_stores_def)
  have wr: "content (Call Pmic_bus_write [AXP8191_RUNTIME_ADDR, ucast reg, ucast x] 0 z # ?t) reg = x" for x z
    using pm page by (simp add: pmic_stores_def)
  have other: "content (Call Pmic_bus_write [AXP8191_RUNTIME_ADDR, ucast reg, x] r z # ?t) reg' =
      content (trace w) reg'" if "reg' \<noteq> reg" for x r z reg'
    using pm that keep by (simp add: pmic_stores_def)
  have page': "page_normal (Call Pmic_bus_write [AXP8191_RUNTIME_ADDR, ucast reg, x] r z # ?t)" for x r z
    using page reg by (auto simp: page_normal_def)
  show ?thesis
    unfolding a7s_axp8191_update_bits_def wp_simps Let_def
    using page keep read wr other page' by (auto simp: wp_simps Let_def)
qed

text \<open>The registers the probe writes.\<close>

definition probe_regs :: "u8 set" where
  "probe_regs = {AXP8191_EXT_ADDR, AXP8191_EFUSE_CTRL, AXP8191_WRITE_LOCK, 0x00, AXP8191_AP_RESET_CTRL}"

lemma init_emits: "reg \<notin> probe_regs \<Longrightarrow> emits (\<lambda>e. \<not> pmic_writes reg e) (a7s_axp8191_init E)"
  unfolding a7s_axp8191_init_def axp8191_ext_config_def axp8191_restore_page_def Let_def
    pmic_bus_init_def
  by (intro emits_intros; auto simp: probe_regs_def split: prod.split intro!: emits_intros)

lemma init_content:
  assumes "pmic_stores E content" and "reg \<notin> probe_regs"
  shows "content (trace (snd (run_state (a7s_axp8191_init E) w))) reg = content (trace w) reg"
  using emitsE [OF init_emits [OF assms(2)], of E w] pmic_stores_frame [OF assms(1)] by metis

lemma rail_regs:
  assumes "rail \<in> set a7s_dram_rails"
  shows "voltage_reg rail \<notin> probe_regs" "enable_reg rail \<notin> probe_regs"
    "enable_reg rail \<noteq> voltage_reg rail" "unat (voltage_rail rail) < length voltage_descs"
  using assms by (auto simp: a7s_dram_rails_def mk_rail_def probe_regs_def voltage_descs_def)

lemma find_rail_member: "a7s_axp8191_find_rail name = Some rail \<Longrightarrow> rail \<in> set a7s_dram_rails"
  by (auto simp: a7s_axp8191_find_rail_def find_Some_iff)

text \<open>An accepted selector is the one of the least suitable voltage and fits the mask.\<close>

lemma rail_selector_least:
  assumes rail: "rail \<in> set a7s_dram_rails" and vol: "0 < set_vol" "set_vol < 2 ^ 31"
    and sel: "rail_selector rail set_vol = Some s"
  shows "\<exists>v. least_volt (voltage_descs ! unat (voltage_rail rail))
      (clamp_mv (voltage_rail rail) (nat set_vol)) (unat s) v"
    and "s AND NOT (ucast (voltage_mask rail)) = 0"
proof -
  have mv: "unat (word_of_int set_vol :: u32) = nat set_vol"
    using vol by (simp add: unat_eq_nat_uint uint_word_of_int)
  obtain s' v where s': "a7s_axp8191_voltage_selector (voltage_rail rail) (word_of_int set_vol) (Some 0) =
      (0, Some s')" "least_volt (voltage_descs ! unat (voltage_rail rail))
      (clamp_mv (voltage_rail rail) (nat set_vol)) (unat s') v"
    using voltage_selector_picks [OF rail_regs(4) [OF rail], of "word_of_int set_vol" 0] mv by auto
  then show "\<exists>v. least_volt (voltage_descs ! unat (voltage_rail rail))
      (clamp_mv (voltage_rail rail) (nat set_vol)) (unat s) v"
    and "s AND NOT (ucast (voltage_mask rail)) = 0"
    using sel by (auto simp: rail_selector_def split: if_splits)
qed

lemma masked_selector:
  fixes s :: u32 and m old :: u8
  assumes "s AND NOT (ucast m) = 0"
  shows "unat (((old AND NOT m) OR (ucast s AND m)) AND m) = unat s"
    and "((old AND NOT m) OR (ucast s AND m)) AND NOT m = old AND NOT m"
proof -
  have b: "bit s n \<longrightarrow> n < 8 \<and> bit m n" if "n < 32" for n
    using arg_cong [OF assms, of "\<lambda>w. bit w n"] that
    by (auto simp: bit_simps dest: bit_imp_le_length)
  have "ucast (((old AND NOT m) OR (ucast s AND m)) AND m) = s"
    apply (rule bit_word_eqI)
    subgoal for n using b [of n] by (auto simp: bit_simps)
    done
  then show "unat (((old AND NOT m) OR (ucast s AND m)) AND m) = unat s"
    by (metis unat_ucast_8_32)
  show "((old AND NOT m) OR (ucast s AND m)) AND NOT m = old AND NOT m"
    by (rule bit_word_eqI) (auto simp: bit_simps)
qed

lemma set_rail_outcome:
  assumes pm: "pmic_stores E content" and page: "page_normal (trace w)"
    and rail: "a7s_axp8191_find_rail name = Some rail"
    and vol: "0 < set_vol" and on: "0 \<le> onoff"
  shows "wp (a7s_axp8191_set_rail E name set_vol onoff) (\<lambda>r w'. r = 0 \<longrightarrow>
    (\<exists>s. rail_selector rail set_vol = Some s \<and>
      content (trace w') (voltage_reg rail) =
        (content (trace w) (voltage_reg rail) AND NOT (voltage_mask rail)) OR (ucast s AND voltage_mask rail)) \<and>
    content (trace w') (enable_reg rail) =
      (content (trace w) (enable_reg rail) AND NOT (push_bit (enable_bit rail) 1)) OR
      ((if onoff \<noteq> 0 then push_bit (enable_bit rail) 1 else 0) AND push_bit (enable_bit rail) 1) \<and>
    (\<forall>reg. reg \<notin> probe_regs \<union> {voltage_reg rail, enable_reg rail} \<longrightarrow>
       content (trace w') reg = content (trace w) reg)) w"
proof -
  note regs = rail_regs [OF find_rail_member [OF rail]]
  have lock: "voltage_reg rail \<notin> {AXP8191_EXT_ADDR, AXP8191_EFUSE_CTRL, AXP8191_WRITE_LOCK}"
    "enable_reg rail \<notin> {AXP8191_EXT_ADDR, AXP8191_EFUSE_CTRL, AXP8191_WRITE_LOCK}"
    using regs by (auto simp: probe_regs_def)
  have init: "wp (a7s_axp8191_init E) (\<lambda>r w'. page_normal (trace w') \<and>
      (\<forall>reg. reg \<notin> probe_regs \<longrightarrow> content (trace w') reg = content (trace w) reg)) w"
    using init_outcome [OF page, of E] init_content [OF pm] by (auto simp: wp_def)
  show ?thesis
  proof (cases "rail_selector rail set_vol")
    case None
    show ?thesis
      unfolding a7s_axp8191_set_rail_def rail option.case
      apply (rule wp_bindI)
      apply (rule wp_mono [OF wp_trivial])
      apply (simp only: vol None if_True option.case)
      apply (simp add: wp_simps)
      done
  next
    case (Some s)
    show ?thesis
      unfolding a7s_axp8191_set_rail_def rail option.case
      apply (rule wp_bindI)
      apply (rule wp_mono [OF init])
      apply (rule wp_ifI, rule wp_returnI, simp)
      apply (rule wp_bindI)
      apply (simp only: vol Some if_True option.case)
      apply (rule wp_mono [OF update_bits_content [OF pm _ lock(1)]], blast)
      apply (rule wp_ifI, rule wp_returnI, simp)
      apply (rule wp_ifI, rule wp_returnI, use on in simp)
      apply (rule wp_mono [OF update_bits_content [OF pm _ lock(2)]], blast)
      using regs Some by auto
  qed
qed

text \<open>
  C10: setting a rail. On a PMIC that behaves as a register file, when \<open>a7s_axp8191_set_rail\<close>
  returns 0 for a positive voltage, the voltage field of the rail holds the selector of the
  least voltage the rail offers that is not below the (clamped) request, the other bits of that
  register are unchanged, the enable bit of the rail is as asked with its neighbours unchanged,
  and no other register is changed except the five of the probe.
\<close>
theorem a7s_axp8191_set_rail_correct:
  assumes "pmic_stores E content" and "page_normal (trace w)"
    and "a7s_axp8191_find_rail name = Some rail"
    and "0 < set_vol" and "set_vol < 2 ^ 31" and "0 \<le> onoff"
    and "run_state (a7s_axp8191_set_rail E name set_vol onoff) w = (0, w')"
  shows "(\<exists>v. least_volt (voltage_descs ! unat (voltage_rail rail))
        (clamp_mv (voltage_rail rail) (nat set_vol))
        (unat (content (trace w') (voltage_reg rail) AND voltage_mask rail)) v) \<and>
    content (trace w') (voltage_reg rail) AND NOT (voltage_mask rail) =
      content (trace w) (voltage_reg rail) AND NOT (voltage_mask rail) \<and>
    content (trace w') (enable_reg rail) =
      (if onoff \<noteq> 0 then content (trace w) (enable_reg rail) OR push_bit (enable_bit rail) 1
       else content (trace w) (enable_reg rail) AND NOT (push_bit (enable_bit rail) 1)) \<and>
    (\<forall>reg. reg \<notin> probe_regs \<union> {voltage_reg rail, enable_reg rail} \<longrightarrow>
       content (trace w') reg = content (trace w) reg)"
proof -
  note out = wp_runD [OF set_rail_outcome [OF assms(1-4,6)] assms(7)]
  then obtain s where s: "rail_selector rail set_vol = Some s"
    and v: "content (trace w') (voltage_reg rail) =
      (content (trace w) (voltage_reg rail) AND NOT (voltage_mask rail)) OR (ucast s AND voltage_mask rail)"
    by auto
  note sel = rail_selector_least [OF find_rail_member [OF assms(3)] assms(4,5) s]
  have bits: "(x AND NOT b) OR ((if c then b else 0) AND b) = (if c then x OR b else x AND NOT b)"
    for x b :: u8 and c
    by (rule bit_word_eqI) (auto simp: bit_simps)
  show ?thesis
    using out sel(1) masked_selector [OF sel(2)] v unfolding bits by auto
qed

text \<open>A PMIC whose registers hold what was last written, and that identifies itself.\<close>

definition ram_pmic :: "history \<Rightarrow> u8 \<Rightarrow> u8" where
  "ram_pmic t reg = (case pmic_last t reg of None \<Rightarrow> if reg = AXP8191_CHIP_ID then AXP8191_CHIP_ID_A else 0
                     | Some v \<Rightarrow> v)"

definition ram_board :: env where
  "ram_board = \<lparr>dev_read = ram_dev, ext_call = (\<lambda>t f args.
     if f = Pmic_bus_read then (0, ucast (ram_pmic t (ucast (args ! 1)))) else (0, 0))\<rparr>"

lemma pmic_last_frame: "\<not> pmic_writes reg e \<Longrightarrow> pmic_last (e # t) reg = pmic_last t reg"
  by (cases "(reg, e)" rule: pmic_writes.cases) auto

lemma ram_board_stores: "pmic_stores ram_board ram_pmic"
  unfolding pmic_stores_def by (simp add: ram_board_def ram_pmic_def pmic_last_frame)

lemma ram_board_set_rail: "wp (a7s_axp8191_set_rail ram_board ''cldo5'' 1800 1) (\<lambda>r _. r = 0) reset_board"
  by (simp add: a7s_axp8191_set_rail_def a7s_axp8191_find_rail_def a7s_dram_rails_def mk_rail_def
      rail_selector_def a7s_axp8191_voltage_selector_def voltage_descs_def cldo_ranges_def mk_range_def
      range_max_mv_def a7s_axp8191_init_def axp8191_ext_config_def axp8191_restore_page_def
      a7s_axp8191_update_bits_def wp_simps Let_def reset_board_def ram_board_def ram_pmic_def)

theorem a7s_axp8191_set_rail_correct_witness:
  "\<exists>w' v rail. run_state (a7s_axp8191_set_rail ram_board ''cldo5'' 1800 1) reset_board = (0, w') \<and>
     a7s_axp8191_find_rail ''cldo5'' = Some rail \<and>
     least_volt (voltage_descs ! unat (voltage_rail rail)) (clamp_mv (voltage_rail rail) 1800)
       (unat (ram_pmic (trace w') (voltage_reg rail) AND voltage_mask rail)) v"
proof -
  obtain w' where run: "run_state (a7s_axp8191_set_rail ram_board ''cldo5'' 1800 1) reset_board = (0, w')"
    using ram_board_set_rail by (auto simp: wp_run)
  obtain rail where rail: "a7s_axp8191_find_rail ''cldo5'' = Some rail"
    by (simp add: a7s_axp8191_find_rail_def a7s_dram_rails_def mk_rail_def)
  have "page_normal (trace reset_board)" by (simp add: page_normal_def reset_board_def)
  then show ?thesis
    using a7s_axp8191_set_rail_correct [OF ram_board_stores _ rail _ _ _ run] run rail by fastforce
qed

end
