(* ===== verification/Mmc_Correct.thy ===== *)
theory Mmc_Correct
  imports Platform
begin

text \<open>
  The SDC2 clock setup (\<^verbatim>\<open>src/src/mmc_a733.c\<close>): its polling ends when the microsecond timer
  advances, and it either marks the host as broken or programs the fastest clock that does not
  exceed the request.
\<close>

unbundle bit_operations_syntax

section \<open>The time-out\<close>

text \<open>
  The documented behaviour of the microsecond timer: it shows, modulo \<open>2 ^ 32\<close>, a count that
  never decreases, moves with every reading, and by at most a second between two events.
\<close>

definition timer_ticks :: "env \<Rightarrow> (history \<Rightarrow> nat) \<Rightarrow> bool" where
  "timer_ticks E clk \<longleftrightarrow>
     (\<forall>t. snd (ext_call E t Timer_get_us []) = of_nat (clk t)) \<and>
     (\<forall>e t. clk t \<le> clk (e # t) \<and> clk (e # t) \<le> clk t + 1000000) \<and>
     (\<forall>r v t. clk t < clk (Call Timer_get_us [] r v # t))"

lemma of_nat_diff_u32: "c \<le> d \<Longrightarrow> d - c < 2 ^ 32 \<Longrightarrow> unat (of_nat d - of_nat c :: u32) = d - c"
proof -
  assume cd: "c \<le> d" "d - c < 2 ^ 32"
  then have "(of_nat d - of_nat c :: u32) = of_nat (d - c)" by (simp only: of_nat_diff)
  then show ?thesis using cd(2) by (simp only: unat_of_nat) simp
qed

lemma update_clock_wait_ends:
  assumes T: "timer_ticks E clk"
  shows "c0 \<le> clk (trace w) \<Longrightarrow> clk (trace w) \<le> c0 + 4000000 \<Longrightarrow> 0 < fuel \<Longrightarrow>
    100001 + c0 \<le> fuel + clk (trace w) \<Longrightarrow>
    wp (update_clock_wait E (of_nat c0) fuel) (\<lambda>r _. r \<noteq> None) w"
proof (induction fuel arbitrary: w)
  case (Suc fuel)
  let ?v = "dev_read E (trace w) (REG 0x18)"
  let ?t = "Rd (REG 0x18) ?v # trace w"
  let ?c = "ext_call E ?t Timer_get_us []"
  let ?w = "w\<lparr>trace := Call Timer_get_us [] (fst ?c) (snd ?c) # ?t\<rparr>"
  have t1: "clk (trace w) \<le> clk ?t" "clk ?t \<le> clk (trace w) + 1000000"
    and now: "snd ?c = of_nat (clk ?t)"
    and t2: "clk ?t < clk (trace ?w)" "clk (trace ?w) \<le> clk ?t + 1000000"
    using T by (simp_all add: timer_ticks_def)
  have el: "unat (snd ?c - of_nat c0) = clk ?t - c0"
    unfolding now using Suc.prems t1 by (intro of_nat_diff_u32) auto
  show ?case
  proof (cases "?v AND 0x80000000 = 0 \<or> 100000 \<le> snd ?c - of_nat c0")
    case True
    then show ?thesis by (auto simp: wp_simps Let_def)
  next
    case False
    then have small: "clk ?t - c0 < 100000" using el by (simp add: word_le_nat_alt)
    have "wp (update_clock_wait E (of_nat c0) fuel) (\<lambda>r _. r \<noteq> None) ?w"
    proof (rule Suc.IH)
      show "c0 \<le> clk (trace ?w)" "clk (trace ?w) \<le> c0 + 4000000"
        "100001 + c0 \<le> fuel + clk (trace ?w)"
        using Suc.prems t1 t2 small by linarith+
      show "0 < fuel" using Suc.prems t1 small by linarith
    qed
    then show ?thesis using False by (simp add: wp_simps Let_def)
  qed
qed simp

lemma update_clock_ends:
  assumes T: "timer_ticks E clk" and fuel: "100001 \<le> fuel"
  shows "wp (a7s_mmc2_update_clock E fuel cc) (\<lambda>r _. r = Some 0 \<or> r = Some (-1)) w"
proof -
  let ?c = "ext_call E (trace w) Timer_get_us []"
  let ?w = "w\<lparr>trace := Wr (REG 0x18) 0x80202000 # Wr (REG 0x04) (cc OR 0x80000000) #
     Call Timer_get_us [] (fst ?c) (snd ?c) # trace w\<rparr>"
  have step: "clk t \<le> clk (e # t)" "clk (e # t) \<le> clk t + 1000000" for e and t
    using T by (simp_all add: timer_ticks_def)
  have start: "snd ?c = of_nat (clk (trace w))" using T by (simp add: timer_ticks_def)
  let ?t1 = "Call Timer_get_us [] (fst ?c) (snd ?c) # trace w"
  let ?t2 = "Wr (REG 0x04) (cc OR 0x80000000) # ?t1"
  have "clk (trace w) \<le> clk (trace ?w)" "clk (trace ?w) \<le> clk (trace w) + 4000000"
    using step [where e = "Call Timer_get_us [] (fst ?c) (snd ?c)" and t = "trace w"]
      step [where e = "Wr (REG 0x04) (cc OR 0x80000000)" and t = ?t1]
      step [where e = "Wr (REG 0x18) 0x80202000" and t = ?t2]
    by simp_all
  then have "wp (update_clock_wait E (of_nat (clk (trace w))) fuel) (\<lambda>r _. r \<noteq> None) ?w"
    using fuel by (intro update_clock_wait_ends [OF T]) auto
  then show ?thesis
    unfolding a7s_mmc2_update_clock_def
    by (simp add: wp_simps Let_def start) (erule wp_mono, auto simp: wp_simps split: option.split bool.split)
qed

section \<open>The clock divider\<close>

lemma mmc_divider:
  fixes req :: u32
  assumes "400000 \<le> req" and "req \<le> 12000000"
  defines "d \<equiv> (12000000 + req - 1) div req"
  shows "unat d = (12000000 + unat req - 1) div unat req" and "1 \<le> unat d" and "unat d \<le> 30"
    and "unat (12000000 div d) \<le> unat req"
    and "\<And>k. k < unat d \<Longrightarrow> k * unat req < 12000000"
proof -
  have r: "400000 \<le> unat req" "unat req \<le> 12000000"
    using assms(1,2) by (simp_all add: word_le_nat_alt)
  have add: "unat (12000000 + req - 1) = 12000000 + unat req - 1"
    using r by (simp add: unat_plus_if')
  then show d: "unat d = (12000000 + unat req - 1) div unat req"
    unfolding d_def by (simp add: unat_div)
  have "400000 * 30 \<le> unat req * 30" using r by simp
  then show "unat d \<le> 30"
    unfolding d using r by (intro less_Suc_eq_le [THEN iffD1] less_mult_imp_div_less) simp
  show "1 \<le> unat d"
    unfolding d using r div_le_mono [of "unat req" "12000000 + unat req - 1" "unat req"] by simp
  show "\<And>k. k < unat d \<Longrightarrow> k * unat req < 12000000"
  proof -
    fix k
    assume "k < unat d"
    then have "Suc k * unat req \<le> unat d * unat req" by (intro mult_le_mono1) simp
    also have "\<dots> \<le> 12000000 + unat req - 1" unfolding d by (rule div_times_less_eq_dividend)
    finally show "k * unat req < 12000000" using r by simp
  qed
  have "12000000 \<le> unat d * unat req"
  proof -
    have "12000000 + unat req - 1 < unat req + unat d * unat req"
      using dividend_less_div_times [of "unat req" "12000000 + unat req - 1"] r unfolding d by simp
    then show ?thesis by simp
  qed
  then have "12000000 div unat d \<le> unat req"
    using \<open>1 \<le> unat d\<close> by (metis One_nat_def Suc_le_lessD div_le_mono mult.commute nonzero_mult_div_cancel_left not_less_zero)
  then show "unat (12000000 div d) \<le> unat req" by (simp add: unat_div)
qed

section \<open>The outcome of \<open>set_ios\<close>\<close>

lemma update_clock_wait_keeps:
  "(\<And>w t. f (w\<lparr>trace := t\<rparr>) = f w) \<Longrightarrow> frames f (update_clock_wait E start fuel)"
  "emits (\<lambda>e. \<not> writes_reg SDC2_CLK e) (update_clock_wait E start fuel)"
  by (induction fuel) (auto intro!: frames_intros emits_intros)

lemma update_clock_keeps:
  "(\<And>w t. f (w\<lparr>trace := t\<rparr>) = f w) \<Longrightarrow> frames f (a7s_mmc2_update_clock E fuel cc)"
  "emits (\<lambda>e. \<not> writes_reg SDC2_CLK e) (a7s_mmc2_update_clock E fuel cc)"
  unfolding a7s_mmc2_update_clock_def
  by (intro frames_intros update_clock_wait_keeps; simp)
    (intro emits_intros update_clock_wait_keeps; simp add: REG_def)

lemma update_clock_at:
  fixes w :: "'a board_scheme"
  assumes "timer_ticks E clk" and "100001 \<le> fuel"
  shows "wp (a7s_mmc2_update_clock E fuel cc) (\<lambda>r w'. (r = Some 0 \<or> r = Some (-1)) \<and>
      mem w' = mem w \<and> last_write (trace w') SDC2_CLK = last_write (trace w) SDC2_CLK) w"
proof -
  have "frames (mem :: 'a board_scheme \<Rightarrow> memory) (a7s_mmc2_update_clock E fuel cc)"
    by (rule update_clock_keeps) simp
  moreover have "last_write (trace (snd (run_state (a7s_mmc2_update_clock E fuel cc) w))) SDC2_CLK =
      last_write (trace w) SDC2_CLK"
    by (rule emits_last_write [OF update_clock_keeps(2)])
  ultimately show ?thesis
    using update_clock_ends [OF assms, of cc w] by (simp add: wp_def framesD)
qed

lemma mmc2_program_at:
  fixes w :: "'a board_scheme"
  shows "wp (mmc2_program E d width) (\<lambda>_ w'. mem w' = mem w \<and>
    last_write (trace w') SDC2_CLK = Some (0x80000000 OR (d - 1))) w"
  by (simp add: mmc2_program_def wp_simps Let_def REG_def)

text \<open>What a successful setup for a request leaves.\<close>

definition clock_programmed :: "u32 \<Rightarrow> u32 \<Rightarrow> memory \<Rightarrow> 'a board_scheme \<Rightarrow> bool" where
  "clock_programmed mmc requested m w' \<longleftrightarrow>
     (\<exists>d. 1 \<le> unat d \<and> unat d \<le> 30 \<and> unat (12000000 div d) \<le> unat requested \<and>
        (\<forall>k<unat d. k * unat requested < 12000000) \<and>
        mem w' = store32 (mmc + 0x48) (12000000 div d) m \<and>
        last_write (trace w') SDC2_CLK = Some (0x80000000 OR (d - 1)))"

lemma set_ios_outcome:
  fixes w :: "'a board_scheme" and mmc :: u32
  assumes T: "timer_ticks E clk" and fuel: "100001 \<le> fuel"
  defines "requested \<equiv> load32 (mem w) (mmc + 0x48)"
    and "host \<equiv> load32 (mem w) (mmc + 0x20)"
  shows "wp (a7s_mmc2_set_ios E fuel mmc) (\<lambda>r w'. r = Some () \<and>
     (mem w' = store32 (host + 0x1c) 1 (mem w) \<or> requested = 0 \<and> mem w' = mem w \<or>
      400000 \<le> requested \<and> requested \<le> 12000000 \<and> clock_programmed mmc requested (mem w) w')) w"
proof -
  define d where "d = (12000000 + requested - 1) div requested"
  note up = update_clock_at [OF T fuel]
  define Q where "Q = (\<lambda>r (w' :: 'a board_scheme). r = Some () \<and>
     (mem w' = store32 (host + 0x1c) 1 (mem w) \<or> requested = 0 \<and> mem w' = mem w \<or>
      400000 \<le> requested \<and> requested \<le> 12000000 \<and> clock_programmed mmc requested (mem w) w'))"
  have fail: "wp (mmc2_failed host) Q v" if "mem v = mem w" for v
    using that by (simp add: mmc2_failed_def wp_simps Q_def)
  have finish: "wp (do { _ \<leftarrow> put32 (mmc + 0x48) (12000000 div d); _ \<leftarrow> readl E SDC2_CLK;
        _ \<leftarrow> readl E (REG 0x04); _ \<leftarrow> readl E (REG 0x104); ret (Some ()) }) Q v"
    if "400000 \<le> requested" "requested \<le> 12000000" "mem v = mem w"
      "last_write (trace v) SDC2_CLK = Some (0x80000000 OR (d - 1))" for v
    using mmc_divider [OF that(1,2), folded d_def] that
    unfolding Q_def clock_programmed_def by (auto simp: wp_simps intro!: exI [of _ d])
  have "wp (a7s_mmc2_set_ios E fuel mmc) Q w"
    unfolding a7s_mmc2_set_ios_def
    apply (simp only: wp_bind wp_get32)
    apply (fold requested_def host_def)
    apply (rule wp_mono [OF up])
    apply (elim conjE disjE; simp only: option.case)
     apply (rule wp_ifI, simp)
     apply (rule wp_ifI, simp add: wp_simps Q_def)
     apply (simp only: wp_bind wp_get32)
     apply (rule wp_ifI, rule fail, simp)
     apply (simp only: Let_def d_def [symmetric])
     apply (rule wp_bindI)
     apply (rule wp_mono [OF mmc2_program_at])
     apply (rule wp_bindI)
     apply (rule wp_mono [OF up])
     apply (elim conjE disjE; simp only: option.case)
      apply (rule wp_ifI, simp)
      apply (rule finish, simp_all add: not_less)[1]
     apply (rule wp_ifI, rule fail, simp, simp)
    apply (rule wp_ifI, rule fail, simp, simp)
    done
  then show ?thesis unfolding Q_def .
qed


definition ticking_env :: env where
  "ticking_env = \<lparr>dev_read = ram_dev, ext_call = (\<lambda>t f args. (0, of_nat (length t)))\<rparr>"

lemma ticking_env_ticks: "timer_ticks ticking_env length"
  by (simp add: timer_ticks_def ticking_env_def)


end
