(* ===== verification/Library.thy ===== *)
theory Library
  imports Memory
begin

text \<open>
  The C library of the AR100S image (\<^verbatim>\<open>src/ar100s/library\<close>: \<^verbatim>\<open>string.c\<close>, \<^verbatim>\<open>library.c\<close>). A pointer into a character
  object is the list of the bytes from there to the end of the object, an access behind the end is \<open>None\<close>. The
  functions on raw memory have addresses. A \<open>char\<close> of the platform is unsigned.
\<close>

unbundle bit_operations_syntax

section \<open>Model\<close>

subsection \<open>Strings\<close>

fun strlen :: "u8 list \<Rightarrow> nat option" where
  "strlen [] = None"
| "strlen (c # s) = (if c = 0 then Some 0 else map_option Suc (strlen s))"

fun strnlen :: "u8 list \<Rightarrow> nat \<Rightarrow> nat option" where
  "strnlen s 0 = Some 0"
| "strnlen [] (Suc n) = None"
| "strnlen (c # s) (Suc n) = (if c = 0 then Some 0 else map_option Suc (strnlen s n))"

fun strcpy :: "u8 list \<Rightarrow> u8 list \<Rightarrow> u8 list option" where
  "strcpy (d # dest) (c # src) = (if c = 0 then Some (c # dest) else map_option ((#) c) (strcpy dest src))"
| "strcpy _ _ = None"

fun strncpy :: "u8 list \<Rightarrow> u8 list \<Rightarrow> nat \<Rightarrow> u8 list option" where
  "strncpy dest src 0 = Some dest"
| "strncpy (d # dest) (c # src) (Suc count) = map_option ((#) c) (strncpy dest (if c \<noteq> 0 then src else c # src) count)"
| "strncpy _ _ (Suc count) = None"

fun strncat_copy :: "u8 list \<Rightarrow> u8 list \<Rightarrow> nat \<Rightarrow> u8 list option" where
  "strncat_copy (d # dest) (c # src) count =
     (if c = 0 then Some (c # dest)
      else if count = 1 then (case dest of [] \<Rightarrow> None | _ # rest \<Rightarrow> Some (c # 0 # rest))
      else map_option ((#) c) (strncat_copy dest src (count - 1)))"
| "strncat_copy _ _ _ = None"

fun strncat_skip :: "u8 list \<Rightarrow> u8 list \<Rightarrow> nat \<Rightarrow> u8 list option" where
  "strncat_skip [] src count = None"
| "strncat_skip (d # dest) src count =
     (if d \<noteq> 0 then map_option ((#) d) (strncat_skip dest src count) else strncat_copy (d # dest) src count)"

definition strncat :: "u8 list \<Rightarrow> u8 list \<Rightarrow> nat \<Rightarrow> u8 list option" where
  "strncat dest src count = (if count \<noteq> 0 then strncat_skip dest src count else Some dest)"

fun strcmp :: "u8 list \<Rightarrow> u8 list \<Rightarrow> int option" where
  "strcmp (c1 # cs) (c2 # ct) =
     (if c1 \<noteq> c2 then Some (if c1 < c2 then -1 else 1) else if c1 = 0 then Some 0 else strcmp cs ct)"
| "strcmp _ _ = None"

fun strncmp :: "u8 list \<Rightarrow> u8 list \<Rightarrow> nat \<Rightarrow> int option" where
  "strncmp cs ct 0 = Some 0"
| "strncmp (c1 # cs) (c2 # ct) (Suc count) =
     (if c1 \<noteq> c2 then Some (if c1 < c2 then -1 else 1) else if c1 = 0 then Some 0 else strncmp cs ct count)"
| "strncmp _ _ (Suc count) = None"

text \<open>The result is NULL or the pointer to the character found.\<close>

fun strchr :: "u8 list \<Rightarrow> u8 \<Rightarrow> u8 list option option" where
  "strchr [] c = None"
| "strchr (p # s) c = (if p = 0 then Some None else if p = c then Some (Some (p # s)) else strchr s c)"

subsection \<open>Memory\<close>

fun copy_up :: "nat \<Rightarrow> u32 \<Rightarrow> u32 \<Rightarrow> memory \<Rightarrow> memory" where
  "copy_up 0 dest src m = m"
| "copy_up (Suc n) dest src m = copy_up n (dest + 1) (src + 1) (m(dest := m src))"

fun copy_words :: "nat \<Rightarrow> u32 \<Rightarrow> u32 \<Rightarrow> memory \<Rightarrow> memory" where
  "copy_words 0 dest src m = m"
| "copy_words (Suc n) dest src m = copy_words n (dest + 4) (src + 4) (store32 dest (load32 m src) m)"

fun copy_down :: "nat \<Rightarrow> u32 \<Rightarrow> u32 \<Rightarrow> memory \<Rightarrow> memory" where
  "copy_down 0 dest src m = m"
| "copy_down (Suc n) dest src m = copy_down n (dest - 1) (src - 1) (m(dest := m src))"

definition lib_memcpy :: "u32 \<Rightarrow> u32 \<Rightarrow> u32 \<Rightarrow> memory \<Rightarrow> u32 \<times> memory" where
  "lib_memcpy dest src n m = (dest,
     if 0x03 AND (dest OR src) \<noteq> 0 then copy_up (unat n) dest src m
     else copy_up (unat (n AND 0x03)) (dest + (n AND NOT 0x03)) (src + (n AND NOT 0x03))
            (copy_words (unat (drop_bit 2 n)) dest src m))"

text \<open>The pointer that is returned has been moved by the loop.\<close>

definition memmove :: "u32 \<Rightarrow> u32 \<Rightarrow> u32 \<Rightarrow> memory \<Rightarrow> u32 \<times> memory" where
  "memmove dest src n m =
     (if dest \<le> src \<or> dest \<ge> src + n then (dest + n, copy_up (unat n) dest src m)
      else (dest - 1, copy_down (unat n) (dest + n - 1) (src + n - 1) m))"

text \<open>The count is decremented before it is tested, so that 0 stands for \<open>2\<^sup>3\<^sup>2\<close>.\<close>

fun memcmp_loop :: "memory \<Rightarrow> u32 \<Rightarrow> u32 \<Rightarrow> nat \<Rightarrow> int" where
  "memcmp_loop m p1 p2 0 = uint (m p1) - uint (m p2)"
| "memcmp_loop m p1 p2 (Suc k) =
     (if m p1 = m p2 then memcmp_loop m (p1 + 1) (p2 + 1) k else uint (m p1) - uint (m p2))"

definition memcmp :: "memory \<Rightarrow> u32 \<Rightarrow> u32 \<Rightarrow> u32 \<Rightarrow> int" where
  "memcmp m s1 s2 n = memcmp_loop m s1 s2 (unat (n - 1))"

fun memchr_loop :: "memory \<Rightarrow> u32 \<Rightarrow> u8 \<Rightarrow> nat \<Rightarrow> u32" where
  "memchr_loop m p c 0 = 0"
| "memchr_loop m p c (Suc n) = (if m p \<noteq> c then memchr_loop m (p + 1) c n else p)"

definition memchr :: "memory \<Rightarrow> u32 \<Rightarrow> int \<Rightarrow> u32 \<Rightarrow> u32" where
  "memchr m s c n = memchr_loop m s (of_int c) (unat n)"

fun memset_loop :: "u32 \<Rightarrow> u8 \<Rightarrow> nat \<Rightarrow> memory \<Rightarrow> memory" where
  "memset_loop p c 0 m = m"
| "memset_loop p c (Suc n) m = memset_loop (p + 1) c n (m(p := c))"

definition memset :: "u32 \<Rightarrow> int \<Rightarrow> u32 \<Rightarrow> memory \<Rightarrow> u32 \<times> memory" where
  "memset s c n m = (s, memset_loop s (of_int c) (unat n) m)"

subsection \<open>Numbers\<close>

definition ascii :: "string \<Rightarrow> u8 list" where
  "ascii s = map of_char s"

definition digit_string :: "u8 list" where
  "digit_string = ascii ''0123456789ABCDEF'' @ [0]"

text \<open>The digits go to a stack of 16 characters, least significant first.\<close>

function digit_loop :: "u32 \<Rightarrow> u32 \<Rightarrow> u8 list \<Rightarrow> u8 list option" where
  "digit_loop value radix stack =
     (if value = 0 then Some stack
      else if 16 \<le> length stack then None
      else digit_loop (value div radix) radix (stack @ [digit_string ! unat (value mod radix)]))"
  by pat_completeness auto
termination by (relation "measure (\<lambda>(_, _, stack). 16 - length stack)") auto

declare digit_loop.simps [simp del]

text \<open>The bytes that are stored to the string, the terminator included.\<close>

definition utoa :: "u32 \<Rightarrow> u32 \<Rightarrow> u8 list option" where
  "utoa value radix =
     (if value = 0 then Some [0x30, 0]
      else map_option (\<lambda>stack. rev stack @ [0]) (digit_loop value radix []))"

definition itoa :: "u32 \<Rightarrow> u32 \<Rightarrow> u8 list option" where
  "itoa value radix =
     (if value = 0 then Some [0x30, 0]
      else let negative = sint value < 0;
               value = (if negative then - value else value)
      in map_option (\<lambda>stack. (if negative then [0x2d] else []) @ rev stack @ [0])
           (if 0 < sint value then digit_loop value radix [] else Some []))"

fun hstr_loop :: "u8 list \<Rightarrow> nat \<Rightarrow> u32 \<Rightarrow> u32 option" where
  "hstr_loop str 0 tmp = Some tmp"
| "hstr_loop [] (Suc len) tmp = None"
| "hstr_loop (c # str) (Suc len) tmp =
     (if 0x30 \<le> c \<and> c \<le> 0x39 then hstr_loop str len (tmp * 16 + (ucast c - 0x30))
      else if 0x41 \<le> c \<and> c \<le> 0x46 then hstr_loop str len (tmp * 16 + (ucast c - 0x41) + 10)
      else if 0x61 \<le> c \<and> c \<le> 0x66 then hstr_loop str len (tmp * 16 + (ucast c - 0x61) + 10)
      else Some tmp)"

definition hstr2int :: "u8 list \<Rightarrow> u32 \<Rightarrow> u32 option" where
  "hstr2int str len = (case str of [] \<Rightarrow> None
     | c0 # rest \<Rightarrow>
         if c0 = 0x30 then (case rest of [] \<Rightarrow> None
           | c1 # rest' \<Rightarrow> if c1 = 0x78 then hstr_loop rest' (unat (len - 2)) 0 else hstr_loop str (unat len) 0)
         else hstr_loop str (unat len) 0)"

fun dstr_loop :: "u8 list \<Rightarrow> nat \<Rightarrow> u32 \<Rightarrow> u32 option" where
  "dstr_loop str 0 tmp = Some tmp"
| "dstr_loop [] (Suc len) tmp = None"
| "dstr_loop (c # str) (Suc len) tmp =
     (if 0x30 \<le> c \<and> c \<le> 0x39 then dstr_loop str len (tmp * 10 + (ucast c - 0x30)) else Some tmp)"

definition dstr2int :: "u8 list \<Rightarrow> u32 \<Rightarrow> u32 option" where
  "dstr2int str len = dstr_loop str (unat len) 0"

text \<open>\<open>sprintf\<close> knows the conversion \<open>%d\<close> only; the others, and a lone \<open>%\<close>, print nothing. The list holds the bytes stored.\<close>

fun sprintf_loop :: "u8 list \<Rightarrow> u32 list \<Rightarrow> u8 list option" where
  "sprintf_loop [] args = None"
| "sprintf_loop (p # fmt) args =
     (if p = 0 then Some [0]
      else if p \<noteq> 0x25 then map_option ((#) p) (sprintf_loop fmt args)
      else (case fmt of [] \<Rightarrow> None
        | k # rest \<Rightarrow>
            if k = 0x64 then (case args of [] \<Rightarrow> None
              | nval # args' \<Rightarrow> (case itoa nval 10 of None \<Rightarrow> None
                  | Some strval \<Rightarrow> map_option ((@) (butlast strval)) (sprintf_loop rest args')))
            else sprintf_loop rest args))"

definition sprintf :: "string \<Rightarrow> u32 list \<Rightarrow> u8 list option" where
  "sprintf fmt args = sprintf_loop (ascii fmt @ [0]) args"

section \<open>Strings\<close>

lemma strlen_append: "0 \<notin> set s \<Longrightarrow> strlen (s @ 0 # r) = Some (length s)"
  by (induction s) auto

lemma strcpy_append: "0 \<notin> set s \<Longrightarrow> length s < length d \<Longrightarrow> strcpy d (s @ 0 # r) = Some (s @ 0 # drop (Suc (length s)) d)"
proof (induction s arbitrary: d)
  case Nil
  then show ?case by (cases d) auto
next
  case (Cons c s)
  then show ?case by (cases d) auto
qed

lemma strnlen_take: "0 \<in> set s \<or> n \<le> length s \<Longrightarrow> strnlen s n = Some (length (take n (takeWhile (\<lambda>c. c \<noteq> 0) s)))"
  by (induction s n rule: strnlen.induct) auto

lemma strncpy_take: "0 \<notin> set (take n s) \<Longrightarrow> n \<le> length s \<Longrightarrow> n \<le> length d \<Longrightarrow> strncpy d s n = Some (take n s @ drop n d)"
proof (induction n arbitrary: s d)
  case (Suc n)
  then show ?case by (cases s; cases d) auto
qed simp

lemma strncat_copy_fill:
  "n \<noteq> 0 \<Longrightarrow> n \<le> k \<Longrightarrow> n < length d \<Longrightarrow> c \<noteq> 0 \<Longrightarrow> strncat_copy d (replicate k c @ t) n = Some (replicate n c @ 0 # drop (Suc n) d)"
proof (induction n arbitrary: d k)
  case (Suc n)
  obtain e d' k' where "d = e # d'" "k = Suc k'" using Suc.prems by (cases d; cases k) auto
  with Suc show ?case by (cases "n = 0"; cases d') auto
qed simp

lemma strncat_fill:
  assumes "0 \<notin> set s" and "n \<noteq> 0" and "n \<le> k" and "n \<le> length r" and "c \<noteq> 0"
  shows "strncat (s @ 0 # r) (replicate k c @ t) n = Some (s @ replicate n c @ 0 # drop n r)"
proof -
  have "strncat_skip (s @ 0 # r) (replicate k c @ t) n = Some (s @ replicate n c @ 0 # drop n r)"
    using assms by (induction s) (auto simp: strncat_copy_fill)
  then show ?thesis using assms(2) by (simp add: strncat_def)
qed

section \<open>Copying\<close>

text \<open>The simultaneous copy of \<open>n\<close> bytes, with the count as a natural number.\<close>

definition moved :: "nat \<Rightarrow> u32 \<Rightarrow> u32 \<Rightarrow> memory \<Rightarrow> memory" where
  "moved n dest src m = (\<lambda>b. if unat (b - dest) < n then m (src + (b - dest)) else m b)"

lemma moved_memcpy: "moved (unat n) dest src = memcpy dest src n"
  by (simp add: moved_def memcpy_def fun_eq_iff word_less_nat_alt)

lemma unat_minus_1: "x \<noteq> 0 \<Longrightarrow> unat (x - 1 :: u32) = unat x - 1"
  by (rule unat_minus_one)

lemma moved_first:
  assumes "Suc n \<le> 2 ^ 32" and "\<And>j. 0 < j \<Longrightarrow> j \<le> n \<Longrightarrow> src + of_nat j \<noteq> dest"
  shows "moved n (dest + 1) (src + 1) (m(dest := m src)) = moved (Suc n) dest src m"
proof
  fix b
  show "moved n (dest + 1) (src + 1) (m(dest := m src)) b = moved (Suc n) dest src m b"
  proof (cases "b = dest")
    case True
    then have "unat (b - (dest + 1)) = 2 ^ 32 - 1" by (simp add: unsigned_minus_1_eq_mask mask_eq_exp_minus_1)
    then show ?thesis using True assms(1) by (simp add: moved_def)
  next
    case False
    then have k: "unat (b - (dest + 1)) = unat (b - dest) - 1" "unat (b - dest) \<noteq> 0"
      using unat_minus_1 [of "b - dest"] by (simp_all add: diff_diff_eq unat_eq_0)
    have "src + (b - dest) \<noteq> dest" if "unat (b - dest) < Suc n"
      using assms(2) [of "unat (b - dest)"] that k(2) by simp
    then show ?thesis using False k by (auto simp: moved_def algebra_simps)
  qed
qed

lemma moved_last:
  assumes "Suc n \<le> 2 ^ 32" and "\<And>j. j < n \<Longrightarrow> src + of_nat j \<noteq> dest + of_nat n"
  shows "moved n dest src (m(dest + of_nat n := m (src + of_nat n))) = moved (Suc n) dest src m"
proof
  fix b
  have n: "unat (of_nat n :: u32) = n" using assms(1) by (simp add: unsigned_of_nat take_bit_nat_eq_self)
  have e: "b = dest + of_nat n \<longleftrightarrow> unat (b - dest) = n"
  proof
    assume "unat (b - dest) = n"
    then have "of_nat n = b - dest" by auto
    then show "b = dest + of_nat n" by simp
  qed (simp add: n)
  have "src + (b - dest) \<noteq> dest + of_nat n" if "unat (b - dest) < n"
    using assms(2) [OF that] by simp
  then show "moved n dest src (m(dest + of_nat n := m (src + of_nat n))) b = moved (Suc n) dest src m b"
    using e by (auto simp: moved_def less_Suc_eq)
qed

lemma copy_up_moved:
  "n \<le> 2 ^ 32 \<Longrightarrow> (\<And>i j. i < j \<Longrightarrow> j < n \<Longrightarrow> src + of_nat j \<noteq> dest + of_nat i) \<Longrightarrow> copy_up n dest src m = moved n dest src m"
proof (induction n arbitrary: dest src m)
  case 0
  then show ?case by (simp add: moved_def)
next
  case (Suc n)
  have "src + 1 + of_nat j \<noteq> dest + 1 + of_nat i" if "i < j" "j < n" for i j
    using Suc.prems(2) [of "Suc i" "Suc j"] that by (simp add: algebra_simps)
  moreover have "src + of_nat j \<noteq> dest" if "0 < j" "j \<le> n" for j
    using Suc.prems(2) [of 0 j] that by simp
  ultimately show ?case using Suc by (simp add: moved_first)
qed

lemma copy_down_moved:
  "n \<le> 2 ^ 32 \<Longrightarrow> (\<And>i j. j < i \<Longrightarrow> i < n \<Longrightarrow> src + of_nat j \<noteq> dest + of_nat i) \<Longrightarrow>
   copy_down n (dest + of_nat n - 1) (src + of_nat n - 1) m = moved n dest src m"
proof (induction n arbitrary: m)
  case 0
  then show ?case by (simp add: moved_def)
next
  case (Suc n)
  have "copy_down n (dest + of_nat n - 1) (src + of_nat n - 1) m' = moved n dest src m'" for m'
    using Suc by simp
  moreover have "src + of_nat j \<noteq> dest + of_nat n" if "j < n" for j
    using Suc.prems(2) [OF that] by simp
  ultimately show ?case using Suc.prems(1) by (simp add: moved_last)
qed

lemma copy_up_add: "copy_up (a + b) dest src m = copy_up b (dest + of_nat a) (src + of_nat a) (copy_up a dest src m)"
  by (induction a arbitrary: dest src m) (simp_all add: algebra_simps)

text \<open>Two regions without wrap-around that have no common byte.\<close>

definition apart :: "u32 \<Rightarrow> u32 \<Rightarrow> nat \<Rightarrow> bool" where
  "apart dest src n \<longleftrightarrow> (\<forall>i<n. \<forall>j<n. src + of_nat j \<noteq> dest + of_nat i)"

lemma apartD: "apart dest src n \<Longrightarrow> i < n \<Longrightarrow> j < n \<Longrightarrow> src + of_nat j \<noteq> dest + of_nat i"
  by (simp add: apart_def)

lemma apart_less: "apart dest src n \<Longrightarrow> k \<le> n \<Longrightarrow> apart dest src k"
  by (simp add: apart_def)

lemma apart_shift: "apart dest src (k + n) \<Longrightarrow> apart (dest + of_nat k) (src + of_nat k) n"
  unfolding apart_def by (metis (no_types, lifting) add.assoc nat_add_left_cancel_less of_nat_add)

lemma u8_high_bit: "8 \<le> k \<Longrightarrow> \<not> bit (x :: u8) k"
  by (auto dest: bit_imp_le_length)

lemma copy_word:
  assumes "apart dest src 4"
  shows "store32 dest (load32 m src) m = copy_up 4 dest src m"
proof -
  have "src + 1 \<noteq> dest" "src + 2 \<noteq> dest" "src + 3 \<noteq> dest" "src + 2 \<noteq> dest + 1" "src + 3 \<noteq> dest + 1" "src + 3 \<noteq> dest + 2"
    using apartD [OF assms, of 0 1] apartD [OF assms, of 0 2] apartD [OF assms, of 0 3] apartD [OF assms, of 1 2]
      apartD [OF assms, of 1 3] apartD [OF assms, of 2 3] by simp_all
  moreover have "ucast (load32 m src) = m src" "ucast (drop_bit 8 (load32 m src)) = m (src + 1)"
    "ucast (drop_bit 16 (load32 m src)) = m (src + 2)" "ucast (drop_bit 24 (load32 m src)) = m (src + 3)"
    by (auto intro!: bit_word_eqI simp: load32_def bit_simps u8_high_bit)
  ultimately show ?thesis by (simp add: store32_def numeral_eq_Suc algebra_simps)
qed

lemma copy_words_up: "apart dest src (4 * k) \<Longrightarrow> copy_words k dest src m = copy_up (4 * k) dest src m"
proof (induction k arbitrary: dest src m)
  case (Suc k)
  have a: "apart dest src (4 + 4 * k)" using Suc.prems by simp
  have "copy_words (Suc k) dest src m = copy_up (4 * k) (dest + 4) (src + 4) (copy_up 4 dest src m)"
    using Suc.IH [of "dest + 4" "src + 4"] apart_shift [OF a] apart_less [OF a, of 4] by (simp add: copy_word)
  also have "\<dots> = copy_up (4 + 4 * k) dest src m" by (simp only: copy_up_add of_nat_numeral)
  finally show ?case by simp
qed simp

lemma quarters: "unat (n :: u32) = 4 * unat (drop_bit 2 n) + unat (n AND 0x03)" "n AND NOT 0x03 = 4 * drop_bit 2 n"
proof -
  have "n AND 0x03 = take_bit 2 n" by (simp add: take_bit_eq_mask mask_eq_exp_minus_1)
  then have "unat (n AND 0x03) = unat n mod 4" by (simp add: take_bit_eq_mod unat_mod)
  then show "unat n = 4 * unat (drop_bit 2 n) + unat (n AND 0x03)" by (simp add: drop_bit_eq_div unat_div)
  have "Suc (Suc (k - 2)) = k" if "2 \<le> k" for k using that by simp
  then have "n AND NOT (mask 2) = push_bit 2 (drop_bit 2 n)" by (intro bit_word_eqI) (auto simp: bit_simps not_less)
  then show "n AND NOT 0x03 = 4 * drop_bit 2 n" by (simp add: mask_eq_exp_minus_1 push_bit_eq_mult mult.commute)
qed

lemma lib_memcpy_up:
  assumes "apart dest src (unat n)"
  shows "lib_memcpy dest src n m = (dest, copy_up (unat n) dest src m)"
proof -
  let ?k = "unat (drop_bit 2 n)"
  have "copy_up (unat n) dest src m = copy_up (unat (n AND 0x03)) (dest + of_nat (4 * ?k)) (src + of_nat (4 * ?k)) (copy_up (4 * ?k) dest src m)"
    by (subst quarters(1)) (rule copy_up_add)
  moreover have "apart dest src (4 * ?k)" using apart_less [OF assms] quarters(1) [of n] by simp
  ultimately show ?thesis by (simp add: lib_memcpy_def quarters(2) [simplified] copy_words_up)
qed

text \<open>
  C26: copying. For areas that do not reach the end of the address space, \<open>memmove\<close> leaves at the destination the
  bytes that were at the source before the call and nothing else changed, however the two areas overlap; and
  \<open>memcpy\<close>, which copies words when both pointers are aligned, does the same for areas without a common byte and
  returns its destination.
\<close>

theorem lib_copies_bytes:
  assumes "unat dest + unat n < 2 ^ 32" and "unat src + unat n < 2 ^ 32"
  shows "snd (memmove dest src n m) = memcpy dest src n m \<and>
    (region dest (unat n) \<inter> region src (unat n) = {} \<longrightarrow> lib_memcpy dest src n m = (dest, memcpy dest src n m))"
proof (intro conjI impI)
  have at: "unat (p + of_nat i) = unat p + i" if "unat p + unat n < 2 ^ 32" "i \<le> unat n" for p :: u32 and i
    using that by (simp add: unat_word_ariths(1) unsigned_of_nat take_bit_nat_eq_self)
  have n: "unat n \<le> 2 ^ 32" using unat_u32_lt [of n] by (simp add: less_imp_le)
  have ne: "src + of_nat j \<noteq> dest + of_nat i" if "unat src + j \<noteq> unat dest + i" "i < unat n" "j < unat n" for i j
    using that at [OF assms(1), of i] at [OF assms(2), of j] by auto
  have up: "copy_up (unat n) dest src m = memcpy dest src n m"
    if "\<And>i j. i < j \<Longrightarrow> j < unat n \<Longrightarrow> unat src + j \<noteq> unat dest + i"
    using copy_up_moved [OF n, of src dest m] ne that by (simp add: moved_memcpy)
  have down: "copy_down (unat n) (dest + n - 1) (src + n - 1) m = memcpy dest src n m"
    if "\<And>i j. j < i \<Longrightarrow> i < unat n \<Longrightarrow> unat src + j \<noteq> unat dest + i"
    using copy_down_moved [OF n, of src dest m] ne that by (simp add: moved_memcpy)
  have le: "dest \<le> src \<longleftrightarrow> unat dest \<le> unat src" "dest \<ge> src + n \<longleftrightarrow> unat src + unat n \<le> unat dest"
    using at [OF assms(2), of "unat n"] by (simp_all add: word_le_nat_alt)
  show "snd (memmove dest src n m) = memcpy dest src n m"
    using up down by (auto simp: memmove_def le)
  assume r: "region dest (unat n) \<inter> region src (unat n) = {}"
  have "src + of_nat j \<noteq> dest + of_nat i" if ij: "i < unat n" "j < unat n" for i j
  proof
    assume e: "src + of_nat j = dest + of_nat i"
    have u: "unat (of_nat k :: u32) = k" if "k < unat n" for k
      using that n by (simp add: unsigned_of_nat take_bit_nat_eq_self)
    have "dest + of_nat i \<in> region dest (unat n)" "src + of_nat j \<in> region src (unat n)"
      using ij by (simp_all add: region_def u)
    with r e show False by auto
  qed
  then have "apart dest src (unat n)" by (simp add: apart_def)
  then show "lib_memcpy dest src n m = (dest, memcpy dest src n m)"
    using copy_up_moved [OF n, of src dest m] by (simp add: lib_memcpy_up apart_def moved_memcpy)
qed

theorem lib_copies_bytes_witness:
  "snd (memmove 0x1002 0x1000 5 (\<lambda>a. ucast a)) 0x1006 = 4 \<and>
   snd (lib_memcpy 0x2000 0x1000 7 (\<lambda>a. ucast a)) 0x2006 = 6"
proof -
  have "region 0x2000 (unat (7 :: u32)) \<inter> region 0x1000 (unat (7 :: u32)) = {}"
    using region_disjoint [of "0x1000" 7 "0x2000" 7] by auto
  then show ?thesis
    using lib_copies_bytes [of "0x1002" 5 "0x1000" "\<lambda>a. ucast a"] lib_copies_bytes [of "0x2000" 7 "0x1000" "\<lambda>a. ucast a"]
    by (simp add: memcpy_def)
qed

section \<open>Numbers\<close>

fun digits :: "nat \<Rightarrow> nat \<Rightarrow> nat list" where
  "digits r v = (if v = 0 \<or> r < 2 then [] else v mod r # digits r (v div r))"

declare digits.simps [simp del]

lemma digits_0 [simp]: "digits r 0 = []"
  by (simp add: digits.simps)

lemma digits_step: "v \<noteq> 0 \<Longrightarrow> 2 \<le> r \<Longrightarrow> digits r v = v mod r # digits r (v div r)"
  by (subst digits.simps) simp

lemma length_digits: "v < r ^ k \<Longrightarrow> length (digits r v) \<le> k"
proof (induction k arbitrary: v)
  case (Suc k)
  then have "v div r < r ^ k" by (simp add: less_mult_imp_div_less mult.commute)
  with Suc.IH show ?case by (subst digits.simps) auto
qed simp

lemma digits_less: "d \<in> set (digits r v) \<Longrightarrow> d < r"
  by (induction r v rule: digits.induct) (subst (asm) digits.simps, auto split: if_splits)

lemma digits_value:
  assumes "2 \<le> r"
  shows "foldl (\<lambda>t d. t * of_nat r + of_nat d) (0 :: u32) (rev (digits r v)) = of_nat v"
  using assms
proof (induction r v rule: digits.induct)
  case (1 r v)
  then show ?case
    using div_mult_mod_eq [of v r] by (subst digits.simps) (auto simp flip: of_nat_mult of_nat_add)
qed

lemma digit_loop_digits:
  "2 \<le> unat r \<Longrightarrow> length stack + length (digits (unat r) (unat v)) \<le> 16 \<Longrightarrow>
   digit_loop v r stack = Some (stack @ map ((!) digit_string) (digits (unat r) (unat v)))"
proof (induction v r stack rule: digit_loop.induct)
  case (1 v r stack)
  show ?case
  proof (cases "v = 0")
    case False
    then have "unat v \<noteq> 0" by (simp add: unat_eq_0)
    with 1 False show ?thesis by (subst digit_loop.simps) (simp add: digits_step unat_div unat_mod)
  qed (simp add: digit_loop.simps)
qed

lemma digit_table:
  "\<forall>d\<in>set [0..<16]. let c = digit_string ! d in c \<noteq> 0 \<and> c \<noteq> 0x78 \<and>
     (if d < 10 then 0x30 \<le> c \<and> c \<le> 0x39 \<and> ucast c - 0x30 = (of_nat d :: u32)
      else \<not> c \<le> 0x39 \<and> 0x41 \<le> c \<and> c \<le> 0x46 \<and> ucast c - 0x41 + 10 = (of_nat d :: u32))"
  by code_simp

lemma digit_char:
  assumes "d < 16"
  shows "digit_string ! d \<noteq> 0" "digit_string ! d \<noteq> 0x78"
    "hstr_loop (digit_string ! d # str) (Suc len) tmp = hstr_loop str len (tmp * 16 + of_nat d)"
    "d < 10 \<Longrightarrow> dstr_loop (digit_string ! d # str) (Suc len) tmp = dstr_loop str len (tmp * 10 + of_nat d)"
  using assms digit_table [THEN bspec, of d] by (auto simp: Let_def add.assoc split: if_splits)

lemma loops_foldl:
  "\<forall>d\<in>set ds. d < 16 \<Longrightarrow> hstr_loop (map ((!) digit_string) ds @ rest) (length ds) tmp = Some (foldl (\<lambda>t d. t * of_nat 16 + of_nat d) tmp ds)"
  "\<forall>d\<in>set ds. d < 10 \<Longrightarrow> dstr_loop (map ((!) digit_string) ds @ rest) (length ds) tmp = Some (foldl (\<lambda>t d. t * of_nat 10 + of_nat d) tmp ds)"
  by (induction ds arbitrary: tmp) (simp_all add: digit_char del: hstr_loop.simps(3) dstr_loop.simps(3))

lemma strlen_digits: "\<forall>d\<in>set ds. d < 16 \<Longrightarrow> strlen (map ((!) digit_string) ds @ [0]) = Some (length ds)"
  by (induction ds) (simp_all add: digit_char)

lemma utoa_digits:
  assumes "2 \<le> unat r" and "unat v < unat r ^ k" and "k \<le> 16" and "v \<noteq> 0"
  obtains ds where "utoa v r = Some (map ((!) digit_string) ds @ [0])" and "\<forall>d\<in>set ds. d < unat r" and "length ds \<le> k"
    and "foldl (\<lambda>t d. t * of_nat (unat r) + of_nat d) 0 ds = v" and "ds \<noteq> []"
proof
  let ?ds = "rev (digits (unat r) (unat v))"
  have l: "length (digits (unat r) (unat v)) \<le> k" by (rule length_digits [OF assms(2)])
  show "utoa v r = Some (map ((!) digit_string) ?ds @ [0])"
    using assms(3,4) l digit_loop_digits [OF assms(1), of "[]" v] by (simp add: utoa_def rev_map)
  show "\<forall>d\<in>set ?ds. d < unat r" using digits_less by auto
  show "length ?ds \<le> k" using l by simp
  show "foldl (\<lambda>t d. t * of_nat (unat r) + of_nat d) 0 ?ds = v" using digits_value [OF assms(1), of "unat v"] by simp
  show "?ds \<noteq> []" using assms(1,4) by (simp add: digits_step unat_eq_0)
qed

lemma hstr2int_plain:
  assumes "\<forall>d\<in>set ds. d < 16" and "ds \<noteq> []"
  shows "hstr2int (map ((!) digit_string) ds @ [0]) n = hstr_loop (map ((!) digit_string) ds @ [0]) (unat n) 0"
proof -
  obtain d ds' where ds: "ds = d # ds'" using assms(2) by (cases ds) auto
  show ?thesis
    using assms(1) by (cases ds') (auto simp: ds hstr2int_def digit_char)
qed

lemma itoa_utoa:
  "itoa v 10 = (if v = 0x80000000 then Some [0x2d, 0] else if sint v < 0 then map_option ((#) 0x2d) (utoa (- v) 10) else utoa v 10)"
proof -
  have "0 < sint (- v)" if "sint v < 0" "v \<noteq> 0x80000000"
  proof -
    have "sint v \<noteq> - (2 ^ 31)"
    proof
      assume "sint v = - (2 ^ 31)"
      then have "of_int (sint v) = (of_int (- (2 ^ 31)) :: u32)" by (simp only:)
      with that(2) show False by simp
    qed
    moreover have "- (2 ^ 31) \<le> sint v" using sint_ge [of v] by simp
    ultimately show ?thesis using that(1) by (simp add: sint_word_ariths signed_take_bit_int_eq_self)
  qed
  moreover have "0 < sint v" if "v \<noteq> 0" "\<not> sint v < 0" 
  proof -
    have "(of_int (sint v) :: u32) = v" by simp
    with that(1) have "sint v \<noteq> 0" by (metis of_int_0)
    with that(2) show ?thesis by linarith
  qed
  ultimately show ?thesis by (auto simp: itoa_def utoa_def option.map_comp comp_def)
qed

lemma utoa_shape:
  assumes "r = 10 \<or> r = 16"
  obtains ds where "utoa v r = Some (ds @ [0])" and "0 \<notin> set ds" and "length ds \<le> 10"
proof (cases "v = 0")
  case True
  then show ?thesis by (intro that [of "[0x30]"]) (simp_all add: utoa_def)
next
  case False
  have r: "2 \<le> unat r" "unat r \<le> 16" using assms by auto
  have ten: "(10 :: nat) \<le> 16" by simp
  have "unat v < 10 ^ 10" using less_trans [OF unat_u32_lt [of v]] by simp
  also have "(10 :: nat) ^ 10 \<le> unat r ^ 10" using assms by (intro power_mono) auto
  finally have "unat v < unat r ^ 10" .
  from utoa_digits [OF r(1) this ten False] obtain ds where ds: "utoa v r = Some (map ((!) digit_string) ds @ [0])"
    "\<forall>d\<in>set ds. d < unat r" "length ds \<le> 10" by blast
  have "0 \<notin> set (map ((!) digit_string) ds)" using ds(2) r(2) digit_char(1) by fastforce
  with ds show ?thesis by (intro that) auto
qed

lemma itoa_shape:
  obtains ds where "itoa v 10 = Some (ds @ [0])" and "0 \<notin> set ds" and "length ds \<le> 11"
proof -
  obtain a b where "utoa v 10 = Some (a @ [0])" "0 \<notin> set a" "length a \<le> 10"
    "utoa (- v) 10 = Some (b @ [0])" "0 \<notin> set b" "length b \<le> 10"
    using utoa_shape [of 10 v] utoa_shape [of 10 "- v"] by metis
  then have "itoa v 10 = Some ((if v = 0x80000000 then [0x2d] else if sint v < 0 then 0x2d # b else a) @ [0])"
    by (simp add: itoa_utoa)
  then show ?thesis
    by (rule that) (use \<open>0 \<notin> set a\<close> \<open>0 \<notin> set b\<close> \<open>length a \<le> 10\<close> \<open>length b \<le> 10\<close> in auto)
qed

text \<open>
  C27: printing and reading numbers. \<open>utoa\<close> never leaves its stack, writes at most 8 hexadecimal or 10 decimal digits and a
  terminator, and \<open>hstr2int\<close> and \<open>dstr2int\<close> read the number back. \<open>itoa\<close> writes the absolute value after a minus
  sign, except that the least integer gives the sign alone.
\<close>

theorem library_numbers_roundtrip:
  "(\<exists>s n. utoa v 16 = Some s \<and> strlen s = Some n \<and> length s = n + 1 \<and> n \<le> 8 \<and> hstr2int s (of_nat n) = Some v) \<and>
   (\<exists>s n. utoa v 10 = Some s \<and> strlen s = Some n \<and> length s = n + 1 \<and> n \<le> 10 \<and> dstr2int s (of_nat n) = Some v) \<and>
   itoa v 10 = (if v = 0x80000000 then Some [0x2d, 0] else if sint v < 0 then map_option ((#) 0x2d) (utoa (- v) 10) else utoa v 10)"
proof (intro conjI)
  show "\<exists>s n. utoa v 16 = Some s \<and> strlen s = Some n \<and> length s = n + 1 \<and> n \<le> 8 \<and> hstr2int s (of_nat n) = Some v"
  proof (cases "v = 0")
    case False
    have "unat v < unat (16 :: u32) ^ 8" using unat_u32_lt [of v] by simp
    from utoa_digits [OF _ this _ False] obtain ds where ds: "utoa v 16 = Some (map ((!) digit_string) ds @ [0])"
      "\<forall>d\<in>set ds. d < 16" "length ds \<le> 8" "foldl (\<lambda>t d. t * 16 + of_nat d) 0 ds = v" "ds \<noteq> []" by auto
    then show ?thesis
      using loops_foldl(1) [of ds "[0]" 0] by (simp add: strlen_digits hstr2int_plain unsigned_of_nat take_bit_nat_eq_self)
  qed (simp add: utoa_def hstr2int_def)
  show "\<exists>s n. utoa v 10 = Some s \<and> strlen s = Some n \<and> length s = n + 1 \<and> n \<le> 10 \<and> dstr2int s (of_nat n) = Some v"
  proof (cases "v = 0")
    case False
    have lt: "2 \<le> unat (10 :: u32)" "unat v < unat (10 :: u32) ^ 10" "(10 :: nat) \<le> 16"
      using less_trans [OF unat_u32_lt [of v]] by simp_all
    from utoa_digits [OF lt False] obtain ds where ds: "utoa v 10 = Some (map ((!) digit_string) ds @ [0])"
      "\<forall>d\<in>set ds. d < unat (10 :: u32)" "length ds \<le> 10" "foldl (\<lambda>t d. t * of_nat (unat (10 :: u32)) + of_nat d) 0 ds = v" by blast
    from ds(2,4) have ds': "\<forall>d\<in>set ds. d < 10" "foldl (\<lambda>t d. t * of_nat 10 + of_nat d) 0 ds = v" by simp_all
    then have "\<forall>d\<in>set ds. d < 16" by auto
    with ds(1,3) ds' show ?thesis
      using loops_foldl(2) [of ds "[0]" 0] by (simp add: strlen_digits dstr2int_def unsigned_of_nat take_bit_nat_eq_self)
  qed (simp add: utoa_def dstr2int_def)
  show "itoa v 10 = (if v = 0x80000000 then Some [0x2d, 0] else if sint v < 0 then map_option ((#) 0x2d) (utoa (- v) 10) else utoa v 10)"
    by (rule itoa_utoa)
qed

end
