(* ===== verification/Arisc.thy ===== *)
theory Arisc
  imports Memory
begin

text \<open>
  What the components of the AR100S firmware (\<^verbatim>\<open>src/ar100s\<close>) share: the error codes, pointers to
  functions, the interrupt lock of the processor
  (\<^verbatim>\<open>src/ar100s/arch/riscv/cpu/e907\<close>), byte accesses to registers, and the projections of a
  trace that the properties of the drivers are stated with.
\<close>

unbundle bit_operations_syntax

section \<open>Error codes of the firmware\<close>

abbreviation (input) OK :: int where "OK \<equiv> 0"
abbreviation (input) FAIL :: int where "FAIL \<equiv> -1"
abbreviation (input) ESRCH :: int where "ESRCH \<equiv> 3"
abbreviation (input) E2BIG :: int where "E2BIG \<equiv> 7"
abbreviation (input) EACCES :: int where "EACCES \<equiv> 13"
abbreviation (input) ENODEV :: int where "ENODEV \<equiv> 19"
abbreviation (input) EINVAL :: int where "EINVAL \<equiv> 22"
abbreviation (input) ENOSPC :: int where "ENOSPC \<equiv> 28"
abbreviation (input) ETIMEOUT :: int where "ETIMEOUT \<equiv> 35"
abbreviation (input) EFAIL :: int where "EFAIL \<equiv> 36"

lemma trace_updated: "trace (w\<lparr>trace := t\<rparr>) = t"
  by simp

lemma wp_bind_fun: "wp (m \<bind> f) Q = wp m (\<lambda>r. wp (f r) Q)"
  by (rule ext) (rule wp_bind)

lemma sint_of_small_nat: "m < 2 ^ 31 \<Longrightarrow> sint (of_nat m :: u32) = int m"
  by (simp add: signed_of_nat signed_take_bit_int_eq_self_iff)

text \<open>A board whose registers hold what was written last.\<close>

definition ram_env :: env where
  "ram_env = \<lparr>dev_read = ram_dev, ext_call = (\<lambda>_ _ _. (0, 0))\<rparr>"

lemma ram_env_latches [simp]: "latches ram_env a m"
  by (rule ram_dev_latches) (simp add: ram_env_def)

section \<open>Pointers to functions\<close>

text \<open>
  The functions of the firmware that are installed as callbacks, by name, and any other function
  by its address. Calling through a pointer is an argument \<open>invoke\<close> of the operations that do so.
\<close>

datatype fnptr =
    Isr_default | Timer_isr | Timer_tick_server | Timer_hosc_onoff_cb
  | Wakeup_timer_handler | Default_wakeup_handler | Cpu_stack_monitor | Fn u32

text \<open>A \<open>void *\<close> argument: NULL, a hardware timer of the timer driver by its index, or an address.\<close>

datatype pointer = Null | Timer_ptr nat | Ptr u32

section \<open>The processor\<close>

definition c906_irq_save :: "env \<Rightarrow> ('a machine_scheme, u32) state" where
  "c906_irq_save E = do {
     (_, result) \<leftarrow> call_out E Get_MSTATUS [];
     _ \<leftarrow> call E Disable_irq [];
     ret result
   }"

definition c906_irq_restore :: "env \<Rightarrow> u32 \<Rightarrow> ('a machine_scheme, unit) state" where
  "c906_irq_restore E irq_state = do { _ \<leftarrow> call E Set_MSTATUS [irq_state]; ret () }"

definition cpu_disable_int :: "env \<Rightarrow> ('a machine_scheme, u32) state" where
  "cpu_disable_int E = c906_irq_save E"

definition cpu_enable_int :: "env \<Rightarrow> u32 \<Rightarrow> ('a machine_scheme, unit) state" where
  "cpu_enable_int E cpsr = c906_irq_restore E cpsr"

lemmas cpu_int_defs = cpu_disable_int_def cpu_enable_int_def c906_irq_save_def c906_irq_restore_def

text \<open>Read-modify-write of the field \<open>m\<close> of a register.\<close>

definition reg_update :: "env \<Rightarrow> u32 \<Rightarrow> u32 \<Rightarrow> u32 \<Rightarrow> ('a machine_scheme, unit) state" where
  "reg_update E a m v = do { value \<leftarrow> readl E a; writel ((value AND NOT m) OR v) a }"

lemma wp_reg_update [wp_simps]:
  "wp (reg_update E a m v) Q w \<longleftrightarrow> (let x = dev_read E (trace w) a in
     Q () (w\<lparr>trace := Wr a ((x AND NOT m) OR v) # Rd a x # trace w\<rparr>))"
  by (simp add: reg_update_def wp_simps Let_def)

lemma emits_reg_update [emits_intros]:
  "(\<And>v. P (Rd a v)) \<Longrightarrow> (\<And>v. P (Wr a v)) \<Longrightarrow> emits P (reg_update E a m v)"
  unfolding reg_update_def by (intro emits_intros)

lemma frames_reg_update [frames_intros]: "(\<And>w t. f (w\<lparr>trace := t\<rparr>) = f w) \<Longrightarrow> frames f (reg_update E a m v)"
  unfolding reg_update_def by (intro frames_intros)

text \<open>A byte register holds its value in the low bits of what the bus shows there.\<close>

definition readb :: "env \<Rightarrow> u32 \<Rightarrow> ('a machine_scheme, u8) state" where
  "readb E a = do { v \<leftarrow> readl E a; ret (ucast v) }"

definition writeb :: "u8 \<Rightarrow> u32 \<Rightarrow> ('a machine_scheme, unit) state" where
  "writeb v a = writel (ucast v) a"

lemma wp_readb [wp_simps]:
  "wp (readb E a) Q w \<longleftrightarrow> Q (ucast (dev_read E (trace w) a)) (w\<lparr>trace := Rd a (dev_read E (trace w) a) # trace w\<rparr>)"
  by (simp add: readb_def wp_simps)

lemma wp_writeb [wp_simps]: "wp (writeb v a) Q w \<longleftrightarrow> Q () (w\<lparr>trace := Wr a (ucast v) # trace w\<rparr>)"
  by (simp add: writeb_def wp_simps)

lemma emits_readb [emits_intros]: "(\<And>v. P (Rd a v)) \<Longrightarrow> emits P (readb E a)"
  unfolding readb_def by (intro emits_intros)

lemma emits_writeb [emits_intros]: "P (Wr a (ucast v)) \<Longrightarrow> emits P (writeb v a)"
  unfolding writeb_def by (intro emits_intros)

lemma frames_readb [frames_intros]: "(\<And>w t. f (w\<lparr>trace := t\<rparr>) = f w) \<Longrightarrow> frames f (readb E a)"
  unfolding readb_def by (intro frames_intros)

lemma frames_writeb [frames_intros]: "(\<And>w t. f (w\<lparr>trace := t\<rparr>) = f w) \<Longrightarrow> frames f (writeb v a)"
  unfolding writeb_def by (intro frames_intros)

lemma emits_cpu_int [emits_intros]:
  assumes "\<And>f xs r v. f \<in> {Get_MSTATUS, Disable_irq, Set_MSTATUS} \<Longrightarrow> P (Call f xs r v)"
  shows "emits P (cpu_disable_int E)" "emits P (cpu_enable_int E c)"
  unfolding cpu_int_defs using assms by (auto intro!: emits_intros)

lemma frames_cpu_int [frames_intros]:
  assumes "\<And>w t. f (w\<lparr>trace := t\<rparr>) = f w"
  shows "frames f (cpu_disable_int E)" "frames f (cpu_enable_int E c)"
  unfolding cpu_int_defs using assms by (auto intro!: frames_intros)

end
