(* ===== verification/Notifier.thy ===== *)
theory Notifier
  imports Arisc
begin

text \<open>
  The notifier manager (\<^verbatim>\<open>src/ar100s/system/notifier/notifier.c\<close>): linked lists of callbacks whose
  nodes come from one static table. A pointer to a node is its index in the table, NULL is
  \<open>None\<close>; the variable that holds the head of a list is passed in and returned. Loops over the
  links are bounded by the size of the table, and \<open>None\<close> is a loop that has not ended by then.
  The second half shows that the operations implement a list of callbacks.
\<close>

section \<open>Model\<close>

abbreviation (input) NOTIFIER_USED :: u32 where "NOTIFIER_USED \<equiv> 1"
abbreviation (input) NOTIFIER_FREE :: u32 where "NOTIFIER_FREE \<equiv> 0"
abbreviation (input) NOTIFIER_MAX :: nat where "NOTIFIER_MAX \<equiv> 8"

record notifier =
  nf_flag :: u32
  nf_pcb :: fnptr
  nf_next :: "nat option"

record notifier_state = machine +
  notifiers :: "notifier list"

definition notifier_set :: "nat \<Rightarrow> (notifier \<Rightarrow> notifier) \<Rightarrow> ('a notifier_state_scheme, unit) state" where
  "notifier_set i f = State_Monad.update (\<lambda>w. w\<lparr>notifiers := (notifiers w)[i := f (notifiers w ! i)]\<rparr>)"

definition notifier_init :: "('a notifier_state_scheme, int) state" where
  "notifier_init = do {
     _ \<leftarrow> State_Monad.update (\<lambda>w. w\<lparr>notifiers := map (\<lambda>n. n\<lparr>nf_flag := NOTIFIER_FREE\<rparr>) (notifiers w)\<rparr>);
     ret OK
   }"

definition first_free :: "notifier list \<Rightarrow> nat option" where
  "first_free tab = find (\<lambda>i. nf_flag (tab ! i) = NOTIFIER_FREE) [0..<NOTIFIER_MAX]"

definition notifier_alloc :: "env \<Rightarrow> ('a notifier_state_scheme, nat option) state" where
  "notifier_alloc E = do {
     cpsr \<leftarrow> cpu_disable_int E;
     w \<leftarrow> State_Monad.get;
     let n = first_free (notifiers w);
     _ \<leftarrow> (case n of None \<Rightarrow> ret () | Some i \<Rightarrow> notifier_set i (\<lambda>x. x\<lparr>nf_flag := NOTIFIER_USED\<rparr>));
     _ \<leftarrow> cpu_enable_int E cpsr;
     ret n
   }"

definition notifier_free :: "nat option \<Rightarrow> ('a notifier_state_scheme, unit) state" where
  "notifier_free n = (case n of None \<Rightarrow> ret ()
     | Some i \<Rightarrow> notifier_set i (\<lambda>x. x\<lparr>nf_flag := NOTIFIER_FREE, nf_next := None\<rparr>))"

definition notifier_insert ::
  "env \<Rightarrow> nat option \<Rightarrow> fnptr \<Rightarrow> ('a notifier_state_scheme, int \<times> nat option) state" where
  "notifier_insert E head pcb = do {
     n \<leftarrow> notifier_alloc E;
     case n of None \<Rightarrow> ret (- ENOSPC, head)
     | Some i \<Rightarrow> do {
         _ \<leftarrow> notifier_set i (\<lambda>x. x\<lparr>nf_pcb := pcb, nf_next := head\<rparr>);
         ret (OK, Some i)
       }
   }"

text \<open>The search past the first node; \<open>Some (Some (pprev, pnext))\<close> is a node found.\<close>

fun delete_search :: "nat \<Rightarrow> notifier list \<Rightarrow> fnptr \<Rightarrow> nat \<Rightarrow> nat option \<Rightarrow> (nat \<times> nat) option option" where
  "delete_search _ tab pcb pprev None = Some None"
| "delete_search 0 tab pcb pprev (Some pnext) = None"
| "delete_search (Suc fuel) tab pcb pprev (Some pnext) =
     (if nf_pcb (tab ! pnext) = pcb then Some (Some (pprev, pnext))
      else delete_search fuel tab pcb pnext (nf_next (tab ! pnext)))"

definition notifier_delete ::
  "nat option \<Rightarrow> fnptr \<Rightarrow> ('a notifier_state_scheme, (int \<times> nat option) option) state" where
  "notifier_delete head pcb = (case head of None \<Rightarrow> ret (Some (- ENODEV, head))
   | Some pprev \<Rightarrow> do {
       w \<leftarrow> State_Monad.get;
       let tab = notifiers w;
       if nf_next (tab ! pprev) = None then
         if nf_pcb (tab ! pprev) = pcb then do {
           _ \<leftarrow> notifier_free (Some pprev);
           ret (Some (OK, None))
         } else ret (Some (- EFAIL, head))
       else (case delete_search NOTIFIER_MAX tab pcb pprev (nf_next (tab ! pprev)) of
           None \<Rightarrow> ret None
         | Some None \<Rightarrow> ret (Some (- EFAIL, head))
         | Some (Some (prev, target)) \<Rightarrow> do {
             _ \<leftarrow> notifier_set prev (\<lambda>x. x\<lparr>nf_next := nf_next (tab ! target)\<rparr>);
             _ \<leftarrow> notifier_free (Some target);
             ret (Some (OK, head))
           })
     })"

text \<open>\<open>invoke f command aux\<close> is the call of the callback \<open>f\<close>.\<close>

fun notify_loop ::
  "nat \<Rightarrow> (fnptr \<Rightarrow> u32 \<Rightarrow> u32 \<Rightarrow> ('a notifier_state_scheme, int) state) \<Rightarrow> u32 \<Rightarrow> u32 \<Rightarrow> nat option \<Rightarrow>
     ('a notifier_state_scheme, int option) state" where
  "notify_loop _ invoke command aux None = ret (Some OK)"
| "notify_loop 0 invoke command aux (Some n) = ret None"
| "notify_loop (Suc fuel) invoke command aux (Some n) = do {
     w \<leftarrow> State_Monad.get;
     _ \<leftarrow> invoke (nf_pcb (notifiers w ! n)) command aux;
     w \<leftarrow> State_Monad.get;
     notify_loop fuel invoke command aux (nf_next (notifiers w ! n))
   }"

definition notifier_notify ::
  "(fnptr \<Rightarrow> u32 \<Rightarrow> u32 \<Rightarrow> ('a notifier_state_scheme, int) state) \<Rightarrow> nat option \<Rightarrow> u32 \<Rightarrow> u32 \<Rightarrow>
     ('a notifier_state_scheme, int option) state" where
  "notifier_notify invoke head command aux = notify_loop NOTIFIER_MAX invoke command aux head"

section \<open>Lists of nodes\<close>

fun chain :: "notifier list \<Rightarrow> nat option \<Rightarrow> nat list \<Rightarrow> bool" where
  "chain tab h [] \<longleftrightarrow> h = None"
| "chain tab h (i # is) \<longleftrightarrow> h = Some i \<and> i < NOTIFIER_MAX \<and> nf_flag (tab ! i) = NOTIFIER_USED \<and>
     chain tab (nf_next (tab ! i)) is"

definition pcbs :: "notifier list \<Rightarrow> nat list \<Rightarrow> fnptr list" where
  "pcbs tab is = map (\<lambda>i. nf_pcb (tab ! i)) is"

text \<open>The node list \<open>is\<close> starts at \<open>h\<close> and carries the callbacks \<open>fs\<close>.\<close>

definition node_list :: "notifier list \<Rightarrow> nat option \<Rightarrow> nat list \<Rightarrow> fnptr list \<Rightarrow> bool" where
  "node_list tab h is fs \<longleftrightarrow>
     length tab = NOTIFIER_MAX \<and> chain tab h is \<and> distinct is \<and> pcbs tab is = fs"

lemma chain_bound: "chain tab h is \<Longrightarrow> i \<in> set is \<Longrightarrow> i < NOTIFIER_MAX \<and> nf_flag (tab ! i) = NOTIFIER_USED"
  by (induction "is" arbitrary: h) auto

lemma chain_length: "chain tab h is \<Longrightarrow> distinct is \<Longrightarrow> length is \<le> NOTIFIER_MAX"
  using card_mono [of "{..<NOTIFIER_MAX}" "set is"] chain_bound
  by (fastforce simp: distinct_card [symmetric])

lemma chain_other: "i \<notin> set is \<Longrightarrow> chain (tab[i := x]) h is = chain tab h is"
  by (induction "is" arbitrary: h) auto

lemma pcbs_other: "i \<notin> set is \<Longrightarrow> pcbs (tab[i := x]) is = pcbs tab is"
  unfolding pcbs_def by (rule map_cong [OF refl]) (metis nth_list_update_neq)

lemma pcbs_Cons: "pcbs tab (i # is) = nf_pcb (tab ! i) # pcbs tab is"
  by (simp add: pcbs_def)

text \<open>Other lists do not change when a node outside them does.\<close>

lemma node_list_other: "node_list tab h is fs \<Longrightarrow> i \<notin> set is \<Longrightarrow> node_list (tab[i := x]) h is fs"
  by (simp add: node_list_def chain_other pcbs_other)

definition free_slots :: "notifier list \<Rightarrow> nat set" where
  "free_slots tab = {i. i < NOTIFIER_MAX \<and> nf_flag (tab ! i) = NOTIFIER_FREE}"

lemma first_free_None: "first_free tab = None \<longleftrightarrow> free_slots tab = {}"
  by (auto simp: first_free_def free_slots_def find_None_iff)

lemma first_free_Some: "first_free tab = Some i \<Longrightarrow> i \<in> free_slots tab"
  by (auto simp: first_free_def free_slots_def find_Some_iff)

lemma free_slot_unlinked: "node_list tab h is fs \<Longrightarrow> i \<in> free_slots tab \<Longrightarrow> i \<notin> set is"
  by (auto simp: node_list_def free_slots_def dest: chain_bound)

subsection \<open>Insertion\<close>

lemma notifier_all_fields:
  "(x :: notifier)\<lparr>nf_flag := a, nf_pcb := b, nf_next := c\<rparr> = \<lparr>nf_flag = a, nf_pcb = b, nf_next = c\<rparr>"
  by (cases x) simp

lemma notifier_insert_wp:
  "wp (notifier_insert E h pcb) (\<lambda>(r, h') w'.
     (case first_free (notifiers w) of
        None \<Rightarrow> r = - ENOSPC \<and> h' = h \<and> notifiers w' = notifiers w
      | Some i \<Rightarrow> r = 0 \<and> h' = Some i \<and>
          notifiers w' = (notifiers w)[i := \<lparr>nf_flag = NOTIFIER_USED, nf_pcb = pcb, nf_next = h\<rparr>])) w"
  if "length (notifiers w) = NOTIFIER_MAX"
proof (cases "first_free (notifiers w)")
  case (Some i)
  then have "i < length (notifiers w)" using first_free_Some that by (auto simp: free_slots_def)
  then show ?thesis
    using Some by (simp add: notifier_insert_def notifier_alloc_def cpu_int_defs notifier_set_def wp_simps Let_def notifier_all_fields)
qed (simp add: notifier_insert_def notifier_alloc_def cpu_int_defs wp_simps Let_def)

lemma node_list_Cons:
  assumes "node_list tab h is fs" and "i \<in> free_slots tab"
  shows "node_list (tab[i := \<lparr>nf_flag = NOTIFIER_USED, nf_pcb = pcb, nf_next = h\<rparr>]) (Some i) (i # is) (pcb # fs)"
  using assms free_slot_unlinked [OF assms]
  by (auto simp: node_list_def free_slots_def chain_other pcbs_Cons pcbs_other)

lemma free_slots_use: "nf_flag x = NOTIFIER_USED \<Longrightarrow> i < length tab \<Longrightarrow> free_slots (tab[i := x]) = free_slots tab - {i}"
  by (auto simp: free_slots_def nth_list_update)

subsection \<open>Deletion\<close>

text \<open>What deleting does to the list of callbacks: the first node is only ever removed when it is the only one.\<close>

fun delete_spec :: "fnptr \<Rightarrow> fnptr list \<Rightarrow> int \<times> fnptr list" where
  "delete_spec pcb [] = (- ENODEV, [])"
| "delete_spec pcb [f] = (if f = pcb then (OK, []) else (- EFAIL, [f]))"
| "delete_spec pcb (f # fs) = (if pcb \<in> set fs then (OK, f # remove1 pcb fs) else (- EFAIL, f # fs))"

lemma delete_search_spec:
  "chain tab (Some p) (p # is) \<Longrightarrow> length is \<le> fuel \<Longrightarrow>
     (pcb \<notin> set (pcbs tab is) \<longrightarrow> delete_search fuel tab pcb p (nf_next (tab ! p)) = Some None) \<and>
     (pcb \<in> set (pcbs tab is) \<longrightarrow> (\<exists>as q t bs. p # is = as @ q # t # bs \<and> nf_pcb (tab ! t) = pcb \<and>
        pcb \<notin> set (pcbs tab (tl (as @ [q]))) \<and>
        delete_search fuel tab pcb p (nf_next (tab ! p)) = Some (Some (q, t))))"
proof (induction "is" arbitrary: p fuel)
  case Nil
  then show ?case by (simp add: pcbs_def)
next
  case (Cons j js)
  obtain fuel' where f: "fuel = Suc fuel'" using Cons.prems(2) by (cases fuel) auto
  have nx: "nf_next (tab ! p) = Some j" using Cons.prems(1) by simp
  show ?case
  proof (cases "nf_pcb (tab ! j) = pcb")
    case True
    have "p # j # js = [] @ p # j # js" by simp
    moreover have "delete_search fuel tab pcb p (nf_next (tab ! p)) = Some (Some (p, j))" using True nx f by simp
    moreover have "pcb \<in> set (pcbs tab (j # js))" "pcb \<notin> set (pcbs tab (tl ([] @ [p])))"
      using True by (simp_all add: pcbs_def)
    ultimately show ?thesis using True by blast
  next
    case False
    have ch: "chain tab (Some j) (j # js)" "length js \<le> fuel'" using Cons.prems nx f by auto
    note IH = Cons.IH [OF ch]
    have step: "delete_search fuel tab pcb p (nf_next (tab ! p)) = delete_search fuel' tab pcb j (nf_next (tab ! j))"
      using False nx f by simp
    have mem: "pcb \<in> set (pcbs tab (j # js)) \<longleftrightarrow> pcb \<in> set (pcbs tab js)" using False by (auto simp: pcbs_def)
    have "\<exists>as q t bs. p # j # js = as @ q # t # bs \<and> nf_pcb (tab ! t) = pcb \<and>
        pcb \<notin> set (pcbs tab (tl (as @ [q]))) \<and>
        delete_search fuel tab pcb p (nf_next (tab ! p)) = Some (Some (q, t))"
      if in_js: "pcb \<in> set (pcbs tab js)"
    proof -
      obtain as q t bs where *: "j # js = as @ q # t # bs" "nf_pcb (tab ! t) = pcb"
        "pcb \<notin> set (pcbs tab (tl (as @ [q])))" "delete_search fuel' tab pcb j (nf_next (tab ! j)) = Some (Some (q, t))"
        using IH in_js by blast
      have "as @ [q] = j # tl (as @ [q])" using *(1) by (cases as) auto
      then have "pcb \<notin> set (pcbs tab (as @ [q]))"
        using *(3) False by (metis list.simps(9) pcbs_def set_ConsD)
      moreover have "p # j # js = (p # as) @ q # t # bs" "tl ((p # as) @ [q]) = as @ [q]" using *(1) by auto
      ultimately show ?thesis using *(2,4) step by metis
    qed
    then show ?thesis using IH step mem by auto
  qed
qed

lemma chain_append: "chain tab h (as @ [q] @ bs) \<Longrightarrow> chain tab (nf_next (tab ! q)) bs"
  by (induction as arbitrary: h) auto

lemma chain_unlink:
  assumes "chain tab h (as @ q # t # bs)" and "distinct (as @ q # t # bs)" and "length tab = NOTIFIER_MAX"
  shows "chain (tab[q := (tab ! q)\<lparr>nf_next := nf_next (tab ! t)\<rparr>]) h (as @ q # bs)"
  using assms
proof (induction as arbitrary: h)
  case Nil
  then show ?case by (auto simp: chain_other nth_list_update)
next
  case (Cons a as)
  then have "a \<noteq> q" by auto
  then show ?case using Cons by auto
qed

lemma pcbs_append: "pcbs tab (as @ bs) = pcbs tab as @ pcbs tab bs"
  by (simp add: pcbs_def)

lemma pcbs_next: "pcbs (tab[q := (tab ! q)\<lparr>nf_next := n\<rparr>]) is = pcbs tab is"
  by (cases "q < length tab") (auto simp: pcbs_def nth_list_update list_update_beyond)

lemma remove1_first: "x \<notin> set xs \<Longrightarrow> remove1 x (xs @ x # ys) = xs @ ys"
  by (simp add: remove1_append)

lemma node_list_unlink:
  assumes "node_list tab h (as @ q # t # bs) fs" and "pcb = nf_pcb (tab ! t)"
    and "pcb \<notin> set (pcbs tab (tl (as @ [q])))"
    and tab'_def: "tab' = (tab[q := (tab ! q)\<lparr>nf_next := nf_next (tab ! t)\<rparr>])[t := x]"
  shows "node_list tab' h (as @ q # bs) (snd (delete_spec pcb fs)) \<and> fst (delete_spec pcb fs) = 0"
proof -
  let ?is = "as @ q # t # bs"
  have nl: "length tab = NOTIFIER_MAX" "chain tab h ?is" "distinct ?is" "pcbs tab ?is = fs"
    using assms(1) by (auto simp: node_list_def)
  have t: "t \<notin> set (as @ q # bs)" using nl(3) by auto
  have "chain tab' h (as @ q # bs)"
    unfolding tab'_def using chain_unlink [OF nl(2,3,1)] by (simp only: chain_other [OF t])
  moreover have "pcbs tab' (as @ q # bs) = pcbs tab (as @ q # bs)"
    unfolding tab'_def by (simp only: pcbs_other [OF t] pcbs_next)
  moreover have "delete_spec pcb fs = (0, pcbs tab (as @ q # bs))"
  proof -
    let ?f = "hd (pcbs tab (as @ [q]))" and ?gs = "pcbs tab (tl (as @ [q]))"
    have "pcbs tab (as @ [q]) = ?f # ?gs" by (cases as) (auto simp: pcbs_def)
    moreover have "pcbs tab (as @ [q] @ t # bs) = pcbs tab (as @ [q]) @ pcb # pcbs tab bs"
      by (simp add: pcbs_def assms(2))
    ultimately have fs: "fs = ?f # ?gs @ pcb # pcbs tab bs" using nl(4) by simp
    then have "delete_spec pcb fs = (0, ?f # remove1 pcb (?gs @ pcb # pcbs tab bs))"
      by (cases ?gs) auto
    also have "\<dots> = (0, (?f # ?gs) @ pcbs tab bs)"
      using assms(3) by (simp add: remove1_first)
    also have "(?f # ?gs) @ pcbs tab bs = pcbs tab (as @ q # bs)"
      using \<open>pcbs tab (as @ [q]) = ?f # ?gs\<close> by (simp add: pcbs_def)
    finally show ?thesis .
  qed
  ultimately show ?thesis using nl by (simp add: node_list_def tab'_def)
qed

lemma notifier_delete_wp:
  assumes nl: "node_list (notifiers w) h is fs"
  shows "wp (notifier_delete h pcb) (\<lambda>res w'. \<exists>h' is'.
     res = Some (fst (delete_spec pcb fs), h') \<and>
     node_list (notifiers w') h' is' (snd (delete_spec pcb fs)) \<and> set is' \<subseteq> set is \<and>
     (\<forall>g js gs. node_list (notifiers w) g js gs \<and> set js \<inter> set is = {} \<longrightarrow> node_list (notifiers w') g js gs)) w"
proof -
  let ?tab = "notifiers w"
  have len: "length is \<le> NOTIFIER_MAX" using nl chain_length by (auto simp: node_list_def)
  consider (nil) "is = []" | (one) i where "is = [i]" | (many) i j js where "is = i # j # js"
    by (cases "is" rule: remdups_adj.cases) auto
  then show ?thesis
  proof cases
    case nil
    with nl show ?thesis by (auto simp: notifier_delete_def node_list_def pcbs_def wp_simps)
  next
    case one
    let ?t = "?tab[i := (?tab ! i)\<lparr>nf_flag := NOTIFIER_FREE, nf_next := None\<rparr>]"
    have h: "h = Some i" "nf_next (?tab ! i) = None" "fs = [nf_pcb (?tab ! i)]"
      using nl one by (auto simp: node_list_def pcbs_def)
    have "node_list ?t None [] []" using nl by (simp add: node_list_def pcbs_def)
    moreover have "node_list ?t g js gs" if "node_list ?tab g js gs" "set js \<inter> set is = {}" for g js gs
      using that one by (intro node_list_other) auto
    ultimately show ?thesis
      using h nl one by (auto simp: notifier_delete_def wp_simps Let_def notifier_free_def notifier_set_def)
  next
    case many
    let ?js = "j # js"
    have ch: "chain ?tab (Some i) (i # ?js)" "h = Some i" "nf_next (?tab ! i) \<noteq> None" and fs: "fs = pcbs ?tab (i # ?js)"
      using nl many by (auto simp: node_list_def)
    have "length ?js \<le> NOTIFIER_MAX" using len many by simp
    note search = delete_search_spec [OF ch(1) this, of pcb]
    show ?thesis
    proof (cases "pcb \<in> set (pcbs ?tab ?js)")
      case False
      then have "delete_search NOTIFIER_MAX ?tab pcb i (nf_next (?tab ! i)) = Some None" using search by blast
      moreover have "delete_spec pcb fs = (- EFAIL, fs)" using False by (simp add: fs pcbs_Cons)
      ultimately show ?thesis using ch nl many by (auto simp: notifier_delete_def wp_simps Let_def)
    next
      case True
      then obtain as q t bs where *: "i # ?js = as @ q # t # bs" "nf_pcb (?tab ! t) = pcb"
        "pcb \<notin> set (pcbs ?tab (tl (as @ [q])))"
        "delete_search NOTIFIER_MAX ?tab pcb i (nf_next (?tab ! i)) = Some (Some (q, t))"
        using search by blast
      have nl': "node_list ?tab h (as @ q # t # bs) fs" using nl many *(1) by simp
      have qt: "q \<in> set is" "t \<in> set is" using many *(1) by auto
      note un = node_list_unlink [OF nl' *(2) [symmetric] *(3) refl]
      have sub: "set (as @ q # bs) \<subseteq> set is" using many *(1) by auto
      let ?tab1 = "?tab[q := (?tab ! q)\<lparr>nf_next := nf_next (?tab ! t)\<rparr>]"
      let ?tab2 = "?tab1[t := (?tab1 ! t)\<lparr>nf_flag := NOTIFIER_FREE, nf_next := None\<rparr>]"
      have "wp (notifier_delete h pcb) (\<lambda>res w'. res = Some (0, h) \<and> notifiers w' = ?tab2) w"
        using *(4) ch(2,3) by (simp add: notifier_delete_def notifier_free_def notifier_set_def wp_simps Let_def)
      moreover have "node_list ?tab2 g js gs" if "node_list ?tab g js gs" "set js \<inter> set is = {}" for g js gs
        using that qt by (intro node_list_other) auto
      ultimately show ?thesis
        using un sub by (elim wp_mono) (auto intro!: exI [of _ "as @ q # bs"])
    qed
  qed
qed

subsection \<open>Notification\<close>

text \<open>The calls a broadcast makes, in order.\<close>

fun invoke_all :: "(fnptr \<Rightarrow> u32 \<Rightarrow> u32 \<Rightarrow> ('w, int) state) \<Rightarrow> u32 \<Rightarrow> u32 \<Rightarrow> fnptr list \<Rightarrow> ('w, unit) state" where
  "invoke_all invoke command aux [] = ret ()"
| "invoke_all invoke command aux (f # fs) = do { _ \<leftarrow> invoke f command aux; invoke_all invoke command aux fs }"

lemma notify_loop_list:
  assumes "\<And>f. frames notifiers (invoke f command aux)"
  shows "chain (notifiers w) h is \<Longrightarrow> length is \<le> fuel \<Longrightarrow>
    run_state (notify_loop fuel invoke command aux h) w =
      (Some 0, snd (run_state (invoke_all invoke command aux (pcbs (notifiers w) is)) w))"
proof (induction "is" arbitrary: h fuel w)
  case Nil
  then show ?case by (simp add: pcbs_def)
next
  case (Cons i js)
  obtain fuel' where f: "fuel = Suc fuel'" using Cons.prems(2) by (cases fuel) auto
  let ?w = "snd (run_state (invoke (nf_pcb (notifiers w ! i)) command aux) w)"
  have same: "notifiers ?w = notifiers w" using assms by (rule framesD)
  have "run_state (notify_loop fuel' invoke command aux (nf_next (notifiers w ! i))) ?w =
      (Some 0, snd (run_state (invoke_all invoke command aux (pcbs (notifiers w) js)) ?w))"
    using Cons.IH [of ?w] Cons.prems f same by simp
  then show ?case
    using Cons.prems(1) same by (simp add: f pcbs_Cons State_Monad.get_def split_beta)
qed

section \<open>The interface of the manager\<close>

text \<open>
  What a client that registers callbacks relies on: a list of callbacks that grows at its front
  as long as there is room, and a broadcast that calls each of them.
\<close>

locale callback_registry =
  fixes represents :: "'w \<Rightarrow> 'h \<Rightarrow> fnptr list \<Rightarrow> bool"
    and room :: "'w \<Rightarrow> nat"
    and register :: "'h \<Rightarrow> fnptr \<Rightarrow> ('w, int \<times> 'h) state"
  assumes register_ok: "represents w h fs \<Longrightarrow> 0 < room w \<Longrightarrow>
      wp (register h f) (\<lambda>(r, h') w'. r = OK \<and> represents w' h' (f # fs) \<and> Suc (room w') = room w) w"
    and register_full: "represents w h fs \<Longrightarrow> room w = 0 \<Longrightarrow>
      wp (register h f) (\<lambda>(r, h') w'. r = - ENOSPC \<and> h' = h \<and> represents w' h fs \<and> room w' = 0) w"
begin

fun register_all :: "'h \<Rightarrow> fnptr list \<Rightarrow> ('w, 'h) state" where
  "register_all h [] = ret h"
| "register_all h (f # fs) = do { (_, h') \<leftarrow> register h f; register_all h' fs }"

text \<open>Registering more callbacks than fit keeps the first ones.\<close>

lemma register_all_represents:
  "represents w h gs \<Longrightarrow>
     wp (register_all h fs) (\<lambda>h' w'. represents w' h' (rev (take (room w) fs) @ gs) \<and> room w' = room w - length fs) w"
proof (induction fs arbitrary: w h gs)
  case Nil
  then show ?case by (simp add: wp_simps)
next
  case (Cons f fs)
  show ?case
  proof (cases "room w = 0")
    case True
    have "wp (register h f) (\<lambda>rh w'. wp (register_all (snd rh) fs)
        (\<lambda>h' w'. represents w' h' (rev (take (room w) (f # fs)) @ gs) \<and> room w' = room w - length (f # fs)) w') w"
      by (rule wp_mono [OF register_full [OF Cons.prems True, of f]])
        (use True Cons.IH in \<open>force elim!: wp_mono [rotated]\<close>)
    then show ?thesis by (simp add: wp_simps case_prod_unfold)
  next
    case False
    have "wp (register h f) (\<lambda>rh w'. wp (register_all (snd rh) fs)
        (\<lambda>h' w'. represents w' h' (rev (take (room w) (f # fs)) @ gs) \<and> room w' = room w - length (f # fs)) w') w"
    proof (rule wp_mono [OF register_ok [OF Cons.prems, of f]])
      fix rh w' assume "(case rh of (r, h') \<Rightarrow> \<lambda>w'. r = OK \<and> represents w' h' (f # gs) \<and> Suc (room w') = room w) w'"
      then have *: "represents w' (snd rh) (f # gs)" "room w = Suc (room w')" by (auto simp: split_beta)
      show "wp (register_all (snd rh) fs)
        (\<lambda>h' w'. represents w' h' (rev (take (room w) (f # fs)) @ gs) \<and> room w' = room w - length (f # fs)) w'"
        using Cons.IH [OF *(1)] *(2) by simp
    qed (use False in simp)
    then show ?thesis by (simp add: wp_simps case_prod_unfold)
  qed
qed

end

definition callbacks :: "'a notifier_state_scheme \<Rightarrow> nat option \<Rightarrow> fnptr list \<Rightarrow> bool" where
  "callbacks w h fs \<longleftrightarrow> (\<exists>is. node_list (notifiers w) h is fs)"

definition notifier_room :: "'a notifier_state_scheme \<Rightarrow> nat" where
  "notifier_room w = card (free_slots (notifiers w))"

lemma finite_free_slots [simp]: "finite (free_slots tab)"
  by (simp add: free_slots_def)

lemma notifier_insert_room:
  assumes c: "callbacks w h fs" and room: "0 < notifier_room w"
  shows "wp (notifier_insert E h f)
      (\<lambda>(r, h') w'. r = OK \<and> callbacks w' h' (f # fs) \<and> Suc (notifier_room w') = notifier_room w) w"
proof -
  obtain "is" where nl: "node_list (notifiers w) h is fs" using c by (auto simp: callbacks_def)
  have len: "length (notifiers w) = NOTIFIER_MAX" using nl by (simp add: node_list_def)
  obtain i where i: "first_free (notifiers w) = Some i"
    using room first_free_None [of "notifiers w"] by (cases "first_free (notifiers w)") (auto simp: notifier_room_def)
  note mem = first_free_Some [OF i]
  have "i < length (notifiers w)" using mem len by (simp add: free_slots_def)
  then have fr: "free_slots ((notifiers w)[i := \<lparr>nf_flag = NOTIFIER_USED, nf_pcb = f, nf_next = h\<rparr>]) =
      free_slots (notifiers w) - {i}"
    by (intro free_slots_use) simp_all
  show ?thesis
    using node_list_Cons [OF nl mem, of f] mem room
    by (intro wp_mono [OF notifier_insert_wp [OF len, of E h f]])
      (auto simp: i callbacks_def notifier_room_def fr)
qed

lemma notifier_insert_full:
  assumes c: "callbacks w h fs" and room: "notifier_room w = 0"
  shows "wp (notifier_insert E h f)
      (\<lambda>(r, h') w'. r = - ENOSPC \<and> h' = h \<and> callbacks w' h fs \<and> notifier_room w' = 0) w"
proof -
  have "first_free (notifiers w) = None" using room by (simp add: first_free_None notifier_room_def)
  moreover have "length (notifiers w) = NOTIFIER_MAX" using c by (auto simp: callbacks_def node_list_def)
  ultimately show ?thesis
    using c room by (intro wp_mono [OF notifier_insert_wp]) (auto simp: callbacks_def notifier_room_def)
qed

interpretation notif: callback_registry callbacks notifier_room "notifier_insert E"
  by unfold_locales (rule notifier_insert_room notifier_insert_full; assumption)+

section \<open>Properties\<close>


definition sample_notifiers :: notifier_state where
  "sample_notifiers = \<lparr>trace = [],
     notifiers = \<lparr>nf_flag = 1, nf_pcb = Fn 1, nf_next = Some 1\<rparr> # \<lparr>nf_flag = 1, nf_pcb = Fn 2, nf_next = None\<rparr> #
       replicate 6 \<lparr>nf_flag = 0, nf_pcb = Fn 0, nf_next = None\<rparr>\<rparr>"

lemma sample_notifiers_list: "node_list (notifiers sample_notifiers) (Some 0) [0, 1] [Fn 1, Fn 2]"
  by (simp add: sample_notifiers_def node_list_def pcbs_def)


text \<open>
  C35: a broadcast ends and calls every callback of the list once, from the first node to the
  last, with the given command, whatever the callbacks do apart from changing the node table.
\<close>
theorem notifier_notify_calls_all:
  assumes "node_list (notifiers w) h is fs" and "\<And>f. frames notifiers (invoke f command aux)"
  shows "run_state (notifier_notify invoke h command aux) w =
    (Some OK, snd (run_state (invoke_all invoke command aux fs) w))"
proof -
  have "chain (notifiers w) h is" "length is \<le> NOTIFIER_MAX" "pcbs (notifiers w) is = fs"
    using assms(1) chain_length by (auto simp: node_list_def)
  then show ?thesis using notify_loop_list [of invoke command aux w h "is"] assms(2) by (simp add: notifier_notify_def)
qed

theorem notifier_notify_calls_all_witness:
  "fst (run_state (notifier_notify (\<lambda>f c a. ret 0) (Some 0) 1 0) sample_notifiers) = Some OK"
  using notifier_notify_calls_all [OF sample_notifiers_list, of "\<lambda>f c a. ret 0" 1 0]
  by (simp add: frames_return)

end
