(* ===== verification/Ccu.thy ===== *)
theory Ccu
  imports Arisc
begin

text \<open>
  Clock gates, resets and dividers of the modules around the AR100S
  (\<^verbatim>\<open>src/ar100s/driver/prcm/prcm-sun60iw2p1/mclk.c\<close>, \<^verbatim>\<open>reset.c\<close>).
\<close>

unbundle bit_operations_syntax

section \<open>Model\<close>

abbreviation (input) CCU_CLK_OFF :: u32 where "CCU_CLK_OFF \<equiv> 0"
abbreviation (input) CCU_CLK_ON :: u32 where "CCU_CLK_ON \<equiv> 1"
abbreviation (input) CCU_CLK_RESET :: u32 where "CCU_CLK_RESET \<equiv> 0"
abbreviation (input) CCU_CLK_NRESET :: u32 where "CCU_CLK_NRESET \<equiv> 1"

abbreviation (input) CCU_MOD_CLK_SPINLOCK :: u32 where "CCU_MOD_CLK_SPINLOCK \<equiv> 16"
abbreviation (input) CCU_MOD_CLK_MSGBOX :: u32 where "CCU_MOD_CLK_MSGBOX \<equiv> 17"
abbreviation (input) CCU_MOD_CLK_R_UART :: u32 where "CCU_MOD_CLK_R_UART \<equiv> 26"
abbreviation (input) CCU_MOD_CLK_R_TIMER0_1 :: u32 where "CCU_MOD_CLK_R_TIMER0_1 \<equiv> 31"
abbreviation (input) CCU_MOD_CLK_R_TWI :: u32 where "CCU_MOD_CLK_R_TWI \<equiv> 34"
abbreviation (input) CCU_MOD_CLK_R_CIR :: u32 where "CCU_MOD_CLK_R_CIR \<equiv> 38"
abbreviation (input) CCU_MOD_CLK_VDD_SYS :: u32 where "CCU_MOD_CLK_VDD_SYS \<equiv> 44"
abbreviation (input) CCU_MOD_CLK_R_RTC :: u32 where "CCU_MOD_CLK_R_RTC \<equiv> 51"
abbreviation (input) CCU_MOD_CLK_R_PWM :: u32 where "CCU_MOD_CLK_R_PWM \<equiv> 56"
abbreviation (input) CCU_MOD_CLK_APBS_R_CIR :: u32 where "CCU_MOD_CLK_APBS_R_CIR \<equiv> 60"

abbreviation (input) CCU_SYS_CLK_NONE :: u32 where "CCU_SYS_CLK_NONE \<equiv> 0"
abbreviation (input) CCU_SYS_CLK_LOSC :: u32 where "CCU_SYS_CLK_LOSC \<equiv> 1"
abbreviation (input) CCU_SYS_CLK_HOSC :: u32 where "CCU_SYS_CLK_HOSC \<equiv> 3"

abbreviation (input) CCU_SPINLOCK_BGR_REG :: u32 where "CCU_SPINLOCK_BGR_REG \<equiv> 0x02002724"
abbreviation (input) CCU_MSGBOX_BGR_REG :: u32 where "CCU_MSGBOX_BGR_REG \<equiv> 0x02002744"
abbreviation (input) R_TIMER_BUS_GATE_RST_REG :: u32 where "R_TIMER_BUS_GATE_RST_REG \<equiv> 0x0701011c"
abbreviation (input) R_PWM_BUS_GATE_RST_REG :: u32 where "R_PWM_BUS_GATE_RST_REG \<equiv> 0x0701013c"
abbreviation (input) R_MSGBOX_GATE_RST_REG :: u32 where "R_MSGBOX_GATE_RST_REG \<equiv> 0x0701017c"
abbreviation (input) R_UART_BUS_GATE_RST_REG :: u32 where "R_UART_BUS_GATE_RST_REG \<equiv> 0x0701018c"
abbreviation (input) R_TWI_BUS_GATE_RST_REG :: u32 where "R_TWI_BUS_GATE_RST_REG \<equiv> 0x0701019c"
abbreviation (input) R_IR_RX_CLOCK_REG :: u32 where "R_IR_RX_CLOCK_REG \<equiv> 0x070101c0"
abbreviation (input) R_IR_RX_BUS_GATE_RST_REG :: u32 where "R_IR_RX_BUS_GATE_RST_REG \<equiv> 0x070101cc"
abbreviation (input) RTC_BUS_GATE_RST_REG :: u32 where "RTC_BUS_GATE_RST_REG \<equiv> 0x0701020c"
abbreviation (input) VDD_SYS_PWR_RST_REG :: u32 where "VDD_SYS_PWR_RST_REG \<equiv> 0x07010260"

text \<open>\<open>None\<close> is a divider that does not fit.\<close>

definition calc_clk_ratio_nm :: "u32 \<Rightarrow> (u32 \<times> u32) option" where
  "calc_clk_ratio_nm d =
     (if d < 33 then Some (0, d)
      else if d < 65 then Some (1, (d + 1) div 2)
      else if d < 129 then Some (2, (d + 3) div 4)
      else if d < 257 then Some (3, (d + 7) div 8)
      else None)"

definition ccu_set_mclk_onoff :: "env \<Rightarrow> u32 \<Rightarrow> u32 \<Rightarrow> ('a machine_scheme, int) state" where
  "ccu_set_mclk_onoff E mclk onoff =
     (if mclk = CCU_MOD_CLK_R_TWI then do {
        _ \<leftarrow> reg_update E R_TWI_BUS_GATE_RST_REG 1 onoff; ret OK }
      else if mclk = CCU_MOD_CLK_R_UART then do {
        _ \<leftarrow> reg_update E R_UART_BUS_GATE_RST_REG 1 onoff; ret OK }
      else if mclk = CCU_MOD_CLK_R_TIMER0_1 then do {
        _ \<leftarrow> reg_update E R_TIMER_BUS_GATE_RST_REG 1 onoff; ret OK }
      else if mclk = CCU_MOD_CLK_R_RTC then do {
        _ \<leftarrow> reg_update E RTC_BUS_GATE_RST_REG 1 onoff; ret OK }
      else if mclk = CCU_MOD_CLK_MSGBOX then do {
        _ \<leftarrow> reg_update E CCU_MSGBOX_BGR_REG 1 onoff;
        _ \<leftarrow> reg_update E R_MSGBOX_GATE_RST_REG 1 onoff; ret OK }
      else if mclk = CCU_MOD_CLK_APBS_R_CIR then do {
        _ \<leftarrow> reg_update E R_IR_RX_BUS_GATE_RST_REG 1 onoff; ret OK }
      else if mclk = CCU_MOD_CLK_R_CIR then do {
        _ \<leftarrow> reg_update E R_IR_RX_CLOCK_REG 0x80000000 (push_bit 31 onoff); ret OK }
      else ret (- EINVAL))"

definition ccu_set_mclk_src :: "env \<Rightarrow> u32 \<Rightarrow> u32 \<Rightarrow> ('a machine_scheme, int) state" where
  "ccu_set_mclk_src E mclk sclk =
     (if mclk = CCU_MOD_CLK_R_CIR then
        if sclk = CCU_SYS_CLK_LOSC then do { _ \<leftarrow> reg_update E R_IR_RX_CLOCK_REG 0x1000000 0; ret OK }
        else if sclk = CCU_SYS_CLK_HOSC then do { _ \<leftarrow> reg_update E R_IR_RX_CLOCK_REG 0x1000000 0x1000000; ret OK }
        else ret (- EINVAL)
      else ret (- EINVAL))"

definition ccu_get_mclk_src :: "env \<Rightarrow> u32 \<Rightarrow> ('a machine_scheme, u32) state" where
  "ccu_get_mclk_src E mclk =
     (if mclk = CCU_MOD_CLK_R_CIR then do {
        value \<leftarrow> readl E R_IR_RX_CLOCK_REG;
        let s = drop_bit 24 (value AND 0x1000000);
        ret (if s = 0 then CCU_SYS_CLK_LOSC else if s = 1 then CCU_SYS_CLK_HOSC else CCU_SYS_CLK_NONE) }
      else ret CCU_SYS_CLK_NONE)"

definition ccu_set_mclk_div :: "env \<Rightarrow> u32 \<Rightarrow> u32 \<Rightarrow> ('a machine_scheme, int) state" where
  "ccu_set_mclk_div E mclk d =
     (if mclk = CCU_MOD_CLK_R_CIR then
        (case calc_clk_ratio_nm d of None \<Rightarrow> ret (- EFAIL)
         | Some (factor_n, factor_m) \<Rightarrow> do {
             value \<leftarrow> readl E R_IR_RX_CLOCK_REG;
             let value = value AND NOT 0x1f;
             let value = value AND NOT 0x300;
             let value = value OR (factor_m - 1);
             let value = value OR push_bit 8 factor_n;
             _ \<leftarrow> writel value R_IR_RX_CLOCK_REG;
             ret OK
           })
      else ret (- EINVAL))"

definition ccu_get_mclk_div :: "env \<Rightarrow> u32 \<Rightarrow> ('a machine_scheme, int) state" where
  "ccu_get_mclk_div E mclk =
     (if mclk = CCU_MOD_CLK_R_CIR then do {
        value \<leftarrow> readl E R_IR_RX_CLOCK_REG;
        let factor_m = value AND 0x1f;
        let factor_n = drop_bit 8 (value AND 0x300);
        ret (sint ((factor_m + 1) * push_bit (unat factor_n) 1)) }
      else ret (- EINVAL))"

definition ccu_set_mclk_reset :: "env \<Rightarrow> u32 \<Rightarrow> u32 \<Rightarrow> ('a machine_scheme, int) state" where
  "ccu_set_mclk_reset E mclk reset =
     (if mclk = CCU_MOD_CLK_R_TWI then do {
        _ \<leftarrow> reg_update E R_TWI_BUS_GATE_RST_REG 0x10000 (push_bit 16 reset); ret OK }
      else if mclk = CCU_MOD_CLK_R_UART then do {
        _ \<leftarrow> reg_update E R_UART_BUS_GATE_RST_REG 0x10000 (push_bit 16 reset); ret OK }
      else if mclk = CCU_MOD_CLK_R_TIMER0_1 then do {
        _ \<leftarrow> reg_update E R_TIMER_BUS_GATE_RST_REG 0x10000 (push_bit 16 reset); ret OK }
      else if mclk = CCU_MOD_CLK_R_PWM then do {
        _ \<leftarrow> reg_update E R_PWM_BUS_GATE_RST_REG 0x10000 (push_bit 16 reset); ret OK }
      else if mclk = CCU_MOD_CLK_R_RTC then do {
        _ \<leftarrow> reg_update E RTC_BUS_GATE_RST_REG 0x10000 (push_bit 16 reset); ret OK }
      else if mclk = CCU_MOD_CLK_APBS_R_CIR then do {
        _ \<leftarrow> reg_update E R_IR_RX_BUS_GATE_RST_REG 0x10000 (push_bit 16 reset); ret OK }
      else if mclk = CCU_MOD_CLK_VDD_SYS then do {
        _ \<leftarrow> reg_update E VDD_SYS_PWR_RST_REG 1 reset; ret OK }
      else if mclk = CCU_MOD_CLK_SPINLOCK then do {
        _ \<leftarrow> reg_update E CCU_SPINLOCK_BGR_REG 0x10000 (push_bit 16 reset); ret OK }
      else if mclk = CCU_MOD_CLK_MSGBOX then do {
        _ \<leftarrow> reg_update E CCU_MSGBOX_BGR_REG 0x10000 (push_bit 16 reset);
        _ \<leftarrow> reg_update E R_MSGBOX_GATE_RST_REG 0x10000 (push_bit 16 reset); ret OK }
      else ret (- EINVAL))"

definition ccu_reset_module :: "env \<Rightarrow> u32 \<Rightarrow> ('a machine_scheme, int) state" where
  "ccu_reset_module E mclk = do {
     _ \<leftarrow> ccu_set_mclk_reset E mclk CCU_CLK_RESET;
     _ \<leftarrow> ccu_set_mclk_reset E mclk CCU_CLK_NRESET;
     ret OK
   }"

section \<open>Events\<close>

text \<open>Gates and resets touch nothing but their registers.\<close>

definition mclk_regs :: "u32 set" where
  "mclk_regs = {CCU_SPINLOCK_BGR_REG, CCU_MSGBOX_BGR_REG, R_TIMER_BUS_GATE_RST_REG, R_PWM_BUS_GATE_RST_REG,
     R_MSGBOX_GATE_RST_REG, R_UART_BUS_GATE_RST_REG, R_TWI_BUS_GATE_RST_REG, R_IR_RX_CLOCK_REG,
     R_IR_RX_BUS_GATE_RST_REG, RTC_BUS_GATE_RST_REG, VDD_SYS_PWR_RST_REG}"

fun reg_event :: "u32 set \<Rightarrow> event \<Rightarrow> bool" where
  "reg_event A (Rd a _) \<longleftrightarrow> a \<in> A"
| "reg_event A (Wr a _) \<longleftrightarrow> a \<in> A"
| "reg_event A _ \<longleftrightarrow> False"

lemma emits_mclk: "emits (reg_event mclk_regs) (ccu_set_mclk_onoff E k v)"
  "emits (reg_event mclk_regs) (ccu_set_mclk_reset E k v)"
  unfolding ccu_set_mclk_onoff_def ccu_set_mclk_reset_def
  by (intro emits_intros; simp add: mclk_regs_def)+

lemma frames_mclk [frames_intros]:
  assumes "\<And>w t. f (w\<lparr>trace := t\<rparr>) = f w"
  shows "frames f (ccu_set_mclk_onoff E k v)" "frames f (ccu_set_mclk_reset E k v)"
  unfolding ccu_set_mclk_onoff_def ccu_set_mclk_reset_def using assms by (intro frames_intros; simp)+

section \<open>The divider of the infrared receiver\<close>

text \<open>The dividers come in steps of 1, 2, 4 or 8.\<close>

definition div_step :: "nat \<Rightarrow> nat" where
  "div_step d = (if d < 33 then 1 else if d < 65 then 2 else if d < 129 then 4 else 8)"

lemma calc_clk_ratio_nm_ok:
  assumes "1 \<le> unat d" and "unat d \<le> 256"
  shows "\<exists>n k. calc_clk_ratio_nm d = Some (of_nat n, of_nat (Suc k)) \<and> n < 4 \<and> k < 32 \<and>
    2 ^ n = div_step (unat d) \<and> Suc k * 2 ^ n = div_step (unat d) * ((unat d + div_step (unat d) - 1) div div_step (unat d))"
proof -
  have cmp: "d < 33 \<longleftrightarrow> unat d < 33" "d < 65 \<longleftrightarrow> unat d < 65" "d < 129 \<longleftrightarrow> unat d < 129" "d < 257 \<longleftrightarrow> unat d < 257"
    by (simp_all add: word_less_nat_alt)
  have quot: "(d + of_nat c) div of_nat q = of_nat ((unat d + c) div q)" if "c < 8" "q < 9" for c q
  proof -
    have "unat (d + of_nat c) = unat d + c" using that assms by (simp add: unat_word_ariths unat_of_nat)
    moreover have "(unat d + c) div q < 2 ^ 32"
      by (rule le_less_trans [OF div_le_dividend]) (use that assms in simp)
    ultimately show ?thesis using that by (intro word_unat_eq_iff [THEN iffD2]) (simp add: unat_div_distrib unat_of_nat)
  qed
  consider "unat d < 33" | "33 \<le> unat d" "unat d < 65" | "65 \<le> unat d" "unat d < 129" | "129 \<le> unat d" by linarith
  then show ?thesis
  proof cases
    case 1
    then show ?thesis using assms by (intro exI [of _ 0] exI [of _ "unat d - 1"]) (auto simp: calc_clk_ratio_nm_def cmp div_step_def)
  next
    case 2
    then show ?thesis using quot [of 1 2] by (intro exI [of _ 1] exI [of _ "(unat d + 1) div 2 - 1"])
      (auto simp: calc_clk_ratio_nm_def cmp div_step_def)
  next
    case 3
    then show ?thesis using quot [of 3 4] by (intro exI [of _ 2] exI [of _ "(unat d + 3) div 4 - 1"])
      (auto simp: calc_clk_ratio_nm_def cmp div_step_def)
  next
    case 4
    then show ?thesis using quot [of 7 8] assms by (intro exI [of _ 3] exI [of _ "(unat d + 7) div 8 - 1"])
      (auto simp: calc_clk_ratio_nm_def cmp div_step_def)
  qed
qed

lemma small_fields:
  assumes "k < 32" and "n < 4"
  shows "(of_nat k :: u32) AND 0x1f = of_nat k" "(of_nat k :: u32) AND 0x300 = 0"
    "push_bit 8 (of_nat n :: u32) AND 0x1f = 0" "push_bit 8 (of_nat n :: u32) AND 0x300 = push_bit 8 (of_nat n)"
    "drop_bit 8 (push_bit 8 (of_nat n :: u32)) = of_nat n"
proof -
  have "(of_nat k :: u32) AND 0x1f = take_bit 5 (of_nat k)" by (simp add: take_bit_eq_mask mask_eq_exp_minus_1)
  also have "\<dots> = of_nat k" using assms(1) by (simp add: take_bit_of_nat take_bit_nat_eq_self)
  finally show k: "(of_nat k :: u32) AND 0x1f = of_nat k" .
  have "(of_nat k :: u32) AND 0x300 = (of_nat k AND 0x1f) AND 0x300" by (simp only: k)
  then show "(of_nat k :: u32) AND 0x300 = 0" by (simp add: and.assoc)
  have "n \<in> {0, 1, 2, 3}" using assms(2) by auto
  then show "push_bit 8 (of_nat n :: u32) AND 0x1f = 0"
    "push_bit 8 (of_nat n :: u32) AND 0x300 = push_bit 8 (of_nat n)"
    "drop_bit 8 (push_bit 8 (of_nat n :: u32)) = of_nat n"
    by auto
qed

text \<open>
  Setting the clock divider of the infrared receiver and reading it back. A request of 1 to
  256 is accepted, and the divider read back is the request rounded up to the next multiple of
  its step, so never less than the request; a larger request is refused without an access. The
  hypothesis is that the divider fields of the clock register hold what was written.
\<close>
theorem ccu_mclk_div_roundtrip:
  assumes "latches E R_IR_RX_CLOCK_REG 0x31f" and "1 \<le> unat d"
  shows "wp (do { r \<leftarrow> ccu_set_mclk_div E CCU_MOD_CLK_R_CIR d; q \<leftarrow> ccu_get_mclk_div E CCU_MOD_CLK_R_CIR; ret (r, q) })
    (\<lambda>(r, q) w'. if unat d \<le> 256
       then r = OK \<and> q = int (div_step (unat d) * ((unat d + div_step (unat d) - 1) div div_step (unat d))) \<and> int (unat d) \<le> q
       else r = - EFAIL \<and> last_write (trace w') R_IR_RX_CLOCK_REG = last_write (trace w) R_IR_RX_CLOCK_REG) w"
proof (cases "unat d \<le> 256")
  case False
  then have "calc_clk_ratio_nm d = None" by (auto simp: calc_clk_ratio_nm_def word_less_nat_alt)
  then show ?thesis using False by (simp add: ccu_set_mclk_div_def ccu_get_mclk_div_def wp_simps Let_def)
next
  case True
  obtain n k where nk: "calc_clk_ratio_nm d = Some (of_nat n, of_nat (Suc k))" "n < 4" "k < 32" "2 ^ n = div_step (unat d)"
    "Suc k * 2 ^ n = div_step (unat d) * ((unat d + div_step (unat d) - 1) div div_step (unat d))"
    using calc_clk_ratio_nm_ok [OF assms(2) True] by blast
  note f = small_fields [OF nk(3,2)]
  have k1: "of_nat (Suc k) - 1 = (of_nat k :: u32)" by simp
  define x where "x = dev_read E (trace w) R_IR_RX_CLOCK_REG"
  define v where "v = (((x AND NOT 0x1f) AND NOT 0x300) OR of_nat k) OR push_bit 8 (of_nat n)"
  define y where "y = dev_read E (Wr R_IR_RX_CLOCK_REG v # Rd R_IR_RX_CLOCK_REG x # trace w) R_IR_RX_CLOCK_REG"
  have y: "y AND 0x31f = v AND 0x31f" unfolding y_def by (rule latchesD [OF assms(1)]) simp
  have m: "y AND 0x1f = of_nat k"
  proof -
    have "y AND 0x1f = (y AND 0x31f) AND 0x1f" by (simp add: and.assoc)
    also have "\<dots> = v AND 0x1f" unfolding y by (simp add: and.assoc)
    also have "\<dots> = of_nat k" unfolding v_def using f by (simp add: and.assoc bit.conj_disj_distrib2)
    finally show ?thesis .
  qed
  have nn: "y AND 0x300 = push_bit 8 (of_nat n)"
  proof -
    have "y AND 0x300 = (y AND 0x31f) AND 0x300" by (simp add: and.assoc)
    also have "\<dots> = v AND 0x300" unfolding y by (simp add: and.assoc)
    also have "\<dots> = push_bit 8 (of_nat n)" unfolding v_def using f by (simp add: and.assoc bit.conj_disj_distrib2)
    finally show ?thesis .
  qed
  have "sint ((of_nat k + 1 :: u32) * push_bit (unat (of_nat n :: u32)) 1) = int (Suc k * 2 ^ n)"
  proof -
    have n: "unat (of_nat n :: u32) = n" using nk(2) by (simp add: unat_of_nat)
    have "(of_nat k + 1 :: u32) * push_bit n 1 = of_nat (Suc k * 2 ^ n)" by (simp add: push_bit_eq_mult algebra_simps)
    moreover have "2 ^ n \<le> (2 :: nat) ^ 3" by (rule power_increasing) (use nk(2) in auto)
    then have "Suc k * 2 ^ n \<le> 32 * 8" using nk(3) by (intro mult_le_mono) auto
    then have "sint (of_nat (Suc k * 2 ^ n) :: u32) = int (Suc k * 2 ^ n)"
      by (intro sint_of_small_nat) simp
    ultimately show ?thesis by (simp only: n)
  qed
  moreover have "unat d \<le> div_step (unat d) * ((unat d + div_step (unat d) - 1) div div_step (unat d))"
    by (auto simp: div_step_def)
  ultimately have "wp (do { r \<leftarrow> ccu_set_mclk_div E CCU_MOD_CLK_R_CIR d; q \<leftarrow> ccu_get_mclk_div E CCU_MOD_CLK_R_CIR; ret (r, q) })
    (\<lambda>rq w'. rq = (OK, int (Suc k * 2 ^ n)) \<and> unat d \<le> Suc k * 2 ^ n) w"
    unfolding nk(5)
    by (simp only: ccu_set_mclk_div_def ccu_get_mclk_div_def nk(1) option.case prod.case simp_thms if_True wp_simps
        Let_def trace_updated k1 x_def [symmetric] v_def [symmetric] y_def [symmetric] m nn f(5) nk(5))
  then show ?thesis unfolding nk(5) [symmetric]
    by (rule wp_mono) (simp only: True if_True prod.case simp_thms of_nat_le_iff)
qed

theorem ccu_mclk_div_roundtrip_witness:
  "wp (do { r \<leftarrow> ccu_set_mclk_div ram_env CCU_MOD_CLK_R_CIR 101; q \<leftarrow> ccu_get_mclk_div ram_env CCU_MOD_CLK_R_CIR; ret (r, q) })
     (\<lambda>(r, q) w'. r = OK \<and> q = 104) \<lparr>trace = []\<rparr>"
  by (rule wp_mono [OF ccu_mclk_div_roundtrip [of ram_env 101]]) (auto simp: div_step_def)

end
