(* ===== verification/Intc.thy ===== *)
theory Intc
  imports Notifier Ccu
begin

text \<open>
  The interrupt controller driver and the table of interrupt service routines
  (\<^verbatim>\<open>src/ar100s/driver/intc/clic.c\<close>, \<^verbatim>\<open>intc_manager.c\<close>, and the wake-up mask of
  \<^verbatim>\<open>src/ar100s/arch/riscv/cpu/e907/e907_com.c\<close>). The guards \<open>ASSERT(intno < IRQ_SOUCE_MAX)\<close>
  of the source expand to nothing, so an operation on a number outside the table is outside the
  model; the clients are shown to use only numbers of the table.
\<close>

unbundle bit_operations_syntax

section \<open>Model\<close>

abbreviation (input) RISCV_CLIC_BASE :: u32 where "RISCV_CLIC_BASE \<equiv> 0xE0800000"
abbreviation (input) R_INTC_REG_BASE :: u32 where "R_INTC_REG_BASE \<equiv> 0x07024000"
abbreviation (input) CLIC_CFG :: u32 where "CLIC_CFG \<equiv> RISCV_CLIC_BASE + 0x0"
abbreviation (input) CLIC_INFO :: u32 where "CLIC_INFO \<equiv> RISCV_CLIC_BASE + 0x4"
abbreviation (input) CLIC_MINTTHRESH :: u32 where "CLIC_MINTTHRESH \<equiv> RISCV_CLIC_BASE + 0x8"
abbreviation (input) CLIC_INT_IP :: "u32 \<Rightarrow> u32" where "CLIC_INT_IP n \<equiv> RISCV_CLIC_BASE + 0x1000 + 0x4 * n"
abbreviation (input) CLIC_INT_IE :: "u32 \<Rightarrow> u32" where "CLIC_INT_IE n \<equiv> RISCV_CLIC_BASE + 0x1001 + 0x4 * n"
abbreviation (input) CLIC_INT_REG :: "u32 \<Rightarrow> u32" where "CLIC_INT_REG n \<equiv> RISCV_CLIC_BASE + 0x1000 + 0x4 * n"
abbreviation (input) CLIC_IRQ_MAX :: u32 where "CLIC_IRQ_MAX \<equiv> 80"
abbreviation (input) CLIC_INFO_NUM_INTERRUPT_MASK :: u32 where "CLIC_INFO_NUM_INTERRUPT_MASK \<equiv> 0x1fff"
abbreviation (input) CLIC_CFG_RESET_VALUE :: u32 where "CLIC_CFG_RESET_VALUE \<equiv> 0x00000001"
abbreviation (input) CLIC_INT_RESET_VALUE :: u32 where "CLIC_INT_RESET_VALUE \<equiv> 0x1fc00000"
abbreviation (input) IRQ_SOUCE_MAX :: u32 where "IRQ_SOUCE_MAX \<equiv> 35"

record int_isr_node =
  pisr :: fnptr
  parg :: pointer

record intc_state = notifier_state +
  isr_table :: "int_isr_node list"

definition no_isr :: int_isr_node where
  "no_isr = \<lparr>pisr = Isr_default, parg = Null\<rparr>"

fun intc_init_loop :: "nat \<Rightarrow> u32 \<Rightarrow> ('a machine_scheme, unit) state" where
  "intc_init_loop 0 intno = ret ()"
| "intc_init_loop (Suc n) intno = do {
     _ \<leftarrow> writel CLIC_INT_RESET_VALUE (CLIC_INT_REG intno);
     intc_init_loop n (intno + 1)
   }"

definition intc_init :: "env \<Rightarrow> ('a machine_scheme, int) state" where
  "intc_init E = do {
     info \<leftarrow> readl E CLIC_INFO;
     let irq_count = info AND CLIC_INFO_NUM_INTERRUPT_MASK;
     if irq_count < IRQ_SOUCE_MAX \<or> irq_count > CLIC_IRQ_MAX then ret (- EINVAL)
     else do {
       _ \<leftarrow> intc_init_loop (unat irq_count) 0;
       _ \<leftarrow> writel CLIC_CFG_RESET_VALUE CLIC_CFG;
       _ \<leftarrow> writel 0 CLIC_MINTTHRESH;
       ret OK
     }
   }"

definition intc_enable_interrupt :: "env \<Rightarrow> u32 \<Rightarrow> ('a machine_scheme, int) state" where
  "intc_enable_interrupt E intno = do {
     v \<leftarrow> readb E (CLIC_INT_IE intno);
     _ \<leftarrow> writeb (v OR 0x1) (CLIC_INT_IE intno);
     ret OK
   }"

definition intc_disable_interrupt :: "env \<Rightarrow> u32 \<Rightarrow> ('a machine_scheme, int) state" where
  "intc_disable_interrupt E intno = do {
     v \<leftarrow> readb E (CLIC_INT_IE intno);
     _ \<leftarrow> writeb (v AND NOT 0x1) (CLIC_INT_IE intno);
     ret OK
   }"

definition intc_interrupt_query_pending :: "env \<Rightarrow> u32 \<Rightarrow> ('a machine_scheme, int) state" where
  "intc_interrupt_query_pending E intno = do {
     v \<leftarrow> readb E (CLIC_INT_IP intno);
     ret (uint (v AND 0x1))
   }"

definition intc_interrupt_clear_pending :: "env \<Rightarrow> u32 \<Rightarrow> ('a machine_scheme, int) state" where
  "intc_interrupt_clear_pending E intno = do {
     v \<leftarrow> readb E (CLIC_INT_IP intno);
     _ \<leftarrow> writeb (v AND NOT 0x1) (CLIC_INT_IP intno);
     ret OK
   }"

definition intc_interrupt_is_enabled :: "env \<Rightarrow> u32 \<Rightarrow> ('a machine_scheme, int) state" where
  "intc_interrupt_is_enabled E intno = do {
     v \<leftarrow> readb E (CLIC_INT_IE intno);
     ret (uint (v AND 0x1))
   }"

definition intc_get_current_interrupt :: "env \<Rightarrow> ('a machine_scheme, u32) state" where
  "intc_get_current_interrupt E = do { (_, v) \<leftarrow> call_out E Get_MCAUSE []; ret (v AND 0xff) }"

definition intc_set_mask :: "env \<Rightarrow> u32 \<Rightarrow> u32 \<Rightarrow> ('a machine_scheme, int) state" where
  "intc_set_mask E intno m = do {
     v \<leftarrow> readb E (CLIC_INT_IE intno);
     _ \<leftarrow> writeb ((v AND NOT 0x1) OR ucast (NOT m AND 0x1)) (CLIC_INT_IE intno);
     ret OK
   }"

definition intc_set_group_config :: "env \<Rightarrow> u32 \<Rightarrow> u32 \<Rightarrow> ('a machine_scheme, int) state" where
  "intc_set_group_config E grp_irq_num m = (
     let bit_os = grp_irq_num mod 32;
         reg_os = grp_irq_num div 32 * 0x4;
         reg = R_INTC_REG_BASE + 0x10 + reg_os
     in do {
       _ \<leftarrow> reg_update E reg (push_bit (unat bit_os) 0x1) (push_bit (unat bit_os) (m AND 0x1));
       ret OK
     })"

subsection \<open>The manager\<close>

definition interrupt_init :: "env \<Rightarrow> ('a intc_state_scheme, int) state" where
  "interrupt_init E = do {
     r \<leftarrow> intc_init E;
     if r \<noteq> OK then ret r
     else do {
       _ \<leftarrow> State_Monad.update (\<lambda>w. w\<lparr>isr_table := replicate (unat IRQ_SOUCE_MAX) no_isr\<rparr>);
       ret OK
     }
   }"

definition interrupt_enable :: "env \<Rightarrow> u32 \<Rightarrow> ('a machine_scheme, int) state" where
  "interrupt_enable E intno = intc_enable_interrupt E intno"

definition interrupt_disable :: "env \<Rightarrow> u32 \<Rightarrow> ('a machine_scheme, int) state" where
  "interrupt_disable E intno = intc_disable_interrupt E intno"

definition interrupt_set_mask :: "env \<Rightarrow> u32 \<Rightarrow> u32 \<Rightarrow> ('a machine_scheme, int) state" where
  "interrupt_set_mask E intno m = intc_set_mask E intno m"

definition interrupt_set_group_config :: "env \<Rightarrow> u32 \<Rightarrow> u32 \<Rightarrow> ('a machine_scheme, int) state" where
  "interrupt_set_group_config E grp_irq_num m = intc_set_group_config E grp_irq_num m"

definition install_isr :: "u32 \<Rightarrow> fnptr \<Rightarrow> pointer \<Rightarrow> ('a intc_state_scheme, int) state" where
  "install_isr intno f a = do {
     _ \<leftarrow> State_Monad.update (\<lambda>w. w\<lparr>isr_table := (isr_table w)[unat intno := \<lparr>pisr = f, parg = a\<rparr>]\<rparr>);
     ret OK
   }"

definition uninstall_isr :: "u32 \<Rightarrow> fnptr \<Rightarrow> ('a intc_state_scheme, int) state" where
  "uninstall_isr intno f = do {
     w \<leftarrow> State_Monad.get;
     if pisr (isr_table w ! unat intno) = f then do {
       _ \<leftarrow> State_Monad.update (\<lambda>w. w\<lparr>isr_table := (isr_table w)[unat intno := no_isr]\<rparr>);
       ret OK
     } else ret (- EFAIL)
   }"

definition interrupt_entry ::
  "env \<Rightarrow> (fnptr \<Rightarrow> pointer \<Rightarrow> ('a intc_state_scheme, int) state) \<Rightarrow> ('a intc_state_scheme, int) state" where
  "interrupt_entry E invoke = do {
     intno \<leftarrow> intc_get_current_interrupt E;
     w \<leftarrow> State_Monad.get;
     let node = isr_table w ! unat intno;
     _ \<leftarrow> invoke (pisr node) (parg node);
     ret OK
   }"

definition interrupt_query_pending :: "env \<Rightarrow> u32 \<Rightarrow> ('a machine_scheme, int) state" where
  "interrupt_query_pending E intno = intc_interrupt_query_pending E intno"

definition interrupt_clear_pending :: "env \<Rightarrow> u32 \<Rightarrow> ('a machine_scheme, int) state" where
  "interrupt_clear_pending E intno = intc_interrupt_clear_pending E intno"

definition isr_default :: "env \<Rightarrow> pointer \<Rightarrow> ('a machine_scheme, int) state" where
  "isr_default E arg = do { _ \<leftarrow> intc_get_current_interrupt E; ret 1 }"

definition interrupt_get_current_intno :: "env \<Rightarrow> ('a machine_scheme, u32) state" where
  "interrupt_get_current_intno E = intc_get_current_interrupt E"

definition interrupt_get_enabled :: "env \<Rightarrow> u32 \<Rightarrow> ('a machine_scheme, int) state" where
  "interrupt_get_enabled E intno = intc_interrupt_is_enabled E intno"

lemmas intc_defs = intc_enable_interrupt_def intc_disable_interrupt_def intc_interrupt_query_pending_def
  intc_interrupt_clear_pending_def intc_interrupt_is_enabled_def intc_get_current_interrupt_def intc_set_mask_def
  interrupt_enable_def interrupt_disable_def interrupt_set_mask_def interrupt_query_pending_def
  interrupt_clear_pending_def interrupt_get_current_intno_def interrupt_get_enabled_def

text \<open>The wake-up mask of the processor; the register is chosen by \<open>intno / 47\<close>.\<close>

abbreviation (input) E902_WAKEUP_MASK0_REG :: u32 where "E902_WAKEUP_MASK0_REG \<equiv> 0x07032064"
abbreviation (input) E902_WAKEUP_MASK1_REG :: u32 where "E902_WAKEUP_MASK1_REG \<equiv> 0x07032068"
abbreviation (input) MASK0_START_INTERRUPT :: u32 where "MASK0_START_INTERRUPT \<equiv> 16"
abbreviation (input) MASK1_START_INTERRUPT :: u32 where "MASK1_START_INTERRUPT \<equiv> 48"

definition interrput_arch_set_mask :: "env \<Rightarrow> u32 \<Rightarrow> bool \<Rightarrow> ('a machine_scheme, unit) state" where
  "interrput_arch_set_mask E intno st = (
     let (reg, start) = (if intno div (MASK1_START_INTERRUPT - 1) \<noteq> 0
           then (E902_WAKEUP_MASK1_REG, MASK1_START_INTERRUPT) else (E902_WAKEUP_MASK0_REG, MASK0_START_INTERRUPT));
         m = push_bit (unat (intno - start)) 0x01
     in if st then do { v \<leftarrow> readl E reg; writel (v OR m) reg }
        else do { v \<leftarrow> readl E reg; writel (v AND NOT m) reg })"

section \<open>Initialisation\<close>

definition reset_write :: "u32 \<Rightarrow> event" where
  "reset_write intno = Wr (CLIC_INT_REG intno) CLIC_INT_RESET_VALUE"

lemma intc_init_loop_writes:
  "wp (intc_init_loop n i) (\<lambda>_ w'. trace w' = rev (map (\<lambda>j. reset_write (i + of_nat j)) [0..<n]) @ trace w) w"
proof (induction n arbitrary: i w)
  case 0
  then show ?case by (simp add: wp_simps)
next
  case (Suc n)
  have upt: "[0..<Suc n] = 0 # map Suc [0..<n]" by (simp add: map_Suc_upt upt_conv_Cons)
  have e: "i + of_nat (Suc j) = i + 1 + of_nat j" for j by simp
  have *: "rev (map (\<lambda>j. reset_write (i + of_nat j)) [0..<Suc n]) =
      rev (map (\<lambda>j. reset_write (i + 1 + of_nat j)) [0..<n]) @ [reset_write i]"
    unfolding upt list.map map_map o_def e rev.simps by simp
  show ?case unfolding * intc_init_loop.simps wp_simps reset_write_def [symmetric]
    by (rule wp_mono [OF Suc.IH]) (simp only: trace_updated append_assoc append.simps)
qed

lemma last_write_append:
  "Wr a v \<in> set t \<Longrightarrow> \<forall>u. Wr a u \<in> set t \<longrightarrow> u = v \<Longrightarrow> last_write (t @ t0) a = Some v"
proof (induction t)
  case (Cons e t)
  show ?case
  proof (cases "\<exists>u. e = Wr a u")
    case True
    then obtain u where "e = Wr a u" ..
    then show ?thesis using Cons.prems(2) by (metis append_Cons last_write.simps(2) list.set_intros(1))
  next
    case False
    then have "last_write ((e # t) @ t0) a = last_write (t @ t0) a" by (cases e) auto
    moreover have "Wr a v \<in> set t" "\<forall>u. Wr a u \<in> set t \<longrightarrow> u = v" using Cons.prems False by (metis set_ConsD list.set_intros(2))+
    ultimately show ?thesis using Cons.IH by metis
  qed
qed simp

text \<open>
  The interrupt controller starts with every interrupt disabled. When the controller reports
  between 35 and 80 interrupts, \<open>interrupt_init\<close> leaves the word register of every one of them
  at the reset value, whose enable and pending bits are 0, and every entry of the service table
  at the default routine; with any other number it returns \<open>-EINVAL\<close> and writes nothing.
\<close>
theorem interrupt_init_resets:
  "wp (interrupt_init E) (\<lambda>r w'.
     let n = unat (dev_read E (trace w) CLIC_INFO AND CLIC_INFO_NUM_INTERRUPT_MASK) in
     if 35 \<le> n \<and> n \<le> 80
     then r = OK \<and> isr_table w' = replicate 35 no_isr \<and> last_write (trace w') CLIC_MINTTHRESH = Some 0 \<and>
       (\<forall>i<n. \<exists>v. last_write (trace w') (CLIC_INT_REG (of_nat i)) = Some v \<and> v AND 0x101 = 0)
     else r = - EINVAL \<and> w' = w\<lparr>trace := Rd CLIC_INFO (dev_read E (trace w) CLIC_INFO) # trace w\<rparr>) w"
proof -
  let ?x = "dev_read E (trace w) CLIC_INFO"
  let ?c = "?x AND CLIC_INFO_NUM_INTERRUPT_MASK"
  let ?w = "w\<lparr>trace := Rd CLIC_INFO ?x # trace w\<rparr>"
  show ?thesis
  proof (cases "35 \<le> unat ?c \<and> unat ?c \<le> 80")
    case False
    then have "?c < IRQ_SOUCE_MAX \<or> ?c > CLIC_IRQ_MAX" by (auto simp: word_less_nat_alt)
    then show ?thesis using False by (simp add: interrupt_init_def intc_init_def wp_simps Let_def)
  next
    case True
    then have g: "\<not> (?c < IRQ_SOUCE_MAX \<or> ?c > CLIC_IRQ_MAX)" by (auto simp: word_less_nat_alt)
    have reg: "last_write (Wr CLIC_MINTTHRESH 0 # Wr CLIC_CFG CLIC_CFG_RESET_VALUE # t) (CLIC_INT_REG (of_nat i)) =
        Some CLIC_INT_RESET_VALUE"
      if i: "i < unat ?c" and t: "t = rev (map (\<lambda>j. reset_write (0 + of_nat j)) [0..<unat ?c]) @ t0" for i t t0
    proof -
      have "unat (4 * of_nat i :: u32) = 4 * i" using i True by (simp add: unat_word_ariths unat_of_nat)
      then have ne: "CLIC_INT_REG (of_nat i) \<noteq> CLIC_MINTTHRESH" "CLIC_INT_REG (of_nat i) \<noteq> CLIC_CFG"
        using i True by (auto simp: word_unat_eq_iff unat_word_ariths)
      have "last_write (rev (map (\<lambda>j. reset_write (0 + of_nat j)) [0..<unat ?c]) @ t0)
          (CLIC_INT_REG (of_nat i)) = Some CLIC_INT_RESET_VALUE"
        by (rule last_write_append) (use i in \<open>auto simp: reset_write_def\<close>)
      then show ?thesis using ne t by (simp only: last_write.simps if_False simp_thms)
    qed
    let ?ok = "\<lambda>w'. \<forall>i<unat ?c. last_write (Wr CLIC_MINTTHRESH 0 # Wr CLIC_CFG CLIC_CFG_RESET_VALUE # trace w')
        (CLIC_INT_REG (of_nat i)) = Some CLIC_INT_RESET_VALUE"
    have loop: "wp (intc_init_loop (unat ?c) 0) (\<lambda>_ w'. ?ok w') ?w"
      by (rule wp_mono [OF intc_init_loop_writes]) (use reg in blast)
    define good :: "'a intc_state_scheme \<Rightarrow> bool" where "good = ?ok"
    have loop': "wp (intc_init_loop (unat ?c) 0) (\<lambda>_. good) ?w" using loop by (simp only: good_def)
    have thr: "last_write (Wr CLIC_MINTTHRESH 0 # t) CLIC_MINTTHRESH = Some 0" for t by simp
    have "wp (interrupt_init E) (\<lambda>r w'. r = OK \<and> isr_table w' = replicate 35 no_isr \<and>
        (\<exists>w0. trace w' = Wr CLIC_MINTTHRESH 0 # Wr CLIC_CFG CLIC_CFG_RESET_VALUE # trace w0 \<and> good w0)) w"
      unfolding interrupt_init_def intc_init_def
      by (simp only: wp_simps Let_def g if_False)
        (rule wp_mono [OF loop'], auto simp: wp_simps)
    then show ?thesis unfolding good_def
      by (rule wp_mono) (use True thr in \<open>auto simp: Let_def simp del: last_write.simps\<close>)
  qed
qed

theorem interrupt_init_resets_witness:
  "wp (interrupt_init (ram_env\<lparr>dev_read := \<lambda>_ _. 64\<rparr>)) (\<lambda>r w'. r = OK \<and> isr_table w' = replicate 35 no_isr)
     \<lparr>trace = [], notifiers = [], isr_table = []\<rparr>"
  by (rule wp_mono [OF interrupt_init_resets]) (simp add: Let_def)

section \<open>The service table\<close>

text \<open>
  The contract of a table of handlers: what is installed is found again, and only there; removing
  needs the handler that is installed.
\<close>

locale vector_table =
  fixes lookup :: "'w \<Rightarrow> nat \<Rightarrow> fnptr \<times> pointer"
    and valid :: "'w \<Rightarrow> nat \<Rightarrow> bool"
    and default :: "fnptr \<times> pointer"
    and install :: "nat \<Rightarrow> fnptr \<Rightarrow> pointer \<Rightarrow> ('w, int) state"
    and uninstall :: "nat \<Rightarrow> fnptr \<Rightarrow> ('w, int) state"
  assumes install_law: "valid w i \<Longrightarrow> wp (install i f a) (\<lambda>r w'. r = OK \<and> lookup w' = (lookup w)(i := (f, a)) \<and> valid w' = valid w) w"
    and uninstall_law: "valid w i \<Longrightarrow> fst (lookup w i) = f \<Longrightarrow>
      wp (uninstall i f) (\<lambda>r w'. r = OK \<and> lookup w' = (lookup w)(i := default) \<and> valid w' = valid w) w"
    and uninstall_other: "valid w i \<Longrightarrow> fst (lookup w i) \<noteq> f \<Longrightarrow> wp (uninstall i f) (\<lambda>r w'. r = - EFAIL \<and> w' = w) w"
begin

text \<open>Installing on a free vector and removing again restores the table.\<close>

lemma install_uninstall:
  assumes "valid w i" and "lookup w i = default"
  shows "wp (do { _ \<leftarrow> install i f a; uninstall i f }) (\<lambda>r w'. r = OK \<and> lookup w' = lookup w) w"
proof (rule wp_bindI, rule wp_mono [OF install_law [OF assms(1), of f a]])
  fix r w' assume *: "r = OK \<and> lookup w' = (lookup w)(i := (f, a)) \<and> valid w' = valid w"
  show "wp (uninstall i f) (\<lambda>r w'. r = OK \<and> lookup w' = lookup w) w'"
    by (rule wp_mono [OF uninstall_law]) (use * assms in \<open>auto simp: fun_eq_iff\<close>)
qed

end

definition isr_lookup :: "'a intc_state_scheme \<Rightarrow> nat \<Rightarrow> fnptr \<times> pointer" where
  "isr_lookup w i = (if i < length (isr_table w) then (pisr (isr_table w ! i), parg (isr_table w ! i)) else (Isr_default, Null))"

definition isr_valid :: "'a intc_state_scheme \<Rightarrow> nat \<Rightarrow> bool" where
  "isr_valid w i \<longleftrightarrow> length (isr_table w) = 35 \<and> i < 35"

lemma unat_of_small: "i < 35 \<Longrightarrow> unat (of_nat i :: u32) = i"
  by (simp add: unat_of_nat)

interpretation isr: vector_table isr_lookup isr_valid "(Isr_default, Null)"
  "\<lambda>i. install_isr (of_nat i)" "\<lambda>i. uninstall_isr (of_nat i)"
  by unfold_locales
    (auto simp: isr_valid_def isr_lookup_def install_isr_def uninstall_isr_def wp_simps unat_of_small fun_eq_iff
      nth_list_update no_isr_def)

text \<open>
  C36: dispatch of interrupts. After \<open>install_isr\<close> for a number of the table, the interrupt entry
  taken for that number calls exactly the installed routine with its argument, and \<open>uninstall_isr\<close>
  puts the default routine back if and only if the routine given is the installed one. All other
  entries of the table stay as they were.
\<close>
theorem isr_dispatch:
  assumes "length (isr_table w) = 35" and "unat intno < 35"
    and "snd (ext_call E (trace w) Get_MCAUSE []) AND 0xff = intno"
  shows "(let w1 = w\<lparr>isr_table := (isr_table w)[unat intno := \<lparr>pisr = f, parg = a\<rparr>]\<rparr>;
              w2 = snd (run_state (call_out E Get_MCAUSE []) w1) in
       run_state (do { _ \<leftarrow> install_isr intno f a; interrupt_entry E invoke }) w =
         (OK, snd (run_state (invoke f a) w2))) \<and>
    wp (uninstall_isr intno g) (\<lambda>r w'.
      (if pisr (isr_table w ! unat intno) = g then r = OK \<and> isr_table w' = (isr_table w)[unat intno := no_isr]
       else r = - EFAIL \<and> w' = w)) w"
proof
  show "let w1 = w\<lparr>isr_table := (isr_table w)[unat intno := \<lparr>pisr = f, parg = a\<rparr>]\<rparr>;
            w2 = snd (run_state (call_out E Get_MCAUSE []) w1) in
       run_state (do { _ \<leftarrow> install_isr intno f a; interrupt_entry E invoke }) w =
         (OK, snd (run_state (invoke f a) w2))"
    using assms
    by (simp add: install_isr_def interrupt_entry_def intc_get_current_interrupt_def call_out_def Let_def split_beta
        State_Monad.update_def State_Monad.get_def State_Monad.set_def)
  show "wp (uninstall_isr intno g) (\<lambda>r w'.
      (if pisr (isr_table w ! unat intno) = g then r = OK \<and> isr_table w' = (isr_table w)[unat intno := no_isr]
       else r = - EFAIL \<and> w' = w)) w"
    by (simp add: uninstall_isr_def wp_simps)
qed

theorem isr_dispatch_witness:
  "fst (run_state (do { _ \<leftarrow> install_isr 20 Timer_isr (Timer_ptr 0);
     interrupt_entry (ram_env\<lparr>ext_call := \<lambda>_ _ _. (0, 0x80000014)\<rparr>) (\<lambda>_ _. ret 1) })
     \<lparr>trace = [], notifiers = [], isr_table = replicate 35 no_isr\<rparr>) = OK"
  using isr_dispatch [of "\<lparr>trace = [], notifiers = [], isr_table = replicate 35 no_isr\<rparr>" 20
      "ram_env\<lparr>ext_call := \<lambda>_ _ _. (0, 0x80000014)\<rparr>" Timer_isr "Timer_ptr 0" "\<lambda>_ _. ret 1" Timer_isr]
  by (simp add: Let_def)

end
