(* ===== verification/Timer.thy ===== *)
theory Timer
  imports Intc
begin

text \<open>
  The hardware timers (\<^verbatim>\<open>src/ar100s/driver/timer/timer-extended/timer-extended.c\<close>), the delay
  services on top of them (\<^verbatim>\<open>timer-extended-delay.c\<close>) and the 64-bit counter
  (\<^verbatim>\<open>src/ar100s/driver/cpucfg/cpucfg-sun60iw2p1/cpucfg.c\<close>). A timer handle is the index of the
  timer, NULL is \<open>None\<close>. Two loops of the delay code have no bound of their own; they run with
  fuel, and a run that exhausts it sets \<open>hung\<close>, after which the state means nothing.
\<close>

unbundle bit_operations_syntax

section \<open>State\<close>

abbreviation (input) TIMERC_TIMERS_NUMBER :: nat where "TIMERC_TIMERS_NUMBER \<equiv> 2"
abbreviation (input) TIMER_FREE :: u32 where "TIMER_FREE \<equiv> 0"
abbreviation (input) TIMER_USED :: u32 where "TIMER_USED \<equiv> 1"
abbreviation (input) TIMER_MODE_PERIOD :: u32 where "TIMER_MODE_PERIOD \<equiv> 0"
abbreviation (input) TIMER_MODE_ONE_SHOOT :: u32 where "TIMER_MODE_ONE_SHOOT \<equiv> 1"
abbreviation (input) INTC_R_TIMER0_IRQ :: u32 where "INTC_R_TIMER0_IRQ \<equiv> 20"
abbreviation (input) INTC_R_TIMER1_IRQ :: u32 where "INTC_R_TIMER1_IRQ \<equiv> 21"
abbreviation (input) TIMER_REG_BASE :: u32 where "TIMER_REG_BASE \<equiv> 0x07091000"
abbreviation (input) TIMER_CLK_BASE :: u32 where "TIMER_CLK_BASE \<equiv> 0x07010100"
abbreviation (input) EXT_TIMER_IRQ_REG :: u32 where "EXT_TIMER_IRQ_REG \<equiv> TIMER_REG_BASE + 0x00"
abbreviation (input) EXT_TIMER_STA_REG :: u32 where "EXT_TIMER_STA_REG \<equiv> TIMER_REG_BASE + 0x04"
abbreviation (input) EXT_TIMER_CTRL_REG :: "u32 \<Rightarrow> u32" where "EXT_TIMER_CTRL_REG n \<equiv> TIMER_REG_BASE + 0x20 * (n + 1)"
abbreviation (input) EXT_TIMER_IVL_REG :: "u32 \<Rightarrow> u32" where "EXT_TIMER_IVL_REG n \<equiv> TIMER_REG_BASE + 0x20 * (n + 1) + 0x04"
abbreviation (input) EXT_TIMER_CLK_REG :: "u32 \<Rightarrow> u32" where "EXT_TIMER_CLK_REG n \<equiv> TIMER_CLK_BASE + n * 0x4"
abbreviation (input) EXT_TIMER_ENABLE :: u32 where "EXT_TIMER_ENABLE \<equiv> 1"
abbreviation (input) EXT_TIMER_RELOAD :: u32 where "EXT_TIMER_RELOAD \<equiv> 2"
abbreviation (input) EXT_TIMER_MODE :: u32 where "EXT_TIMER_MODE \<equiv> 0x80"
abbreviation (input) EXT_TIMER_POLL_LIMIT :: nat where "EXT_TIMER_POLL_LIMIT \<equiv> 100000"
abbreviation (input) CCU_HOSC_ON_READY_NOTIFY :: u32 where "CCU_HOSC_ON_READY_NOTIFY \<equiv> 0"
abbreviation (input) CCU_HOSC_WILL_OFF_NOTIFY :: u32 where "CCU_HOSC_WILL_OFF_NOTIFY \<equiv> 1"
abbreviation (input) CNT_LOW_REG :: u32 where "CNT_LOW_REG \<equiv> 0x08010000"
abbreviation (input) CNT_HIGH_REG :: u32 where "CNT_HIGH_REG \<equiv> 0x08010004"

record timer =
  timer_no :: u32
  status :: u32
  irq_no :: u32
  ms_ticks :: u32
  phandler :: "fnptr option"
  timer_parg :: pointer

record timer_state = intc_state +
  timer_lock :: u32
  delay_timer :: "nat option"
  timers :: "timer list"
  hosc_notifier_list :: "nat option"
  hosc_lock :: u32
  hung :: bool

definition initial_timers :: "timer list" where
  "initial_timers =
     [\<lparr>timer_no = 0, status = TIMER_FREE, irq_no = INTC_R_TIMER0_IRQ, ms_ticks = 0, phandler = None, timer_parg = Null\<rparr>,
      \<lparr>timer_no = 1, status = TIMER_FREE, irq_no = INTC_R_TIMER1_IRQ, ms_ticks = 0, phandler = None, timer_parg = Null\<rparr>]"

definition timer_at :: "nat \<Rightarrow> ('a timer_state_scheme, timer) state" where
  "timer_at i = do { w \<leftarrow> State_Monad.get; ret (timers w ! i) }"

definition timer_set :: "nat \<Rightarrow> (timer \<Rightarrow> timer) \<Rightarrow> ('a timer_state_scheme, unit) state" where
  "timer_set i f = State_Monad.update (\<lambda>w. w\<lparr>timers := (timers w)[i := f (timers w ! i)]\<rparr>)"

definition locked :: "('a timer_state_scheme, bool) state" where
  "locked = do { w \<leftarrow> State_Monad.get; ret (timer_lock w \<noteq> 0) }"

fun for_index :: "nat list \<Rightarrow> (nat \<Rightarrow> ('w, unit) state) \<Rightarrow> ('w, unit) state" where
  "for_index [] f = ret ()"
| "for_index (i # is) f = do { _ \<leftarrow> f i; for_index is f }"

section \<open>Operations\<close>

fun wait_clear_loop :: "env \<Rightarrow> nat \<Rightarrow> u32 \<Rightarrow> u32 \<Rightarrow> ('a machine_scheme, int) state" where
  "wait_clear_loop E 0 reg m = ret (- ETIMEOUT)"
| "wait_clear_loop E (Suc n) reg m = do {
     v \<leftarrow> readl E reg;
     if v AND m \<noteq> 0 then if n = 0 then ret (- ETIMEOUT) else wait_clear_loop E n reg m
     else ret OK
   }"

definition timer_wait_clear :: "env \<Rightarrow> u32 \<Rightarrow> u32 \<Rightarrow> ('a machine_scheme, int) state" where
  "timer_wait_clear E reg m = wait_clear_loop E EXT_TIMER_POLL_LIMIT reg m"

definition timer_ack_pending :: "env \<Rightarrow> timer \<Rightarrow> ('a machine_scheme, int) state" where
  "timer_ack_pending E ptimer = (
     let pending = push_bit (unat (timer_no ptimer)) 1 in do {
       _ \<leftarrow> writel pending EXT_TIMER_STA_REG;
       wait_clear_loop E EXT_TIMER_POLL_LIMIT EXT_TIMER_STA_REG pending
     })"

definition timer_init_one :: "env \<Rightarrow> nat \<Rightarrow> ('a timer_state_scheme, unit) state" where
  "timer_init_one E index = (let n = of_nat index in do {
     _ \<leftarrow> writel 0x0 (EXT_TIMER_CTRL_REG n);
     value \<leftarrow> readl E (EXT_TIMER_CLK_REG n);
     let value = value AND NOT (push_bit 4 0x7);
     let value = value OR push_bit 4 0x4;
     _ \<leftarrow> writel value (EXT_TIMER_CLK_REG n);
     value \<leftarrow> readl E (EXT_TIMER_CLK_REG n);
     let value = value AND NOT (push_bit 1 0x7);
     let value = value OR 0x1;
     _ \<leftarrow> writel value (EXT_TIMER_CLK_REG n);
     timer_set index (\<lambda>t. t\<lparr>ms_ticks := 24 * 1000\<rparr>)
   })"

definition ccu_24mhosc_reg_cb :: "env \<Rightarrow> fnptr \<Rightarrow> ('a timer_state_scheme, int) state" where
  "ccu_24mhosc_reg_cb E pcb = do {
     w \<leftarrow> State_Monad.get;
     (r, h) \<leftarrow> notifier_insert E (hosc_notifier_list w) pcb;
     _ \<leftarrow> State_Monad.update (\<lambda>w. w\<lparr>hosc_notifier_list := h\<rparr>);
     ret r
   }"

definition timer_init :: "env \<Rightarrow> ('a timer_state_scheme, int) state" where
  "timer_init E = do {
     _ \<leftarrow> ccu_set_mclk_onoff E CCU_MOD_CLK_R_TIMER0_1 CCU_CLK_ON;
     _ \<leftarrow> ccu_set_mclk_reset E CCU_MOD_CLK_R_TIMER0_1 CCU_CLK_NRESET;
     _ \<leftarrow> for_index [0..<TIMERC_TIMERS_NUMBER] (timer_init_one E);
     _ \<leftarrow> timer_set 0 (\<lambda>t. t\<lparr>status := TIMER_USED\<rparr>);
     _ \<leftarrow> State_Monad.update (\<lambda>w. w\<lparr>delay_timer := Some 0\<rparr>);
     value \<leftarrow> readl E (EXT_TIMER_CTRL_REG 0);
     _ \<leftarrow> writel (value OR push_bit 7 0x1) (EXT_TIMER_CTRL_REG 0);
     _ \<leftarrow> ccu_24mhosc_reg_cb E Timer_hosc_onoff_cb;
     _ \<leftarrow> State_Monad.update (\<lambda>w. w\<lparr>timer_lock := 0\<rparr>);
     ret OK
   }"

definition timer_exit :: "env \<Rightarrow> ('a timer_state_scheme, int) state" where
  "timer_exit E = do {
     _ \<leftarrow> ccu_set_mclk_reset E CCU_MOD_CLK_R_TIMER0_1 CCU_CLK_RESET;
     _ \<leftarrow> ccu_set_mclk_onoff E CCU_MOD_CLK_R_TIMER0_1 CCU_CLK_OFF;
     _ \<leftarrow> State_Monad.update (\<lambda>w. w\<lparr>timer_lock := 1\<rparr>);
     ret OK
   }"

definition free_timer :: "timer list \<Rightarrow> nat option" where
  "free_timer ts = find (\<lambda>i. status (ts ! i) = TIMER_FREE) [0..<TIMERC_TIMERS_NUMBER]"

definition timer_request :: "env \<Rightarrow> fnptr option \<Rightarrow> pointer \<Rightarrow> ('a timer_state_scheme, nat option) state" where
  "timer_request E phdle arg = do {
     l \<leftarrow> locked;
     if l then ret None
     else do {
       cpsr \<leftarrow> cpu_disable_int E;
       w \<leftarrow> State_Monad.get;
       let p = free_timer (timers w);
       _ \<leftarrow> (case p of None \<Rightarrow> ret ()
          | Some i \<Rightarrow> timer_set i (\<lambda>t. t\<lparr>status := TIMER_USED, phandler := phdle, timer_parg := arg\<rparr>));
       _ \<leftarrow> cpu_enable_int E cpsr;
       case p of None \<Rightarrow> ret None
       | Some i \<Rightarrow> do {
           t \<leftarrow> timer_at i;
           r \<leftarrow> install_isr (irq_no t) Timer_isr (Timer_ptr i);
           if r \<noteq> OK then do {
             cpsr \<leftarrow> cpu_disable_int E;
             _ \<leftarrow> timer_set i (\<lambda>t. t\<lparr>status := TIMER_FREE, phandler := None, timer_parg := Null\<rparr>);
             _ \<leftarrow> cpu_enable_int E cpsr;
             ret None
           } else ret (Some i)
         }
     }
   }"

definition timer_stop :: "env \<Rightarrow> nat \<Rightarrow> ('a timer_state_scheme, int) state" where
  "timer_stop E i = do {
     l \<leftarrow> locked;
     t \<leftarrow> timer_at i;
     if l \<or> status t \<noteq> TIMER_USED then ret (- EACCES)
     else do {
       value \<leftarrow> readl E (EXT_TIMER_CTRL_REG (timer_no t));
       _ \<leftarrow> writel (value AND NOT EXT_TIMER_ENABLE) (EXT_TIMER_CTRL_REG (timer_no t));
       value \<leftarrow> readl E EXT_TIMER_IRQ_REG;
       _ \<leftarrow> writel (value AND NOT (push_bit (unat (timer_no t)) 1)) EXT_TIMER_IRQ_REG;
       r \<leftarrow> interrupt_disable E (irq_no t);
       if r \<noteq> OK then ret (- EFAIL) else timer_ack_pending E t
     }
   }"

definition timer_release :: "env \<Rightarrow> nat option \<Rightarrow> ('a timer_state_scheme, int) state" where
  "timer_release E htimer = (case htimer of None \<Rightarrow> ret (- EINVAL)
   | Some i \<Rightarrow> do {
       w \<leftarrow> State_Monad.get;
       if delay_timer w = Some i \<or> status (timers w ! i) \<noteq> TIMER_USED then ret (- EINVAL)
       else do {
         r \<leftarrow> timer_stop E i;
         if r \<noteq> OK then ret r
         else do {
           r \<leftarrow> uninstall_isr (irq_no (timers w ! i)) Timer_isr;
           if r \<noteq> OK then ret r
           else do {
             cpsr \<leftarrow> cpu_disable_int E;
             _ \<leftarrow> timer_set i (\<lambda>t. t\<lparr>status := TIMER_FREE, phandler := None, timer_parg := Null\<rparr>);
             _ \<leftarrow> cpu_enable_int E cpsr;
             ret OK
           }
         }
       }
     })"

definition timer_start :: "env \<Rightarrow> nat \<Rightarrow> u32 \<Rightarrow> u32 \<Rightarrow> ('a timer_state_scheme, int) state" where
  "timer_start E i period mode = do {
     l \<leftarrow> locked;
     t \<leftarrow> timer_at i;
     let ctrl = EXT_TIMER_CTRL_REG (timer_no t);
     if l \<or> status t \<noteq> TIMER_USED then ret (- EACCES)
     else if period = 0 \<or> mode > TIMER_MODE_ONE_SHOOT then ret (- EINVAL)
     else let ticks = (ucast (ms_ticks t) :: u64) * ucast period in
     if ticks > 0xffffffff then ret (- EINVAL)
     else do {
       _ \<leftarrow> writel (ucast ticks) (EXT_TIMER_IVL_REG (timer_no t));
       value \<leftarrow> readl E ctrl;
       _ \<leftarrow> writel (value OR EXT_TIMER_RELOAD) ctrl;
       r \<leftarrow> timer_wait_clear E ctrl EXT_TIMER_RELOAD;
       if r \<noteq> OK then ret r
       else do {
         value \<leftarrow> readl E ctrl;
         let value = value AND NOT EXT_TIMER_MODE;
         let value = value OR push_bit 7 mode;
         _ \<leftarrow> writel value ctrl;
         r \<leftarrow> timer_ack_pending E t;
         if r \<noteq> OK then ret r
         else do {
           value \<leftarrow> readl E EXT_TIMER_IRQ_REG;
           _ \<leftarrow> writel (value OR push_bit (unat (timer_no t)) 1) EXT_TIMER_IRQ_REG;
           r \<leftarrow> interrupt_enable E (irq_no t);
           if r \<noteq> OK then ret r
           else do {
             value \<leftarrow> readl E ctrl;
             _ \<leftarrow> writel (value OR EXT_TIMER_ENABLE) ctrl;
             ret OK
           }
         }
       }
     }
   }"

definition timer_isr ::
  "env \<Rightarrow> (fnptr \<Rightarrow> pointer \<Rightarrow> ('a timer_state_scheme, int) state) \<Rightarrow> nat \<Rightarrow> ('a timer_state_scheme, int) state" where
  "timer_isr E invoke i = do {
     l \<leftarrow> locked;
     if l then ret (- EACCES)
     else do {
       t \<leftarrow> timer_at i;
       v \<leftarrow> readl E EXT_TIMER_STA_REG;
       if v AND push_bit (unat (timer_no t)) 1 \<noteq> 0 then do {
         r \<leftarrow> timer_ack_pending E t;
         if r \<noteq> OK then ret (- ETIMEOUT)
         else (case phandler t of None \<Rightarrow> ret 0
           | Some f \<Rightarrow> do { _ \<leftarrow> invoke f (timer_parg t); ret 1 })
       } else ret 0
     }
   }"

definition hosc_off_one :: "env \<Rightarrow> nat \<Rightarrow> ('a timer_state_scheme, unit) state" where
  "hosc_off_one E index = (let n = of_nat index in do {
     value \<leftarrow> readl E (EXT_TIMER_CLK_REG n);
     let value = value AND NOT (push_bit 4 0x7);
     let value = value OR push_bit 4 0x1;
     _ \<leftarrow> writel value (EXT_TIMER_CLK_REG n);
     _ \<leftarrow> timer_set index (\<lambda>t. t\<lparr>ms_ticks := 32\<rparr>);
     value \<leftarrow> readl E (EXT_TIMER_IVL_REG n);
     writel (value div (24000 div 32)) (EXT_TIMER_IVL_REG n)
   })"

definition hosc_on_one :: "env \<Rightarrow> nat \<Rightarrow> ('a timer_state_scheme, unit) state" where
  "hosc_on_one E index = (let n = of_nat index in do {
     value \<leftarrow> readl E (EXT_TIMER_IVL_REG n);
     _ \<leftarrow> writel (value * (24000 div 32)) (EXT_TIMER_IVL_REG n);
     value \<leftarrow> readl E (EXT_TIMER_CLK_REG n);
     let value = value AND NOT (push_bit 4 0x7);
     let value = value OR push_bit 4 0x4;
     _ \<leftarrow> writel value (EXT_TIMER_CLK_REG n);
     timer_set index (\<lambda>t. t\<lparr>ms_ticks := 24 * 1000\<rparr>)
   })"

definition timer_hosc_onoff_cb :: "env \<Rightarrow> u32 \<Rightarrow> u32 \<Rightarrow> ('a timer_state_scheme, int) state" where
  "timer_hosc_onoff_cb E message aux = do {
     l \<leftarrow> locked;
     if l then ret (- EACCES)
     else if message = CCU_HOSC_WILL_OFF_NOTIFY then do {
       _ \<leftarrow> for_index [0..<TIMERC_TIMERS_NUMBER] (hosc_off_one E); ret OK }
     else if message = CCU_HOSC_ON_READY_NOTIFY then do {
       _ \<leftarrow> for_index [0..<TIMERC_TIMERS_NUMBER] (hosc_on_one E); ret OK }
     else ret (- ESRCH)
   }"

subsection \<open>The counter and the delays\<close>

definition hang :: "('a timer_state_scheme, unit) state" where
  "hang = State_Monad.update (\<lambda>w. w\<lparr>hung := True\<rparr>)"

fun counter_loop :: "env \<Rightarrow> nat \<Rightarrow> ('a timer_state_scheme, u64) state" where
  "counter_loop E 0 = do { _ \<leftarrow> hang; ret 0 }"
| "counter_loop E (Suc n) = do {
     low \<leftarrow> readl E CNT_LOW_REG;
     high \<leftarrow> readl E CNT_HIGH_REG;
     high2 \<leftarrow> readl E CNT_HIGH_REG;
     if high \<noteq> high2 then counter_loop E n
     else do {
       low2 \<leftarrow> readl E CNT_LOW_REG;
       if low > low2 then counter_loop E n
       else ret (push_bit 32 (ucast high) + ucast low)
     }
   }"

definition cpucfg_counter_read :: "env \<Rightarrow> nat \<Rightarrow> ('a timer_state_scheme, u64) state" where
  "cpucfg_counter_read E fuel = counter_loop E fuel"

fun delay_wait_pending :: "env \<Rightarrow> nat \<Rightarrow> nat \<Rightarrow> u32 \<Rightarrow> u64 \<Rightarrow> ('a timer_state_scheme, int) state" where
  "delay_wait_pending E fuel 0 no deadline = do { _ \<leftarrow> hang; ret OK }"
| "delay_wait_pending E fuel (Suc n) no deadline = do {
     v \<leftarrow> readl E EXT_TIMER_STA_REG;
     if v AND push_bit (unat no) 1 = 0 then do {
       c \<leftarrow> cpucfg_counter_read E fuel;
       if c \<ge> deadline then ret (- ETIMEOUT) else delay_wait_pending E fuel n no deadline
     } else ret OK
   }"

definition delay_wait_clear :: "env \<Rightarrow> u32 \<Rightarrow> u32 \<Rightarrow> ('a machine_scheme, int) state" where
  "delay_wait_clear E reg m = wait_clear_loop E EXT_TIMER_POLL_LIMIT reg m"

definition time_mdelay :: "env \<Rightarrow> nat \<Rightarrow> u32 \<Rightarrow> ('a timer_state_scheme, unit) state" where
  "time_mdelay E fuel ms = do {
     l \<leftarrow> locked;
     if l then ret ()
     else do {
       w \<leftarrow> State_Monad.get;
       let t = timers w ! the (delay_timer w);
       let ctrl = EXT_TIMER_CTRL_REG (timer_no t);
       let ticks = (ucast (ms_ticks t) :: u64) * ucast ms;
       if ms = 0 \<or> ticks > 0xffffffff then ret ()
       else do {
         _ \<leftarrow> writel (ucast ticks) (EXT_TIMER_IVL_REG (timer_no t));
         value \<leftarrow> readl E ctrl;
         _ \<leftarrow> writel (value OR EXT_TIMER_RELOAD) ctrl;
         r \<leftarrow> delay_wait_clear E ctrl EXT_TIMER_RELOAD;
         if r \<noteq> OK then ret ()
         else do {
           _ \<leftarrow> writel (push_bit (unat (timer_no t)) 1) EXT_TIMER_STA_REG;
           value \<leftarrow> readl E ctrl;
           _ \<leftarrow> writel (value OR EXT_TIMER_ENABLE) ctrl;
           c \<leftarrow> cpucfg_counter_read E fuel;
           let deadline = c + ucast (ms + 1) * 24000;
           _ \<leftarrow> delay_wait_pending E fuel fuel (timer_no t) deadline;
           value \<leftarrow> readl E ctrl;
           _ \<leftarrow> writel (value AND NOT EXT_TIMER_ENABLE) ctrl;
           writel (push_bit (unat (timer_no t)) 1) EXT_TIMER_STA_REG
         }
       }
     }
   }"

fun udelay_loop :: "env \<Rightarrow> nat \<Rightarrow> nat \<Rightarrow> u64 \<Rightarrow> ('a timer_state_scheme, unit) state" where
  "udelay_loop E fuel 0 expire = hang"
| "udelay_loop E fuel (Suc n) expire = do {
     c \<leftarrow> cpucfg_counter_read E fuel;
     if expire > c then udelay_loop E fuel n expire else ret ()
   }"

definition cnt64_udelay :: "env \<Rightarrow> nat \<Rightarrow> u32 \<Rightarrow> ('a timer_state_scheme, unit) state" where
  "cnt64_udelay E fuel us =
     (if us = 0 then ret ()
      else do {
        c \<leftarrow> cpucfg_counter_read E fuel;
        let expire = ucast us * 24 + c;
        udelay_loop E fuel fuel expire
      })"

end
