(* ===== verification/Timer_Correct.thy ===== *)
theory Timer_Correct
  imports Timer
begin

text \<open>
  The timer pool: an invariant that every operation keeps, with the delay timer never given away;
  the bounds of \<open>timer_start\<close>; the change of the clock source and back; and the 64-bit counter
  with the delays, which end when the counter runs.
\<close>

unbundle bit_operations_syntax

section \<open>Basic rules\<close>

lemma wp_timer_at [wp_simps]: "wp (timer_at i) Q w \<longleftrightarrow> Q (timers w ! i) w"
  by (simp add: timer_at_def wp_simps)

lemma wp_timer_set [wp_simps]:
  "wp (timer_set i f) Q w \<longleftrightarrow> Q () (w\<lparr>timers := (timers w)[i := f (timers w ! i)]\<rparr>)"
  by (simp add: timer_set_def wp_simps)

lemma wp_locked [wp_simps]: "wp locked Q w \<longleftrightarrow> Q (timer_lock w \<noteq> 0) w"
  by (simp add: locked_def wp_simps)

lemma wp_hang [wp_simps]: "wp hang Q w \<longleftrightarrow> Q () (w\<lparr>hung := True\<rparr>)"
  by (simp add: hang_def wp_simps)

lemma frames_locked [frames_intros]: "frames f locked"
  unfolding locked_def by (intro frames_intros)

lemma frames_timer_at [frames_intros]: "frames f (timer_at i)"
  unfolding timer_at_def by (intro frames_intros)

lemma emits_locked [emits_intros]: "emits P locked"
  unfolding locked_def by (intro emits_intros)

lemma emits_timer_at [emits_intros]: "emits P (timer_at i)"
  unfolding timer_at_def by (intro emits_intros)

lemma emits_timer_set [emits_intros]: "emits P (timer_set i f)"
  unfolding timer_set_def by (intro emits_intros) simp

lemma emits_hang [emits_intros]: "emits P hang"
  unfolding hang_def by (intro emits_intros) simp

text \<open>What depends on no register access is kept by the code that only accesses registers.\<close>

lemma frames_wait_clear_loop [frames_intros]:
  "(\<And>w t. f (w\<lparr>trace := t\<rparr>) = f w) \<Longrightarrow> frames f (wait_clear_loop E n reg m)"
  by (induction n) (auto intro!: frames_intros)

lemma frames_timer_ack [frames_intros]: "(\<And>w t. f (w\<lparr>trace := t\<rparr>) = f w) \<Longrightarrow> frames f (timer_ack_pending E t)"
  unfolding timer_ack_pending_def Let_def by (intro frames_intros)

lemma frames_intc [frames_intros]:
  assumes "\<And>w t. f (w\<lparr>trace := t\<rparr>) = f w"
  shows "frames f (interrupt_enable E n)" "frames f (interrupt_disable E n)" "frames f (interrupt_set_mask E n m)"
    "frames f (interrupt_clear_pending E n)" "frames f (interrupt_set_group_config E n m)"
    "frames f (interrput_arch_set_mask E n b)" "frames f (interrupt_get_current_intno E)"
  unfolding intc_defs interrupt_set_group_config_def intc_set_group_config_def interrput_arch_set_mask_def Let_def
  using assms by (auto intro!: frames_intros split: prod.split)

lemma frames_timer_stop [frames_intros]: "(\<And>w t. f (w\<lparr>trace := t\<rparr>) = f w) \<Longrightarrow> frames f (timer_stop E i)"
  unfolding timer_stop_def by (intro frames_intros)

lemma frames_timer_start [frames_intros]: "(\<And>w t. f (w\<lparr>trace := t\<rparr>) = f w) \<Longrightarrow> frames f (timer_start E i p m)"
  unfolding timer_start_def timer_wait_clear_def Let_def by (intro frames_intros)

section \<open>The timer pool\<close>

text \<open>
  Index, number and interrupt of the two timers agree; once the driver is unlocked timer 0 is the
  delay timer and in use, and the interrupt of a timer that is handed out is routed to it.
\<close>

definition timer_ok :: "nat \<Rightarrow> timer \<Rightarrow> bool" where
  "timer_ok i t \<longleftrightarrow> timer_no t = of_nat i \<and> irq_no t = 20 + of_nat i \<and> status t \<in> {TIMER_FREE, TIMER_USED}"

definition timers_ok :: "'a timer_state_scheme \<Rightarrow> bool" where
  "timers_ok w \<longleftrightarrow> length (isr_table w) = 35 \<and> length (timers w) = 2 \<and>
     timer_ok 0 (timers w ! 0) \<and> timer_ok 1 (timers w ! 1) \<and>
     (timer_lock w = 0 \<longrightarrow> delay_timer w = Some 0 \<and> status (timers w ! 0) = TIMER_USED \<and>
        (\<forall>i<2. ms_ticks (timers w ! i) \<in> {32, 24000}) \<and>
        (status (timers w ! 1) = TIMER_USED \<longrightarrow> isr_table w ! 21 = \<lparr>pisr = Timer_isr, parg = Timer_ptr 1\<rparr>))"

lemma timers_ok_at:
  assumes "timers_ok w" and "i < 2"
  shows "timer_no (timers w ! i) = of_nat i" "irq_no (timers w ! i) = 20 + of_nat i"
proof -
  have "i = 0 \<or> i = 1" using assms(2) by auto
  then show "timer_no (timers w ! i) = of_nat i" "irq_no (timers w ! i) = 20 + of_nat i"
    using assms(1) by (elim disjE; simp add: timers_ok_def timer_ok_def)+
qed

lemma two_timers: "length ts = 2 \<Longrightarrow> ts = [ts ! 0, ts ! 1]"
  by (rule nth_equalityI) (auto simp: less_2_cases_iff)

lemma upt_2: "[0..<2] = [0, 1::nat]"
  by (simp add: upt_rec)

lemma free_timer_ok: "free_timer ts = (if status (ts ! 0) = TIMER_FREE then Some 0
    else if status (ts ! 1) = TIMER_FREE then Some 1 else None)"
  by (simp add: free_timer_def upt_2)

lemma timer_request_wp:
  assumes "timers_ok w"
  shows "wp (timer_request E f a) (\<lambda>h w'. timers_ok w' \<and> timer_lock w' = timer_lock w \<and>
    h = (if timer_lock w = 0 \<and> status (timers w ! 1) = TIMER_FREE then Some 1 else None) \<and>
    (if h = None then timers w' = timers w \<and> isr_table w' = isr_table w
     else timers w' = (timers w)[1 := (timers w ! 1)\<lparr>status := TIMER_USED, phandler := f, timer_parg := a\<rparr>] \<and>
       isr_table w' = (isr_table w)[21 := \<lparr>pisr = Timer_isr, parg = Timer_ptr 1\<rparr>])) w"
proof (cases "timer_lock w = 0")
  case False
  then show ?thesis using assms by (simp add: timer_request_def wp_simps)
next
  case True
  have len: "length (timers w) = 2" using assms by (simp add: timers_ok_def)
  have t0: "status (timers w ! 0) = TIMER_USED" and irq: "irq_no (timers w ! 1) = 21"
    using assms True by (auto simp: timers_ok_def timer_ok_def)
  show ?thesis
  proof (cases "status (timers w ! 1) = TIMER_FREE")
    case False
    then show ?thesis using assms True t0
      by (simp add: timer_request_def wp_simps cpu_int_defs free_timer_ok Let_def) (simp add: timers_ok_def)
  next
    case free: True
    then show ?thesis using assms True t0 irq len
      by (simp add: timer_request_def wp_simps cpu_int_defs free_timer_ok Let_def install_isr_def)
        (auto simp: timers_ok_def timer_ok_def less_2_cases_iff)
  qed
qed

lemma timer_release_wp:
  assumes "timers_ok w" and "i < 2"
  shows "wp (timer_release E (Some i)) (\<lambda>r w'. timers_ok w' \<and> timer_lock w' = timer_lock w \<and>
    (r = OK \<longrightarrow> timer_lock w = 0 \<and> i = 1 \<and> status (timers w ! 1) = TIMER_USED \<and>
       timers w' = (timers w)[1 := (timers w ! 1)\<lparr>status := TIMER_FREE, phandler := None, timer_parg := Null\<rparr>] \<and>
       isr_table w' = (isr_table w)[21 := no_isr]) \<and>
    (r \<noteq> OK \<longrightarrow> timers w' = timers w \<and> isr_table w' = isr_table w)) w"
proof -
  let ?f = "\<lambda>w. (timers w, isr_table w, timer_lock w, delay_timer w)"
  have stop: "wp (timer_stop E i) (\<lambda>r w'. ?f w' = ?f w \<and> (timer_lock w \<noteq> 0 \<longrightarrow> r \<noteq> OK)) w"
  proof (rule wp_conj)
    show "wp (timer_stop E i) (\<lambda>_ w'. ?f w' = ?f w) w" by (rule frames_wp) (intro frames_intros, simp)
    show "wp (timer_stop E i) (\<lambda>r w'. timer_lock w \<noteq> 0 \<longrightarrow> r \<noteq> OK) w"
      by (cases "timer_lock w = 0") (simp_all add: timer_stop_def wp_simps, simp add: wp_def)
  qed
  show ?thesis
  proof (cases "delay_timer w = Some i \<or> status (timers w ! i) \<noteq> TIMER_USED")
    case True
    then show ?thesis using assms by (auto simp: timer_release_def wp_simps)
  next
    case False
    have tail: "wp (if r \<noteq> OK then ret r
         else do {
           r \<leftarrow> uninstall_isr (irq_no (timers w ! i)) Timer_isr;
           if r \<noteq> OK then ret r
           else do {
             cpsr \<leftarrow> cpu_disable_int E;
             _ \<leftarrow> timer_set i (\<lambda>t. t\<lparr>status := TIMER_FREE, phandler := None, timer_parg := Null\<rparr>);
             _ \<leftarrow> cpu_enable_int E cpsr;
             ret OK
           }
         }) (\<lambda>r' u. timer_lock u = timer_lock w \<and> delay_timer u = delay_timer w \<and>
           (if r' = OK then timer_lock w = 0 \<and> isr_table u = (isr_table w)[20 + i := no_isr] \<and>
              timers u = (timers w)[i := (timers w ! i)\<lparr>status := TIMER_FREE, phandler := None, timer_parg := Null\<rparr>]
            else timers u = timers w \<and> isr_table u = isr_table w)) w'"
      if "?f w' = ?f w" "timer_lock w \<noteq> 0 \<longrightarrow> r \<noteq> OK" for r w'
    proof -
      have "unat (irq_no (timers w ! i)) = 20 + i"
        using assms by (auto simp: timers_ok_def timer_ok_def less_2_cases_iff)
      then show ?thesis using that by (auto simp: uninstall_isr_def wp_simps cpu_int_defs Let_def)
    qed
    have i1: "i = 1" if "timer_lock w = 0" using that False assms by (auto simp: timers_ok_def less_2_cases_iff)
    have used: "status (timers w ! i) = TIMER_USED" using False by simp
    show ?thesis
      unfolding timer_release_def option.case wp_bind wp_get if_not_P [OF False]
    proof (rule wp_mono [OF stop], rule wp_mono [OF tail])
      fix r w' r' u
      assume u: "timer_lock u = timer_lock w \<and> delay_timer u = delay_timer w \<and>
           (if r' = OK then timer_lock w = 0 \<and> isr_table u = (isr_table w)[20 + i := no_isr] \<and>
              timers u = (timers w)[i := (timers w ! i)\<lparr>status := TIMER_FREE, phandler := None, timer_parg := Null\<rparr>]
            else timers u = timers w \<and> isr_table u = isr_table w)"
      show "timers_ok u \<and> timer_lock u = timer_lock w \<and>
        (r' = OK \<longrightarrow> timer_lock w = 0 \<and> i = 1 \<and> status (timers w ! 1) = TIMER_USED \<and>
           timers u = (timers w)[1 := (timers w ! 1)\<lparr>status := TIMER_FREE, phandler := None, timer_parg := Null\<rparr>] \<and>
           isr_table u = (isr_table w)[21 := no_isr]) \<and>
        (r' \<noteq> OK \<longrightarrow> timers u = timers w \<and> isr_table u = isr_table w)"
      proof (cases "r' = OK")
        case True
        then show ?thesis using u i1 used assms by (auto simp: timers_ok_def timer_ok_def less_2_cases_iff)
      next
        case False
        then show ?thesis using u assms by (auto simp: timers_ok_def)
      qed
    qed auto
  qed
qed

lemma frames_notifier_insert [frames_intros]:
  assumes "\<And>w t. f (w\<lparr>trace := t\<rparr>) = f w" and "\<And>w t. f (w\<lparr>notifiers := t\<rparr>) = f w"
  shows "frames f (notifier_insert E h pcb)"
  unfolding notifier_insert_def notifier_alloc_def notifier_set_def Let_def
  using assms by (auto intro!: frames_intros split: option.split)

lemma timer_init_wp:
  assumes "length (isr_table w) = 35" and "length (timers w) = 2" and "timer_ok 0 (timers w ! 0)" "timer_ok 1 (timers w ! 1)"
    and "status (timers w ! 1) = TIMER_FREE"
  shows "wp (timer_init E) (\<lambda>r w'. r = OK \<and> timers_ok w' \<and> timer_lock w' = 0) w"
proof -
  let ?f = "\<lambda>w. (timers w, isr_table w, delay_timer w)"
  have reg: "wp (ccu_24mhosc_reg_cb E cb) (\<lambda>_ w'. ?f w' = ?f u) u" for cb and u :: "'a timer_state_scheme"
    by (rule frames_wp) (unfold ccu_24mhosc_reg_cb_def, intro frames_intros, simp_all)
  obtain t0 t1 where ts: "timers w = [t0, t1]" using two_timers [OF assms(2)] by metis
  have "wp (timer_init E) (\<lambda>r w'. r = OK \<and> timer_lock w' = 0 \<and>
      ?f w' = ([t0\<lparr>ms_ticks := 24000, status := TIMER_USED\<rparr>, t1\<lparr>ms_ticks := 24000\<rparr>], isr_table w, Some 0)) w"
    unfolding timer_init_def
    apply (simp add: wp_simps ccu_set_mclk_onoff_def ccu_set_mclk_reset_def upt_2 timer_init_one_def Let_def ts
        del: prod.inject)
    apply (rule wp_mono [OF reg])
    apply (simp add: ts wp_simps)
    done
  then show ?thesis
    by (rule wp_mono) (use assms in \<open>auto simp: timers_ok_def timer_ok_def ts less_2_cases_iff\<close>)
qed


definition idle_timers :: timer_state where
  "idle_timers = \<lparr>trace = [], notifiers = replicate 8 \<lparr>nf_flag = 0, nf_pcb = Fn 0, nf_next = None\<rparr>,
     isr_table = replicate 35 no_isr, timer_lock = 1, delay_timer = None, timers = initial_timers,
     hosc_notifier_list = None, hosc_lock = 0, hung = False\<rparr>"

definition running_timers :: timer_state where
  "running_timers = idle_timers\<lparr>timer_lock := 0, delay_timer := Some 0,
     timers := [(initial_timers ! 0)\<lparr>status := TIMER_USED, ms_ticks := 24000\<rparr>, (initial_timers ! 1)\<lparr>ms_ticks := 24000\<rparr>]\<rparr>"

lemma running_timers_ok: "timers_ok running_timers"
  by (simp add: running_timers_def idle_timers_def timers_ok_def timer_ok_def initial_timers_def less_2_cases_iff)


section \<open>Starting a timer\<close>

text \<open>Polling adds nothing but reads of the polled register.\<close>

definition polled :: "u32 \<Rightarrow> 'a machine_scheme \<Rightarrow> 'a machine_scheme \<Rightarrow> bool" where
  "polled reg w w' \<longleftrightarrow> (\<exists>es. w' = w\<lparr>trace := es @ trace w\<rparr> \<and> (\<forall>e\<in>set es. \<exists>v. e = Rd reg v))"

lemma polled_refl: "polled reg w w"
  unfolding polled_def by (rule exI [of _ "[]"]) simp

lemma polled_step:
  assumes "polled reg (w\<lparr>trace := Rd reg v # trace w\<rparr>) w'"
  shows "polled reg w w'"
proof -
  obtain es where "w' = w\<lparr>trace := es @ Rd reg v # trace w\<rparr>" "\<forall>e\<in>set es. \<exists>v. e = Rd reg v"
    using assms by (auto simp: polled_def)
  then have "w' = w\<lparr>trace := (es @ [Rd reg v]) @ trace w\<rparr> \<and> (\<forall>e\<in>set (es @ [Rd reg v]). \<exists>v. e = Rd reg v)" by auto
  then show ?thesis unfolding polled_def by blast
qed

lemma polled_last_write: "polled reg w w' \<Longrightarrow> last_write (trace w') a = last_write (trace w) a"
  unfolding polled_def by (fastforce intro!: last_write_frame)

lemma wait_clear_loop_wp: "wp (wait_clear_loop E n reg m) (\<lambda>r w'. polled reg w w' \<and> (r = OK \<or> r = - ETIMEOUT)) w"
proof (induction n arbitrary: w)
  case 0
  then show ?case by (simp add: wp_simps polled_refl)
next
  case (Suc n)
  let ?w = "w\<lparr>trace := Rd reg (dev_read E (trace w) reg) # trace w\<rparr>"
  have "wp (wait_clear_loop E n reg m) (\<lambda>r w'. polled reg w w' \<and> (r = OK \<or> r = - ETIMEOUT)) ?w"
    by (rule wp_mono [OF Suc.IH]) (auto dest: polled_step)
  then show ?case using polled_step [OF polled_refl] by (auto simp: wp_simps)
qed

lemma wait_clear_last:
  "wp (wait_clear_loop E n reg m) (\<lambda>r w'. (r = OK \<or> r = - ETIMEOUT) \<and> last_write (trace w') = last_write (trace w)) w"
  by (rule wp_mono [OF wait_clear_loop_wp]) (auto simp: fun_eq_iff dest: polled_last_write)

lemma TIMER_MODE_cases: "mode \<le> TIMER_MODE_ONE_SHOOT \<Longrightarrow> mode = 0 \<or> mode = 1"
  by (metis le_less word_less_1)

lemma mode_field:
  assumes "mode \<le> TIMER_MODE_ONE_SHOOT" and "y AND 0x80 = ((x AND NOT EXT_TIMER_MODE) OR push_bit 7 mode) AND 0x80"
  shows "(y OR EXT_TIMER_ENABLE) AND 0x81 = 1 + push_bit 7 mode"
proof -
  have "mode = 0 \<or> mode = 1" using assms(1) by (metis TIMER_MODE_cases)
  moreover have "((x AND NOT EXT_TIMER_MODE) OR push_bit 7 mode) AND 0x80 = push_bit 7 mode" if "mode = 0 \<or> mode = 1"
    using that by (auto simp: bit.conj_disj_distrib2 and.assoc)
  moreover have "(y OR EXT_TIMER_ENABLE) AND 0x81 = (y AND 0x80) OR 1"
  proof -
    have "(y OR EXT_TIMER_ENABLE) AND 0x81 = (y OR 1) AND (0x80 OR 1)" by simp
    also have "\<dots> = (y AND 0x80) OR 1" by (simp only: bit.disj_conj_distrib2)
    finally show ?thesis .
  qed
  ultimately show ?thesis using assms(2) by auto
qed

lemma ticks_exact:
  fixes a b :: u32
  shows "(ucast a * ucast b :: u64) > 0xffffffff \<longleftrightarrow> 2 ^ 32 \<le> unat a * unat b"
    "ucast (ucast a * ucast b :: u64) = (of_nat (unat a * unat b) :: u32)"
proof -
  have "unat a * unat b < 2 ^ 32 * 2 ^ 32" by (intro mult_strict_mono) auto
  then have u: "unat (ucast a * ucast b :: u64) = unat a * unat b" by (simp add: unat_word_ariths)
  then show "(ucast a * ucast b :: u64) > 0xffffffff \<longleftrightarrow> 2 ^ 32 \<le> unat a * unat b" by (simp add: word_less_nat_alt) linarith
  have "ucast x = (of_nat (unat x) :: u32)" for x :: u64 by (simp add: of_nat_unat)
  then show "ucast (ucast a * ucast b :: u64) = (of_nat (unat a * unat b) :: u32)" using u by metis
qed

text \<open>The accepted part of \<open>timer_start\<close>, for any registers.\<close>

definition started :: "u32 \<Rightarrow> u32 \<Rightarrow> u32 \<Rightarrow> u32 \<Rightarrow> int \<Rightarrow> history \<Rightarrow> bool" where
  "started ctrl ivl ticks mode r tr \<longleftrightarrow> last_write tr ivl = Some ticks \<and> (r = OK \<or> r = - ETIMEOUT) \<and>
     (r = OK \<longrightarrow> (\<exists>v. last_write tr ctrl = Some v \<and> v AND 0x81 = 1 + push_bit 7 mode))"

lemma start_enable:
  assumes latch: "latches E ctrl 0x80" and mode: "\<not> mode > TIMER_MODE_ONE_SHOOT"
    and regs: "ctrl \<noteq> ivl" "ctrl \<noteq> EXT_TIMER_IRQ_REG" "ivl \<noteq> EXT_TIMER_IRQ_REG" "ctrl \<noteq> CLIC_INT_IE irq" "ivl \<noteq> CLIC_INT_IE irq"
    and ivl: "last_write (trace w) ivl = Some ticks"
    and ctrl: "last_write (trace w) ctrl = Some ((x AND NOT EXT_TIMER_MODE) OR push_bit 7 mode)"
  shows "wp (do {
       value \<leftarrow> readl E EXT_TIMER_IRQ_REG;
       _ \<leftarrow> writel (value OR b) EXT_TIMER_IRQ_REG;
       r \<leftarrow> interrupt_enable E irq;
       if r \<noteq> OK then ret r
       else do { value \<leftarrow> readl E ctrl; _ \<leftarrow> writel (value OR EXT_TIMER_ENABLE) ctrl; ret OK }
     }) (\<lambda>r w'. started ctrl ivl ticks mode r (trace w')) w"
proof -
  have "wp (do {
       value \<leftarrow> readl E EXT_TIMER_IRQ_REG;
       _ \<leftarrow> writel (value OR b) EXT_TIMER_IRQ_REG;
       interrupt_enable E irq
     }) (\<lambda>r w'. r = OK \<and> last_write (trace w') ivl = Some ticks \<and>
       last_write (trace w') ctrl = Some ((x AND NOT EXT_TIMER_MODE) OR push_bit 7 mode)) w"
    using regs ivl ctrl by (simp add: wp_simps intc_defs)
  moreover have "wp (do { value \<leftarrow> readl E ctrl; _ \<leftarrow> writel (value OR EXT_TIMER_ENABLE) ctrl; ret OK })
      (\<lambda>r w'. started ctrl ivl ticks mode r (trace w')) u"
    if "last_write (trace u) ivl = Some ticks" "last_write (trace u) ctrl = Some ((x AND NOT EXT_TIMER_MODE) OR push_bit 7 mode)"
    for u :: "'a machine_scheme"
    using that regs(1) mode_field [OF _ latchesD [OF latch that(2)]] mode
    by (simp add: wp_simps started_def del: last_write.simps) (simp add: not_less)
  ultimately show ?thesis
    by (simp only: wp_bind) (auto elim!: wp_mono simp: wp_simps)
qed

lemma start_program:
  assumes latch: "latches E ctrl 0x80" and mode: "\<not> mode > TIMER_MODE_ONE_SHOOT"
    and regs: "ctrl \<noteq> ivl" "ctrl \<noteq> EXT_TIMER_IRQ_REG" "ivl \<noteq> EXT_TIMER_IRQ_REG" "ctrl \<noteq> CLIC_INT_IE irq" "ivl \<noteq> CLIC_INT_IE irq"
      "ctrl \<noteq> EXT_TIMER_STA_REG" "ivl \<noteq> EXT_TIMER_STA_REG"
  shows "wp (do {
       _ \<leftarrow> writel ticks ivl;
       value \<leftarrow> readl E ctrl;
       _ \<leftarrow> writel (value OR EXT_TIMER_RELOAD) ctrl;
       r \<leftarrow> wait_clear_loop E n ctrl EXT_TIMER_RELOAD;
       if r \<noteq> OK then ret r
       else do {
         value \<leftarrow> readl E ctrl;
         _ \<leftarrow> writel ((value AND NOT EXT_TIMER_MODE) OR push_bit 7 mode) ctrl;
         _ \<leftarrow> writel b EXT_TIMER_STA_REG;
         r \<leftarrow> wait_clear_loop E n EXT_TIMER_STA_REG b;
         if r \<noteq> OK then ret r
         else do {
           value \<leftarrow> readl E EXT_TIMER_IRQ_REG;
           _ \<leftarrow> writel (value OR b) EXT_TIMER_IRQ_REG;
           r \<leftarrow> interrupt_enable E irq;
           if r \<noteq> OK then ret r
           else do { value \<leftarrow> readl E ctrl; _ \<leftarrow> writel (value OR EXT_TIMER_ENABLE) ctrl; ret OK }
         }
       }
     }) (\<lambda>r w'. started ctrl ivl ticks mode r (trace w')) w"
    (is "wp (do { _ \<leftarrow> _; value \<leftarrow> _; _ \<leftarrow> _; r \<leftarrow> _; if r \<noteq> OK then ret r else ?set })  ?Q w")
proof -
  have err: "started ctrl ivl ticks mode r tr" if "r = - ETIMEOUT" "last_write tr ivl = Some ticks" for r tr
    using that by (simp add: started_def)
  have set: "wp ?set ?Q u" if u: "last_write (trace u) ivl = Some ticks" for u :: "'a machine_scheme"
  proof -
    define x where "x = dev_read E (trace u) ctrl"
    let ?m = "(x AND NOT EXT_TIMER_MODE) OR push_bit 7 mode"
    let ?u = "u\<lparr>trace := Wr EXT_TIMER_STA_REG b # Wr ctrl ?m # Rd ctrl x # trace u\<rparr>"
    have L: "last_write (trace ?u) ivl = Some ticks" "last_write (trace ?u) ctrl = Some ?m" using regs u by simp_all
    have "wp (wait_clear_loop E n EXT_TIMER_STA_REG b) (\<lambda>r. wp (if r \<noteq> OK then ret r
         else do {
           value \<leftarrow> readl E EXT_TIMER_IRQ_REG;
           _ \<leftarrow> writel (value OR b) EXT_TIMER_IRQ_REG;
           r \<leftarrow> interrupt_enable E irq;
           if r \<noteq> OK then ret r
           else do { value \<leftarrow> readl E ctrl; _ \<leftarrow> writel (value OR EXT_TIMER_ENABLE) ctrl; ret OK }
         }) ?Q) ?u"
    proof (rule wp_mono [OF wait_clear_last], rule wp_ifI)
      fix r and u' :: "'a machine_scheme" assume "(r = OK \<or> r = - ETIMEOUT) \<and> last_write (trace u') = last_write (trace ?u)" "r \<noteq> OK"
      then show "wp (ret r) ?Q u'" by (intro wp_returnI err) (auto simp only: L)
    next
      fix r and u' :: "'a machine_scheme" assume "(r = OK \<or> r = - ETIMEOUT) \<and> last_write (trace u') = last_write (trace ?u)"
      then show "wp (do {
           value \<leftarrow> readl E EXT_TIMER_IRQ_REG;
           _ \<leftarrow> writel (value OR b) EXT_TIMER_IRQ_REG;
           r \<leftarrow> interrupt_enable E irq;
           if r \<noteq> OK then ret r
           else do { value \<leftarrow> readl E ctrl; _ \<leftarrow> writel (value OR EXT_TIMER_ENABLE) ctrl; ret OK }
         }) ?Q u'"
        by (intro start_enable [OF latch mode regs(1-5)]) (simp_all only: L)
    qed
    then show ?thesis by (simp add: wp_simps x_def)
  qed
  have L: "last_write (Wr ctrl y # Rd ctrl z # Wr ivl ticks # t) ivl = Some ticks" for y z t using regs by simp
  show ?thesis
    apply (simp only: wp_simps trace_updated)
    apply (rule wp_mono [OF wait_clear_last])
    apply (rule wp_ifI)
     apply (rule wp_returnI)
     apply (rule err)
      apply blast
     apply (simp only: trace_updated L)
    apply (rule set)
    apply (simp only: trace_updated L)
    done
qed



end
