(* ===== verification/Timer_Delay.thy ===== *)
theory Timer_Delay
  imports Timer_Correct
begin

text \<open>
  The 64-bit counter and the delays. The hypothesis on the hardware is a counter that moves on
  with every bus access, by at most \<open>2 ^ 20\<close> ticks (44 ms at 24 MHz); the counter is then read
  without tearing, and the delays end and last at least as long as requested.
\<close>

unbundle bit_operations_syntax

section \<open>The counter\<close>

abbreviation (input) access_ticks :: nat where "access_ticks \<equiv> 0x100000"

definition counts :: "env \<Rightarrow> (history \<Rightarrow> nat) \<Rightarrow> bool" where
  "counts E c \<longleftrightarrow> (\<forall>t. dev_read E t CNT_LOW_REG = of_nat (c t mod 2 ^ 32) \<and>
     dev_read E t CNT_HIGH_REG = of_nat (c t div 2 ^ 32)) \<and>
     (\<forall>t e. c t < c (e # t) \<and> c (e # t) \<le> c t + access_ticks)"

lemma counts_read:
  assumes "counts E c"
  shows "unat (dev_read E t CNT_LOW_REG) = c t mod 2 ^ 32"
    "c t < 2 ^ 64 \<Longrightarrow> unat (dev_read E t CNT_HIGH_REG) = c t div 2 ^ 32"
proof -
  show "unat (dev_read E t CNT_LOW_REG) = c t mod 2 ^ 32"
    using assms by (simp add: counts_def unat_of_nat)
  assume "c t < 2 ^ 64"
  then have "c t div 2 ^ 32 < 2 ^ 32" by (simp add: div_less_iff_less_mult)
  then show "unat (dev_read E t CNT_HIGH_REG) = c t div 2 ^ 32"
    using assms by (simp add: counts_def unat_of_nat)
qed

lemma counts_step: "counts E c \<Longrightarrow> c t < c (e # t) \<and> c (e # t) \<le> c t + access_ticks"
  by (simp add: counts_def)

lemma counts_mono: "counts E c \<Longrightarrow> c t \<le> c (es @ t)"
  by (induction es) (auto dest: counts_step [where c = c] intro: le_trans less_imp_le)

text \<open>Between two low words of a short interval the high word changes exactly when the low word falls.\<close>

lemma short_interval:
  fixes a d M :: nat
  assumes "d < M"
  shows "a div M = (a + d) div M \<longleftrightarrow> a mod M \<le> (a + d) mod M"
    and "a div M \<noteq> (a + d) div M \<Longrightarrow> (a + d) mod M < d"
proof -
  define q r where "q = a div M" and "r = a mod M"
  have M: "0 < M" "r < M" using assms by (simp_all add: r_def)
  have ad: "a + d = M * q + (r + d)" by (simp add: q_def r_def)
  have dv: "(a + d) div M = q + (r + d) div M" "(a + d) mod M = (r + d) mod M"
    unfolding ad using M(1) by simp_all
  have "(r + d) mod M = r + d - M \<and> (r + d) div M = 1" if "\<not> r + d < M"
    using that M assms by (simp add: not_less le_mod_geq le_div_geq)
  then show "a div M = (a + d) div M \<longleftrightarrow> a mod M \<le> (a + d) mod M"
    and "a div M \<noteq> (a + d) div M \<Longrightarrow> (a + d) mod M < d"
    using dv M assms by (cases "r + d < M"; simp add: q_def [symmetric] r_def [symmetric])+
qed

text \<open>The traces in front of the four reads of one round.\<close>

definition round_trace :: "env \<Rightarrow> nat \<Rightarrow> history \<Rightarrow> history" where
  "round_trace E k t = foldl (\<lambda>t a. Rd a (dev_read E t a) # t) t (take k [CNT_LOW_REG, CNT_HIGH_REG, CNT_HIGH_REG, CNT_LOW_REG])"

lemma round_trace_simps:
  "round_trace E 0 t = t"
  "round_trace E 1 t = Rd CNT_LOW_REG (dev_read E t CNT_LOW_REG) # t"
  "round_trace E 2 t = Rd CNT_HIGH_REG (dev_read E (round_trace E 1 t) CNT_HIGH_REG) # round_trace E 1 t"
  "round_trace E 3 t = Rd CNT_HIGH_REG (dev_read E (round_trace E 2 t) CNT_HIGH_REG) # round_trace E 2 t"
  "round_trace E 4 t = Rd CNT_LOW_REG (dev_read E (round_trace E 3 t) CNT_LOW_REG) # round_trace E 3 t"
  by (simp_all add: round_trace_def numeral_2_eq_2 numeral_3_eq_3 numeral_eq_Suc)

lemma round_advance:
  assumes "counts E c"
  shows "c t < c (round_trace E 1 t)" "c (round_trace E 1 t) < c (round_trace E 2 t)"
    "c (round_trace E 2 t) < c (round_trace E 3 t)" "c (round_trace E 3 t) < c (round_trace E 4 t)"
    "c (round_trace E 3 t) \<le> c t + 3 * access_ticks" "c (round_trace E 4 t) \<le> c t + 4 * access_ticks"
proof -
  note st = counts_step [OF assms]
  have *: "c t < c (round_trace E 1 t) \<and> c (round_trace E 1 t) \<le> c t + access_ticks"
    "c (round_trace E 1 t) < c (round_trace E 2 t) \<and> c (round_trace E 2 t) \<le> c (round_trace E 1 t) + access_ticks"
    "c (round_trace E 2 t) < c (round_trace E 3 t) \<and> c (round_trace E 3 t) \<le> c (round_trace E 2 t) + access_ticks"
    "c (round_trace E 3 t) < c (round_trace E 4 t) \<and> c (round_trace E 4 t) \<le> c (round_trace E 3 t) + access_ticks"
    using st by (simp_all only: round_trace_simps)
  then show "c t < c (round_trace E 1 t)" "c (round_trace E 1 t) < c (round_trace E 2 t)"
    "c (round_trace E 2 t) < c (round_trace E 3 t)" "c (round_trace E 3 t) < c (round_trace E 4 t)"
    "c (round_trace E 3 t) \<le> c t + 3 * access_ticks" "c (round_trace E 4 t) \<le> c t + 4 * access_ticks"
    by linarith+
qed

text \<open>The counter keeps its high word during the round.\<close>

definition steady :: "env \<Rightarrow> (history \<Rightarrow> nat) \<Rightarrow> history \<Rightarrow> bool" where
  "steady E c t \<longleftrightarrow> c t div 2 ^ 32 = c (round_trace E 3 t) div 2 ^ 32"

lemma counter_round:
  assumes cnt: "counts E c" and bound: "c (trace w) < 2 ^ 63"
  shows "steady E c (trace w) \<Longrightarrow>
      wp (counter_loop E (Suc n)) (\<lambda>v w'. unat v = c (trace w) \<and> w' = w\<lparr>trace := round_trace E 4 (trace w)\<rparr>) w"
    and "\<not> steady E c (trace w) \<Longrightarrow>
      wp (counter_loop E n) Q (w\<lparr>trace := round_trace E 3 (trace w)\<rparr>) \<Longrightarrow>
      wp (counter_loop E n) Q (w\<lparr>trace := round_trace E 4 (trace w)\<rparr>) \<Longrightarrow> wp (counter_loop E (Suc n)) Q w"
proof -
  define t where "t = trace w"
  define M :: nat where "M = 2 ^ 32"
  define c1 c2 c3 c4 where "c1 = c t" and "c2 = c (round_trace E 1 t)" and "c3 = c (round_trace E 2 t)" and "c4 = c (round_trace E 3 t)"
  note adv = round_advance [OF cnt, of t, folded c1_def c2_def c3_def c4_def]
  define low high high2 low2 where "low = dev_read E t CNT_LOW_REG" and "high = dev_read E (round_trace E 1 t) CNT_HIGH_REG"
    and "high2 = dev_read E (round_trace E 2 t) CNT_HIGH_REG" and "low2 = dev_read E (round_trace E 3 t) CNT_LOW_REG"
  have b: "c1 < 2 ^ 63" using bound by (simp add: c1_def t_def)
  have vals: "unat low = c1 mod M" "unat high = c2 div M" "unat high2 = c3 div M" "unat low2 = c4 mod M"
    using counts_read [OF cnt] adv b
    by (simp_all add: low_def high_def high2_def low2_def c1_def c2_def c3_def c4_def M_def)
  have gap: "c4 = c1 + (c4 - c1)" "c4 - c1 < M" using adv by (simp_all add: M_def)
  note si = short_interval [OF gap(2), of c1, folded gap(1)]
  have st: "steady E c t \<longleftrightarrow> c1 div M = c4 div M" by (simp add: steady_def c1_def c4_def M_def)
  have mono: "c1 div M \<le> c2 div M" "c2 div M \<le> c3 div M" "c3 div M \<le> c4 div M" using adv by (simp_all add: div_le_mono)
  have run: "wp (counter_loop E (Suc n)) R w \<longleftrightarrow>
      (if high \<noteq> high2 then wp (counter_loop E n) R (w\<lparr>trace := round_trace E 3 t\<rparr>)
       else if low > low2 then wp (counter_loop E n) R (w\<lparr>trace := round_trace E 4 t\<rparr>)
       else R (push_bit 32 (ucast high) + ucast low) (w\<lparr>trace := round_trace E 4 t\<rparr>))" for R
    unfolding high_def high2_def low_def low2_def t_def
    by (simp add: wp_simps round_trace_simps One_nat_def [symmetric] del: One_nat_def)
  show "wp (counter_loop E (Suc n)) (\<lambda>v w'. unat v = c (trace w) \<and> w' = w\<lparr>trace := round_trace E 4 (trace w)\<rparr>) w"
    if "steady E c (trace w)"
  proof -
    have eq: "c1 div M = c4 div M" using that st by (simp add: t_def)
    then have "high = high2" "\<not> low > low2" "unat high = c1 div M"
      using mono si(1) vals by (auto simp: word_unat_eq_iff word_less_nat_alt not_less)
    moreover have "unat (push_bit 32 (ucast high) + ucast low :: u64) = c1"
    proof -
      have "c1 div M < 2 ^ 31" using b by (simp add: M_def div_less_iff_less_mult)
      then have "unat high * M + unat low < 2 ^ 64" using vals \<open>unat high = c1 div M\<close> b by (simp add: M_def)
      then have "unat (push_bit 32 (ucast high) + ucast low :: u64) = unat high * M + unat low"
        by (simp add: push_bit_eq_mult unat_word_ariths M_def mult.commute)
      then show ?thesis using vals(1) \<open>unat high = c1 div M\<close> by (metis div_mult_mod_eq)
    qed
    ultimately show ?thesis unfolding run by (simp add: c1_def t_def)
  qed
  show "wp (counter_loop E (Suc n)) Q w" if ns: "\<not> steady E c (trace w)"
    and w: "wp (counter_loop E n) Q (w\<lparr>trace := round_trace E 3 (trace w)\<rparr>)"
      "wp (counter_loop E n) Q (w\<lparr>trace := round_trace E 4 (trace w)\<rparr>)"
  proof -
    have "\<not> c1 mod M \<le> c4 mod M" using ns st si(1) by (simp add: t_def)
    then have "low > low2" using vals by (simp add: word_less_nat_alt)
    then show ?thesis unfolding run using w by (simp add: t_def)
  qed
qed

lemma steady_after_wrap:
  assumes cnt: "counts E c" and "\<not> steady E c t" and k: "k = 3 \<or> k = 4"
  shows "steady E c (round_trace E k t)"
proof -
  define M :: nat where "M = 2 ^ 32"
  let ?u = "round_trace E k t"
  note adv = round_advance [OF cnt, of t] and adv' = round_advance [OF cnt, of ?u]
  have gap: "c (round_trace E 3 t) = c t + (c (round_trace E 3 t) - c t)" "c (round_trace E 3 t) - c t < M"
    using adv by (simp_all add: M_def)
  have low: "c (round_trace E 3 t) mod M < 3 * access_ticks"
    using short_interval(2) [OF gap(2), of "c t", folded gap(1)] assms(2) adv by (simp add: steady_def M_def)
  have d: "c ?u \<le> c (round_trace E 3 t) + access_ticks" "c (round_trace E 3 t) \<le> c ?u"
    using k counts_step [OF cnt, of "round_trace E 3 t"] by (auto simp: round_trace_simps(5) intro: less_imp_le)
  define r where "r = c (round_trace E 3 t) mod M"
  obtain q where q: "c (round_trace E 3 t) = M * q + r" by (metis mult_div_mod_eq r_def)
  have "M * q \<le> c ?u" "c (round_trace E 3 ?u) < M * q + M" "c ?u \<le> c (round_trace E 3 ?u)"
    using q d low adv' by (simp_all add: M_def r_def)
  then have "c ?u div M = q" "c (round_trace E 3 ?u) div M = q"
    by (auto intro!: div_nat_eqI simp: mult.commute)
  then show ?thesis by (simp add: steady_def M_def)
qed

lemma counter_read_wp:
  assumes cnt: "counts E c" and bound: "c (trace w) < 2 ^ 62"
  shows "wp (cpucfg_counter_read E (Suc (Suc n))) (\<lambda>v w'. \<exists>t. w' = w\<lparr>trace := t\<rparr> \<and>
    c (trace w) \<le> unat v \<and> unat v < c t \<and> c t \<le> c (trace w) + 8 * access_ticks) w"
proof (cases "steady E c (trace w)")
  case True
  show ?thesis unfolding cpucfg_counter_read_def
    by (rule wp_mono [OF counter_round(1) [OF cnt _ True]])
      (use bound round_advance [OF cnt, of "trace w"] in auto)
next
  case False
  have again: "wp (counter_loop E (Suc n)) (\<lambda>v w'. \<exists>t. w' = w\<lparr>trace := t\<rparr> \<and>
    c (trace w) \<le> unat v \<and> unat v < c t \<and> c t \<le> c (trace w) + 8 * access_ticks) (w\<lparr>trace := round_trace E k (trace w)\<rparr>)"
    if k: "k = 3 \<or> k = 4" for k
  proof -
    let ?u = "round_trace E k (trace w)"
    have u: "c (trace w) \<le> c ?u" "c ?u \<le> c (trace w) + 4 * access_ticks"
      using k round_advance [OF cnt, of "trace w"] by auto
    show ?thesis
      by (rule wp_mono [OF counter_round(1) [OF cnt]])
        (use u bound steady_after_wrap [OF cnt False k] round_advance [OF cnt, of ?u] in auto)
  qed
  show ?thesis unfolding cpucfg_counter_read_def
    by (rule counter_round(2) [OF cnt _ False]) (use bound again in auto)
qed

section \<open>Delays\<close>

text \<open>A run that keeps all but the trace, with the counter moving on.\<close>

definition time_passes :: "(history \<Rightarrow> nat) \<Rightarrow> nat \<Rightarrow> 'a machine_scheme \<Rightarrow> 'a machine_scheme \<Rightarrow> bool" where
  "time_passes c n w w' \<longleftrightarrow> (\<exists>t. w' = w\<lparr>trace := t\<rparr>) \<and> c (trace w) + n \<le> c (trace w')"

lemma time_passes_trans: "time_passes c m w u \<Longrightarrow> time_passes c n u w' \<Longrightarrow> time_passes c (m + n) w w'"
  by (auto simp: time_passes_def)

lemma time_passes_mono: "time_passes c m w u \<Longrightarrow> n \<le> m \<Longrightarrow> time_passes c n w u"
  by (auto simp: time_passes_def)

lemma counter_read_passes:
  assumes "counts E c" and "c (trace w) < 2 ^ 62" and "2 \<le> fuel"
  shows "wp (cpucfg_counter_read E fuel) (\<lambda>v w'. time_passes c 1 w w' \<and> c (trace w) \<le> unat v \<and> unat v < c (trace w') \<and>
    c (trace w') \<le> c (trace w) + 8 * access_ticks) w"
proof -
  obtain n where "fuel = Suc (Suc n)" using assms(3) by (metis add_2_eq_Suc le_Suc_ex)
  then show ?thesis
    using counter_read_wp [OF assms(1,2), of n]
    by (auto elim!: wp_mono simp: time_passes_def)
qed

lemma udelay_loop_wp:
  assumes cnt: "counts E c" and fuel: "2 \<le> fuel" and top: "unat expire < 2 ^ 61"
  shows "c (trace w) < 2 ^ 62 \<Longrightarrow> unat expire \<le> c (trace w) + n \<Longrightarrow>
    wp (udelay_loop E fuel (Suc n) expire) (\<lambda>_ w'. time_passes c 0 w w' \<and> unat expire \<le> c (trace w')) w"
proof (induction n arbitrary: w)
  case 0
  show ?case
    unfolding udelay_loop.simps wp_bind
    by (rule wp_mono [OF counter_read_passes [OF cnt 0(1) fuel]])
      (use 0 in \<open>auto simp: wp_simps word_less_nat_alt time_passes_def\<close>)
next
  case (Suc n)
  have "wp (if expire > v then udelay_loop E fuel (Suc n) expire else ret ())
      (\<lambda>_ w'. time_passes c 0 w w' \<and> unat expire \<le> c (trace w')) u"
    if u: "time_passes c 1 w u" "c (trace w) \<le> unat v" "unat v < c (trace u)" "c (trace u) \<le> c (trace w) + 8 * access_ticks" for v u
  proof (rule wp_ifI)
    assume "expire > v"
    then have "c (trace u) < 2 ^ 62" "unat expire \<le> c (trace u) + n"
      using u Suc.prems top by (auto simp: word_less_nat_alt)
    from Suc.IH [OF this] show "wp (udelay_loop E fuel (Suc n) expire) (\<lambda>_ w'. time_passes c 0 w w' \<and> unat expire \<le> c (trace w')) u"
      by (rule wp_mono) (use time_passes_trans [OF time_passes_mono [OF u(1), of 0]] in force)
  next
    assume "\<not> expire > v"
    then show "wp (ret ()) (\<lambda>_ w'. time_passes c 0 w w' \<and> unat expire \<le> c (trace w')) u"
      using u time_passes_mono [OF u(1), of 0] by (intro wp_returnI) (auto simp: word_less_nat_alt)
  qed
  then show ?case
    unfolding udelay_loop.simps(2) [of E fuel "Suc n"] wp_bind
    by (intro wp_mono [OF counter_read_passes [OF cnt Suc.prems(1) fuel]]) blast
qed

text \<open>The wait for the pending bit is over soon after the deadline.\<close>

abbreviation (input) wait_ends :: "(history \<Rightarrow> nat) \<Rightarrow> nat \<Rightarrow> 'a machine_scheme \<Rightarrow> 'a machine_scheme \<Rightarrow> bool" where
  "wait_ends c d w w' \<equiv> time_passes c 0 w w' \<and> c (trace w') \<le> max (c (trace w)) (d + 9 * access_ticks) + 9 * access_ticks"

lemma delay_wait_step:
  assumes cnt: "counts E c" and fuel: "2 \<le> fuel" and top: "unat deadline < 2 ^ 61" and w: "c (trace w) < 2 ^ 61 + 2 ^ 23"
    and rest: "\<And>u. time_passes c 0 w u \<Longrightarrow> c (trace w) < c (trace u) \<Longrightarrow> c (trace w) < unat deadline \<Longrightarrow> c (trace u) < 2 ^ 61 + 2 ^ 23 \<Longrightarrow>
      wp (delay_wait_pending E fuel n no deadline) (\<lambda>_ w'. wait_ends c (unat deadline) u w') u"
  shows "wp (delay_wait_pending E fuel (Suc n) no deadline) (\<lambda>_ w'. wait_ends c (unat deadline) w w') w"
proof -
  let ?w = "w\<lparr>trace := Rd EXT_TIMER_STA_REG (dev_read E (trace w) EXT_TIMER_STA_REG) # trace w\<rparr>"
  have st: "c (trace w) < c (trace ?w)" "c (trace ?w) \<le> c (trace w) + access_ticks"
    using counts_step [OF cnt, of "trace w"] by simp_all
  then have pass: "time_passes c 0 w ?w" by (auto simp: time_passes_def)
  have "c (trace ?w) < 2 ^ 62" using st w by simp
  note read = counter_read_passes [OF cnt this fuel]
  have "wp (if v \<ge> deadline then ret (- ETIMEOUT) else delay_wait_pending E fuel n no deadline)
      (\<lambda>_ w'. wait_ends c (unat deadline) w w') u"
    if u: "time_passes c 1 ?w u" "c (trace ?w) \<le> unat v" "unat v < c (trace u)" "c (trace u) \<le> c (trace ?w) + 8 * access_ticks" for v u
  proof (rule wp_ifI)
    have wu: "time_passes c 0 w u" using time_passes_trans [OF pass u(1)] by (rule time_passes_mono) simp
    then show "wp (ret (- ETIMEOUT)) (\<lambda>_ w'. wait_ends c (unat deadline) w w') u" using st u by (intro wp_returnI) auto
    assume "\<not> v \<ge> deadline"
    then have d: "unat v < unat deadline" by (simp add: word_le_nat_alt not_le)
    then have "wp (delay_wait_pending E fuel n no deadline) (\<lambda>_ w'. wait_ends c (unat deadline) u w') u"
      using u st top by (intro rest wu) auto
    then show "wp (delay_wait_pending E fuel n no deadline) (\<lambda>_ w'. wait_ends c (unat deadline) w w') u"
    proof (rule wp_mono)
      fix r :: int and w' assume w': "wait_ends c (unat deadline) u w'"
      have "c (trace w') \<le> unat deadline + 9 * access_ticks + 9 * access_ticks" using w' d u st by auto
      then show "wait_ends c (unat deadline) w w'" using time_passes_trans [OF wu, of 0 w'] w' by auto
    qed
  qed
  then have "wp (cpucfg_counter_read E fuel) (\<lambda>v. wp (if v \<ge> deadline then ret (- ETIMEOUT) else delay_wait_pending E fuel n no deadline)
      (\<lambda>_ w'. wait_ends c (unat deadline) w w')) ?w"
    by (intro wp_mono [OF read]) blast
  then show ?thesis using pass st by (auto simp: wp_simps)
qed

lemma delay_wait_pending_wp:
  assumes cnt: "counts E c" and fuel: "2 \<le> fuel" and top: "unat deadline < 2 ^ 61"
  shows "c (trace w) < 2 ^ 61 + 2 ^ 23 \<Longrightarrow> unat deadline \<le> c (trace w) + n \<Longrightarrow>
    wp (delay_wait_pending E fuel (Suc n) no deadline) (\<lambda>_ w'. wait_ends c (unat deadline) w w') w"
proof (induction n arbitrary: w)
  case 0
  then show ?case by (intro delay_wait_step [OF cnt fuel top]) auto
next
  case (Suc n)
  then show ?case by (intro delay_wait_step [OF cnt fuel top] Suc.IH) auto
qed

text \<open>
  C33: the microsecond delay is exact from below. With a counter that runs and fuel for one round
  per tick of the delay, \<open>cnt64_udelay\<close> ends, changes nothing but the bus trace, and the counter
  has moved on by at least 24 ticks for every microsecond.
\<close>
theorem cnt64_udelay_correct:
  assumes cnt: "counts E c" and "c (trace w) < 2 ^ 60" and "24 * unat us + 9 * access_ticks \<le> fuel"
  shows "wp (cnt64_udelay E fuel us) (\<lambda>_ w'. time_passes c (24 * unat us) w w') w"
proof (cases "us = 0")
  case True
  then show ?thesis by (simp add: cnt64_udelay_def wp_simps time_passes_def exI [of _ "trace w"])
next
  case False
  have fuel: "2 \<le> fuel" using assms(3) by simp
  then obtain n where n: "fuel = Suc n" by (cases fuel) auto
  have "wp (udelay_loop E fuel fuel (ucast us * 24 + v)) (\<lambda>_ w'. time_passes c (24 * unat us) w w') u"
    if u: "time_passes c 1 w u" "c (trace w) \<le> unat v" "unat v < c (trace u)" "c (trace u) \<le> c (trace w) + 8 * access_ticks" for u and v :: u64
  proof -
    have us: "unat us < 4294967296" by simp
    have v: "unat v < 1152921504615235584" using u assms(2) by simp
    have b: "unat us * 24 < 18446744073709551616" "24 * unat us + unat v < 18446744073709551616"
      "24 * unat us + unat v < 2305843009213693952" using us v by linarith+
    have "unat (ucast us * 24 :: u64) = 24 * unat us" using b(1) by (simp add: unat_word_ariths)
    then have e: "unat (ucast us * 24 + v) = 24 * unat us + unat v" using b(2) by (simp add: unat_word_ariths)
    have e61: "unat (ucast us * 24 + v) < 2 ^ 61" unfolding e using b(3) by simp
    have "wp (udelay_loop E fuel (Suc n) (ucast us * 24 + v)) (\<lambda>_ w'. time_passes c 0 u w' \<and> unat (ucast us * 24 + v) \<le> c (trace w')) u"
      by (rule udelay_loop_wp [OF cnt fuel]) (use e e61 u assms(2,3) n in auto)
    then show ?thesis unfolding n [symmetric]
      by (rule wp_mono) (use u e in \<open>auto simp: time_passes_def\<close>)
  qed
  then show ?thesis
    unfolding cnt64_udelay_def Let_def wp_bind using False
    by (simp only: if_False wp_bind) (intro wp_mono [OF counter_read_passes [OF cnt _ fuel]], use assms(2) in auto)
qed

text \<open>A counter that counts the bus accesses.\<close>

definition tick_env :: env where
  "tick_env = \<lparr>dev_read = (\<lambda>t a. if a = CNT_LOW_REG then of_nat (length t mod 2 ^ 32)
     else if a = CNT_HIGH_REG then of_nat (length t div 2 ^ 32) else ram_dev t a), ext_call = (\<lambda>_ _ _. (0, 0))\<rparr>"

lemma tick_env_counts: "counts tick_env length"
  by (simp add: counts_def tick_env_def)

theorem cnt64_udelay_correct_witness:
  "wp (cnt64_udelay tick_env 10000000 5) (\<lambda>_ w'. 120 \<le> length (trace w') \<and> \<not> hung w') running_timers"
  by (rule wp_mono [OF cnt64_udelay_correct [OF tick_env_counts]])
    (auto simp: running_timers_def idle_timers_def time_passes_def)

lemma wait_clear_passes:
  assumes "counts E c"
  shows "wp (wait_clear_loop E n reg m) (\<lambda>_ w'. time_passes c 0 w w' \<and> c (trace w') \<le> c (trace w) + n * access_ticks) w"
proof (induction n arbitrary: w)
  case 0
  then show ?case by (simp add: wp_simps time_passes_def exI [of _ "trace w"])
next
  case (Suc n)
  let ?w = "w\<lparr>trace := Rd reg (dev_read E (trace w) reg) # trace w\<rparr>"
  have st: "time_passes c 0 w ?w \<and> c (trace ?w) \<le> c (trace w) + access_ticks"
    using counts_step [OF assms, of "trace w"] by (auto simp: time_passes_def intro: less_imp_le)
  have "wp (wait_clear_loop E n reg m) (\<lambda>_ w'. time_passes c 0 w w' \<and> c (trace w') \<le> c (trace w) + Suc n * access_ticks) ?w"
  proof (rule wp_mono [OF Suc.IH])
    fix r :: int and w' assume "time_passes c 0 ?w w' \<and> c (trace w') \<le> c (trace ?w) + n * access_ticks"
    then show "time_passes c 0 w w' \<and> c (trace w') \<le> c (trace w) + Suc n * access_ticks"
      using st time_passes_trans [of c 0 w ?w 0 w'] by auto
  qed
  then show ?case using st by (auto simp: wp_simps)
qed

lemma events_pass:
  assumes "counts E c"
  shows "time_passes c 0 w (w\<lparr>trace := es @ trace w\<rparr>) \<and> c (es @ trace w) \<le> c (trace w) + length es * access_ticks"
proof (induction es)
  case (Cons e es)
  then show ?case using counts_step [OF assms, of "es @ trace w" e] by (auto simp: time_passes_def)
qed (simp add: time_passes_def exI [of _ "trace w"])

text \<open>A run that keeps all but the trace and takes at most \<open>n\<close> ticks.\<close>

abbreviation (input) within :: "(history \<Rightarrow> nat) \<Rightarrow> nat \<Rightarrow> 'a machine_scheme \<Rightarrow> 'a machine_scheme \<Rightarrow> bool" where
  "within c n w w' \<equiv> time_passes c 0 w w' \<and> c (trace w') \<le> c (trace w) + n"

lemma within_trans: "within c m w u \<Longrightarrow> within c n u w' \<Longrightarrow> m + n \<le> k \<Longrightarrow> within c k w w'"
  using time_passes_trans [of c 0 w u 0 w'] by auto

lemma within_events: "counts E c \<Longrightarrow> within c (length es * access_ticks) w (w\<lparr>trace := es @ trace w\<rparr>)"
  using events_pass [of E c w es] by simp

text \<open>The tail of \<open>time_mdelay\<close> after the interval is loaded.\<close>

lemma mdelay_run:
  fixes ms :: u32
  assumes cnt: "counts E c" and w: "c (trace w) < 2 ^ 60 + 2 ^ 40" and fuel: "24000 * (unat ms + 1) + 2 \<le> fuel"
  shows "wp (do {
       _ \<leftarrow> writel b EXT_TIMER_STA_REG;
       value \<leftarrow> readl E ctrl;
       _ \<leftarrow> writel (value OR EXT_TIMER_ENABLE) ctrl;
       v \<leftarrow> cpucfg_counter_read E fuel;
       _ \<leftarrow> delay_wait_pending E fuel fuel no (v + ucast (ms + 1) * 24000);
       value \<leftarrow> readl E ctrl;
       _ \<leftarrow> writel (value AND NOT EXT_TIMER_ENABLE) ctrl;
       writel b EXT_TIMER_STA_REG
     }) (\<lambda>_ w'. within c (24000 * (unat ms + 1) + 32 * access_ticks) w w') w"
    (is "wp (do { _ \<leftarrow> _; value \<leftarrow> _; _ \<leftarrow> _; v \<leftarrow> _; _ \<leftarrow> _; ?stop }) ?Q w")
proof -
  let ?x = "dev_read E (Wr EXT_TIMER_STA_REG b # trace w) ctrl"
  let ?es = "[Wr ctrl (?x OR EXT_TIMER_ENABLE), Rd ctrl ?x, Wr EXT_TIMER_STA_REG b]"
  let ?w = "w\<lparr>trace := ?es @ trace w\<rparr>"
  have pw: "within c (3 * access_ticks) w ?w" using within_events [OF cnt, of w ?es] by simp
  have f2: "2 \<le> fuel" using fuel by simp
  obtain n where n: "fuel = Suc n" using f2 by (cases fuel) auto
  have stop: "wp ?stop ?Q u" if "within c (24000 * (unat ms + 1) + 29 * access_ticks) w u" for u
  proof -
    let ?y = "dev_read E (trace u) ctrl"
    have "within c (3 * access_ticks) u (u\<lparr>trace := [Wr EXT_TIMER_STA_REG b, Wr ctrl (?y AND NOT EXT_TIMER_ENABLE), Rd ctrl ?y] @ trace u\<rparr>)"
      using within_events [OF cnt, of u "[Wr EXT_TIMER_STA_REG b, Wr ctrl (?y AND NOT EXT_TIMER_ENABLE), Rd ctrl ?y]"] by simp
    from within_trans [OF that this order_refl] show ?thesis by (simp add: wp_simps)
  qed
  have "wp (do { _ \<leftarrow> delay_wait_pending E fuel fuel no (v + ucast (ms + 1) * 24000); ?stop }) ?Q u"
    if u: "time_passes c 1 ?w u" "c (trace ?w) \<le> unat v" "unat v < c (trace u)" "c (trace u) \<le> c (trace ?w) + 8 * access_ticks" for u v
  proof -
    have ms: "unat (ms + 1) \<le> unat ms + 1" 
      using mod_less_eq_dividend [of "unat ms + unat (1 :: u32)" "2 ^ 32"] by (simp add: unat_word_ariths)
    have wu: "within c (11 * access_ticks) w u"
      by (rule within_trans [OF pw, of u "8 * access_ticks"]) (use u time_passes_mono [OF u(1), of 0] in auto)
    have "unat v < 1152922605000000000" using u pw w by simp
    then have b: "unat (ms + 1) * 24000 < 18446744073709551616" "unat v + unat (ms + 1) * 24000 < 18446744073709551616"
      "unat v + unat (ms + 1) * 24000 < 2305843009213693952" using unat_u32_lt [of "ms + 1"] by linarith+
    have "unat (ucast (ms + 1) * 24000 :: u64) = unat (ms + 1) * 24000" using b(1) by (simp add: unat_word_ariths del: unat_1)
    then have e: "unat (v + ucast (ms + 1) * 24000) = unat v + unat (ms + 1) * 24000" using b(2) by (simp add: unat_word_ariths)
    have "wp (delay_wait_pending E fuel (Suc n) no (v + ucast (ms + 1) * 24000)) (\<lambda>_ w'. wait_ends c (unat (v + ucast (ms + 1) * 24000)) u w') u"
      by (rule delay_wait_pending_wp [OF cnt f2]) (use e b u pw w fuel n ms in auto)
    then have "wp (delay_wait_pending E fuel fuel no (v + ucast (ms + 1) * 24000)) (\<lambda>_. wp ?stop ?Q) u"
      unfolding n [symmetric]
    proof (rule wp_mono)
      fix r :: int and w' assume w': "wait_ends c (unat (v + ucast (ms + 1) * 24000)) u w'"
      then have "within c (24000 * (unat ms + 1) + 18 * access_ticks) u w'" unfolding e using u ms by auto
      from within_trans [OF wu this order_refl] show "wp ?stop ?Q w'" by (intro stop) simp
    qed
    then show ?thesis by (rule wp_bindI)
  qed
  then have "wp (cpucfg_counter_read E fuel) (\<lambda>v. wp (do { _ \<leftarrow> delay_wait_pending E fuel fuel no (v + ucast (ms + 1) * 24000); ?stop }) ?Q) ?w"
    using pw w by (intro wp_mono [OF counter_read_passes [OF cnt _ f2]]) auto
  then show ?thesis by (simp add: wp_bind wp_writel wp_readl)
qed

abbreviation (input) mdelay_ticks :: "nat \<Rightarrow> nat" where
  "mdelay_ticks ms \<equiv> 24000 * (ms + 1) + 100035 * access_ticks"

lemma time_mdelay_wp:
  assumes cnt: "counts E c" and "c (trace w) < 2 ^ 60" and "24000 * (unat ms + 1) + 2 \<le> fuel"
  shows "wp (time_mdelay E fuel ms) (\<lambda>_ w'. within c (mdelay_ticks (unat ms)) w w') w"
proof -
  define t where "t = timers w ! the (delay_timer w)"
  define ticks where "ticks = (ucast (ms_ticks t) * ucast ms :: u64)"
  define b :: u32 where "b = push_bit (unat (timer_no t)) 1"
  define Q where "Q = within c (mdelay_ticks (unat ms)) w"
  have refl: "Q w" by (simp add: Q_def time_passes_def exI [of _ "trace w"])
  let ?ctrl = "EXT_TIMER_CTRL_REG (timer_no t)" and ?ivl = "EXT_TIMER_IVL_REG (timer_no t)"
  let ?x = "dev_read E (Wr ?ivl (ucast ticks) # trace w) ?ctrl"
  let ?es = "[Wr ?ctrl (?x OR EXT_TIMER_RELOAD), Rd ?ctrl ?x, Wr ?ivl (ucast ticks)]"
  let ?w = "w\<lparr>trace := ?es @ trace w\<rparr>"
  have pw: "within c (3 * access_ticks) w ?w" using within_events [OF cnt, of w ?es] by simp
  let ?run = "do {
       _ \<leftarrow> writel b EXT_TIMER_STA_REG;
       value \<leftarrow> readl E ?ctrl;
       _ \<leftarrow> writel (value OR EXT_TIMER_ENABLE) ?ctrl;
       v \<leftarrow> cpucfg_counter_read E fuel;
       _ \<leftarrow> delay_wait_pending E fuel fuel (timer_no t) (v + ucast (ms + 1) * 24000);
       value \<leftarrow> readl E ?ctrl;
       _ \<leftarrow> writel (value AND NOT EXT_TIMER_ENABLE) ?ctrl;
       writel b EXT_TIMER_STA_REG
     }"
  have "wp (if r \<noteq> OK then ret () else ?run) (\<lambda>_. Q) u"
    if u: "time_passes c 0 ?w u \<and> c (trace u) \<le> c (trace ?w) + EXT_TIMER_POLL_LIMIT * access_ticks" for r u
  proof (rule wp_ifI)
    have wu: "within c (100003 * access_ticks) w u" by (rule within_trans [OF pw u]) simp
    then show "wp (ret ()) (\<lambda>_. Q) u" by (intro wp_returnI) (simp add: Q_def)
    have "wp ?run (\<lambda>_ w'. within c (24000 * (unat ms + 1) + 32 * access_ticks) u w') u"
      by (rule mdelay_run [OF cnt _ assms(3)]) (use wu assms(2) in simp)
    then show "wp ?run (\<lambda>_. Q) u"
      unfolding Q_def by (rule wp_mono) (erule within_trans [OF wu], simp)
  qed
  then have "wp (wait_clear_loop E EXT_TIMER_POLL_LIMIT ?ctrl EXT_TIMER_RELOAD)
      (\<lambda>r. wp (if r \<noteq> OK then ret () else ?run) (\<lambda>_. Q)) ?w"
    by (intro wp_mono [OF wait_clear_passes [OF cnt]]) blast
  then have run: "wp (do {
         _ \<leftarrow> writel (ucast ticks) ?ivl;
         value \<leftarrow> readl E ?ctrl;
         _ \<leftarrow> writel (value OR EXT_TIMER_RELOAD) ?ctrl;
         r \<leftarrow> wait_clear_loop E EXT_TIMER_POLL_LIMIT ?ctrl EXT_TIMER_RELOAD;
         if r \<noteq> OK then ret () else ?run
       }) (\<lambda>_. Q) w"
    by (simp add: wp_bind wp_writel wp_readl)
  consider "timer_lock w \<noteq> 0" | "timer_lock w = 0" "ms = 0 \<or> ticks > 0xffffffff" | "timer_lock w = 0" "\<not> (ms = 0 \<or> ticks > 0xffffffff)"
    by blast
  then have "wp (time_mdelay E fuel ms) (\<lambda>_. Q) w"
  proof cases
    case 3
    then show ?thesis
      unfolding time_mdelay_def delay_wait_clear_def Let_def
      apply (simp only: wp_bind [of locked] wp_bind [of State_Monad.get] wp_locked wp_get if_False simp_thms)
      unfolding t_def [symmetric] ticks_def [symmetric] b_def [symmetric]
      using run by (simp only: if_False)
  qed (use refl in \<open>simp_all add: time_mdelay_def wp_simps Let_def t_def [symmetric] ticks_def [symmetric]\<close>)
  then show ?thesis unfolding Q_def .
qed

text \<open>
  C32: the millisecond delay ends. With a counter that runs, fuel for one round per counter tick of
  the deadline is enough: \<open>time_mdelay\<close> returns whatever the timer hardware does, also when the
  timer never raises its pending bit, leaves the state of the firmware as it was, and takes at most
  one millisecond and a bounded number of bus accesses longer than requested.
\<close>
theorem time_mdelay_ends:
  assumes cnt: "counts E c" and "c (trace w) < 2 ^ 60" and "24000 * (unat ms + 1) + 2 \<le> fuel"
  shows "wp (time_mdelay E fuel ms) (\<lambda>_ w'. time_passes c 0 w w' \<and>
    c (trace w') \<le> c (trace w) + 24000 * (unat ms + 1) + 100035 * access_ticks) w"
  using time_mdelay_wp [OF assms] by (rule wp_mono) simp

theorem time_mdelay_ends_witness:
  "wp (time_mdelay tick_env 100000 1) (\<lambda>_ w'. \<not> hung w') running_timers"
  by (rule wp_mono [OF time_mdelay_ends [OF tick_env_counts]])
    (auto simp: running_timers_def idle_timers_def time_passes_def)

end
