(* ===== verification/Hosc.thy ===== *)
theory Hosc
  imports Timer_Delay
begin

text \<open>
  Switching the 24 MHz oscillator off and on
  (\<^verbatim>\<open>src/ar100s/driver/prcm/prcm-sun60iw2p1/power.c\<close>): the broadcast through the notifier list
  that \<open>timer_init\<close> joins, so that clock control, notifier manager and timer driver meet here.
\<close>

unbundle bit_operations_syntax

section \<open>Model\<close>

abbreviation (input) PLL_CTRL_REG1 :: u32 where "PLL_CTRL_REG1 \<equiv> 0x07010244"
abbreviation (input) RTC_LOSC_CTRL :: u32 where "RTC_LOSC_CTRL \<equiv> 0x07090000"
abbreviation (input) RTC_LOSC_AUTO_STA :: u32 where "RTC_LOSC_AUTO_STA \<equiv> 0x07090004"
abbreviation (input) RTC_AUTO_CALI_CTRL :: u32 where "RTC_AUTO_CALI_CTRL \<equiv> 0x0709000C"
abbreviation (input) RTC_XO_WRT_PROTECT :: u32 where "RTC_XO_WRT_PROTECT \<equiv> 0x0709015c"
abbreviation (input) RTC_XO_CTRL_REG :: u32 where "RTC_XO_CTRL_REG \<equiv> 0x07090160"
abbreviation (input) RTC_CFG_REG :: u32 where "RTC_CFG_REG \<equiv> 0x07090310"

definition time_cdelay :: "env \<Rightarrow> u32 \<Rightarrow> ('a machine_scheme, unit) state" where
  "time_cdelay E cycles = do { _ \<leftarrow> call E Cdelay [cycles]; ret () }"

text \<open>The callbacks of the oscillator list: the timer driver, or a function known by its address only.\<close>

definition hosc_invoke :: "env \<Rightarrow> fnptr \<Rightarrow> u32 \<Rightarrow> u32 \<Rightarrow> ('a timer_state_scheme, int) state" where
  "hosc_invoke E f command aux = (case f of
     Timer_hosc_onoff_cb \<Rightarrow> timer_hosc_onoff_cb E command aux
   | Fn a \<Rightarrow> call E (Code a) [command, aux]
   | _ \<Rightarrow> ret 0)"

definition hosc_broadcast :: "env \<Rightarrow> u32 \<Rightarrow> ('a timer_state_scheme, unit) state" where
  "hosc_broadcast E command = do {
     w \<leftarrow> State_Monad.get;
     r \<leftarrow> notifier_notify (hosc_invoke E) (hosc_notifier_list w) command 0;
     case r of None \<Rightarrow> hang | Some _ \<Rightarrow> ret ()
   }"

text \<open>The copy of the regulator setting that the source saves first is never used.\<close>

definition ccu_24mhosc_disable :: "env \<Rightarrow> ('a timer_state_scheme, int) state" where
  "ccu_24mhosc_disable E = do {
     _ \<leftarrow> State_Monad.update (\<lambda>w. w\<lparr>hosc_lock := 1\<rparr>);
     _ \<leftarrow> hosc_broadcast E CCU_HOSC_WILL_OFF_NOTIFY;
     _ \<leftarrow> readl E PLL_CTRL_REG1;
     value \<leftarrow> readl E PLL_CTRL_REG1;
     _ \<leftarrow> writel (value OR push_bit 24 0xa7) PLL_CTRL_REG1;
     value \<leftarrow> readl E PLL_CTRL_REG1;
     _ \<leftarrow> writel ((value OR push_bit 24 0xa7) AND NOT 0x1) PLL_CTRL_REG1;
     _ \<leftarrow> time_cdelay E 20;
     value \<leftarrow> readl E RTC_CFG_REG;
     _ \<leftarrow> writel (value OR push_bit 31 1) RTC_CFG_REG;
     _ \<leftarrow> writel 0x16aa RTC_XO_WRT_PROTECT;
     value \<leftarrow> readl E RTC_XO_CTRL_REG;
     _ \<leftarrow> writel (value AND NOT 0x2) RTC_XO_CTRL_REG;
     value \<leftarrow> readl E RTC_AUTO_CALI_CTRL;
     _ \<leftarrow> writel (value AND NOT 0x1) RTC_AUTO_CALI_CTRL;
     value \<leftarrow> readl E RTC_LOSC_CTRL;
     _ \<leftarrow> writel ((value AND 0xffff) OR push_bit 16 0x16aa) RTC_LOSC_CTRL;
     value \<leftarrow> readl E RTC_LOSC_CTRL;
     _ \<leftarrow> writel (((value AND NOT 0x1) AND NOT 0x2) AND NOT 0x10) RTC_LOSC_CTRL;
     ret OK
   }"

fun losc_wait :: "env \<Rightarrow> nat \<Rightarrow> ('a timer_state_scheme, unit) state" where
  "losc_wait E 0 = hang"
| "losc_wait E (Suc n) = do {
     v \<leftarrow> readl E RTC_LOSC_AUTO_STA;
     if v AND 0x04 \<noteq> 0 then losc_wait E n else ret ()
   }"

definition ccu_24mhosc_enable :: "env \<Rightarrow> nat \<Rightarrow> ('a timer_state_scheme, int) state" where
  "ccu_24mhosc_enable E fuel = do {
     value \<leftarrow> readl E RTC_LOSC_CTRL;
     let value = (value AND 0xffff) OR push_bit 16 0x16aa;
     let value = value OR push_bit 14 0x1;
     _ \<leftarrow> time_mdelay E fuel 2;
     _ \<leftarrow> writel value RTC_LOSC_CTRL;
     _ \<leftarrow> time_mdelay E fuel 2;
     let value = value OR push_bit 4 0x1;
     _ \<leftarrow> writel value RTC_LOSC_CTRL;
     _ \<leftarrow> time_mdelay E fuel 2;
     let value = value AND NOT (push_bit 15 0x1);
     _ \<leftarrow> writel value RTC_LOSC_CTRL;
     _ \<leftarrow> time_mdelay E fuel 2;
     _ \<leftarrow> losc_wait E fuel;
     _ \<leftarrow> time_mdelay E fuel 2;
     let value = value OR 0x1;
     _ \<leftarrow> writel value RTC_LOSC_CTRL;
     _ \<leftarrow> writel 0x16aa RTC_XO_WRT_PROTECT;
     value \<leftarrow> readl E RTC_XO_CTRL_REG;
     let value = value AND NOT 0x2;
     _ \<leftarrow> writel (value OR 0x2) RTC_XO_CTRL_REG;
     _ \<leftarrow> time_mdelay E fuel 4;
     value \<leftarrow> readl E PLL_CTRL_REG1;
     _ \<leftarrow> writel (value OR push_bit 24 0xa7) PLL_CTRL_REG1;
     value \<leftarrow> readl E PLL_CTRL_REG1;
     let value = (value OR push_bit 24 0xa7) OR 0x1;
     _ \<leftarrow> writel value PLL_CTRL_REG1;
     _ \<leftarrow> writel value PLL_CTRL_REG1;
     _ \<leftarrow> time_mdelay E fuel 2;
     _ \<leftarrow> hosc_broadcast E CCU_HOSC_ON_READY_NOTIFY;
     _ \<leftarrow> State_Monad.update (\<lambda>w. w\<lparr>hosc_lock := 0\<rparr>);
     ret OK
   }"

definition is_hosc_lock :: "('a timer_state_scheme, u32) state" where
  "is_hosc_lock = do { w \<leftarrow> State_Monad.get; ret (hosc_lock w) }"

section \<open>The timers across a change of the clock source\<close>

text \<open>A register that reads back what was written last.\<close>

definition keeps :: "env \<Rightarrow> u32 \<Rightarrow> bool" where
  "keeps E a \<longleftrightarrow> (\<forall>t v. last_write t a = Some v \<longrightarrow> dev_read E t a = v)"

lemma keepsD: "keeps E a \<Longrightarrow> last_write t a = Some v \<Longrightarrow> dev_read E t a = v"
  by (simp add: keeps_def)

definition intervals :: "history \<Rightarrow> u32 option \<times> u32 option" where
  "intervals t = (last_write t (EXT_TIMER_IVL_REG 0), last_write t (EXT_TIMER_IVL_REG 1))"

lemma hosc_off_wp:
  assumes "keeps E (EXT_TIMER_IVL_REG 0)" "keeps E (EXT_TIMER_IVL_REG 1)"
    and "timer_lock w = 0" and "length (timers w) = 2" and "intervals (trace w) = (Some v0, Some v1)"
  shows "wp (timer_hosc_onoff_cb E CCU_HOSC_WILL_OFF_NOTIFY aux) (\<lambda>r w'. r = OK \<and>
    intervals (trace w') = (Some (v0 div 750), Some (v1 div 750)) \<and>
    (\<exists>t. w' = w\<lparr>timers := map (\<lambda>t. t\<lparr>ms_ticks := 32\<rparr>) (timers w), trace := t\<rparr>)) w"
proof -
  obtain t0 t1 where ts: "timers w = [t0, t1]" using two_timers [OF assms(4)] by metis
  have v: "last_write (trace w) 0x07091024 = Some v0" "last_write (trace w) 0x07091044 = Some v1"
    using assms(5) by (simp_all add: intervals_def)
  have rd: "dev_read E (Wr 0x07010100 a # Rd 0x07010100 b # trace w) 0x07091024 = v0"
    "dev_read E (Wr 0x07010104 a # Rd 0x07010104 b # Wr 0x07091024 c # Rd 0x07091024 d # Wr 0x07010100 e # Rd 0x07010100 f # trace w) 0x07091044 = v1"
    for a b c d e f
    using assms(1,2) v by (auto intro!: keepsD)
  show ?thesis
    using assms(3) v
    by (simp add: timer_hosc_onoff_cb_def wp_simps upt_2 hosc_off_one_def Let_def ts rd intervals_def)
      (rule exI, rule refl)?
qed

lemma hosc_on_wp:
  assumes "keeps E (EXT_TIMER_IVL_REG 0)" "keeps E (EXT_TIMER_IVL_REG 1)"
    and "timer_lock w = 0" and "length (timers w) = 2" and "intervals (trace w) = (Some v0, Some v1)"
  shows "wp (timer_hosc_onoff_cb E CCU_HOSC_ON_READY_NOTIFY aux) (\<lambda>r w'. r = OK \<and>
    intervals (trace w') = (Some (v0 * 750), Some (v1 * 750)) \<and>
    (\<exists>t. w' = w\<lparr>trace := t, timers := map (\<lambda>t. t\<lparr>ms_ticks := 24000\<rparr>) (timers w)\<rparr>)) w"
proof -
  obtain t0 t1 where ts: "timers w = [t0, t1]" using two_timers [OF assms(4)] by metis
  have v: "last_write (trace w) 0x07091024 = Some v0" "last_write (trace w) 0x07091044 = Some v1"
    using assms(5) by (simp_all add: intervals_def)
  have rd: "dev_read E (trace w) 0x07091024 = v0"
    "dev_read E (Wr 0x07010100 a # Rd 0x07010100 b # Wr 0x07091024 c # Rd 0x07091024 d # trace w) 0x07091044 = v1"
    for a b c d
    using assms(1,2) v by (auto intro!: keepsD)
  show ?thesis
    using assms(3) v
    by (simp add: timer_hosc_onoff_cb_def wp_simps upt_2 hosc_on_one_def Let_def ts rd intervals_def)
      (rule exI, rule refl)?
qed

lemma div_mult_750: "750 dvd unat v \<Longrightarrow> (v div 750) * 750 = (v :: u32)"
proof -
  assume "750 dvd unat v"
  then have "unat (v div 750) * unat (750 :: u32) = unat v" by (simp add: unat_div_distrib)
  then have "unat ((v div 750) * 750) = unat v" unfolding unat_word_ariths(2) by simp
  then show ?thesis by (simp add: word_unat_eq_iff)
qed

text \<open>
  Switching the timers to the 32 kHz source and back. Switching off the oscillator scales tick
  rate and interval of both timers down by 750, so an interval of \<open>p\<close> milliseconds stays one of
  \<open>p\<close> milliseconds; switching on again restores tick rates, and intervals that are a whole number
  of slow ticks, exactly. The hypotheses say that the interval registers read back what was written.
\<close>
theorem timer_hosc_roundtrip:
  assumes "keeps E (EXT_TIMER_IVL_REG 0)" "keeps E (EXT_TIMER_IVL_REG 1)"
    and "timer_lock w = 0" and "length (timers w) = 2" and "\<forall>t\<in>set (timers w). ms_ticks t = 24000"
    and "intervals (trace w) = (Some v0, Some v1)" and "750 dvd unat v0" and "750 dvd unat v1"
  shows "wp (timer_hosc_onoff_cb E CCU_HOSC_WILL_OFF_NOTIFY aux) (\<lambda>r w'. r = OK \<and>
      intervals (trace w') = (Some (v0 div 750), Some (v1 div 750)) \<and> (\<forall>t\<in>set (timers w'). ms_ticks t = 32) \<and>
      (\<forall>p. unat v0 = 24000 * p \<longrightarrow> unat (v0 div 750) = 32 * p)) w \<and>
    wp (do { _ \<leftarrow> timer_hosc_onoff_cb E CCU_HOSC_WILL_OFF_NOTIFY aux; timer_hosc_onoff_cb E CCU_HOSC_ON_READY_NOTIFY aux })
      (\<lambda>r w'. r = OK \<and> intervals (trace w') = intervals (trace w) \<and> timers w' = timers w) w"
proof
  note off = hosc_off_wp [OF assms(1-4,6)]
  show "wp (timer_hosc_onoff_cb E CCU_HOSC_WILL_OFF_NOTIFY aux) (\<lambda>r w'. r = OK \<and>
      intervals (trace w') = (Some (v0 div 750), Some (v1 div 750)) \<and> (\<forall>t\<in>set (timers w'). ms_ticks t = 32) \<and>
      (\<forall>p. unat v0 = 24000 * p \<longrightarrow> unat (v0 div 750) = 32 * p)) w"
    by (rule wp_mono [OF off]) (auto simp: unat_div_distrib)
  show "wp (do { _ \<leftarrow> timer_hosc_onoff_cb E CCU_HOSC_WILL_OFF_NOTIFY aux; timer_hosc_onoff_cb E CCU_HOSC_ON_READY_NOTIFY aux })
      (\<lambda>r w'. r = OK \<and> intervals (trace w') = intervals (trace w) \<and> timers w' = timers w) w"
  proof (rule wp_bindI, rule wp_mono [OF off])
    fix r :: int and u assume u: "r = OK \<and> intervals (trace u) = (Some (v0 div 750), Some (v1 div 750)) \<and>
      (\<exists>t. u = w\<lparr>timers := map (\<lambda>t. t\<lparr>ms_ticks := 32\<rparr>) (timers w), trace := t\<rparr>)"
    have same: "map (\<lambda>t. t\<lparr>ms_ticks := 24000\<rparr>) (timers w) = timers w"
      by (rule map_idI) (use assms(5) in auto)
    have "timer_lock u = 0" "length (timers u) = 2" using u assms(3,4) by auto
    then show "wp (timer_hosc_onoff_cb E CCU_HOSC_ON_READY_NOTIFY aux)
        (\<lambda>r w'. r = OK \<and> intervals (trace w') = intervals (trace w) \<and> timers w' = timers w) u"
      by (intro wp_mono [OF hosc_on_wp [OF assms(1,2)]])
        (use u same assms(6-8) div_mult_750 in \<open>auto simp: comp_def\<close>)
  qed
qed

definition used_timers :: timer_state where
  "used_timers = running_timers\<lparr>trace := [Wr 0x07091024 240000, Wr 0x07091044 24000],
     notifiers := \<lparr>nf_flag = 1, nf_pcb = Timer_hosc_onoff_cb, nf_next = None\<rparr> #
       replicate 7 \<lparr>nf_flag = 0, nf_pcb = Fn 0, nf_next = None\<rparr>, hosc_notifier_list := Some 0\<rparr>"

lemma ram_env_keeps: "keeps ram_env a"
  by (simp add: keeps_def ram_env_def ram_dev_def)

lemma used_timers_facts:
  "timer_lock used_timers = 0" "length (timers used_timers) = 2" "\<forall>t\<in>set (timers used_timers). ms_ticks t = 24000"
  "intervals (trace used_timers) = (Some 240000, Some 24000)"
  by (auto simp: used_timers_def running_timers_def initial_timers_def intervals_def)

theorem timer_hosc_roundtrip_witness:
  "wp (timer_hosc_onoff_cb ram_env CCU_HOSC_WILL_OFF_NOTIFY 0) (\<lambda>r w'. intervals (trace w') = (Some 320, Some 32)) used_timers"
  by (rule wp_mono [OF timer_hosc_roundtrip [OF ram_env_keeps ram_env_keeps used_timers_facts, THEN conjunct1]])
    (auto simp: dvd_eq_mod_eq_0)

section \<open>Switching off through the notifier list\<close>

lemma frames_for_index [frames_intros]: "(\<And>i. frames f (g i)) \<Longrightarrow> frames f (for_index is g)"
  by (induction "is") (auto intro!: frames_intros)

lemma frames_timer_set_notifiers: "frames notifiers (timer_set i f)"
  unfolding timer_set_def by (intro frames_intros) simp

lemma frames_hosc_invoke: "frames notifiers (hosc_invoke E f command aux)"
  unfolding hosc_invoke_def timer_hosc_onoff_cb_def hosc_off_one_def hosc_on_one_def Let_def
  by (auto split: fnptr.split intro!: frames_intros frames_timer_set_notifiers)

lemma hosc_broadcast_wp:
  assumes nl: "node_list (notifiers w) (hosc_notifier_list w) ns [Timer_hosc_onoff_cb]"
    and cb: "wp (timer_hosc_onoff_cb E command 0) (\<lambda>_. Q) w"
  shows "wp (hosc_broadcast E command) (\<lambda>_. Q) w"
proof -
  have "run_state (notifier_notify (hosc_invoke E) (hosc_notifier_list w) command 0) w =
      (Some 0, snd (run_state (timer_hosc_onoff_cb E command 0) w))"
  proof -
    have "chain (notifiers w) (hosc_notifier_list w) ns" "length ns \<le> NOTIFIER_MAX" "pcbs (notifiers w) ns = [Timer_hosc_onoff_cb]"
      using nl chain_length by (auto simp: node_list_def)
    then have "run_state (notify_loop NOTIFIER_MAX (hosc_invoke E) command 0 (hosc_notifier_list w)) w =
        (Some 0, snd (run_state (invoke_all (hosc_invoke E) command 0 [Timer_hosc_onoff_cb]) w))"
      using notify_loop_list [of "hosc_invoke E" command 0 w "hosc_notifier_list w" ns, OF frames_hosc_invoke] by simp
    then show ?thesis by (simp add: notifier_notify_def split_beta) (simp add: hosc_invoke_def)
  qed
  then show ?thesis using cb by (simp add: hosc_broadcast_def wp_simps) (simp add: wp_def)
qed

text \<open>
  Switching the oscillator off reaches the timers. When the timer driver is registered in the
  oscillator's notifier list, as \<open>timer_init\<close> leaves it, \<open>ccu_24mhosc_disable\<close> ends with the
  oscillator marked as locked, both timers on the 32 kHz tick rate with their intervals scaled, and
  the crystal's enable bit written as 0.
\<close>
theorem ccu_24mhosc_disable_switches:
  assumes "node_list (notifiers w) (hosc_notifier_list w) ns [Timer_hosc_onoff_cb]"
    and "keeps E (EXT_TIMER_IVL_REG 0)" "keeps E (EXT_TIMER_IVL_REG 1)"
    and "timer_lock w = 0" and "length (timers w) = 2" and "intervals (trace w) = (Some v0, Some v1)"
  shows "wp (ccu_24mhosc_disable E) (\<lambda>r w'. r = OK \<and> hosc_lock w' = 1 \<and> hung w' = hung w \<and>
    (\<forall>t\<in>set (timers w'). ms_ticks t = 32) \<and> intervals (trace w') = (Some (v0 div 750), Some (v1 div 750)) \<and>
    (\<exists>v. last_write (trace w') RTC_XO_CTRL_REG = Some v \<and> \<not> bit v 1)) w"
proof -
  let ?w = "w\<lparr>hosc_lock := 1\<rparr>"
  have "wp (timer_hosc_onoff_cb E CCU_HOSC_WILL_OFF_NOTIFY 0) (\<lambda>_ u. intervals (trace u) = (Some (v0 div 750), Some (v1 div 750)) \<and>
      hosc_lock u = 1 \<and> hung u = hung w \<and> (\<forall>t\<in>set (timers u). ms_ticks t = 32)) ?w"
    by (rule wp_mono [OF hosc_off_wp [OF assms(2,3), of ?w v0 v1]]) (use assms in auto)
  then have bc: "wp (hosc_broadcast E CCU_HOSC_WILL_OFF_NOTIFY) (\<lambda>_ u. intervals (trace u) = (Some (v0 div 750), Some (v1 div 750)) \<and>
      hosc_lock u = 1 \<and> hung u = hung w \<and> (\<forall>t\<in>set (timers u). ms_ticks t = 32)) ?w"
    using assms(1) by (intro hosc_broadcast_wp [where ns = ns]) auto
  have "\<not> bit (x AND NOT 0x2) 1" for x :: u32 by (simp add: bit_simps)
  then show ?thesis
    unfolding ccu_24mhosc_disable_def wp_bind wp_update
    by (intro wp_mono [OF bc]) (simp add: wp_simps time_cdelay_def Let_def intervals_def del: bit_and_iff)
qed

theorem ccu_24mhosc_disable_switches_witness:
  "wp (ccu_24mhosc_disable ram_env) (\<lambda>r w'. r = OK \<and> intervals (trace w') = (Some 320, Some 32)) used_timers"
proof (rule wp_mono [OF ccu_24mhosc_disable_switches [OF _ ram_env_keeps ram_env_keeps used_timers_facts(1,2,4)]])
  show "node_list (notifiers used_timers) (hosc_notifier_list used_timers) [0] [Timer_hosc_onoff_cb]"
    by (simp add: used_timers_def node_list_def pcbs_def)
qed auto

end
