(* ===== verification/Ticks.thy ===== *)
theory Ticks
  imports Hosc
begin

text \<open>
  The system tick and the software timers
  (\<^verbatim>\<open>src/ar100s/arch/riscv/cpu/e907/time_ticks.c\<close>). The software timers are objects of their
  owners; the table holds pointers, here the numbers of the objects.
\<close>

unbundle bit_operations_syntax

section \<open>Model\<close>

abbreviation (input) TICK_PER_SEC :: u32 where "TICK_PER_SEC \<equiv> 100"
abbreviation (input) SOFTTIMER_NUMBER :: nat where "SOFTTIMER_NUMBER \<equiv> 2"
abbreviation (input) SOFTTIMER_OFF :: u32 where "SOFTTIMER_OFF \<equiv> 0"
abbreviation (input) SOFTTIMER_ON :: u32 where "SOFTTIMER_ON \<equiv> 1"

text \<open>\<open>cycle\<close> and \<open>expires\<close> are signed 32-bit numbers.\<close>

record softtimer =
  st_cycle :: u32
  st_expires :: u32
  st_cb :: "fnptr option"
  st_arg :: pointer
  st_start :: u32

record tick_state = timer_state +
  htimer :: "nat option"
  time_ticks :: u32
  softtimer_tab :: "nat option list"
  softtimer_cnt :: u32
  soft_objects :: "nat \<Rightarrow> softtimer"

definition soft_at :: "nat \<Rightarrow> ('a tick_state_scheme, softtimer) state" where
  "soft_at s = do { w \<leftarrow> State_Monad.get; ret (soft_objects w s) }"

definition soft_set :: "nat \<Rightarrow> (softtimer \<Rightarrow> softtimer) \<Rightarrow> ('a tick_state_scheme, unit) state" where
  "soft_set s f = State_Monad.update (\<lambda>w. w\<lparr>soft_objects := (soft_objects w)(s := f (soft_objects w s))\<rparr>)"

definition start_softtimer :: "nat \<Rightarrow> ('a tick_state_scheme, unit) state" where
  "start_softtimer s = soft_set s (\<lambda>t. t\<lparr>st_expires := st_cycle t, st_start := SOFTTIMER_ON\<rparr>)"

definition stop_softtimer :: "nat \<Rightarrow> ('a tick_state_scheme, unit) state" where
  "stop_softtimer s = soft_set s (\<lambda>t. t\<lparr>st_expires := 0, st_start := SOFTTIMER_OFF\<rparr>)"

definition add_softtimer :: "nat \<Rightarrow> ('a tick_state_scheme, int) state" where
  "add_softtimer s = do {
     l \<leftarrow> locked;
     w \<leftarrow> State_Monad.get;
     if l then ret (- EACCES)
     else if unat (softtimer_cnt w) \<ge> SOFTTIMER_NUMBER then ret (- EINVAL)
     else do {
       _ \<leftarrow> State_Monad.update (\<lambda>w. w\<lparr>softtimer_tab := (softtimer_tab w)[unat (softtimer_cnt w) := Some s]\<rparr>);
       _ \<leftarrow> State_Monad.update (\<lambda>w. w\<lparr>softtimer_cnt := softtimer_cnt w + 1\<rparr>);
       ret OK
     }
   }"

definition soft_tick :: "(fnptr \<Rightarrow> pointer \<Rightarrow> ('a tick_state_scheme, int) state) \<Rightarrow> nat \<Rightarrow> ('a tick_state_scheme, unit) state" where
  "soft_tick invoke s = do {
     t \<leftarrow> soft_at s;
     if st_start t = SOFTTIMER_OFF then ret ()
     else if sint (st_expires t) > 0 then soft_set s (\<lambda>t. t\<lparr>st_expires := st_expires t - 1\<rparr>)
     else if st_expires t = 0 then do {
       _ \<leftarrow> soft_set s (\<lambda>t. t\<lparr>st_expires := st_cycle t\<rparr>);
       t \<leftarrow> soft_at s;
       case st_cb t of None \<Rightarrow> ret ()
       | Some f \<Rightarrow> do { _ \<leftarrow> invoke f (st_arg t); ret () }
     }
     else ret ()
   }"

fun tick_loop :: "(fnptr \<Rightarrow> pointer \<Rightarrow> ('a tick_state_scheme, int) state) \<Rightarrow> nat list \<Rightarrow> ('a tick_state_scheme, unit) state" where
  "tick_loop invoke [] = ret ()"
| "tick_loop invoke (i # is) = do {
     w \<leftarrow> State_Monad.get;
     case softtimer_tab w ! i of None \<Rightarrow> ret ()
     | Some s \<Rightarrow> do { _ \<leftarrow> soft_tick invoke s; tick_loop invoke is }
   }"

definition timer_tick_server ::
  "(fnptr \<Rightarrow> pointer \<Rightarrow> ('a tick_state_scheme, int) state) \<Rightarrow> ('a tick_state_scheme, int) state" where
  "timer_tick_server invoke = do {
     _ \<leftarrow> State_Monad.update (\<lambda>w. w\<lparr>time_ticks := time_ticks w + 1\<rparr>);
     _ \<leftarrow> tick_loop invoke [0..<SOFTTIMER_NUMBER];
     ret OK
   }"

definition current_time_tick :: "('a tick_state_scheme, u32) state" where
  "current_time_tick = do { w \<leftarrow> State_Monad.get; ret (time_ticks w) }"

definition msec_to_ticks :: "u32 \<Rightarrow> u32" where
  "msec_to_ticks ms = (TICK_PER_SEC * ms) div 1000"

definition time_ticks_init :: "env \<Rightarrow> ('a tick_state_scheme, int) state" where
  "time_ticks_init E = do {
     h \<leftarrow> timer_request E (Some Timer_tick_server) Null;
     _ \<leftarrow> State_Monad.update (\<lambda>w. w\<lparr>htimer := h\<rparr>);
     case h of None \<Rightarrow> ret (- EFAIL)
     | Some i \<Rightarrow> do {
         _ \<leftarrow> State_Monad.update (\<lambda>w. w\<lparr>time_ticks := 0\<rparr>);
         let period = 1000 div TICK_PER_SEC;
         r \<leftarrow> timer_start E i period TIMER_MODE_PERIOD;
         if r \<noteq> OK then do {
           _ \<leftarrow> timer_release E h;
           _ \<leftarrow> State_Monad.update (\<lambda>w. w\<lparr>htimer := None\<rparr>);
           ret (- EFAIL)
         } else ret OK
       }
   }"

section \<open>Rules\<close>

lemma wp_soft_at [wp_simps]: "wp (soft_at s) Q w \<longleftrightarrow> Q (soft_objects w s) w"
  by (simp add: soft_at_def wp_simps)

lemma wp_soft_set [wp_simps]:
  "wp (soft_set s f) Q w \<longleftrightarrow> Q () (w\<lparr>soft_objects := (soft_objects w)(s := f (soft_objects w s))\<rparr>)"
  by (simp add: soft_set_def wp_simps)

text \<open>The conversion is exact as long as the product fits.\<close>

lemma msec_to_ticks_exact: "100 * unat ms < 2 ^ 32 \<Longrightarrow> unat (msec_to_ticks ms) = unat ms div 10"
  by (simp add: msec_to_ticks_def unat_div_distrib unat_word_ariths mod_less)

lemma msec_to_ticks_wraps: "unat (msec_to_ticks 42949673) = 0"
  by (simp add: msec_to_ticks_def)

end
