(* ===== verification/Wakeup.thy ===== *)
theory Wakeup
  imports Ticks
begin

text \<open>
  Wake-up sources of the standby service (\<^verbatim>\<open>src/ar100s/service/standby/wakeup_source.c\<close>, with
  the interrupt tables of \<^verbatim>\<open>src/ar100s/arch/riscv/plat-sun60iw2p1/inc/irq_table.h\<close>): routing an
  interrupt of the application processor to the AR100S, undoing it, and the wake-up timer.
  The callbacks the firmware installs are tied to their code here.
\<close>

unbundle bit_operations_syntax

section \<open>Model\<close>

abbreviation (input) GIC_SRC_SPI :: u32 where "GIC_SRC_SPI \<equiv> 32"
abbreviation (input) NO_WAKESOURCE :: u32 where "NO_WAKESOURCE \<equiv> 0x0"
abbreviation (input) WAKESOURE_TIMER :: u32 where "WAKESOURE_TIMER \<equiv> 0xc0000000"

record wakeup_state = tick_state +
  wakeup_source :: u32

text \<open>The software timer object of this file.\<close>

abbreviation (input) wakeup_timer :: nat where "wakeup_timer \<equiv> 0"

definition irq_table :: "(u32 \<times> u32) list" where
  "irq_table = [(16, 189), (16, 190), (16, 191), (16, 192), (24, 228), (25, 229), (26, 230), (27, 231), (28, 232), (34, 238)]"

definition grp_irq_table :: "(u32 \<times> u32) list" where
  "grp_irq_table = [(0, 0)]"

definition CPUS_IRQ_MAPTO_CPUX :: "u32 \<Rightarrow> int" where
  "CPUS_IRQ_MAPTO_CPUX intno = (case find (\<lambda>e. fst e = intno) irq_table of
     Some e \<Rightarrow> sint (snd e - GIC_SRC_SPI) | None \<Rightarrow> FAIL)"

definition CPUX_IRQ_MAPTO_CPUS :: "u32 \<Rightarrow> int" where
  "CPUX_IRQ_MAPTO_CPUS intno = (case find (\<lambda>e. snd e = intno + GIC_SRC_SPI) irq_table of
     Some e \<Rightarrow> sint (fst e) | None \<Rightarrow> FAIL)"

definition CPUX_IRQ_MAPTO_CPUS_GRP :: "u32 \<Rightarrow> int" where
  "CPUX_IRQ_MAPTO_CPUS_GRP intno = (case find (\<lambda>e. fst e = intno + GIC_SRC_SPI) grp_irq_table of
     Some e \<Rightarrow> sint (snd e) | None \<Rightarrow> FAIL)"

definition wakeup_timer_handler :: "('a wakeup_state_scheme, int) state" where
  "wakeup_timer_handler = do {
     _ \<leftarrow> State_Monad.update (\<lambda>w. w\<lparr>wakeup_source := WAKESOURE_TIMER\<rparr>);
     ret OK
   }"

definition wakeup_timer_init :: "('a wakeup_state_scheme, int) state" where
  "wakeup_timer_init = do {
     _ \<leftarrow> soft_set wakeup_timer (\<lambda>t. t\<lparr>st_cycle := 0, st_expires := 0, st_cb := Some Wakeup_timer_handler,
          st_arg := Null, st_start := SOFTTIMER_OFF\<rparr>);
     _ \<leftarrow> add_softtimer wakeup_timer;
     ret OK
   }"

definition wakeup_timer_start :: "('a wakeup_state_scheme, unit) state" where
  "wakeup_timer_start = do {
     t \<leftarrow> soft_at wakeup_timer;
     if st_cycle t \<noteq> 0 then start_softtimer wakeup_timer else ret ()
   }"

definition wakeup_timer_stop :: "('a wakeup_state_scheme, unit) state" where
  "wakeup_timer_stop = stop_softtimer wakeup_timer"

definition default_wakeup_handler :: "env \<Rightarrow> ('a wakeup_state_scheme, int) state" where
  "default_wakeup_handler E = do {
     intno \<leftarrow> interrupt_get_current_intno E;
     _ \<leftarrow> interrupt_set_mask E intno 1;
     _ \<leftarrow> State_Monad.update (\<lambda>w. w\<lparr>wakeup_source := of_int (CPUS_IRQ_MAPTO_CPUX intno)\<rparr>);
     ret OK
   }"

definition group_irq_init :: "env \<Rightarrow> u32 \<Rightarrow> ('a machine_scheme, int) state" where
  "group_irq_init E wakeup_root_irq = (
     let group_irq_num = CPUX_IRQ_MAPTO_CPUS_GRP wakeup_root_irq in
     if group_irq_num \<noteq> FAIL then interrupt_set_group_config E (of_int group_irq_num) 1 else ret OK)"

definition group_irq_exit :: "env \<Rightarrow> u32 \<Rightarrow> ('a machine_scheme, int) state" where
  "group_irq_exit E wakeup_root_irq = (
     let group_irq_num = CPUX_IRQ_MAPTO_CPUS_GRP wakeup_root_irq in
     if group_irq_num \<noteq> FAIL then interrupt_set_group_config E (of_int group_irq_num) 0 else ret OK)"

text \<open>
  The callbacks \<open>init\<close> and \<open>exit\<close> are NULL or the group functions with the root interrupt as
  their parameter block.
\<close>

definition irq_wakesource_undo :: "env \<Rightarrow> u32 \<Rightarrow> u32 option \<Rightarrow> fnptr option \<Rightarrow> bool \<Rightarrow> ('a wakeup_state_scheme, unit) state" where
  "irq_wakesource_undo E irq_num init handler uninstall = do {
     _ \<leftarrow> (if uninstall then do {
           _ \<leftarrow> interrupt_disable E irq_num;
           case handler of None \<Rightarrow> ret () | Some h \<Rightarrow> do { _ \<leftarrow> uninstall_isr irq_num h; ret () }
         } else ret ());
     case init of None \<Rightarrow> ret () | Some root \<Rightarrow> do { _ \<leftarrow> group_irq_exit E root; ret () }
   }"

definition irq_wakesource_enable :: "env \<Rightarrow> u32 \<Rightarrow> u32 option \<Rightarrow> fnptr option \<Rightarrow> ('a wakeup_state_scheme, int) state" where
  "irq_wakesource_enable E irq_num init handler = do {
     r \<leftarrow> interrupt_enable E irq_num;
     if r \<noteq> OK then do { _ \<leftarrow> irq_wakesource_undo E irq_num init handler True; ret r }
     else do {
       r \<leftarrow> interrupt_set_mask E irq_num 0;
       if r \<noteq> OK then do { _ \<leftarrow> irq_wakesource_undo E irq_num init handler True; ret r }
       else do { _ \<leftarrow> interrput_arch_set_mask E irq_num True; ret OK }
     }
   }"

definition irq_wakesource_init ::
  "env \<Rightarrow> u32 \<Rightarrow> u32 option \<Rightarrow> fnptr option \<Rightarrow> pointer \<Rightarrow> ('a wakeup_state_scheme, int) state" where
  "irq_wakesource_init E irq_num init handler arg = do {
     r \<leftarrow> interrupt_set_mask E irq_num 1;
     if r \<noteq> OK then ret r else do {
     _ \<leftarrow> interrput_arch_set_mask E irq_num False;
     r \<leftarrow> interrupt_disable E irq_num;
     if r \<noteq> OK then ret r else do {
     r \<leftarrow> interrupt_clear_pending E irq_num;
     if r \<noteq> OK then ret r else do {
     r \<leftarrow> (case init of None \<Rightarrow> ret OK | Some root \<Rightarrow> group_irq_init E root);
     if r \<noteq> OK then ret r else do {
     r \<leftarrow> (case handler of None \<Rightarrow> ret OK | Some h \<Rightarrow> install_isr irq_num h arg);
     if r \<noteq> OK then do { _ \<leftarrow> irq_wakesource_undo E irq_num init handler False; ret r }
     else irq_wakesource_enable E irq_num init handler
   }}}}}"

definition irq_wakesource_exit ::
  "env \<Rightarrow> u32 \<Rightarrow> u32 option \<Rightarrow> fnptr option \<Rightarrow> ('a wakeup_state_scheme, int) state" where
  "irq_wakesource_exit E irq_num exit handler = (
     let first = (\<lambda>e r. if r \<noteq> OK \<and> e = OK then r else e) in do {
     r \<leftarrow> interrupt_set_mask E irq_num 1;
     let first_error = first OK r;
     _ \<leftarrow> interrput_arch_set_mask E irq_num False;
     r \<leftarrow> interrupt_disable E irq_num;
     let first_error = first first_error r;
     r \<leftarrow> interrupt_clear_pending E irq_num;
     let first_error = first first_error r;
     r \<leftarrow> (case handler of None \<Rightarrow> ret OK | Some h \<Rightarrow> uninstall_isr irq_num h);
     let first_error = first first_error r;
     r \<leftarrow> (case exit of None \<Rightarrow> ret OK | Some root \<Rightarrow> group_irq_exit E root);
     ret (first first_error r)
   })"

text \<open>The argument is the first parameter word of the message.\<close>

definition set_wakeup_src :: "env \<Rightarrow> u32 \<Rightarrow> ('a wakeup_state_scheme, int) state" where
  "set_wakeup_src E para0 = (
     let wakeup_src_type = drop_bit 30 para0 AND 0x3;
         wakeup_root_irq = para0 AND 0x3FF
     in if wakeup_src_type = 0x3 then do {
       _ \<leftarrow> soft_set wakeup_timer (\<lambda>t. t\<lparr>st_cycle := msec_to_ticks (para0 AND 0x3fffffff)\<rparr>);
       ret OK
     } else
       let irq_no = CPUX_IRQ_MAPTO_CPUS wakeup_root_irq in
       if irq_no = -1 then ret (-1)
       else do {
         _ \<leftarrow> State_Monad.update (\<lambda>w. if wakeup_source w = wakeup_root_irq then w\<lparr>wakeup_source := NO_WAKESOURCE\<rparr> else w);
         irq_wakesource_init E (of_int irq_no) (Some wakeup_root_irq) (Some Default_wakeup_handler) Null
       })"

definition clear_wakeup_src :: "env \<Rightarrow> u32 \<Rightarrow> ('a wakeup_state_scheme, int) state" where
  "clear_wakeup_src E para0 = (
     let wakeup_src_type = drop_bit 30 para0 AND 0x3;
         wakeup_root_irq = para0 AND 0x3FF
     in if wakeup_src_type = 0x3 then do {
       _ \<leftarrow> wakeup_timer_stop;
       _ \<leftarrow> soft_set wakeup_timer (\<lambda>t. t\<lparr>st_cycle := 0\<rparr>);
       _ \<leftarrow> soft_set wakeup_timer (\<lambda>t. t\<lparr>st_expires := 0\<rparr>);
       ret OK
     } else
       let irq_no = CPUX_IRQ_MAPTO_CPUS wakeup_root_irq in
       if irq_no = -1 then ret (-1)
       else do {
         r \<leftarrow> irq_wakesource_exit E (of_int irq_no) (Some wakeup_root_irq) (Some Default_wakeup_handler);
         if r \<noteq> OK then ret r else ret OK
       })"

subsection \<open>The installed callbacks\<close>

definition soft_invoke :: "env \<Rightarrow> fnptr \<Rightarrow> pointer \<Rightarrow> ('a wakeup_state_scheme, int) state" where
  "soft_invoke E f a = (case f of
     Wakeup_timer_handler \<Rightarrow> wakeup_timer_handler
   | Fn c \<Rightarrow> call E (Code c) []
   | _ \<Rightarrow> ret 0)"

definition timer_invoke :: "env \<Rightarrow> fnptr \<Rightarrow> pointer \<Rightarrow> ('a wakeup_state_scheme, int) state" where
  "timer_invoke E f a = (case f of
     Timer_tick_server \<Rightarrow> timer_tick_server (soft_invoke E)
   | Fn c \<Rightarrow> call E (Code c) []
   | _ \<Rightarrow> ret 0)"

definition isr_invoke :: "env \<Rightarrow> fnptr \<Rightarrow> pointer \<Rightarrow> ('a wakeup_state_scheme, int) state" where
  "isr_invoke E f a = (case f of
     Isr_default \<Rightarrow> isr_default E a
   | Default_wakeup_handler \<Rightarrow> default_wakeup_handler E
   | Timer_isr \<Rightarrow> (case a of Timer_ptr i \<Rightarrow> timer_isr E (timer_invoke E) i | _ \<Rightarrow> ret 0)
   | Fn c \<Rightarrow> call E (Code c) []
   | _ \<Rightarrow> ret 0)"

section \<open>The interrupt tables\<close>

text \<open>The root interrupts that are routed, with the interrupt of the AR100S and the number reported on wake-up.\<close>

definition routed :: "(u32 \<times> u32 \<times> u32) list" where
  "routed = [(157, 16, 157), (158, 16, 157), (159, 16, 157), (160, 16, 157), (196, 24, 196), (197, 25, 197),
     (198, 26, 198), (199, 27, 199), (200, 28, 200), (206, 34, 206)]"

lemma routed_map:
  assumes "(root, irq, src) \<in> set routed"
  shows "CPUX_IRQ_MAPTO_CPUS root = uint irq" "of_int (CPUS_IRQ_MAPTO_CPUX irq) = src" "CPUX_IRQ_MAPTO_CPUS_GRP root = FAIL"
    "16 \<le> unat irq \<and> unat irq < 35"
  using assms unfolding routed_def
  by (auto simp: CPUX_IRQ_MAPTO_CPUS_def CPUS_IRQ_MAPTO_CPUX_def CPUX_IRQ_MAPTO_CPUS_GRP_def irq_table_def grp_irq_table_def)

lemma unrouted_map:
  assumes "root \<notin> fst ` set routed"
  shows "CPUX_IRQ_MAPTO_CPUS root = -1"
proof -
  have "root + 32 \<noteq> snd e" if "e \<in> set irq_table" for e
  proof
    assume "root + 32 = snd e"
    then have "root = snd e - 32" by (metis add_diff_cancel_right')
    then show False using that assms by (auto simp: irq_table_def routed_def)
  qed
  then have "find (\<lambda>e. snd e = root + GIC_SRC_SPI) irq_table = None" by (fastforce simp: find_None_iff)
  then show ?thesis by (simp add: CPUX_IRQ_MAPTO_CPUS_def)
qed

section \<open>Routing a wake-up interrupt\<close>

text \<open>The enable bit of an interrupt and its wake-up bit, as last written.\<close>

definition armed :: "u32 \<Rightarrow> bool \<Rightarrow> history \<Rightarrow> bool" where
  "armed irq b t \<longleftrightarrow> (\<exists>v. last_write t (CLIC_INT_IE irq) = Some v \<and> (bit v 0 \<longleftrightarrow> b)) \<and>
     (\<exists>v. last_write t E902_WAKEUP_MASK0_REG = Some v \<and> (bit v (unat irq - 16) \<longleftrightarrow> b))"

lemma route_regs:
  assumes "16 \<le> unat irq \<and> unat irq < 35"
  shows "CLIC_INT_IE irq \<noteq> E902_WAKEUP_MASK0_REG" "CLIC_INT_IP irq \<noteq> E902_WAKEUP_MASK0_REG" "CLIC_INT_IE irq \<noteq> CLIC_INT_IP irq"
    "irq div (MASK1_START_INTERRUPT - 1) = 0" "unat (irq - MASK0_START_INTERRUPT) = unat irq - 16"
proof -
  have "unat (4 * irq) = 4 * unat irq" using assms by (simp add: unat_word_ariths)
  then show "CLIC_INT_IE irq \<noteq> E902_WAKEUP_MASK0_REG" "CLIC_INT_IP irq \<noteq> E902_WAKEUP_MASK0_REG"
    using assms by (auto simp: word_unat_eq_iff unat_word_ariths)
  show "CLIC_INT_IE irq \<noteq> CLIC_INT_IP irq" by simp
  show "irq div (MASK1_START_INTERRUPT - 1) = 0" using assms by (simp add: word_unat_eq_iff unat_div_distrib)
  show "unat (irq - MASK0_START_INTERRUPT) = unat irq - 16" using assms by (subst unat_sub) (auto simp: word_le_nat_alt)
qed

text \<open>One register is written, with a value of which only a property is kept.\<close>

definition wrote :: "u32 \<Rightarrow> (u32 \<Rightarrow> bool) \<Rightarrow> 'a machine_scheme \<Rightarrow> 'a machine_scheme \<Rightarrow> bool" where
  "wrote a P w w' \<longleftrightarrow> (\<exists>t v. w' = w\<lparr>trace := t\<rparr> \<and> P v \<and> last_write t = (last_write (trace w))(a \<mapsto> v))"

lemma wroteI: "P v \<Longrightarrow> wrote a P w (w\<lparr>trace := Wr a v # Rd b u # trace w\<rparr>)"
  unfolding wrote_def by (rule exI, rule exI [of _ v]) (auto simp: fun_eq_iff)

lemma intc_wrote:
  "wp (interrupt_set_mask E n m) (\<lambda>r w'. r = OK \<and> wrote (CLIC_INT_IE n) (\<lambda>v. bit v 0 \<longleftrightarrow> \<not> bit m 0) w w') w"
  "wp (interrupt_enable E n) (\<lambda>r w'. r = OK \<and> wrote (CLIC_INT_IE n) (\<lambda>v. bit v 0) w w') w"
  "wp (interrupt_disable E n) (\<lambda>r w'. r = OK \<and> wrote (CLIC_INT_IE n) (\<lambda>v. \<not> bit v 0) w w') w"
  "wp (interrupt_clear_pending E n) (\<lambda>r w'. r = OK \<and> wrote (CLIC_INT_IP n) (\<lambda>v. True) w w') w"
  unfolding intc_defs wp_bind wp_readb wp_writeb wp_return trace_updated
  by (auto intro!: wroteI simp: bit_simps)

lemma arch_wrote:
  assumes "16 \<le> unat irq \<and> unat irq < 35"
  shows "wp (interrput_arch_set_mask E irq b) (\<lambda>_ w'. wrote E902_WAKEUP_MASK0_REG (\<lambda>v. bit v (unat irq - 16) \<longleftrightarrow> b) w w') w"
proof -
  have k: "unat irq - 16 < 32" using assms by linarith
  show ?thesis
    unfolding interrput_arch_set_mask_def Let_def route_regs(4,5) [OF assms]
    using k by (cases b) (auto simp: wp_simps route_regs(5) [OF assms] bit_simps intro!: wroteI)
qed

lemma irq_wakesource_init_wp:
  assumes irq: "16 \<le> unat irq \<and> unat irq < 35" and grp: "CPUX_IRQ_MAPTO_CPUS_GRP root = FAIL"
  shows "wp (irq_wakesource_init E irq (Some root) (Some h) a) (\<lambda>r w'. r = OK \<and> armed irq True (trace w') \<and>
    isr_table w' = (isr_table w)[unat irq := \<lparr>pisr = h, parg = a\<rparr>] \<and> wakeup_source w' = wakeup_source w) w"
proof -
  have enable: "wp (irq_wakesource_enable E irq (Some root) (Some h))
      (\<lambda>r w'. r = OK \<and> armed irq True (trace w') \<and> isr_table w' = isr_table u \<and> wakeup_source w' = wakeup_source u) u" for u
    unfolding irq_wakesource_enable_def
    apply (rule wp_bindI, rule wp_mono [OF intc_wrote(2)], rule wp_ifI, simp)
    apply (rule wp_bindI, rule wp_mono [OF intc_wrote(1)], rule wp_ifI, simp)
    apply (rule wp_bindI, rule wp_mono [OF arch_wrote [OF irq]], rule wp_returnI)
    using route_regs(1) [OF irq] by (auto simp: wrote_def armed_def)
  have install: "wp (install_isr irq h a) (\<lambda>r w'. r = OK \<and> isr_table w' = (isr_table u)[unat irq := \<lparr>pisr = h, parg = a\<rparr>] \<and>
      wakeup_source w' = wakeup_source u) u" for u :: "'a wakeup_state_scheme"
    by (simp add: install_isr_def wp_simps)
  show ?thesis
    unfolding irq_wakesource_init_def group_irq_init_def grp option.case Let_def
    apply (rule wp_bindI, rule wp_mono [OF intc_wrote(1)], rule wp_ifI, simp)
    apply (rule wp_bindI, rule wp_mono [OF arch_wrote [OF irq]])
    apply (rule wp_bindI, rule wp_mono [OF intc_wrote(3)], rule wp_ifI, simp)
    apply (rule wp_bindI, rule wp_mono [OF intc_wrote(4)], rule wp_ifI, simp)
    apply (simp only: simp_thms if_False wp_bind wp_return)
    apply (rule wp_mono [OF install], rule wp_ifI, simp)
    apply (rule wp_mono [OF enable])
    by (auto simp: wrote_def)
qed

lemma irq_wakesource_exit_wp:
  assumes irq: "16 \<le> unat irq \<and> unat irq < 35" and grp: "CPUX_IRQ_MAPTO_CPUS_GRP root = FAIL"
    and h: "pisr (isr_table w ! unat irq) = h"
  shows "wp (irq_wakesource_exit E irq (Some root) (Some h)) (\<lambda>r w'. r = OK \<and> armed irq False (trace w') \<and>
    isr_table w' = (isr_table w)[unat irq := no_isr] \<and> wakeup_source w' = wakeup_source w) w"
proof -
  have off: "wp (uninstall_isr irq h) (\<lambda>r w'. r = OK \<and> trace w' = trace u \<and> isr_table w' = (isr_table u)[unat irq := no_isr] \<and>
      wakeup_source w' = wakeup_source u) u" if "isr_table u = isr_table w" for u :: "'a wakeup_state_scheme"
    using that h by (simp add: uninstall_isr_def wp_simps)
  show ?thesis
    unfolding irq_wakesource_exit_def group_irq_exit_def grp option.case Let_def
    apply (rule wp_bindI, rule wp_mono [OF intc_wrote(1)])
    apply (rule wp_bindI, rule wp_mono [OF arch_wrote [OF irq]])
    apply (rule wp_bindI, rule wp_mono [OF intc_wrote(3)])
    apply (rule wp_bindI, rule wp_mono [OF intc_wrote(4)])
    apply (rule wp_bindI, rule wp_mono [OF off])
     apply (force simp: wrote_def)
    apply (simp only: simp_thms if_False wp_bind wp_return)
    using route_regs(1-3) [OF irq] by (auto simp: wrote_def armed_def)
qed

text \<open>
  C37: routing a wake-up interrupt. For each of the ten root interrupts of the table,
  \<open>set_wakeup_src\<close> succeeds with the service routine installed and the interrupt enabled and
  allowed to wake the processor; when the interrupt is then taken, the wake-up source becomes the
  root interrupt (for the four USB interrupts, which share one line, the first of them) and the
  interrupt is masked; and \<open>clear_wakeup_src\<close> restores the default routine and disables the
  interrupt. Any other root interrupt is refused by both without a change.
\<close>
theorem wakeup_src_correct:
  assumes len: "length (isr_table w) = 35" and ty: "drop_bit 30 para0 AND 0x3 \<noteq> 0x3"
  shows "((root, irq, src) \<in> set routed \<and> para0 AND 0x3FF = root \<longrightarrow>
      wp (set_wakeup_src E para0) (\<lambda>r w'. r = OK \<and> armed irq True (trace w') \<and> wakeup_source w' \<noteq> root \<and>
        isr_table w' = (isr_table w)[unat irq := \<lparr>pisr = Default_wakeup_handler, parg = Null\<rparr>]) w \<and>
      (isr_table w ! unat irq = \<lparr>pisr = Default_wakeup_handler, parg = Null\<rparr> \<longrightarrow>
        ((\<forall>t. snd (ext_call E t Get_MCAUSE []) AND 0xff = irq) \<longrightarrow>
          wp (interrupt_entry E (isr_invoke E)) (\<lambda>r w'. r = OK \<and> wakeup_source w' = src \<and>
            (\<exists>v. last_write (trace w') (CLIC_INT_IE irq) = Some v \<and> \<not> bit v 0)) w) \<and>
        wp (clear_wakeup_src E para0) (\<lambda>r w'. r = OK \<and> armed irq False (trace w') \<and>
          isr_table w' = (isr_table w)[unat irq := no_isr]) w)) \<and>
    (para0 AND 0x3FF \<notin> fst ` set routed \<longrightarrow>
      run_state (set_wakeup_src E para0) w = (-1, w) \<and> run_state (clear_wakeup_src E para0) w = (-1, w))"
proof (intro conjI impI; (elim conjE)?)
  assume mem: "(root, irq, src) \<in> set routed" and root: "para0 AND 0x3FF = root"
  note m = routed_map [OF mem]
  have ne: "uint irq \<noteq> -1" "of_int (uint irq) = irq" "root \<noteq> 0"
    using mem by (auto simp: routed_def simp del: of_int_uint)
  show "wp (set_wakeup_src E para0) (\<lambda>r w'. r = OK \<and> armed irq True (trace w') \<and> wakeup_source w' \<noteq> root \<and>
        isr_table w' = (isr_table w)[unat irq := \<lparr>pisr = Default_wakeup_handler, parg = Null\<rparr>]) w"
    unfolding set_wakeup_src_def Let_def root m(1) wp_if wp_bind wp_update
    by (simp only: ty ne if_False) (rule wp_mono [OF irq_wakesource_init_wp [OF m(4,3)]], use ne in \<open>auto split: if_splits\<close>)
  assume h: "isr_table w ! unat irq = \<lparr>pisr = Default_wakeup_handler, parg = Null\<rparr>"
  show "wp (clear_wakeup_src E para0) (\<lambda>r w'. r = OK \<and> armed irq False (trace w') \<and>
          isr_table w' = (isr_table w)[unat irq := no_isr]) w"
    unfolding clear_wakeup_src_def Let_def root m(1) wp_if wp_bind
    by (simp only: ty ne if_False) (rule wp_mono [OF irq_wakesource_exit_wp [OF m(4,3)]], use h in \<open>auto simp: wp_simps\<close>)
  assume "\<forall>t. snd (ext_call E t Get_MCAUSE []) AND 0xff = irq"
  then show "wp (interrupt_entry E (isr_invoke E)) (\<lambda>r w'. r = OK \<and> wakeup_source w' = src \<and>
            (\<exists>v. last_write (trace w') (CLIC_INT_IE irq) = Some v \<and> \<not> bit v 0)) w"
    unfolding interrupt_entry_def wp_bind
    by (simp add: intc_get_current_interrupt_def wp_simps Let_def h isr_invoke_def default_wakeup_handler_def
        interrupt_get_current_intno_def m(2))
      (rule wp_mono [OF intc_wrote(1)], auto simp: wp_simps wrote_def)
next
  assume "para0 AND 0x3FF \<notin> fst ` set routed"
  from unrouted_map [OF this] show "run_state (set_wakeup_src E para0) w = (-1, w)" "run_state (clear_wakeup_src E para0) w = (-1, w)"
    using ty by (simp_all add: set_wakeup_src_def clear_wakeup_src_def Let_def)
qed

definition sample_wakeup :: wakeup_state where
  "sample_wakeup = \<lparr>trace = [], notifiers = [], isr_table = replicate 35 no_isr, timer_lock = 0, delay_timer = Some 0,
     timers = timers running_timers, hosc_notifier_list = None, hosc_lock = 0, hung = False, htimer = None, time_ticks = 0,
     softtimer_tab = [Some 0, None], softtimer_cnt = 1,
     soft_objects = (\<lambda>_. \<lparr>st_cycle = 0, st_expires = 0, st_cb = Some Wakeup_timer_handler, st_arg = Null, st_start = 0\<rparr>),
     wakeup_source = 196\<rparr>"

theorem wakeup_src_correct_witness:
  "wp (set_wakeup_src ram_env 196) (\<lambda>r w'. r = OK \<and> armed 24 True (trace w')) sample_wakeup \<and>
   fst (run_state (set_wakeup_src ram_env 5) sample_wakeup) = -1"
proof
  have mem: "(196, 24, 196) \<in> set routed" by (simp add: routed_def)
  have len: "length (isr_table sample_wakeup) = 35" by (simp add: sample_wakeup_def)
  show "wp (set_wakeup_src ram_env 196) (\<lambda>r w'. r = OK \<and> armed 24 True (trace w')) sample_wakeup"
    by (rule wp_mono [OF wakeup_src_correct [OF len, of 196 196 24 196 ram_env, THEN conjunct1, THEN mp, THEN conjunct1]])
      (use mem in auto)
  have "(5 :: u32) AND 0x3FF \<notin> fst ` set routed" by (simp add: routed_def)
  then show "fst (run_state (set_wakeup_src ram_env 5) sample_wakeup) = -1"
    using wakeup_src_correct [OF len, of 5 196 24 196 ram_env] by simp
qed

section \<open>The wake-up timer\<close>

text \<open>The tick interrupt, \<open>n\<close> times.\<close>

definition ticks :: "env \<Rightarrow> nat \<Rightarrow> ('a wakeup_state_scheme, unit) state" where
  "ticks E n = for_index [0..<n] (\<lambda>_. do { _ \<leftarrow> timer_tick_server (soft_invoke E); ret () })"

lemma for_index_append: "for_index (xs @ ys) f = do { _ \<leftarrow> for_index xs f; for_index ys f }"
  by (induction xs) simp_all

lemma ticks_Suc: "ticks E (Suc n) = do { _ \<leftarrow> ticks E n; _ \<leftarrow> timer_tick_server (soft_invoke E); ret () }"
  by (simp add: ticks_def for_index_append)

text \<open>The timer object is running with period \<open>k\<close> and \<open>e\<close> ticks to go.\<close>

definition counting :: "nat \<Rightarrow> nat \<Rightarrow> 'a wakeup_state_scheme \<Rightarrow> bool" where
  "counting k e w \<longleftrightarrow> softtimer_tab w = [Some wakeup_timer, None] \<and> e \<le> k \<and> k < 2 ^ 31 \<and>
     soft_objects w wakeup_timer = \<lparr>st_cycle = of_nat k, st_expires = of_nat e, st_cb = Some Wakeup_timer_handler,
       st_arg = Null, st_start = SOFTTIMER_ON\<rparr>"

lemma tick_wp:
  assumes "counting k e w"
  shows "wp (timer_tick_server (soft_invoke E)) (\<lambda>_ w'.
    if e = 0 then counting k k w' \<and> wakeup_source w' = WAKESOURE_TIMER
    else counting k (e - 1) w' \<and> wakeup_source w' = wakeup_source w) w"
proof -
  have c: "softtimer_tab w = [Some wakeup_timer, None]" "e \<le> k" "k < 2 ^ 31"
    "soft_objects w wakeup_timer = \<lparr>st_cycle = of_nat k, st_expires = of_nat e, st_cb = Some Wakeup_timer_handler,
       st_arg = Null, st_start = SOFTTIMER_ON\<rparr>"
    using assms by (auto simp: counting_def)
  have s: "sint (of_nat e :: u32) = int e" using c(2,3) by (intro sint_of_small_nat) linarith
  have d: "(of_nat e :: u32) - 1 = of_nat (e - 1)" if "e \<noteq> 0" using that by (cases e) auto
  show ?thesis
  proof (cases "e = 0")
    case True
    then show ?thesis using c
      by (simp add: timer_tick_server_def upt_2 soft_tick_def soft_invoke_def wakeup_timer_handler_def wp_simps counting_def)
  next
    case False
    then have "\<not> sint (of_nat e :: u32) \<le> 0" using s by simp
    then show ?thesis using c(1-3) False
      by (simp add: timer_tick_server_def upt_2 soft_tick_def c(4) d wp_simps counting_def not_le del: of_nat_diff)
  qed
qed

lemma ticks_wp:
  assumes "counting k k w"
  shows "wp (ticks E n) (\<lambda>_ w'. \<exists>e. counting k e w' \<and>
    (if n \<le> k then e = k - n \<and> wakeup_source w' = wakeup_source w else wakeup_source w' = WAKESOURE_TIMER)) w"
proof (induction n)
  case 0
  then show ?case using assms by (auto simp: ticks_def wp_simps)
next
  case (Suc n)
  show ?case
    unfolding ticks_Suc
    by (rule wp_bindI, rule wp_mono [OF Suc.IH], elim exE conjE, rule wp_bindI, rule wp_mono [OF tick_wp], assumption,
        rule wp_returnI) (auto split: if_splits)
qed

text \<open>
  C38: the wake-up timer. A request for \<open>ms\<close> milliseconds whose tick count does not overflow,
  followed by the start of the timer on standby entry, makes the timer the wake-up source at tick
  \<open>ms / 10 + 1\<close> of the 10 ms tick and at no tick before, so never earlier than requested and at
  most one tick late.
\<close>
theorem wakeup_timer_fires:
  assumes "drop_bit 30 para0 AND 0x3 = 0x3" and ms: "ms = unat (para0 AND 0x3fffffff)" and "10 \<le> ms" and "100 * ms < 2 ^ 32"
    and "softtimer_tab w = [Some wakeup_timer, None]"
    and "st_cb (soft_objects w wakeup_timer) = Some Wakeup_timer_handler" and "st_arg (soft_objects w wakeup_timer) = Null"
    and "wakeup_source w \<noteq> WAKESOURE_TIMER"
  shows "wp (do { _ \<leftarrow> set_wakeup_src E para0; _ \<leftarrow> wakeup_timer_start; ticks E n })
    (\<lambda>_ w'. wakeup_source w' = WAKESOURE_TIMER \<longleftrightarrow> ms div 10 < n) w"
proof -
  define k where "k = ms div 10"
  have u: "unat (msec_to_ticks (para0 AND 0x3fffffff)) = k"
    using msec_to_ticks_exact [of "para0 AND 0x3fffffff"] assms(4) by (simp add: k_def ms)
  have m: "msec_to_ticks (para0 AND 0x3fffffff) = of_nat k" unfolding u [symmetric] by simp
  have k: "0 < k" "k < 2 ^ 31" using assms(3,4) by (auto simp: k_def div_greater_zero_iff)
  have k0: "(of_nat k :: u32) \<noteq> 0" using u k m by (metis unat_0 less_irrefl)
  have "wp (do { _ \<leftarrow> set_wakeup_src E para0; wakeup_timer_start }) (\<lambda>_ u. counting k k u \<and> wakeup_source u = wakeup_source w) w"
    using assms(1,5-7) k k0
    by (simp add: set_wakeup_src_def wakeup_timer_start_def start_softtimer_def Let_def wp_simps m counting_def)
  then have "wp (do { _ \<leftarrow> set_wakeup_src E para0; wakeup_timer_start })
      (\<lambda>_. wp (ticks E n) (\<lambda>_ w'. wakeup_source w' = WAKESOURE_TIMER \<longleftrightarrow> k < n)) w"
    by (rule wp_mono) (rule wp_mono [OF ticks_wp], use assms(8) in \<open>auto split: if_splits\<close>)
  then show ?thesis by (simp add: wp_bind_fun k_def [symmetric])
qed

theorem wakeup_timer_fires_witness:
  "wp (do { _ \<leftarrow> set_wakeup_src ram_env 0xc0000064; _ \<leftarrow> wakeup_timer_start; ticks ram_env 11 })
    (\<lambda>_ w'. wakeup_source w' = WAKESOURE_TIMER) sample_wakeup"
  by (rule wp_mono [OF wakeup_timer_fires [of "0xc0000064" 100]]) (auto simp: sample_wakeup_def)

end
