(* ===== verification/Hwmsgbox.thy ===== *)
theory Hwmsgbox
  imports Timer_Delay
begin

text \<open>
  The hardware message box (\<^verbatim>\<open>src/ar100s/driver/hwmsgbox/hwmsgbox-extended/hwmsgbox-extended.c\<close>,
  with the message frame of \<^verbatim>\<open>src/ar100s/include/messages.h\<close>). All channels are channel 3. Pointers
  to a message are options, its parameter block a list. The delay between two looks at a FIFO is
  the interface \<open>delay_service\<close>, provided by \<open>time_mdelay\<close>.
\<close>

unbundle bit_operations_syntax

section \<open>Model\<close>

abbreviation (input) MESSAGE_ATTR_SOFTSYN :: u8 where "MESSAGE_ATTR_SOFTSYN \<equiv> 1"
abbreviation (input) MESSAGE_ATTR_HARDSYN :: u8 where "MESSAGE_ATTR_HARDSYN \<equiv> 2"
abbreviation (input) MESSAGE_PARA_MAX :: u32 where "MESSAGE_PARA_MAX \<equiv> 32"
abbreviation (input) HWMSGBOX_FIFO_DEPTH :: u32 where "HWMSGBOX_FIFO_DEPTH \<equiv> 8"
abbreviation (input) MESSAGE_FRAME_HEADER_WORDS :: u32 where "MESSAGE_FRAME_HEADER_WORDS \<equiv> 2"
abbreviation (input) HWMSGBOX_RX_DRAIN_MAX :: nat where "HWMSGBOX_RX_DRAIN_MAX \<equiv> 128"
abbreviation (input) HWMSGBOX_RISC_ASYN_TX_CH :: u32 where "HWMSGBOX_RISC_ASYN_TX_CH \<equiv> 3"
abbreviation (input) HWMSGBOX_RISC_ASYN_RX_CH :: u32 where "HWMSGBOX_RISC_ASYN_RX_CH \<equiv> 3"
abbreviation (input) HWMSGBOX_RISC_SYN_TX_CH :: u32 where "HWMSGBOX_RISC_SYN_TX_CH \<equiv> 3"
abbreviation (input) HWMSGBOX_RISC_SYN_RX_CH :: u32 where "HWMSGBOX_RISC_SYN_RX_CH \<equiv> 3"
abbreviation (input) HWMSGBOX_ARM_SYN_TX_CH :: u32 where "HWMSGBOX_ARM_SYN_TX_CH \<equiv> 3"
abbreviation (input) HWMSGBOX_ARM_SYN_RX_CH :: u32 where "HWMSGBOX_ARM_SYN_RX_CH \<equiv> 3"
abbreviation (input) MSGBOX_ARM_TO_RISC_IRQ_STATUS_REG :: u32 where "MSGBOX_ARM_TO_RISC_IRQ_STATUS_REG \<equiv> 0x07094024"
abbreviation (input) MSGBOX_ARM_TO_RISC_MSG_STATUS_REG :: "u32 \<Rightarrow> u32" where "MSGBOX_ARM_TO_RISC_MSG_STATUS_REG m \<equiv> 0x07094060 + 0x4 * m"
abbreviation (input) MSGBOX_RISC_TO_ARM_MSG_STATUS_REG :: "u32 \<Rightarrow> u32" where "MSGBOX_RISC_TO_ARM_MSG_STATUS_REG m \<equiv> 0x03004060 + 0x4 * m"
abbreviation (input) MSGBOX_ARM_TO_RISC_MSG_REG :: "u32 \<Rightarrow> u32" where "MSGBOX_ARM_TO_RISC_MSG_REG m \<equiv> 0x07094070 + 0x4 * m"
abbreviation (input) MSGBOX_RISC_TO_ARM_MSG_REG :: "u32 \<Rightarrow> u32" where "MSGBOX_RISC_TO_ARM_MSG_REG m \<equiv> 0x03004070 + 0x4 * m"

record message =
  m_state :: u8
  m_attr :: u8
  m_type :: u8
  m_result :: u8
  m_count :: u8
  m_paras :: "u32 list option"

definition hwmsgbox_clear_receiver_pending :: "u32 \<Rightarrow> ('a machine_scheme, unit) state" where
  "hwmsgbox_clear_receiver_pending queue = writel (push_bit (unat (queue * 2)) 0x1) MSGBOX_ARM_TO_RISC_IRQ_STATUS_REG"

definition hwmsgbox_init :: "env \<Rightarrow> ('a machine_scheme, int) state" where
  "hwmsgbox_init E = do {
     _ \<leftarrow> ccu_set_mclk_onoff E CCU_MOD_CLK_MSGBOX CCU_CLK_ON;
     _ \<leftarrow> ccu_set_mclk_reset E CCU_MOD_CLK_MSGBOX CCU_CLK_NRESET;
     ret OK
   }"

definition hwmsgbox_exit :: "env \<Rightarrow> ('a machine_scheme, int) state" where
  "hwmsgbox_exit E = do {
     _ \<leftarrow> ccu_set_mclk_reset E CCU_MOD_CLK_MSGBOX CCU_CLK_RESET;
     _ \<leftarrow> ccu_set_mclk_onoff E CCU_MOD_CLK_MSGBOX CCU_CLK_OFF;
     ret OK
   }"

text \<open>The common shape of the three waits: look at a status register once per millisecond.\<close>

fun wait_queue :: "env \<Rightarrow> ('a machine_scheme, unit) state \<Rightarrow> u32 \<Rightarrow> (u32 \<Rightarrow> bool) \<Rightarrow> nat \<Rightarrow> ('a machine_scheme, int) state" where
  "wait_queue E delay reg busy 0 = do {
     v \<leftarrow> readl E reg;
     if busy v then ret (- ETIMEOUT) else ret OK
   }"
| "wait_queue E delay reg busy (Suc timeout) = do {
     v \<leftarrow> readl E reg;
     if busy v then do { _ \<leftarrow> delay; wait_queue E delay reg busy timeout } else ret OK
   }"

definition hwmsgbox_wait_queue_not_full :: "env \<Rightarrow> nat \<Rightarrow> u32 \<Rightarrow> u32 \<Rightarrow> ('a timer_state_scheme, int) state" where
  "hwmsgbox_wait_queue_not_full E fuel queue timeout =
     wait_queue E (time_mdelay E fuel 1) (MSGBOX_RISC_TO_ARM_MSG_STATUS_REG queue) (\<lambda>v. v = HWMSGBOX_FIFO_DEPTH) (unat timeout)"

definition hwmsgbox_wait_queue_space :: "env \<Rightarrow> nat \<Rightarrow> u32 \<Rightarrow> u32 \<Rightarrow> u32 \<Rightarrow> ('a timer_state_scheme, int) state" where
  "hwmsgbox_wait_queue_space E fuel queue words timeout =
     (if words > HWMSGBOX_FIFO_DEPTH then ret (- EINVAL)
      else wait_queue E (time_mdelay E fuel 1) (MSGBOX_RISC_TO_ARM_MSG_STATUS_REG queue)
        (\<lambda>v. v > HWMSGBOX_FIFO_DEPTH - words) (unat timeout))"

definition hwmsgbox_wait_queue_not_empty :: "env \<Rightarrow> nat \<Rightarrow> u32 \<Rightarrow> u32 \<Rightarrow> ('a timer_state_scheme, int) state" where
  "hwmsgbox_wait_queue_not_empty E fuel queue timeout =
     wait_queue E (time_mdelay E fuel 1) (MSGBOX_ARM_TO_RISC_MSG_STATUS_REG queue) (\<lambda>v. v = 0) (unat timeout)"

text \<open>Wait for room and write one word; wait for a word and read it.\<close>

definition put_word :: "env \<Rightarrow> nat \<Rightarrow> u32 \<Rightarrow> u32 \<Rightarrow> u32 \<Rightarrow> ('a timer_state_scheme, int) state" where
  "put_word E fuel queue timeout v = do {
     r \<leftarrow> hwmsgbox_wait_queue_not_full E fuel queue timeout;
     if r \<noteq> OK then ret r
     else do { _ \<leftarrow> writel v (MSGBOX_RISC_TO_ARM_MSG_REG queue); ret OK }
   }"

fun put_words :: "env \<Rightarrow> nat \<Rightarrow> u32 \<Rightarrow> u32 \<Rightarrow> u32 list \<Rightarrow> ('a timer_state_scheme, int) state" where
  "put_words E fuel queue timeout [] = ret OK"
| "put_words E fuel queue timeout (v # vs) = do {
     r \<leftarrow> put_word E fuel queue timeout v;
     if r \<noteq> OK then ret r else put_words E fuel queue timeout vs
   }"

definition get_word :: "env \<Rightarrow> nat \<Rightarrow> u32 \<Rightarrow> u32 \<Rightarrow> ('a timer_state_scheme, int \<times> u32) state" where
  "get_word E fuel queue timeout = do {
     r \<leftarrow> hwmsgbox_wait_queue_not_empty E fuel queue timeout;
     if r \<noteq> OK then ret (r, 0)
     else do { value \<leftarrow> readl E (MSGBOX_ARM_TO_RISC_MSG_REG queue); ret (OK, value) }
   }"

definition header_word :: "message \<Rightarrow> u32" where
  "header_word m = ucast (m_state m) OR push_bit 8 (ucast (m_attr m)) OR push_bit 16 (ucast (m_type m)) OR
     push_bit 24 (ucast (m_result m))"

definition set_header :: "u32 \<Rightarrow> message \<Rightarrow> message" where
  "set_header value m = m\<lparr>m_state := ucast (value AND 0xff), m_attr := ucast (drop_bit 8 value AND 0xff),
     m_type := ucast (drop_bit 16 value AND 0xff), m_result := ucast (drop_bit 24 value AND 0xff)\<rparr>"

text \<open>The words of a frame, in the order in which they are sent.\<close>

definition frame :: "message \<Rightarrow> u32 list" where
  "frame m = header_word m # ucast (m_count m) # map (\<lambda>i. the (m_paras m) ! i) [0..<unat (m_count m)]"

definition bad_message :: "message option \<Rightarrow> bool" where
  "bad_message pm = (case pm of None \<Rightarrow> True
     | Some m \<Rightarrow> ucast (m_count m) > MESSAGE_PARA_MAX \<or> (m_count m \<noteq> 0 \<and> m_paras m = None))"

fun recv_paras :: "env \<Rightarrow> nat \<Rightarrow> u32 \<Rightarrow> u32 \<Rightarrow> nat \<Rightarrow> nat \<Rightarrow> nat \<Rightarrow> message \<Rightarrow> ('a timer_state_scheme, int \<times> message) state" where
  "recv_paras E fuel queue timeout capacity i 0 m = ret (OK, m)"
| "recv_paras E fuel queue timeout capacity i (Suc n) m = do {
     (r, value) \<leftarrow> get_word E fuel queue timeout;
     if r \<noteq> OK then ret (r, m)
     else recv_paras E fuel queue timeout capacity (i + 1) n
       (if i < capacity then m\<lparr>m_paras := map_option (\<lambda>ps. ps[i := value]) (m_paras m)\<rparr> else m)
   }"

definition hwmsgbox_send_message ::
  "env \<Rightarrow> nat \<Rightarrow> message option \<Rightarrow> u32 \<Rightarrow> ('a timer_state_scheme, int \<times> message option) state" where
  "hwmsgbox_send_message E fuel pm timeout = (
     if bad_message pm then ret (- EINVAL, pm)
     else let m = the pm;
              response_capacity = unat (m_count m);
              frame_words = MESSAGE_FRAME_HEADER_WORDS + ucast (m_count m);
              hard = (m_attr m AND MESSAGE_ATTR_HARDSYN \<noteq> 0)
     in do {
       r \<leftarrow> (if frame_words \<le> HWMSGBOX_FIFO_DEPTH
             then hwmsgbox_wait_queue_space E fuel (if hard then HWMSGBOX_RISC_SYN_TX_CH else HWMSGBOX_RISC_ASYN_TX_CH) frame_words timeout
             else ret OK);
       if r \<noteq> OK then ret (r, pm)
       else if hard then do {
         r \<leftarrow> put_words E fuel HWMSGBOX_RISC_SYN_TX_CH timeout (frame m);
         if r \<noteq> OK then ret (r, pm)
         else do {
           (r, value) \<leftarrow> get_word E fuel HWMSGBOX_RISC_SYN_RX_CH timeout;
           if r \<noteq> OK then ret (r, pm)
           else do {
             let m = set_header value m;
             (r, value) \<leftarrow> get_word E fuel HWMSGBOX_RISC_SYN_RX_CH timeout;
             if r \<noteq> OK then ret (r, Some m)
             else do {
               let response_count = value AND 0xff;
               let m = m\<lparr>m_count := ucast response_count\<rparr>;
               (r, m) \<leftarrow> recv_paras E fuel HWMSGBOX_RISC_SYN_RX_CH timeout response_capacity 0 (unat response_count) m;
               if r \<noteq> OK then ret (r, Some m)
               else if unat response_count > response_capacity then ret (- E2BIG, Some m)
               else ret (OK, Some m)
             }
           }
         }
       } else do {
         r \<leftarrow> put_words E fuel HWMSGBOX_RISC_ASYN_TX_CH timeout (frame m);
         ret (r, pm)
       }
     })"

definition hwmsgbox_feedback_message :: "env \<Rightarrow> nat \<Rightarrow> message option \<Rightarrow> u32 \<Rightarrow> ('a timer_state_scheme, int) state" where
  "hwmsgbox_feedback_message E fuel pm timeout = (
     if bad_message pm then ret (- EINVAL)
     else if m_attr (the pm) AND MESSAGE_ATTR_HARDSYN \<noteq> 0 then
       put_words E fuel HWMSGBOX_ARM_SYN_RX_CH timeout (frame (the pm))
     else ret (- ESRCH))"

fun rx_drain :: "env \<Rightarrow> u32 \<Rightarrow> nat \<Rightarrow> ('a machine_scheme, unit) state" where
  "rx_drain E queue 0 = ret ()"
| "rx_drain E queue (Suc n) = do {
     v \<leftarrow> readl E (MSGBOX_ARM_TO_RISC_MSG_STATUS_REG queue);
     if v \<noteq> 0 then do { _ \<leftarrow> readl E (MSGBOX_ARM_TO_RISC_MSG_REG queue); rx_drain E queue n } else ret ()
   }"

definition receive_failed :: "env \<Rightarrow> u32 \<Rightarrow> int \<Rightarrow> message \<Rightarrow> ('a machine_scheme, int \<times> message) state" where
  "receive_failed E queue r m = do {
     _ \<leftarrow> rx_drain E queue HWMSGBOX_RX_DRAIN_MAX;
     _ \<leftarrow> hwmsgbox_clear_receiver_pending queue;
     ret (r, m)
   }"

definition hwmsgbox_receive_message ::
  "env \<Rightarrow> nat \<Rightarrow> u32 \<Rightarrow> message \<Rightarrow> u32 \<Rightarrow> u32 \<Rightarrow> ('a timer_state_scheme, int \<times> message) state" where
  "hwmsgbox_receive_message E fuel queue m para_capacity timeout = do {
     (r, value) \<leftarrow> get_word E fuel queue timeout;
     if r \<noteq> OK then receive_failed E queue r m
     else do {
       let m = set_header value m;
       (r, value) \<leftarrow> get_word E fuel queue timeout;
       if r \<noteq> OK then receive_failed E queue r m
       else do {
         let count = value AND 0xff;
         let m = m\<lparr>m_count := ucast count\<rparr>;
         (r, m) \<leftarrow> recv_paras E fuel queue timeout (unat para_capacity) 0 (unat count) m;
         if r \<noteq> OK then receive_failed E queue r m
         else do {
           _ \<leftarrow> hwmsgbox_clear_receiver_pending queue;
           if count > para_capacity then ret (- E2BIG, m) else ret (OK, m)
         }
       }
     }
   }"

definition hwmsgbox_query_message ::
  "env \<Rightarrow> nat \<Rightarrow> message option \<Rightarrow> u32 \<Rightarrow> u32 \<Rightarrow> ('a timer_state_scheme, int \<times> message option) state" where
  "hwmsgbox_query_message E fuel pm para_capacity timeout = (case pm of None \<Rightarrow> ret (- EINVAL, pm)
   | Some m \<Rightarrow>
     if para_capacity > MESSAGE_PARA_MAX \<or> (para_capacity \<noteq> 0 \<and> m_paras m = None) then ret (- EINVAL, pm)
     else do {
       v \<leftarrow> readl E (MSGBOX_ARM_TO_RISC_MSG_STATUS_REG HWMSGBOX_RISC_ASYN_RX_CH);
       if v \<ge> MESSAGE_FRAME_HEADER_WORDS then do {
         (r, m) \<leftarrow> hwmsgbox_receive_message E fuel HWMSGBOX_RISC_ASYN_RX_CH m para_capacity timeout;
         ret (r, Some m)
       } else do {
         v \<leftarrow> readl E (MSGBOX_ARM_TO_RISC_MSG_STATUS_REG HWMSGBOX_ARM_SYN_TX_CH);
         if v \<ge> MESSAGE_FRAME_HEADER_WORDS then do {
           (r, m) \<leftarrow> hwmsgbox_receive_message E fuel HWMSGBOX_ARM_SYN_TX_CH m para_capacity timeout;
           ret (r, Some m)
         } else ret (FAIL, pm)
       }
     })"

definition hwmsgbox_super_standby_init :: "env \<Rightarrow> ('a machine_scheme, int) state" where
  "hwmsgbox_super_standby_init E = do { _ \<leftarrow> hwmsgbox_exit E; ret OK }"

definition hwmsgbox_super_standby_exit :: "env \<Rightarrow> ('a machine_scheme, int) state" where
  "hwmsgbox_super_standby_exit E = do { _ \<leftarrow> hwmsgbox_init E; ret OK }"

end
