(* ===== verification/Hwmsgbox_Correct.thy ===== *)
theory Hwmsgbox_Correct
  imports Hwmsgbox
begin

text \<open>
  The message box: the waits end, a frame is written word by word and never into a full FIFO, and
  the receiver of the words of a frame reads the message that was sent. The waits rest on the
  interface \<open>delay_service\<close>; \<open>time_mdelay\<close> provides it as long as the counter runs.
\<close>

unbundle bit_operations_syntax

section \<open>The registers of the message box\<close>

abbreviation (input) TX_STATUS :: u32 where "TX_STATUS \<equiv> 0x0300406c"
abbreviation (input) TX_MSG :: u32 where "TX_MSG \<equiv> 0x0300407c"
abbreviation (input) RX_STATUS :: u32 where "RX_STATUS \<equiv> 0x0709406c"
abbreviation (input) RX_MSG :: u32 where "RX_MSG \<equiv> 0x0709407c"

definition box_regs :: "u32 set" where
  "box_regs = {TX_STATUS, TX_MSG, RX_STATUS, RX_MSG, MSGBOX_ARM_TO_RISC_IRQ_STATUS_REG}"

text \<open>The words written to the transmit FIFO, oldest first, and the number of words taken from the receive FIFO.\<close>

fun sent :: "history \<Rightarrow> u32 list" where
  "sent [] = []"
| "sent (Wr a v # t) = (if a = TX_MSG then sent t @ [v] else sent t)"
| "sent (_ # t) = sent t"

fun popped :: "history \<Rightarrow> nat" where
  "popped [] = 0"
| "popped (Rd a v # t) = (if a = RX_MSG then Suc (popped t) else popped t)"
| "popped (_ # t) = popped t"

text \<open>Every word goes into the transmit FIFO right after the FIFO was seen not full.\<close>

fun room_seen :: "history \<Rightarrow> bool" where
  "room_seen (Rd a v # t) \<longleftrightarrow> a = TX_STATUS \<and> v \<noteq> HWMSGBOX_FIFO_DEPTH"
| "room_seen _ \<longleftrightarrow> False"

fun paced :: "history \<Rightarrow> bool" where
  "paced [] \<longleftrightarrow> True"
| "paced (Wr a v # t) \<longleftrightarrow> (a = TX_MSG \<longrightarrow> room_seen t) \<and> paced t"
| "paced (_ # t) \<longleftrightarrow> paced t"

definition adds :: "(event \<Rightarrow> bool) \<Rightarrow> 'a machine_scheme \<Rightarrow> 'a machine_scheme \<Rightarrow> bool" where
  "adds P w w' \<longleftrightarrow> (\<exists>es. trace w' = es @ trace w \<and> (\<forall>e\<in>set es. P e))"

lemma adds_refl [simp]: "adds P w w"
  by (simp add: adds_def)

lemma adds_trans:
  assumes "adds P w u" and "adds P u w'"
  shows "adds P w w'"
proof -
  from assms obtain es fs where "trace u = es @ trace w" "\<forall>e\<in>set es. P e" "trace w' = fs @ trace u" "\<forall>e\<in>set fs. P e"
    unfolding adds_def by blast
  then show ?thesis unfolding adds_def by (intro exI [of _ "fs @ es"]) auto
qed

lemma adds_mono: "adds P w w' \<Longrightarrow> (\<And>e. P e \<Longrightarrow> Q e) \<Longrightarrow> adds Q w w'"
  unfolding adds_def by blast

lemma adds_event: "P e \<Longrightarrow> adds P w (w\<lparr>trace := e # trace w\<rparr>)"
  unfolding adds_def by (intro exI [of _ "[e]"]) simp

lemma adds_emits: "emits P m \<Longrightarrow> wp m (\<lambda>_. adds P w) w"
  unfolding wp_def adds_def by (erule emitsE [where w = w]) blast

lemma not_transmitted: "(\<And>v. e \<noteq> Wr TX_MSG v) \<Longrightarrow> sent (e # t) = sent t \<and> (paced (e # t) \<longleftrightarrow> paced t)"
  by (cases e) auto

lemma not_popped: "(\<And>v. e \<noteq> Rd RX_MSG v) \<Longrightarrow> popped (e # t) = popped t"
  by (cases e) auto

lemma adds_quiet:
  assumes "adds (\<lambda>e. \<not> reg_event {TX_MSG, RX_MSG} e) w w'"
  shows "sent (trace w') = sent (trace w) \<and> (paced (trace w') \<longleftrightarrow> paced (trace w)) \<and> popped (trace w') = popped (trace w)"
proof -
  obtain es where es: "trace w' = es @ trace w" "\<forall>e\<in>set es. \<not> reg_event {TX_MSG, RX_MSG} e"
    using assms unfolding adds_def by blast
  have "sent (es @ t) = sent t \<and> (paced (es @ t) \<longleftrightarrow> paced t) \<and> popped (es @ t) = popped t" for t
    using es(2)
  proof (induction es)
    case (Cons e es)
    have "\<And>v. e \<noteq> Wr TX_MSG v" "\<And>v. e \<noteq> Rd RX_MSG v" using Cons.prems by auto
    then show ?case using Cons not_transmitted [of e "es @ t"] not_popped [of e "es @ t"] by simp
  qed simp
  then show ?thesis by (simp add: es(1))
qed

lemma wait_quiet:
  assumes "adds (\<lambda>e. \<not> reg_event box_regs e \<or> (\<exists>v. e = Rd r v)) w w'" and "r = TX_STATUS \<or> r = RX_STATUS"
  shows "sent (trace w') = sent (trace w)" "paced (trace w') \<longleftrightarrow> paced (trace w)" "popped (trace w') = popped (trace w)"
proof -
  have "\<not> reg_event {TX_MSG, RX_MSG} e" if "\<not> reg_event box_regs e \<or> (\<exists>v. e = Rd r v)" for e
    using that assms(2) by (cases e) (auto simp: box_regs_def)
  from adds_quiet [OF adds_mono [OF assms(1) this]]
  show "sent (trace w') = sent (trace w)" "paced (trace w') \<longleftrightarrow> paced (trace w)" "popped (trace w') = popped (trace w)" by auto
qed

section \<open>Waiting\<close>

text \<open>
  What a wait needs of the delay between two looks at a register: it can be afforded a given number
  of times, and it leaves the message box alone.
\<close>

locale delay_service =
  fixes afford :: "nat \<Rightarrow> 'a machine_scheme \<Rightarrow> bool"
    and delay :: "('a machine_scheme, unit) state"
  assumes delay_law: "afford (Suc n) w \<Longrightarrow> wp delay (\<lambda>_ w'. afford n w' \<and> adds (\<lambda>e. \<not> reg_event box_regs e) w w') w"
    and bus_law: "afford (Suc n) w \<Longrightarrow> afford n (w\<lparr>trace := e # trace w\<rparr>)"
    and afford_less: "afford n w \<Longrightarrow> m \<le> n \<Longrightarrow> afford m w"
begin

lemma wait_queue_wp:
  "afford (2 * Suc timeout + k) w \<Longrightarrow> wp (wait_queue E delay reg busy timeout) (\<lambda>r w'. afford k w' \<and>
     adds (\<lambda>e. \<not> reg_event box_regs e \<or> (\<exists>v. e = Rd reg v)) w w' \<and>
     (\<exists>t. trace w' = Rd reg (dev_read E t reg) # t \<and> r = (if busy (dev_read E t reg) then - ETIMEOUT else OK))) w"
proof (induction timeout arbitrary: w)
  case 0
  let ?w = "w\<lparr>trace := Rd reg (dev_read E (trace w) reg) # trace w\<rparr>"
  have "afford k ?w" using bus_law [of "Suc k" w] afford_less [of "Suc k" ?w k] 0 by simp
  then show ?case by (auto simp: wp_simps intro!: adds_event)
next
  case (Suc timeout)
  let ?w = "w\<lparr>trace := Rd reg (dev_read E (trace w) reg) # trace w\<rparr>"
  let ?P = "\<lambda>e. \<not> reg_event box_regs e \<or> (\<exists>v. e = Rd reg v)"
  have a: "afford (Suc (2 * Suc timeout + k)) ?w" using bus_law [of "Suc (2 * Suc timeout + k)" w] Suc.prems by simp
  have w: "adds ?P w ?w" by (rule adds_event) blast
  show ?case
  proof (cases "busy (dev_read E (trace w) reg)")
    case False
    moreover have "afford k ?w" using a by (rule afford_less) simp
    ultimately show ?thesis using w by (auto simp: wp_simps)
  next
    case True
    have "wp (wait_queue E delay reg busy timeout) (\<lambda>r w'. afford k w' \<and> adds ?P w w' \<and>
        (\<exists>t. trace w' = Rd reg (dev_read E t reg) # t \<and> r = (if busy (dev_read E t reg) then - ETIMEOUT else OK))) u"
      if u: "afford (2 * Suc timeout + k) u" "adds (\<lambda>e. \<not> reg_event box_regs e) ?w u" for u
    proof (rule wp_mono [OF Suc.IH [OF u(1)]])
      have "adds ?P w u" using w by (rule adds_trans) (rule adds_mono [OF u(2)], blast)
      then show "afford k w' \<and> adds ?P w w' \<and> (\<exists>t. trace w' = Rd reg (dev_read E t reg) # t \<and> r = (if busy (dev_read E t reg) then - ETIMEOUT else OK))"
        if "afford k w' \<and> adds ?P u w' \<and> (\<exists>t. trace w' = Rd reg (dev_read E t reg) # t \<and> r = (if busy (dev_read E t reg) then - ETIMEOUT else OK))" for r w'
        using that adds_trans by blast
    qed
    then have "wp delay (\<lambda>_. wp (wait_queue E delay reg busy timeout) (\<lambda>r w'. afford k w' \<and> adds ?P w w' \<and>
        (\<exists>t. trace w' = Rd reg (dev_read E t reg) # t \<and> r = (if busy (dev_read E t reg) then - ETIMEOUT else OK)))) ?w"
      by (intro wp_mono [OF delay_law [OF a]]) blast
    then show ?thesis using True by (simp add: wp_bind wp_readl)
  qed
qed

end

text \<open>
  The millisecond delay provides this: it can be afforded as long as the 64-bit counter is far from
  its end, and it uses the registers of the delay timer and the counter only.
\<close>

abbreviation (input) delay_cost :: nat where "delay_cost \<equiv> 2 ^ 37"

definition can_delay :: "env \<Rightarrow> (history \<Rightarrow> nat) \<Rightarrow> nat \<Rightarrow> nat \<Rightarrow> 'a timer_state_scheme \<Rightarrow> bool" where
  "can_delay E c fuel n w \<longleftrightarrow> counts E c \<and> 48002 \<le> fuel \<and> timers_ok w \<and> \<not> hung w \<and> c (trace w) + n * delay_cost < 2 ^ 60"

lemma emits_counter_read [emits_intros]:
  "(\<And>a v. a \<in> {CNT_LOW_REG, CNT_HIGH_REG} \<Longrightarrow> P (Rd a v)) \<Longrightarrow> emits P (cpucfg_counter_read E fuel)"
  unfolding cpucfg_counter_read_def by (induction fuel) (auto intro!: emits_intros)

lemma emits_wait_clear_loop [emits_intros]: "(\<And>v. P (Rd reg v)) \<Longrightarrow> emits P (wait_clear_loop E n reg m)"
  by (induction n) (auto intro!: emits_intros)

lemma emits_delay_wait_pending [emits_intros]:
  "(\<And>a v. a \<in> {CNT_LOW_REG, CNT_HIGH_REG, EXT_TIMER_STA_REG} \<Longrightarrow> P (Rd a v)) \<Longrightarrow> emits P (delay_wait_pending E fuel n no d)"
  by (induction n) (auto intro!: emits_intros)

definition delay_regs :: "u32 set" where
  "delay_regs = {EXT_TIMER_IVL_REG 0, EXT_TIMER_CTRL_REG 0, EXT_TIMER_STA_REG, CNT_LOW_REG, CNT_HIGH_REG}"

lemma time_mdelay_events:
  assumes "timers_ok w"
  shows "wp (time_mdelay E fuel ms) (\<lambda>_. adds (reg_event delay_regs) w) w"
proof (cases "timer_lock w = 0")
  case False
  then show ?thesis by (simp add: time_mdelay_def wp_simps)
next
  case True
  define t where "t = timers w ! the (delay_timer w)"
  have no: "timer_no t = 0" using True assms by (simp add: t_def timers_ok_def timer_ok_def)
  show ?thesis
    unfolding time_mdelay_def
    apply (simp only: wp_bind [of locked] wp_bind [of State_Monad.get] wp_locked wp_get True if_False simp_thms)
    apply (unfold Let_def t_def [symmetric] no delay_wait_clear_def)
    apply (rule adds_emits)
    apply (intro emits_intros; auto simp: delay_regs_def)
    done
qed

lemma delay_box: "reg_event delay_regs e \<Longrightarrow> \<not> reg_event box_regs e"
  by (cases e) (auto simp: delay_regs_def box_regs_def)

lemma time_mdelay_adds:
  "timers_ok w \<Longrightarrow> wp (time_mdelay E fuel ms) (\<lambda>_. adds (\<lambda>e. \<not> reg_event box_regs e) w) w"
  by (rule wp_mono [OF time_mdelay_events]) (auto intro: adds_mono [OF _ delay_box])

lemma can_delay_law:
  assumes "can_delay E c fuel (Suc n) w"
  shows "wp (time_mdelay E fuel 1) (\<lambda>_ w'. can_delay E c fuel n w' \<and> adds (\<lambda>e. \<not> reg_event box_regs e) w w') w"
proof -
  have w: "counts E c" "c (trace w) < 2 ^ 60" "24000 * (unat (1 :: u32) + 1) + 2 \<le> fuel" "timers_ok w" "\<not> hung w"
    "c (trace w) + (n * delay_cost + delay_cost) < 2 ^ 60"
    using assms by (simp_all add: can_delay_def)
  show ?thesis
    by (rule wp_mono [OF wp_conj [OF time_mdelay_wp [OF w(1-3)] time_mdelay_adds [OF w(4)]]])
      (use w in \<open>auto simp: can_delay_def time_passes_def timers_ok_def\<close>)
qed

lemma can_delay_bus: "can_delay E c fuel (Suc n) w \<Longrightarrow> can_delay E c fuel n (w\<lparr>trace := e # trace w\<rparr>)"
  using counts_step [of E c "trace w" e] by (auto simp: can_delay_def timers_ok_def)

lemma can_delay_less: "can_delay E c fuel n w \<Longrightarrow> m \<le> n \<Longrightarrow> can_delay E c fuel m w"
  by (auto simp: can_delay_def)

interpretation md: delay_service "can_delay E c fuel" "time_mdelay E fuel 1" for E c fuel
  by unfold_locales (rule can_delay_law can_delay_bus can_delay_less; assumption)+

section \<open>Sending\<close>

abbreviation (input) word_budget :: "u32 \<Rightarrow> nat" where
  "word_budget timeout \<equiv> 2 * Suc (unat timeout) + 1"

lemma put_word_wp:
  assumes "can_delay E c fuel (word_budget timeout + k) w" and "paced (trace w)"
  shows "wp (put_word E fuel 3 timeout v) (\<lambda>r w'. can_delay E c fuel k w' \<and> paced (trace w') \<and>
    (r = OK \<and> sent (trace w') = sent (trace w) @ [v] \<or>
     r = - ETIMEOUT \<and> sent (trace w') = sent (trace w) \<and> (\<exists>t. dev_read E t TX_STATUS = HWMSGBOX_FIFO_DEPTH))) w"
proof -
  let ?Q = "\<lambda>r w'. can_delay E c fuel k w' \<and> paced (trace w') \<and>
    (r = OK \<and> sent (trace w') = sent (trace w) @ [v] \<or>
     r = - ETIMEOUT \<and> sent (trace w') = sent (trace w) \<and> (\<exists>t. dev_read E t TX_STATUS = HWMSGBOX_FIFO_DEPTH))"
  let ?full = "\<lambda>v. v = HWMSGBOX_FIFO_DEPTH" and ?P = "\<lambda>e. \<not> reg_event box_regs e \<or> (\<exists>v. e = Rd TX_STATUS v)"
  have step: "wp (if r \<noteq> OK then ret r else do { _ \<leftarrow> writel v TX_MSG; ret OK }) ?Q u"
    if u: "can_delay E c fuel (Suc k) u" "adds ?P w u"
      "trace u = Rd TX_STATUS (dev_read E t TX_STATUS) # t" "r = (if ?full (dev_read E t TX_STATUS) then - ETIMEOUT else OK)" for r u t
  proof -
    have keep: "sent (trace u) = sent (trace w)" "paced (trace u)"
      using wait_quiet [OF u(2)] assms(2) by auto
    have "can_delay E c fuel k u" using u(1) by (rule can_delay_less) simp
    then show ?thesis using can_delay_bus [OF u(1), of "Wr TX_MSG v"] keep u(3,4) by (auto simp: wp_simps)
  qed
  have a: "can_delay E c fuel (2 * Suc (unat timeout) + Suc k) w" using assms(1) by simp
  have "wp (wait_queue E (time_mdelay E fuel 1) TX_STATUS ?full (unat timeout))
      (\<lambda>r. wp (if r \<noteq> OK then ret r else do { _ \<leftarrow> writel v TX_MSG; ret OK }) ?Q) w"
    by (rule wp_mono [OF md.wait_queue_wp [OF a]]) (elim conjE exE, rule step)
  then show ?thesis
    unfolding put_word_def hwmsgbox_wait_queue_not_full_def by (intro wp_bindI) (simp cong: if_cong)
qed

lemma put_words_wp:
  fixes w :: "'a timer_state_scheme"
  shows "can_delay E c fuel (length vs * word_budget timeout + k) w \<Longrightarrow> paced (trace w) \<Longrightarrow>
   wp (put_words E fuel 3 timeout vs) (\<lambda>r w'. can_delay E c fuel k w' \<and> paced (trace w') \<and>
    (\<exists>n. sent (trace w') = sent (trace w) @ take n vs \<and>
      (r = OK \<and> n = length vs \<or> r = - ETIMEOUT \<and> n < length vs \<and> (\<exists>t. dev_read E t TX_STATUS = HWMSGBOX_FIFO_DEPTH)))) w"
proof (induction vs arbitrary: w)
  case Nil
  then show ?case by (simp add: wp_simps)
next
  case (Cons v vs)
  let ?k = "length vs * word_budget timeout + k"
  let ?Q = "\<lambda>r (w' :: 'a timer_state_scheme). can_delay E c fuel k w' \<and> paced (trace w') \<and>
    (\<exists>n. sent (trace w') = sent (trace w) @ take n (v # vs) \<and>
      (r = OK \<and> n = length (v # vs) \<or> r = - ETIMEOUT \<and> n < length (v # vs) \<and> (\<exists>t. dev_read E t TX_STATUS = HWMSGBOX_FIFO_DEPTH)))"
  have step: "wp (if r \<noteq> OK then ret r else put_words E fuel 3 timeout vs) ?Q u"
    if u: "can_delay E c fuel ?k u \<and> paced (trace u) \<and> (r = OK \<and> sent (trace u) = sent (trace w) @ [v] \<or>
      r = - ETIMEOUT \<and> sent (trace u) = sent (trace w) \<and> (\<exists>t. dev_read E t TX_STATUS = HWMSGBOX_FIFO_DEPTH))" for r u
  proof (rule wp_ifI)
    assume "r \<noteq> OK"
    moreover have "can_delay E c fuel k u" using u can_delay_less [of E c fuel ?k u k] by simp
    ultimately show "wp (ret r) ?Q u" using u by (intro wp_returnI) (auto intro: exI [of _ 0])
  next
    assume "\<not> r \<noteq> OK"
    then have sent: "sent (trace u) = sent (trace w) @ [v]" using u by auto
    show "wp (put_words E fuel 3 timeout vs) ?Q u"
    proof (rule wp_mono [OF Cons.IH])
      show "can_delay E c fuel ?k u" "paced (trace u)" using u by auto
      fix s :: int and w' :: "'a timer_state_scheme" assume "can_delay E c fuel k w' \<and> paced (trace w') \<and> (\<exists>n. sent (trace w') = sent (trace u) @ take n vs \<and>
        (s = OK \<and> n = length vs \<or> s = - ETIMEOUT \<and> n < length vs \<and> (\<exists>t. dev_read E t TX_STATUS = HWMSGBOX_FIFO_DEPTH)))"
      then obtain n where "can_delay E c fuel k w'" "paced (trace w')" "sent (trace w') = sent (trace u) @ take n vs"
        "s = OK \<and> n = length vs \<or> s = - ETIMEOUT \<and> n < length vs \<and> (\<exists>t. dev_read E t TX_STATUS = HWMSGBOX_FIFO_DEPTH)" by blast
      then show "?Q s w'" using sent by (auto intro!: exI [of _ "Suc n"])
    qed
  qed
  have a: "can_delay E c fuel (word_budget timeout + ?k) w"
    using Cons.prems(1) by (simp only: length_Cons mult_Suc add.assoc)
  show ?case
    unfolding put_words.simps by (rule wp_bindI, rule wp_mono [OF put_word_wp [OF a Cons.prems(2)]], erule step)
qed

section \<open>Receiving\<close>

text \<open>From the \<open>p\<close>-th word on, the receive FIFO delivers the words \<open>ws\<close>.\<close>

definition delivers :: "env \<Rightarrow> nat \<Rightarrow> u32 list \<Rightarrow> bool" where
  "delivers E p ws \<longleftrightarrow> (\<forall>t. p \<le> popped t \<and> popped t < p + length ws \<longrightarrow> dev_read E t RX_MSG = ws ! (popped t - p))"

lemma deliversD: "delivers E p (x # ws) \<Longrightarrow> popped t = p \<Longrightarrow> dev_read E t RX_MSG = x"
  by (simp add: delivers_def)

lemma delivers_tl: "delivers E p (x # ws) \<Longrightarrow> delivers E (Suc p) ws"
  unfolding delivers_def by (metis Suc_diff_Suc Suc_le_eq add_Suc_shift length_Cons less_imp_le_nat nth_Cons_Suc)

text \<open>A word that does not come in time.\<close>

definition starves :: "env \<Rightarrow> nat \<Rightarrow> bool" where
  "starves E q \<longleftrightarrow> (\<exists>t. popped t < q \<and> dev_read E t RX_STATUS = 0)"

lemma starves_mono: "starves E q \<Longrightarrow> q \<le> q' \<Longrightarrow> starves E q'"
  unfolding starves_def by (meson order_less_le_trans)

lemma get_word_wp:
  assumes "can_delay E c fuel (word_budget timeout + k) w" and "delivers E (popped (trace w)) (x # ws)"
  shows "wp (get_word E fuel 3 timeout) (\<lambda>(r, v) w'. can_delay E c fuel k w' \<and>
    (r = OK \<and> v = x \<and> popped (trace w') = Suc (popped (trace w)) \<or>
     r = - ETIMEOUT \<and> starves E (Suc (popped (trace w))))) w"
proof -
  let ?Q = "\<lambda>(r, v) w'. can_delay E c fuel k w' \<and> (r = OK \<and> v = x \<and> popped (trace w') = Suc (popped (trace w)) \<or>
     r = - ETIMEOUT \<and> starves E (Suc (popped (trace w))))"
  let ?P = "\<lambda>e. \<not> reg_event box_regs e \<or> (\<exists>v. e = Rd RX_STATUS v)"
  have step: "wp (if r \<noteq> OK then ret (r, 0) else do { value \<leftarrow> readl E RX_MSG; ret (OK, value) }) ?Q u"
    if u: "can_delay E c fuel (Suc k) u" "adds ?P w u"
      "trace u = Rd RX_STATUS (dev_read E t RX_STATUS) # t" "r = (if dev_read E t RX_STATUS = 0 then - ETIMEOUT else OK)" for r u t
  proof -
    have keep: "popped (trace u) = popped (trace w)" using wait_quiet [OF u(2)] by simp
    then have t: "popped t = popped (trace w)" unfolding u(3) by simp
    have "starves E (Suc (popped (trace w)))" if "dev_read E t RX_STATUS = 0"
      unfolding starves_def using that t by (intro exI [of _ t]) simp
    moreover have "can_delay E c fuel k u" using u(1) by (rule can_delay_less) simp
    moreover have "dev_read E (trace u) RX_MSG = x" using deliversD [OF assms(2) keep] .
    ultimately show ?thesis using can_delay_bus [OF u(1), of "Rd RX_MSG x"] keep u(4) by (simp add: wp_simps)
  qed
  have a: "can_delay E c fuel (2 * Suc (unat timeout) + Suc k) w" using assms(1) by simp
  have "wp (wait_queue E (time_mdelay E fuel 1) RX_STATUS (\<lambda>v. v = 0) (unat timeout))
      (\<lambda>r. wp (if r \<noteq> OK then ret (r, 0) else do { value \<leftarrow> readl E RX_MSG; ret (OK, value) }) ?Q) w"
    by (rule wp_mono [OF md.wait_queue_wp [OF a]]) (elim conjE exE, rule step)
  then show ?thesis
    unfolding get_word_def hwmsgbox_wait_queue_not_empty_def by (intro wp_bindI) (simp cong: if_cong)
qed

text \<open>What the loop over the parameters stores.\<close>

fun store_paras :: "nat \<Rightarrow> nat \<Rightarrow> u32 list \<Rightarrow> message \<Rightarrow> message" where
  "store_paras capacity i [] m = m"
| "store_paras capacity i (x # xs) m = store_paras capacity (i + 1) xs
     (if i < capacity then m\<lparr>m_paras := map_option (\<lambda>ps. ps[i := x]) (m_paras m)\<rparr> else m)"

lemma store_paras_eq:
  "m_paras m = Some ps \<Longrightarrow> length ps = capacity \<Longrightarrow> i \<le> capacity \<Longrightarrow>
    store_paras capacity i xs m = m\<lparr>m_paras := Some (take i ps @ take (capacity - i) xs @ drop (i + length xs) ps)\<rparr>"
proof (induction xs arbitrary: i m ps)
  case Nil
  then show ?case by simp
next
  case (Cons x xs)
  show ?case
  proof (cases "i < capacity")
    case True
    have "take (Suc i) (ps[i := x]) = take i ps @ [x]" using True Cons.prems by (simp add: take_Suc_conv_app_nth)
    moreover have "capacity - i = Suc (capacity - Suc i)" using True by simp
    ultimately show ?thesis using True Cons.prems Cons.IH [of "m\<lparr>m_paras := Some (ps[i := x])\<rparr>" "ps[i := x]" "Suc i"]
      by (simp add: drop_update_cancel)
  next
    case False
    have "store_paras capacity (Suc j) xs m = m" if "capacity \<le> j" for j
      using that by (induction xs arbitrary: j) auto
    then show ?thesis using False Cons.prems by simp
  qed
qed

lemma recv_paras_wp:
  fixes w :: "'a timer_state_scheme"
  shows "can_delay E c fuel (length xs * word_budget timeout + k) w \<Longrightarrow> delivers E (popped (trace w)) xs \<Longrightarrow>
   wp (recv_paras E fuel 3 timeout capacity i (length xs) m) (\<lambda>(r, m') w'. can_delay E c fuel k w' \<and>
    (r = OK \<and> m' = store_paras capacity i xs m \<and> popped (trace w') = popped (trace w) + length xs \<or>
     r = - ETIMEOUT \<and> starves E (popped (trace w) + length xs))) w"
proof (induction xs arbitrary: i m w)
  case Nil
  then show ?case by (simp add: wp_simps)
next
  case (Cons x xs)
  let ?k = "length xs * word_budget timeout + k"
  let ?m = "if i < capacity then m\<lparr>m_paras := map_option (\<lambda>ps. ps[i := x]) (m_paras m)\<rparr> else m"
  let ?Q = "\<lambda>(r, m') (w' :: 'a timer_state_scheme). can_delay E c fuel k w' \<and>
    (r = OK \<and> m' = store_paras capacity i (x # xs) m \<and> popped (trace w') = popped (trace w) + length (x # xs) \<or>
     r = - ETIMEOUT \<and> starves E (popped (trace w) + length (x # xs)))"
  let ?f = "\<lambda>(r, value). if r \<noteq> OK then ret (r, m)
     else recv_paras E fuel 3 timeout capacity (i + 1) (length xs)
       (if i < capacity then m\<lparr>m_paras := map_option (\<lambda>ps. ps[i := value]) (m_paras m)\<rparr> else m)"
  have step: "wp (?f p) ?Q u"
    if u: "case p of (r, v) \<Rightarrow> can_delay E c fuel ?k u \<and> (r = OK \<and> v = x \<and> popped (trace u) = Suc (popped (trace w)) \<or>
      r = - ETIMEOUT \<and> starves E (Suc (popped (trace w))))" for p u
  proof (cases "fst p = OK")
    case False
    then obtain v where p: "p = (- ETIMEOUT, v)" and st: "starves E (Suc (popped (trace w)))" and a: "can_delay E c fuel ?k u"
      using u by (cases p) auto
    have "can_delay E c fuel k u" using a by (rule can_delay_less) simp
    moreover have "starves E (popped (trace w) + length (x # xs))" using st by (rule starves_mono) simp
    ultimately show ?thesis unfolding p by (simp add: wp_simps)
  next
    case True
    then have p: "p = (OK, x)" and pop: "popped (trace u) = Suc (popped (trace w))" and a: "can_delay E c fuel ?k u"
      using u by (auto split: prod.splits)
    have d: "delivers E (popped (trace u)) xs" unfolding pop using Cons.prems(2) by (rule delivers_tl)
    show ?thesis unfolding p using Cons.IH [OF a d, where i = "i + 1" and m = ?m] pop by (simp cong: if_cong)
  qed
  have a: "can_delay E c fuel (word_budget timeout + ?k) w"
    using Cons.prems(1) by (simp only: length_Cons mult_Suc add.assoc)
  have "wp (recv_paras E fuel 3 timeout capacity i (Suc (length xs)) m) ?Q w"
    unfolding recv_paras.simps
    by (rule wp_bindI, rule wp_mono [OF get_word_wp [OF a Cons.prems(2)]], rule step, simp add: split_beta)
  then show ?case by (simp only: length_Cons)
qed

subsection \<open>The header\<close>

lemma set_header_header_word:
  "set_header (header_word m) m0 = m0\<lparr>m_state := m_state m, m_attr := m_attr m, m_type := m_type m, m_result := m_result m\<rparr>"
proof -
  have ff: "0xff = (mask 8 :: u32)" by (simp add: mask_eq_exp_minus_1)
  have "ucast (header_word m AND 0xff) = m_state m"
    unfolding ff header_word_def by (rule bit_word_eqI) (auto simp: bit_simps dest: bit_imp_le_length)
  moreover have "ucast (drop_bit 8 (header_word m) AND 0xff) = m_attr m"
    unfolding ff header_word_def by (rule bit_word_eqI) (auto simp: bit_simps dest: bit_imp_le_length)
  moreover have "ucast (drop_bit 16 (header_word m) AND 0xff) = m_type m"
    unfolding ff header_word_def by (rule bit_word_eqI) (auto simp: bit_simps dest: bit_imp_le_length)
  moreover have "ucast (drop_bit 24 (header_word m) AND 0xff) = m_result m"
    unfolding ff header_word_def by (rule bit_word_eqI) (auto simp: bit_simps dest: bit_imp_le_length)
  ultimately show ?thesis by (simp add: set_header_def)
qed

lemma count_word: "(ucast (n :: u8) AND 0xff :: u32) = ucast n"
proof -
  have ff: "0xff = (mask 8 :: u32)" by (simp add: mask_eq_exp_minus_1)
  show ?thesis unfolding ff by (rule bit_word_eqI) (auto simp: bit_simps dest: bit_imp_le_length)
qed

lemma ucast_ucast_u8 [simp]: "ucast (ucast (n :: u8) :: u32) = n"
  by (rule bit_word_eqI) (auto simp: bit_simps dest: bit_imp_le_length)

subsection \<open>The whole frame\<close>

abbreviation (input) drain_budget :: nat where "drain_budget \<equiv> 2 * HWMSGBOX_RX_DRAIN_MAX + 1"

lemma rx_drain_wp: "can_delay E c fuel (2 * n + k) w \<Longrightarrow> wp (rx_drain E 3 n) (\<lambda>_ w'. can_delay E c fuel k w') w"
proof (induction n arbitrary: w)
  case (Suc n)
  define v where "v = dev_read E (trace w) RX_STATUS"
  let ?w = "w\<lparr>trace := Rd RX_STATUS v # trace w\<rparr>"
  have w: "can_delay E c fuel (Suc (2 * n + k)) ?w" using can_delay_bus [of E c fuel "Suc (2 * n + k)" w] Suc.prems by simp
  have "can_delay E c fuel k ?w" using w by (rule can_delay_less) simp
  moreover have "wp (rx_drain E 3 n) (\<lambda>_ w'. can_delay E c fuel k w') (?w\<lparr>trace := e # trace ?w\<rparr>)" for e
    by (rule Suc.IH) (use can_delay_bus [OF w] in simp)
  ultimately show ?case unfolding v_def by (cases "dev_read E (trace w) RX_STATUS = 0") (simp_all add: wp_simps)
qed (simp add: wp_simps)

lemma receive_failed_wp:
  "can_delay E c fuel (drain_budget + k) w \<Longrightarrow> wp (receive_failed E 3 r m) (\<lambda>(r', _) w'. r' = r \<and> can_delay E c fuel k w') w"
  unfolding receive_failed_def hwmsgbox_clear_receiver_pending_def
  by (intro wp_bindI wp_mono [OF rx_drain_wp [where k = "Suc k"]]) (auto simp: wp_simps intro: can_delay_bus)

definition received :: "message \<Rightarrow> message \<Rightarrow> nat \<Rightarrow> message" where
  "received m m0 capacity = m0\<lparr>m_state := m_state m, m_attr := m_attr m, m_type := m_type m, m_result := m_result m,
     m_count := m_count m, m_paras := Some (take capacity (drop 2 (frame m)) @ drop (unat (m_count m)) (the (m_paras m0)))\<rparr>"

lemma hwmsgbox_receive_message_wp:
  fixes w :: "'a timer_state_scheme"
  assumes a: "can_delay E c fuel (length (frame m) * word_budget timeout + (drain_budget + k)) w"
    and d: "delivers E (popped (trace w)) (frame m)" and buf: "m_paras m0 = Some ps" "length ps = unat cap"
  shows "wp (hwmsgbox_receive_message E fuel 3 m0 cap timeout) (\<lambda>(r, m') w'. can_delay E c fuel k w' \<and>
    (r = - ETIMEOUT \<and> starves E (popped (trace w) + length (frame m)) \<or>
     r = (if unat (m_count m) > unat cap then - E2BIG else OK) \<and> m' = received m m0 (unat cap) \<and>
     popped (trace w') = popped (trace w) + length (frame m))) w"
proof -
  define xs where "xs = drop 2 (frame m)"
  define B where "B = word_budget timeout"
  define D where "D = drain_budget + k"
  have fr: "frame m = header_word m # ucast (m_count m) # xs" and len: "length xs = unat (m_count m)"
    by (simp_all add: xs_def frame_def)
  let ?p = "popped (trace w)"
  let ?Q = "\<lambda>(r, m') (w' :: 'a timer_state_scheme). can_delay E c fuel k w' \<and>
    (r = - ETIMEOUT \<and> starves E (?p + length (frame m)) \<or>
     r = (if unat (m_count m) > unat cap then - E2BIG else OK) \<and> m' = received m m0 (unat cap) \<and>
     popped (trace w') = ?p + length (frame m))"
  have fail: "wp (receive_failed E 3 (- ETIMEOUT) m') ?Q u"
    if "can_delay E c fuel (j + D) u" "starves E (?p + n)" "n \<le> length (frame m)" for u m' n j
  proof -
    have "can_delay E c fuel (drain_budget + k) u" using that(1) by (rule can_delay_less) (simp add: D_def)
    moreover have "starves E (?p + length (frame m))" using that(2) by (rule starves_mono) (use that(3) in simp)
    ultimately show ?thesis by (intro wp_mono [OF receive_failed_wp]) auto
  qed
  let ?m1 = "set_header (header_word m) m0" let ?m2 = "?m1\<lparr>m_count := m_count m\<rparr>"
  have m3: "store_paras (unat cap) 0 xs ?m2 = received m m0 (unat cap)"
    using store_paras_eq [of ?m2 ps "unat cap" 0 xs] buf len
    by (simp add: set_header_header_word received_def xs_def [symmetric])
  let ?f3 = "\<lambda>(r, m'). if r \<noteq> OK then receive_failed E 3 r m' else do {
           _ \<leftarrow> hwmsgbox_clear_receiver_pending 3;
           if ucast (m_count m) > cap then ret (- E2BIG, m') else ret (OK, m')
         }"
  have three: "wp (?f3 p) ?Q u"
    if u: "can_delay E c fuel D u \<and> (fst p = OK \<and> snd p = received m m0 (unat cap) \<and> popped (trace u) = ?p + length (frame m) \<or>
      fst p = - ETIMEOUT \<and> starves E (?p + length (frame m)))" for p u
  proof (cases "fst p = OK")
    case False
    then show ?thesis using u fail [of 0 u "length (frame m)" "snd p"] by (auto simp: split_beta)
  next
    case True
    have "can_delay E c fuel (Suc k) u" using u can_delay_less [of E c fuel D u "Suc k"] by (simp add: D_def)
    then show ?thesis using True u can_delay_bus [of E c fuel k u]
      by (auto simp: split_beta wp_simps hwmsgbox_clear_receiver_pending_def word_less_nat_alt)
  qed
  let ?f2 = "\<lambda>(r, value). if r \<noteq> OK then receive_failed E 3 r ?m1 else do {
         let count = value AND 0xff;
         let m = ?m1\<lparr>m_count := ucast count\<rparr>;
         (r, m) \<leftarrow> recv_paras E fuel 3 timeout (unat cap) 0 (unat count) m;
         if r \<noteq> OK then receive_failed E 3 r m else do {
           _ \<leftarrow> hwmsgbox_clear_receiver_pending 3;
           if count > cap then ret (- E2BIG, m) else ret (OK, m)
         }
       }"
  have two: "wp (?f2 p) ?Q u"
    if u: "can_delay E c fuel (length xs * B + D) u \<and> (fst p = OK \<and> snd p = ucast (m_count m) \<and> popped (trace u) = ?p + 2 \<or>
      fst p = - ETIMEOUT \<and> starves E (?p + 2))" for p u
  proof (cases "fst p = OK")
    case False
    then show ?thesis using u fail [of "length xs * B" u 2] by (auto simp: split_beta fr)
  next
    case True
    have d2: "delivers E (popped (trace u)) xs" using d u True delivers_tl [of E "Suc ?p"] delivers_tl [of E ?p] by (auto simp: fr)
    have a2: "can_delay E c fuel (length xs * word_budget timeout + D) u" using u by (simp only: B_def)
    have "wp (recv_paras E fuel 3 timeout (unat cap) 0 (length xs) ?m2 \<bind> ?f3) ?Q u"
      by (rule wp_bindI, rule wp_mono [OF recv_paras_wp [OF a2 d2]], rule three) (use u True m3 in \<open>auto simp: split_beta fr\<close>)
    then show ?thesis using True u by (simp add: split_beta Let_def count_word len cong: if_cong)
  qed
  let ?f1 = "\<lambda>(r, value). if r \<noteq> OK then receive_failed E 3 r m0 else do {
       let m = set_header value m0;
       (r, value) \<leftarrow> get_word E fuel 3 timeout;
       if r \<noteq> OK then receive_failed E 3 r m else do {
         let count = value AND 0xff;
         let m = m\<lparr>m_count := ucast count\<rparr>;
         (r, m) \<leftarrow> recv_paras E fuel 3 timeout (unat cap) 0 (unat count) m;
         if r \<noteq> OK then receive_failed E 3 r m else do {
           _ \<leftarrow> hwmsgbox_clear_receiver_pending 3;
           if count > cap then ret (- E2BIG, m) else ret (OK, m)
         }
       }
     }"
  have one: "wp (?f1 p) ?Q u"
    if u: "can_delay E c fuel (Suc (length xs) * B + D) u \<and> (fst p = OK \<and> snd p = header_word m \<and> popped (trace u) = ?p + 1 \<or>
      fst p = - ETIMEOUT \<and> starves E (?p + 1))" for p u
  proof (cases "fst p = OK")
    case False
    then show ?thesis using u fail [of "Suc (length xs) * B" u 1] by (auto simp: split_beta fr)
  next
    case True
    have d1: "delivers E (popped (trace u)) (ucast (m_count m) # xs)" using d u True delivers_tl [of E ?p] by (auto simp: fr)
    have b: "can_delay E c fuel (word_budget timeout + (length xs * B + D)) u" using u by (simp add: B_def algebra_simps)
    have "wp (get_word E fuel 3 timeout \<bind> ?f2) ?Q u"
      by (rule wp_bindI, rule wp_mono [OF get_word_wp [OF b d1]], rule two) (use u True in \<open>auto simp: split_beta\<close>)
    then show ?thesis using True u by (simp add: split_beta Let_def cong: if_cong)
  qed
  have b: "can_delay E c fuel (word_budget timeout + (Suc (length xs) * B + D)) w" using a by (simp add: B_def D_def fr algebra_simps)
  have d0: "delivers E ?p (header_word m # ucast (m_count m) # xs)" using d by (simp add: fr)
  show ?thesis unfolding hwmsgbox_receive_message_def
    by (rule wp_bindI, rule wp_mono [OF get_word_wp [OF b d0]], rule one) (auto simp: split_beta)
qed

section \<open>The round trip\<close>

definition mbox_ready :: "env \<Rightarrow> (history \<Rightarrow> nat) \<Rightarrow> nat \<Rightarrow> u32 \<Rightarrow> 'a timer_state_scheme \<Rightarrow> bool" where
  "mbox_ready E c fuel timeout w \<longleftrightarrow> counts E c \<and> 48002 \<le> fuel \<and> unat timeout \<le> 100000 \<and> timers_ok w \<and> \<not> hung w \<and> c (trace w) < 2 ^ 57"

lemma frame_length: "\<not> bad_message (Some m) \<Longrightarrow> length (frame m) \<le> 34"
  by (simp add: bad_message_def frame_def word_less_nat_alt)

lemma mbox_ready_can_delay:
  assumes "mbox_ready E c fuel timeout w" and "n \<le> 34" and "k \<le> 300"
  shows "can_delay E c fuel (n * word_budget timeout + k) w"
proof -
  have "n * word_budget timeout \<le> 34 * 200003"
    using assms by (intro mult_le_mono) (auto simp: mbox_ready_def)
  then have "(n * word_budget timeout + k) * delay_cost \<le> 6800402 * delay_cost" using assms(3) by (intro mult_le_mono1) simp
  then show ?thesis using assms(1) by (simp add: mbox_ready_def can_delay_def)
qed

lemma hwmsgbox_feedback_message_wp:
  assumes "mbox_ready E c fuel timeout w" and "\<not> bad_message (Some m)" and "m_attr m AND MESSAGE_ATTR_HARDSYN \<noteq> 0" and "paced (trace w)"
  shows "wp (hwmsgbox_feedback_message E fuel (Some m) timeout) (\<lambda>r w'. timers_ok w' \<and> \<not> hung w' \<and> paced (trace w') \<and>
    (\<exists>n. sent (trace w') = sent (trace w) @ take n (frame m) \<and>
      (r = OK \<and> n = length (frame m) \<or>
       r = - ETIMEOUT \<and> n < length (frame m) \<and> (\<exists>t. dev_read E t TX_STATUS = HWMSGBOX_FIFO_DEPTH)))) w"
  unfolding hwmsgbox_feedback_message_def
  using assms(2,3) wp_mono [OF put_words_wp [OF mbox_ready_can_delay [OF assms(1) frame_length [OF assms(2)], of 0] assms(4)]]
  by (auto simp: can_delay_def elim!: wp_mono)

text \<open>
  C39: the round trip through the message box. A reply is written word for word, header, count and
  parameters, each word only after the FIFO was seen with room, and either completely or up to the
  first word for which the FIFO stayed full for the whole timeout. A receiver to which a FIFO
  delivers these words gets back the message, header and count unchanged and as many parameters as
  its block holds, and says when the block was too small; it takes exactly the words of the frame,
  and gives up only when a word stays away. Neither side hangs or disturbs the timers.
\<close>
theorem hwmsgbox_roundtrip:
  assumes "mbox_ready E c fuel timeout w" and "paced (trace w)"
    and m: "\<not> bad_message (Some m)" "m_attr m AND MESSAGE_ATTR_HARDSYN \<noteq> 0"
    and v: "mbox_ready E' c' fuel' timeout' v" "delivers E' (popped (trace v)) (frame m)"
    and m0: "m_paras m0 = Some ps" "length ps = unat cap"
  shows "wp (hwmsgbox_feedback_message E fuel (Some m) timeout) (\<lambda>r w'. timers_ok w' \<and> \<not> hung w' \<and> paced (trace w') \<and>
      (\<exists>n. sent (trace w') = sent (trace w) @ take n (frame m) \<and>
        (r = OK \<and> n = length (frame m) \<or>
         r = - ETIMEOUT \<and> n < length (frame m) \<and> (\<exists>t. dev_read E t TX_STATUS = HWMSGBOX_FIFO_DEPTH)))) w \<and>
    wp (hwmsgbox_receive_message E' fuel' HWMSGBOX_RISC_ASYN_RX_CH m0 cap timeout') (\<lambda>(r, m') v'. timers_ok v' \<and> \<not> hung v' \<and>
      (r = - ETIMEOUT \<and> starves E' (popped (trace v) + length (frame m)) \<or>
       r = (if unat (m_count m) > unat cap then - E2BIG else OK) \<and>
       m' = m0\<lparr>m_state := m_state m, m_attr := m_attr m, m_type := m_type m, m_result := m_result m, m_count := m_count m,
         m_paras := Some (take (unat cap) (map ((!) (the (m_paras m))) [0..<unat (m_count m)]) @ drop (unat (m_count m)) ps)\<rparr> \<and>
       popped (trace v') = popped (trace v) + length (frame m))) v"
proof (rule conjI)
  show "wp (hwmsgbox_feedback_message E fuel (Some m) timeout) (\<lambda>r w'. timers_ok w' \<and> \<not> hung w' \<and> paced (trace w') \<and>
      (\<exists>n. sent (trace w') = sent (trace w) @ take n (frame m) \<and>
        (r = OK \<and> n = length (frame m) \<or>
         r = - ETIMEOUT \<and> n < length (frame m) \<and> (\<exists>t. dev_read E t TX_STATUS = HWMSGBOX_FIFO_DEPTH)))) w"
    using assms by (intro hwmsgbox_feedback_message_wp)
  have b: "can_delay E' c' fuel' (length (frame m) * word_budget timeout' + (drain_budget + 0)) v"
    by (rule mbox_ready_can_delay [OF v(1) frame_length [OF m(1)]]) simp
  show "wp (hwmsgbox_receive_message E' fuel' HWMSGBOX_RISC_ASYN_RX_CH m0 cap timeout') (\<lambda>(r, m') v'. timers_ok v' \<and> \<not> hung v' \<and>
      (r = - ETIMEOUT \<and> starves E' (popped (trace v) + length (frame m)) \<or>
       r = (if unat (m_count m) > unat cap then - E2BIG else OK) \<and>
       m' = m0\<lparr>m_state := m_state m, m_attr := m_attr m, m_type := m_type m, m_result := m_result m, m_count := m_count m,
         m_paras := Some (take (unat cap) (map ((!) (the (m_paras m))) [0..<unat (m_count m)]) @ drop (unat (m_count m)) ps)\<rparr> \<and>
       popped (trace v') = popped (trace v) + length (frame m))) v"
    by (rule wp_mono [OF hwmsgbox_receive_message_wp [OF b v(2) m0]])
      (use m0 in \<open>auto simp: can_delay_def received_def frame_def\<close>)
qed

text \<open>A board whose receive FIFO holds the words \<open>ws\<close>.\<close>

definition box_env :: "u32 list \<Rightarrow> env" where
  "box_env ws = \<lparr>dev_read = (\<lambda>t a. if a = CNT_LOW_REG then of_nat (length t mod 2 ^ 32)
     else if a = CNT_HIGH_REG then of_nat (length t div 2 ^ 32)
     else if a = RX_STATUS then 1 else if a = RX_MSG then ws ! popped t else 0), ext_call = (\<lambda>_ _ _. (0, 0))\<rparr>"

lemma box_env_ready:
  "counts (box_env ws) length" "delivers (box_env ws) 0 ws" "\<not> starves (box_env ws) q" "dev_read (box_env ws) t TX_STATUS = 0"
  by (auto simp: counts_def box_env_def delivers_def starves_def)

definition sample_message :: message where
  "sample_message = \<lparr>m_state = 1, m_attr = MESSAGE_ATTR_HARDSYN, m_type = 0x26, m_result = 0, m_count = 2, m_paras = Some [7, 0xdeadbeef]\<rparr>"

definition blank_message :: message where
  "blank_message = \<lparr>m_state = 0, m_attr = 0, m_type = 0, m_result = 0, m_count = 0, m_paras = Some [0, 0, 0]\<rparr>"

theorem hwmsgbox_roundtrip_witness:
  "wp (hwmsgbox_feedback_message (box_env []) 48002 (Some sample_message) 100000) (\<lambda>r w'. r = OK \<and> sent (trace w') = frame sample_message) running_timers \<and>
   wp (hwmsgbox_receive_message (box_env (frame sample_message)) 48002 3 blank_message 3 100)
     (\<lambda>(r, m') _. r = OK \<and> m' = sample_message\<lparr>m_paras := Some [7, 0xdeadbeef, 0]\<rparr>) running_timers"
proof -
  have ok: "timers_ok running_timers" "\<not> hung running_timers" "trace running_timers = []"
    by (rule running_timers_ok) (simp_all add: running_timers_def idle_timers_def)
  have "mbox_ready (box_env ws) length 48002 T running_timers" if "unat T \<le> 100000" for ws T
    using ok that by (simp add: mbox_ready_def box_env_ready)
  moreover have "\<not> bad_message (Some sample_message)" "m_attr sample_message AND MESSAGE_ATTR_HARDSYN \<noteq> 0"
    by (simp_all add: bad_message_def sample_message_def)
  moreover have "m_paras blank_message = Some [0, 0, 0]" "length [0, 0, 0 :: u32] = unat (3 :: u32)" by (simp_all add: blank_message_def)
  moreover have "delivers (box_env (frame sample_message)) (popped (trace running_timers)) (frame sample_message)"
    using ok by (simp add: box_env_ready)
  ultimately have *: "wp (hwmsgbox_feedback_message (box_env []) 48002 (Some sample_message) 100000) (\<lambda>r w'. r = OK \<and> sent (trace w') = frame sample_message) running_timers"
    "wp (hwmsgbox_receive_message (box_env (frame sample_message)) 48002 3 blank_message 3 100)
     (\<lambda>(r, m') _. r = OK \<and> m' = sample_message\<lparr>m_paras := Some [7, 0xdeadbeef, 0]\<rparr>) running_timers"
    using hwmsgbox_roundtrip [of "box_env []" length 48002 100000 running_timers sample_message
        "box_env (frame sample_message)" length 48002 100 running_timers blank_message "[0, 0, 0]" 3] ok
    by (auto elim!: wp_mono simp: box_env_ready sample_message_def blank_message_def upt_rec)
  then show ?thesis by blast
qed

end
