(* ===== verification/Sclk.thy ===== *)
theory Sclk
  imports Wakeup Hwmsgbox_Correct
begin

text \<open>
  The clock sources of the management core (\<^verbatim>\<open>ccu.c\<close>, \<^verbatim>\<open>sclk.c\<close> and the power gates of \<^verbatim>\<open>power.c\<close> under
  \<^verbatim>\<open>src/ar100s/driver/prcm/prcm-sun60iw2p1\<close>), the delay that depends on them (\<open>time_udelay\<close>), the
  rest of \<^verbatim>\<open>cpucfg.c\<close> and the power control of the main processor (\<^verbatim>\<open>sunxi_cpu_ops.c\<close>). The lock
  \<open>suspend_lock\<close> of the standby service is read here and therefore declared here.
\<close>

unbundle bit_operations_syntax

section \<open>Model\<close>

text \<open>A bounded wait: at most \<open>n\<close> looks at a register, true when one of them was good.\<close>

fun poll :: "env \<Rightarrow> u32 \<Rightarrow> (u32 \<Rightarrow> bool) \<Rightarrow> nat \<Rightarrow> ('a machine_scheme, bool) state" where
  "poll E reg good 0 = ret False"
| "poll E reg good (Suc n) = do {
     v \<leftarrow> readl E reg;
     if good v then ret True else poll E reg good n
   }"

abbreviation (input) CCU_SYS_CLK_CPUS :: u32 where "CCU_SYS_CLK_CPUS \<equiv> 17"
abbreviation (input) CCU_SYS_CLK_APBS2 :: u32 where "CCU_SYS_CLK_APBS2 \<equiv> 36"
abbreviation (input) CCU_DCXO_FREQ :: u32 where "CCU_DCXO_FREQ \<equiv> 26000000"
abbreviation (input) CCU_SYS_CLK24M_FREQ :: u32 where "CCU_SYS_CLK24M_FREQ \<equiv> 24000000"
abbreviation (input) CCU_CPUS_PLL0_FREQ :: u32 where "CCU_CPUS_PLL0_FREQ \<equiv> 200000000"
abbreviation (input) CCU_CPUS_PERIO_300M_FREQ :: u32 where "CCU_CPUS_PERIO_300M_FREQ \<equiv> 300000000"
abbreviation (input) CCU_APBS2_PLL0_FREQ :: u32 where "CCU_APBS2_PLL0_FREQ \<equiv> 200000000"
abbreviation (input) CPUS_CFG_REG :: u32 where "CPUS_CFG_REG \<equiv> 0x07010000"
abbreviation (input) APBS0_CFG_REG :: u32 where "APBS0_CFG_REG \<equiv> 0x0701000c"
abbreviation (input) APBS1_CFG_REG :: u32 where "APBS1_CFG_REG \<equiv> 0x07010010"
abbreviation (input) CPUS_CLK_SRC_SEL_MASK :: u32 where "CPUS_CLK_SRC_SEL_MASK \<equiv> 0x07000000"
abbreviation (input) CPUS_CLK_SRC_SEL :: "u32 \<Rightarrow> u32" where "CPUS_CLK_SRC_SEL n \<equiv> push_bit 24 n"
abbreviation (input) CPUS_FACTOR_M_MASK :: u32 where "CPUS_FACTOR_M_MASK \<equiv> 0x1f"
abbreviation (input) RTC_RECORD_REG :: u32 where "RTC_RECORD_REG \<equiv> 0x0709010c"
abbreviation (input) CNT_CTRL_REG :: u32 where "CNT_CTRL_REG \<equiv> 0x08020000"
abbreviation (input) CNT_LOW_REG_SET :: u32 where "CNT_LOW_REG_SET \<equiv> 0x08020008"
abbreviation (input) CNT_HIGH_REG_SET :: u32 where "CNT_HIGH_REG_SET \<equiv> 0x0802000c"
abbreviation (input) CNT_FREQID_REG :: u32 where "CNT_FREQID_REG \<equiv> 0x08020020"
abbreviation (input) CPUCFG_LE_SPACE_NUMBER :: nat where "CPUCFG_LE_SPACE_NUMBER \<equiv> 4"
abbreviation (input) CPUS_SPACE_LE_CTRL_REG :: u32 where "CPUS_SPACE_LE_CTRL_REG \<equiv> 0x0705000c"
abbreviation (input) CPUS_SPACE_START_REG :: "nat \<Rightarrow> u32" where "CPUS_SPACE_START_REG n \<equiv> 0x07050010 + of_nat n * 8"
abbreviation (input) CPUS_SPACE_END_REG :: "nat \<Rightarrow> u32" where "CPUS_SPACE_END_REG n \<equiv> 0x07050014 + of_nat n * 8"
abbreviation (input) C0_CPUX_POWEROFF_GATING_REG :: u32 where "C0_CPUX_POWEROFF_GATING_REG \<equiv> 0x07050044"
abbreviation (input) CPUS_C0_CPU_CFG_REG :: "u32 \<Rightarrow> u32" where "CPUS_C0_CPU_CFG_REG core \<equiv> 0x07050070 + core * 0x04"

record sclk_state = wakeup_state +
  iosc_freq :: u32
  losc_freq :: u32
  already_init_osc_freq :: u32
  apbs2_notifier_head :: "nat option"
  suspend_lock :: u32
  little_endian_used :: nat

subsection \<open>Clock sources\<close>

definition ccu_get_sclk_freq :: "env \<Rightarrow> u32 \<Rightarrow> ('a sclk_state_scheme, u32) state" where
  "ccu_get_sclk_freq E sclk =
     (if sclk = CCU_SYS_CLK_CPUS then do {
        v \<leftarrow> readl E CPUS_CFG_REG;
        w \<leftarrow> State_Monad.get;
        let s = drop_bit 24 v;
        ret (if s = 0 then CCU_DCXO_FREQ else if s = 1 then losc_freq w else if s = 2 then iosc_freq w
             else if s = 3 then CCU_CPUS_PLL0_FREQ else if s = 4 then CCU_CPUS_PERIO_300M_FREQ else 0)
      } else if sclk = CCU_SYS_CLK_APBS2 then do {
        v \<leftarrow> readl E APBS1_CFG_REG;
        w \<leftarrow> State_Monad.get;
        let s = drop_bit 24 v;
        ret (if s = 0 then CCU_DCXO_FREQ else if s = 1 then losc_freq w else if s = 2 then iosc_freq w
             else if s = 3 then CCU_APBS2_PLL0_FREQ else if s = 4 then CCU_SYS_CLK24M_FREQ else 0)
      } else ret 0)"

text \<open>One sample: the counter ticks, in milliseconds of 24 MHz, that a fixed delay loop takes.\<close>

definition osc_sample :: "env \<Rightarrow> nat \<Rightarrow> ('a timer_state_scheme, u32) state" where
  "osc_sample E fuel = do {
     _ \<leftarrow> time_cdelay E 1600;
     cnt1 \<leftarrow> cpucfg_counter_read E fuel;
     _ \<leftarrow> time_cdelay E 1000000;
     c \<leftarrow> cpucfg_counter_read E fuel;
     let cnt2 = c - cnt1;
     ret (ucast (cnt2 AND 0xffffffff) div 24000)
   }"

definition iosc_freq_init :: "env \<Rightarrow> nat \<Rightarrow> ('a sclk_state_scheme, unit) state" where
  "iosc_freq_init E fuel = do {
     w \<leftarrow> State_Monad.get;
     if already_init_osc_freq w = 0 then do {
       v \<leftarrow> readl E CPUS_CFG_REG;
       let cpus_src = v AND CPUS_CLK_SRC_SEL_MASK;
       _ \<leftarrow> reg_update E CPUS_CFG_REG CPUS_CLK_SRC_SEL_MASK (CPUS_CLK_SRC_SEL 0);
       ht \<leftarrow> osc_sample E fuel;
       _ \<leftarrow> reg_update E CPUS_CFG_REG CPUS_CLK_SRC_SEL_MASK (CPUS_CLK_SRC_SEL 2);
       xt \<leftarrow> osc_sample E fuel;
       _ \<leftarrow> reg_update E CPUS_CFG_REG CPUS_CLK_SRC_SEL_MASK cpus_src;
       if ht = 0 \<or> xt = 0 \<or> ht > 0xffffffff div (CCU_DCXO_FREQ div 1000) then ret ()
       else do {
         let xf = ((CCU_DCXO_FREQ div 1000) * ht) div xt;
         State_Monad.update (\<lambda>w. w\<lparr>iosc_freq := xf * 1000, losc_freq := (xf * 1000) div 512,
           already_init_osc_freq := 1\<rparr>)
       }
     } else ret ()
   }"

definition ccu_init :: "env \<Rightarrow> ('a sclk_state_scheme, int) state" where
  "ccu_init E = do {
     _ \<leftarrow> reg_update E CPUS_CFG_REG CPUS_FACTOR_M_MASK 0;
     _ \<leftarrow> reg_update E CPUS_CFG_REG CPUS_CLK_SRC_SEL_MASK (push_bit 24 3);
     _ \<leftarrow> reg_update E APBS0_CFG_REG 0x1f 1;
     _ \<leftarrow> reg_update E APBS0_CFG_REG 0x07000000 (push_bit 24 3);
     _ \<leftarrow> reg_update E APBS1_CFG_REG 0x1f 0;
     _ \<leftarrow> reg_update E APBS1_CFG_REG 0x07000000 (push_bit 24 4);
     _ \<leftarrow> State_Monad.update (\<lambda>w. w\<lparr>apbs2_notifier_head := None\<rparr>);
     ret OK
   }"

definition save_state_flag :: "u32 \<Rightarrow> ('a machine_scheme, unit) state" where
  "save_state_flag value = writel value RTC_RECORD_REG"

definition read_state_flag :: "env \<Rightarrow> ('a machine_scheme, u32) state" where
  "read_state_flag E = readl E RTC_RECORD_REG"

subsection \<open>Power gates and windows\<close>

definition ccu_set_poweroff_gating_state :: "env \<Rightarrow> int \<Rightarrow> u32 \<Rightarrow> ('a machine_scheme, int) state" where
  "ccu_set_poweroff_gating_state E module state =
     (if module \<in> {1, 2, 3, 4} then do {
        _ \<leftarrow> reg_update E (CPUS_C0_CPU_CFG_REG (word_of_int (module - 1))) 0x2 (push_bit 1 (state AND 1)); ret OK }
      else if module = 0 then do {
        _ \<leftarrow> reg_update E C0_CPUX_POWEROFF_GATING_REG 0x10 (push_bit 4 (state AND 1)); ret OK }
      else ret (- EINVAL))"

definition cpucfg_init :: "('a sclk_state_scheme, int) state" where
  "cpucfg_init = do {
     _ \<leftarrow> writel CCU_SYS_CLK24M_FREQ CNT_FREQID_REG;
     _ \<leftarrow> State_Monad.update (\<lambda>w. w\<lparr>little_endian_used := 0\<rparr>);
     ret OK
   }"

definition cpucfg_exit :: "('a sclk_state_scheme, int) state" where
  "cpucfg_exit = do { _ \<leftarrow> State_Monad.update (\<lambda>w. w\<lparr>little_endian_used := 0\<rparr>); ret OK }"

definition cpucfg_set_little_endian_address :: "env \<Rightarrow> u32 \<Rightarrow> u32 \<Rightarrow> ('a sclk_state_scheme, int) state" where
  "cpucfg_set_little_endian_address E saddr eaddr = do {
     w \<leftarrow> State_Monad.get;
     let n = little_endian_used w;
     if n \<ge> CPUCFG_LE_SPACE_NUMBER then ret (- ENOSPC)
     else do {
       value \<leftarrow> readl E CPUS_SPACE_LE_CTRL_REG;
       _ \<leftarrow> writel (value OR push_bit n 1) CPUS_SPACE_LE_CTRL_REG;
       _ \<leftarrow> writel saddr (CPUS_SPACE_START_REG n);
       _ \<leftarrow> writel eaddr (CPUS_SPACE_END_REG n);
       _ \<leftarrow> State_Monad.update (\<lambda>w. w\<lparr>little_endian_used := n + 1\<rparr>);
       ret OK
     }
   }"

text \<open>The search downwards from the last window; the second register is read only when the first matches.\<close>

fun le_find :: "env \<Rightarrow> u32 \<Rightarrow> u32 \<Rightarrow> nat \<Rightarrow> ('a machine_scheme, nat option) state" where
  "le_find E saddr eaddr 0 = ret None"
| "le_find E saddr eaddr (Suc i) = do {
     s \<leftarrow> readl E (CPUS_SPACE_START_REG i);
     if drop_bit 9 s \<noteq> drop_bit 9 saddr then le_find E saddr eaddr i
     else if eaddr = 0 then ret (Some i)
     else do {
       e \<leftarrow> readl E (CPUS_SPACE_END_REG i);
       if drop_bit 9 e = drop_bit 9 eaddr then ret (Some i) else le_find E saddr eaddr i
     }
   }"

definition cpucfg_remove_little_endian_address :: "env \<Rightarrow> u32 \<Rightarrow> u32 \<Rightarrow> ('a sclk_state_scheme, int) state" where
  "cpucfg_remove_little_endian_address E saddr eaddr = do {
     w \<leftarrow> State_Monad.get;
     if little_endian_used w = 0 then ret (- ENODEV)
     else do {
       f \<leftarrow> le_find E saddr eaddr (little_endian_used w);
       case f of None \<Rightarrow> ret (- ENODEV)
       | Some i \<Rightarrow> do {
           let lst = little_endian_used w - 1;
           value \<leftarrow> readl E CPUS_SPACE_LE_CTRL_REG;
           let value = value AND NOT (push_bit i 1 OR push_bit lst 1);
           value \<leftarrow> (if i \<noteq> lst then do {
               s \<leftarrow> readl E (CPUS_SPACE_START_REG lst);
               _ \<leftarrow> writel s (CPUS_SPACE_START_REG i);
               e \<leftarrow> readl E (CPUS_SPACE_END_REG lst);
               _ \<leftarrow> writel e (CPUS_SPACE_END_REG i);
               ret (value OR push_bit i 1)
             } else ret value);
           _ \<leftarrow> writel value CPUS_SPACE_LE_CTRL_REG;
           _ \<leftarrow> writel 0 (CPUS_SPACE_START_REG lst);
           _ \<leftarrow> writel 0 (CPUS_SPACE_END_REG lst);
           _ \<leftarrow> State_Monad.update (\<lambda>w. w\<lparr>little_endian_used := lst\<rparr>);
           ret OK
         }
     }
   }"

definition cpucfg_counter_clear :: "('a machine_scheme, int) state" where
  "cpucfg_counter_clear = do {
     _ \<leftarrow> writel 0 CNT_LOW_REG_SET;
     _ \<leftarrow> writel 0 CNT_HIGH_REG_SET;
     ret OK
   }"

definition cpucfg_counter_ctrl :: "bool \<Rightarrow> ('a machine_scheme, unit) state" where
  "cpucfg_counter_ctrl enable = writel (if enable then 1 else 0) CNT_CTRL_REG"

subsection \<open>Delays\<close>

definition is_suspend_lock :: "('a sclk_state_scheme, u32) state" where
  "is_suspend_lock = do { w \<leftarrow> State_Monad.get; ret (suspend_lock w) }"

definition time_udelay :: "env \<Rightarrow> nat \<Rightarrow> u32 \<Rightarrow> ('a sclk_state_scheme, unit) state" where
  "time_udelay E fuel us = (
     if us = 0 then ret ()
     else do {
       h \<leftarrow> is_hosc_lock;
       s \<leftarrow> is_suspend_lock;
       if h \<noteq> 0 \<or> s \<noteq> 0 then do {
         cpus_freq \<leftarrow> ccu_get_sclk_freq E CCU_SYS_CLK_CPUS;
         time_cdelay E (if cpus_freq div 1000000 \<noteq> 0 then (cpus_freq div 1000000) * us
                        else (cpus_freq * us + (1000000 - 1)) div 1000000)
       } else cnt64_udelay E fuel us
     })"

subsection \<open>The main processor\<close>

abbreviation (input) HOTPLUG_CONTROL_REG :: "u32 \<Rightarrow> u32" where "HOTPLUG_CONTROL_REG n \<equiv> 0x07050000 + 0x200 + n * 4"
abbreviation (input) HOTPLUG_POWERMODE_REG :: "u32 \<Rightarrow> u32" where "HOTPLUG_POWERMODE_REG n \<equiv> 0x07050000 + 0x220 + n * 4"
abbreviation (input) PPU_PWSR :: "u32 \<Rightarrow> u32" where "PPU_PWSR n \<equiv> 0x07060000 + n * 0x1000 + 0x0008"
abbreviation (input) SUNXI_INITARCH_REG :: u32 where "SUNXI_INITARCH_REG \<equiv> 0x08001000"
abbreviation (input) SUNXI_CPUCFG_RVBAR_LO_REG :: u32 where "SUNXI_CPUCFG_RVBAR_LO_REG \<equiv> 0x08001004"
abbreviation (input) SUNXI_CPUCFG_RVBAR_HI_REG :: u32 where "SUNXI_CPUCFG_RVBAR_HI_REG \<equiv> 0x08001008"
abbreviation (input) STATE_ON :: u32 where "STATE_ON \<equiv> 0x8"

definition mmio_clrbits_32 :: "env \<Rightarrow> u32 \<Rightarrow> u32 \<Rightarrow> ('a machine_scheme, unit) state" where
  "mmio_clrbits_32 E addr clear = do { v \<leftarrow> readl E addr; writel (v AND NOT clear) addr }"

definition mmio_setbits_32 :: "env \<Rightarrow> u32 \<Rightarrow> u32 \<Rightarrow> ('a machine_scheme, unit) state" where
  "mmio_setbits_32 E addr m = do { v \<leftarrow> readl E addr; writel (v OR m) addr }"

definition sunxi_init_archstate :: "env \<Rightarrow> u32 \<Rightarrow> u32 \<Rightarrow> u32 \<Rightarrow> ('a machine_scheme, unit) state" where
  "sunxi_init_archstate E cluster cpu arch64 =
     (if arch64 \<noteq> 0 then mmio_setbits_32 E SUNXI_INITARCH_REG 1 else mmio_clrbits_32 E SUNXI_INITARCH_REG 1)"

definition sunxi_set_bootaddr :: "u32 \<Rightarrow> u32 \<Rightarrow> u32 \<Rightarrow> ('a machine_scheme, unit) state" where
  "sunxi_set_bootaddr cluster cpu entry = do {
     _ \<leftarrow> writel entry SUNXI_CPUCFG_RVBAR_LO_REG;
     writel 0 SUNXI_CPUCFG_RVBAR_HI_REG
   }"

definition sunxi_get_cpu_powerstate :: "env \<Rightarrow> u32 \<Rightarrow> u32 \<Rightarrow> ('a machine_scheme, bool) state" where
  "sunxi_get_cpu_powerstate E cluster core = do { v \<leftarrow> readl E (PPU_PWSR (core + 1)); ret (v AND 0xf = STATE_ON) }"

definition sunxi_get_cluster_powerstate :: "env \<Rightarrow> ('a machine_scheme, bool) state" where
  "sunxi_get_cluster_powerstate E = do { v \<leftarrow> readl E (PPU_PWSR 0); ret (v AND 0xf = STATE_ON) }"

text \<open>A loop without a bound of its own around one test.\<close>

fun wait_until :: "nat \<Rightarrow> ('a timer_state_scheme, bool) state \<Rightarrow> ('a timer_state_scheme, unit) state" where
  "wait_until 0 test = hang"
| "wait_until (Suc n) test = do { d \<leftarrow> test; if d then ret () else wait_until n test }"

definition sunxi_poweron_cpu :: "env \<Rightarrow> nat \<Rightarrow> u32 \<Rightarrow> u32 \<Rightarrow> ('a timer_state_scheme, unit) state" where
  "sunxi_poweron_cpu E fuel cluster core = do {
     _ \<leftarrow> mmio_setbits_32 E (HOTPLUG_CONTROL_REG core) 1;
     _ \<leftarrow> mmio_setbits_32 E (HOTPLUG_POWERMODE_REG core) 1;
     _ \<leftarrow> wait_until fuel (sunxi_get_cpu_powerstate E cluster core);
     mmio_clrbits_32 E (HOTPLUG_CONTROL_REG core) 1
   }"

definition sunxi_poweroff_cpu :: "env \<Rightarrow> u32 \<Rightarrow> u32 \<Rightarrow> ('a machine_scheme, unit) state" where
  "sunxi_poweroff_cpu E cluster core = mmio_clrbits_32 E (HOTPLUG_POWERMODE_REG core) 1"

definition cpucfg_cpu_suspend :: "env \<Rightarrow> nat \<Rightarrow> ('a timer_state_scheme, unit) state" where
  "cpucfg_cpu_suspend E fuel = do {
     _ \<leftarrow> sunxi_poweroff_cpu E 0 0;
     wait_until fuel (do { on \<leftarrow> sunxi_get_cluster_powerstate E; ret (\<not> on) })
   }"

definition cpucfg_cpu_resume :: "env \<Rightarrow> nat \<Rightarrow> u32 \<Rightarrow> ('a timer_state_scheme, int) state" where
  "cpucfg_cpu_resume E fuel resume_addr = do {
     _ \<leftarrow> sunxi_set_bootaddr 0 0 resume_addr;
     _ \<leftarrow> sunxi_init_archstate E 0 0 1;
     _ \<leftarrow> sunxi_poweron_cpu E fuel 0 0;
     ret 0
   }"

section \<open>Proof kit\<close>

lemma emits_mmio [emits_intros]:
  assumes "\<And>v. P (Rd a v)" "\<And>v. P (Wr a v)"
  shows "emits P (mmio_clrbits_32 E a m)" "emits P (mmio_setbits_32 E a m)"
  unfolding mmio_clrbits_32_def mmio_setbits_32_def using assms by (auto intro!: emits_intros)

lemma frames_mmio [frames_intros]:
  assumes "\<And>w t. f (w\<lparr>trace := t\<rparr>) = f w"
  shows "frames f (mmio_clrbits_32 E a m)" "frames f (mmio_setbits_32 E a m)"
  unfolding mmio_clrbits_32_def mmio_setbits_32_def using assms by (auto intro!: frames_intros)

lemma emits_poll [emits_intros]: "(\<And>v. P (Rd reg v)) \<Longrightarrow> emits P (poll E reg good n)"
  by (induction n) (auto intro!: emits_intros)

lemma frames_poll [frames_intros]: "(\<And>w t. f (w\<lparr>trace := t\<rparr>) = f w) \<Longrightarrow> frames f (poll E reg good n)"
  by (induction n) (auto intro!: frames_intros)

lemma frames_save_state_flag [frames_intros]:
  "(\<And>w t. f (w\<lparr>trace := t\<rparr>) = f w) \<Longrightarrow> frames f (save_state_flag v)"
  unfolding save_state_flag_def by (intro frames_intros)

lemma emits_wait_until [emits_intros]: "emits P m \<Longrightarrow> emits P (wait_until n m)"
  by (induction n) (auto intro!: emits_intros)

lemma frames_wait_until [frames_intros]:
  "frames f m \<Longrightarrow> frames f hang \<Longrightarrow> frames f (wait_until n m)"
  by (induction n) (auto intro!: frames_intros)

text \<open>The delays keep everything but the trace and the mark of a loop that ran out of fuel.\<close>

lemma frames_hang: "(\<And>w. f (w\<lparr>hung := True\<rparr>) = f w) \<Longrightarrow> frames f hang"
  unfolding hang_def by (intro frames_intros) simp

lemma frames_counter_read:
  assumes "\<And>w t. f (w\<lparr>trace := t\<rparr>) = f w" and "\<And>w. f (w\<lparr>hung := True\<rparr>) = f w"
  shows "frames f (cpucfg_counter_read E fuel)"
  unfolding cpucfg_counter_read_def
  by (induction fuel) (auto intro!: frames_intros frames_hang assms)

lemma frames_delays:
  assumes "\<And>w t. f (w\<lparr>trace := t\<rparr>) = f w" and "\<And>w. f (w\<lparr>hung := True\<rparr>) = f w"
  shows "frames f (time_mdelay E fuel ms)" "frames f (cnt64_udelay E fuel us)"
proof -
  have "frames f (delay_wait_pending E fuel n no d)" for n no d
    by (induction n) (auto intro!: frames_intros frames_hang frames_counter_read assms)
  then show "frames f (time_mdelay E fuel ms)"
    unfolding time_mdelay_def Let_def delay_wait_clear_def locked_def
    by (intro frames_intros frames_counter_read assms)
  have "frames f (udelay_loop E fuel n d)" for n d
    by (induction n) (auto intro!: frames_intros frames_hang frames_counter_read assms)
  then show "frames f (cnt64_udelay E fuel us)"
    unfolding cnt64_udelay_def Let_def by (intro frames_intros frames_counter_read assms)
qed

end
