(* ===== verification/Pin.thy ===== *)
theory Pin
  imports Sclk
begin

text \<open>
  The pin controller of the management core (\<^verbatim>\<open>src/ar100s/driver/pin/pin.c\<close>): function, pull, drive and
  data of a pin of the groups PL and PM.
\<close>

unbundle bit_operations_syntax

abbreviation (input) PIN_GRP_PL :: u32 where "PIN_GRP_PL \<equiv> 0x1"
abbreviation (input) PIN_GRP_PM :: u32 where "PIN_GRP_PM \<equiv> 0x2"
abbreviation (input) PIN_PULL_UP :: u32 where "PIN_PULL_UP \<equiv> 0x01"
abbreviation (input) PIN_MULTI_DRIVE_0 :: u32 where "PIN_MULTI_DRIVE_0 \<equiv> 0x00"
abbreviation (input) R_PIO_REG_BASE :: u32 where "R_PIO_REG_BASE \<equiv> 0x07025000"

definition PIN_REG_CFG :: "u32 \<Rightarrow> u32 \<Rightarrow> u32" where
  "PIN_REG_CFG n i = R_PIO_REG_BASE + (n - 1) * 0x30 + drop_bit 3 i * 0x4 + 0x00"

definition PIN_REG_DLEVEL :: "u32 \<Rightarrow> u32 \<Rightarrow> u32" where
  "PIN_REG_DLEVEL n i = R_PIO_REG_BASE + (n - 1) * 0x30 + drop_bit 3 i * 0x4 + 0x14"

definition PIN_REG_PULL :: "u32 \<Rightarrow> u32 \<Rightarrow> u32" where
  "PIN_REG_PULL n i = R_PIO_REG_BASE + (n - 1) * 0x30 + drop_bit 4 i * 0x4 + 0x24"

definition PIN_REG_DATA :: "u32 \<Rightarrow> u32" where
  "PIN_REG_DATA n = R_PIO_REG_BASE + (n - 1) * 0x30 + 0x10"

definition PIN_REG_INT_STAT :: "u32 \<Rightarrow> u32" where
  "PIN_REG_INT_STAT n = R_PIO_REG_BASE + (n - 1) * 0x20 + 0x214"

definition pin_set_multi_sel :: "env \<Rightarrow> u32 \<Rightarrow> u32 \<Rightarrow> u32 \<Rightarrow> ('a machine_scheme, int) state" where
  "pin_set_multi_sel E pin_grp pin_num multi_sel = (let s = unat ((pin_num AND 0x7) * 4) in do {
     _ \<leftarrow> reg_update E (PIN_REG_CFG pin_grp pin_num) (push_bit s 0xf) (push_bit s multi_sel);
     ret OK
   })"

definition pin_set_pull :: "env \<Rightarrow> u32 \<Rightarrow> u32 \<Rightarrow> u32 \<Rightarrow> ('a machine_scheme, int) state" where
  "pin_set_pull E pin_grp pin_num pull = (let s = unat ((pin_num AND 0xf) * 2) in do {
     _ \<leftarrow> reg_update E (PIN_REG_PULL pin_grp pin_num) (push_bit s 0x3) (push_bit s pull);
     ret OK
   })"

definition pin_set_drive :: "env \<Rightarrow> u32 \<Rightarrow> u32 \<Rightarrow> u32 \<Rightarrow> ('a machine_scheme, int) state" where
  "pin_set_drive E pin_grp pin_num drive = (let s = unat ((pin_num AND 0xf) * 2) in do {
     _ \<leftarrow> reg_update E (PIN_REG_DLEVEL pin_grp pin_num) (push_bit s 0x3) (push_bit s drive);
     ret OK
   })"

definition pin_write_data :: "env \<Rightarrow> u32 \<Rightarrow> u32 \<Rightarrow> u32 \<Rightarrow> ('a machine_scheme, int) state" where
  "pin_write_data E pin_grp pin_num d = do {
     _ \<leftarrow> reg_update E (PIN_REG_DATA pin_grp) (push_bit (unat pin_num) 0x1) (push_bit (unat pin_num) (d AND 0x1));
     ret OK
   }"

definition pin_read_data :: "env \<Rightarrow> u32 \<Rightarrow> u32 \<Rightarrow> ('a machine_scheme, u32) state" where
  "pin_read_data E pin_grp pin_num = do {
     value \<leftarrow> readl E (PIN_REG_DATA pin_grp);
     ret (drop_bit (unat pin_num) value AND 0x1)
   }"

definition is_wanted_gpio_int :: "env \<Rightarrow> u32 \<Rightarrow> u32 \<Rightarrow> ('a machine_scheme, u32) state" where
  "is_wanted_gpio_int E pin_grp gpio_int_en = do {
     value \<leftarrow> readl E (PIN_REG_INT_STAT pin_grp);
     ret (value AND gpio_int_en)
   }"

lemmas pin_set_defs = pin_set_multi_sel_def pin_set_pull_def pin_set_drive_def

text \<open>
  The registers that the setup of a pin can touch, for the groups the firmware uses: below \<open>0x07025060\<close>.
\<close>

definition pin_event :: "event \<Rightarrow> bool" where
  "pin_event e = (case e of Rd a _ \<Rightarrow> 0x07025000 \<le> a \<and> a < 0x07025060 | Wr a _ \<Rightarrow> 0x07025000 \<le> a \<and> a < 0x07025060
     | _ \<Rightarrow> False)"

lemma frames_pin_set [frames_intros]:
  assumes "\<And>w t. f (w\<lparr>trace := t\<rparr>) = f w"
  shows "frames f (pin_set_multi_sel E g n v)" "frames f (pin_set_pull E g n v)" "frames f (pin_set_drive E g n v)"
  unfolding pin_set_defs Let_def using assms by (auto intro!: frames_intros)

lemma emits_pin_set [emits_intros]:
  assumes "\<And>e. pin_event e \<Longrightarrow> P e" and "g = PIN_GRP_PL" and "n < 8"
  shows "emits P (pin_set_multi_sel E g n v)" "emits P (pin_set_pull E g n v)" "emits P (pin_set_drive E g n v)"
proof -
  have n: "drop_bit 3 n = 0" "drop_bit 4 n = 0"
    using assms(3) by (simp_all add: drop_bit_eq_div word_less_nat_alt word_unat_eq_iff unat_div)
  show "emits P (pin_set_multi_sel E g n v)" "emits P (pin_set_pull E g n v)" "emits P (pin_set_drive E g n v)"
    unfolding pin_set_defs Let_def PIN_REG_CFG_def PIN_REG_PULL_def PIN_REG_DLEVEL_def n assms(2)
    by (intro emits_intros assms(1); simp add: pin_event_def)+
qed

end
