(* ===== verification/Twi.thy ===== *)
theory Twi
  imports Pin
begin

text \<open>
  The two-wire bus to the PMIC (\<^verbatim>\<open>src/ar100s/driver/twi/twi.c\<close>). Every \<open>goto stop_out\<close> of a transfer is
  the value \<open>False\<close> of the step it leaves. A wait with \<open>--timeout\<close> looks at its register
  \<open>TWI_CHECK_TIMEOUT\<close> times, one with \<open>timeout--\<close> one time more; waits without a bound have fuel. The
  buffers of a transfer are lists of bytes.
\<close>

unbundle bit_operations_syntax

section \<open>Model\<close>

abbreviation (input) TWI_CHECK_TIMEOUT :: nat where "TWI_CHECK_TIMEOUT \<equiv> 0x07ff"
abbreviation (input) TWI_CLOCK_FREQ :: u32 where "TWI_CLOCK_FREQ \<equiv> 200000"
abbreviation (input) TWI_DTR :: u32 where "TWI_DTR \<equiv> 0x07083008"
abbreviation (input) TWI_CTR :: u32 where "TWI_CTR \<equiv> 0x0708300c"
abbreviation (input) TWI_STR :: u32 where "TWI_STR \<equiv> 0x07083010"
abbreviation (input) TWI_CKR :: u32 where "TWI_CKR \<equiv> 0x07083014"
abbreviation (input) TWI_SRR :: u32 where "TWI_SRR \<equiv> 0x07083018"
abbreviation (input) TWI_EFR :: u32 where "TWI_EFR \<equiv> 0x0708301c"
abbreviation (input) TWI_LCR :: u32 where "TWI_LCR \<equiv> 0x07083020"
abbreviation (input) TWI_BUS_ENB :: u32 where "TWI_BUS_ENB \<equiv> 0x40"
abbreviation (input) TWI_MSTART :: u32 where "TWI_MSTART \<equiv> 0x20"
abbreviation (input) TWI_MSTOP :: u32 where "TWI_MSTOP \<equiv> 0x10"
abbreviation (input) TWI_INTFLAG :: u32 where "TWI_INTFLAG \<equiv> 0x8"
abbreviation (input) TWI_AACK :: u32 where "TWI_AACK \<equiv> 0x4"
abbreviation (input) SCL_CTRL :: u32 where "SCL_CTRL \<equiv> 0x8"
abbreviation (input) SCL_CTRL_EN :: u32 where "SCL_CTRL_EN \<equiv> 0x4"
abbreviation (input) CCU_CLK_CLKCHG_REQ :: u32 where "CCU_CLK_CLKCHG_REQ \<equiv> 0"
abbreviation (input) CCU_CLK_CLKCHG_DONE :: u32 where "CCU_CLK_CLKCHG_DONE \<equiv> 1"

datatype twi_rw_type = TWI_WRITE | TWI_READ

record twi_state = sclk_state +
  twi_lock :: bool

definition twi_clear_irq_flag :: "env \<Rightarrow> nat \<Rightarrow> ('a timer_state_scheme, unit) state" where
  "twi_clear_irq_flag E fuel = do {
     reg_val \<leftarrow> readl E TWI_CTR;
     _ \<leftarrow> writel (reg_val OR TWI_INTFLAG) TWI_CTR;
     _ \<leftarrow> readl E TWI_CTR;
     wait_until fuel (do { v \<leftarrow> readl E TWI_CTR; ret (v AND TWI_INTFLAG = 0) })
   }"

definition twi_enable_ack :: "env \<Rightarrow> ('a machine_scheme, unit) state" where
  "twi_enable_ack E = do {
     reg_val \<leftarrow> readl E TWI_CTR;
     _ \<leftarrow> writel ((reg_val OR TWI_AACK) AND NOT TWI_INTFLAG) TWI_CTR;
     _ \<leftarrow> readl E TWI_CTR;
     _ \<leftarrow> readl E TWI_CTR;
     ret ()
   }"

definition twi_disable_ack :: "env \<Rightarrow> ('a machine_scheme, unit) state" where
  "twi_disable_ack E = do {
     reg_val \<leftarrow> readl E TWI_CTR;
     writel (((reg_val AND 0x0ff) AND NOT TWI_AACK) AND NOT TWI_INTFLAG) TWI_CTR
   }"

definition twic_send_dummy_clock :: "env \<Rightarrow> ('a machine_scheme, unit) state" where
  "twic_send_dummy_clock E = do {
     _ \<leftarrow> for_index [0..<10] (\<lambda>_. writel 0xa TWI_LCR);
     _ \<leftarrow> writel 0xa TWI_LCR;
     v \<leftarrow> readl E TWI_LCR;
     _ \<leftarrow> (if v \<noteq> 0x3a then do { _ \<leftarrow> readl E TWI_LCR; ret () } else ret ());
     writel 1 TWI_SRR
   }"

definition twic_reset :: "env \<Rightarrow> nat \<Rightarrow> ('a timer_state_scheme, unit) state" where
  "twic_reset E fuel = do {
     _ \<leftarrow> writel 1 TWI_SRR;
     wait_until fuel (do { v \<leftarrow> readl E TWI_SRR; ret (v = 0) })
   }"

definition twi_start :: "env \<Rightarrow> ('a machine_scheme, unit) state" where
  "twi_start E = do {
     value \<leftarrow> readl E TWI_CTR;
     writel ((value OR TWI_MSTART) AND NOT TWI_INTFLAG) TWI_CTR
   }"

definition twi_stop :: "env \<Rightarrow> nat \<Rightarrow> ('a timer_state_scheme, int) state" where
  "twi_stop E fuel = do {
     value \<leftarrow> readl E TWI_CTR;
     _ \<leftarrow> writel ((value OR TWI_MSTOP) AND NOT TWI_INTFLAG) TWI_CTR;
     _ \<leftarrow> twi_clear_irq_flag E fuel;
     _ \<leftarrow> poll E TWI_CTR (\<lambda>v. v AND TWI_MSTOP = 0) TWI_CHECK_TIMEOUT;
     idle \<leftarrow> poll E TWI_STR (\<lambda>v. v = 0xf8) TWI_CHECK_TIMEOUT;
     if \<not> idle then do {
       _ \<leftarrow> readl E TWI_STR;
       _ \<leftarrow> twic_reset E fuel;
       ret (- EFAIL)
     } else do {
       high \<leftarrow> poll E TWI_LCR (\<lambda>v. v = 0x3a) TWI_CHECK_TIMEOUT;
       if \<not> high then do { _ \<leftarrow> readl E TWI_LCR; ret (- EFAIL) } else ret OK
     }
   }"

subsection \<open>The clock divider\<close>

text \<open>
  The two counters of the search are bytes; \<open>clk_m\<close> keeps its value when the outer loop goes on, and
  \<open>pow_clk_n\<close> wraps to 0 in its eighth round.
\<close>

function (sequential) sclk_inner :: "u32 \<Rightarrow> u32 \<Rightarrow> u8 \<Rightarrow> u8 \<Rightarrow> u8 \<times> bool" where
  "sclk_inner src_clk clk pow_clk_n clk_m =
     (if clk_m < 16 then
        if src_clk div ucast (clk_m + 1) div ucast pow_clk_n div 10 \<le> clk then (clk_m, True)
        else sclk_inner src_clk clk pow_clk_n (clk_m + 1)
      else (clk_m, False))"
  by pat_completeness auto

termination
  by (relation "measure (\<lambda>(_, _, _, m). 16 - unat m)")
    (auto simp: word_less_nat_alt unat_word_ariths)

declare sclk_inner.simps [simp del]

fun sclk_outer :: "u32 \<Rightarrow> u32 \<Rightarrow> nat \<Rightarrow> u8 \<Rightarrow> u8 \<Rightarrow> u8 \<Rightarrow> u8 \<times> u8" where
  "sclk_outer src_clk clk 0 clk_n pow_clk_n clk_m = (clk_m, clk_n)"
| "sclk_outer src_clk clk (Suc n) clk_n pow_clk_n clk_m =
     (case sclk_inner src_clk clk (pow_clk_n * 2) clk_m of
        (m, True) \<Rightarrow> (m, clk_n + 1)
      | (m, False) \<Rightarrow> sclk_outer src_clk clk n (clk_n + 1) (pow_clk_n * 2) m)"

definition twic_set_sclk :: "env \<Rightarrow> u32 \<Rightarrow> ('a sclk_state_scheme, unit) state" where
  "twic_set_sclk E clk = do {
     src_clk \<leftarrow> ccu_get_sclk_freq E CCU_SYS_CLK_APBS2;
     let (clk_m, clk_n) = sclk_outer src_clk clk 8 0 1 0;
     writel (push_bit 3 (ucast clk_m) OR ucast clk_n) TWI_CKR
   }"

definition twi_clkchangecb :: "env \<Rightarrow> u32 \<Rightarrow> u32 \<Rightarrow> ('a twi_state_scheme, int) state" where
  "twi_clkchangecb E command freq =
     (if command = CCU_CLK_CLKCHG_REQ then do {
        _ \<leftarrow> State_Monad.update (\<lambda>w. w\<lparr>twi_lock := True\<rparr>); ret OK }
      else if command = CCU_CLK_CLKCHG_DONE then do {
        _ \<leftarrow> twic_set_sclk E TWI_CLOCK_FREQ;
        _ \<leftarrow> State_Monad.update (\<lambda>w. w\<lparr>twi_lock := False\<rparr>);
        ret OK }
      else ret (- EFAIL))"

subsection \<open>Start-up\<close>

text \<open>Pins, clock, divider and reset, the part that start-up and standby share.\<close>

definition twi_hw_init :: "env \<Rightarrow> nat \<Rightarrow> ('a twi_state_scheme, unit) state" where
  "twi_hw_init E fuel = do {
     _ \<leftarrow> pin_set_multi_sel E PIN_GRP_PL 0 2;
     _ \<leftarrow> pin_set_pull E PIN_GRP_PL 0 PIN_PULL_UP;
     _ \<leftarrow> pin_set_drive E PIN_GRP_PL 0 PIN_MULTI_DRIVE_0;
     _ \<leftarrow> pin_set_multi_sel E PIN_GRP_PL 1 2;
     _ \<leftarrow> pin_set_pull E PIN_GRP_PL 1 PIN_PULL_UP;
     _ \<leftarrow> pin_set_drive E PIN_GRP_PL 1 PIN_MULTI_DRIVE_0;
     _ \<leftarrow> ccu_set_mclk_onoff E CCU_MOD_CLK_R_TWI CCU_CLK_ON;
     _ \<leftarrow> ccu_set_mclk_reset E CCU_MOD_CLK_R_TWI CCU_CLK_NRESET;
     _ \<leftarrow> twic_set_sclk E TWI_CLOCK_FREQ;
     _ \<leftarrow> writel (TWI_BUS_ENB OR TWI_AACK) TWI_CTR;
     _ \<leftarrow> twic_reset E fuel;
     v \<leftarrow> readl E TWI_LCR;
     if v \<noteq> 0x3a then twic_send_dummy_clock E else ret ()
   }"

definition twi_init :: "env \<Rightarrow> nat \<Rightarrow> ('a twi_state_scheme, int) state" where
  "twi_init E fuel = do {
     _ \<leftarrow> twi_hw_init E fuel;
     _ \<leftarrow> State_Monad.update (\<lambda>w. w\<lparr>twi_lock := False\<rparr>);
     v \<leftarrow> readl E TWI_LCR;
     if v = 0x3a then ret OK
     else do { _ \<leftarrow> State_Monad.update (\<lambda>w. w\<lparr>twi_lock := True\<rparr>); ret (- EFAIL) }
   }"

definition twi_standby_init :: "env \<Rightarrow> nat \<Rightarrow> ('a twi_state_scheme, int) state" where
  "twi_standby_init E fuel = do {
     _ \<leftarrow> twi_hw_init E fuel;
     _ \<leftarrow> readl E TWI_LCR;
     ret OK
   }"

definition twi_standby_exit :: "('a machine_scheme, int) state" where
  "twi_standby_exit = ret OK"

subsection \<open>Transfers\<close>

text \<open>Wait for the interrupt flag and check the status code of the controller.\<close>

definition twi_expect :: "env \<Rightarrow> nat \<Rightarrow> u32 \<Rightarrow> ('a machine_scheme, bool) state" where
  "twi_expect E n code = do {
     flagged \<leftarrow> poll E TWI_CTR (\<lambda>v. v AND TWI_INTFLAG \<noteq> 0) n;
     if \<not> flagged then ret False
     else do { state \<leftarrow> readl E TWI_STR; ret (state = code) }
   }"

definition twi_send :: "env \<Rightarrow> nat \<Rightarrow> nat \<Rightarrow> u32 \<Rightarrow> u32 \<Rightarrow> ('a timer_state_scheme, bool) state" where
  "twi_send E fuel n v code = do {
     _ \<leftarrow> writel v TWI_DTR;
     _ \<leftarrow> twi_clear_irq_flag E fuel;
     twi_expect E n code
   }"

fun twi_write_loop :: "env \<Rightarrow> nat \<Rightarrow> u8 list \<Rightarrow> ('a timer_state_scheme, bool) state" where
  "twi_write_loop E fuel [] = ret True"
| "twi_write_loop E fuel (d # ds) = do {
     b \<leftarrow> twi_send E fuel (TWI_CHECK_TIMEOUT + 1) (ucast d) 0x28;
     if \<not> b then ret False else twi_write_loop E fuel ds
   }"

text \<open>The bytes received are returned whether or not the last status was right.\<close>

fun twi_read_loop :: "env \<Rightarrow> nat \<Rightarrow> nat \<Rightarrow> ('a timer_state_scheme, bool \<times> u8 list) state" where
  "twi_read_loop E fuel 0 = ret (True, [])"
| "twi_read_loop E fuel (Suc len) = do {
     _ \<leftarrow> (if len = 0 then twi_disable_ack E else ret ());
     _ \<leftarrow> twi_clear_irq_flag E fuel;
     flagged \<leftarrow> poll E TWI_CTR (\<lambda>v. v AND TWI_INTFLAG \<noteq> 0) (TWI_CHECK_TIMEOUT + 1);
     if \<not> flagged then ret (False, [])
     else do {
       d \<leftarrow> readl E TWI_DTR;
       state \<leftarrow> readl E TWI_STR;
       if state \<noteq> (if len > 0 then 0x50 else 0x58) then ret (False, [ucast d])
       else do {
         (b, ds) \<leftarrow> twi_read_loop E fuel len;
         ret (b, ucast d # ds)
       }
     }
   }"

definition twi_select :: "env \<Rightarrow> nat \<Rightarrow> u8 \<Rightarrow> u8 \<Rightarrow> ('a timer_state_scheme, bool) state" where
  "twi_select E fuel saddr baddr = do {
     state \<leftarrow> readl E TWI_STR;
     if state AND 0x0ff \<noteq> 0xf8 then ret False
     else do {
       _ \<leftarrow> twi_start E;
       b \<leftarrow> twi_expect E TWI_CHECK_TIMEOUT 0x08;
       if \<not> b then ret False
       else do {
         b \<leftarrow> twi_send E fuel TWI_CHECK_TIMEOUT (push_bit 1 (ucast saddr) AND 0x0fe) 0x18;
         if \<not> b then ret False
         else twi_send E fuel TWI_CHECK_TIMEOUT (ucast baddr) 0x28
       }
     }
   }"

definition twi_receive :: "env \<Rightarrow> nat \<Rightarrow> u8 \<Rightarrow> nat \<Rightarrow> ('a timer_state_scheme, bool \<times> u8 list) state" where
  "twi_receive E fuel saddr len = do {
     _ \<leftarrow> twi_start E;
     _ \<leftarrow> twi_clear_irq_flag E fuel;
     b \<leftarrow> twi_expect E TWI_CHECK_TIMEOUT 0x10;
     if \<not> b then ret (False, [])
     else do {
       b \<leftarrow> twi_send E fuel TWI_CHECK_TIMEOUT (push_bit 1 (ucast saddr) OR 1) 0x40;
       if \<not> b then ret (False, []) else twi_read_loop E fuel len
     }
   }"

text \<open>
  \<open>data\<close> is the buffer of the caller: the bytes to send, or the ones that the received bytes replace
  from the front.
\<close>

definition twi_byte_rw ::
  "env \<Rightarrow> nat \<Rightarrow> twi_rw_type \<Rightarrow> u8 \<Rightarrow> u8 \<Rightarrow> u8 list \<Rightarrow> nat \<Rightarrow> ('a twi_state_scheme, int \<times> u8 list) state" where
  "twi_byte_rw E fuel op saddr baddr data len = do {
     w \<leftarrow> State_Monad.get;
     if twi_lock w then ret (- EACCES, data)
     else if len > 4 then ret (- EINVAL, data)
     else do {
       _ \<leftarrow> twi_enable_ack E;
       cpsr \<leftarrow> cpu_disable_int E;
       _ \<leftarrow> writel 0 TWI_EFR;
       b \<leftarrow> twi_select E fuel saddr baddr;
       (b, got) \<leftarrow> (if \<not> b then ret (False, [])
         else case op of
           TWI_WRITE \<Rightarrow> do { b \<leftarrow> twi_write_loop E fuel (take len data); ret (b, []) }
         | TWI_READ \<Rightarrow> twi_receive E fuel saddr len);
       _ \<leftarrow> twi_stop E fuel;
       _ \<leftarrow> cpu_enable_int E cpsr;
       ret (if b then 0 else - 1, got @ drop (length got) data)
     }
   }"

fun twi_read :: "env \<Rightarrow> nat \<Rightarrow> u8 \<Rightarrow> u8 list \<Rightarrow> u8 list \<Rightarrow> ('a twi_state_scheme, int \<times> u8 list) state" where
  "twi_read E fuel devaddr (a # addr) (d # data) = do {
     (r, ds) \<leftarrow> twi_byte_rw E fuel TWI_READ devaddr a [d] 1;
     (r', data) \<leftarrow> twi_read E fuel devaddr addr data;
     ret (r OR r', ds @ data)
   }"
| "twi_read E fuel devaddr addr data = ret (0, data)"

fun twi_write :: "env \<Rightarrow> nat \<Rightarrow> u8 \<Rightarrow> u8 list \<Rightarrow> u8 list \<Rightarrow> ('a twi_state_scheme, int) state" where
  "twi_write E fuel devaddr (a # addr) (d # data) = do {
     (r, _) \<leftarrow> twi_byte_rw E fuel TWI_WRITE devaddr a [d] 1;
     r' \<leftarrow> twi_write E fuel devaddr addr data;
     ret (r OR r')
   }"
| "twi_write E fuel devaddr addr data = ret 0"

definition is_twi_lock :: "('a twi_state_scheme, bool) state" where
  "is_twi_lock = do { w \<leftarrow> State_Monad.get; ret (twi_lock w) }"

fun pulse_loop :: "env \<Rightarrow> nat \<Rightarrow> nat \<Rightarrow> ('a sclk_state_scheme, unit) state" where
  "pulse_loop E fuel 0 = ret ()"
| "pulse_loop E fuel (Suc n) = do {
     v \<leftarrow> readl E TWI_LCR;
     if drop_bit 4 v AND 0x1 \<noteq> 0 then ret ()
     else do {
       v \<leftarrow> readl E TWI_LCR;
       _ \<leftarrow> writel (v AND NOT SCL_CTRL) TWI_LCR;
       _ \<leftarrow> time_udelay E fuel 1000;
       v \<leftarrow> readl E TWI_LCR;
       _ \<leftarrow> writel (v OR SCL_CTRL) TWI_LCR;
       _ \<leftarrow> time_udelay E fuel 1000;
       pulse_loop E fuel n
     }
   }"

text \<open>The status is an unsigned char, so -1 is returned as 255.\<close>

definition twi_send_clk_9pulse :: "env \<Rightarrow> nat \<Rightarrow> ('a sclk_state_scheme, int) state" where
  "twi_send_clk_9pulse E fuel = do {
     state \<leftarrow> readl E TWI_LCR;
     _ \<leftarrow> writel (state OR SCL_CTRL_EN) TWI_LCR;
     _ \<leftarrow> pulse_loop E fuel 9;
     v \<leftarrow> readl E TWI_LCR;
     let status = (if drop_bit 4 v AND 0x1 = 0 then 255 else 0);
     v \<leftarrow> readl E TWI_LCR;
     _ \<leftarrow> writel (v AND NOT SCL_CTRL_EN) TWI_LCR;
     ret status
   }"

definition twi_get_status :: "env \<Rightarrow> ('a machine_scheme, int) state" where
  "twi_get_status E = do {
     reg_val \<leftarrow> readl E TWI_STR;
     if reg_val AND 0xFF \<noteq> 0xF8 then ret (- 1)
     else do {
       reg_val \<leftarrow> readl E TWI_LCR;
       if reg_val AND 0x30 \<noteq> 0x30 then ret (- 1) else ret 0
     }
   }"

end
