(* ===== verification/Twi_Correct.thy ===== *)
theory Twi_Correct
  imports Twi
begin

text \<open>
  What the two-wire driver does to the registers of the chips on the bus. \<open>twi_bus\<close> follows a history
  as the bus sees it: start and stop conditions, address, register number and data byte, and the
  acknowledge that the driver reads as status \<open>0x28\<close>. It gives the phase of the transfer and the
  register file of every chip. Against it a transfer is one read or one write of a register, or it
  fails and changes nothing: the interface \<open>register_bus\<close> of the PMIC drivers.
\<close>

unbundle bit_operations_syntax

section \<open>The bus\<close>

datatype bus_phase =
    Idle
  | Addressed u8
  | Selected u8 u8
  | Sent u8 u8 u8
  | Restarted u8 u8
  | Reading u8 u8
  | Done

type_synonym regfile = "u8 \<Rightarrow> u8 \<Rightarrow> u8"

fun bus_byte :: "u8 \<Rightarrow> bus_phase \<Rightarrow> bus_phase" where
  "bus_byte v Idle = Addressed v"
| "bus_byte v (Addressed s) = Selected s v"
| "bus_byte v (Selected s r) = Sent s r v"
| "bus_byte v (Restarted s r) = (if v = s OR 1 then Reading s r else Done)"
| "bus_byte v p = Done"

fun bus_start :: "bus_phase \<Rightarrow> bus_phase" where
  "bus_start (Selected s r) = Restarted s r"
| "bus_start (Restarted s r) = Restarted s r"
| "bus_start p = Idle"

fun bus_step :: "event \<Rightarrow> bus_phase \<times> regfile \<Rightarrow> bus_phase \<times> regfile" where
  "bus_step (Wr a v) (p, G) =
     (if a = TWI_DTR then (bus_byte (ucast v) p, G)
      else if a = TWI_CTR then
        if v AND TWI_MSTOP \<noteq> 0 then (Idle, G)
        else if v AND TWI_MSTART \<noteq> 0 then (bus_start p, G) else (p, G)
      else (p, G))"
| "bus_step (Rd a v) (p, G) = (case p of Sent s r d \<Rightarrow>
       if a = TWI_STR \<and> v = 0x28 then (Done, G(s := (G s)(r := d))) else (p, G)
     | _ \<Rightarrow> (p, G))"
| "bus_step _ (p, G) = (p, G)"

text \<open>The registers before the history are \<open>R\<close>.\<close>

definition twi_bus :: "regfile \<Rightarrow> history \<Rightarrow> bus_phase \<times> regfile" where
  "twi_bus R t = foldr bus_step t (Idle, R)"

lemma twi_bus_Cons [simp]: "twi_bus R (e # t) = bus_step e (twi_bus R t)"
  by (simp add: twi_bus_def)

lemma twi_bus_append: "twi_bus R (es @ t) = foldr bus_step es (twi_bus R t)"
  by (simp add: twi_bus_def)

text \<open>
  The documented behaviour of controller and chips: the start and stop bits read as 0 once their
  condition was sent, and a chip that is read shows the register.
\<close>

fun on_wire :: "bus_phase \<Rightarrow> u32" where
  "on_wire Idle = 0"
| "on_wire (Restarted s r) = TWI_MSTOP"
| "on_wire p = TWI_MSTART OR TWI_MSTOP"

definition two_wire :: "env \<Rightarrow> regfile \<Rightarrow> bool" where
  "two_wire E R \<longleftrightarrow> (\<forall>t. dev_read E t TWI_CTR AND on_wire (fst (twi_bus R t)) = 0) \<and>
     (\<forall>t s r. fst (twi_bus R t) = Reading s r \<longrightarrow> ucast (dev_read E t TWI_DTR) = snd (twi_bus R t) s r)"

lemma stays:
  assumes "emits (\<lambda>e. bus_step e s = s) m" and "twi_bus R (trace w) = s"
  shows "wp m (\<lambda>_ w'. twi_bus R (trace w') = s) w"
proof -
  obtain es where es: "trace (snd (run_state m w)) = es @ trace w" "\<forall>e\<in>set es. bus_step e s = s"
    using assms(1) by (rule emitsE)
  have "foldr bus_step es s = s"
    using es(2) by (induction es) auto
  with es(1) assms(2) show ?thesis
    by (simp add: wp_def twi_bus_append)
qed

text \<open>Between transfers only a data byte can change the bus.\<close>

fun no_byte :: "event \<Rightarrow> bool" where
  "no_byte (Wr a v) = (a \<noteq> TWI_DTR)"
| "no_byte _ = True"

lemma no_byte_idle: "no_byte e \<Longrightarrow> bus_step e (Idle, G) = (Idle, G)"
  by (cases e) auto

lemma idle_stays:
  assumes "emits no_byte m" and "twi_bus R (trace w) = (Idle, G)"
  shows "wp m (\<lambda>_ w'. twi_bus R (trace w') = (Idle, G)) w"
  by (rule stays [OF emits_mono [OF assms(1) no_byte_idle] assms(2)])

section \<open>Steps of a transfer\<close>

lemma bus_step_Rd: "a \<noteq> TWI_STR \<Longrightarrow> bus_step (Rd a v) s = s"
  by (cases s) (auto split: bus_phase.splits)

lemma wait_flag_emits: "emits (\<lambda>e. bus_step e s = s) (wait_until fuel (do { v \<leftarrow> readl E TWI_CTR; ret (g v) }))"
  by (induction fuel) (auto intro!: emits_intros simp: bus_step_Rd)

lemma and_or_zero: "(x :: u32) AND (a OR b) = 0 \<longleftrightarrow> x AND a = 0 \<and> x AND b = 0"
  by (simp add: bit.conj_disj_distrib or_eq_0_iff)

lemma start_stop_zero: "(x :: u32) AND 48 = 0 \<longleftrightarrow> x AND TWI_MSTART = 0 \<and> x AND TWI_MSTOP = 0"
  using and_or_zero [of x TWI_MSTART TWI_MSTOP] by simp

lemma quiet_ctr: "v AND on_wire p = 0 \<Longrightarrow> bus_step (Wr TWI_CTR v) (p, G) = (p, G)"
  by (cases p) (auto simp: start_stop_zero)

lemma bus_Rd_ctr: "bus_step (Rd TWI_CTR v) s = s"
  by (rule bus_step_Rd) simp

lemma on_wire_bits: "TWI_INTFLAG AND on_wire p = 0" "TWI_AACK AND on_wire p = 0"
  by (cases p; simp)+

lemma and_zero_mask: "(y :: u32) AND q = 0 \<Longrightarrow> (y AND m) AND q = 0"
proof -
  have "(y AND m) AND q = (y AND q) AND m"
    by (simp only: ac_simps)
  then show "y AND q = 0 \<Longrightarrow> (y AND m) AND q = 0"
    by simp
qed

lemma on_wire_mask:
  assumes "x AND on_wire p = 0"
  shows "(x OR TWI_INTFLAG) AND on_wire p = 0" "((x OR TWI_AACK) AND NOT TWI_INTFLAG) AND on_wire p = 0"
    "(((x AND 0xff) AND NOT TWI_AACK) AND NOT TWI_INTFLAG) AND on_wire p = 0"
proof -
  show "(x OR TWI_INTFLAG) AND on_wire p = 0"
    using assms by (simp add: bit.conj_disj_distrib2 on_wire_bits)
  have "(x OR TWI_AACK) AND on_wire p = 0"
    using assms by (simp add: bit.conj_disj_distrib2 on_wire_bits)
  then show "((x OR TWI_AACK) AND NOT TWI_INTFLAG) AND on_wire p = 0"
    by (rule and_zero_mask)
  show "(((x AND 0xff) AND NOT TWI_AACK) AND NOT TWI_INTFLAG) AND on_wire p = 0"
    by (intro and_zero_mask assms)
qed

lemma two_wire_ctr: "two_wire E R \<Longrightarrow> twi_bus R t = (p, G) \<Longrightarrow> dev_read E t TWI_CTR AND on_wire p = 0"
  unfolding two_wire_def by (metis fst_conv)

lemma two_wire_dtr:
  "two_wire E R \<Longrightarrow> twi_bus R t = (Reading s r, G) \<Longrightarrow> ucast (dev_read E t TWI_DTR) = G s r"
  unfolding two_wire_def by (metis fst_conv snd_conv)

lemma clear_irq_wp:
  assumes "two_wire E R" and "twi_bus R (trace w) = s"
  shows "wp (twi_clear_irq_flag E fuel) (\<lambda>_ w'. twi_bus R (trace w') = s) w"
proof (cases s)
  case (Pair p G)
  let ?x = "dev_read E (trace w) TWI_CTR"
  have "bus_step (Wr TWI_CTR (?x OR TWI_INTFLAG)) s = s"
    using two_wire_ctr [OF assms(1) assms(2) [unfolded Pair]] Pair by (simp only: on_wire_mask quiet_ctr)
  then show ?thesis
    unfolding twi_clear_irq_flag_def wp_simps
    by (intro stays [OF wait_flag_emits]) (simp only: trace_updated twi_bus_Cons bus_Rd_ctr assms(2))
qed

lemma enable_ack_wp:
  "twi_bus R (trace w) = (Idle, G) \<Longrightarrow> wp (twi_enable_ack E) (\<lambda>_ w'. twi_bus R (trace w') = (Idle, G)) w"
  by (rule idle_stays) (auto simp: twi_enable_ack_def intro!: emits_intros)

lemma disable_ack_wp:
  assumes "two_wire E R" and "twi_bus R (trace w) = s"
  shows "wp (twi_disable_ack E) (\<lambda>_ w'. twi_bus R (trace w') = s) w"
proof (cases s)
  case (Pair p G)
  let ?x = "dev_read E (trace w) TWI_CTR"
  have "bus_step (Wr TWI_CTR (((?x AND 0xff) AND NOT TWI_AACK) AND NOT TWI_INTFLAG)) s = s"
    using two_wire_ctr [OF assms(1) assms(2) [unfolded Pair]] Pair by (simp only: on_wire_mask quiet_ctr)
  then show ?thesis
    unfolding twi_disable_ack_def wp_simps by (simp only: trace_updated twi_bus_Cons bus_Rd_ctr assms(2))
qed

text \<open>A start condition: the status it waits for only matters for a byte that was sent.\<close>

lemma start_bits:
  "((x OR TWI_MSTART) AND NOT TWI_INTFLAG) AND TWI_MSTART \<noteq> 0"
  "((x OR TWI_MSTOP) AND NOT TWI_INTFLAG) AND TWI_MSTOP \<noteq> 0"
  "x AND TWI_MSTOP = 0 \<Longrightarrow> ((x OR TWI_MSTART) AND NOT TWI_INTFLAG) AND TWI_MSTOP = 0"
proof -
  show "((x OR TWI_MSTART) AND NOT TWI_INTFLAG) AND TWI_MSTART \<noteq> 0"
    by (rule notI, drule arg_cong [where f = "\<lambda>v. bit v 5"]) (simp add: bit_simps)
  show "((x OR TWI_MSTOP) AND NOT TWI_INTFLAG) AND TWI_MSTOP \<noteq> 0"
    by (rule notI, drule arg_cong [where f = "\<lambda>v. bit v 4"]) (simp add: bit_simps)
  assume "x AND TWI_MSTOP = 0"
  then have "(x OR TWI_MSTART) AND TWI_MSTOP = 0"
    by (simp add: bit.conj_disj_distrib2)
  then show "((x OR TWI_MSTART) AND NOT TWI_INTFLAG) AND TWI_MSTOP = 0"
    by (rule and_zero_mask)
qed

text \<open>The steps of a transfer on the bus.\<close>

lemma bus_ctr_start:
  "v AND TWI_MSTOP = 0 \<Longrightarrow> v AND TWI_MSTART \<noteq> 0 \<Longrightarrow> bus_step (Wr TWI_CTR v) (p, G) = (bus_start p, G)"
  by simp

lemma twi_start_wp:
  assumes "two_wire E R" and "twi_bus R (trace w) = (p, G)" and "p = Idle \<or> (\<exists>s r. p = Selected s r)"
  shows "wp (twi_start E) (\<lambda>_ w'. twi_bus R (trace w') = (bus_start p, G)) w"
proof -
  let ?v = "(dev_read E (trace w) TWI_CTR OR TWI_MSTART) AND NOT TWI_INTFLAG"
  have "bus_step (Wr TWI_CTR ?v) (p, G) = (bus_start p, G)"
    using assms(3)
  proof
    assume "p = Idle"
    then show ?thesis by (simp add: no_byte_idle)
  next
    assume "\<exists>s r. p = Selected s r"
    with two_wire_ctr [OF assms(1,2)] have "dev_read E (trace w) TWI_CTR AND TWI_MSTOP = 0"
      by (auto simp: start_stop_zero)
    then show ?thesis
      by (intro bus_ctr_start start_bits)
  qed
  then show ?thesis
    unfolding twi_start_def wp_simps by (simp only: trace_updated twi_bus_Cons bus_Rd_ctr assms(2))
qed

text \<open>The bus after a look at the status register.\<close>

definition acked :: "bus_phase \<times> regfile \<Rightarrow> bus_phase \<times> regfile" where
  "acked s = bus_step (Rd TWI_STR 0x28) s"

lemma acked_simps [simp]:
  "acked (Idle, G) = (Idle, G)" "acked (Addressed s, G) = (Addressed s, G)"
  "acked (Selected s r, G) = (Selected s r, G)" "acked (Restarted s r, G) = (Restarted s r, G)"
  "acked (Reading s r, G) = (Reading s r, G)" "acked (Sent s r d, G) = (Done, G(s := (G s)(r := d)))"
  by (simp_all add: acked_def)

lemma status_step: "bus_step (Rd TWI_STR v) s = (if v = 0x28 then acked s else s)"
  by (cases s) (auto simp: acked_def split: bus_phase.splits)

lemma twi_expect_wp:
  assumes "twi_bus R (trace w) = s" and "code \<noteq> 0x28 \<Longrightarrow> acked s = s"
  shows "wp (twi_expect E n code) (\<lambda>b w'. twi_bus R (trace w') = (if b then acked s else s)) w"
proof -
  have p: "wp (poll E TWI_CTR (\<lambda>v. v AND TWI_INTFLAG \<noteq> 0) n) (\<lambda>_ w'. twi_bus R (trace w') = s) w"
    by (rule stays [OF _ assms(1)]) (intro emits_intros bus_Rd_ctr)
  show ?thesis
    unfolding twi_expect_def wp_bind
    by (rule wp_mono [OF p]) (auto simp: wp_simps status_step assms(2))
qed

lemma twi_send_wp:
  assumes "two_wire E R" and "twi_bus R (trace w) = (p, G)"
    and "code \<noteq> 0x28 \<Longrightarrow> acked (bus_byte (ucast v) p, G) = (bus_byte (ucast v) p, G)"
  shows "wp (twi_send E fuel n v code)
     (\<lambda>b w'. twi_bus R (trace w') = (if b then acked (bus_byte (ucast v) p, G) else (bus_byte (ucast v) p, G))) w"
proof -
  have "twi_bus R (trace (w\<lparr>trace := Wr TWI_DTR v # trace w\<rparr>)) = (bus_byte (ucast v) p, G)"
    by (simp add: assms(2))
  from clear_irq_wp [OF assms(1) this] show ?thesis
    unfolding twi_send_def wp_bind wp_writel
    by (rule wp_mono) (rule twi_expect_wp [OF _ assms(3)], assumption)
qed

text \<open>The address byte of a chip.\<close>

definition chip :: "u8 \<Rightarrow> u8" where
  "chip saddr = push_bit 1 saddr"

lemma byte_shift: "(ucast (push_bit 1 (ucast (saddr :: u8) :: u32)) :: u8) = push_bit 1 saddr"
  by (rule bit_word_eqI) (auto simp only: bit_ucast_iff bit_push_bit_iff possible_bit_word, simp_all)

lemma ucast_ops: "(ucast (x AND y :: u32) :: u8) = ucast x AND ucast y" "(ucast (x OR y :: u32) :: u8) = ucast x OR ucast y"
  by (rule bit_word_eqI, simp add: bit_simps; blast)+

lemma ucast_numeral8: "(ucast (0xfe :: u32) :: u8) = 0xfe"
  by simp

lemma chip_write: "ucast (push_bit 1 (ucast saddr :: u32) AND 0xfe) = chip saddr"
proof -
  have "push_bit 1 saddr AND NOT 1 = push_bit 1 saddr"
    by (rule bit_word_eqI) (auto simp only: bit_and_iff bit_not_iff bit_push_bit_iff bit_1_iff)
  moreover have "(0xfe :: u8) = NOT 1"
    by simp
  ultimately show ?thesis
    by (simp only: ucast_ops byte_shift chip_def ucast_numeral8)
qed

lemma chip_read: "ucast (push_bit 1 (ucast saddr :: u32) OR 1) = chip saddr OR 1"
  by (simp only: ucast_ops byte_shift chip_def) simp

lemma twi_select_wp:
  assumes "two_wire E R" and "twi_bus R (trace w) = (Idle, G)"
  shows "wp (twi_select E fuel saddr baddr) (\<lambda>b w'. snd (twi_bus R (trace w')) = G \<and>
     (b \<longrightarrow> twi_bus R (trace w') = (Selected (chip saddr) baddr, G))) w"
proof -
  let ?ok = "\<lambda>b w'. snd (twi_bus R (trace w')) = G \<and> (b \<longrightarrow> twi_bus R (trace w') = (Selected (chip saddr) baddr, G))"
  have reg: "wp (twi_send E fuel TWI_CHECK_TIMEOUT (ucast baddr) 0x28) ?ok u"
    if "twi_bus R (trace u) = (Addressed (chip saddr), G)" for u
    by (rule wp_mono [OF twi_send_wp [OF assms(1) that]]) auto
  have adr: "wp (twi_send E fuel TWI_CHECK_TIMEOUT (push_bit 1 (ucast saddr) AND 0x0fe) 0x18)
      (\<lambda>b w'. twi_bus R (trace w') = (Addressed (chip saddr), G)) u"
    if "twi_bus R (trace u) = (Idle, G)" for u
    by (rule wp_mono [OF twi_send_wp [OF assms(1) that]]) (simp_all only: chip_write bus_byte.simps acked_simps if_cancel)
  have exp: "wp (twi_expect E TWI_CHECK_TIMEOUT 0x08) (\<lambda>b w'. twi_bus R (trace w') = (Idle, G)) u"
    if "twi_bus R (trace u) = (Idle, G)" for u
    by (rule wp_mono [OF twi_expect_wp [OF that]]) simp_all
  have snd2: "wp (do { b \<leftarrow> twi_send E fuel TWI_CHECK_TIMEOUT (push_bit 1 (ucast saddr) AND 0x0fe) 0x18;
      if \<not> b then ret False else twi_send E fuel TWI_CHECK_TIMEOUT (ucast baddr) 0x28 }) ?ok u"
    if "twi_bus R (trace u) = (Idle, G)" for u
    by (rule wp_bindI, rule wp_mono [OF adr [OF that]], rule wp_ifI) (simp_all add: wp_return reg)
  have all: "wp (do { _ \<leftarrow> twi_start E; b \<leftarrow> twi_expect E TWI_CHECK_TIMEOUT 0x08;
      if \<not> b then ret False else do {
        b \<leftarrow> twi_send E fuel TWI_CHECK_TIMEOUT (push_bit 1 (ucast saddr) AND 0x0fe) 0x18;
        if \<not> b then ret False else twi_send E fuel TWI_CHECK_TIMEOUT (ucast baddr) 0x28 } }) ?ok u"
    if "twi_bus R (trace u) = (Idle, G)" for u
    by (rule wp_bindI, rule wp_mono [OF twi_start_wp [OF assms(1) that]], simp, rule wp_bindI, rule wp_mono [OF exp],
        simp, rule wp_ifI, rule wp_returnI, simp, rule snd2, assumption)
  show ?thesis
    unfolding twi_select_def
    by (rule wp_bindI, subst wp_readl, rule wp_ifI, rule wp_returnI) (simp_all only: trace_updated twi_bus_Cons
        status_step acked_simps if_cancel assms(2) all snd_conv simp_thms)
qed

lemma twi_write_one:
  assumes "two_wire E R" and "twi_bus R (trace w) = (Selected s r, G)"
  shows "wp (twi_write_loop E fuel [d]) (\<lambda>b w'. snd (twi_bus R (trace w')) = (if b then G(s := (G s)(r := d)) else G)) w"
proof -
  have "wp (twi_send E fuel (TWI_CHECK_TIMEOUT + 1) (ucast d) 0x28) (\<lambda>b w'. twi_bus R (trace w') =
      (if b then (Done, G(s := (G s)(r := d))) else (Sent s r d, G))) w"
    by (rule wp_mono [OF twi_send_wp [OF assms]]) simp_all
  then show ?thesis
    unfolding twi_write_loop.simps by (intro wp_bindI) (erule wp_mono, simp add: wp_simps)
qed

lemma twi_read_one:
  assumes "two_wire E R" and "twi_bus R (trace w) = (Reading s r, G)"
  shows "wp (twi_read_loop E fuel 1) (\<lambda>p w'. snd (twi_bus R (trace w')) = G \<and> length (snd p) \<le> 1 \<and>
     (fst p \<longrightarrow> snd p = [G s r])) w"
proof -
  let ?st = "(Reading s r, G)"
  let ?Q = "\<lambda>p w'. snd (twi_bus R (trace w')) = G \<and> length (snd p) \<le> 1 \<and> (fst p \<longrightarrow> snd p = [G s r])"
  have polled: "wp (poll E TWI_CTR (\<lambda>v. v AND TWI_INTFLAG \<noteq> 0) n) (\<lambda>_ w'. twi_bus R (trace w') = ?st) u"
    if "twi_bus R (trace u) = ?st" for u n
    by (rule stays [OF _ that]) (intro emits_intros bus_Rd_ctr)
  have got: "wp (do { d \<leftarrow> readl E TWI_DTR; state \<leftarrow> readl E TWI_STR;
      if state \<noteq> 0x58 then ret (False, [ucast d])
      else do { (b, ds) \<leftarrow> twi_read_loop E fuel 0; ret (b, ucast d # ds) } }) ?Q u"
    if "twi_bus R (trace u) = ?st" for u
    using that two_wire_dtr [OF assms(1) that]
    by (simp add: wp_simps)
  have rest: "wp (do { _ \<leftarrow> twi_clear_irq_flag E fuel;
      flagged \<leftarrow> poll E TWI_CTR (\<lambda>v. v AND TWI_INTFLAG \<noteq> 0) (TWI_CHECK_TIMEOUT + 1);
      if \<not> flagged then ret (False, [])
      else do { d \<leftarrow> readl E TWI_DTR; state \<leftarrow> readl E TWI_STR;
        if state \<noteq> 0x58 then ret (False, [ucast d])
        else do { (b, ds) \<leftarrow> twi_read_loop E fuel 0; ret (b, ucast d # ds) } } }) ?Q u"
    if "twi_bus R (trace u) = ?st" for u
    by (rule wp_bindI, rule wp_mono [OF clear_irq_wp [OF assms(1) that]], rule wp_bindI, rule wp_mono [OF polled],
        assumption, rule wp_ifI, rule wp_returnI, simp, rule got, assumption)
  have "wp (do { _ \<leftarrow> twi_disable_ack E; _ \<leftarrow> twi_clear_irq_flag E fuel;
      flagged \<leftarrow> poll E TWI_CTR (\<lambda>v. v AND TWI_INTFLAG \<noteq> 0) (TWI_CHECK_TIMEOUT + 1);
      if \<not> flagged then ret (False, [])
      else do { d \<leftarrow> readl E TWI_DTR; state \<leftarrow> readl E TWI_STR;
        if state \<noteq> 0x58 then ret (False, [ucast d])
        else do { (b, ds) \<leftarrow> twi_read_loop E fuel 0; ret (b, ucast d # ds) } } }) ?Q w"
    by (rule wp_bindI, rule wp_mono [OF disable_ack_wp [OF assms]], rule rest)
  then show ?thesis
    by (simp only: One_nat_def twi_read_loop.simps(2) less_irrefl simp_thms if_True if_False)
qed

lemma twi_receive_wp:
  assumes "two_wire E R" and "twi_bus R (trace w) = (Selected (chip saddr) r, G)"
  shows "wp (twi_receive E fuel saddr 1) (\<lambda>p w'. snd (twi_bus R (trace w')) = G \<and> length (snd p) \<le> 1 \<and>
     (fst p \<longrightarrow> snd p = [G (chip saddr) r])) w"
proof -
  let ?Q = "\<lambda>p w'. snd (twi_bus R (trace w')) = G \<and> length (snd p) \<le> 1 \<and> (fst p \<longrightarrow> snd p = [G (chip saddr) r])"
  let ?st = "(Restarted (chip saddr) r, G)"
  have adr: "wp (twi_send E fuel TWI_CHECK_TIMEOUT (push_bit 1 (ucast saddr) OR 1) 0x40)
      (\<lambda>b w'. twi_bus R (trace w') = (Reading (chip saddr) r, G)) u"
    if "twi_bus R (trace u) = ?st" for u
    by (rule wp_mono [OF twi_send_wp [OF assms(1) that]])
      (simp_all only: chip_read bus_byte.simps acked_simps if_cancel if_True simp_thms)
  have exp: "wp (twi_expect E TWI_CHECK_TIMEOUT 0x10) (\<lambda>b w'. twi_bus R (trace w') = ?st) u"
    if "twi_bus R (trace u) = ?st" for u
    by (rule wp_mono [OF twi_expect_wp [OF that]]) simp_all
  have tail: "wp (do { b \<leftarrow> twi_send E fuel TWI_CHECK_TIMEOUT (push_bit 1 (ucast saddr) OR 1) 0x40;
      if \<not> b then ret (False, []) else twi_read_loop E fuel 1 }) ?Q u"
    if "twi_bus R (trace u) = ?st" for u
    by (rule wp_bindI, rule wp_mono [OF adr [OF that]], rule wp_ifI, rule wp_returnI, simp,
        rule twi_read_one [OF assms(1)], assumption)
  have start: "wp (twi_start E) (\<lambda>_ w'. twi_bus R (trace w') = ?st) w"
    by (rule wp_mono [OF twi_start_wp [OF assms]]) simp_all
  show ?thesis
    unfolding twi_receive_def
    by (rule wp_bindI, rule wp_mono [OF start], rule wp_bindI, rule wp_mono [OF clear_irq_wp [OF assms(1)]], assumption,
        rule wp_bindI, rule wp_mono [OF exp], assumption, rule wp_ifI, rule wp_returnI, simp, rule tail)
qed

lemma twi_stop_wp:
  assumes "snd (twi_bus R (trace w)) = G"
  shows "wp (twi_stop E fuel) (\<lambda>_ w'. twi_bus R (trace w') = (Idle, G)) w"
proof -
  have stop: "bus_step (Wr TWI_CTR v) s = (Idle, snd s)" if "v AND TWI_MSTOP \<noteq> 0" for v s
    using that by (cases s) simp
  have rest: "wp (do { _ \<leftarrow> twi_clear_irq_flag E fuel;
     _ \<leftarrow> poll E TWI_CTR (\<lambda>v. v AND TWI_MSTOP = 0) TWI_CHECK_TIMEOUT;
     idle \<leftarrow> poll E TWI_STR (\<lambda>v. v = 0xf8) TWI_CHECK_TIMEOUT;
     if \<not> idle then do { _ \<leftarrow> readl E TWI_STR; _ \<leftarrow> twic_reset E fuel; ret (- EFAIL) }
     else do {
       high \<leftarrow> poll E TWI_LCR (\<lambda>v. v = 0x3a) TWI_CHECK_TIMEOUT;
       if \<not> high then do { _ \<leftarrow> readl E TWI_LCR; ret (- EFAIL) } else ret OK } })
     (\<lambda>_ w'. twi_bus R (trace w') = (Idle, G)) u" if "twi_bus R (trace u) = (Idle, G)" for u
    by (rule idle_stays [OF _ that])
      (auto simp: twi_clear_irq_flag_def twic_reset_def intro!: emits_intros)
  show ?thesis
    unfolding twi_stop_def
    by (rule wp_bindI, subst wp_readl, rule wp_bindI, subst wp_writel, rule rest)
      (simp only: trace_updated twi_bus_Cons bus_Rd_ctr stop [OF start_bits(2)] assms)
qed

section \<open>One transfer\<close>

text \<open>What a transfer of one byte does to the registers \<open>G\<close> of the chips.\<close>

fun transferred :: "twi_rw_type \<Rightarrow> u8 \<Rightarrow> u8 \<Rightarrow> u8 \<Rightarrow> regfile \<Rightarrow> bool \<Rightarrow> u8 list \<Rightarrow> regfile \<Rightarrow> bool" where
  "transferred TWI_WRITE s r d G b got G' = (got = [] \<and> G' = (if b then G(s := (G s)(r := d)) else G))"
| "transferred TWI_READ s r d G b got G' = (G' = G \<and> length got \<le> 1 \<and> (b \<longrightarrow> got = [G s r]))"

lemma transfer_wp:
  assumes "two_wire E R" and "twi_bus R (trace w) = (Idle, G)"
  shows "wp (do { b \<leftarrow> twi_select E fuel saddr baddr;
       if \<not> b then ret (False, [])
       else case op of
         TWI_WRITE \<Rightarrow> do { b \<leftarrow> twi_write_loop E fuel [d]; ret (b, []) }
       | TWI_READ \<Rightarrow> twi_receive E fuel saddr 1 })
     (\<lambda>p w'. transferred op (chip saddr) baddr d G (fst p) (snd p) (snd (twi_bus R (trace w')))) w"
proof -
  let ?Q = "\<lambda>p w'. transferred op (chip saddr) baddr d G (fst p) (snd p) (snd (twi_bus R (trace w')))"
  have body: "wp (case op of TWI_WRITE \<Rightarrow> do { b \<leftarrow> twi_write_loop E fuel [d]; ret (b, []) }
       | TWI_READ \<Rightarrow> twi_receive E fuel saddr 1) ?Q u"
    if "twi_bus R (trace u) = (Selected (chip saddr) baddr, G)" for u
  proof (cases op)
    case TWI_WRITE
    have "wp (do { b \<leftarrow> twi_write_loop E fuel [d]; ret (b, []) }) ?Q u"
      by (rule wp_bindI, rule wp_mono [OF twi_write_one [OF assms(1) that]], rule wp_returnI) (simp add: TWI_WRITE)
    then show ?thesis by (simp only: TWI_WRITE twi_rw_type.case)
  next
    case TWI_READ
    have "wp (twi_receive E fuel saddr 1) ?Q u"
      by (rule wp_mono [OF twi_receive_wp [OF assms(1) that]]) (simp add: TWI_READ)
    then show ?thesis by (simp only: TWI_READ twi_rw_type.case)
  qed
  have none: "?Q (False, []) u" if "snd (twi_bus R (trace u)) = G" for u
    using that by (cases op) simp_all
  show ?thesis
    by (rule wp_bindI, rule wp_mono [OF twi_select_wp [OF assms]], rule wp_ifI, rule wp_returnI, rule none, simp,
        rule body, simp)
qed

lemma emits_irq_no_byte: "emits no_byte (cpu_disable_int E)" "emits no_byte (cpu_enable_int E c)"
  by (intro emits_intros; auto)+

lemma twi_byte_rw_wp:
  assumes "two_wire E R" and "twi_bus R (trace w) = (Idle, G)" and "length data = 1"
  shows "wp (twi_byte_rw E fuel op saddr baddr data 1) (\<lambda>p w'. \<exists>b got G'. twi_bus R (trace w') = (Idle, G') \<and>
     (fst p = 0 \<longleftrightarrow> b) \<and> snd p = got @ drop (length got) data \<and>
     transferred op (chip saddr) baddr (hd data) G b got G') w"
proof -
  let ?Q = "\<lambda>p w'. \<exists>b got G'. twi_bus R (trace w') = (Idle, G') \<and>
     (fst p = (0::int) \<longleftrightarrow> b) \<and> snd p = got @ drop (length got) data \<and>
     transferred op (chip saddr) baddr (hd data) G b got G'"
  have take: "take 1 data = [hd data]"
    using assms(3) by (cases data) auto
  have close: "wp (do { _ \<leftarrow> twi_stop E fuel; _ \<leftarrow> cpu_enable_int E cpsr;
       ret (if fst p then 0 else - 1, snd p @ drop (length (snd p)) data) }) ?Q u"
    if "transferred op (chip saddr) baddr (hd data) G (fst p) (snd p) (snd (twi_bus R (trace u)))" for u cpsr p
    by (rule wp_bindI, rule wp_mono [OF twi_stop_wp [where R = R, OF refl]], rule wp_bindI,
        rule wp_mono [OF idle_stays [OF emits_irq_no_byte(2)]], assumption, rule wp_returnI)
      (use that in auto)
  have main: "wp (do { b \<leftarrow> twi_select E fuel saddr baddr;
       (b, got) \<leftarrow> (if \<not> b then ret (False, []) else case op of
           TWI_WRITE \<Rightarrow> do { b \<leftarrow> twi_write_loop E fuel (take 1 data); ret (b, []) }
         | TWI_READ \<Rightarrow> twi_receive E fuel saddr 1);
       _ \<leftarrow> twi_stop E fuel; _ \<leftarrow> cpu_enable_int E cpsr;
       ret (if b then 0 else - 1, got @ drop (length got) data) }) ?Q u"
    if "twi_bus R (trace u) = (Idle, G)" for u cpsr
    using wp_mono [OF transfer_wp [OF assms(1) that] close] unfolding take
    by (simp only: wp_bind_fun split_beta)
  have prep: "wp (do { _ \<leftarrow> twi_enable_ack E; cpsr \<leftarrow> cpu_disable_int E; _ \<leftarrow> writel 0 TWI_EFR; f cpsr }) ?Q w"
    if "\<And>u cpsr. twi_bus R (trace u) = (Idle, G) \<Longrightarrow> wp (f cpsr) ?Q u" for f
    by (rule wp_bindI, rule wp_mono [OF enable_ack_wp [OF assms(2)]], rule wp_bindI,
        rule wp_mono [OF idle_stays [OF emits_irq_no_byte(1)]], assumption, rule wp_bindI, subst wp_writel, rule that)
      simp
  have skip: "?Q (- EACCES, data) w"
    by (rule exI [of _ False], rule exI [of _ "[]"], rule exI [of _ G]) (cases op; simp add: assms(2))
  show ?thesis
    unfolding twi_byte_rw_def wp_bind [of State_Monad.get] wp_get
    by (rule wp_ifI, rule wp_returnI, rule skip, rule wp_ifI, simp, rule prep, rule main)
qed

lemma twi_write_wp:
  assumes "two_wire E R" and "twi_bus R (trace w) = (Idle, G)"
  shows "wp (twi_write E fuel c [r] [d]) (\<lambda>x w'. twi_bus R (trace w') =
     (Idle, if x = 0 then G(chip c := (G (chip c))(r := d)) else G)) w"
proof -
  have "wp (twi_byte_rw E fuel TWI_WRITE c r [d] 1) (\<lambda>p w'. twi_bus R (trace w') =
     (Idle, if fst p = 0 then G(chip c := (G (chip c))(r := d)) else G)) w"
    by (rule wp_mono [OF twi_byte_rw_wp [OF assms]]) auto
  then show ?thesis
    unfolding twi_write.simps by (intro wp_bindI) (erule wp_mono, simp add: wp_simps)
qed

lemma twi_read_wp:
  assumes "two_wire E R" and "twi_bus R (trace w) = (Idle, G)"
  shows "wp (twi_read E fuel c [r] [d]) (\<lambda>p w'. twi_bus R (trace w') = (Idle, G) \<and> length (snd p) = 1 \<and>
     (fst p = 0 \<longrightarrow> snd p = [G (chip c) r])) w"
proof -
  have "wp (twi_byte_rw E fuel TWI_READ c r [d] 1) (\<lambda>p w'. twi_bus R (trace w') = (Idle, G) \<and> length (snd p) = 1 \<and>
     (fst p = 0 \<longrightarrow> snd p = [G (chip c) r])) w"
    by (rule wp_mono [OF twi_byte_rw_wp [OF assms]]) auto
  then show ?thesis
    unfolding twi_read.simps by (intro wp_bindI) (erule wp_mono, simp add: wp_simps)
qed

section \<open>The interface of the PMIC drivers\<close>

text \<open>Read a register, change it, write it back; the first error is returned.\<close>

definition reg_rmw ::
  "(u8 \<Rightarrow> u8 \<Rightarrow> u8 \<Rightarrow> ('w, int \<times> u8) state) \<Rightarrow> (u8 \<Rightarrow> u8 \<Rightarrow> u8 \<Rightarrow> ('w, int) state) \<Rightarrow> u8 \<Rightarrow> u8 \<Rightarrow> (u8 \<Rightarrow> u8) \<Rightarrow> ('w, int) state" where
  "reg_rmw rd wr c r f = do {
     (x, v) \<leftarrow> rd c r 0;
     if x \<noteq> OK then ret x
     else do {
       x \<leftarrow> wr c r (f v);
       if x \<noteq> OK then ret x else ret OK
     }
   }"

locale register_bus =
  fixes ready :: "'w \<Rightarrow> bool"
    and regs :: "'w \<Rightarrow> regfile"
    and rd :: "u8 \<Rightarrow> u8 \<Rightarrow> u8 \<Rightarrow> ('w, int \<times> u8) state"
    and wr :: "u8 \<Rightarrow> u8 \<Rightarrow> u8 \<Rightarrow> ('w, int) state"
  assumes rd_law: "ready w \<Longrightarrow> wp (rd c r d) (\<lambda>p w'. ready w' \<and> regs w' = regs w \<and>
      (fst p = 0 \<longrightarrow> snd p = regs w (chip c) r)) w"
    and wr_law: "ready w \<Longrightarrow> wp (wr c r d) (\<lambda>x w'. ready w' \<and>
      regs w' = (if x = 0 then (regs w)(chip c := (regs w (chip c))(r := d)) else regs w)) w"
begin

lemma rmw_wp:
  assumes "ready w"
  shows "wp (reg_rmw rd wr c r f) (\<lambda>x w'. ready w' \<and>
     regs w' = (if x = 0 then (regs w)(chip c := (regs w (chip c))(r := f (regs w (chip c) r))) else regs w)) w"
proof -
  let ?Q = "\<lambda>x w'. ready w' \<and>
     regs w' = (if x = (0::int) then (regs w)(chip c := (regs w (chip c))(r := f (regs w (chip c) r))) else regs w)"
  have wr: "wp (do { x \<leftarrow> wr c r (f v); if x \<noteq> OK then ret x else ret OK }) ?Q u"
    if "ready u" "regs u = regs w" "v = regs w (chip c) r" for u v
    by (rule wp_bindI, rule wp_mono [OF wr_law [OF that(1)]]) (simp add: wp_simps that(2,3))
  have "wp (rd c r 0) (\<lambda>p. wp (if fst p \<noteq> OK then ret (fst p)
      else do { x \<leftarrow> wr c r (f (snd p)); if x \<noteq> OK then ret x else ret OK }) ?Q) w"
    by (rule wp_mono [OF rd_law [OF assms]], rule wp_ifI, rule wp_returnI, simp, rule wr) simp_all
  then show ?thesis
    unfolding reg_rmw_def by (simp only: wp_bind_fun split_beta)
qed

end

text \<open>The driver functions that the PMIC code calls provide it.\<close>

definition pmu_reg_write :: "env \<Rightarrow> nat \<Rightarrow> u8 \<Rightarrow> u8 \<Rightarrow> u8 \<Rightarrow> ('a twi_state_scheme, int) state" where
  "pmu_reg_write E fuel devaddr regaddr data = twi_write E fuel devaddr [regaddr] [data]"

definition pmu_reg_read :: "env \<Rightarrow> nat \<Rightarrow> u8 \<Rightarrow> u8 \<Rightarrow> u8 \<Rightarrow> ('a twi_state_scheme, int \<times> u8) state" where
  "pmu_reg_read E fuel devaddr regaddr data = do {
     (r, ds) \<leftarrow> twi_read E fuel devaddr [regaddr] [data];
     ret (r, hd ds)
   }"

definition bus_ready :: "env \<Rightarrow> regfile \<Rightarrow> 'a twi_state_scheme \<Rightarrow> bool" where
  "bus_ready E R w \<longleftrightarrow> two_wire E R \<and> fst (twi_bus R (trace w)) = Idle"

definition chip_regs :: "regfile \<Rightarrow> 'a twi_state_scheme \<Rightarrow> regfile" where
  "chip_regs R w = snd (twi_bus R (trace w))"

lemma bus_readyD: "bus_ready E R w \<Longrightarrow> twi_bus R (trace w) = (Idle, chip_regs R w)"
  unfolding bus_ready_def chip_regs_def by (metis prod.collapse)

interpretation twi: register_bus "bus_ready E R" "chip_regs R" "pmu_reg_read E fuel" "pmu_reg_write E fuel"
  for E R fuel
proof
  fix w :: "'a twi_state_scheme" and c r d
  assume ready: "bus_ready E R w"
  then have "two_wire E R" by (simp add: bus_ready_def)
  from twi_read_wp [OF this bus_readyD [OF ready]]
  have "wp (twi_read E fuel c [r] [d]) (\<lambda>p w'. bus_ready E R w' \<and> chip_regs R w' = chip_regs R w \<and>
      (fst p = 0 \<longrightarrow> hd (snd p) = chip_regs R w (chip c) r)) w"
    by (rule wp_mono) (use \<open>two_wire E R\<close> in \<open>auto simp: bus_ready_def chip_regs_def\<close>)
  then show "wp (pmu_reg_read E fuel c r d) (\<lambda>p w'. bus_ready E R w' \<and> chip_regs R w' = chip_regs R w \<and>
      (fst p = 0 \<longrightarrow> snd p = chip_regs R w (chip c) r)) w"
    unfolding pmu_reg_read_def by (intro wp_bindI) (erule wp_mono, simp add: wp_simps split_beta)
  from twi_write_wp [OF \<open>two_wire E R\<close> bus_readyD [OF ready]]
  show "wp (pmu_reg_write E fuel c r d) (\<lambda>x w'. bus_ready E R w' \<and> chip_regs R w' =
      (if x = 0 then (chip_regs R w)(chip c := (chip_regs R w (chip c))(r := d)) else chip_regs R w)) w"
    unfolding pmu_reg_write_def
    by (rule wp_mono) (use \<open>two_wire E R\<close> in \<open>auto simp: bus_ready_def chip_regs_def\<close>)
qed

section \<open>A bus with answering chips\<close>

text \<open>
  Chips that acknowledge everything and a controller that needs two looks at its control register
  before it reports the end of a step.
\<close>

fun ctr_looks :: "history \<Rightarrow> nat" where
  "ctr_looks [] = 2"
| "ctr_looks (Rd a v # t) = (if a = TWI_CTR then Suc (ctr_looks t) else ctr_looks t)"
| "ctr_looks (Wr a v # t) = (if a = TWI_CTR then 0 else ctr_looks t)"
| "ctr_looks (_ # t) = ctr_looks t"

fun just_read :: "history \<Rightarrow> bool" where
  "just_read (Rd a v # t) = (a = TWI_DTR)"
| "just_read _ = False"

definition status_code :: "history \<Rightarrow> bus_phase \<Rightarrow> u32" where
  "status_code t p = (case p of Idle \<Rightarrow> (case last_write t TWI_CTR of Some v \<Rightarrow> if v AND TWI_MSTART \<noteq> 0 then 0x08 else 0xf8 | None \<Rightarrow> 0xf8)
     | Addressed _ \<Rightarrow> 0x18 | Restarted _ _ \<Rightarrow> 0x10 | Reading _ _ \<Rightarrow> if just_read t then 0x58 else 0x40 | _ \<Rightarrow> 0x28)"

definition answering :: "regfile \<Rightarrow> env" where
  "answering R = \<lparr>dev_read = (\<lambda>t a.
       if a = TWI_CTR then if 2 \<le> ctr_looks t then 0x48 else 0x40
       else if a = TWI_STR then status_code t (fst (twi_bus R t))
       else if a = TWI_DTR then (case fst (twi_bus R t) of Reading s r \<Rightarrow> ucast (snd (twi_bus R t) s r) | _ \<Rightarrow> 0)
       else if a = TWI_LCR then 0x3a else 0),
     ext_call = (\<lambda>_ _ _. (0, 0))\<rparr>"

lemma answering_two_wire: "two_wire (answering R) R"
proof -
  have "(0x48 :: u32) AND on_wire p = 0" "(0x40 :: u32) AND on_wire p = 0" for p
    by (cases p; simp)+
  then show ?thesis by (auto simp: two_wire_def answering_def)
qed

end
