(* ===== verification/Pmu.thy ===== *)
theory Pmu
  imports Twi_Correct
begin

text \<open>
  The power management chips behind the two-wire bus: the AXP8191 with the supply rails
  (\<^verbatim>\<open>src/ar100s/driver/pmu/pmu_axp8191.c\<close>), the AXP515 battery chip (\<^verbatim>\<open>bmu_axp515.c\<close>), and the common
  layers \<^verbatim>\<open>pmu.c\<close> and \<^verbatim>\<open>bmu.c\<close>. Both operation tables are static, so a call through them is a call of
  its entry. A local that is read before it is written is asked of the environment (\<open>Uninit\<close>); the
  final \<^verbatim>\<open>while (1)\<close> of a shutdown is \<open>hang\<close>.
\<close>

unbundle bit_operations_syntax

section \<open>Model\<close>

abbreviation (input) POWER_VOL_OFF :: u32 where "POWER_VOL_OFF \<equiv> 0x0"
abbreviation (input) POWER_VOL_ON :: u32 where "POWER_VOL_ON \<equiv> 0x1"
abbreviation (input) RSB_RTSADDR_AXP8191 :: u8 where "RSB_RTSADDR_AXP8191 \<equiv> 0x36"
abbreviation (input) RSB_RTSADDR_AXP515 :: u8 where "RSB_RTSADDR_AXP515 \<equiv> 0x34"
abbreviation (input) AXP8191_BUFFER0 :: u8 where "AXP8191_BUFFER0 \<equiv> 0x04"
abbreviation (input) AXP8191_POWER_DISABLE_POWER_DOWN_SEQUENCE :: u8 where "AXP8191_POWER_DISABLE_POWER_DOWN_SEQUENCE \<equiv> 0x55"
abbreviation (input) AXP8191_POWER_MAX :: u32 where "AXP8191_POWER_MAX \<equiv> 40"
abbreviation (input) SUNXI_CHARGING_FLAG_AXP8191 :: u8 where "SUNXI_CHARGING_FLAG_AXP8191 \<equiv> 0x08"
abbreviation (input) SUNXI_REBOOT_FLAG_AXP8191 :: u8 where "SUNXI_REBOOT_FLAG_AXP8191 \<equiv> 0x01"
abbreviation (input) REC_SHUTDOWN :: u32 where "REC_SHUTDOWN \<equiv> 0xa000"
abbreviation (input) NMI_INT_EN_REG :: u32 where "NMI_INT_EN_REG \<equiv> 0x07010324"
abbreviation (input) GIC_R_EXTERNAL_NMI_IRQ :: u32 where "GIC_R_EXTERNAL_NMI_IRQ \<equiv> 220"

record pmu_state = twi_state +
  pmu_exist :: bool
  bmu_exist :: bool

text \<open>Register and bit of every rail, by its type; the last two entries have none.\<close>

definition axp8191_onoff_reg_bitmap :: "(u8 \<times> nat) list" where
  "axp8191_onoff_reg_bitmap =
     map (Pair 0x10) [0..<8] @ [(0x11, 0), (0x11, 3), (0x11, 4)] @
     map (Pair 0x20) [0..<8] @ map (Pair 0x21) [0..<8] @ map (Pair 0x22) [0..<8] @ map (Pair 0x23) [0..<4] @
     [(0x00, 0), (0x00, 0)]"

subsection \<open>The battery chip\<close>

definition bmu_axp515_clear_irq :: "env \<Rightarrow> nat \<Rightarrow> ('a twi_state_scheme, unit) state" where
  "bmu_axp515_clear_irq E fuel = do {
     _ \<leftarrow> save_state_flag (REC_SHUTDOWN OR 0x400);
     _ \<leftarrow> for_index [0x40..<0x46] (\<lambda>r. do { _ \<leftarrow> pmu_reg_write E fuel RSB_RTSADDR_AXP515 (of_nat r) 0x00; ret () });
     _ \<leftarrow> for_index [0x48..<0x4e] (\<lambda>r. do { _ \<leftarrow> pmu_reg_write E fuel RSB_RTSADDR_AXP515 (of_nat r) 0xFF; ret () });
     _ \<leftarrow> pmu_reg_write E fuel RSB_RTSADDR_AXP515 0x42 0xc0;
     _ \<leftarrow> pmu_reg_write E fuel RSB_RTSADDR_AXP515 0x43 0xf0;
     ret ()
   }"

definition bmu_axp515_reset :: "env \<Rightarrow> nat \<Rightarrow> ('a twi_state_scheme, unit) state" where
  "bmu_axp515_reset E fuel = do {
     _ \<leftarrow> save_state_flag (REC_SHUTDOWN OR 0x401);
     bmu_axp515_clear_irq E fuel
   }"

definition bmu_axp515_shutdown :: "env \<Rightarrow> nat \<Rightarrow> ('a twi_state_scheme, unit) state" where
  "bmu_axp515_shutdown E fuel = do {
     _ \<leftarrow> save_state_flag (REC_SHUTDOWN OR 0x402);
     _ \<leftarrow> bmu_axp515_clear_irq E fuel;
     _ \<leftarrow> pmu_reg_write E fuel RSB_RTSADDR_AXP515 0x31 0x2;
     _ \<leftarrow> time_mdelay E fuel 100;
     _ \<leftarrow> pmu_reg_write E fuel RSB_RTSADDR_AXP515 0x31 0x9;
     (_, data) \<leftarrow> pmu_reg_read E fuel RSB_RTSADDR_AXP515 0x16 0x9;
     let data = (data AND NOT 0x30) OR 0x10;
     _ \<leftarrow> pmu_reg_write E fuel RSB_RTSADDR_AXP515 0x16 data;
     (_, data) \<leftarrow> pmu_reg_read E fuel RSB_RTSADDR_AXP515 0x10 data;
     _ \<leftarrow> pmu_reg_write E fuel RSB_RTSADDR_AXP515 0x10 (data OR 0x80);
     ret ()
   }"

definition bmu_axp515_charging_vbus_det :: "env \<Rightarrow> nat \<Rightarrow> ('a twi_state_scheme, int) state" where
  "bmu_axp515_charging_vbus_det E fuel = do {
     (_, junk) \<leftarrow> call_out E Uninit [];
     _ \<leftarrow> save_state_flag (REC_SHUTDOWN OR 0x501);
     (_, val) \<leftarrow> pmu_reg_read E fuel RSB_RTSADDR_AXP515 0x00 (ucast junk);
     if val AND 0x02 = 0x02 then ret OK else ret FAIL
   }"

definition bmu_axp515_is_exist :: "env \<Rightarrow> nat \<Rightarrow> ('a twi_state_scheme, int) state" where
  "bmu_axp515_is_exist E fuel = do {
     (_, val) \<leftarrow> pmu_reg_read E fuel RSB_RTSADDR_AXP515 0x03 0;
     let val = val AND 0xCF;
     if val = 0x46 \<or> val = 0x49 then ret OK else ret FAIL
   }"

definition is_bmu_exist :: "('a pmu_state_scheme, bool) state" where
  "is_bmu_exist = do { w \<leftarrow> State_Monad.get; ret (bmu_exist w) }"

definition bmu_shutdown :: "env \<Rightarrow> nat \<Rightarrow> ('a pmu_state_scheme, unit) state" where
  "bmu_shutdown E fuel = do { b \<leftarrow> is_bmu_exist; if \<not> b then ret () else bmu_axp515_shutdown E fuel }"

definition bmu_reset :: "env \<Rightarrow> nat \<Rightarrow> ('a pmu_state_scheme, unit) state" where
  "bmu_reset E fuel = do { b \<leftarrow> is_bmu_exist; if \<not> b then ret () else bmu_axp515_reset E fuel }"

definition bmu_charging_vbus_det :: "env \<Rightarrow> nat \<Rightarrow> ('a pmu_state_scheme, int) state" where
  "bmu_charging_vbus_det E fuel = do { b \<leftarrow> is_bmu_exist; if \<not> b then ret (- 1) else bmu_axp515_charging_vbus_det E fuel }"

text \<open>The operation table of the AXP515 has no entry for this one.\<close>

definition bmu_charging_reset :: "('a pmu_state_scheme, int) state" where
  "bmu_charging_reset = ret (- 1)"

definition bmu_init :: "env \<Rightarrow> nat \<Rightarrow> ('a pmu_state_scheme, int) state" where
  "bmu_init E fuel = do {
     r \<leftarrow> bmu_axp515_is_exist E fuel;
     _ \<leftarrow> State_Monad.update (\<lambda>w. w\<lparr>bmu_exist := \<not> r < 0\<rparr>);
     ret OK
   }"

subsection \<open>The AXP8191\<close>

definition axp8191_vbus_check :: "env \<Rightarrow> nat \<Rightarrow> ('a pmu_state_scheme, bool) state" where
  "axp8191_vbus_check E fuel = do {
     b \<leftarrow> is_bmu_exist;
     if b then do { r \<leftarrow> bmu_charging_vbus_det E fuel; ret (r = OK) } else ret False
   }"

definition axp8191_pmu_softset :: "env \<Rightarrow> nat \<Rightarrow> u8 \<Rightarrow> ('a pmu_state_scheme, int) state" where
  "axp8191_pmu_softset E fuel val = do {
     _ \<leftarrow> save_state_flag (REC_SHUTDOWN OR 0x300 OR ucast val);
     r \<leftarrow> reg_rmw (pmu_reg_read E fuel) (pmu_reg_write E fuel) RSB_RTSADDR_AXP8191
       AXP8191_POWER_DISABLE_POWER_DOWN_SEQUENCE (\<lambda>data. data OR push_bit (unat (7 - val)) 1);
     if r \<noteq> OK then ret r
     else do { _ \<leftarrow> hang; ret OK }
   }"

definition axp8191_pmu_shutdown :: "env \<Rightarrow> nat \<Rightarrow> ('a pmu_state_scheme, int) state" where
  "axp8191_pmu_shutdown E fuel = do {
     _ \<leftarrow> save_state_flag (REC_SHUTDOWN OR 0x201);
     _ \<leftarrow> bmu_shutdown E fuel;
     axp8191_pmu_softset E fuel 0
   }"

definition axp8191_pmu_reset :: "env \<Rightarrow> nat \<Rightarrow> ('a pmu_state_scheme, int) state" where
  "axp8191_pmu_reset E fuel = do {
     _ \<leftarrow> save_state_flag (REC_SHUTDOWN OR 0x202);
     _ \<leftarrow> bmu_reset E fuel;
     r \<leftarrow> pmu_reg_write E fuel RSB_RTSADDR_AXP8191 AXP8191_BUFFER0 SUNXI_REBOOT_FLAG_AXP8191;
     if r \<noteq> OK then ret r else axp8191_pmu_softset E fuel 1
   }"

definition axp8191_pmu_charging_reset :: "env \<Rightarrow> nat \<Rightarrow> ('a pmu_state_scheme, int) state" where
  "axp8191_pmu_charging_reset E fuel = do {
     _ \<leftarrow> save_state_flag (REC_SHUTDOWN OR 0x203);
     val \<leftarrow> axp8191_vbus_check E fuel;
     if val then do {
       r \<leftarrow> pmu_reg_write E fuel RSB_RTSADDR_AXP8191 AXP8191_BUFFER0 SUNXI_CHARGING_FLAG_AXP8191;
       if r \<noteq> OK then ret r
       else do { _ \<leftarrow> bmu_reset E fuel; axp8191_pmu_softset E fuel 1 }
     } else ret OK
   }"

definition rail_value :: "nat \<Rightarrow> u32 \<Rightarrow> u8 \<Rightarrow> u8" where
  "rail_value off state data = (data AND NOT (push_bit off 1)) OR ucast (push_bit off state)"

definition axp8191_pmu_set_voltage_state :: "env \<Rightarrow> nat \<Rightarrow> u32 \<Rightarrow> u32 \<Rightarrow> ('a twi_state_scheme, int) state" where
  "axp8191_pmu_set_voltage_state E fuel rail state = (
     if rail \<ge> AXP8191_POWER_MAX \<or> state > POWER_VOL_ON then ret (- EINVAL)
     else let (regaddr, off) = axp8191_onoff_reg_bitmap ! unat rail in
       if regaddr = 0 \<or> off \<ge> 8 then ret (- EINVAL)
       else do {
         r \<leftarrow> reg_rmw (pmu_reg_read E fuel) (pmu_reg_write E fuel) RSB_RTSADDR_AXP8191 regaddr (rail_value off state);
         if r \<noteq> OK then ret r
         else do {
           _ \<leftarrow> (if state = POWER_VOL_ON then time_mdelay E fuel 1 else ret ());
           ret OK
         }
       })"

subsection \<open>The common layer\<close>

definition is_pmu_exist :: "('a pmu_state_scheme, bool) state" where
  "is_pmu_exist = do { w \<leftarrow> State_Monad.get; ret (pmu_exist w) }"

definition pmu_init :: "('a pmu_state_scheme, int) state" where
  "pmu_init = do { _ \<leftarrow> State_Monad.update (\<lambda>w. w\<lparr>pmu_exist := True\<rparr>); ret OK }"

text \<open>Wait for an idle bus; the nine clock pulses that free it are sent by shutdown and reset only.\<close>

fun wait_bus_idle :: "env \<Rightarrow> nat \<Rightarrow> nat \<Rightarrow> bool \<Rightarrow> ('a pmu_state_scheme, unit) state" where
  "wait_bus_idle E fuel 0 pulses = hang"
| "wait_bus_idle E fuel (Suc n) pulses = do {
     s \<leftarrow> twi_get_status E;
     if s = 0 then ret ()
     else do {
       _ \<leftarrow> time_mdelay E fuel 2000;
       p \<leftarrow> (if pulses then twi_send_clk_9pulse E fuel else ret 255);
       if p = 0 then ret () else wait_bus_idle E fuel n pulses
     }
   }"

definition pmu_shutdown :: "env \<Rightarrow> nat \<Rightarrow> ('a pmu_state_scheme, int) state" where
  "pmu_shutdown E fuel = do {
     e \<leftarrow> is_pmu_exist;
     if \<not> e then ret (- ENODEV)
     else do {
       _ \<leftarrow> twi_standby_init E fuel;
       _ \<leftarrow> wait_bus_idle E fuel fuel True;
       axp8191_pmu_shutdown E fuel
     }
   }"

definition pmu_reset :: "env \<Rightarrow> nat \<Rightarrow> ('a pmu_state_scheme, int) state" where
  "pmu_reset E fuel = do {
     e \<leftarrow> is_pmu_exist;
     if \<not> e then ret (- ENODEV)
     else do {
       _ \<leftarrow> twi_standby_init E fuel;
       _ \<leftarrow> wait_bus_idle E fuel fuel True;
       axp8191_pmu_reset E fuel
     }
   }"

definition pmu_charging_reset :: "env \<Rightarrow> nat \<Rightarrow> ('a pmu_state_scheme, int) state" where
  "pmu_charging_reset E fuel = do {
     e \<leftarrow> is_pmu_exist;
     if \<not> e then ret (- ENODEV)
     else do {
       _ \<leftarrow> twi_standby_init E fuel;
       _ \<leftarrow> wait_bus_idle E fuel fuel False;
       axp8191_pmu_charging_reset E fuel
     }
   }"

definition pmu_set_voltage_state :: "env \<Rightarrow> nat \<Rightarrow> u32 \<Rightarrow> u32 \<Rightarrow> ('a pmu_state_scheme, int) state" where
  "pmu_set_voltage_state E fuel rail state = do {
     e \<leftarrow> is_pmu_exist;
     if \<not> e then ret (- ENODEV) else axp8191_pmu_set_voltage_state E fuel rail state
   }"

text \<open>The remaining queries of this layer have no effect.\<close>

definition pmu_set_voltage :: "u32 \<Rightarrow> u32 \<Rightarrow> ('a pmu_state_scheme, int) state" where
  "pmu_set_voltage rail voltage = do { e \<leftarrow> is_pmu_exist; ret (if \<not> e then - ENODEV else OK) }"

definition pmu_get_voltage :: "u32 \<Rightarrow> ('a pmu_state_scheme, int) state" where
  "pmu_get_voltage rail = do { e \<leftarrow> is_pmu_exist; ret (if \<not> e then - ENODEV else OK) }"

definition nmi_int_enable :: "env \<Rightarrow> ('a machine_scheme, int) state" where
  "nmi_int_enable E = do { v \<leftarrow> readl E NMI_INT_EN_REG; _ \<leftarrow> writel (v OR 0x2) NMI_INT_EN_REG; ret OK }"

definition nmi_int_disable :: "env \<Rightarrow> ('a machine_scheme, int) state" where
  "nmi_int_disable E = do { v \<leftarrow> readl E NMI_INT_EN_REG; _ \<leftarrow> writel (v AND NOT 0x2) NMI_INT_EN_REG; ret OK }"

definition platform_nmi_handler :: "env \<Rightarrow> ('a wakeup_state_scheme, int) state" where
  "platform_nmi_handler E = do {
     _ \<leftarrow> nmi_int_disable E;
     _ \<leftarrow> State_Monad.update (\<lambda>w. w\<lparr>wakeup_source := GIC_R_EXTERNAL_NMI_IRQ - GIC_SRC_SPI\<rparr>);
     ret OK
   }"

definition pmu_standby_init :: "env \<Rightarrow> ('a machine_scheme, int) state" where
  "pmu_standby_init E = do { _ \<leftarrow> nmi_int_enable E; ret OK }"

definition pmu_standby_exit :: "env \<Rightarrow> ('a machine_scheme, int) state" where
  "pmu_standby_exit E = do { _ \<leftarrow> nmi_int_disable E; ret OK }"

section \<open>What the drivers keep\<close>

lemma frames_wait_flag:
  assumes "\<And>w t. f (w\<lparr>trace := t\<rparr>) = f w" and "\<And>w. f (w\<lparr>hung := True\<rparr>) = f w"
  shows "frames f (twi_clear_irq_flag E fuel)" "frames f (twic_reset E fuel)"
  unfolding twi_clear_irq_flag_def twic_reset_def by (intro frames_intros frames_hang assms)+

lemma frames_twi_steps:
  assumes "\<And>w t. f (w\<lparr>trace := t\<rparr>) = f w" and "\<And>w. f (w\<lparr>hung := True\<rparr>) = f w"
  shows "frames f (twi_stop E fuel)" "frames f (twi_send E fuel n v c)" "frames f (twi_start E)" "frames f (twi_expect E n c)"
    "frames f (twi_enable_ack E)" "frames f (twi_disable_ack E)"
  unfolding twi_stop_def twi_send_def twi_start_def twi_expect_def twi_enable_ack_def twi_disable_ack_def
  by (intro frames_intros frames_wait_flag assms)+

lemma frames_twi_loops:
  assumes "\<And>w t. f (w\<lparr>trace := t\<rparr>) = f w" and "\<And>w. f (w\<lparr>hung := True\<rparr>) = f w"
  shows "frames f (twi_write_loop E fuel ds)" "frames f (twi_read_loop E fuel n)"
proof -
  show "frames f (twi_write_loop E fuel ds)"
    by (induction ds) (auto intro!: frames_intros frames_twi_steps assms)
  show "frames f (twi_read_loop E fuel n)"
    by (induction n) (auto intro!: frames_intros frames_twi_steps frames_wait_flag assms)
qed

lemma frames_twi_byte_rw:
  assumes "\<And>w t. f (w\<lparr>trace := t\<rparr>) = f w" and "\<And>w. f (w\<lparr>hung := True\<rparr>) = f w"
  shows "frames f (twi_byte_rw E fuel op s r d n)"
proof -
  have "frames f (twi_select E fuel s r)" "frames f (twi_receive E fuel s n)"
    unfolding twi_select_def twi_receive_def
    by (intro frames_intros frames_twi_steps frames_twi_loops frames_wait_flag assms)+
  then show ?thesis
    unfolding twi_byte_rw_def
    by (cases op) (auto intro!: frames_intros frames_twi_steps frames_twi_loops assms)
qed

lemma frames_pmu_reg:
  assumes "\<And>w t. f (w\<lparr>trace := t\<rparr>) = f w" and "\<And>w. f (w\<lparr>hung := True\<rparr>) = f w"
  shows "frames f (pmu_reg_read E fuel c r d)" "frames f (pmu_reg_write E fuel c r d)"
  unfolding pmu_reg_read_def pmu_reg_write_def twi_read.simps twi_write.simps
  by (intro frames_intros frames_twi_byte_rw assms)+

lemma frames_set_voltage_state:
  assumes "\<And>w t. f (w\<lparr>trace := t\<rparr>) = f w" and "\<And>w. f (w\<lparr>hung := True\<rparr>) = f w"
  shows "frames f (pmu_set_voltage_state E fuel rail st)"
  unfolding pmu_set_voltage_state_def axp8191_pmu_set_voltage_state_def is_pmu_exist_def reg_rmw_def Let_def
  by (intro frames_intros frames_pmu_reg frames_delays assms)

section \<open>The rails\<close>

lemma wp_return_fun: "wp (ret x) Q = Q x"
  by (rule ext) (rule wp_return)

text \<open>A rail is on when its bit is set in the register file of the chip.\<close>

definition rail_on :: "regfile \<Rightarrow> nat \<Rightarrow> bool" where
  "rail_on G k \<longleftrightarrow> k < 39 \<and> (case axp8191_onoff_reg_bitmap ! k of (r, b) \<Rightarrow> bit (G 0x6c r) b)"

lemma bitmap_entries: "distinct (take 39 axp8191_onoff_reg_bitmap)" "length axp8191_onoff_reg_bitmap = 41"
  "\<forall>(r, b)\<in>set (take 39 axp8191_onoff_reg_bitmap). r \<noteq> 0 \<and> b < 8"
  by code_simp+

lemma bitmap_last: "axp8191_onoff_reg_bitmap ! 39 = (0, 0)"
  by code_simp

lemma bitmap_inj: "j < 39 \<Longrightarrow> k < 39 \<Longrightarrow> axp8191_onoff_reg_bitmap ! j = axp8191_onoff_reg_bitmap ! k \<longleftrightarrow> j = k"
  using nth_eq_iff_index_eq [OF bitmap_entries(1), of j k] bitmap_entries(2) by simp

lemma bitmap_valid: "k < 39 \<Longrightarrow> axp8191_onoff_reg_bitmap ! k = (r, b) \<Longrightarrow> r \<noteq> 0 \<and> b < 8"
  using bitmap_entries(3) nth_mem [of k "take 39 axp8191_onoff_reg_bitmap"] bitmap_entries(2) by fastforce

lemma bit_rail_value:
  assumes "b < 8" and "st \<le> 1"
  shows "bit (rail_value b st v) i \<longleftrightarrow> (if i = b then st = 1 else bit v i)"
proof -
  have "unat st = 0 \<or> unat st = 1" using assms(2) by (auto simp: word_le_nat_alt)
  then have "st = 0 \<or> st = 1" by (auto simp: word_unat_eq_iff)
  then show ?thesis using assms(1) by (auto simp: rail_value_def bit_simps dest: bit_imp_le_length)
qed

lemma chip_axp8191: "chip RSB_RTSADDR_AXP8191 = 0x6c"
  by (simp add: chip_def)

lemma rail_switched:
  assumes "k < 39" and "axp8191_onoff_reg_bitmap ! k = (r, b)" and "st \<le> 1"
  shows "rail_on (G(0x6c := (G 0x6c)(r := rail_value b st (G 0x6c r)))) j \<longleftrightarrow> (if j = k then st = 1 else rail_on G j)"
proof (cases "j < 39")
  case True
  obtain r' b' where e: "axp8191_onoff_reg_bitmap ! j = (r', b')" by (cases "axp8191_onoff_reg_bitmap ! j")
  have "r' = r \<and> b' = b \<longleftrightarrow> j = k" using bitmap_inj [OF True assms(1)] e assms(2) by simp
  then show ?thesis
    using bitmap_valid [OF assms(1,2)] True assms e by (auto simp: rail_on_def bit_rail_value)
qed (use assms(1) in \<open>auto simp: rail_on_def\<close>)

definition pmu_ready :: "env \<Rightarrow> regfile \<Rightarrow> 'a twi_state_scheme \<Rightarrow> bool" where
  "pmu_ready E R w \<longleftrightarrow> bus_ready E R w \<and> timers_ok w"

lemma delay_no_byte: "reg_event delay_regs e \<Longrightarrow> no_byte e"
  by (cases e) (auto simp: delay_regs_def)

lemma mdelay_ready:
  fixes w :: "'a twi_state_scheme"
  assumes "pmu_ready E R w"
  shows "wp (time_mdelay E fuel ms) (\<lambda>_ w'. pmu_ready E R w' \<and> chip_regs R w' = chip_regs R w) w"
proof -
  have evs: "wp (time_mdelay E fuel ms) (\<lambda>_ w'. adds (reg_event delay_regs) w w' \<and> timers_ok w') w"
    using assms by (intro wp_conj time_mdelay_events wp_mono [OF frames_wp [OF frames_delays(1) [of timers_ok]]])
      (auto simp: pmu_ready_def timers_ok_def)
  have bus: "twi_bus R (trace w') = twi_bus R (trace w)" if a: "adds (reg_event delay_regs) w w'" for w' :: "'a twi_state_scheme"
  proof -
    obtain es where es: "trace w' = es @ trace w" "\<forall>e\<in>set es. reg_event delay_regs e"
      using a unfolding adds_def by blast
    from es(2) have "foldr bus_step es (Idle, G) = (Idle, G)" for G
      by (induction es) (auto simp: no_byte_idle delay_no_byte)
    then show ?thesis using es(1) bus_readyD [of E R w] assms by (simp add: twi_bus_append pmu_ready_def)
  qed
  show ?thesis
  proof (rule wp_mono [OF evs])
    fix r w'
    assume a: "adds (reg_event delay_regs) w w' \<and> timers_ok w'"
    then have "twi_bus R (trace w') = twi_bus R (trace w)" by (intro bus) simp
    with a assms show "pmu_ready E R w' \<and> chip_regs R w' = chip_regs R w"
      by (simp add: pmu_ready_def bus_ready_def chip_regs_def)
  qed
qed

lemma set_voltage_state_wp:
  fixes w :: "'a pmu_state_scheme"
  assumes "pmu_ready E R w"
  shows "wp (pmu_set_voltage_state E fuel rail st) (\<lambda>r w'. pmu_ready E R w' \<and>
     (r = OK \<longrightarrow> unat rail < 39 \<and> st \<le> 1) \<and>
     (\<forall>k. rail_on (chip_regs R w') k \<longleftrightarrow> (if r = OK \<and> k = unat rail then st = 1 else rail_on (chip_regs R w) k))) w"
proof -
  let ?Q = "\<lambda>r w'. pmu_ready E R w' \<and> (r = OK \<longrightarrow> unat rail < 39 \<and> st \<le> 1) \<and>
     (\<forall>k. rail_on (chip_regs R w') k \<longleftrightarrow> (if r = OK \<and> k = unat rail then st = 1 else rail_on (chip_regs R w) k))"
  obtain r b where e: "axp8191_onoff_reg_bitmap ! unat rail = (r, b)" by (cases "axp8191_onoff_reg_bitmap ! unat rail")
  have body: "wp (do {
      x \<leftarrow> reg_rmw (pmu_reg_read E fuel) (pmu_reg_write E fuel) RSB_RTSADDR_AXP8191 r (rail_value b st);
      if x \<noteq> OK then ret x
      else do { _ \<leftarrow> (if st = POWER_VOL_ON then time_mdelay E fuel 1 else ret ()); ret OK } }) ?Q w"
    if k: "unat rail < 39" "st \<le> 1"
  proof -
    have ok: "?Q OK u" if "pmu_ready E R u" "chip_regs R u = (chip_regs R w)(0x6c := (chip_regs R w 0x6c)(r := rail_value b st (chip_regs R w 0x6c r)))" for u
      using that k by (simp add: rail_switched [OF k(1) e k(2)])
    let ?G = "(chip_regs R w)(0x6c := (chip_regs R w 0x6c)(r := rail_value b st (chip_regs R w 0x6c r)))"
    let ?rmw = "reg_rmw (pmu_reg_read E fuel) (pmu_reg_write E fuel) RSB_RTSADDR_AXP8191 r (rail_value b st)"
    have rmw: "wp ?rmw (\<lambda>x w'. bus_ready E R w' \<and> chip_regs R w' = (if x = 0 then ?G else chip_regs R w)) w"
      using assms by (intro twi.rmw_wp [of E R w fuel RSB_RTSADDR_AXP8191, unfolded chip_axp8191]) (simp add: pmu_ready_def)
    have tim: "wp ?rmw (\<lambda>_ w'. timers_ok w' = timers_ok w) w"
      unfolding reg_rmw_def by (intro frames_wp frames_intros frames_pmu_reg) (simp_all add: timers_ok_def)
    have both: "wp ?rmw (\<lambda>x w'. pmu_ready E R w' \<and> chip_regs R w' = (if x = 0 then ?G else chip_regs R w)) w"
      by (rule wp_mono [OF wp_conj [OF rmw tim]]) (use assms in \<open>simp add: pmu_ready_def\<close>)
    have rest: "wp (if x \<noteq> OK then ret x
        else do { _ \<leftarrow> (if st = POWER_VOL_ON then time_mdelay E fuel 1 else ret ()); ret OK }) ?Q u"
      if u: "pmu_ready E R u" "chip_regs R u = (if x = 0 then ?G else chip_regs R w)" for x u
    proof (cases "x = 0")
      case False
      then show ?thesis using u k by (simp add: wp_return)
    next
      case True
      have "wp (if st = POWER_VOL_ON then time_mdelay E fuel 1 else ret ()) (\<lambda>_. ?Q OK) u"
      proof (rule wp_ifI)
        show "wp (time_mdelay E fuel 1) (\<lambda>_. ?Q OK) u"
          by (rule wp_mono [OF mdelay_ready [OF u(1)]], rule ok) (simp_all only: u(2) True if_True simp_thms)
        show "wp (ret ()) (\<lambda>_. ?Q OK) u"
          by (rule wp_returnI, rule ok [OF u(1)]) (simp only: u(2) True if_True simp_thms)
      qed
      then have "wp (do { _ \<leftarrow> (if st = POWER_VOL_ON then time_mdelay E fuel 1 else ret ()); ret OK }) ?Q u"
        by (simp only: wp_bind_fun wp_return_fun)
      then show ?thesis by (simp only: True simp_thms if_False)
    qed
    have "wp ?rmw (\<lambda>x. wp (if x \<noteq> OK then ret x
        else do { _ \<leftarrow> (if st = POWER_VOL_ON then time_mdelay E fuel 1 else ret ()); ret OK }) ?Q) w"
      by (rule wp_mono [OF both]) (elim conjE, rule rest)
    then show ?thesis by (simp only: wp_bind)
  qed
  have regs: "r = 0" if "\<not> unat rail < 39" "unat rail < 40"
  proof -
    have "unat rail = 39" using that by simp
    then show ?thesis using e bitmap_last by simp
  qed
  have guard: "?Q (- EINVAL) w" "?Q (- ENODEV) w"
    using assms by simp_all
  show ?thesis
    unfolding pmu_set_voltage_state_def is_pmu_exist_def axp8191_pmu_set_voltage_state_def
    apply (simp only: wp_bind [of "State_Monad.get \<bind> _"] wp_bind [of State_Monad.get] wp_get wp_return)
    apply (rule wp_ifI, rule wp_returnI, rule guard, rule wp_ifI, rule wp_returnI, rule guard)
    apply (simp only: Let_def e split)
    apply (rule wp_ifI, rule wp_returnI, rule guard)
    apply (rule body)
    subgoal using regs by (auto simp: word_le_nat_alt)
    subgoal by (simp add: linorder_not_less)
    done
qed

end
