(* ===== verification/Rails.thy ===== *)
theory Rails
  imports Pmu "HOL-Library.Multiset"
begin

text \<open>
  The supply rails across a standby: \<open>dm_suspend\<close> and \<open>dm_resume\<close> of
  \<^verbatim>\<open>src/ar100s/service/standby/standby-sun60iw2p1/plat_standby.c\<close>. The rails that were switched off are
  kept on a stack in the order of shutdown (\<open>dm_off_order\<close>, \<open>dm_off_count\<close>) and as a mask; a failed
  suspend is rolled back, and a rail that cannot be restored stays recorded. The switch is an
  argument of the loops; the interface \<open>rail_switch\<close> states what they need of it.
\<close>

unbundle bit_operations_syntax

section \<open>Model\<close>

abbreviation (input) AXP_POWER_MAX :: nat where "AXP_POWER_MAX \<equiv> 32"

record rail_state = pmu_state +
  dm_off_order :: "u8 list"
  dm_off_count :: u32
  dm_off_mask :: u32
  standby_vdd_cpu :: u32
  standby_vdd_cpub :: u32
  standby_vdd_sys :: u32
  standby_vdd_usb :: u32
  standby_vcc_pll :: u32
  standby_vcc_io :: u32
  standby_vcc_efuse :: u32
  standby_osc24m_on :: u32

type_synonym 'w switch = "u32 \<Rightarrow> u32 \<Rightarrow> ('w, int) state"

fun restore_loop :: "'a rail_state_scheme switch \<Rightarrow> nat \<Rightarrow> u8 list \<Rightarrow> int \<Rightarrow> ('a rail_state_scheme, u8 list \<times> int) state" where
  "restore_loop sw 0 failed_order first_error = ret (failed_order, first_error)"
| "restore_loop sw (Suc n) failed_order first_error = do {
     w \<leftarrow> State_Monad.get;
     let rail = dm_off_order w ! n;
     _ \<leftarrow> State_Monad.update (\<lambda>w. w\<lparr>dm_off_count := of_nat n\<rparr>);
     r \<leftarrow> sw (ucast rail) POWER_VOL_ON;
     if r \<noteq> OK then restore_loop sw n (failed_order @ [rail]) (if first_error = OK then r else first_error)
     else do {
       _ \<leftarrow> State_Monad.update (\<lambda>w. w\<lparr>dm_off_mask := dm_off_mask w AND NOT (push_bit (unat rail) 1)\<rparr>);
       restore_loop sw n failed_order first_error
     }
   }"

definition restore_rails :: "'a rail_state_scheme switch \<Rightarrow> ('a rail_state_scheme, int) state" where
  "restore_rails sw = do {
     w \<leftarrow> State_Monad.get;
     (failed_order, first_error) \<leftarrow> restore_loop sw (unat (dm_off_count w)) [] OK;
     _ \<leftarrow> State_Monad.update (\<lambda>w. w\<lparr>dm_off_order := rev failed_order @ drop (length failed_order) (dm_off_order w),
       dm_off_count := of_nat (length failed_order)\<rparr>);
     ret first_error
   }"

fun power_off_loop :: "'a rail_state_scheme switch \<Rightarrow> u32 \<Rightarrow> nat list \<Rightarrow> ('a rail_state_scheme, int) state" where
  "power_off_loop sw m [] = ret OK"
| "power_off_loop sw m (rail # rails) = do {
     w \<leftarrow> State_Monad.get;
     if drop_bit rail m AND 0x1 = 0 \<or> drop_bit rail (dm_off_mask w) AND 0x1 \<noteq> 0 then power_off_loop sw m rails
     else do {
       r \<leftarrow> sw (of_nat rail) POWER_VOL_OFF;
       if r \<noteq> OK then ret r
       else do {
         _ \<leftarrow> State_Monad.update (\<lambda>w. w\<lparr>dm_off_order := (dm_off_order w)[unat (dm_off_count w) := of_nat rail],
           dm_off_count := dm_off_count w + 1, dm_off_mask := dm_off_mask w OR push_bit rail 1\<rparr>);
         power_off_loop sw m rails
       }
     }
   }"

fun power_off_masks :: "'a rail_state_scheme switch \<Rightarrow> u32 list \<Rightarrow> ('a rail_state_scheme, int) state" where
  "power_off_masks sw [] = ret OK"
| "power_off_masks sw (m # ms) = do {
     r \<leftarrow> power_off_loop sw m [0..<AXP_POWER_MAX];
     if r \<noteq> OK then do { _ \<leftarrow> restore_rails sw; ret r } else power_off_masks sw ms
   }"

text \<open>The supplies in the order in which standby switches them off.\<close>

definition standby_masks :: "'a rail_state_scheme \<Rightarrow> u32 list" where
  "standby_masks w = [standby_vcc_io w, standby_vcc_efuse w, standby_vdd_cpub w, standby_vdd_cpu w,
     standby_vdd_sys w, standby_vcc_pll w]"

definition suspend_rails :: "'a rail_state_scheme switch \<Rightarrow> ('a rail_state_scheme, int) state" where
  "suspend_rails sw = do {
     w \<leftarrow> State_Monad.get;
     r \<leftarrow> (if dm_off_count w \<noteq> 0 then restore_rails sw else ret OK);
     if r \<noteq> OK then ret r
     else do {
       _ \<leftarrow> State_Monad.update (\<lambda>w. w\<lparr>dm_off_count := 0, dm_off_mask := 0\<rparr>);
       w \<leftarrow> State_Monad.get;
       power_off_masks sw (standby_masks w)
     }
   }"

definition dm_restore_off_rails :: "env \<Rightarrow> nat \<Rightarrow> ('a rail_state_scheme, int) state" where
  "dm_restore_off_rails E fuel = restore_rails (pmu_set_voltage_state E fuel)"

definition dm_power_off_mask :: "env \<Rightarrow> nat \<Rightarrow> u32 \<Rightarrow> ('a rail_state_scheme, int) state" where
  "dm_power_off_mask E fuel m = power_off_loop (pmu_set_voltage_state E fuel) m [0..<AXP_POWER_MAX]"

definition dm_suspend :: "env \<Rightarrow> nat \<Rightarrow> ('a rail_state_scheme, int) state" where
  "dm_suspend E fuel = suspend_rails (pmu_set_voltage_state E fuel)"

definition dm_resume :: "env \<Rightarrow> nat \<Rightarrow> ('a rail_state_scheme, int) state" where
  "dm_resume E fuel = dm_restore_off_rails E fuel"

section \<open>The stack of rails\<close>

text \<open>The rails recorded as off, oldest first, and the invariant of their three representations.\<close>

definition off_rails :: "'a rail_state_scheme \<Rightarrow> nat list" where
  "off_rails w = map unat (take (unat (dm_off_count w)) (dm_off_order w))"

definition recorded :: "nat list \<Rightarrow> 'a rail_state_scheme \<Rightarrow> bool" where
  "recorded ks w \<longleftrightarrow> length (dm_off_order w) = 32 \<and> distinct ks \<and> set ks \<subseteq> {..<32} \<and>
     (\<forall>k<32. bit (dm_off_mask w) k \<longleftrightarrow> k \<in> set ks)"

definition rails_ok :: "'a rail_state_scheme \<Rightarrow> bool" where
  "rails_ok w \<longleftrightarrow> unat (dm_off_count w) \<le> 32 \<and> recorded (off_rails w) w"

lemma recorded_length: "recorded ks w \<Longrightarrow> length ks \<le> 32"
proof -
  assume "recorded ks w"
  then have "length ks = card (set ks)" "set ks \<subseteq> {..<32}"
    by (simp_all add: recorded_def distinct_card)
  then show ?thesis
    using card_mono [of "{..<32 :: nat}" "set ks"] by simp
qed

lemma recorded_perm: "recorded ks w \<Longrightarrow> mset js = mset ks \<Longrightarrow> recorded js w"
  unfolding recorded_def by (metis mset_eq_setD mset_eq_imp_distinct_iff)

lemma recorded_count [simp]: "recorded ks (w\<lparr>dm_off_count := n\<rparr>) = recorded ks w"
  by (simp add: recorded_def)

lemma recorded_drop:
  assumes "recorded (k # ks) w"
  shows "recorded ks (w\<lparr>dm_off_mask := dm_off_mask w AND NOT (push_bit k 1)\<rparr>)"
  using assms by (auto simp: recorded_def bit_simps)

lemma recorded_add:
  assumes "recorded ks w" and "k < 32" and "k \<notin> set ks"
  shows "recorded (ks @ [k]) (w\<lparr>dm_off_order := (dm_off_order w)[i := v], dm_off_count := n,
     dm_off_mask := dm_off_mask w OR push_bit k 1\<rparr>)"
  using assms by (auto simp: recorded_def bit_simps)

lemma shift_test: "drop_bit k v AND 0x1 = 0 \<longleftrightarrow> \<not> bit (v :: u32) k"
  by (simp add: and_one_eq bit_iff_odd_drop_bit even_iff_mod_2_eq_zero)

lemma rails_ok_room:
  assumes "rails_ok w" and "k < 32" and "k \<notin> set (off_rails w)"
  shows "unat (dm_off_count w) < 32"
proof -
  have "set (off_rails w) \<subseteq> {..<32} - {k}" "distinct (off_rails w)"
    using assms by (auto simp: rails_ok_def recorded_def)
  then have "length (off_rails w) \<le> card ({..<32} - {k})"
    by (metis card_mono distinct_card finite_Diff finite_lessThan)
  moreover have "length (off_rails w) = unat (dm_off_count w)"
    using assms(1) by (simp add: rails_ok_def recorded_def off_rails_def)
  ultimately show ?thesis
    using assms(2) by simp
qed

lemma push_ok:
  assumes "rails_ok w" and "k < 32" and "k \<notin> set (off_rails w)" and "unat (dm_off_count w) < 32"
    and u: "dm_off_order u = dm_off_order w" "dm_off_count u = dm_off_count w" "dm_off_mask u = dm_off_mask w"
  defines "v \<equiv> u\<lparr>dm_off_order := (dm_off_order u)[unat (dm_off_count u) := of_nat k],
     dm_off_count := dm_off_count u + 1, dm_off_mask := dm_off_mask u OR push_bit k 1\<rparr>"
  shows "rails_ok v \<and> set (off_rails v) = insert k (set (off_rails w))"
proof -
  have cnt: "unat (dm_off_count w + 1) = Suc (unat (dm_off_count w))"
    using assms(4) by (simp add: unat_word_ariths)
  have len: "length (dm_off_order w) = 32"
    using assms(1) by (simp add: rails_ok_def recorded_def)
  have k8: "unat (of_nat k :: u8) = k"
    using assms(2) by (simp add: unat_of_nat)
  have rails: "off_rails v = off_rails w @ [k]"
    using assms(4) len by (simp add: off_rails_def v_def u cnt take_Suc_conv_app_nth k8)
  have "recorded (off_rails w) u"
    using assms(1) u by (simp add: rails_ok_def recorded_def)
  then have "recorded (off_rails w @ [k]) v"
    unfolding v_def by (rule recorded_add) (use assms in auto)
  then show ?thesis
    using assms(4) rails by (simp add: rails_ok_def cnt u v_def)
qed

locale rail_switch =
  fixes off :: "nat set \<Rightarrow> 'a rail_state_scheme \<Rightarrow> bool"
    and rails :: "nat set"
    and sw :: "'a rail_state_scheme switch"
  assumes off_dm: "off S (w\<lparr>dm_off_order := a, dm_off_count := n, dm_off_mask := m\<rparr>) = off S w"
    and sw_dm: "frames (\<lambda>w. (dm_off_order w, dm_off_count w, dm_off_mask w, standby_masks w)) (sw x st)"
    and sw_off: "off S w \<Longrightarrow> k \<in> rails \<Longrightarrow> k \<notin> S \<Longrightarrow> k < 32 \<Longrightarrow>
      wp (sw (of_nat k) POWER_VOL_OFF) (\<lambda>r. off (if r = OK then insert k S else S)) w"
    and sw_on: "off (insert k S) w \<Longrightarrow> k \<notin> S \<Longrightarrow> k < 32 \<Longrightarrow>
      wp (sw (of_nat k) POWER_VOL_ON) (\<lambda>r. off (if r = OK then S else insert k S)) w"
begin

lemma off_parts:
  "off S (w\<lparr>dm_off_order := a\<rparr>) = off S w" "off S (w\<lparr>dm_off_count := n\<rparr>) = off S w"
  "off S (w\<lparr>dm_off_mask := m\<rparr>) = off S w" "off S (w\<lparr>dm_off_count := n, dm_off_mask := m\<rparr>) = off S w"
  "off S (w\<lparr>dm_off_order := a, dm_off_count := n\<rparr>) = off S w"
  using off_dm [of S "dm_off_mask w" "dm_off_count w" a w] off_dm [of S "dm_off_mask w" n "dm_off_order w" w]
    off_dm [of S m "dm_off_count w" "dm_off_order w" w] off_dm [of S m n "dm_off_order w" w]
    off_dm [of S "dm_off_mask w" n a w]
  by simp_all

lemma sw_same:
  "wp (sw x st) (\<lambda>_ w'. dm_off_order w' = dm_off_order w \<and> dm_off_count w' = dm_off_count w \<and>
     dm_off_mask w' = dm_off_mask w \<and> standby_masks w' = standby_masks w) w"
  by (rule wp_mono [OF frames_wp [OF sw_dm]]) simp

lemma recorded_same:
  "recorded ks w \<Longrightarrow> dm_off_order w' = dm_off_order w \<Longrightarrow> dm_off_mask w' = dm_off_mask w \<Longrightarrow> recorded ks w'"
  by (simp add: recorded_def)

lemma restore_loop_wp:
  "n \<le> 32 \<Longrightarrow> recorded (map unat (take n (dm_off_order w) @ F)) w \<Longrightarrow>
   off (set (map unat (take n (dm_off_order w) @ F))) w \<Longrightarrow> (e = OK \<longleftrightarrow> F = []) \<Longrightarrow>
   wp (restore_loop sw n F e) (\<lambda>p w'. recorded (map unat (fst p)) w' \<and> off (set (map unat (fst p))) w' \<and>
     standby_masks w' = standby_masks w \<and> (snd p = OK \<longleftrightarrow> fst p = [])) w"
proof (induction n arbitrary: w F e)
  case 0
  then show ?case by (simp add: wp_simps)
next
  case (Suc n)
  let ?Q = "\<lambda>p w'. recorded (map unat (fst p)) w' \<and> off (set (map unat (fst p))) w' \<and>
     standby_masks w' = standby_masks w \<and> (snd p = OK \<longleftrightarrow> fst p = [])"
  define rail where "rail = dm_off_order w ! n"
  define ks where "ks = map unat (take n (dm_off_order w) @ F)"
  have len: "length (dm_off_order w) = 32"
    using Suc.prems(2) by (simp add: recorded_def)
  have tk: "take (Suc n) (dm_off_order w) = take n (dm_off_order w) @ [rail]"
    using Suc.prems(1) len by (simp add: take_Suc_conv_app_nth rail_def)
  have rec: "recorded (unat rail # ks) w"
    by (rule recorded_perm [OF Suc.prems(2)]) (simp add: tk ks_def)
  have off: "off (insert (unat rail) (set ks)) w"
    using Suc.prems(3) by (simp add: tk ks_def)
  have k: "unat rail < 32" "unat rail \<notin> set ks"
    using rec by (auto simp: recorded_def)
  have rail: "(ucast rail :: u32) = of_nat (unat rail)"
    by simp
  let ?w = "w\<lparr>dm_off_count := of_nat n\<rparr>"
  have step: "wp (if r \<noteq> OK then restore_loop sw n (F @ [rail]) (if e = OK then r else e)
      else do {
        _ \<leftarrow> State_Monad.update (\<lambda>w. w\<lparr>dm_off_mask := dm_off_mask w AND NOT (push_bit (unat rail) 1)\<rparr>);
        restore_loop sw n F e }) ?Q u"
    if u: "off (if r = OK then set ks else insert (unat rail) (set ks)) u" "dm_off_order u = dm_off_order w"
      "dm_off_mask u = dm_off_mask w" "standby_masks u = standby_masks w" for r u
  proof (cases "r = OK")
    case False
    have "recorded (unat rail # ks) u"
      using rec u(2,3) by (rule recorded_same)
    then have "recorded (map unat (take n (dm_off_order u) @ (F @ [rail]))) u"
      by (rule recorded_perm) (simp add: ks_def u(2))
    moreover have "off (set (map unat (take n (dm_off_order u) @ (F @ [rail])))) u"
      using u(1) False by (simp add: ks_def u(2) insert_commute)
    ultimately have "wp (restore_loop sw n (F @ [rail]) (if e = OK then r else e)) ?Q u"
      using Suc.IH [of u "F @ [rail]" "if e = OK then r else e"] Suc.prems(1) False u(4) by auto
    then show ?thesis using False by simp
  next
    case True
    let ?u = "u\<lparr>dm_off_mask := dm_off_mask u AND NOT (push_bit (unat rail) 1)\<rparr>"
    have "recorded (map unat (take n (dm_off_order ?u) @ F)) ?u"
      using recorded_drop [OF recorded_same [OF rec u(2,3)]] by (simp add: ks_def u(2))
    moreover have "off (set (map unat (take n (dm_off_order ?u) @ F))) ?u"
      using u(1) True by (simp add: ks_def u(2) off_parts)
    ultimately have "wp (restore_loop sw n F e) ?Q ?u"
      using Suc.IH [of ?u F e] Suc.prems(1,4) u(4) by (simp add: standby_masks_def)
    then show ?thesis using True by (simp add: wp_simps)
  qed
  have "wp (sw (of_nat (unat rail)) POWER_VOL_ON) (\<lambda>r. off (if r = OK then set ks else insert (unat rail) (set ks))) ?w"
    by (rule sw_on [OF _ k(2,1)]) (simp add: off_parts off)
  from wp_conj [OF this sw_same]
  have "wp (sw (ucast rail) POWER_VOL_ON) (\<lambda>r. wp (if r \<noteq> OK then restore_loop sw n (F @ [rail]) (if e = OK then r else e)
      else do {
        _ \<leftarrow> State_Monad.update (\<lambda>w. w\<lparr>dm_off_mask := dm_off_mask w AND NOT (push_bit (unat rail) 1)\<rparr>);
        restore_loop sw n F e }) ?Q) ?w"
    unfolding rail by (rule wp_mono) (elim conjE, rule step, simp_all add: standby_masks_def)
  then show ?case
    unfolding restore_loop.simps wp_bind [of State_Monad.get] wp_get Let_def rail_def [symmetric]
    by (simp only: wp_bind wp_update)
qed

lemma rails_ok_at: "rails_ok w \<Longrightarrow> length (dm_off_order w) = 32 \<and> distinct (off_rails w) \<and> set (off_rails w) \<subseteq> {..<32}"
  by (simp add: rails_ok_def recorded_def)

lemma restore_rails_wp:
  assumes "rails_ok w" and "off (set (off_rails w)) w"
  shows "wp (restore_rails sw) (\<lambda>r w'. rails_ok w' \<and> off (set (off_rails w')) w' \<and> standby_masks w' = standby_masks w \<and>
     (r = OK \<longleftrightarrow> off_rails w' = [])) w"
proof -
  let ?Q = "\<lambda>r w'. rails_ok w' \<and> off (set (off_rails w')) w' \<and> standby_masks w' = standby_masks w \<and>
     (r = OK \<longleftrightarrow> off_rails w' = [])"
  have step: "?Q (snd p) (u\<lparr>dm_off_order := rev (fst p) @ drop (length (fst p)) (dm_off_order u),
      dm_off_count := of_nat (length (fst p))\<rparr>)"
    if u: "recorded (map unat (fst p)) u" "off (set (map unat (fst p))) u" "standby_masks u = standby_masks w"
      "snd p = OK \<longleftrightarrow> fst p = []" for p u
  proof -
    let ?u = "u\<lparr>dm_off_order := rev (fst p) @ drop (length (fst p)) (dm_off_order u),
      dm_off_count := of_nat (length (fst p))\<rparr>"
    have len: "length (fst p) \<le> 32" using recorded_length [OF u(1)] by simp
    then have cnt: "unat (of_nat (length (fst p)) :: u32) = length (fst p)"
      by (simp add: unat_of_nat)
    have rails: "off_rails ?u = rev (map unat (fst p))"
      by (simp add: off_rails_def cnt rev_map)
    have "recorded (rev (map unat (fst p))) ?u"
      using recorded_perm [OF u(1), of "rev (map unat (fst p))"] len u(1) by (simp add: recorded_def)
    then show ?thesis
      using u len by (simp add: rails rails_ok_def cnt off_parts standby_masks_def)
  qed
  have "wp (restore_loop sw (unat (dm_off_count w)) [] OK) (\<lambda>p w'. recorded (map unat (fst p)) w' \<and>
     off (set (map unat (fst p))) w' \<and> standby_masks w' = standby_masks w \<and> (snd p = OK \<longleftrightarrow> fst p = [])) w"
    by (rule restore_loop_wp) (use assms in \<open>simp_all add: rails_ok_def off_rails_def\<close>)
  then have "wp (restore_loop sw (unat (dm_off_count w)) [] OK) (\<lambda>p. wp (do {
     _ \<leftarrow> State_Monad.update (\<lambda>w. w\<lparr>dm_off_order := rev (fst p) @ drop (length (fst p)) (dm_off_order w),
       dm_off_count := of_nat (length (fst p))\<rparr>); ret (snd p) }) ?Q) w"
    by (rule wp_mono) (unfold wp_bind wp_update wp_return, elim conjE, rule step)
  then show ?thesis
    unfolding restore_rails_def wp_bind [of State_Monad.get] wp_get by (simp only: wp_bind_fun split_beta)
qed

text \<open>The rails that a list of masks names, up to a bound.\<close>

lemma power_off_loop_wp:
  assumes "set ks \<subseteq> {..<32}" and "{k. bit m k} \<inter> {..<32} \<subseteq> rails"
  shows "rails_ok w \<Longrightarrow> off (set (off_rails w)) w \<Longrightarrow>
   wp (power_off_loop sw m ks) (\<lambda>r w'. rails_ok w' \<and> off (set (off_rails w')) w' \<and> standby_masks w' = standby_masks w \<and>
     (r = OK \<longrightarrow> set (off_rails w') = set (off_rails w) \<union> {k \<in> set ks. bit m k})) w"
  using assms(1)
proof (induction ks arbitrary: w)
  case Nil
  then show ?case by (simp add: wp_simps)
next
  case (Cons k ks)
  let ?Q = "\<lambda>r w'. rails_ok w' \<and> off (set (off_rails w')) w' \<and> standby_masks w' = standby_masks w \<and>
     (r = OK \<longrightarrow> set (off_rails w') = set (off_rails w) \<union> {j \<in> set (k # ks). bit m j})"
  have k: "k < 32" using Cons.prems(3) by simp
  show ?case
  proof (cases "bit m k \<and> k \<notin> set (off_rails w)")
    case False
    have "wp (power_off_loop sw m ks) ?Q w"
      by (rule wp_mono [OF Cons.IH [OF Cons.prems(1,2)]]) (use False Cons.prems(3) in auto)
    moreover have "drop_bit k m AND 0x1 = 0 \<or> drop_bit k (dm_off_mask w) AND 0x1 \<noteq> 0"
      using False Cons.prems(1) k by (auto simp: shift_test rails_ok_def recorded_def)
    ultimately show ?thesis
      by (simp add: wp_bind wp_get)
  next
    case True
    have cnt: "unat (dm_off_count w) < 32"
      using rails_ok_room [OF Cons.prems(1) k] True by simp
    let ?u = "\<lambda>u. u\<lparr>dm_off_order := (dm_off_order u)[unat (dm_off_count u) := of_nat k],
           dm_off_count := dm_off_count u + 1, dm_off_mask := dm_off_mask u OR push_bit k 1\<rparr>"
    have push: "rails_ok (?u u) \<and> set (off_rails (?u u)) = insert k (set (off_rails w))"
      if u: "dm_off_order u = dm_off_order w" "dm_off_count u = dm_off_count w" "dm_off_mask u = dm_off_mask w" for u
      by (rule push_ok) (use Cons.prems(1) k True cnt u in auto)
    have step: "wp (if r \<noteq> OK then ret r else do { _ \<leftarrow> State_Monad.update ?u; power_off_loop sw m ks }) ?Q u"
      if u: "off (if r = OK then insert k (set (off_rails w)) else set (off_rails w)) u" "dm_off_order u = dm_off_order w"
        "dm_off_count u = dm_off_count w" "dm_off_mask u = dm_off_mask w" "standby_masks u = standby_masks w" for r u
    proof (cases "r = OK")
      case r: True
      have "wp (power_off_loop sw m ks) ?Q (?u u)"
        by (rule wp_mono [OF Cons.IH])
          (use push [OF u(2-4)] u(1,5) r True Cons.prems(3) in \<open>auto simp: off_dm standby_masks_def\<close>)
      then show ?thesis using r by (simp add: wp_simps)
    next
      case False
      have "off_rails u = off_rails w" "rails_ok u"
        using u(2-4) Cons.prems(1) by (simp_all add: off_rails_def rails_ok_def recorded_def)
      then show ?thesis using False u(1,5) by (simp add: wp_simps)
    qed
    have "wp (sw (of_nat k) POWER_VOL_OFF) (\<lambda>r. off (if r = OK then insert k (set (off_rails w)) else set (off_rails w))) w"
      by (rule sw_off [OF Cons.prems(2) _ _ k]) (use True k assms(2) in auto)
    from wp_conj [OF this sw_same]
    have "wp (sw (of_nat k) POWER_VOL_OFF) (\<lambda>r. wp (if r \<noteq> OK then ret r
        else do { _ \<leftarrow> State_Monad.update ?u; power_off_loop sw m ks }) ?Q) w"
      by (rule wp_mono) (elim conjE, rule step)
    moreover have "\<not> (drop_bit k m AND 0x1 = 0 \<or> drop_bit k (dm_off_mask w) AND 0x1 \<noteq> 0)"
      using True Cons.prems(1) k by (auto simp: shift_test rails_ok_def recorded_def)
    ultimately show ?thesis
      unfolding power_off_loop.simps wp_bind [of State_Monad.get] wp_get by (simp only: if_False wp_bind)
  qed
qed

text \<open>All masks of a standby, with the rollback after the first failure.\<close>

lemma power_off_masks_wp:
  assumes "(\<Union>m\<in>set ms. {k. bit m k}) \<inter> {..<32} \<subseteq> rails"
  shows "rails_ok w \<Longrightarrow> off (set (off_rails w)) w \<Longrightarrow>
   wp (power_off_masks sw ms) (\<lambda>r w'. rails_ok w' \<and> off (set (off_rails w')) w' \<and> standby_masks w' = standby_masks w \<and>
     (r = OK \<longrightarrow> set (off_rails w') = set (off_rails w) \<union> {k. k < 32 \<and> (\<exists>m\<in>set ms. bit m k)})) w"
  using assms
proof (induction ms arbitrary: w)
  case Nil
  then show ?case by (simp add: wp_simps)
next
  case (Cons m ms)
  let ?Q = "\<lambda>r w'. rails_ok w' \<and> off (set (off_rails w')) w' \<and> standby_masks w' = standby_masks w \<and>
     (r = OK \<longrightarrow> set (off_rails w') = set (off_rails w) \<union> {k. k < 32 \<and> (\<exists>x\<in>set (m # ms). bit x k)})"
  have undone: "wp (do { _ \<leftarrow> restore_rails sw; ret r }) ?Q u"
    if "rails_ok u" "off (set (off_rails u)) u" "standby_masks u = standby_masks w" "r \<noteq> OK" for r u
    by (rule wp_bindI, rule wp_mono [OF restore_rails_wp [OF that(1,2)]], rule wp_returnI) (use that(3,4) in simp)
  have more: "wp (power_off_masks sw ms) ?Q u"
    if "rails_ok u" "off (set (off_rails u)) u" "standby_masks u = standby_masks w"
      "set (off_rails u) = set (off_rails w) \<union> {k \<in> set [0..<32]. bit m k}" for u
    by (rule wp_mono [OF Cons.IH [OF that(1,2)]]) (use Cons.prems(3) that(3,4) in auto)
  have "wp (power_off_loop sw m [0..<32]) (\<lambda>r w'. rails_ok w' \<and> off (set (off_rails w')) w' \<and> standby_masks w' = standby_masks w \<and>
     (r = OK \<longrightarrow> set (off_rails w') = set (off_rails w) \<union> {k \<in> set [0..<32]. bit m k})) w"
    by (rule power_off_loop_wp [OF _ _ Cons.prems(1,2)]) (use Cons.prems(3) in auto)
  then have "wp (power_off_loop sw m [0..<32]) (\<lambda>r. wp (if r \<noteq> OK then do { _ \<leftarrow> restore_rails sw; ret r }
      else power_off_masks sw ms) ?Q) w"
    by (rule wp_mono) (elim conjE, rule wp_ifI, rule undone, assumption+, rule more, assumption+, simp)
  then show ?case
    by (simp only: power_off_masks.simps wp_bind)
qed

lemma suspend_rails_wp:
  assumes "rails_ok w" and "off (set (off_rails w)) w"
    and req: "{k. k < 32 \<and> (\<exists>m\<in>set (standby_masks w). bit m k)} \<subseteq> rails"
  shows "wp (suspend_rails sw) (\<lambda>r w'. rails_ok w' \<and> off (set (off_rails w')) w' \<and> standby_masks w' = standby_masks w \<and>
     (r = OK \<longrightarrow> set (off_rails w') = {k. k < 32 \<and> (\<exists>m\<in>set (standby_masks w). bit m k)})) w"
proof -
  let ?Q = "\<lambda>r w'. rails_ok w' \<and> off (set (off_rails w')) w' \<and> standby_masks w' = standby_masks w \<and>
     (r = OK \<longrightarrow> set (off_rails w') = {k. k < 32 \<and> (\<exists>m\<in>set (standby_masks w). bit m k)})"
  have go: "wp (if r \<noteq> OK then ret r else do {
      _ \<leftarrow> State_Monad.update (\<lambda>w. w\<lparr>dm_off_count := 0, dm_off_mask := 0\<rparr>);
      w \<leftarrow> State_Monad.get; power_off_masks sw (standby_masks w) }) ?Q u"
    if u: "rails_ok u" "off (set (off_rails u)) u" "standby_masks u = standby_masks w" "r = OK \<longrightarrow> off_rails u = []" for r u
  proof (cases "r = OK")
    case False
    then show ?thesis using u by (simp add: wp_simps)
  next
    case True
    let ?u = "u\<lparr>dm_off_count := 0, dm_off_mask := 0\<rparr>"
    have empty: "off_rails ?u = []" "standby_masks ?u = standby_masks w"
      using u(3) by (simp_all add: off_rails_def standby_masks_def)
    have "rails_ok ?u"
      using u(1) empty(1) by (simp add: rails_ok_def recorded_def)
    moreover have "off (set (off_rails ?u)) ?u"
      using u(2,4) True by (simp add: empty off_parts)
    ultimately have "wp (power_off_masks sw (standby_masks w)) ?Q ?u"
      by (intro wp_mono [OF power_off_masks_wp]) (use req in \<open>auto simp: empty\<close>)
    then show ?thesis
      using True by (simp add: wp_simps empty(2))
  qed
  have "wp (if dm_off_count w \<noteq> 0 then restore_rails sw else ret OK) (\<lambda>r w'. rails_ok w' \<and> off (set (off_rails w')) w' \<and>
     standby_masks w' = standby_masks w \<and> (r = OK \<longrightarrow> off_rails w' = [])) w"
    by (rule wp_ifI, rule wp_mono [OF restore_rails_wp [OF assms(1,2)]], simp, rule wp_returnI)
      (use assms(1,2) in \<open>simp add: off_rails_def\<close>)
  then have "wp (if dm_off_count w \<noteq> 0 then restore_rails sw else ret OK) (\<lambda>r. wp (if r \<noteq> OK then ret r else do {
      _ \<leftarrow> State_Monad.update (\<lambda>w. w\<lparr>dm_off_count := 0, dm_off_mask := 0\<rparr>);
      w \<leftarrow> State_Monad.get; power_off_masks sw (standby_masks w) }) ?Q) w"
    by (rule wp_mono) (elim conjE, rule go)
  then show ?thesis
    unfolding suspend_rails_def wp_bind [of State_Monad.get] wp_get by (simp only: wp_bind)
qed

end

section \<open>The switch of the PMIC\<close>

text \<open>What holds of every environment: the records of the rails stay consistent.\<close>

lemma pmu_switch_dm:
  "frames (\<lambda>w. (dm_off_order w, dm_off_count w, dm_off_mask w, standby_masks w)) (pmu_set_voltage_state E fuel k st)"
  by (rule frames_set_voltage_state) (simp_all add: standby_masks_def)

interpretation bare: rail_switch "\<lambda>_ _. True" UNIV "pmu_set_voltage_state E fuel" for E fuel
  by unfold_locales (simp_all add: pmu_switch_dm wp_def)

text \<open>
  With chips that follow the bus protocol: the rails \<open>S\<close> are off and all others as in \<open>base\<close>.
\<close>

definition rails_off :: "env \<Rightarrow> regfile \<Rightarrow> (nat \<Rightarrow> bool) \<Rightarrow> nat set \<Rightarrow> 'a rail_state_scheme \<Rightarrow> bool" where
  "rails_off E R base S w \<longleftrightarrow> pmu_ready E R w \<and> (\<forall>k\<in>S. base k) \<and>
     (\<forall>k. rail_on (chip_regs R w) k \<longleftrightarrow> base k \<and> k \<notin> S)"

lemma rails_off_switch:
  fixes w :: "'a rail_state_scheme"
  assumes "rails_off E R base S w" and "k < 32" and "st \<le> 1" and "base k"
  shows "wp (pmu_set_voltage_state E fuel (of_nat k) st)
     (\<lambda>r. rails_off E R base (if r = OK then if st = 1 then S - {k} else insert k S else S)) w"
proof -
  have k: "unat (of_nat k :: u32) = k" using assms(2) by (simp add: unat_of_nat)
  have "pmu_ready E R w" using assms(1) by (simp add: rails_off_def)
  from set_voltage_state_wp [OF this, of fuel "of_nat k" st] show ?thesis
    by (rule wp_mono) (use assms k in \<open>auto simp: rails_off_def split: if_splits\<close>)
qed

interpretation pmic: rail_switch "rails_off E R base" "{k. base k}" "pmu_set_voltage_state E fuel" for E R base fuel
proof
  fix S :: "nat set" and w :: "'a rail_state_scheme" and a n m x st k
  show "rails_off E R base S (w\<lparr>dm_off_order := a, dm_off_count := n, dm_off_mask := m\<rparr>) = rails_off E R base S w"
    by (simp add: rails_off_def pmu_ready_def bus_ready_def chip_regs_def timers_ok_def)
  show "frames (\<lambda>w. (dm_off_order w, dm_off_count w, dm_off_mask w, standby_masks w))
     (pmu_set_voltage_state E fuel x st :: ('a rail_state_scheme, int) state)"
    by (rule pmu_switch_dm)
  show "wp (pmu_set_voltage_state E fuel (of_nat k) POWER_VOL_OFF)
     (\<lambda>r. rails_off E R base (if r = OK then insert k S else S)) w"
    if "rails_off E R base S w" "k \<in> {k. base k}" "k \<notin> S" "k < 32"
    using rails_off_switch [OF that(1,4), of 0 fuel] that(2) by (simp cong: if_cong)
  show "wp (pmu_set_voltage_state E fuel (of_nat k) POWER_VOL_ON)
     (\<lambda>r. rails_off E R base (if r = OK then S else insert k S)) w"
    if "rails_off E R base (insert k S) w" "k \<notin> S" "k < 32"
    using rails_off_switch [OF that(1,3), of 1 fuel] that by (simp add: rails_off_def cong: if_cong)
qed

section \<open>Properties\<close>

definition requested :: "'a rail_state_scheme \<Rightarrow> nat set" where
  "requested w = {k. k < 32 \<and> (\<exists>m\<in>set (standby_masks w). bit m k)}"

text \<open>
  C22: the records of the rails are well formed in every environment. Stack, count and mask describe
  the same set of rails, without repetition, before and after \<open>dm_suspend\<close> and \<open>dm_resume\<close>, whichever
  switch fails; a successful suspend has recorded exactly the requested rails, and a resume succeeds
  exactly when nothing is left recorded.
\<close>

theorem dm_rails_well_formed:
  assumes "rails_ok w"
  shows "wp (dm_suspend E fuel) (\<lambda>r w'. rails_ok w' \<and> (r = OK \<longrightarrow> set (off_rails w') = requested w)) w \<and>
     wp (dm_resume E fuel) (\<lambda>r w'. rails_ok w' \<and> (r = OK \<longleftrightarrow> off_rails w' = [])) w"
  unfolding dm_suspend_def dm_resume_def dm_restore_off_rails_def
  by (intro conjI; rule wp_mono [OF bare.suspend_rails_wp [OF assms TrueI]] wp_mono [OF bare.restore_rails_wp [OF assms TrueI]])
    (simp_all add: requested_def)

definition sample_rails :: rail_state where
  "sample_rails = \<lparr>trace = [], notifiers = [], isr_table = replicate 35 no_isr, timer_lock = 0, delay_timer = Some 0,
     timers = timers running_timers, hosc_notifier_list = None, hosc_lock = 0, hung = False, htimer = None, time_ticks = 0,
     softtimer_tab = [Some 0, None], softtimer_cnt = 1,
     soft_objects = (\<lambda>_. \<lparr>st_cycle = 0, st_expires = 0, st_cb = Some Wakeup_timer_handler, st_arg = Null, st_start = 0\<rparr>),
     wakeup_source = 0, iosc_freq = 16000000, losc_freq = 32768, already_init_osc_freq = 0, apbs2_notifier_head = None,
     suspend_lock = 0, little_endian_used = 0, twi_lock = False, pmu_exist = True, bmu_exist = True,
     dm_off_order = replicate 32 0, dm_off_count = 0, dm_off_mask = 0, standby_vdd_cpu = 0x4, standby_vdd_cpub = 0,
     standby_vdd_sys = 0, standby_vdd_usb = 0, standby_vcc_pll = 0, standby_vcc_io = 0x1000, standby_vcc_efuse = 0,
     standby_osc24m_on = 1\<rparr>"

lemma sample_rails_ok: "rails_ok sample_rails" "off_rails sample_rails = []"
  by (simp_all add: rails_ok_def recorded_def off_rails_def sample_rails_def)

theorem dm_rails_well_formed_witness:
  "wp (dm_suspend (answering (\<lambda>_ _. 0)) 9) (\<lambda>_. rails_ok) sample_rails"
  by (rule wp_mono [OF conjunct1 [OF dm_rails_well_formed [OF sample_rails_ok(1)]]]) simp

text \<open>
  C19: the rails themselves, with chips that follow the bus protocol. A standby starts with nothing
  recorded and all requested rails on. After \<open>dm_suspend\<close> the recorded rails are off and every other
  rail of the PMIC is as before; when it returns OK these are the requested ones. Whatever it
  returned, after \<open>dm_resume\<close> exactly the rails that are still recorded are off, and when that
  returns OK all rails are as they were before the standby.
\<close>

theorem standby_rails_correct:
  fixes w :: "'a rail_state_scheme"
  assumes "pmu_ready E R w" and "rails_ok w" and "off_rails w = []"
    and on: "\<forall>k\<in>requested w. rail_on (chip_regs R w) k"
  shows "wp (do { r \<leftarrow> dm_suspend E fuel; mid \<leftarrow> State_Monad.get; s \<leftarrow> dm_resume E fuel; ret (r, mid, s) })
     (\<lambda>(r, mid, s) w'.
       (\<forall>k. rail_on (chip_regs R mid) k \<longleftrightarrow> rail_on (chip_regs R w) k \<and> k \<notin> set (off_rails mid)) \<and>
       (r = OK \<longrightarrow> set (off_rails mid) = requested w) \<and>
       (\<forall>k. rail_on (chip_regs R w') k \<longleftrightarrow> rail_on (chip_regs R w) k \<and> k \<notin> set (off_rails w')) \<and>
       (s = OK \<longrightarrow> rail_on (chip_regs R w') = rail_on (chip_regs R w))) w"
proof -
  let ?off = "rails_off E R (rail_on (chip_regs R w))"
  have start: "?off (set (off_rails w)) w"
    using assms(1,3) by (simp add: rails_off_def)
  have "{k. k < 32 \<and> (\<exists>m\<in>set (standby_masks w). bit m k)} \<subseteq> {k. rail_on (chip_regs R w) k}"
    using on by (auto simp: requested_def)
  note sus = pmic.suspend_rails_wp [OF assms(2) start this, of fuel, folded requested_def dm_suspend_def]
  show ?thesis
    apply (rule wp_bindI, rule wp_mono [OF sus], unfold wp_bind wp_get, elim conjE)
    apply (unfold dm_resume_def dm_restore_off_rails_def)
    apply (rule wp_mono [OF pmic.restore_rails_wp], assumption, assumption, rule wp_returnI)
    apply (auto simp: rails_off_def)
    done
qed

lemma all_on: "rail_on (\<lambda>_ _. 0xff) k \<longleftrightarrow> k < 39"
proof -
  have "bit (0xff :: u8) b \<longleftrightarrow> b < 8" for b
    using bit_mask_iff [of 8 b, where 'a = "8 word"] by (simp add: mask_eq_exp_minus_1)
  then show ?thesis
    using bitmap_valid [of k] by (auto simp: rail_on_def split: prod.splits)
qed

lemma sample_ready: "pmu_ready (answering R) R sample_rails" "chip_regs R sample_rails = R"
  using running_timers_ok
  by (auto simp: pmu_ready_def bus_ready_def answering_two_wire twi_bus_def chip_regs_def sample_rails_def timers_ok_def
      running_timers_def idle_timers_def)

theorem standby_rails_correct_witness:
  "wp (do { r \<leftarrow> dm_suspend (answering (\<lambda>_ _. 0xff)) 9; mid \<leftarrow> State_Monad.get;
       s \<leftarrow> dm_resume (answering (\<lambda>_ _. 0xff)) 9; ret (r, mid, s) })
     (\<lambda>(r, mid, s) w'. s = OK \<longrightarrow> (\<forall>k<39. rail_on (chip_regs (\<lambda>_ _. 0xff) w') k)) sample_rails"
proof -
  have "\<forall>k\<in>requested sample_rails. rail_on (chip_regs (\<lambda>_ _. 0xff) sample_rails) k"
    by (auto simp: sample_ready all_on requested_def)
  note both = standby_rails_correct [OF sample_ready(1) sample_rails_ok this, of 9, unfolded sample_ready(2)]
  show ?thesis
    by (rule wp_mono [OF both]) (simp add: split_beta all_on)
qed

end
