(* ===== verification/Uart.thy ===== *)
theory Uart
  imports Rails
begin

text \<open>
  The console UART of the management core (\<^verbatim>\<open>src/ar100s/driver/uart/uart.c\<close>), in the configuration of the
  repository: fixed pins, no shell. The divisor that \<open>uart_divisor\<close> stores through its pointer is the
  value of an option.
\<close>

unbundle bit_operations_syntax

section \<open>Model\<close>

abbreviation (input) UART_POLL_LIMIT :: nat where "UART_POLL_LIMIT \<equiv> 1000000"
abbreviation (input) UART_BAUDRATE :: u32 where "UART_BAUDRATE \<equiv> 57600"
abbreviation (input) UART_REG_RBR :: u32 where "UART_REG_RBR \<equiv> 0x07080000"
abbreviation (input) UART_REG_THR :: u32 where "UART_REG_THR \<equiv> 0x07080000"
abbreviation (input) UART_REG_DLL :: u32 where "UART_REG_DLL \<equiv> 0x07080000"
abbreviation (input) UART_REG_DLH :: u32 where "UART_REG_DLH \<equiv> 0x07080004"
abbreviation (input) UART_REG_FCR :: u32 where "UART_REG_FCR \<equiv> 0x07080008"
abbreviation (input) UART_REG_LCR :: u32 where "UART_REG_LCR \<equiv> 0x0708000c"
abbreviation (input) UART_REG_USR :: u32 where "UART_REG_USR \<equiv> 0x0708007c"
abbreviation (input) UART_REG_TFL :: u32 where "UART_REG_TFL \<equiv> 0x07080080"
abbreviation (input) UART_REG_RFL :: u32 where "UART_REG_RFL \<equiv> 0x07080084"
abbreviation (input) UART_REG_HALT :: u32 where "UART_REG_HALT \<equiv> 0x070800a4"

record uart_state = rail_state +
  uart_pin_not_used :: u32
  uart_lock :: u32
  uart_rate :: u32

definition uart_divisor :: "u32 \<Rightarrow> u32 \<Rightarrow> u32 option" where
  "uart_divisor freq rate =
     (if freq = 0 \<or> rate = 0 then None
      else if rate > freq \<or> rate > 0xffffffff div 16 then None
      else let denominator = rate * 16 in
        if freq > 0xffffffff - denominator div 2 then None
        else let rounded = (freq + denominator div 2) div denominator in
          if rounded = 0 \<or> rounded > 0xffff then None else Some rounded)"

definition uart_set_baudrate :: "env \<Rightarrow> u32 \<Rightarrow> ('a uart_state_scheme, int) state" where
  "uart_set_baudrate E rate = do {
     w \<leftarrow> State_Monad.get;
     if uart_pin_not_used w \<noteq> 0 then ret (- EACCES)
     else do {
       empty \<leftarrow> poll E UART_REG_TFL (\<lambda>v. v = 0) UART_POLL_LIMIT;
       if \<not> empty then ret (- ETIMEOUT)
       else do {
         freq \<leftarrow> ccu_get_sclk_freq E CCU_SYS_CLK_APBS2;
         case uart_divisor freq rate of None \<Rightarrow> ret (- EINVAL)
         | Some dv \<Rightarrow> do {
             lcr \<leftarrow> readl E UART_REG_LCR;
             halt \<leftarrow> readl E UART_REG_HALT;
             _ \<leftarrow> writel (halt OR 0x2) UART_REG_HALT;
             _ \<leftarrow> writel (lcr OR 0x80) UART_REG_LCR;
             _ \<leftarrow> writel (dv AND 0xff) UART_REG_DLL;
             _ \<leftarrow> writel (drop_bit 8 dv AND 0xff) UART_REG_DLH;
             _ \<leftarrow> writel (lcr AND NOT 0x80) UART_REG_LCR;
             halt \<leftarrow> readl E UART_REG_HALT;
             _ \<leftarrow> writel (halt OR 0x4) UART_REG_HALT;
             updated \<leftarrow> poll E UART_REG_HALT (\<lambda>v. v AND 0x4 = 0) UART_POLL_LIMIT;
             if \<not> updated then do { _ \<leftarrow> writel lcr UART_REG_LCR; ret (- ETIMEOUT) }
             else do {
               halt \<leftarrow> readl E UART_REG_HALT;
               _ \<leftarrow> writel ((halt OR 0x4) AND NOT 0x2) UART_REG_HALT;
               _ \<leftarrow> State_Monad.update (\<lambda>w. w\<lparr>uart_rate := rate\<rparr>);
               ret OK
             }
           }
       }
     }
   }"

definition uart_get_baudrate :: "('a uart_state_scheme, u32) state" where
  "uart_get_baudrate = do { w \<leftarrow> State_Monad.get; ret (uart_rate w) }"

definition uart_clkchangecb :: "env \<Rightarrow> u32 \<Rightarrow> u32 \<Rightarrow> ('a uart_state_scheme, int) state" where
  "uart_clkchangecb E command freq = do {
     w \<leftarrow> State_Monad.get;
     if uart_pin_not_used w \<noteq> 0 then ret (- EACCES)
     else if command = CCU_CLK_CLKCHG_REQ then do {
       empty \<leftarrow> poll E UART_REG_USR (\<lambda>v. v AND 0x4 \<noteq> 0) UART_POLL_LIMIT;
       if \<not> empty then ret (- ETIMEOUT)
       else do { _ \<leftarrow> State_Monad.update (\<lambda>w. w\<lparr>uart_lock := 1\<rparr>); ret OK }
     } else if command = CCU_CLK_CLKCHG_DONE then do {
       r \<leftarrow> uart_set_baudrate E (uart_rate w);
       if r \<noteq> OK then ret r
       else do { _ \<leftarrow> State_Monad.update (\<lambda>w. w\<lparr>uart_lock := 0\<rparr>); ret OK }
     } else ret (- ESRCH)
   }"

definition uart_init :: "env \<Rightarrow> ('a uart_state_scheme, int) state" where
  "uart_init E = do {
     _ \<leftarrow> State_Monad.update (\<lambda>w. w\<lparr>uart_rate := UART_BAUDRATE\<rparr>);
     _ \<leftarrow> pin_set_multi_sel E PIN_GRP_PL 2 3;
     _ \<leftarrow> pin_set_multi_sel E PIN_GRP_PL 3 3;
     _ \<leftarrow> State_Monad.update (\<lambda>w. w\<lparr>uart_pin_not_used := 0\<rparr>);
     _ \<leftarrow> ccu_set_mclk_reset E CCU_MOD_CLK_R_UART CCU_CLK_NRESET;
     _ \<leftarrow> ccu_set_mclk_onoff E CCU_MOD_CLK_R_UART CCU_CLK_ON;
     apb0_clk \<leftarrow> ccu_get_sclk_freq E CCU_SYS_CLK_APBS2;
     w \<leftarrow> State_Monad.get;
     case uart_divisor apb0_clk (uart_rate w) of None \<Rightarrow> ret (- EINVAL)
     | Some dv \<Rightarrow> do {
         lcr \<leftarrow> readl E UART_REG_LCR;
         _ \<leftarrow> writel (lcr OR 0x80) UART_REG_LCR;
         _ \<leftarrow> writel (dv AND 0xff) UART_REG_DLL;
         _ \<leftarrow> writel (drop_bit 8 dv AND 0xff) UART_REG_DLH;
         _ \<leftarrow> writel 0 UART_REG_HALT;
         _ \<leftarrow> writel 3 UART_REG_LCR;
         _ \<leftarrow> writel 7 UART_REG_FCR;
         _ \<leftarrow> State_Monad.update (\<lambda>w. w\<lparr>uart_lock := 0\<rparr>);
         ret OK
       }
   }"

definition uart_exit :: "env \<Rightarrow> ('a uart_state_scheme, int) state" where
  "uart_exit E = do {
     _ \<leftarrow> State_Monad.update (\<lambda>w. w\<lparr>uart_lock := 1, uart_pin_not_used := 1\<rparr>);
     _ \<leftarrow> pin_set_multi_sel E PIN_GRP_PL 2 7;
     _ \<leftarrow> pin_set_multi_sel E PIN_GRP_PL 3 7;
     _ \<leftarrow> ccu_set_mclk_onoff E CCU_MOD_CLK_R_UART CCU_CLK_OFF;
     _ \<leftarrow> ccu_set_mclk_reset E CCU_MOD_CLK_R_UART CCU_CLK_RESET;
     ret OK
   }"

text \<open>A \<open>char\<close> of the platform is unsigned.\<close>

definition uart_putc :: "env \<Rightarrow> u8 \<Rightarrow> ('a uart_state_scheme, int) state" where
  "uart_putc E ch = do {
     w \<leftarrow> State_Monad.get;
     if uart_lock w \<noteq> 0 \<or> uart_pin_not_used w \<noteq> 0 then ret (- EACCES)
     else do {
       room \<leftarrow> poll E UART_REG_USR (\<lambda>v. v AND 2 \<noteq> 0) UART_POLL_LIMIT;
       if \<not> room then ret (- ETIMEOUT)
       else do { _ \<leftarrow> writel (ucast ch) UART_REG_THR; ret OK }
     }
   }"

fun uart_get_loop :: "env \<Rightarrow> nat \<Rightarrow> ('a uart_state_scheme, u8 list) state" where
  "uart_get_loop E 0 = do { _ \<leftarrow> hang; ret [] }"
| "uart_get_loop E (Suc n) = do {
     level \<leftarrow> readl E UART_REG_RFL;
     if level = 0 then ret []
     else do {
       c \<leftarrow> readl E UART_REG_RBR;
       cs \<leftarrow> uart_get_loop E n;
       ret (ucast (c AND 0xff) # cs)
     }
   }"

text \<open>The characters received, or the error; the source returns their number and has no bound.\<close>

definition uart_get :: "env \<Rightarrow> nat \<Rightarrow> ('a uart_state_scheme, int + u8 list) state" where
  "uart_get E fuel = do {
     w \<leftarrow> State_Monad.get;
     if uart_lock w \<noteq> 0 \<or> uart_pin_not_used w \<noteq> 0 then ret (Inl (- EACCES))
     else do { cs \<leftarrow> uart_get_loop E fuel; ret (Inr cs) }
   }"

fun uart_puts_loop :: "env \<Rightarrow> u8 list \<Rightarrow> ('a uart_state_scheme, int) state" where
  "uart_puts_loop E [] = ret OK"
| "uart_puts_loop E (c # cs) = do {
     r \<leftarrow> (if c = 10 then uart_putc E 13 else ret OK);
     if r \<noteq> OK then ret r
     else do {
       r \<leftarrow> uart_putc E c;
       if r \<noteq> OK then ret r else uart_puts_loop E cs
     }
   }"

definition uart_puts :: "env \<Rightarrow> u8 list \<Rightarrow> ('a uart_state_scheme, int) state" where
  "uart_puts E string = do {
     w \<leftarrow> State_Monad.get;
     if uart_lock w \<noteq> 0 \<or> uart_pin_not_used w \<noteq> 0 then ret (- EACCES) else uart_puts_loop E string
   }"

section \<open>The divisor\<close>

lemma uart_divisor_nat:
  assumes "freq \<noteq> 0" and "rate \<noteq> 0" and "rate \<le> freq" and "unat rate < 2 ^ 28"
  shows "uart_divisor freq rate = (let d = (unat freq + 8 * unat rate) div (16 * unat rate) in
     if 2 ^ 32 \<le> unat freq + 8 * unat rate \<or> d \<notin> {1..65535} then None else Some (of_nat d))"
proof -
  have den: "unat (rate * 16) = 16 * unat rate"
    using assms(4) by (simp add: unat_word_ariths)
  have half: "unat (rate * 16 div 2) = 8 * unat rate"
    by (simp add: unat_div den)
  have lim: "freq > 0xffffffff - rate * 16 div 2 \<longleftrightarrow> 2 ^ 32 \<le> unat freq + 8 * unat rate"
    using assms(4) half by (simp add: word_less_nat_alt unat_sub_if_size word_size) linarith
  have big: "\<not> rate > 0xffffffff div 16"
    using assms(4) by (simp add: word_less_nat_alt unat_div)
  have round: "unat ((freq + rate * 16 div 2) div (rate * 16)) = (unat freq + 8 * unat rate) div (16 * unat rate)"
    if "\<not> 2 ^ 32 \<le> unat freq + 8 * unat rate"
  proof -
    have "unat (freq + rate * 16 div 2) = unat freq + 8 * unat rate"
      using that by (simp add: unat_word_ariths(1) half)
    then show ?thesis by (simp add: unat_div den)
  qed
  have fits: "(x = 0 \<or> x > 0xffff) \<longleftrightarrow> unat x \<notin> {1..65535}" for x :: u32
    by (auto simp: word_less_nat_alt not_less_eq_eq [symmetric] simp flip: unat_eq_0)
  show ?thesis
    using assms(1-3) big lim round [symmetric]
    by (simp add: uart_divisor_def Let_def fits linorder_not_less del: atLeastAtMost_iff)
qed

text \<open>
  C23: the divisor of a baud rate. A divisor \<open>uart_divisor\<close> accepts fits the two latch registers and is
  the nearest one: the clock it stands for differs from the source clock by at most half a step. A
  request is refused only when a number is zero, the rate is above the clock, the sums would leave
  32 bits, or the nearest divisor does not fit.
\<close>

theorem uart_divisor_nearest:
  "case uart_divisor freq rate of
     Some d \<Rightarrow> 1 \<le> unat d \<and> unat d \<le> 65535 \<and> \<bar>int (unat freq) - 16 * int (unat rate) * int (unat d)\<bar> \<le> 8 * int (unat rate)
   | None \<Rightarrow> freq = 0 \<or> rate = 0 \<or> freq < rate \<or> 2 ^ 32 \<le> unat freq + 8 * unat rate \<or> 2 ^ 28 \<le> unat rate \<or>
       (unat freq + 8 * unat rate) div (16 * unat rate) < 1 \<or> 65535 < (unat freq + 8 * unat rate) div (16 * unat rate)"
proof -
  consider (bad) "freq = 0 \<or> rate = 0 \<or> freq < rate \<or> 2 ^ 28 \<le> unat rate"
    | (ok) "freq \<noteq> 0" "rate \<noteq> 0" "rate \<le> freq" "unat rate < 2 ^ 28"
    by fastforce
  then show ?thesis
  proof cases
    case bad
    have "uart_divisor freq rate = None" if "2 ^ 28 \<le> unat rate"
      using that by (simp add: uart_divisor_def word_less_nat_alt unat_div)
    with bad have "uart_divisor freq rate = None" by (auto simp: uart_divisor_def)
    with bad show ?thesis by auto
  next
    case ok
    define d where "d = (unat freq + 8 * unat rate) div (16 * unat rate)"
    have r: "0 < unat rate" using ok(2) by (simp add: unat_gt_0)
    have "16 * unat rate * d \<le> unat freq + 8 * unat rate" "unat freq + 8 * unat rate < 16 * unat rate * d + 16 * unat rate"
      using times_div_less_eq_dividend [of "16 * unat rate" "unat freq + 8 * unat rate"]
        dividend_less_times_div [of "16 * unat rate" "unat freq + 8 * unat rate"] r unfolding d_def by linarith+
    then have "int (16 * unat rate * d) \<le> int (unat freq + 8 * unat rate)"
      "int (unat freq + 8 * unat rate) < int (16 * unat rate * d + 16 * unat rate)"
      by (simp_all only: of_nat_le_iff of_nat_less_iff)
    then have near: "\<bar>int (unat freq) - 16 * int (unat rate) * int d\<bar> \<le> 8 * int (unat rate)"
      unfolding of_nat_mult of_nat_add of_nat_numeral abs_le_iff by linarith
    show ?thesis
      using near ok by (auto simp: uart_divisor_nat Let_def d_def [symmetric] unat_of_nat)
  qed
qed

end
