(* ===== verification/Dram_Crc.thy ===== *)
theory Dram_Crc
  imports Arisc
begin

text \<open>
  The memory check of the AR100S standby service
  (\<^verbatim>\<open>src/ar100s/service/standby/standby_dram_crc.c\<close>): the guarded parameters and the checksum
  over DRAM, which is proved to be the usual byte-wise CRC-32.
\<close>

unbundle bit_operations_syntax

section \<open>Model\<close>

abbreviation (input) DRAM_CRC_MAX_LEN :: u32 where "DRAM_CRC_MAX_LEN \<equiv> 0x1000000"
abbreviation (input) ARISC_DRAM_BASE :: u32 where "ARISC_DRAM_BASE \<equiv> 0x40000000"
abbreviation (input) ARISC_DRAM_END :: u32 where "ARISC_DRAM_END \<equiv> 0x80000000"

record crc_paras =
  dram_crc_enable :: u32
  dram_crc_src :: u32
  dram_crc_len :: u32

definition crc_paras_init :: crc_paras where
  "crc_paras_init = \<lparr>dram_crc_enable = 0, dram_crc_src = 0x40000000, dram_crc_len = 1024 * 1024\<rparr>"

definition standby_set_dram_crc_paras :: "u32 \<Rightarrow> u32 \<Rightarrow> u32 \<Rightarrow> crc_paras \<Rightarrow> int \<times> crc_paras" where
  "standby_set_dram_crc_paras enable src len p =
     (if enable > 1 then (- EINVAL, p)
      else if enable = 0 then (OK, p\<lparr>dram_crc_enable := 0\<rparr>)
      else if src AND (4 - 1) \<noteq> 0 \<or> len AND (4 - 1) \<noteq> 0 \<or> len = 0 \<or> len > DRAM_CRC_MAX_LEN \<or>
              src < ARISC_DRAM_BASE \<or> src \<ge> ARISC_DRAM_END \<or> len > ARISC_DRAM_END - src
      then (- EINVAL, p)
      else (OK, p\<lparr>dram_crc_enable := enable, dram_crc_src := src, dram_crc_len := len\<rparr>))"

definition standby_dram_crc_enable :: "crc_paras \<Rightarrow> int" where
  "standby_dram_crc_enable p = sint (dram_crc_enable p)"

text \<open>One round of the loop over the bits of a word.\<close>

definition crc_bit :: "u32 \<times> u32 \<Rightarrow> u32 \<times> u32" where
  "crc_bit = (\<lambda>(crc, v). let m = 0 - ((crc XOR v) AND 1) in
     (drop_bit 1 crc XOR (0xedb88320 AND m), drop_bit 1 v))"

partial_function (option) crc_loop :: "memory \<Rightarrow> u32 \<Rightarrow> u32 \<Rightarrow> u32 \<Rightarrow> u32 option" where
  "crc_loop m pdata end_addr crc =
     (if pdata < end_addr
      then crc_loop m (pdata + 4) end_addr (fst ((crc_bit ^^ 32) (crc, load32 m pdata)))
      else Some crc)"

text \<open>\<open>None\<close> is a loop that does not end.\<close>

definition standby_dram_crc :: "memory \<Rightarrow> crc_paras \<Rightarrow> u32 option" where
  "standby_dram_crc m p =
     map_option (\<lambda>crc. NOT crc) (crc_loop m (dram_crc_src p) (dram_crc_src p + dram_crc_len p) 0xffffffff)"

section \<open>The parameters\<close>

text \<open>The range of an enabled check is a non-empty, aligned part of DRAM of at most 16 MiB.\<close>

definition crc_range_ok :: "crc_paras \<Rightarrow> bool" where
  "crc_range_ok p \<longleftrightarrow> 4 dvd unat (dram_crc_src p) \<and> 4 dvd unat (dram_crc_len p) \<and> 0 < unat (dram_crc_len p) \<and>
     unat (dram_crc_len p) \<le> 0x1000000 \<and> 0x40000000 \<le> unat (dram_crc_src p) \<and>
     unat (dram_crc_src p) + unat (dram_crc_len p) \<le> 0x80000000"

lemma and_3_dvd: "x AND 3 = 0 \<longleftrightarrow> 4 dvd unat (x :: u32)"
proof -
  have "x AND 3 = take_bit 2 x" by (simp add: take_bit_eq_mask mask_eq_exp_minus_1)
  then have "unat (x AND 3) = unat x mod 4" by (simp add: take_bit_eq_mod unat_mod)
  then show ?thesis by (metis dvd_eq_mod_eq_0 unat_0 unat_eq_zero)
qed

text \<open>
  The guard of the memory check. \<open>standby_set_dram_crc_paras\<close> accepts exactly the requests
  to disable the check and the requests to enable it on a non-empty, word-aligned range of at
  most 16 MiB inside DRAM; an accepted range is stored, a refused request changes nothing, and
  the stored range is always such a range.
\<close>
theorem standby_set_dram_crc_paras_correct:
  assumes "crc_range_ok p" and "standby_set_dram_crc_paras enable src len p = (r, p')"
  shows "crc_range_ok p' \<and>
    (r = 0 \<longleftrightarrow> enable = 0 \<or> enable = 1 \<and>
       crc_range_ok \<lparr>dram_crc_enable = enable, dram_crc_src = src, dram_crc_len = len\<rparr>) \<and>
    (r = 0 \<longrightarrow> p' = (if enable = 0 then p\<lparr>dram_crc_enable := 0\<rparr>
       else \<lparr>dram_crc_enable = 1, dram_crc_src = src, dram_crc_len = len\<rparr>)) \<and>
    (r \<noteq> 0 \<longrightarrow> r = - EINVAL \<and> p' = p)"
proof (cases "enable = 1")
  case False
  then have "enable > 1 \<or> enable = 0"
    by (metis linorder_cases word_gt_0_no word_less_1)
  then show ?thesis
    using assms by (auto simp: standby_set_dram_crc_paras_def crc_range_ok_def split: if_splits)
next
  case True
  let ?bad = "src AND (4 - 1) \<noteq> 0 \<or> len AND (4 - 1) \<noteq> 0 \<or> len = 0 \<or> len > DRAM_CRC_MAX_LEN \<or>
              src < ARISC_DRAM_BASE \<or> src \<ge> ARISC_DRAM_END \<or> len > ARISC_DRAM_END - src"
  let ?q = "\<lparr>dram_crc_enable = 1, dram_crc_src = src, dram_crc_len = len\<rparr>"
  have "unat (ARISC_DRAM_END - src) = 0x80000000 - unat src" if "\<not> src \<ge> ARISC_DRAM_END"
    using that by (subst unat_sub) (auto simp: word_le_nat_alt)
  moreover have "0 < unat len \<longleftrightarrow> len \<noteq> 0" by (simp add: unat_gt_0)
  ultimately have "?bad \<longleftrightarrow> \<not> crc_range_ok ?q"
    by (cases "src \<ge> ARISC_DRAM_END")
      (auto simp: crc_range_ok_def and_3_dvd word_less_nat_alt word_le_nat_alt not_le simp del: unat_gt_0)
  then show ?thesis
    using True assms by (cases p) (auto simp: standby_set_dram_crc_paras_def split: if_splits)
qed

theorem standby_set_dram_crc_paras_correct_witness:
  "crc_range_ok (snd (standby_set_dram_crc_paras 1 0x40100000 0x100 crc_paras_init)) \<and>
   fst (standby_set_dram_crc_paras 1 0x7ffffff0 0x100 crc_paras_init) = - EINVAL"
  using standby_set_dram_crc_paras_correct [of crc_paras_init 1 "0x40100000" "0x100",
      OF _ surjective_pairing]
    standby_set_dram_crc_paras_correct [of crc_paras_init 1 "0x7ffffff0" "0x100", OF _ surjective_pairing]
  by (simp add: crc_range_ok_def crc_paras_init_def)


section \<open>The checksum\<close>

text \<open>The reflected CRC-32 register, shifted by one bit, and the checksum of a byte string.\<close>

definition crc_shift :: "u32 \<Rightarrow> u32" where
  "crc_shift c = (if bit c 0 then drop_bit 1 c XOR 0xedb88320 else drop_bit 1 c)"

definition crc_byte :: "u32 \<Rightarrow> u8 \<Rightarrow> u32" where
  "crc_byte c b = (crc_shift ^^ 8) (c XOR ucast b)"

definition crc32 :: "u8 list \<Rightarrow> u32" where
  "crc32 bs = NOT (foldl crc_byte 0xffffffff bs)"

lemma u8_bit: "bit (b :: u8) n \<Longrightarrow> n < 8"
  by (drule bit_imp_le_length) simp

lemma xor_cancel: "x XOR (x XOR y) = (y :: u32)"
  by (simp add: xor.assoc [symmetric])

lemmas xor_ac = xor.assoc xor.commute xor.left_commute xor_cancel

lemma crc_shift_xor: "crc_shift (a XOR b) = crc_shift a XOR crc_shift b"
  by (cases "bit a 0"; cases "bit b 0") (simp_all add: crc_shift_def bit_xor_iff drop_bit_xor xor_ac)

lemma crc_shift_pow_xor: "(crc_shift ^^ n) (a XOR b) = (crc_shift ^^ n) a XOR (crc_shift ^^ n) b"
  by (induction n) (simp_all add: crc_shift_xor)

text \<open>The loop over the bits keeps the register and the rest of the word apart.\<close>

lemma crc_bit_invariant: "fst (crc_bit s) XOR snd (crc_bit s) = crc_shift (fst s XOR snd s)"
proof -
  obtain crc v where s: "s = (crc, v)" by fastforce
  have m: "0 - (x AND 1) = (if bit x 0 then -1 else 0)" for x :: u32
    by (simp add: and_one_eq odd_iff_mod_2_eq_one bit_0)
  show ?thesis
    unfolding s crc_bit_def Let_def crc_shift_def m prod.case fst_conv snd_conv
    by (simp add: drop_bit_xor xor_ac)
qed

lemma crc_bit_pow: "fst ((crc_bit ^^ n) s) XOR snd ((crc_bit ^^ n) s) = (crc_shift ^^ n) (fst s XOR snd s)"
  by (induction n) (simp_all add: crc_bit_invariant)

lemma crc_bit_pow_snd: "snd ((crc_bit ^^ n) s) = drop_bit n (snd s)"
  by (induction n) (simp_all add: crc_bit_def split_beta Let_def)

lemma crc_word: "fst ((crc_bit ^^ 32) (crc, v)) = (crc_shift ^^ 32) (crc XOR v)"
proof -
  have "drop_bit 32 v = 0" by (rule bit_word_eqI) (simp add: bit_simps)
  then show ?thesis using crc_bit_pow [of 32 "(crc, v)"] crc_bit_pow_snd [of 32 "(crc, v)"] by simp
qed

text \<open>Bits above the shifted ones only move down.\<close>

lemma crc_shift_pow_low: "take_bit n y = 0 \<Longrightarrow> (crc_shift ^^ n) y = drop_bit n y"
proof (induction n arbitrary: y)
  case (Suc n)
  have bits: "\<not> bit y i" if "i < Suc n" for i
    using Suc.prems that by (metis bit_0_eq bit_take_bit_iff bot_apply bot_bool_def)
  have "crc_shift y = drop_bit 1 y" using bits [of 0] by (simp add: crc_shift_def)
  moreover have "take_bit n (drop_bit 1 y) = 0"
    by (rule bit_word_eqI) (use bits in \<open>auto simp: bit_simps\<close>)
  ultimately show ?case using Suc.IH [of "drop_bit 1 y"] by (simp add: funpow_Suc_right del: funpow.simps)
qed simp

lemma crc_shift_byte:
  "(crc_shift ^^ (8 + n)) (c XOR (ucast (b :: u8) OR push_bit 8 y)) = (crc_shift ^^ n) (crc_byte c b XOR take_bit 24 y)"
proof -
  have "ucast b OR push_bit 8 y = ucast b XOR push_bit 8 (take_bit 24 y)"
    by (rule bit_word_eqI) (auto simp: bit_simps dest: u8_bit)
  moreover have "(crc_shift ^^ 8) (push_bit 8 (take_bit 24 y)) = take_bit 24 y"
  proof -
    have "take_bit 8 (push_bit 8 (take_bit 24 y)) = 0" by (rule bit_word_eqI) (auto simp: bit_simps)
    moreover have "drop_bit 8 (push_bit 8 (take_bit 24 y)) = take_bit 24 y"
      by (rule bit_word_eqI) (auto simp: bit_simps)
    ultimately show ?thesis by (simp add: crc_shift_pow_low)
  qed
  ultimately have "(crc_shift ^^ 8) (c XOR (ucast b OR push_bit 8 y)) = crc_byte c b XOR take_bit 24 y"
    by (simp add: crc_byte_def crc_shift_pow_xor xor.assoc [symmetric])
  moreover have "(crc_shift ^^ (8 + n)) x = (crc_shift ^^ n) ((crc_shift ^^ 8) x)" for x
    by (simp add: add.commute [of 8 n] funpow_add)
  ultimately show ?thesis by simp
qed

definition bytes4 :: "memory \<Rightarrow> u32 \<Rightarrow> u8 list" where
  "bytes4 m a = [m a, m (a + 1), m (a + 2), m (a + 3)]"

lemma crc_word_bytes: "fst ((crc_bit ^^ 32) (crc, load32 m a)) = foldl crc_byte crc (bytes4 m a)"
proof -
  let ?y = "\<lambda>i. ucast (m (a + i)) :: u32"
  have t: "take_bit 24 (ucast b OR push_bit 8 y) = ucast b OR push_bit 8 (take_bit 16 y)"
    "take_bit 16 (ucast b OR push_bit 8 y) = ucast b OR push_bit 8 (take_bit 8 y)" for b :: u8 and y :: u32
    by (rule bit_word_eqI, auto simp: bit_simps dest: u8_bit)+
  have z: "take_bit 24 (take_bit n y) = take_bit (min 24 n) y" "take_bit 16 (ucast b :: u32) = ucast b"
    "take_bit 8 (ucast b :: u32) = ucast b" "take_bit 24 (ucast b :: u32) = ucast b" for n and y :: u32 and b :: u8
    by (simp, (rule bit_word_eqI, auto simp: bit_simps dest: u8_bit)+)
  have w: "load32 m a = ?y 0 OR push_bit 8 (?y 1 OR push_bit 8 (?y 2 OR push_bit 8 (?y 3)))"
    by (simp add: load32_def push_bit_or or.assoc)
  have "(crc_shift ^^ 32) (crc XOR load32 m a) = (crc_shift ^^ (8 + (8 + (8 + (8 + 0))))) (crc XOR load32 m a)" by simp
  also have "\<dots> = foldl crc_byte crc (bytes4 m a)"
    unfolding w crc_shift_byte t z(2) using crc_shift_byte [of 0 _ _ 0] by (simp add: bytes4_def t z crc_shift_byte)
  finally show ?thesis by (simp add: crc_word)
qed


text \<open>The bytes of a range of whole words.\<close>

definition range_bytes :: "memory \<Rightarrow> u32 \<Rightarrow> nat \<Rightarrow> u8 list" where
  "range_bytes m a n = map (\<lambda>i. m (a + of_nat i)) [0..<n]"

lemma range_bytes_Suc4: "range_bytes m a (4 * Suc k) = bytes4 m a @ range_bytes m (a + 4) (4 * k)"
proof -
  have "[0..<4 * Suc k] = [0, 1, 2, 3] @ map (\<lambda>i. i + 4) [0..<4 * k]"
    using upt_add_eq_append [of 0 4 "4 * k"] map_add_upt [of 4 "4 * k"]
    by (simp add: add.commute upt_rec)
  then show ?thesis by (simp add: range_bytes_def bytes4_def ac_simps)
qed

lemma crc_loop_bytes:
  "unat pdata + 4 * k < 2 ^ 32 \<Longrightarrow>
     crc_loop m pdata (pdata + of_nat (4 * k)) crc = Some (foldl crc_byte crc (range_bytes m pdata (4 * k)))"
proof (induction k arbitrary: pdata crc)
  case 0
  then show ?case by (simp add: crc_loop.simps range_bytes_def)
next
  case (Suc k)
  have n: "unat (of_nat (4 * Suc k) :: u32) = 4 * Suc k"
    by (subst unat_of_nat, rule mod_less) (use Suc.prems in simp)
  have "unat (pdata + of_nat (4 * Suc k)) = unat pdata + 4 * Suc k"
    unfolding unat_word_ariths(1) n by (rule mod_less) (use Suc.prems in simp)
  then have less: "pdata < pdata + of_nat (4 * Suc k)" by (simp add: word_less_nat_alt)
  have "unat (pdata + 4) = unat pdata + 4" using Suc.prems by (simp add: unat_word_ariths)
  then have IH: "crc_loop m (pdata + 4) (pdata + 4 + of_nat (4 * k)) c =
      Some (foldl crc_byte c (range_bytes m (pdata + 4) (4 * k)))" for c
    using Suc.prems by (intro Suc.IH) simp
  have e: "pdata + of_nat (4 * Suc k) = pdata + 4 + of_nat (4 * k)" by (simp add: algebra_simps)
  show ?case
    using less IH [unfolded e [symmetric]]
    by (simp add: crc_loop.simps [of m pdata] crc_word_bytes range_bytes_Suc4 del: mult_Suc_right)
qed

text \<open>
  C40: the memory check computes the CRC-32 of the range. For the parameters that the guard
  accepts the word-wise loop ends, and its value is the byte-wise CRC-32 of the bytes of the
  range in address order.
\<close>
theorem standby_dram_crc_is_crc32:
  assumes "crc_range_ok p"
  shows "standby_dram_crc m p = Some (crc32 (range_bytes m (dram_crc_src p) (unat (dram_crc_len p))))"
proof -
  obtain k where k: "unat (dram_crc_len p) = 4 * k" using assms by (auto simp: crc_range_ok_def dvd_def)
  have len: "dram_crc_len p = of_nat (4 * k)" unfolding k [symmetric] by simp
  have "unat (dram_crc_src p) + 4 * k < 2 ^ 32" using assms k by (simp add: crc_range_ok_def)
  from crc_loop_bytes [OF this, of m "0xffffffff", folded len]
  show ?thesis by (simp add: standby_dram_crc_def crc32_def k)
qed

theorem standby_dram_crc_is_crc32_witness:
  "standby_dram_crc (\<lambda>a. ucast a) (crc_paras_init\<lparr>dram_crc_len := 8\<rparr>) = Some (crc32 [0, 1, 2, 3, 4, 5, 6, 7])"
proof -
  have "range_bytes (\<lambda>a. ucast a) 0x40000000 8 = [0, 1, 2, 3, 4, 5, 6, 7]"
    by (simp add: range_bytes_def upt_rec)
  then show ?thesis
    using standby_dram_crc_is_crc32 [of "crc_paras_init\<lparr>dram_crc_len := 8\<rparr>" "\<lambda>a. ucast a"]
    by (simp add: crc_range_ok_def crc_paras_init_def)
qed

end
