(* ===== verification/Standby_Hw.thy ===== *)
theory Standby_Hw
  imports Uart Dram_Crc
begin

text \<open>
  The hardware side of standby: the parts of
  \<^verbatim>\<open>src/ar100s/service/standby/standby-sun60iw2p1/plat_standby.c\<close> that save a piece of hardware before
  the supplies go down and bring it back afterwards: time stamp, PLLs, bus clocks, processor clocks,
  the memory protection regions, the USB isolation and the power domains. Arguments of log calls that
  read a register are reads of the model. The record extends that of the UART driver by the static
  variables of the file.
\<close>

unbundle bit_operations_syntax

section \<open>State\<close>

record pll_pama =
  pll_addr :: u32
  pll_value :: u32

record bus_pama =
  busAddr :: u32
  bus_clk_src :: u8
  bus_M :: u8
  bus_flag :: u8

record smc_region =
  region_low :: u32
  region_high :: u32
  region_attr :: u32

datatype bus_clock_mode = osc_24M | rtc_32k | rc16m | pll_peri0 | clock_bak | ccmu_clk | prcm_clk | bus_clk
  | gic_tra_clk | start_clk | close_clk

fun clock_mode_value :: "bus_clock_mode \<Rightarrow> u32" where
  "clock_mode_value osc_24M = 0"
| "clock_mode_value rtc_32k = 1"
| "clock_mode_value rc16m = 2"
| "clock_mode_value pll_peri0 = 3"
| "clock_mode_value clock_bak = 4"
| "clock_mode_value ccmu_clk = 5"
| "clock_mode_value prcm_clk = 6"
| "clock_mode_value bus_clk = 7"
| "clock_mode_value gic_tra_clk = 8"
| "clock_mode_value start_clk = 9"
| "clock_mode_value close_clk = 10"

datatype pll_state = pll_disable | pll_enable

record standby_state = uart_state +
  standby_result :: int
  standby_type :: u32
  usb_standby_port :: u32
  cpu_pll_restore_bak :: "u32 list"
  cpu_clk_restore_bak :: "u32 list"
  timestamp_cnt_low_bak :: u32
  timestamp_cnt_hi_bak :: u32
  timestamp_cnt_freqid_bak :: u32
  rtc_last_time :: u64
  pll_restore :: "pll_pama list"
  bus_restore :: "bus_pama list"
  bus_ctl_addr :: "u32 list"
  bus_ctl_value :: "u32 list"
  para_has_parsed :: u32
  dts_has_parsed :: u32
  smc_region_save :: "smc_region list"
  cpu_direct_access :: u32
  before_crc :: u32
  after_crc :: u32
  crc_para :: crc_paras
  platform_dram_para :: "u32 list option"

abbreviation (input) STANDBY_HW_POLL_LIMIT :: nat where "STANDBY_HW_POLL_LIMIT \<equiv> 100000"
abbreviation (input) CPUS_WAKEUP_USB :: u32 where "CPUS_WAKEUP_USB \<equiv> 0x2000"

section \<open>Time stamp\<close>

abbreviation (input) RTC_YMD :: u32 where "RTC_YMD \<equiv> 0x07090010"
abbreviation (input) RTC_HMS :: u32 where "RTC_HMS \<equiv> 0x07090014"
abbreviation (input) SUNXI_TIMESTAMP_STA_CNT_LOW_REG :: u32 where "SUNXI_TIMESTAMP_STA_CNT_LOW_REG \<equiv> 0x08010000"
abbreviation (input) SUNXI_TIMESTAMP_STA_CNT_HI_REG :: u32 where "SUNXI_TIMESTAMP_STA_CNT_HI_REG \<equiv> 0x08010004"
abbreviation (input) TS_CTRL_REG_BASE :: u32 where "TS_CTRL_REG_BASE \<equiv> 0x08020000"
abbreviation (input) SUNXI_TIMESTAMP_CTRL_CNT_LOW_REG :: u32 where "SUNXI_TIMESTAMP_CTRL_CNT_LOW_REG \<equiv> 0x08020008"
abbreviation (input) SUNXI_TIMESTAMP_CTRL_CNT_HI_REG :: u32 where "SUNXI_TIMESTAMP_CTRL_CNT_HI_REG \<equiv> 0x0802000c"
abbreviation (input) SUNXI_TIMESTAMP_CTRL_CNT_FREQID_REG :: u32 where "SUNXI_TIMESTAMP_CTRL_CNT_FREQID_REG \<equiv> 0x08020020"

text \<open>The days are multiplied in 32 bits, as in the source.\<close>

definition rtc_get_timestamp_in_seconds_since :: "env \<Rightarrow> u64 \<Rightarrow> ('a machine_scheme, u64) state" where
  "rtc_get_timestamp_in_seconds_since E since = do {
     v \<leftarrow> readl E RTC_YMD;
     let rtc_ymd = v AND 0xFFFF;
     rtc_hms \<leftarrow> readl E RTC_HMS;
     let rtc_s = ucast (rtc_ymd * 24 * 3600) + ucast (rtc_hms AND 0x3F)
       + ucast (drop_bit 8 (rtc_hms AND 0x3F00) * 60) + ucast (drop_bit 16 (rtc_hms AND 0x1F0000) * 3600);
     ret (if since \<noteq> 0 then rtc_s - since else rtc_s)
   }"

definition sunxi_timestamp_suspend :: "env \<Rightarrow> ('a standby_state_scheme, unit) state" where
  "sunxi_timestamp_suspend E = do {
     low \<leftarrow> readl E SUNXI_TIMESTAMP_STA_CNT_LOW_REG;
     hi \<leftarrow> readl E SUNXI_TIMESTAMP_STA_CNT_HI_REG;
     freqid \<leftarrow> readl E SUNXI_TIMESTAMP_CTRL_CNT_FREQID_REG;
     _ \<leftarrow> State_Monad.update (\<lambda>w. w\<lparr>timestamp_cnt_low_bak := low, timestamp_cnt_hi_bak := hi,
            timestamp_cnt_freqid_bak := freqid\<rparr>);
     s \<leftarrow> rtc_get_timestamp_in_seconds_since E 0;
     State_Monad.update (\<lambda>w. w\<lparr>rtc_last_time := s\<rparr>)
   }"

definition sunxi_timestamp_resume :: "env \<Rightarrow> ('a standby_state_scheme, unit) state" where
  "sunxi_timestamp_resume E = do {
     w \<leftarrow> State_Monad.get;
     let timestamp_last_cnt = push_bit 32 (ucast (timestamp_cnt_hi_bak w)) OR ucast (timestamp_cnt_low_bak w);
     rtc_suspend_time_s \<leftarrow> rtc_get_timestamp_in_seconds_since E (rtc_last_time w);
     let timestamp_last_cnt = timestamp_last_cnt + rtc_suspend_time_s * ucast (timestamp_cnt_freqid_bak w);
     _ \<leftarrow> writel 0 TS_CTRL_REG_BASE;
     _ \<leftarrow> writel (timestamp_cnt_freqid_bak w) SUNXI_TIMESTAMP_CTRL_CNT_FREQID_REG;
     _ \<leftarrow> writel (ucast (timestamp_last_cnt AND 0xffffffff)) SUNXI_TIMESTAMP_CTRL_CNT_LOW_REG;
     _ \<leftarrow> writel (ucast (drop_bit 32 timestamp_last_cnt AND 0xffffffff)) SUNXI_TIMESTAMP_CTRL_CNT_HI_REG;
     writel 1 TS_CTRL_REG_BASE
   }"

section \<open>Preparation\<close>

abbreviation (input) BUS_AUTO_CLK_REG :: u32 where "BUS_AUTO_CLK_REG \<equiv> 0x0701033c"
abbreviation (input) DEV_BUS_CTL_REG :: u32 where "DEV_BUS_CTL_REG \<equiv> 0x07010338"
abbreviation (input) MSRA_CTL_REG :: u32 where "MSRA_CTL_REG \<equiv> 0x07010360"
abbreviation (input) R_CPUCFG_REG_BASE :: u32 where "R_CPUCFG_REG_BASE \<equiv> 0x07050000"

text \<open>\<open>mmio_clrbits_32\<close> and \<open>mmio_setbits_32\<close> are the read-modify-writes that clear and set bits.\<close>

definition rv_low_power_mode :: "env \<Rightarrow> ('a machine_scheme, unit) state" where
  "rv_low_power_mode E = do {
     _ \<leftarrow> mmio_clrbits_32 E BUS_AUTO_CLK_REG 0x01000001;
     _ \<leftarrow> mmio_setbits_32 E DEV_BUS_CTL_REG 0xf01;
     _ \<leftarrow> mmio_setbits_32 E MSRA_CTL_REG 1;
     mmio_clrbits_32 E R_CPUCFG_REG_BASE 1
   }"

text \<open>The addresses of the PLL, bus clock and clock control registers, in the order of the tables.\<close>

definition pll_addrs :: "u32 list" where
  "pll_addrs = [0x02002000, 0x02002020, 0x020020a0, 0x020020c0, 0x020020e0, 0x02002120, 0x02002140, 0x02002160,
     0x02002220, 0x02002240, 0x02002260, 0x02002280, 0x020022a0, 0x020022e0]"

definition bus_addrs :: "u32 list" where
  "bus_addrs = [0x02002500, 0x02002510, 0x02002518, 0x02002538, CPUS_CFG_REG, APBS0_CFG_REG, APBS1_CFG_REG]"

definition ctl_addrs :: "u32 list" where
  "ctl_addrs = [0x02002580, 0x02002588, 0x02002560, 0x02002540]"

definition suspend_para_prepare :: "('a standby_state_scheme, unit) state" where
  "suspend_para_prepare = State_Monad.update (\<lambda>w.
     if para_has_parsed w \<noteq> 0 then w
     else w\<lparr>pll_restore := map2 (\<lambda>a p. p\<lparr>pll_addr := a\<rparr>) pll_addrs (pll_restore w),
       bus_restore := map2 (\<lambda>a b. b\<lparr>busAddr := a\<rparr>) bus_addrs (bus_restore w),
       bus_ctl_addr := ctl_addrs,
       para_has_parsed := 1\<rparr>)"

definition dcxo_disable :: "env \<Rightarrow> ('a rail_state_scheme, unit) state" where
  "dcxo_disable E = do {
     v \<leftarrow> readl E RTC_XO_CTRL_REG;
     w \<leftarrow> State_Monad.get;
     if standby_osc24m_on w = 0 \<and> v AND 0x80000000 \<noteq> 0 then do { _ \<leftarrow> ccu_24mhosc_disable E; ret () } else ret ()
   }"

definition dcxo_enable :: "env \<Rightarrow> nat \<Rightarrow> ('a rail_state_scheme, unit) state" where
  "dcxo_enable E fuel = do {
     v \<leftarrow> readl E RTC_XO_CTRL_REG;
     w \<leftarrow> State_Monad.get;
     if standby_osc24m_on w = 0 \<and> v AND 0x80000000 \<noteq> 0
     then do { _ \<leftarrow> ccu_24mhosc_enable E fuel; time_mdelay E fuel 1 } else ret ()
   }"

section \<open>Memory protection\<close>

abbreviation (input) SID_SEC_MODE_STA :: u32 where "SID_SEC_MODE_STA \<equiv> 0x030060a0"
abbreviation (input) SMC_ACTION_REG :: u32 where "SMC_ACTION_REG \<equiv> 0x0A000004"
abbreviation (input) SMC_FUNCTION_BYPASS :: u32 where "SMC_FUNCTION_BYPASS \<equiv> 0x40"
abbreviation (input) SMC_ITLV_CTRL_REG :: u32 where "SMC_ITLV_CTRL_REG \<equiv> 0x0A000018"
abbreviation (input) SMC_MST0_BYP_REG :: u32 where "SMC_MST0_BYP_REG \<equiv> 0x0A000070"
abbreviation (input) SMC_MST1_BYP_REG :: u32 where "SMC_MST1_BYP_REG \<equiv> 0x0A000074"
abbreviation (input) SMC_MST0_SEC_REG :: u32 where "SMC_MST0_SEC_REG \<equiv> 0x0A000080"
abbreviation (input) SMC_MST1_SEC_REG :: u32 where "SMC_MST1_SEC_REG \<equiv> 0x0A000084"
abbreviation (input) SMC_REGION_COUNT :: nat where "SMC_REGION_COUNT \<equiv> 8"
abbreviation (input) SMC_REGION_SETUP_LOW_REG :: "nat \<Rightarrow> u32" where "SMC_REGION_SETUP_LOW_REG x \<equiv> 0x0A000100 + 0x10 * of_nat x"
abbreviation (input) SMC_REGION_SETUP_HIGH_REG :: "nat \<Rightarrow> u32" where "SMC_REGION_SETUP_HIGH_REG x \<equiv> 0x0A000104 + 0x10 * of_nat x"
abbreviation (input) SMC_REGION_ATTRIBUTE_REG :: "nat \<Rightarrow> u32" where "SMC_REGION_ATTRIBUTE_REG x \<equiv> 0x0A000108 + 0x10 * of_nat x"

definition is_chip_secure :: "env \<Rightarrow> ('a machine_scheme, bool) state" where
  "is_chip_secure E = do { v \<leftarrow> readl E SID_SEC_MODE_STA; ret (v AND 1 \<noteq> 0) }"

definition smc_write_reg :: "u32 \<Rightarrow> u32 \<Rightarrow> ('a machine_scheme, unit) state" where
  "smc_write_reg val paddr = do { _ \<leftarrow> writel val paddr; writel val (paddr + 0x10000) }"

definition sunxi_smc_en :: "('a machine_scheme, unit) state" where
  "sunxi_smc_en = smc_write_reg 0 SMC_ACTION_REG"

definition sunxi_smc_en_with_glitch_workaround :: "env \<Rightarrow> ('a machine_scheme, unit) state" where
  "sunxi_smc_en_with_glitch_workaround E = do {
     secure \<leftarrow> is_chip_secure E;
     if \<not> secure then ret () else sunxi_smc_en
   }"

fun smc_save_loop :: "env \<Rightarrow> nat list \<Rightarrow> ('a standby_state_scheme, unit) state" where
  "smc_save_loop E [] = ret ()"
| "smc_save_loop E (i # is) = do {
     v \<leftarrow> readl E (SMC_REGION_ATTRIBUTE_REG i);
     if v = 0 then ret ()
     else do {
       low \<leftarrow> readl E (SMC_REGION_SETUP_LOW_REG i);
       high \<leftarrow> readl E (SMC_REGION_SETUP_HIGH_REG i);
       attr \<leftarrow> readl E (SMC_REGION_ATTRIBUTE_REG i);
       _ \<leftarrow> State_Monad.update (\<lambda>w. w\<lparr>smc_region_save := (smc_region_save w)[i :=
              \<lparr>region_low = low, region_high = high, region_attr = attr\<rparr>]\<rparr>);
       smc_save_loop E is
     }
   }"

definition smc_standby_init :: "env \<Rightarrow> ('a standby_state_scheme, unit) state" where
  "smc_standby_init E = smc_save_loop E [0..<SMC_REGION_COUNT]"

text \<open>\<open>read_idx\<close> and \<open>resume_idx\<close> of the source are equal throughout.\<close>

fun smc_restore_loop :: "nat list \<Rightarrow> ('a standby_state_scheme, unit) state" where
  "smc_restore_loop [] = ret ()"
| "smc_restore_loop (i # is) = do {
     w \<leftarrow> State_Monad.get;
     let s = smc_region_save w ! i;
     if region_attr s = 0 then ret ()
     else do {
       _ \<leftarrow> smc_write_reg (region_low s) (SMC_REGION_SETUP_LOW_REG i);
       _ \<leftarrow> smc_write_reg (region_high s) (SMC_REGION_SETUP_HIGH_REG i);
       _ \<leftarrow> smc_write_reg (region_attr s) (SMC_REGION_ATTRIBUTE_REG i);
       smc_restore_loop is
     }
   }"

definition smc_standby_exit :: "env \<Rightarrow> ('a standby_state_scheme, int) state" where
  "smc_standby_exit E = do {
     secure \<leftarrow> is_chip_secure E;
     if \<not> secure then ret OK
     else do {
       v \<leftarrow> readl E SMC_ACTION_REG;
       if v AND SMC_FUNCTION_BYPASS \<noteq> 0 then ret (- EFAIL)
       else do {
         _ \<leftarrow> smc_write_reg 0 SMC_MST0_BYP_REG;
         _ \<leftarrow> smc_write_reg 0 SMC_MST1_BYP_REG;
         _ \<leftarrow> smc_write_reg 0xffffffff SMC_MST0_SEC_REG;
         _ \<leftarrow> smc_write_reg 0xffffffff SMC_MST1_SEC_REG;
         _ \<leftarrow> smc_write_reg 0x90 SMC_ITLV_CTRL_REG;
         _ \<leftarrow> smc_restore_loop [0..<SMC_REGION_COUNT];
         ret OK
       }
     }
   }"

section \<open>USB\<close>

abbreviation (input) USB0_USB_CTRL_REG :: u32 where "USB0_USB_CTRL_REG \<equiv> 0x04101800"
abbreviation (input) USB1_USB_CTRL_REG :: u32 where "USB1_USB_CTRL_REG \<equiv> 0x04200800"
abbreviation (input) USB_STANDBY_CLOCK_SEL :: u32 where "USB_STANDBY_CLOCK_SEL \<equiv> 0x80000000"
abbreviation (input) USB_CTRL_STANDBY_MODE :: u32 where "USB_CTRL_STANDBY_MODE \<equiv> 0x80000000"
abbreviation (input) VDD_SYS_PWROFF_GATING_REG :: u32 where "VDD_SYS_PWROFF_GATING_REG \<equiv> 0x07010250"
abbreviation (input) VDD_USB2CPUS_GATING :: "u32 \<Rightarrow> u32" where "VDD_USB2CPUS_GATING n \<equiv> push_bit 8 n"
abbreviation (input) VDD_SYS2USB_GATING :: "u32 \<Rightarrow> u32" where "VDD_SYS2USB_GATING n \<equiv> push_bit 3 n"
abbreviation (input) CCU_USB0_CLK_REG :: u32 where "CCU_USB0_CLK_REG \<equiv> 0x02003300"
abbreviation (input) CCU_USB0_BGR_REG :: u32 where "CCU_USB0_BGR_REG \<equiv> 0x02003304"
abbreviation (input) CCU_USB1_CLK_REG :: u32 where "CCU_USB1_CLK_REG \<equiv> 0x02003308"
abbreviation (input) CCU_USB1_BGR_REG :: u32 where "CCU_USB1_BGR_REG \<equiv> 0x0200330c"
abbreviation (input) CCU_USB0_USB1_REF_CLK_REG :: u32 where "CCU_USB0_USB1_REF_CLK_REG \<equiv> 0x02003340"
abbreviation (input) USB0_CLKEN_MASK :: u32 where "USB0_CLKEN_MASK \<equiv> 0x80000000"
abbreviation (input) USB0_PHY_RSTN_MASK :: u32 where "USB0_PHY_RSTN_MASK \<equiv> 0x40000000"
abbreviation (input) USB0_EHCI_RST_MASK :: u32 where "USB0_EHCI_RST_MASK \<equiv> 0x100000"
abbreviation (input) USB0_OHCI_RST_MASK :: u32 where "USB0_OHCI_RST_MASK \<equiv> 0x10000"
abbreviation (input) USB0_EHCI_GATING_MASK :: u32 where "USB0_EHCI_GATING_MASK \<equiv> 0x10"
abbreviation (input) USB0_OHCI_GATING_MASK :: u32 where "USB0_OHCI_GATING_MASK \<equiv> 0x1"
abbreviation (input) USB1_CLKEN_MASK :: u32 where "USB1_CLKEN_MASK \<equiv> 0x80000000"
abbreviation (input) USB1_PHY_RSTN_MASK :: u32 where "USB1_PHY_RSTN_MASK \<equiv> 0x40000000"
abbreviation (input) USB1_EHCI_RST_MASK :: u32 where "USB1_EHCI_RST_MASK \<equiv> 0x100000"
abbreviation (input) USB1_OHCI_RST_MASK :: u32 where "USB1_OHCI_RST_MASK \<equiv> 0x10000"
abbreviation (input) USB1_EHCI_GATING_MASK :: u32 where "USB1_EHCI_GATING_MASK \<equiv> 0x10"
abbreviation (input) USB1_OHCI_GATING_MASK :: u32 where "USB1_OHCI_GATING_MASK \<equiv> 0x1"
abbreviation (input) USB0_USB1_REF_CLK_GATING_MASK :: u32 where "USB0_USB1_REF_CLK_GATING_MASK \<equiv> 0x80000000"

definition usb_standby_port_support :: "env \<Rightarrow> ('a machine_scheme, u32) state" where
  "usb_standby_port_support E = do {
     val \<leftarrow> readl E USB0_USB_CTRL_REG;
     let port = (if val AND USB_STANDBY_CLOCK_SEL = USB_CTRL_STANDBY_MODE then 1 else 0);
     val \<leftarrow> readl E USB1_USB_CTRL_REG;
     ret (if val AND USB_STANDBY_CLOCK_SEL = USB_CTRL_STANDBY_MODE then port OR 2 else port)
   }"

definition usb_standby_init :: "env \<Rightarrow> ('a standby_state_scheme, unit) state" where
  "usb_standby_init E = do {
     port \<leftarrow> usb_standby_port_support E;
     State_Monad.update (\<lambda>w. w\<lparr>usb_standby_port := port\<rparr>)
   }"

definition usb_standby_exit :: "('a standby_state_scheme, unit) state" where
  "usb_standby_exit = State_Monad.update (\<lambda>w. w\<lparr>usb_standby_port := 0\<rparr>)"

text \<open>Clear and set bits of a register, with the log lines around the write, the second of which reads the register.\<close>

definition logged_clear :: "env \<Rightarrow> u32 \<Rightarrow> u32 \<Rightarrow> ('a machine_scheme, unit) state" where
  "logged_clear E reg bits = do {
     val \<leftarrow> readl E reg;
     _ \<leftarrow> writel (val AND NOT bits) reg;
     _ \<leftarrow> readl E reg;
     ret ()
   }"

definition logged_set :: "env \<Rightarrow> u32 \<Rightarrow> u32 \<Rightarrow> ('a machine_scheme, unit) state" where
  "logged_set E reg bits = do {
     val \<leftarrow> readl E reg;
     _ \<leftarrow> writel (val OR bits) reg;
     _ \<leftarrow> readl E reg;
     ret ()
   }"

definition usb_iso_suspend :: "env \<Rightarrow> ('a standby_state_scheme, unit) state" where
  "usb_iso_suspend E = do {
     w \<leftarrow> State_Monad.get;
     let usb0_en = usb_standby_port w AND 1 \<noteq> 0;
     let usb1_en = usb_standby_port w AND 2 \<noteq> 0;
     let usb_en = usb_standby_port w \<noteq> 0;
     if standby_type w AND CPUS_WAKEUP_USB = 0
     then logged_set E VDD_SYS_PWROFF_GATING_REG (VDD_USB2CPUS_GATING 1 OR VDD_SYS2USB_GATING 1)
     else do {
       _ \<leftarrow> (if usb0_en then do {
              _ \<leftarrow> logged_clear E CCU_USB0_CLK_REG USB0_CLKEN_MASK;
              logged_clear E CCU_USB0_BGR_REG (USB0_OHCI_GATING_MASK OR USB0_EHCI_GATING_MASK)
            } else ret ());
       _ \<leftarrow> (if usb1_en then do {
              _ \<leftarrow> logged_clear E CCU_USB1_CLK_REG USB1_CLKEN_MASK;
              logged_clear E CCU_USB1_BGR_REG (USB1_OHCI_GATING_MASK OR USB1_EHCI_GATING_MASK)
            } else ret ());
       _ \<leftarrow> (if usb_en then logged_clear E CCU_USB0_USB1_REF_CLK_REG USB0_USB1_REF_CLK_GATING_MASK else ret ());
       _ \<leftarrow> logged_set E VDD_SYS_PWROFF_GATING_REG (VDD_SYS2USB_GATING 1);
       _ \<leftarrow> (if usb0_en then do {
              _ \<leftarrow> logged_clear E CCU_USB0_CLK_REG USB0_PHY_RSTN_MASK;
              logged_clear E CCU_USB0_BGR_REG (USB0_EHCI_RST_MASK OR USB0_OHCI_RST_MASK)
            } else ret ());
       (if usb1_en then do {
          _ \<leftarrow> logged_clear E CCU_USB1_CLK_REG USB1_PHY_RSTN_MASK;
          logged_clear E CCU_USB1_BGR_REG (USB1_EHCI_RST_MASK OR USB1_OHCI_RST_MASK)
        } else ret ())
     }
   }"

definition usb_iso_resume :: "env \<Rightarrow> ('a standby_state_scheme, unit) state" where
  "usb_iso_resume E = do {
     w \<leftarrow> State_Monad.get;
     let usb0_en = usb_standby_port w AND 1 \<noteq> 0;
     let usb1_en = usb_standby_port w AND 2 \<noteq> 0;
     let usb_en = usb_standby_port w \<noteq> 0;
     if standby_type w AND CPUS_WAKEUP_USB = 0
     then logged_clear E VDD_SYS_PWROFF_GATING_REG (VDD_USB2CPUS_GATING 1 OR VDD_SYS2USB_GATING 1)
     else do {
       _ \<leftarrow> (if usb0_en then do {
              _ \<leftarrow> logged_set E CCU_USB0_BGR_REG (USB0_EHCI_RST_MASK OR USB0_OHCI_RST_MASK);
              logged_set E CCU_USB0_CLK_REG USB0_PHY_RSTN_MASK
            } else ret ());
       _ \<leftarrow> (if usb1_en then do {
              _ \<leftarrow> logged_set E CCU_USB1_BGR_REG (USB1_EHCI_RST_MASK OR USB1_OHCI_RST_MASK);
              logged_set E CCU_USB1_CLK_REG USB1_PHY_RSTN_MASK
            } else ret ());
       _ \<leftarrow> logged_clear E VDD_SYS_PWROFF_GATING_REG (VDD_SYS2USB_GATING 1);
       _ \<leftarrow> (if usb_en then logged_set E CCU_USB0_USB1_REF_CLK_REG USB0_USB1_REF_CLK_GATING_MASK else ret ());
       _ \<leftarrow> (if usb0_en then do {
              _ \<leftarrow> logged_set E CCU_USB0_BGR_REG (USB0_OHCI_GATING_MASK OR USB0_EHCI_GATING_MASK);
              logged_set E CCU_USB0_CLK_REG USB0_CLKEN_MASK
            } else ret ());
       (if usb1_en then do {
          _ \<leftarrow> logged_set E CCU_USB1_BGR_REG (USB1_OHCI_GATING_MASK OR USB1_EHCI_GATING_MASK);
          logged_set E CCU_USB1_CLK_REG USB1_CLKEN_MASK
        } else ret ())
     }
   }"

section \<open>Clocks\<close>

abbreviation (input) PLL_OUTPUT_ENABLE_MASK :: u32 where "PLL_OUTPUT_ENABLE_MASK \<equiv> 0x08000000"
abbreviation (input) PLL_LOCK_STATUS_MASK :: u32 where "PLL_LOCK_STATUS_MASK \<equiv> 0x10000000"
abbreviation (input) PLL_LOCK_ENABLE_MASK :: u32 where "PLL_LOCK_ENABLE_MASK \<equiv> 0x20000000"
abbreviation (input) PLL_LDO_ENABLE_MASK :: u32 where "PLL_LDO_ENABLE_MASK \<equiv> 0x40000000"
abbreviation (input) PLL_ENABLE_MASK :: u32 where "PLL_ENABLE_MASK \<equiv> 0x80000000"
abbreviation (input) CCU_CLK_SRC_SEL_MASK :: u32 where "CCU_CLK_SRC_SEL_MASK \<equiv> 0x07000000"
abbreviation (input) CCU_FACTOR_M_MASK :: u32 where "CCU_FACTOR_M_MASK \<equiv> 0x3ff"
abbreviation (input) RV_CLK_16M :: u32 where "RV_CLK_16M \<equiv> 0x82000000"
abbreviation (input) RV_24M_CLK_REG :: u32 where "RV_24M_CLK_REG \<equiv> 0x07010210"

text \<open>The loop bodies of \<open>all_pll_set\<close>: save and switch off, restart without output, restore.\<close>

definition pll_off :: "env \<Rightarrow> nat \<Rightarrow> ('a standby_state_scheme, unit) state" where
  "pll_off E i = do {
     w \<leftarrow> State_Monad.get;
     let addr = pll_addr (pll_restore w ! i);
     v \<leftarrow> readl E addr;
     _ \<leftarrow> State_Monad.update (\<lambda>w. w\<lparr>pll_restore := (pll_restore w)[i := (pll_restore w ! i)\<lparr>pll_value := v\<rparr>]\<rparr>);
     writel (v AND NOT (PLL_ENABLE_MASK OR PLL_LDO_ENABLE_MASK OR PLL_LOCK_ENABLE_MASK OR PLL_OUTPUT_ENABLE_MASK)) addr
   }"

fun pll_on_loop :: "env \<Rightarrow> nat list \<Rightarrow> ('a standby_state_scheme, int) state" where
  "pll_on_loop E [] = ret OK"
| "pll_on_loop E (i # is) = do {
     w \<leftarrow> State_Monad.get;
     let addr = pll_addr (pll_restore w ! i);
     let saved = pll_value (pll_restore w ! i) AND NOT PLL_LOCK_STATUS_MASK;
     if saved AND PLL_ENABLE_MASK = 0 \<or> saved AND PLL_LOCK_ENABLE_MASK = 0
     then do { _ \<leftarrow> writel saved addr; pll_on_loop E is }
     else do {
       _ \<leftarrow> writel (saved AND NOT PLL_OUTPUT_ENABLE_MASK) addr;
       lock \<leftarrow> poll E addr (\<lambda>v. v AND PLL_LOCK_STATUS_MASK \<noteq> 0) STANDBY_HW_POLL_LIMIT;
       if \<not> lock then ret (- ETIMEOUT) else pll_on_loop E is
     }
   }"

definition pll_write_back :: "nat \<Rightarrow> ('a standby_state_scheme, unit) state" where
  "pll_write_back i = do {
     w \<leftarrow> State_Monad.get;
     writel (pll_value (pll_restore w ! i) AND NOT PLL_LOCK_STATUS_MASK) (pll_addr (pll_restore w ! i))
   }"

definition all_pll_set :: "env \<Rightarrow> nat \<Rightarrow> pll_state \<Rightarrow> ('a standby_state_scheme, int) state" where
  "all_pll_set E fuel sta = (case sta of
     pll_disable \<Rightarrow> do { _ \<leftarrow> for_index [0..<14] (pll_off E); ret OK }
   | pll_enable \<Rightarrow> do {
       r \<leftarrow> pll_on_loop E [0..<14];
       if r \<noteq> OK then ret r
       else do {
         _ \<leftarrow> time_udelay E fuel 20;
         _ \<leftarrow> for_index [0..<14] pll_write_back;
         ret OK
       }
     })"

definition bus_clock_one :: "env \<Rightarrow> bus_clock_mode \<Rightarrow> nat \<Rightarrow> ('a standby_state_scheme, unit) state" where
  "bus_clock_one E mode i = do {
     w \<leftarrow> State_Monad.get;
     let b = bus_restore w ! i;
     reg_val \<leftarrow> readl E (busAddr b);
     if mode = clock_bak \<and> bus_flag b \<noteq> 0 then do {
       let reg_val = reg_val OR ucast (bus_M b);
       _ \<leftarrow> writel reg_val (busAddr b);
       let reg_val = (reg_val AND NOT CCU_CLK_SRC_SEL_MASK) OR push_bit 24 (ucast (bus_clk_src b));
       _ \<leftarrow> writel reg_val (busAddr b);
       State_Monad.update (\<lambda>w. w\<lparr>bus_restore := (bus_restore w)[i := b\<lparr>bus_flag := 0\<rparr>]\<rparr>)
     } else do {
       _ \<leftarrow> (if bus_flag b = 0 then State_Monad.update (\<lambda>w. w\<lparr>bus_restore := (bus_restore w)[i :=
              b\<lparr>bus_clk_src := ucast (drop_bit 24 (reg_val AND CCU_CLK_SRC_SEL_MASK)),
                bus_M := ucast (reg_val AND CCU_FACTOR_M_MASK), bus_flag := 1\<rparr>]\<rparr>) else ret ());
       let reg_val = (reg_val AND NOT CCU_CLK_SRC_SEL_MASK) OR push_bit 24 (clock_mode_value mode);
       _ \<leftarrow> writel reg_val (busAddr b);
       writel (reg_val AND NOT CCU_FACTOR_M_MASK) (busAddr b)
     }
   }"

definition bus_clock_set :: "env \<Rightarrow> bus_clock_mode \<Rightarrow> bus_clock_mode \<Rightarrow> ('a standby_state_scheme, unit) state" where
  "bus_clock_set E mode bus = for_index (if bus = ccmu_clk then [0..<4] else [4..<7]) (bus_clock_one E mode)"

definition bus_ctl_one :: "env \<Rightarrow> bus_clock_mode \<Rightarrow> nat \<Rightarrow> ('a standby_state_scheme, unit) state" where
  "bus_ctl_one E mode i = do {
     w \<leftarrow> State_Monad.get;
     let addr = bus_ctl_addr w ! i;
     reg_val \<leftarrow> readl E addr;
     if mode = clock_bak then writel (bus_ctl_value w ! i) addr
     else do {
       _ \<leftarrow> State_Monad.update (\<lambda>w. w\<lparr>bus_ctl_value := (bus_ctl_value w)[i := reg_val]\<rparr>);
       let reg_val = reg_val AND NOT 0x07000000;
       _ \<leftarrow> writel reg_val addr;
       let reg_val = reg_val AND NOT 0x1f;
       _ \<leftarrow> writel reg_val addr;
       writel (reg_val AND NOT 0x80000000) addr
     }
   }"

definition bus_clock_ctl :: "env \<Rightarrow> bus_clock_mode \<Rightarrow> bus_clock_mode \<Rightarrow> ('a standby_state_scheme, unit) state" where
  "bus_clock_ctl E mode control = for_index (if control = bus_clk then [0..<2] else [2..<4]) (bus_ctl_one E mode)"

definition clk_suspend :: "env \<Rightarrow> nat \<Rightarrow> ('a standby_state_scheme, unit) state" where
  "clk_suspend E fuel = do {
     _ \<leftarrow> writel RV_CLK_16M RV_24M_CLK_REG;
     _ \<leftarrow> bus_clock_set E rc16m ccmu_clk;
     _ \<leftarrow> bus_clock_ctl E rc16m bus_clk;
     _ \<leftarrow> bus_clock_ctl E rc16m gic_tra_clk;
     w \<leftarrow> State_Monad.get;
     _ \<leftarrow> twi_clkchangecb E CCU_CLK_CLKCHG_REQ (iosc_freq w);
     _ \<leftarrow> uart_clkchangecb E CCU_CLK_CLKCHG_REQ (iosc_freq w);
     _ \<leftarrow> bus_clock_set E rc16m prcm_clk;
     _ \<leftarrow> time_mdelay E fuel 10;
     _ \<leftarrow> uart_clkchangecb E CCU_CLK_CLKCHG_DONE (iosc_freq w);
     _ \<leftarrow> twi_clkchangecb E CCU_CLK_CLKCHG_DONE (iosc_freq w);
     _ \<leftarrow> time_mdelay E fuel 10;
     _ \<leftarrow> all_pll_set E fuel pll_disable;
     _ \<leftarrow> rv_low_power_mode E;
     dcxo_disable E
   }"

definition clk_resume_early :: "env \<Rightarrow> nat \<Rightarrow> ('a rail_state_scheme, unit) state" where
  "clk_resume_early E fuel = dcxo_enable E fuel"

definition clk_resume :: "env \<Rightarrow> nat \<Rightarrow> ('a standby_state_scheme, int) state" where
  "clk_resume E fuel = do {
     r \<leftarrow> all_pll_set E fuel pll_enable;
     _ \<leftarrow> twi_clkchangecb E CCU_CLK_CLKCHG_REQ CCU_SYS_CLK24M_FREQ;
     _ \<leftarrow> uart_clkchangecb E CCU_CLK_CLKCHG_REQ CCU_SYS_CLK24M_FREQ;
     _ \<leftarrow> bus_clock_set E clock_bak prcm_clk;
     _ \<leftarrow> time_mdelay E fuel 10;
     _ \<leftarrow> uart_clkchangecb E CCU_CLK_CLKCHG_DONE CCU_SYS_CLK24M_FREQ;
     _ \<leftarrow> twi_clkchangecb E CCU_CLK_CLKCHG_DONE CCU_SYS_CLK24M_FREQ;
     _ \<leftarrow> time_mdelay E fuel 10;
     _ \<leftarrow> bus_clock_ctl E clock_bak gic_tra_clk;
     _ \<leftarrow> bus_clock_ctl E clock_bak bus_clk;
     _ \<leftarrow> bus_clock_set E clock_bak ccmu_clk;
     ret r
   }"

section \<open>Processor clocks\<close>

abbreviation (input) CPUA_CLK_REG :: u32 where "CPUA_CLK_REG \<equiv> 0x0887101c"
abbreviation (input) CPUB_CLK_REG :: u32 where "CPUB_CLK_REG \<equiv> 0x0887201c"
abbreviation (input) DSU_CLK_REG :: u32 where "DSU_CLK_REG \<equiv> 0x0887301c"
abbreviation (input) CPU_PLL_REG :: "nat \<Rightarrow> u32" where "CPU_PLL_REG n \<equiv> 0x08870000 + of_nat n * 0x1000"
abbreviation (input) CPU_PLL_EN :: u32 where "CPU_PLL_EN \<equiv> 0x80000000"
abbreviation (input) CPU_PLL_LDO_EN :: u32 where "CPU_PLL_LDO_EN \<equiv> 0x40000000"
abbreviation (input) CPU_PLL_LOCK_EN :: u32 where "CPU_PLL_LOCK_EN \<equiv> 0x20000000"
abbreviation (input) CPU_PLL_LOCK_STATUS :: u32 where "CPU_PLL_LOCK_STATUS \<equiv> 0x10000000"
abbreviation (input) CPU_PLL_OUTPUT :: u32 where "CPU_PLL_OUTPUT \<equiv> 0x08000000"
abbreviation (input) CPU_PLL_UPDATE :: u32 where "CPU_PLL_UPDATE \<equiv> 0x04000000"
abbreviation (input) CPU_PLL_FACTOR_MASK :: u32 where "CPU_PLL_FACTOR_MASK \<equiv> 0x3fff0f"
abbreviation (input) CPU_FACTOR_P_MASK :: u32 where "CPU_FACTOR_P_MASK \<equiv> 0x30000"
abbreviation (input) CPU_CLK_SRC_SEL_MASK :: u32 where "CPU_CLK_SRC_SEL_MASK \<equiv> 0x07000000"
abbreviation (input) CPU_CLK_SRC_SEL :: "u32 \<Rightarrow> u32" where "CPU_CLK_SRC_SEL n \<equiv> push_bit 24 n"
abbreviation (input) DSU_FACTOR_MASK :: u32 where "DSU_FACTOR_MASK \<equiv> 0x30000"
abbreviation (input) DSU_CLK_SRC_SEL_MASK :: u32 where "DSU_CLK_SRC_SEL_MASK \<equiv> 0x07000000"
abbreviation (input) DSU_CLK_SRC_SEL :: "u32 \<Rightarrow> u32" where "DSU_CLK_SRC_SEL n \<equiv> push_bit 24 n"
abbreviation (input) SUNXI_SOC_VER_REG :: u32 where "SUNXI_SOC_VER_REG \<equiv> 0x03000024"
abbreviation (input) SUNXI_SOC_VER_MASK :: u32 where "SUNXI_SOC_VER_MASK \<equiv> 0x7"
abbreviation (input) SUNXI_SOC_VER_A :: u32 where "SUNXI_SOC_VER_A \<equiv> 0"
abbreviation (input) SUNXI_SOC_VER_B :: u32 where "SUNXI_SOC_VER_B \<equiv> 1"
abbreviation (input) CPU_DIRECT_ACCESS_DDR :: u32 where "CPU_DIRECT_ACCESS_DDR \<equiv> 0x8000200"

definition cpu_pll_off_one :: "env \<Rightarrow> nat \<Rightarrow> ('a standby_state_scheme, unit) state" where
  "cpu_pll_off_one E i = do {
     v \<leftarrow> readl E (CPU_PLL_REG i);
     _ \<leftarrow> State_Monad.update (\<lambda>w. w\<lparr>cpu_pll_restore_bak := (cpu_pll_restore_bak w)[i := v]\<rparr>);
     _ \<leftarrow> mmio_clrbits_32 E (CPU_PLL_REG i) CPU_PLL_OUTPUT;
     _ \<leftarrow> mmio_clrbits_32 E (CPU_PLL_REG i) CPU_PLL_LOCK_EN;
     _ \<leftarrow> mmio_clrbits_32 E (CPU_PLL_REG i) CPU_PLL_EN;
     mmio_clrbits_32 E (CPU_PLL_REG i) CPU_PLL_LDO_EN
   }"

definition cpu_pll_off :: "env \<Rightarrow> ('a standby_state_scheme, unit) state" where
  "cpu_pll_off E = do {
     a \<leftarrow> readl E CPUA_CLK_REG;
     b \<leftarrow> readl E CPUB_CLK_REG;
     d \<leftarrow> readl E DSU_CLK_REG;
     _ \<leftarrow> State_Monad.update (\<lambda>w. w\<lparr>cpu_clk_restore_bak := [a, b, d]\<rparr>);
     _ \<leftarrow> reg_update E CPUA_CLK_REG CPU_CLK_SRC_SEL_MASK (CPU_CLK_SRC_SEL 2);
     _ \<leftarrow> mmio_clrbits_32 E CPUA_CLK_REG CPU_FACTOR_P_MASK;
     _ \<leftarrow> reg_update E CPUB_CLK_REG CPU_CLK_SRC_SEL_MASK (CPU_CLK_SRC_SEL 2);
     _ \<leftarrow> mmio_clrbits_32 E CPUB_CLK_REG CPU_FACTOR_P_MASK;
     _ \<leftarrow> reg_update E DSU_CLK_REG DSU_CLK_SRC_SEL_MASK (DSU_CLK_SRC_SEL 2);
     _ \<leftarrow> mmio_clrbits_32 E DSU_CLK_REG DSU_FACTOR_MASK;
     for_index [0..<4] (cpu_pll_off_one E)
   }"

definition sunxi_get_soc_ver :: "env \<Rightarrow> ('a machine_scheme, u32) state" where
  "sunxi_get_soc_ver E = do { value \<leftarrow> readl E SUNXI_SOC_VER_REG; ret (SUNXI_SOC_VER_A + (value AND SUNXI_SOC_VER_MASK)) }"

abbreviation (input) PLL_LDO_REG :: u32 where "PLL_LDO_REG \<equiv> 0x08000144"

definition cpu_pll_ldo :: "env \<Rightarrow> ('a machine_scheme, unit) state" where
  "cpu_pll_ldo E = do {
     ver \<leftarrow> sunxi_get_soc_ver E;
     if ver = SUNXI_SOC_VER_A then do { _ \<leftarrow> writel 0xA7070025 PLL_LDO_REG; writel 0xA7070025 PLL_LDO_REG }
     else do {
       ver \<leftarrow> sunxi_get_soc_ver E;
       if ver = SUNXI_SOC_VER_B then do { _ \<leftarrow> writel 0xA7060025 PLL_LDO_REG; writel 0xA7060025 PLL_LDO_REG }
       else ret ()
     }
   }"

definition cpu_pll_used :: "u32 \<Rightarrow> bool" where
  "cpu_pll_used saved \<longleftrightarrow> saved AND CPU_PLL_EN \<noteq> 0 \<and> saved AND CPU_PLL_LOCK_EN \<noteq> 0"

fun cpu_pll_start_loop :: "env \<Rightarrow> nat list \<Rightarrow> ('a standby_state_scheme, int) state" where
  "cpu_pll_start_loop E [] = ret OK"
| "cpu_pll_start_loop E (i # is) = do {
     w \<leftarrow> State_Monad.get;
     let saved = cpu_pll_restore_bak w ! i;
     if \<not> cpu_pll_used saved
     then do { _ \<leftarrow> writel (saved AND NOT CPU_PLL_LOCK_STATUS) (CPU_PLL_REG i); cpu_pll_start_loop E is }
     else do {
       _ \<leftarrow> mmio_setbits_32 E (CPU_PLL_REG i) CPU_PLL_LDO_EN;
       _ \<leftarrow> mmio_setbits_32 E (CPU_PLL_REG i) CPU_PLL_OUTPUT;
       _ \<leftarrow> mmio_setbits_32 E (CPU_PLL_REG i) CPU_PLL_EN;
       _ \<leftarrow> mmio_setbits_32 E (CPU_PLL_REG i) CPU_PLL_LOCK_EN;
       _ \<leftarrow> mmio_setbits_32 E (CPU_PLL_REG i) CPU_PLL_UPDATE;
       lock \<leftarrow> poll E (CPU_PLL_REG i) (\<lambda>v. v AND CPU_PLL_LOCK_STATUS \<noteq> 0) STANDBY_HW_POLL_LIMIT;
       if \<not> lock then ret (- ETIMEOUT) else cpu_pll_start_loop E is
     }
   }"

fun cpu_pll_factor_loop :: "env \<Rightarrow> nat \<Rightarrow> nat list \<Rightarrow> ('a standby_state_scheme, int) state" where
  "cpu_pll_factor_loop E fuel [] = ret OK"
| "cpu_pll_factor_loop E fuel (i # is) = do {
     w \<leftarrow> State_Monad.get;
     let saved = cpu_pll_restore_bak w ! i;
     if \<not> cpu_pll_used saved then cpu_pll_factor_loop E fuel is
     else do {
       _ \<leftarrow> mmio_clrbits_32 E (CPU_PLL_REG i) CPU_PLL_OUTPUT;
       _ \<leftarrow> reg_update E (CPU_PLL_REG i) CPU_PLL_FACTOR_MASK (saved AND CPU_PLL_FACTOR_MASK);
       _ \<leftarrow> mmio_clrbits_32 E (CPU_PLL_REG i) CPU_PLL_LOCK_EN;
       _ \<leftarrow> mmio_setbits_32 E (CPU_PLL_REG i) CPU_PLL_LOCK_EN;
       _ \<leftarrow> mmio_setbits_32 E (CPU_PLL_REG i) CPU_PLL_UPDATE;
       updated \<leftarrow> poll E (CPU_PLL_REG i) (\<lambda>v. v AND CPU_PLL_UPDATE = 0) STANDBY_HW_POLL_LIMIT;
       if \<not> updated then ret (- ETIMEOUT)
       else do {
         lock \<leftarrow> poll E (CPU_PLL_REG i) (\<lambda>v. v AND CPU_PLL_LOCK_STATUS \<noteq> 0) STANDBY_HW_POLL_LIMIT;
         if \<not> lock then ret (- ETIMEOUT)
         else do {
           _ \<leftarrow> time_mdelay E fuel 20;
           _ \<leftarrow> mmio_setbits_32 E (CPU_PLL_REG i) CPU_PLL_OUTPUT;
           cpu_pll_factor_loop E fuel is
         }
       }
     }
   }"

definition cpu_clk_on :: "env \<Rightarrow> ('a standby_state_scheme, unit) state" where
  "cpu_clk_on E = do {
     w \<leftarrow> State_Monad.get;
     let bak = cpu_clk_restore_bak w;
     _ \<leftarrow> reg_update E CPUA_CLK_REG CPU_FACTOR_P_MASK (bak ! 0 AND CPU_FACTOR_P_MASK);
     _ \<leftarrow> reg_update E CPUA_CLK_REG CPU_CLK_SRC_SEL_MASK (bak ! 0 AND CPU_CLK_SRC_SEL_MASK);
     _ \<leftarrow> reg_update E CPUB_CLK_REG CPU_FACTOR_P_MASK (bak ! 1 AND CPU_FACTOR_P_MASK);
     _ \<leftarrow> reg_update E CPUB_CLK_REG CPU_CLK_SRC_SEL_MASK (bak ! 1 AND CPU_CLK_SRC_SEL_MASK);
     _ \<leftarrow> reg_update E DSU_CLK_REG DSU_FACTOR_MASK (bak ! 2 AND DSU_FACTOR_MASK);
     reg_update E DSU_CLK_REG DSU_CLK_SRC_SEL_MASK (bak ! 2 AND DSU_CLK_SRC_SEL_MASK)
   }"

definition cpu_pll_on :: "env \<Rightarrow> nat \<Rightarrow> ('a standby_state_scheme, int) state" where
  "cpu_pll_on E fuel = do {
     _ \<leftarrow> cpu_pll_ldo E;
     r \<leftarrow> cpu_pll_start_loop E [0..<4];
     if r \<noteq> OK then ret r
     else do {
       _ \<leftarrow> time_mdelay E fuel 20;
       r \<leftarrow> cpu_pll_factor_loop E fuel [0..<4];
       if r \<noteq> OK then ret r
       else do { _ \<leftarrow> cpu_clk_on E; ret OK }
     }
   }"

definition cpu_direct_access_suspend :: "env \<Rightarrow> ('a standby_state_scheme, unit) state" where
  "cpu_direct_access_suspend E = do {
     v \<leftarrow> readl E CPU_DIRECT_ACCESS_DDR;
     State_Monad.update (\<lambda>w. w\<lparr>cpu_direct_access := v\<rparr>)
   }"

definition cpu_direct_access_resume :: "('a standby_state_scheme, unit) state" where
  "cpu_direct_access_resume = do { w \<leftarrow> State_Monad.get; writel (cpu_direct_access w) CPU_DIRECT_ACCESS_DDR }"

section \<open>Power domains\<close>

abbreviation (input) PCK600_REG_BASE :: u32 where "PCK600_REG_BASE \<equiv> 0x07060000"
abbreviation (input) ANA_PWR_RST_REG :: u32 where "ANA_PWR_RST_REG \<equiv> 0x07010254"
abbreviation (input) RTC_VDD_OFF_GATING_CTRL :: u32 where "RTC_VDD_OFF_GATING_CTRL \<equiv> 0x070901f4"
abbreviation (input) RTC_VCCIO_OUTPUT_EN :: u32 where "RTC_VCCIO_OUTPUT_EN \<equiv> 0x80"
abbreviation (input) RTC_VCCIO_DETECT_EN :: u32 where "RTC_VCCIO_DETECT_EN \<equiv> 0x01"

definition nsi_resume :: "('a machine_scheme, unit) state" where
  "nsi_resume = do {
     _ \<leftarrow> writel 0x40a05 0x202446c;
     _ \<leftarrow> writel 0x40a05 0x202466c;
     _ \<leftarrow> writel 0x3f 0x2023a14;
     _ \<leftarrow> writel 0x7f 0x2023c14;
     _ \<leftarrow> writel 0xf 0x2023e14;
     _ \<leftarrow> writel 0xf1 0x2024014;
     _ \<leftarrow> writel 0xf1 0x2024214;
     _ \<leftarrow> writel 0x1 0x202200c;
     writel 0x1 0x202220c
   }"

fun ppu_loop :: "env \<Rightarrow> nat list \<Rightarrow> ('a machine_scheme, int) state" where
  "ppu_loop E [] = ret OK"
| "ppu_loop E (i # is) = do {
     _ \<leftarrow> mmio_setbits_32 E (PCK600_REG_BASE + 0x1000 * of_nat i) 0x8;
     if i = 6 then ppu_loop E is
     else do {
       on \<leftarrow> poll E (PCK600_REG_BASE + 0x1000 * of_nat i + 0x8) (\<lambda>v. v AND 0x8 \<noteq> 0) STANDBY_HW_POLL_LIMIT;
       if \<not> on then ret (- ETIMEOUT) else ppu_loop E is
     }
   }"

definition ppu_resume :: "env \<Rightarrow> ('a machine_scheme, int) state" where
  "ppu_resume E = ppu_loop E [0..<11]"

definition system_suspend :: "env \<Rightarrow> ('a standby_state_scheme, unit) state" where
  "system_suspend E = do {
     _ \<leftarrow> mmio_setbits_32 E ANA_PWR_RST_REG 0xf;
     _ \<leftarrow> usb_iso_suspend E;
     _ \<leftarrow> mmio_clrbits_32 E VDD_SYS_PWR_RST_REG 1;
     mmio_setbits_32 E VDD_SYS_PWROFF_GATING_REG 4
   }"

definition system_resume :: "env \<Rightarrow> nat \<Rightarrow> ('a standby_state_scheme, unit) state" where
  "system_resume E fuel = do {
     _ \<leftarrow> mmio_clrbits_32 E VDD_SYS_PWROFF_GATING_REG 4;
     _ \<leftarrow> mmio_setbits_32 E VDD_SYS_PWR_RST_REG 1;
     _ \<leftarrow> mmio_clrbits_32 E ANA_PWR_RST_REG 0xf;
     _ \<leftarrow> time_mdelay E fuel 2;
     usb_iso_resume E
   }"

definition rtc_vccio_det_suspend :: "env \<Rightarrow> ('a machine_scheme, unit) state" where
  "rtc_vccio_det_suspend E = do {
     _ \<leftarrow> mmio_setbits_32 E RTC_VDD_OFF_GATING_CTRL RTC_VCCIO_DETECT_EN;
     mmio_clrbits_32 E RTC_VDD_OFF_GATING_CTRL RTC_VCCIO_OUTPUT_EN
   }"

definition rtc_vccio_det_resume :: "env \<Rightarrow> ('a machine_scheme, unit) state" where
  "rtc_vccio_det_resume E = do {
     _ \<leftarrow> mmio_clrbits_32 E RTC_VDD_OFF_GATING_CTRL RTC_VCCIO_DETECT_EN;
     mmio_setbits_32 E RTC_VDD_OFF_GATING_CTRL RTC_VCCIO_OUTPUT_EN
   }"

section \<open>Devices\<close>

text \<open>\<open>D\<close> is what DRAM holds after a history: its content while in self-refresh belongs to the memory.\<close>

definition dram_checksum :: "(history \<Rightarrow> memory) \<Rightarrow> ('a standby_state_scheme, u32) state" where
  "dram_checksum D = do {
     w \<leftarrow> State_Monad.get;
     case standby_dram_crc (D (trace w)) (crc_para w) of
       None \<Rightarrow> do { _ \<leftarrow> hang; ret 0 }
     | Some crc \<Rightarrow> ret crc
   }"

definition dram_suspend :: "env \<Rightarrow> (history \<Rightarrow> memory) \<Rightarrow> ('a standby_state_scheme, unit) state" where
  "dram_suspend E D = do {
     w \<leftarrow> State_Monad.get;
     _ \<leftarrow> (if standby_dram_crc_enable (crc_para w) \<noteq> 0 then do {
            crc \<leftarrow> dram_checksum D;
            State_Monad.update (\<lambda>w. w\<lparr>before_crc := crc\<rparr>)
          } else ret ());
     _ \<leftarrow> call E Dram_power_save_process [];
     ret ()
   }"

abbreviation (input) REC_SSTANDBY :: u32 where "REC_SSTANDBY \<equiv> 0xf1f10000"
abbreviation (input) REC_DRAM_DBG :: u32 where "REC_DRAM_DBG \<equiv> 0x9000"

definition dram_resume :: "env \<Rightarrow> (history \<Rightarrow> memory) \<Rightarrow> ('a standby_state_scheme, int) state" where
  "dram_resume E D = do {
     _ \<leftarrow> call E Dram_power_up_process [];
     w \<leftarrow> State_Monad.get;
     if standby_dram_crc_enable (crc_para w) \<noteq> 0 then do {
       crc \<leftarrow> dram_checksum D;
       _ \<leftarrow> State_Monad.update (\<lambda>w. w\<lparr>after_crc := crc\<rparr>);
       w \<leftarrow> State_Monad.get;
       if after_crc w \<noteq> before_crc w then do {
         _ \<leftarrow> save_state_flag (REC_SSTANDBY OR REC_DRAM_DBG OR 0xf);
         ret (- EFAIL)
       } else ret OK
     } else ret OK
   }"

definition device_suspend :: "env \<Rightarrow> nat \<Rightarrow> ('a standby_state_scheme, unit) state" where
  "device_suspend E fuel = do {
     _ \<leftarrow> usb_standby_init E;
     _ \<leftarrow> sunxi_timestamp_suspend E;
     _ \<leftarrow> smc_standby_init E;
     _ \<leftarrow> pmu_standby_init E;
     _ \<leftarrow> twi_standby_init E fuel;
     _ \<leftarrow> hwmsgbox_super_standby_init E;
     ret ()
   }"

definition device_resume :: "env \<Rightarrow> ('a standby_state_scheme, int) state" where
  "device_resume E = do {
     _ \<leftarrow> hwmsgbox_super_standby_exit E;
     _ \<leftarrow> twi_standby_exit;
     _ \<leftarrow> pmu_standby_exit E;
     r \<leftarrow> smc_standby_exit E;
     _ \<leftarrow> sunxi_timestamp_resume E;
     _ \<leftarrow> usb_standby_exit;
     ret r
   }"

end
