(* ===== verification/Standby.thy ===== *)
theory Standby
  imports Standby_Hw
begin

text \<open>
  The standby transaction (\<^verbatim>\<open>src/ar100s/service/standby\<close>: \<^verbatim>\<open>standby.c\<close> and the rest of
  \<^verbatim>\<open>plat_standby.c\<close>): the parameters of the device tree, going down, waiting for a wake-up source, coming
  up again, and the two requests of the main processor that are served here. The device-tree library is
  a parameter: the record of the calls the code makes.
\<close>

unbundle bit_operations_syntax

section \<open>Model\<close>

record dtb_ops =
  dtb_path_offset :: "string \<Rightarrow> int"
  dtb_getprop :: "int \<Rightarrow> string \<Rightarrow> (int \<times> u32) option"

abbreviation (input) REC_ESTANDBY :: u32 where "REC_ESTANDBY \<equiv> 0xf3f30000"
abbreviation (input) REC_ENTER :: u32 where "REC_ENTER \<equiv> 0x1000"
abbreviation (input) REC_BEFORE_INIT :: u32 where "REC_BEFORE_INIT \<equiv> 0x2000"
abbreviation (input) REC_ENTER_INIT :: u32 where "REC_ENTER_INIT \<equiv> 0x3000"
abbreviation (input) REC_AFTER_INIT :: u32 where "REC_AFTER_INIT \<equiv> 0x4000"
abbreviation (input) REC_WAIT_WAKEUP :: u32 where "REC_WAIT_WAKEUP \<equiv> 0x5000"
abbreviation (input) REC_BEFORE_EXIT :: u32 where "REC_BEFORE_EXIT \<equiv> 0x6000"
abbreviation (input) REC_ENTER_EXIT :: u32 where "REC_ENTER_EXIT \<equiv> 0x7000"
abbreviation (input) REC_AFTER_EXIT :: u32 where "REC_AFTER_EXIT \<equiv> 0x8000"
abbreviation (input) CPU0_RESTORE_QUERY_RETRIES :: nat where "CPU0_RESTORE_QUERY_RETRIES \<equiv> 50"
abbreviation (input) HWMSGBOX_QUERY_TIMEOUT :: u32 where "HWMSGBOX_QUERY_TIMEOUT \<equiv> 100"
abbreviation (input) SEND_MSG_TIMEOUT :: u32 where "SEND_MSG_TIMEOUT \<equiv> 100000"
abbreviation (input) SSTANDBY_RESTORE_NOTIFY :: u8 where "SSTANDBY_RESTORE_NOTIFY \<equiv> 0x11"
abbreviation (input) INTC_R_USB_IRQ :: u32 where "INTC_R_USB_IRQ \<equiv> 16"
abbreviation (input) arisc_power_off :: u32 where "arisc_power_off \<equiv> 3"
abbreviation (input) arisc_system_shutdown :: u32 where "arisc_system_shutdown \<equiv> 0"
abbreviation (input) arisc_system_reboot :: u32 where "arisc_system_reboot \<equiv> 1"
abbreviation (input) arisc_system_reset :: u32 where "arisc_system_reset \<equiv> 2"
abbreviation (input) arisc_uboot_shutdown :: u32 where "arisc_uboot_shutdown \<equiv> 3"

subsection \<open>Parameters\<close>

definition standby_values :: "(string \<times> (u32 \<Rightarrow> 'a rail_state_scheme \<Rightarrow> 'a rail_state_scheme)) list" where
  "standby_values =
     [(''vdd-cpu'', \<lambda>v w. w\<lparr>standby_vdd_cpu := v\<rparr>), (''vdd-cpub'', \<lambda>v w. w\<lparr>standby_vdd_cpub := v\<rparr>),
      (''vdd-sys'', \<lambda>v w. w\<lparr>standby_vdd_sys := v\<rparr>), (''vcc-pll'', \<lambda>v w. w\<lparr>standby_vcc_pll := v\<rparr>),
      (''vcc-io'', \<lambda>v w. w\<lparr>standby_vcc_io := v\<rparr>), (''vcc-efuse'', \<lambda>v w. w\<lparr>standby_vcc_efuse := v\<rparr>),
      (''osc24m-on'', \<lambda>v w. w\<lparr>standby_osc24m_on := v\<rparr>)]"

fun dts_loop :: "dtb_ops \<Rightarrow> int \<Rightarrow> (string \<times> (u32 \<Rightarrow> 'w \<Rightarrow> 'w)) list \<Rightarrow> ('w, int) state" where
  "dts_loop T node [] = ret OK"
| "dts_loop T node ((name, store) # vs) = (case dtb_getprop T node name of None \<Rightarrow> ret (- EINVAL)
     | Some (len, v) \<Rightarrow>
       if len \<noteq> 4 then ret (- EINVAL)
       else do { _ \<leftarrow> State_Monad.update (store v); dts_loop T node vs })"

definition standby_dts_parse :: "dtb_ops \<Rightarrow> ('a standby_state_scheme, int) state" where
  "standby_dts_parse T = do {
     w \<leftarrow> State_Monad.get;
     if dts_has_parsed w \<noteq> 0 then ret OK
     else do {
       let param_node = dtb_path_offset T ''/standby_param'';
       if param_node < 0 then ret (- 1)
       else do {
         r \<leftarrow> dts_loop T param_node standby_values;
         if r \<noteq> OK then ret r
         else do {
           _ \<leftarrow> State_Monad.update (\<lambda>w. w\<lparr>standby_vdd_usb := 0\<rparr>);
           r \<leftarrow> (case dtb_getprop T param_node ''vdd-usb'' of None \<Rightarrow> ret OK
                | Some (len, v) \<Rightarrow>
                  if len \<noteq> 4 then ret (- EINVAL)
                  else do { _ \<leftarrow> State_Monad.update (\<lambda>w. w\<lparr>standby_vdd_usb := v\<rparr>); ret OK });
           if r \<noteq> OK then ret r
           else do { _ \<leftarrow> State_Monad.update (\<lambda>w. w\<lparr>dts_has_parsed := 1\<rparr>); ret OK }
         }
       }
     }
   }"

subsection \<open>Sleeping and waking\<close>

text \<open>The trap handler: the top bit of the cause tells an interrupt from an exception, the one exception with a handler is the NMI.\<close>

abbreviation (input) INTC_R_NMI_EXCEPTION :: u32 where "INTC_R_NMI_EXCEPTION \<equiv> 24"

definition exception_entry :: "env \<Rightarrow> ('a wakeup_state_scheme, int) state" where
  "exception_entry E = do {
     (_, mcause) \<leftarrow> call_out E Get_MCAUSE [];
     _ \<leftarrow> (if mcause AND 0xff = INTC_R_NMI_EXCEPTION then platform_nmi_handler E else ret OK);
     ret OK
   }"

definition hadle_trap :: "env \<Rightarrow> u32 \<Rightarrow> u32 \<Rightarrow> ('a wakeup_state_scheme, u32) state" where
  "hadle_trap E mcause epc = do {
     _ \<leftarrow> (if drop_bit 31 mcause \<noteq> 0 then interrupt_entry E (isr_invoke E) else exception_entry E);
     ret epc
   }"

text \<open>
  The wait instruction ends with a trap, which the core takes when the answer of the call is not 0, with the cause of
  the answer; traps are taken nowhere else in the model. The source has no bound on the rounds.
\<close>

definition cpu_enter_doze :: "env \<Rightarrow> ('a wakeup_state_scheme, unit) state" where
  "cpu_enter_doze E = do {
     (r, mcause) \<leftarrow> call_out E Wfi [];
     if r \<noteq> 0 then do { _ \<leftarrow> hadle_trap E mcause 0; ret () } else ret ()
   }"

fun wakeup_loop :: "env \<Rightarrow> nat \<Rightarrow> ('a wakeup_state_scheme, unit) state" where
  "wakeup_loop E 0 = hang"
| "wakeup_loop E (Suc n) = do {
     w \<leftarrow> State_Monad.get;
     if wakeup_source w \<noteq> NO_WAKESOURCE then ret ()
     else do { _ \<leftarrow> cpu_enter_doze E; wakeup_loop E n }
   }"

definition wait_wakeup :: "env \<Rightarrow> nat \<Rightarrow> ('a wakeup_state_scheme, unit) state" where
  "wait_wakeup E fuel = do {
     _ \<leftarrow> save_state_flag (REC_ESTANDBY OR REC_WAIT_WAKEUP OR 0x01);
     _ \<leftarrow> wakeup_timer_start;
     _ \<leftarrow> wakeup_loop E fuel;
     wakeup_timer_stop
   }"

definition empty_message :: message where
  "empty_message = \<lparr>m_state = 0, m_attr = 0, m_type = 0, m_result = 0, m_count = 0, m_paras = None\<rparr>"

fun cpu0_loop :: "env \<Rightarrow> nat \<Rightarrow> nat \<Rightarrow> message \<Rightarrow> ('a wakeup_state_scheme, int) state" where
  "cpu0_loop E fuel 0 m = do {
     _ \<leftarrow> State_Monad.update (\<lambda>w. w\<lparr>wakeup_source := NO_WAKESOURCE\<rparr>);
     ret (- ETIMEOUT)
   }"
| "cpu0_loop E fuel (Suc n) m = do {
     (r, pm) \<leftarrow> hwmsgbox_query_message E fuel (Some m) 0 HWMSGBOX_QUERY_TIMEOUT;
     let m = the pm;
     if r \<noteq> OK then cpu0_loop E fuel n m
     else if m_type m = SSTANDBY_RESTORE_NOTIFY then do {
       w \<leftarrow> State_Monad.get;
       r \<leftarrow> hwmsgbox_feedback_message E fuel
              (Some (m\<lparr>m_count := 1, m_result := 0, m_paras := Some [wakeup_source w]\<rparr>)) SEND_MSG_TIMEOUT;
       _ \<leftarrow> State_Monad.update (\<lambda>w. w\<lparr>wakeup_source := NO_WAKESOURCE\<rparr>);
       ret r
     } else cpu0_loop E fuel n m
   }"

definition wait_cpu0_resume :: "env \<Rightarrow> nat \<Rightarrow> ('a wakeup_state_scheme, int) state" where
  "wait_cpu0_resume E fuel = cpu0_loop E fuel CPU0_RESTORE_QUERY_RETRIES empty_message"

subsection \<open>The transaction\<close>

definition platform_standby_type :: "env \<Rightarrow> ('a machine_scheme, u32) state" where
  "platform_standby_type E = do {
     r \<leftarrow> interrupt_get_enabled E INTC_R_USB_IRQ;
     ret (if r \<noteq> 0 then CPUS_WAKEUP_USB else 0)
   }"

definition standby_process_init :: "env \<Rightarrow> nat \<Rightarrow> (history \<Rightarrow> memory) \<Rightarrow> ('a standby_state_scheme, int) state" where
  "standby_process_init E fuel D = do {
     _ \<leftarrow> State_Monad.update (\<lambda>w. w\<lparr>suspend_lock := 1\<rparr>);
     _ \<leftarrow> suspend_para_prepare;
     _ \<leftarrow> save_state_flag (REC_ESTANDBY OR REC_ENTER_INIT OR 0x1);
     _ \<leftarrow> cpucfg_cpu_suspend E fuel;
     _ \<leftarrow> save_state_flag (REC_ESTANDBY OR REC_ENTER_INIT OR 0x2);
     _ \<leftarrow> device_suspend E fuel;
     _ \<leftarrow> save_state_flag (REC_ESTANDBY OR REC_ENTER_INIT OR 0x3);
     _ \<leftarrow> cpu_pll_off E;
     _ \<leftarrow> save_state_flag (REC_ESTANDBY OR REC_ENTER_INIT OR 0x4);
     _ \<leftarrow> dram_suspend E D;
     _ \<leftarrow> save_state_flag (REC_ESTANDBY OR REC_ENTER_INIT OR 0x5);
     _ \<leftarrow> cpu_direct_access_suspend E;
     _ \<leftarrow> save_state_flag (REC_ESTANDBY OR REC_ENTER_INIT OR 0x6);
     _ \<leftarrow> clk_suspend E fuel;
     _ \<leftarrow> save_state_flag (REC_ESTANDBY OR REC_ENTER_INIT OR 0x7);
     _ \<leftarrow> system_suspend E;
     _ \<leftarrow> save_state_flag (REC_ESTANDBY OR REC_ENTER_INIT OR 0x8);
     _ \<leftarrow> save_state_flag (REC_ESTANDBY OR REC_ENTER_INIT OR 0x9);
     _ \<leftarrow> rtc_vccio_det_suspend E;
     _ \<leftarrow> save_state_flag (REC_ESTANDBY OR REC_ENTER_INIT OR 0xA);
     r \<leftarrow> dm_suspend E fuel;
     if r \<noteq> OK then ret r
     else do {
       _ \<leftarrow> save_state_flag (REC_ESTANDBY OR REC_ENTER_INIT OR 0xB);
       ret OK
     }
   }"

definition first_err :: "int \<Rightarrow> int \<Rightarrow> int" where
  "first_err e r = (if r \<noteq> OK \<and> e = OK then r else e)"

definition standby_process_exit ::
  "env \<Rightarrow> nat \<Rightarrow> (history \<Rightarrow> memory) \<Rightarrow> u32 \<Rightarrow> bool \<Rightarrow> ('a standby_state_scheme, int) state" where
  "standby_process_exit E fuel D resume_entry wait_restore = do {
     _ \<leftarrow> save_state_flag (REC_ESTANDBY OR REC_ENTER_EXIT OR 0x1);
     r \<leftarrow> dm_resume E fuel;
     let first_error = first_err OK r;
     _ \<leftarrow> save_state_flag (REC_ESTANDBY OR REC_ENTER_EXIT OR 0x2);
     _ \<leftarrow> rtc_vccio_det_resume E;
     _ \<leftarrow> save_state_flag (REC_ESTANDBY OR REC_ENTER_EXIT OR 0x3);
     _ \<leftarrow> clk_resume_early E fuel;
     _ \<leftarrow> save_state_flag (REC_ESTANDBY OR REC_ENTER_EXIT OR 0x4);
     _ \<leftarrow> system_resume E fuel;
     _ \<leftarrow> save_state_flag (REC_ESTANDBY OR REC_ENTER_EXIT OR 0x5);
     r \<leftarrow> ppu_resume E;
     let first_error = first_err first_error r;
     r \<leftarrow> clk_resume E fuel;
     let first_error = first_err first_error r;
     _ \<leftarrow> save_state_flag (REC_ESTANDBY OR REC_ENTER_EXIT OR 0x6);
     _ \<leftarrow> cpu_direct_access_resume;
     _ \<leftarrow> save_state_flag (REC_ESTANDBY OR REC_ENTER_EXIT OR 0x7);
     r \<leftarrow> dram_resume E D;
     let first_error = first_err first_error r;
     _ \<leftarrow> save_state_flag (REC_ESTANDBY OR REC_ENTER_EXIT OR 0x8);
     _ \<leftarrow> nsi_resume;
     _ \<leftarrow> save_state_flag (REC_ESTANDBY OR REC_ENTER_EXIT OR 0x9);
     r \<leftarrow> cpu_pll_on E fuel;
     let first_error = first_err first_error r;
     _ \<leftarrow> save_state_flag (REC_ESTANDBY OR REC_ENTER_EXIT OR 0xA);
     r \<leftarrow> device_resume E;
     let first_error = first_err first_error r;
     _ \<leftarrow> save_state_flag (REC_ESTANDBY OR REC_ENTER_EXIT OR 0xB);
     _ \<leftarrow> cpucfg_cpu_resume E fuel resume_entry;
     _ \<leftarrow> save_state_flag (REC_ESTANDBY OR REC_ENTER_EXIT OR 0xC);
     r \<leftarrow> (if wait_restore then wait_cpu0_resume E fuel
          else do { _ \<leftarrow> State_Monad.update (\<lambda>w. w\<lparr>wakeup_source := NO_WAKESOURCE\<rparr>); ret OK });
     let first_error = first_err first_error r;
     _ \<leftarrow> save_state_flag (REC_ESTANDBY OR REC_ENTER_EXIT OR 0xD);
     _ \<leftarrow> State_Monad.update (\<lambda>w. w\<lparr>suspend_lock := 0\<rparr>);
     ret first_error
   }"

definition para :: "message \<Rightarrow> nat \<Rightarrow> u32" where
  "para m i = the (m_paras m) ! i"

text \<open>The two halves of \<open>standby_entry\<close> after the parameters are known.\<close>

definition standby_failed :: "env \<Rightarrow> nat \<Rightarrow> (history \<Rightarrow> memory) \<Rightarrow> message \<Rightarrow> int \<Rightarrow> ('a standby_state_scheme, int) state" where
  "standby_failed E fuel D m suspend_result = do {
     _ \<leftarrow> save_state_flag (REC_ESTANDBY OR REC_BEFORE_EXIT);
     r \<leftarrow> standby_process_exit E fuel D (para m 1) False;
     _ \<leftarrow> State_Monad.update (\<lambda>w. w\<lparr>standby_result := r\<rparr>);
     _ \<leftarrow> save_state_flag (REC_ESTANDBY OR REC_AFTER_EXIT);
     ret suspend_result
   }"

definition standby_sleep :: "env \<Rightarrow> nat \<Rightarrow> (history \<Rightarrow> memory) \<Rightarrow> message \<Rightarrow> ('a standby_state_scheme, int) state" where
  "standby_sleep E fuel D m = do {
     _ \<leftarrow> save_state_flag (REC_ESTANDBY OR REC_WAIT_WAKEUP);
     _ \<leftarrow> wait_wakeup E fuel;
     _ \<leftarrow> save_state_flag (REC_ESTANDBY OR REC_BEFORE_EXIT);
     r \<leftarrow> standby_process_exit E fuel D (para m 1) True;
     _ \<leftarrow> State_Monad.update (\<lambda>w. w\<lparr>standby_result := r\<rparr>);
     _ \<leftarrow> save_state_flag (REC_ESTANDBY OR REC_AFTER_EXIT);
     ret r
   }"

definition standby_entry :: "env \<Rightarrow> nat \<Rightarrow> (history \<Rightarrow> memory) \<Rightarrow> dtb_ops \<Rightarrow> message \<Rightarrow> ('a standby_state_scheme, int) state" where
  "standby_entry E fuel D T m = do {
     _ \<leftarrow> save_state_flag (REC_ESTANDBY OR REC_ENTER);
     w \<leftarrow> State_Monad.get;
     r \<leftarrow> (if platform_dram_para w = None then ret (- 1) else standby_dts_parse T);
     if r \<noteq> OK then ret (- EACCES)
     else do {
       _ \<leftarrow> save_state_flag (REC_ESTANDBY OR REC_ENTER OR 0x1);
       _ \<leftarrow> iosc_freq_init E fuel;
       ty \<leftarrow> platform_standby_type E;
       _ \<leftarrow> State_Monad.update (\<lambda>w. w\<lparr>standby_type := ty, wakeup_source := NO_WAKESOURCE\<rparr>);
       _ \<leftarrow> save_state_flag (REC_ESTANDBY OR REC_BEFORE_INIT);
       r \<leftarrow> standby_process_init E fuel D;
       _ \<leftarrow> State_Monad.update (\<lambda>w. w\<lparr>standby_result := r\<rparr>);
       _ \<leftarrow> save_state_flag (REC_ESTANDBY OR REC_AFTER_INIT);
       if r \<noteq> OK then standby_failed E fuel D m r else standby_sleep E fuel D m
     }
   }"

subsection \<open>Requests\<close>

definition cpu_op :: "env \<Rightarrow> nat \<Rightarrow> (history \<Rightarrow> memory) \<Rightarrow> dtb_ops \<Rightarrow> message \<Rightarrow> ('a standby_state_scheme, int) state" where
  "cpu_op E fuel D T m =
     (if para m 1 \<noteq> 0 \<and> para m 4 = arisc_power_off then standby_entry E fuel D T m else ret (- EFAIL))"

definition system_shutdown :: "env \<Rightarrow> nat \<Rightarrow> ('a pmu_state_scheme, int) state" where
  "system_shutdown E fuel = pmu_shutdown E fuel"

definition system_reset :: "env \<Rightarrow> nat \<Rightarrow> ('a pmu_state_scheme, int) state" where
  "system_reset E fuel = pmu_reset E fuel"

definition sys_op :: "env \<Rightarrow> nat \<Rightarrow> message \<Rightarrow> ('a pmu_state_scheme, int) state" where
  "sys_op E fuel m = (
     let state = para m 0 in
     if state = arisc_system_shutdown then do {
       _ \<leftarrow> save_state_flag (REC_SHUTDOWN OR 0x101);
       r \<leftarrow> pmu_charging_reset E fuel;
       if r \<noteq> OK then ret r else system_shutdown E fuel
     } else if state = arisc_system_reset \<or> state = arisc_system_reboot then do {
       _ \<leftarrow> save_state_flag (REC_SHUTDOWN OR 0x102);
       system_reset E fuel
     } else if state = arisc_uboot_shutdown then do {
       _ \<leftarrow> save_state_flag (REC_SHUTDOWN OR 0x103);
       system_shutdown E fuel
     } else ret (- EINVAL))"

definition fake_poweroff :: "('a machine_scheme, int) state" where
  "fake_poweroff = ret (- EFAIL)"

definition get_pmu_irq :: "('a machine_scheme, int) state" where
  "get_pmu_irq = ret (- EFAIL)"

definition standby_init :: "('a standby_state_scheme, int) state" where
  "standby_init = do {
     _ \<leftarrow> State_Monad.update (\<lambda>w. w\<lparr>before_crc := 0, after_crc := 0\<rparr>);
     wakeup_timer_init
   }"

end
