(* ===== verification/Standby_Correct.thy ===== *)
theory Standby_Correct
  imports Standby
begin

text \<open>
  What a standby transaction does, in every environment. A computation is calm when it neither puts the
  memory into or out of self-refresh nor sleeps, and keeps the locks, the wake-up reason and the record of
  the rails. All the hardware steps of suspend and resume are calm, so the order of the few steps that are
  not can be read off the transaction.
\<close>

unbundle bit_operations_syntax

section \<open>Calm computations\<close>

fun quiet :: "event \<Rightarrow> bool" where
  "quiet (Call f _ _ _) \<longleftrightarrow> f \<notin> {Dram_power_save_process, Dram_power_up_process, Wfi}"
| "quiet _ \<longleftrightarrow> True"

definition standby_core :: "'a standby_state_scheme \<Rightarrow> _" where
  "standby_core w = (suspend_lock w, wakeup_source w, dm_off_order w, dm_off_count w, dm_off_mask w, standby_masks w)"

definition calm_on :: "('a standby_state_scheme \<Rightarrow> 'c) \<Rightarrow> ('a standby_state_scheme, 'b) state \<Rightarrow> bool" where
  "calm_on f m \<longleftrightarrow> emits quiet m \<and> frames f m"

abbreviation calm :: "('a standby_state_scheme, 'b) state \<Rightarrow> bool" where
  "calm \<equiv> calm_on standby_core"

named_theorems calm_intros \<open>introduction rules for calm computations\<close>

lemma core_trace [simp]: "standby_core (w\<lparr>trace := t\<rparr>) = standby_core w"
  and core_hung [simp]: "standby_core (w\<lparr>hung := b\<rparr>) = standby_core w"
  by (simp_all add: standby_core_def standby_masks_def)

lemma calm_return [calm_intros]: "calm_on f (ret x)"
  by (simp add: calm_on_def emits_intros frames_intros)

lemma calm_bind [calm_intros]: "calm_on f m \<Longrightarrow> (\<And>x. calm_on f (g x)) \<Longrightarrow> calm_on f (m \<bind> g)"
  by (simp add: calm_on_def emits_bind frames_bind)

lemma calm_if [calm_intros]: "calm_on f m \<Longrightarrow> calm_on f n \<Longrightarrow> calm_on f (if c then m else n)"
  by simp

lemma calm_Let [calm_intros]: "(\<And>x. calm_on f (g x)) \<Longrightarrow> calm_on f (Let a g)"
  by simp

lemma calm_split [calm_intros]: "(\<And>a b. calm_on f (g a b)) \<Longrightarrow> calm_on f (case p of (a, b) \<Rightarrow> g a b)"
  by (cases p) simp

lemma calm_option [calm_intros]:
  "calm_on f m \<Longrightarrow> (\<And>x. calm_on f (g x)) \<Longrightarrow> calm_on f (case p of None \<Rightarrow> m | Some x \<Rightarrow> g x)"
  by (cases p) simp_all

lemma calm_get [calm_intros]: "calm_on f State_Monad.get"
  by (simp add: calm_on_def emits_intros frames_intros)

lemma calm_update [calm_intros]:
  "(\<And>w. trace (g w) = trace w) \<Longrightarrow> (\<And>w. f (g w) = f w) \<Longrightarrow> calm_on f (State_Monad.update g)"
  by (simp add: calm_on_def emits_update frames_update)

lemmas calm_combs = calm_return calm_bind calm_if calm_Let calm_split calm_option calm_get calm_update

text \<open>The parts of the state that outlive the wait for a wake-up source, and the switching of the rails.\<close>

definition asleep_core :: "'a standby_state_scheme \<Rightarrow> _" where
  "asleep_core w = (suspend_lock w, dm_off_order w, dm_off_count w, dm_off_mask w, standby_masks w)"

definition locks :: "'a standby_state_scheme \<Rightarrow> u32 \<times> u32" where
  "locks w = (suspend_lock w, wakeup_source w)"

lemma calm_parts: "calm m \<Longrightarrow> calm_on asleep_core m" "calm m \<Longrightarrow> calm_on locks m"
  by (simp_all add: calm_on_def frames_def standby_core_def asleep_core_def locks_def)

lemma calm_basic [calm_intros]:
  "calm (readl E a)" "calm (writel v a)" "calm hang"
  "f \<notin> {Dram_power_save_process, Dram_power_up_process, Wfi} \<Longrightarrow> calm (call E f xs)"
  "f \<notin> {Dram_power_save_process, Dram_power_up_process, Wfi} \<Longrightarrow> calm (call_out E f xs)"
  by (auto simp: calm_on_def intro!: emits_intros frames_intros frames_hang)

lemma calm_for_index [calm_intros]: "(\<And>i. calm (g i)) \<Longrightarrow> calm (for_index is g)"
  by (induction "is") (auto intro!: calm_intros)

lemma calm_poll [calm_intros]: "calm (poll E reg good n)"
  by (induction n) (auto intro!: calm_intros)

lemma calm_wait_until [calm_intros]: "calm m \<Longrightarrow> calm (wait_until n m)"
  by (induction n) (auto intro!: calm_intros)

lemma calm_regs [calm_intros]:
  "calm (reg_update E a m v)" "calm (mmio_clrbits_32 E a m)" "calm (mmio_setbits_32 E a m)" "calm (save_state_flag v)"
  unfolding reg_update_def mmio_clrbits_32_def mmio_setbits_32_def save_state_flag_def by (intro calm_intros)+

subsection \<open>Delays, interrupts and module clocks\<close>

lemma calm_wait_clear_loop [calm_intros]: "calm (wait_clear_loop E n reg m)"
  by (induction n) (auto intro!: calm_intros)

lemma calm_counter [calm_intros]: "calm (cpucfg_counter_read E fuel)"
  unfolding cpucfg_counter_read_def by (induction fuel) (auto intro!: calm_intros)

lemma calm_delay_loops [calm_intros]: "calm (delay_wait_pending E fuel n no d)" "calm (udelay_loop E fuel n c)"
  by (induction n) (auto intro!: calm_intros)

lemma calm_delays [calm_intros]: "calm (time_mdelay E fuel ms)" "calm (cnt64_udelay E fuel us)" "calm (time_cdelay E c)"
  unfolding time_mdelay_def cnt64_udelay_def time_cdelay_def delay_wait_clear_def locked_def Let_def
  by (intro calm_intros; simp)+

lemma calm_sclk [calm_intros]: "calm (ccu_get_sclk_freq E s)" "calm (time_udelay E fuel us)"
  unfolding time_udelay_def ccu_get_sclk_freq_def is_hosc_lock_def is_suspend_lock_def by (intro calm_intros)+

lemma calm_mclk [calm_intros]: "calm (ccu_set_mclk_onoff E k v)" "calm (ccu_set_mclk_reset E k v)"
  unfolding ccu_set_mclk_onoff_def ccu_set_mclk_reset_def Let_def by (intro calm_intros)+

lemma calm_osc [calm_intros]: "calm (iosc_freq_init E fuel)"
  unfolding iosc_freq_init_def osc_sample_def Let_def
  by (intro calm_intros; simp add: standby_core_def standby_masks_def)

subsection \<open>The oscillator\<close>

lemma calm_timer_set [calm_intros]: "calm (timer_set i f)"
  unfolding timer_set_def by (intro calm_intros) (simp_all add: standby_core_def standby_masks_def)

lemma calm_hosc_cb [calm_intros]: "calm (timer_hosc_onoff_cb E command aux)"
  unfolding timer_hosc_onoff_cb_def hosc_off_one_def hosc_on_one_def locked_def Let_def by (intro calm_intros)

lemma calm_hosc_invoke [calm_intros]: "calm (hosc_invoke E f command aux)"
  unfolding hosc_invoke_def by (cases f) (auto intro!: calm_intros)

lemma calm_notify_loop: "calm (notify_loop fuel (hosc_invoke E) command aux head)"
  by (induction fuel arbitrary: head; case_tac head) (auto intro!: calm_intros)

lemma calm_broadcast [calm_intros]: "calm (hosc_broadcast E command)"
  unfolding hosc_broadcast_def notifier_notify_def by (intro calm_intros calm_notify_loop)

lemma calm_losc_wait [calm_intros]: "calm (losc_wait E n)"
  by (induction n) (auto intro!: calm_intros)

lemma calm_hosc [calm_intros]: "calm (ccu_24mhosc_disable E)" "calm (ccu_24mhosc_enable E fuel)"
  unfolding ccu_24mhosc_disable_def ccu_24mhosc_enable_def Let_def
  by (intro calm_intros; simp add: standby_core_def standby_masks_def)+

subsection \<open>Bus, console and message box\<close>

lemma calm_pin_set [calm_intros]:
  "calm (pin_set_multi_sel E g n v)" "calm (pin_set_pull E g n v)" "calm (pin_set_drive E g n v)"
  unfolding pin_set_multi_sel_def pin_set_pull_def pin_set_drive_def Let_def by (intro calm_intros)+

lemma calm_twi_sclk [calm_intros]: "calm (twic_set_sclk E clk)"
  unfolding twic_set_sclk_def by (intro calm_intros)

lemma calm_twi_clock [calm_intros]: "calm (twi_clkchangecb E command freq)"
  unfolding twi_clkchangecb_def by (intro calm_intros; simp add: standby_core_def standby_masks_def)

lemma calm_twi_steps [calm_intros]:
  "calm (twi_clear_irq_flag E fuel)" "calm (twic_reset E fuel)" "calm (twi_start E)" "calm (twi_enable_ack E)"
  "calm (twi_disable_ack E)" "calm (twic_send_dummy_clock E)" "calm (twi_expect E n c)"
  unfolding twi_clear_irq_flag_def twic_reset_def twi_start_def twi_enable_ack_def twi_disable_ack_def
    twic_send_dummy_clock_def twi_expect_def Let_def
  by (intro calm_intros)+

lemma calm_twi_stop [calm_intros]: "calm (twi_stop E fuel)" "calm (twi_send E fuel n v c)"
  unfolding twi_stop_def twi_send_def by (intro calm_intros)+

lemma calm_twi_init [calm_intros]: "calm (twi_standby_init E fuel)" "calm twi_standby_exit"
  unfolding twi_standby_init_def twi_hw_init_def twi_standby_exit_def by (intro calm_intros)+

lemma calm_twi_loops [calm_intros]: "calm (twi_write_loop E fuel ds)" "calm (twi_read_loop E fuel n)"
  by (induction ds, auto intro!: calm_intros) (induction n, auto intro!: calm_intros)

lemma calm_cpu_int [calm_intros]: "calm (cpu_disable_int E)" "calm (cpu_enable_int E c)"
  by (auto simp: calm_on_def intro!: emits_intros frames_intros)

lemma calm_twi_byte_rw [calm_intros]: "calm (twi_byte_rw E fuel op s r d n)"
  unfolding twi_byte_rw_def twi_select_def twi_receive_def by (cases op) (auto intro!: calm_intros)

lemma calm_pmu_reg [calm_intros]: "calm (pmu_reg_read E fuel c r d)" "calm (pmu_reg_write E fuel c r d)"
  unfolding pmu_reg_read_def pmu_reg_write_def One_nat_def by (auto intro!: calm_intros)

lemma calm_set_voltage_state [calm_intros]: "calm (pmu_set_voltage_state E fuel rail st)"
  unfolding pmu_set_voltage_state_def axp8191_pmu_set_voltage_state_def is_pmu_exist_def reg_rmw_def Let_def
  by (intro calm_intros)

lemma calm_pmu_standby [calm_intros]: "calm (pmu_standby_init E)" "calm (pmu_standby_exit E)"
  unfolding pmu_standby_init_def pmu_standby_exit_def nmi_int_enable_def nmi_int_disable_def by (intro calm_intros)+

lemma calm_uart [calm_intros]: "calm (uart_clkchangecb E command freq)"
  unfolding uart_clkchangecb_def uart_set_baudrate_def
  by (intro calm_intros; simp add: standby_core_def standby_masks_def)

lemma calm_box_standby [calm_intros]: "calm (hwmsgbox_super_standby_init E)" "calm (hwmsgbox_super_standby_exit E)"
  unfolding hwmsgbox_super_standby_init_def hwmsgbox_super_standby_exit_def hwmsgbox_init_def hwmsgbox_exit_def
  by (intro calm_intros)+

subsection \<open>The steps of suspend and resume\<close>

lemma calm_timestamp [calm_intros]: "calm (sunxi_timestamp_suspend E)" "calm (sunxi_timestamp_resume E)"
  unfolding sunxi_timestamp_suspend_def sunxi_timestamp_resume_def rtc_get_timestamp_in_seconds_since_def Let_def
  by (intro calm_intros; simp add: standby_core_def standby_masks_def)+

lemma calm_prepare [calm_intros]: "calm suspend_para_prepare"
  unfolding suspend_para_prepare_def by (intro calm_intros) (simp_all add: standby_core_def standby_masks_def)

lemma calm_smc_loops [calm_intros]: "calm (smc_save_loop E is)" "calm (smc_restore_loop is)"
  by (induction "is") (auto simp: smc_write_reg_def Let_def standby_core_def standby_masks_def intro!: calm_intros)

lemma calm_smc [calm_intros]: "calm (smc_standby_init E)" "calm (smc_standby_exit E)"
  unfolding smc_standby_init_def smc_standby_exit_def is_chip_secure_def smc_write_reg_def by (intro calm_intros)+

lemma calm_usb [calm_intros]:
  "calm (usb_standby_init E)" "calm usb_standby_exit" "calm (usb_iso_suspend E)" "calm (usb_iso_resume E)"
  unfolding usb_standby_init_def usb_standby_exit_def usb_iso_suspend_def usb_iso_resume_def
    usb_standby_port_support_def logged_clear_def logged_set_def Let_def
  by (intro calm_intros; simp add: standby_core_def standby_masks_def)+

lemma calm_pll_loops [calm_intros]: "calm (pll_on_loop E is)" "calm (pll_off E i)" "calm (pll_write_back i)"
  by (induction "is")
    (auto simp: pll_off_def pll_write_back_def Let_def standby_core_def standby_masks_def intro!: calm_intros)

lemma calm_pll [calm_intros]: "calm (all_pll_set E fuel sta)"
  unfolding all_pll_set_def by (cases sta) (auto intro!: calm_intros)

lemma calm_bus_clock [calm_intros]: "calm (bus_clock_set E mode bus)" "calm (bus_clock_ctl E mode control)"
  unfolding bus_clock_set_def bus_clock_ctl_def bus_clock_one_def bus_ctl_one_def Let_def
  by (intro calm_intros; simp add: standby_core_def standby_masks_def)+

lemma calm_clk [calm_intros]: "calm (clk_suspend E fuel)" "calm (clk_resume_early E fuel)" "calm (clk_resume E fuel)"
  unfolding clk_suspend_def clk_resume_early_def clk_resume_def rv_low_power_mode_def dcxo_disable_def dcxo_enable_def
  by (intro calm_intros)+

lemma calm_cpu_pll_loops [calm_intros]:
  "calm (cpu_pll_start_loop E is)" "calm (cpu_pll_factor_loop E fuel is)" "calm (cpu_pll_off_one E i)"
  by (induction "is") (auto simp: cpu_pll_off_one_def Let_def standby_core_def standby_masks_def intro!: calm_intros)

lemma calm_cpu_clk [calm_intros]: "calm (cpu_pll_off E)" "calm (cpu_pll_on E fuel)"
  unfolding cpu_pll_off_def cpu_pll_on_def cpu_pll_ldo_def cpu_clk_on_def sunxi_get_soc_ver_def Let_def
  by (intro calm_intros; simp add: standby_core_def standby_masks_def)+

lemma calm_direct_access [calm_intros]: "calm (cpu_direct_access_suspend E)" "calm cpu_direct_access_resume"
  unfolding cpu_direct_access_suspend_def cpu_direct_access_resume_def
  by (intro calm_intros; simp add: standby_core_def standby_masks_def)+

lemma calm_ppu_loop [calm_intros]: "calm (ppu_loop E is)"
  by (induction "is") (auto intro!: calm_intros)

lemma calm_system [calm_intros]:
  "calm (system_suspend E)" "calm (system_resume E fuel)" "calm (rtc_vccio_det_suspend E)"
  "calm (rtc_vccio_det_resume E)" "calm (ppu_resume E)" "calm nsi_resume"
  unfolding system_suspend_def system_resume_def rtc_vccio_det_suspend_def rtc_vccio_det_resume_def ppu_resume_def
    nsi_resume_def
  by (intro calm_intros)+

lemma calm_device [calm_intros]: "calm (device_suspend E fuel)" "calm (device_resume E)"
  unfolding device_suspend_def device_resume_def by (intro calm_intros)+

lemma calm_cpu_suspend [calm_intros]: "calm (cpucfg_cpu_suspend E fuel)"
  unfolding cpucfg_cpu_suspend_def sunxi_poweroff_cpu_def sunxi_get_cluster_powerstate_def
  by (intro calm_intros)

lemma calm_checksum [calm_intros]: "calm (dram_checksum D)"
  unfolding dram_checksum_def by (intro calm_intros)

lemma calm_standby_type [calm_intros]: "calm (platform_standby_type E)"
  unfolding platform_standby_type_def interrupt_get_enabled_def intc_interrupt_is_enabled_def readb_def by (intro calm_intros)

subsection \<open>Waking up\<close>

lemma calm_intc [calm_intros]: "calm (interrupt_set_mask E n b)" "calm (interrupt_get_current_intno E)" "calm (isr_default E a)"
  unfolding intc_defs interrupt_get_current_intno_def isr_default_def readb_def writeb_def by (intro calm_intros; simp)+

lemma calm_soft_set [calm_intros]: "calm (soft_set i f)" "calm (soft_at i)"
  unfolding soft_set_def soft_at_def by (intro calm_intros; simp add: standby_core_def standby_masks_def)+

lemma calm_wakeup_timer [calm_intros]: "calm wakeup_timer_start" "calm wakeup_timer_stop"
  unfolding wakeup_timer_start_def wakeup_timer_stop_def start_softtimer_def stop_softtimer_def by (intro calm_intros)+

lemma calm_ack [calm_intros]: "calm (timer_ack_pending E t)"
  unfolding timer_ack_pending_def timer_wait_clear_def Let_def by (intro calm_intros)

lemma wakes_up: "calm_on asleep_core (State_Monad.update (\<lambda>w. w\<lparr>wakeup_source := s\<rparr>))"
  by (intro calm_update) (simp_all add: asleep_core_def standby_masks_def)

lemma soft_invoke_calm: "calm_on asleep_core (soft_invoke E f a)"
  unfolding soft_invoke_def wakeup_timer_handler_def
  by (cases f) (auto intro!: calm_combs wakes_up calm_parts(1) [OF calm_basic(4)])

lemma tick_loop_calm: "calm_on asleep_core (tick_loop (soft_invoke E) is)"
proof (induction "is")
  case (Cons i "is")
  have "calm_on asleep_core (soft_tick (soft_invoke E) s)" for s
    unfolding soft_tick_def by (intro calm_combs soft_invoke_calm calm_parts(1) [OF calm_soft_set(1)] calm_parts(1) [OF calm_soft_set(2)])
  with Cons show ?case by (auto intro!: calm_combs)
qed (simp add: calm_combs)

lemma timer_invoke_calm: "calm_on asleep_core (timer_invoke E f a)"
  unfolding timer_invoke_def timer_tick_server_def
  by (cases f) (auto intro!: calm_combs tick_loop_calm calm_parts(1) [OF calm_basic(4)] simp: asleep_core_def standby_masks_def)

lemma isr_invoke_calm: "calm_on asleep_core (isr_invoke E f a)"
proof -
  have "calm_on asleep_core (timer_isr E (timer_invoke E) i)" for i
    unfolding timer_isr_def locked_def timer_at_def
    by (intro calm_combs timer_invoke_calm calm_parts(1) [OF calm_basic(1)] calm_parts(1) [OF calm_ack])
  then show ?thesis
    unfolding isr_invoke_def default_wakeup_handler_def
    by (cases f; cases a)
      (auto intro!: calm_combs wakes_up calm_parts(1) [OF calm_basic(4)] calm_parts(1) [OF calm_intc(1)]
        calm_parts(1) [OF calm_intc(2)] calm_parts(1) [OF calm_intc(3)])
qed

lemma interrupt_entry_calm: "calm_on asleep_core (interrupt_entry E (isr_invoke E))"
  unfolding interrupt_entry_def intc_get_current_interrupt_def
  by (auto intro!: calm_combs isr_invoke_calm calm_parts(1) [OF calm_basic(5)] calm_parts(1) [OF calm_basic(4)])

lemma calm_wait_queue [calm_intros]: "calm (wait_queue E (time_mdelay E fuel ms) reg busy n)"
  by (induction n) (auto intro!: calm_intros)

lemma calm_words [calm_intros]: "calm (put_word E fuel q t v)" "calm (get_word E fuel q t)"
  unfolding put_word_def get_word_def hwmsgbox_wait_queue_not_full_def hwmsgbox_wait_queue_not_empty_def
  by (intro calm_intros)+

lemma calm_put_words [calm_intros]: "calm (put_words E fuel q t vs)"
  by (induction vs) (auto intro!: calm_intros)

lemma calm_recv_paras [calm_intros]: "calm (recv_paras E fuel q t c i n m)"
  by (induction n arbitrary: i m) (auto simp: split_beta intro!: calm_intros)

lemma calm_drain [calm_intros]: "calm (rx_drain E q n)"
  by (induction n) (auto intro!: calm_intros)

lemma calm_messages [calm_intros]:
  "calm (hwmsgbox_feedback_message E fuel pm t)" "calm (hwmsgbox_query_message E fuel pm c t)"
  unfolding hwmsgbox_feedback_message_def hwmsgbox_query_message_def hwmsgbox_receive_message_def receive_failed_def
    hwmsgbox_clear_receiver_pending_def Let_def
  by (intro calm_intros)+

lemma cpu0_loop_calm: "calm_on asleep_core (cpu0_loop E fuel n m)"
  by (induction n arbitrary: m)
    (auto simp: Let_def intro!: calm_combs wakes_up calm_parts(1) [OF calm_messages(1)] calm_parts(1) [OF calm_messages(2)])

text \<open>However the wait for the main processor ends, the reason of this wake-up is used up.\<close>

lemma cpu0_loop_clears: "wp (cpu0_loop E fuel n m) (\<lambda>_ w'. wakeup_source w' = NO_WAKESOURCE) w"
  by (induction n arbitrary: m w)
    (auto simp: wp_def Let_def split_beta State_Monad.update_def State_Monad.get_def State_Monad.set_def)

subsection \<open>The rails\<close>

lemma locks_dm [simp]: "locks (w\<lparr>dm_off_order := a\<rparr>) = locks w" "locks (w\<lparr>dm_off_count := n\<rparr>) = locks w"
  "locks (w\<lparr>dm_off_mask := m\<rparr>) = locks w"
  by (simp_all add: locks_def)

lemma switch_calm: "calm_on locks (pmu_set_voltage_state E fuel k st)"
  by (rule calm_parts(2) [OF calm_set_voltage_state])

lemma restore_loop_calm: "calm_on locks (restore_loop (pmu_set_voltage_state E fuel) n F e)"
  by (induction n arbitrary: F e) (auto simp: Let_def intro!: calm_combs switch_calm)

lemma restore_rails_calm: "calm_on locks (restore_rails (pmu_set_voltage_state E fuel))"
  unfolding restore_rails_def by (intro calm_combs restore_loop_calm; simp)

lemma power_off_loop_calm: "calm_on locks (power_off_loop (pmu_set_voltage_state E fuel) m ks)"
  by (induction ks) (auto intro!: calm_combs switch_calm)

lemma power_off_masks_calm: "calm_on locks (power_off_masks (pmu_set_voltage_state E fuel) ms)"
  by (induction ms) (auto intro!: calm_combs power_off_loop_calm restore_rails_calm)

lemma dm_calm: "calm_on locks (dm_suspend E fuel)" "calm_on locks (dm_resume E fuel)"
  unfolding dm_suspend_def dm_resume_def dm_restore_off_rails_def suspend_rails_def
  by (intro calm_combs restore_rails_calm power_off_masks_calm; simp)+

section \<open>The order of a transaction\<close>

lemma wp_calm: "calm_on f m \<Longrightarrow> wp m (\<lambda>_ w'. adds quiet w w' \<and> f w' = f w) w"
  unfolding calm_on_def by (intro wp_conj adds_emits frames_wp) auto

definition calm_closed :: "('a standby_state_scheme \<Rightarrow> bool) \<Rightarrow> bool" where
  "calm_closed I \<longleftrightarrow> (\<forall>u u'. I u \<longrightarrow> adds quiet u u' \<longrightarrow> standby_core u' = standby_core u \<longrightarrow> I u')"

lemma wp_calm_bind:
  assumes "calm_closed I" and "calm m" and "I w" and "\<And>x u. I u \<Longrightarrow> wp (g x) Q u"
  shows "wp (m \<bind> g) Q w"
  by (rule wp_bindI, rule wp_mono [OF wp_calm [OF assms(2)]]) (use assms(1,3,4) in \<open>auto simp: calm_closed_def\<close>)

text \<open>
  The events of a transaction, newest first: the memory is put to sleep, the core may doze, the memory is
  woken, and after that the main processor is given its entry point. Nothing else touches the memory's
  power state, and the core dozes only in between.
\<close>

fun dozes :: "event \<Rightarrow> bool" where
  "dozes (Call f _ _ _) \<longleftrightarrow> f = Wfi"
| "dozes _ \<longleftrightarrow> False"

definition went_down :: "bool \<Rightarrow> event list \<Rightarrow> bool" where
  "went_down slept es \<longleftrightarrow> (\<exists>after before r v. es = after @ Call Dram_power_save_process [] r v # before \<and>
     list_all quiet before \<and> list_all (\<lambda>e. quiet e \<or> dozes e) after \<and> (slept \<longleftrightarrow> list_ex dozes after))"

definition woken :: "event list \<Rightarrow> bool" where
  "woken es \<longleftrightarrow> (\<exists>start early r v. es = start @ Call Dram_power_up_process [] r v # early \<and> list_all quiet (start @ early))"

definition came_up :: "u32 \<Rightarrow> event list \<Rightarrow> bool" where
  "came_up entry es \<longleftrightarrow> (\<exists>late ws. es = late @ Wr SUNXI_CPUCFG_RVBAR_LO_REG entry # ws \<and> list_all quiet late \<and> woken ws)"

definition since :: "'a machine_scheme \<Rightarrow> (event list \<Rightarrow> bool) \<Rightarrow> 'b machine_scheme \<Rightarrow> bool" where
  "since w P u \<longleftrightarrow> (\<exists>es. trace u = es @ trace w \<and> P es)"

lemma adds_since: "adds P w u \<longleftrightarrow> since w (list_all P) u"
  by (simp add: adds_def since_def list_all_iff)

lemma since_add: "since w P u \<Longrightarrow> adds A u u' \<Longrightarrow> (\<And>es fs. P es \<Longrightarrow> list_all A fs \<Longrightarrow> Q (fs @ es)) \<Longrightarrow> since w Q u'"
  unfolding since_def adds_def list_all_iff by (metis append.assoc)

lemma quiet_no_doze: "quiet e \<Longrightarrow> \<not> dozes e"
  by (cases e) auto

lemma list_all_no_doze: "list_all quiet es \<Longrightarrow> \<not> list_ex dozes es"
  by (auto simp: list_all_iff list_ex_iff quiet_no_doze)

lemma went_downI:
  "list_all quiet before \<Longrightarrow> list_all (\<lambda>e. quiet e \<or> dozes e) after \<Longrightarrow>
   went_down (list_ex dozes after) (after @ Call Dram_power_save_process [] r v # before)"
  unfolding went_down_def by blast

lemma went_downE:
  assumes "went_down slept es"
  obtains after before r v where "es = after @ Call Dram_power_save_process [] r v # before" "list_all quiet before"
    "list_all (\<lambda>e. quiet e \<or> dozes e) after" "slept \<longleftrightarrow> list_ex dozes after"
  using assms unfolding went_down_def by blast

lemma went_down_add:
  assumes "went_down b es" and "list_all (\<lambda>e. quiet e \<or> dozes e) fs"
  shows "went_down (b \<or> list_ex dozes fs) (fs @ es)"
  using assms(1)
proof (rule went_downE)
  fix after before r v
  assume "es = after @ Call Dram_power_save_process [] r v # before" "list_all quiet before"
    "list_all (\<lambda>e. quiet e \<or> dozes e) after" "b \<longleftrightarrow> list_ex dozes after"
  with went_downI [of before "fs @ after" r v] assms(2) show ?thesis by (simp add: disj_commute)
qed

lemma went_down_quiet: "went_down b es \<Longrightarrow> list_all quiet fs \<Longrightarrow> went_down b (fs @ es)"
  using went_down_add [of b es fs] list_all_no_doze [of fs] by (auto simp: list_all_iff)

lemma went_down_before: "list_all quiet es \<Longrightarrow> went_down b fs \<Longrightarrow> went_down b (fs @ es)"
proof (erule went_downE)
  fix after before r v
  assume "list_all quiet es" "fs = after @ Call Dram_power_save_process [] r v # before" "list_all quiet before"
    "list_all (\<lambda>e. quiet e \<or> dozes e) after" "b \<longleftrightarrow> list_ex dozes after"
  with went_downI [of "before @ es" after r v] show "went_down b (fs @ es)" by simp
qed

definition rails_core :: "'a standby_state_scheme \<Rightarrow> _" where
  "rails_core w = (dm_off_order w, dm_off_count w, dm_off_mask w)"

lemma trace_parts [simp]: "locks (w\<lparr>trace := t\<rparr>) = locks w" "rails_core (w\<lparr>trace := t\<rparr>) = rails_core w"
  "rails_ok (w\<lparr>trace := t\<rparr>) = rails_ok w" "off_rails (w\<lparr>trace := t\<rparr>) = off_rails w"
  by (simp_all add: locks_def rails_core_def rails_ok_def off_rails_def recorded_def)

lemma down_adds: "since w (went_down b) u \<Longrightarrow> adds quiet u u' \<Longrightarrow> since w (went_down b) u'"
  by (rule since_add) (assumption | rule went_down_quiet)+

lemma adds_write: "adds quiet w u \<Longrightarrow> adds quiet w (u\<lparr>trace := Wr a v # trace u\<rparr>)"
  by (erule adds_trans) (simp add: adds_event)

lemma rails_core_ok: "rails_core u = rails_core w \<Longrightarrow> rails_ok u = rails_ok w \<and> off_rails u = off_rails w"
  by (simp add: rails_core_def rails_ok_def recorded_def off_rails_def)

lemma core_same: "standby_core u = standby_core w \<Longrightarrow> locks u = locks w \<and> rails_core u = rails_core w"
  "asleep_core u = asleep_core w \<Longrightarrow> suspend_lock u = suspend_lock w \<and> rails_core u = rails_core w"
  by (simp_all add: standby_core_def asleep_core_def locks_def rails_core_def)

lemma closed_since:
  assumes "\<And>es fs. P es \<Longrightarrow> list_all quiet fs \<Longrightarrow> P (fs @ es)"
  shows "calm_closed (\<lambda>u. since w P u \<and> locks u = l \<and> rails_core u = c)"
  unfolding calm_closed_def using core_same(1) since_add [where Q = P] assms by metis

subsection \<open>Going down\<close>

lemma dm_suspend_wp:
  assumes "rails_ok w"
  shows "wp (dm_suspend E fuel) (\<lambda>r w'. adds quiet w w' \<and> locks w' = locks w \<and> rails_ok w' \<and>
     (r = OK \<longrightarrow> set (off_rails w') = requested w)) w"
  by (rule wp_mono [OF wp_conj [OF wp_calm [OF dm_calm(1)] bare.suspend_rails_wp [OF assms TrueI, folded dm_suspend_def]]])
    (auto simp: requested_def)

lemma dm_resume_wp:
  assumes "rails_ok w"
  shows "wp (dm_resume E fuel) (\<lambda>r w'. adds quiet w w' \<and> locks w' = locks w \<and> rails_ok w' \<and>
     (r = OK \<longleftrightarrow> off_rails w' = [])) w"
  by (rule wp_mono [OF wp_conj [OF wp_calm [OF dm_calm(2)]
      bare.restore_rails_wp [OF assms TrueI, folded dm_resume_def dm_restore_off_rails_def]]])
    auto

lemma dram_suspend_wp:
  "wp (dram_suspend E D) (\<lambda>_ w'. since w (went_down False) w' \<and> locks w' = locks w \<and> rails_core w' = rails_core w) w"
proof -
  let ?I = "\<lambda>u. since w (list_all quiet) u \<and> locks u = locks w \<and> rails_core u = rails_core w"
  have closed: "calm_closed ?I" by (rule closed_since) simp
  have store: "calm (State_Monad.update (\<lambda>w. w\<lparr>before_crc := c\<rparr>))" for c
    by (intro calm_intros) (simp_all add: standby_core_def standby_masks_def)
  have last: "wp (do { _ \<leftarrow> call E Dram_power_save_process []; ret () })
      (\<lambda>_ w'. since w (went_down False) w' \<and> locks w' = locks w \<and> rails_core w' = rails_core w) u" if "?I u" for u
  proof -
    from that obtain es where es: "trace u = es @ trace w" "list_all quiet es" by (auto simp: since_def)
    then show ?thesis
      using that went_downI [of es "[]"] by (auto simp: wp_simps Let_def since_def locks_def rails_core_def)
  qed
  show ?thesis
    unfolding dram_suspend_def
    by (rule wp_calm_bind [OF closed calm_get], simp add: since_def, rule wp_calm_bind [OF closed])
      (intro calm_intros store, assumption, rule last)
qed

lemma process_init_wp:
  assumes "rails_ok w"
  shows "wp (standby_process_init E fuel D) (\<lambda>r w'. since w (went_down False) w' \<and>
     locks w' = (1, wakeup_source w) \<and> rails_ok w') w"
proof -
  let ?I = "\<lambda>P u. since w P u \<and> locks u = (1, wakeup_source w) \<and> rails_core u = rails_core w"
  let ?Q = "\<lambda>(r :: int) w'. since w (went_down False) w' \<and> locks w' = (1, wakeup_source w) \<and> rails_ok w'"
  have closed: "calm_closed (?I (list_all quiet))" "calm_closed (?I (went_down False))"
    by (rule closed_since; simp add: went_down_quiet)+
  have down: "?I (went_down False) u'" if "?I (list_all quiet) u"
    "since u (went_down False) u' \<and> locks u' = locks u \<and> rails_core u' = rails_core u" for u u' :: "'a standby_state_scheme"
    using that by (auto simp: since_def intro!: went_down_before)
  have finish: "wp (do { r \<leftarrow> dm_suspend E fuel; if r \<noteq> OK then ret r
      else do { _ \<leftarrow> save_state_flag f; ret OK } }) ?Q u" if u: "?I (went_down False) u" for u f
  proof -
    have "rails_ok u" using u rails_core_ok [of u w] assms by simp
    then show ?thesis
      by (intro wp_bindI, intro wp_mono [OF dm_suspend_wp])
        (use u in \<open>auto simp: wp_simps save_state_flag_def intro: down_adds adds_write\<close>)
  qed
  show ?thesis
    unfolding standby_process_init_def
    apply (rule wp_bindI, simp only: wp_update)
    apply (rule wp_calm_bind [OF closed(1)], rule calm_intros, simp add: since_def locks_def rails_core_def)
    apply ((rule wp_calm_bind [OF closed(1)], rule calm_intros, assumption)+)[1]
    apply (rule wp_bindI, rule wp_mono [OF dram_suspend_wp], drule (1) down)
    apply ((rule wp_calm_bind [OF closed(2)], rule calm_intros, assumption)+)[1]
    apply (rule finish, assumption)
    done
qed

subsection \<open>Sleeping\<close>

lemma hadle_trap_calm: "calm_on asleep_core (hadle_trap E mcause epc)"
proof -
  have "calm_on asleep_core (platform_nmi_handler E)"
    unfolding platform_nmi_handler_def nmi_int_disable_def
    by (intro calm_combs calm_parts(1) calm_basic) (simp_all add: asleep_core_def standby_masks_def)
  then show ?thesis
    unfolding hadle_trap_def exception_entry_def
    by (intro calm_combs interrupt_entry_calm calm_parts(1) [OF calm_basic(5)]) simp_all
qed

lemma wakeup_loop_wp:
  fixes w :: "'a standby_state_scheme"
  shows "wp (wakeup_loop E n) (\<lambda>_ w'. adds (\<lambda>e. quiet e \<or> dozes e) w w' \<and> asleep_core w' = asleep_core w) w"
proof -
  let ?P = "\<lambda>e. quiet e \<or> dozes e"
  have ie: "emits ?P (hadle_trap E c 0 :: ('a standby_state_scheme, u32) state)"
    "frames asleep_core (hadle_trap E c 0 :: ('a standby_state_scheme, u32) state)" for c
    using hadle_trap_calm [of E c 0] unfolding calm_on_def by (auto elim!: emits_mono)
  have "emits ?P (wakeup_loop E n :: ('a standby_state_scheme, unit) state)"
    by (induction n) (auto simp: cpu_enter_doze_def intro!: emits_intros ie(1))
  moreover have "frames asleep_core (wakeup_loop E n :: ('a standby_state_scheme, unit) state)"
    by (induction n) (auto simp: cpu_enter_doze_def intro!: frames_intros frames_hang ie(2);
        simp add: asleep_core_def standby_masks_def)+
  ultimately show ?thesis
    by (intro wp_conj adds_emits frames_wp) auto
qed

text \<open>With no wake-up source pending the core dozes at least once.\<close>

lemma wakeup_loop_dozes:
  assumes "wakeup_source w = NO_WAKESOURCE" and "0 < n"
  shows "wp (wakeup_loop E n) (\<lambda>_ w'. since w (\<lambda>es. list_all (\<lambda>e. quiet e \<or> dozes e) es \<and> list_ex dozes es) w' \<and>
     asleep_core w' = asleep_core w) w"
proof -
  obtain k where n: "n = Suc k" using assms(2) gr0_implies_Suc by blast
  let ?P = "\<lambda>e. quiet e \<or> dozes e"
  have entry: "calm_on asleep_core (if b then do { _ \<leftarrow> hadle_trap E c 0; ret () } else ret ())" for b c
    by (intro calm_combs hadle_trap_calm)
  have tail: "wp (if b then do { _ \<leftarrow> hadle_trap E c 0; ret () } else ret ())
     (\<lambda>_. wp (wakeup_loop E k) (\<lambda>_ w'. adds ?P u w' \<and> asleep_core w' = asleep_core u)) u" for b c u
    by (rule wp_mono [OF wp_calm [OF entry]], rule wp_mono [OF wakeup_loop_wp], elim conjE, intro conjI)
      (erule adds_trans [OF adds_mono [where Q = ?P]], simp_all)
  have dozed: "since w (\<lambda>es. list_all ?P es \<and> list_ex dozes es) u" if "adds ?P (w\<lparr>trace := Call Wfi [] r v # trace w\<rparr>) u" for r v u
    using that by (auto simp: adds_def since_def list_all_iff)
  show ?thesis
    unfolding n wakeup_loop.simps cpu_enter_doze_def
    apply (simp only: wp_bind wp_get assms(1) simp_thms if_False wp_call_out Let_def split_beta)
    apply (rule wp_mono [OF tail])
    apply (erule wp_mono)
    apply (elim conjE, intro conjI dozed, assumption)
    apply (simp add: asleep_core_def standby_masks_def)
    done
qed

subsection \<open>Coming up\<close>

lemma first_err_OK [simp]: "first_err e r = OK \<longleftrightarrow> e = OK \<and> r = OK"
  by (auto simp: first_err_def)

lemma wokenI: "list_all quiet es \<Longrightarrow> list_all quiet fs \<Longrightarrow> woken (fs @ Call Dram_power_up_process [] r v # es)"
  unfolding woken_def by auto

lemma woken_add: "woken es \<Longrightarrow> list_all quiet fs \<Longrightarrow> woken (fs @ es)"
  unfolding woken_def by (metis append.assoc list_all_append)

lemma came_upI: "woken es \<Longrightarrow> list_all quiet fs \<Longrightarrow> came_up entry (fs @ Wr SUNXI_CPUCFG_RVBAR_LO_REG entry # es)"
  unfolding came_up_def by blast

lemma came_up_add: "came_up entry es \<Longrightarrow> list_all quiet fs \<Longrightarrow> came_up entry (fs @ es)"
  unfolding came_up_def by (metis append.assoc list_all_append)

lemma closed_since_core:
  assumes "\<And>es fs. P es \<Longrightarrow> list_all quiet fs \<Longrightarrow> P (fs @ es)"
    and "\<And>u u'. G u \<Longrightarrow> locks u' = locks u \<Longrightarrow> rails_core u' = rails_core u \<Longrightarrow> G u'"
  shows "calm_closed (\<lambda>u. since w P u \<and> G u)"
  unfolding calm_closed_def using core_same(1) since_add [where Q = P] assms by metis

lemma dram_resume_wp:
  assumes "since w (list_all quiet) u"
  shows "wp (dram_resume E D) (\<lambda>_ w'. since w woken w' \<and> locks w' = locks u \<and> rails_core w' = rails_core u) u"
proof -
  obtain es where es: "trace u = es @ trace w" "list_all quiet es" using assms by (auto simp: since_def)
  have rest: "calm (do {
     w \<leftarrow> State_Monad.get;
     if standby_dram_crc_enable (crc_para w) \<noteq> 0 then do {
       crc \<leftarrow> dram_checksum D;
       _ \<leftarrow> State_Monad.update (\<lambda>w. w\<lparr>after_crc := crc\<rparr>);
       w \<leftarrow> State_Monad.get;
       if after_crc w \<noteq> before_crc w then do { _ \<leftarrow> save_state_flag f; ret (- EFAIL) } else ret OK
     } else ret OK })" for f
    by (intro calm_intros; simp add: standby_core_def standby_masks_def)
  have woke: "since w woken w'" if "adds quiet (u\<lparr>trace := Call Dram_power_up_process [] r v # trace u\<rparr>) w'" for r v w'
    using that wokenI [OF es(2)] by (auto simp: es(1) adds_def since_def list_all_iff)
  show ?thesis
    unfolding dram_resume_def
    by (rule wp_bindI, simp only: wp_call Let_def, rule wp_mono [OF wp_calm [OF rest]], elim conjE)
      (intro conjI woke; (assumption | drule core_same(1), simp))
qed

lemma cpu_resume_wp:
  assumes "since w woken u"
  shows "wp (cpucfg_cpu_resume E fuel entry) (\<lambda>_ w'. since w (came_up entry) w' \<and> locks w' = locks u \<and>
     rails_core w' = rails_core u) u"
proof -
  obtain es where es: "trace u = es @ trace w" "woken es" using assms by (auto simp: since_def)
  let ?I = "\<lambda>u'. since w (came_up entry) u' \<and> locks u' = locks u \<and> rails_core u' = rails_core u"
  have closed: "calm_closed ?I" by (rule closed_since) (rule came_up_add)
  have calms: "calm (sunxi_init_archstate E 0 0 1)" "calm (sunxi_poweron_cpu E fuel 0 0)"
    unfolding sunxi_init_archstate_def sunxi_poweron_cpu_def sunxi_get_cpu_powerstate_def by (intro calm_intros)+
  have start: "?I (u\<lparr>trace := Wr SUNXI_CPUCFG_RVBAR_LO_REG entry # trace u\<rparr>)"
    using es came_upI [of es "[]"] by (auto simp: since_def)
  show ?thesis
    unfolding cpucfg_cpu_resume_def sunxi_set_bootaddr_def bind_assoc
    by (rule wp_bindI, simp only: wp_writel)
      ((rule wp_calm_bind [OF closed], rule calms calm_intros, (rule start | assumption))+, rule wp_returnI)
qed

lemma restored_wp:
  assumes "since w (came_up entry) u"
  shows "wp (if wait_restore then wait_cpu0_resume E fuel
       else do { _ \<leftarrow> State_Monad.update (\<lambda>w. w\<lparr>wakeup_source := NO_WAKESOURCE\<rparr>); ret OK })
     (\<lambda>_ w'. since w (came_up entry) w' \<and> wakeup_source w' = NO_WAKESOURCE \<and> rails_core w' = rails_core u) u"
proof (rule wp_ifI)
  have up: "since w (came_up entry) w'" if "adds quiet u w'" for w'
    using since_add [OF assms that, of "came_up entry"] came_up_add by blast
  show "wp (wait_cpu0_resume E fuel)
     (\<lambda>_ w'. since w (came_up entry) w' \<and> wakeup_source w' = NO_WAKESOURCE \<and> rails_core w' = rails_core u) u"
    unfolding wait_cpu0_resume_def
    by (rule wp_mono [OF wp_conj [OF wp_calm [OF cpu0_loop_calm] cpu0_loop_clears]])
      (auto dest: core_same(2) intro: up)
  show "wp (do { _ \<leftarrow> State_Monad.update (\<lambda>w. w\<lparr>wakeup_source := NO_WAKESOURCE\<rparr>); ret OK })
     (\<lambda>_ w'. since w (came_up entry) w' \<and> wakeup_source w' = NO_WAKESOURCE \<and> rails_core w' = rails_core u) u"
    using assms by (simp add: wp_simps since_def rails_core_def)
qed

lemma process_exit_wp:
  assumes "rails_ok w"
  shows "wp (standby_process_exit E fuel D entry wait_restore) (\<lambda>r w'. since w (came_up entry) w' \<and>
     locks w' = (0, NO_WAKESOURCE) \<and> rails_ok w' \<and> (r = OK \<longrightarrow> off_rails w' = [])) w"
proof -
  define G where "G r u \<longleftrightarrow> rails_ok u \<and> (r = OK \<longleftrightarrow> off_rails u = [])" for r :: int and u :: "'a standby_state_scheme"
  have G: "G r u'" if "G r u" "rails_core u' = rails_core u" for r u u'
    using that rails_core_ok [of u' u] by (simp add: G_def)
  have closed: "calm_closed (\<lambda>u. since w (list_all quiet) u \<and> rails_ok u)"
    "calm_closed (\<lambda>u. since w (list_all quiet) u \<and> G r u)"
    "calm_closed (\<lambda>u. since w woken u \<and> G r u)" "calm_closed (\<lambda>u. since w (came_up entry) u \<and> G r u)" for r
    by (rule closed_since_core; auto intro: woken_add came_up_add G dest: rails_core_ok)+
  have steps: "wp (dm_resume E fuel) (\<lambda>r u. since w (list_all quiet) u \<and> G r u) u"
    if "since w (list_all quiet) u \<and> rails_ok u" for u
    using that since_add [where P = "list_all quiet" and Q = "list_all quiet"]
    by (intro wp_mono [OF dm_resume_wp]) (auto simp: G_def)
  have dram: "wp (dram_resume E D) (\<lambda>_ u'. since w woken u' \<and> G r u') u"
    if "since w (list_all quiet) u \<and> G r u" for r u
    using that by (intro wp_mono [OF dram_resume_wp]) (auto intro: G)
  have cpu: "wp (cpucfg_cpu_resume E fuel entry) (\<lambda>_ u'. since w (came_up entry) u' \<and> G r u') u"
    if "since w woken u \<and> G r u" for r u
    using that by (intro wp_mono [OF cpu_resume_wp]) (auto intro: G)
  have wait: "wp (if wait_restore then wait_cpu0_resume E fuel
       else do { _ \<leftarrow> State_Monad.update (\<lambda>w. w\<lparr>wakeup_source := NO_WAKESOURCE\<rparr>); ret OK })
     (\<lambda>_ u'. since w (came_up entry) u' \<and> wakeup_source u' = NO_WAKESOURCE \<and> G r u') u"
    if "since w (came_up entry) u \<and> G r u" for r u
    using that by (intro wp_mono [OF restored_wp]) (auto intro: G)
  have last: "wp (do { _ \<leftarrow> save_state_flag f; _ \<leftarrow> State_Monad.update (\<lambda>w. w\<lparr>suspend_lock := 0\<rparr>); ret e })
     (\<lambda>r w'. since w (came_up entry) w' \<and> locks w' = (0, NO_WAKESOURCE) \<and> rails_ok w' \<and> (r = OK \<longrightarrow> off_rails w' = [])) u"
    if "since w (came_up entry) u \<and> wakeup_source u = NO_WAKESOURCE \<and> G r u" "e = OK \<longrightarrow> r = OK" for f e r u
  proof -
    have "since w (came_up entry) (u\<lparr>trace := Wr a v # trace u\<rparr>)" for a v
      by (rule since_add [of w "came_up entry" u quiet]) (use that(1) came_up_add in \<open>auto simp: adds_event\<close>)
    then show ?thesis
      using that by (auto simp: wp_simps save_state_flag_def G_def locks_def since_def off_rails_def rails_ok_def recorded_def)
  qed
  show ?thesis
    unfolding standby_process_exit_def Let_def
    apply (rule wp_calm_bind [OF closed(1)], rule calm_intros, use assms in \<open>simp add: since_def\<close>)
    apply (rule wp_bindI, erule wp_mono [OF steps])
    apply ((rule wp_calm_bind [OF closed(2)], rule calm_intros, assumption)+)[1]
    apply (rule wp_bindI, erule wp_mono [OF dram])
    apply ((rule wp_calm_bind [OF closed(3)], rule calm_intros, assumption)+)[1]
    apply (rule wp_bindI, erule wp_mono [OF cpu])
    apply (rule wp_calm_bind [OF closed(4)], rule calm_intros, assumption)
    apply (rule wp_bindI, erule wp_mono [OF wait])
    apply (erule last)
    apply simp
    done
qed

section \<open>The transaction\<close>

text \<open>The device tree has every parameter that is needed, each of one word.\<close>

definition dts_complete :: "dtb_ops \<Rightarrow> bool" where
  "dts_complete T \<longleftrightarrow> (let node = dtb_path_offset T ''/standby_param'' in 0 \<le> node \<and>
     (\<forall>name\<in>set [''vdd-cpu'', ''vdd-cpub'', ''vdd-sys'', ''vcc-pll'', ''vcc-io'', ''vcc-efuse'', ''osc24m-on''].
        map_option fst (dtb_getprop T node name) = Some 4) \<and>
     map_option fst (dtb_getprop T node ''vdd-usb'') \<in> {None, Some 4})"

definition standby_refused :: "dtb_ops \<Rightarrow> 'a standby_state_scheme \<Rightarrow> bool" where
  "standby_refused T w \<longleftrightarrow> platform_dram_para w = None \<or> dts_has_parsed w = 0 \<and> \<not> dts_complete T"

lemma dts_loop_wp:
  assumes "\<And>name store v w. (name, store) \<in> set vs \<Longrightarrow> f (store v w) = f w"
  shows "wp (dts_loop T node vs) (\<lambda>r w'. f w' = f w \<and>
     (r = OK \<longleftrightarrow> (\<forall>name\<in>fst ` set vs. map_option fst (dtb_getprop T node name) = Some 4))) w"
  using assms
proof (induction vs arbitrary: w)
  case (Cons p vs)
  have keep: "f (snd p v w) = f w" for v w
    using Cons.prems [of "fst p" "snd p"] by simp
  have "wp (dts_loop T node vs) (\<lambda>r w'. f w' = f (snd p v w) \<and>
     (r = OK \<longleftrightarrow> (\<forall>name\<in>fst ` set vs. map_option fst (dtb_getprop T node name) = Some 4))) (snd p v w)" for v
    by (rule Cons.IH) (use Cons.prems in auto)
  then show ?case
    using keep by (cases p) (auto simp: wp_simps split: option.split)
qed (simp add: wp_simps)

lemma dts_parse_wp:
  "wp (standby_dts_parse T) (\<lambda>r w'. trace w' = trace w \<and> locks w' = locks w \<and> rails_core w' = rails_core w \<and>
     (r = OK \<longleftrightarrow> dts_has_parsed w \<noteq> 0 \<or> dts_complete T)) w"
proof -
  let ?f = "\<lambda>w :: 'a standby_state_scheme. (trace w, locks w, rails_core w)"
  have loop: "wp (dts_loop T node standby_values) (\<lambda>r w'. ?f w' = ?f w \<and>
     (r = OK \<longleftrightarrow> (\<forall>name\<in>fst ` set (standby_values :: (string \<times> (u32 \<Rightarrow> 'a standby_state_scheme \<Rightarrow> _)) list).
       map_option fst (dtb_getprop T node name) = Some 4))) w" for node w
    by (rule dts_loop_wp) (auto simp: standby_values_def locks_def rails_core_def)
  show ?thesis
    unfolding standby_dts_parse_def
    apply (simp only: wp_bind wp_get wp_if wp_return Let_def)
    apply (auto simp: dts_complete_def Let_def)
    apply (rule wp_mono [OF loop])
    apply (auto simp: wp_simps locks_def rails_core_def standby_values_def split: option.split)
    done
qed

definition transacted :: "'a machine_scheme \<Rightarrow> bool \<Rightarrow> u32 \<Rightarrow> 'b machine_scheme \<Rightarrow> bool" where
  "transacted w slept entry w' \<longleftrightarrow> (\<exists>down. went_down slept down \<and> (\<exists>up. trace w' = up @ down @ trace w \<and> came_up entry up))"

lemma transacted_since: "since w (went_down slept) u \<Longrightarrow> since u (came_up entry) w' \<Longrightarrow> transacted w slept entry w'"
  unfolding since_def transacted_def by fastforce

lemma result_parts [simp]: "locks (w\<lparr>standby_result := r\<rparr>) = locks w" "rails_ok (w\<lparr>standby_result := r\<rparr>) = rails_ok w"
  "off_rails (w\<lparr>standby_result := r\<rparr>) = off_rails w" "since v P (w\<lparr>standby_result := r\<rparr>) = since v P w"
  by (simp_all add: locks_def rails_ok_def off_rails_def recorded_def since_def)

lemma exit_wp:
  fixes u :: "'a standby_state_scheme"
  assumes "since w (went_down slept) u" and "rails_ok u"
  shows "wp (do {
     _ \<leftarrow> save_state_flag f;
     r \<leftarrow> standby_process_exit E fuel D entry wait_restore;
     _ \<leftarrow> State_Monad.update (\<lambda>w. w\<lparr>standby_result := r\<rparr>);
     _ \<leftarrow> save_state_flag f';
     ret (h r) }) (\<lambda>x w'. transacted w slept entry w' \<and> locks w' = (0, NO_WAKESOURCE) \<and> rails_ok w' \<and>
       (\<exists>r. x = h r \<and> (r = OK \<longrightarrow> off_rails w' = []))) u"
proof -
  let ?u = "u\<lparr>trace := Wr RTC_RECORD_REG f # trace u\<rparr>"
  have down: "since w (went_down slept) ?u" by (rule down_adds [OF assms(1)]) (simp add: adds_event)
  have ok: "rails_ok ?u" using assms(2) by simp
  have up: "since ?u (came_up entry) (w'\<lparr>standby_result := r, trace := e # trace w'\<rparr>)"
    if "since ?u (came_up entry) w'" "quiet e" for w' :: "'a standby_state_scheme" and e r
    using that came_up_add [of entry _ "[e]"] by (fastforce simp: since_def)
  show ?thesis
    unfolding save_state_flag_def
    by (rule wp_bindI, simp only: wp_writel, rule wp_bindI, rule wp_mono [OF process_exit_wp [OF ok]])
      (auto simp: wp_simps intro!: transacted_since [OF down up])
qed

lemma wait_wakeup_wp:
  fixes u :: "'a standby_state_scheme"
  assumes "since w (went_down False) u" and "wakeup_source u = NO_WAKESOURCE" and "rails_ok u" and "0 < fuel"
  shows "wp (wait_wakeup E fuel) (\<lambda>_ w'. since w (went_down True) w' \<and> rails_ok w') u"
proof -
  let ?I = "\<lambda>b u'. since w (went_down b) u' \<and> locks u' = locks u \<and> rails_core u' = rails_core u"
  let ?Q = "\<lambda>(_ :: unit) w'. since w (went_down True) w' \<and> rails_ok w'"
  have closed: "calm_closed (?I False)" by (rule closed_since) (rule went_down_quiet)
  have dozed: "since w (went_down True) v'" if "since w (went_down False) v"
    "since v (\<lambda>es. list_all (\<lambda>e. quiet e \<or> dozes e) es \<and> list_ex dozes es) v'" for v v' :: "'a standby_state_scheme"
  proof -
    from that obtain es fs where "trace v = es @ trace w" "went_down False es" "trace v' = fs @ trace v"
      "list_all (\<lambda>e. quiet e \<or> dozes e) fs" "list_ex dozes fs" unfolding since_def by blast
    with went_down_add [of False es fs] show ?thesis by (auto simp: since_def intro!: exI [of _ "fs @ es"])
  qed
  have stop: "wp wakeup_timer_stop ?Q v" if "?Q () v" for v :: "'a standby_state_scheme"
    using that by (intro wp_mono [OF wp_calm [OF calm_wakeup_timer(2)]])
      (auto dest!: core_same(1) rails_core_ok intro: down_adds)
  have loop: "wp (do { _ \<leftarrow> wakeup_loop E fuel; wakeup_timer_stop }) ?Q v" if "?I False v" for v :: "'a standby_state_scheme"
    using that assms(2-4)
    by (intro wp_bindI wp_mono [OF wakeup_loop_dozes] stop)
      (auto simp: locks_def dest!: core_same(2) rails_core_ok intro!: stop intro: dozed)
  show ?thesis
    unfolding wait_wakeup_def
    by ((rule wp_calm_bind [OF closed], rule calm_intros, use assms(1) in simp)+, rule loop)
qed

text \<open>How an accepted transaction leaves the machine.\<close>

definition settled :: "'b machine_scheme \<Rightarrow> u32 \<Rightarrow> int \<Rightarrow> 'a standby_state_scheme \<Rightarrow> bool" where
  "settled w entry r w' \<longleftrightarrow> rails_ok w' \<and> locks w' = (0, NO_WAKESOURCE) \<and>
     (\<exists>slept. transacted w slept entry w' \<and> (r = OK \<longrightarrow> slept \<and> off_rails w' = []))"

lemma standby_failed_wp:
  assumes "since w (went_down False) u" and "rails_ok u" and "r \<noteq> OK"
  shows "wp (standby_failed E fuel D m r) (settled w (para m 1)) u"
  unfolding standby_failed_def
  by (rule wp_mono [OF exit_wp [OF assms(1,2), where h = "\<lambda>_. r"]]) (use assms(3) in \<open>auto simp: settled_def\<close>)

lemma standby_sleep_wp:
  assumes "since w (went_down False) u" and "rails_ok u" and "wakeup_source u = NO_WAKESOURCE" and "0 < fuel"
  shows "wp (standby_sleep E fuel D m) (settled w (para m 1)) u"
proof -
  let ?u = "u\<lparr>trace := Wr RTC_RECORD_REG (REC_ESTANDBY OR REC_WAIT_WAKEUP) # trace u\<rparr>"
  have "since w (went_down False) ?u" "wakeup_source ?u = NO_WAKESOURCE" "rails_ok ?u"
    using assms by (auto intro: down_adds [OF assms(1)] simp: adds_event)
  note awake = wait_wakeup_wp [OF this assms(4), of E]
  show ?thesis
    unfolding standby_sleep_def
    by (rule wp_bindI, simp only: save_state_flag_def [of "REC_ESTANDBY OR REC_WAIT_WAKEUP"] wp_writel, rule wp_bindI,
        rule wp_mono [OF awake], elim conjE, rule wp_mono [OF exit_wp [where h = id, unfolded id_apply]])
      (auto simp: settled_def)
qed

lemma standby_branch_wp:
  assumes "since w (went_down False) v \<and> rails_ok v \<and> wakeup_source v = NO_WAKESOURCE" and "0 < fuel"
  shows "wp (do {
     _ \<leftarrow> State_Monad.update (\<lambda>w. w\<lparr>standby_result := r\<rparr>);
     _ \<leftarrow> save_state_flag f;
     if r \<noteq> OK then standby_failed E fuel D m r else standby_sleep E fuel D m }) (settled w (para m 1)) v"
proof -
  let ?v = "v\<lparr>standby_result := r, trace := Wr RTC_RECORD_REG f # trace v\<rparr>"
  have "since w (went_down False) ?v" "rails_ok ?v" "wakeup_source ?v = NO_WAKESOURCE"
    using assms down_adds [of w False "v\<lparr>standby_result := r\<rparr>" ?v]
      adds_event [of quiet "Wr RTC_RECORD_REG f" "v\<lparr>standby_result := r\<rparr>"]
    by auto
  then show ?thesis
    using standby_failed_wp [of w ?v r] standby_sleep_wp [of w ?v fuel E D m] assms(2)
    by (cases "r = OK") (simp_all add: wp_simps save_state_flag_def)
qed

lemma standby_down_wp:
  fixes u :: "'a standby_state_scheme"
  assumes "since w (list_all quiet) u \<and> rails_ok u"
  shows "wp (standby_process_init E fuel D)
     (\<lambda>_ v. since w (went_down False) v \<and> rails_ok v \<and> wakeup_source v = NO_WAKESOURCE)
     (u\<lparr>standby_type := ty, wakeup_source := NO_WAKESOURCE,
        trace := Wr a f # trace (u\<lparr>standby_type := ty, wakeup_source := NO_WAKESOURCE\<rparr>)\<rparr>)" (is "wp _ _ ?u")
proof -
  from assms obtain es where es: "trace ?u = (Wr a f # es) @ trace w" "list_all quiet es" by (auto simp: since_def)
  have "rails_ok ?u" using assms by (simp add: rails_ok_def recorded_def off_rails_def)
  from process_init_wp [OF this] show ?thesis
    by (rule wp_mono) (use es went_down_before [of "Wr a f # es"] in \<open>auto simp: since_def locks_def\<close>)
qed


text \<open>A machine after start-up, and a device tree that has the parameters.\<close>

definition sample_standby :: standby_state where
  "sample_standby = \<lparr>trace = [], notifiers = [], isr_table = replicate 35 no_isr, timer_lock = 0, delay_timer = Some 0,
     timers = timers running_timers, hosc_notifier_list = None, hosc_lock = 0, hung = False, htimer = None, time_ticks = 0,
     softtimer_tab = [Some 0, None], softtimer_cnt = 1,
     soft_objects = (\<lambda>_. \<lparr>st_cycle = 0, st_expires = 0, st_cb = Some Wakeup_timer_handler, st_arg = Null, st_start = 0\<rparr>),
     wakeup_source = 0, iosc_freq = 16000000, losc_freq = 32768, already_init_osc_freq = 0, apbs2_notifier_head = None,
     suspend_lock = 0, little_endian_used = 0, twi_lock = False, pmu_exist = True, bmu_exist = True,
     dm_off_order = replicate 32 0, dm_off_count = 0, dm_off_mask = 0, standby_vdd_cpu = 0, standby_vdd_cpub = 0,
     standby_vdd_sys = 0, standby_vdd_usb = 0, standby_vcc_pll = 0, standby_vcc_io = 0, standby_vcc_efuse = 0,
     standby_osc24m_on = 1, uart_pin_not_used = 0, uart_lock = 0, uart_rate = 115200, standby_result = 0, standby_type = 0,
     usb_standby_port = 0, cpu_pll_restore_bak = replicate 4 0, cpu_clk_restore_bak = replicate 3 0,
     timestamp_cnt_low_bak = 0, timestamp_cnt_hi_bak = 0, timestamp_cnt_freqid_bak = 0, rtc_last_time = 0,
     pll_restore = replicate 14 \<lparr>pll_addr = 0, pll_value = 0\<rparr>,
     bus_restore = replicate 7 \<lparr>busAddr = 0, bus_clk_src = 0, bus_M = 0, bus_flag = 0\<rparr>,
     bus_ctl_addr = replicate 4 0, bus_ctl_value = replicate 4 0, para_has_parsed = 0, dts_has_parsed = 0,
     smc_region_save = replicate 8 \<lparr>region_low = 0, region_high = 0, region_attr = 0\<rparr>, cpu_direct_access = 0,
     before_crc = 0, after_crc = 0, crc_para = crc_paras_init, platform_dram_para = Some (replicate 96 0)\<rparr>"

definition sample_tree :: dtb_ops where
  "sample_tree = \<lparr>dtb_path_offset = (\<lambda>_. 8), dtb_getprop = (\<lambda>_ name. if name = ''vdd-usb'' then None else Some (4, 1))\<rparr>"

definition standby_request :: message where
  "standby_request = \<lparr>m_state = 0, m_attr = 2, m_type = 0x22, m_result = 0, m_count = 5,
     m_paras = Some [0, 0x40000000, 0, 0, 3]\<rparr>"

lemma sample_standby_ok: "rails_ok sample_standby"
  by (simp add: rails_ok_def recorded_def off_rails_def sample_standby_def)

lemma sample_accepted: "\<not> standby_refused sample_tree sample_standby"
  by (simp add: standby_refused_def dts_complete_def sample_tree_def sample_standby_def)


section \<open>The wait ends\<close>

definition doze_count :: "history \<Rightarrow> nat" where
  "doze_count t = length (filter dozes t)"

lemma doze_count_Call [simp]: "doze_count (Call f as r v # t) = (if f = Wfi then Suc (doze_count t) else doze_count t)"
  by (simp add: doze_count_def)

text \<open>
  The trap that ends a doze: the interrupt of an armed source, or the NMI of the power-management chip. It comes at the
  latest when the core dozes for the \<open>k\<close>-th time.
\<close>

definition armed :: "env \<Rightarrow> u32 \<Rightarrow> 'a wakeup_state_scheme \<Rightarrow> bool" where
  "armed E src w \<longleftrightarrow> (\<exists>root irq. (root, irq, src) \<in> set routed \<and> isr_table w ! unat irq = \<lparr>pisr = Default_wakeup_handler, parg = Null\<rparr> \<and>
     (\<forall>t. snd (ext_call E t Get_MCAUSE []) AND 0xff = irq) \<and> (\<forall>t. drop_bit 31 (snd (ext_call E t Wfi [])) \<noteq> 0))"

definition nmi :: "env \<Rightarrow> u32 \<Rightarrow> bool" where
  "nmi E src \<longleftrightarrow> src = GIC_R_EXTERNAL_NMI_IRQ - GIC_SRC_SPI \<and>
     (\<forall>t. snd (ext_call E t Get_MCAUSE []) AND 0xff = INTC_R_NMI_EXCEPTION) \<and> (\<forall>t. drop_bit 31 (snd (ext_call E t Wfi [])) = 0)"

definition comes_by :: "env \<Rightarrow> nat \<Rightarrow> bool" where
  "comes_by E k \<longleftrightarrow> (\<forall>t. k \<le> Suc (doze_count t) \<longrightarrow> fst (ext_call E t Wfi []) \<noteq> 0)"

lemma wakeup_interrupt_wp:
  assumes "(root, irq, src) \<in> set routed" and "isr_table w ! unat irq = \<lparr>pisr = Default_wakeup_handler, parg = Null\<rparr>"
    and "\<forall>t. snd (ext_call E t Get_MCAUSE []) AND 0xff = irq"
  shows "wp (interrupt_entry E (isr_invoke E)) (\<lambda>_ w'. wakeup_source w' = src \<and> hung w' = hung w) w"
  using assms routed_map(2) [OF assms(1)] unfolding interrupt_entry_def wp_bind
  by (simp add: intc_get_current_interrupt_def wp_simps Let_def isr_invoke_def default_wakeup_handler_def
      interrupt_get_current_intno_def)
    (rule wp_mono [OF intc_wrote(1)], auto simp: wp_simps wrote_def)

lemma wakeup_trap_wp:
  assumes "armed E src w \<or> nmi E src"
  shows "wp (hadle_trap E (snd (ext_call E t Wfi [])) 0) (\<lambda>_ w'. wakeup_source w' = src \<and> hung w' = hung w) w"
  using assms
proof
  assume "armed E src w"
  then show ?thesis
    unfolding armed_def hadle_trap_def by (auto simp: wp_simps intro!: wp_bindI wp_mono [OF wakeup_interrupt_wp])
next
  assume "nmi E src"
  then show ?thesis
    by (simp add: nmi_def hadle_trap_def exception_entry_def platform_nmi_handler_def nmi_int_disable_def wp_simps Let_def)
qed

lemma wake_source_set: "armed E src w \<or> nmi E src \<Longrightarrow> src \<noteq> NO_WAKESOURCE"
  by (auto simp: armed_def nmi_def routed_def)

lemma wakeup_loop_returns:
  assumes "comes_by E k"
  shows "armed E src w \<or> nmi E src \<Longrightarrow> k < n + doze_count (trace w) \<Longrightarrow> 1 < n \<Longrightarrow>
    wp (wakeup_loop E n) (\<lambda>_ w'. wakeup_source w' = (if wakeup_source w = NO_WAKESOURCE then src else wakeup_source w) \<and> hung w' = hung w) w"
proof (induction n arbitrary: w)
  case (Suc n)
  have over: "wp (wakeup_loop E n) (\<lambda>_ w'. wakeup_source w' = src \<and> hung w' = hung w) v"
    if "wakeup_source v = src" "hung v = hung w" for v :: "'a wakeup_state_scheme"
    using that Suc.prems wake_source_set [OF Suc.prems(1)] by (cases n) (simp_all add: wp_simps)
  let ?r = "ext_call E (trace w) Wfi []"
  let ?w = "w\<lparr>trace := Call Wfi [] (fst ?r) (snd ?r) # trace w\<rparr>"
  have armed: "armed E src ?w \<or> nmi E src" using Suc.prems(1) by (simp add: armed_def)
  have *: "wp (cpu_enter_doze E) (\<lambda>_. wp (wakeup_loop E n) (\<lambda>_ w'. wakeup_source w' = src \<and> hung w' = hung w)) w"
    if s: "wakeup_source w = NO_WAKESOURCE"
  proof (cases "fst ?r = 0")
    case True
    then have "Suc (doze_count (trace w)) < k" using assms by (meson not_le comes_by_def)
    then have "k < n + doze_count (trace ?w)" "1 < n" using Suc.prems by simp_all
    with Suc.IH [OF armed] True s show ?thesis by (simp add: cpu_enter_doze_def wp_simps Let_def split_beta)
  next
    case False
    from wp_mono [OF wakeup_trap_wp [OF armed, of "trace w"]] over False show ?thesis
      by (auto simp: cpu_enter_doze_def wp_simps Let_def split_beta intro!: wp_bindI elim!: wp_mono)
  qed
  show ?case using * by (auto simp: wp_simps)
qed simp


text \<open>A core that is woken when it dozes for the second time, by interrupt 24 or by the NMI.\<close>

definition woken_env :: "u32 \<Rightarrow> env" where
  "woken_env mcause = \<lparr>dev_read = ram_dev, ext_call = (\<lambda>t f _. if f = Get_MCAUSE then (0, mcause)
     else if f = Wfi then (if 1 \<le> doze_count t then 1 else 0, mcause) else (0, 0))\<rparr>"


end
