(* ===== verification/Message_Manager.thy ===== *)
theory Message_Manager
  imports Standby_Correct
begin

text \<open>
  The dispatch of requests (\<^verbatim>\<open>src/ar100s/system/message_manager/message_manager.c\<close>): the length check, the
  handler of each request type and the reply. The debug level of \<^verbatim>\<open>system/debugger/debugger.c\<close> is the one
  variable that the requests reach beyond the state of standby.
\<close>

unbundle bit_operations_syntax

section \<open>Model\<close>

abbreviation (input) CPU_OP_REQ :: u8 where "CPU_OP_REQ \<equiv> 0x22"
abbreviation (input) SYS_OP_REQ :: u8 where "SYS_OP_REQ \<equiv> 0x24"
abbreviation (input) CLEAR_WAKEUP_SRC_REQ :: u8 where "CLEAR_WAKEUP_SRC_REQ \<equiv> 0x25"
abbreviation (input) SET_WAKEUP_SRC_REQ :: u8 where "SET_WAKEUP_SRC_REQ \<equiv> 0x26"
abbreviation (input) FAKE_POWER_OFF_REQ :: u8 where "FAKE_POWER_OFF_REQ \<equiv> 0x19"
abbreviation (input) SET_DEBUG_LEVEL_REQ :: u8 where "SET_DEBUG_LEVEL_REQ \<equiv> 0x60"
abbreviation (input) MESSAGE_LOOPBACK :: u8 where "MESSAGE_LOOPBACK \<equiv> 0x61"
abbreviation (input) SET_UART_BAUDRATE :: u8 where "SET_UART_BAUDRATE \<equiv> 0x62"
abbreviation (input) SET_DRAM_CRC_PARAS :: u8 where "SET_DRAM_CRC_PARAS \<equiv> 0x64"
abbreviation (input) SET_DDRFREQ :: u8 where "SET_DDRFREQ \<equiv> 0x96"

record manager_state = standby_state +
  debug_level :: u32

definition set_debug_level :: "u32 \<Rightarrow> ('a manager_state_scheme, int) state" where
  "set_debug_level level = do { _ \<leftarrow> State_Monad.update (\<lambda>w. w\<lparr>debug_level := level\<rparr>); ret OK }"

definition message_valid :: "message \<Rightarrow> bool" where
  "message_valid m \<longleftrightarrow> m_type m \<noteq> 0"

definition min_count :: "u8 \<Rightarrow> u8" where
  "min_count ty =
     (if ty = CPU_OP_REQ then 5
      else if ty \<in> {SYS_OP_REQ, CLEAR_WAKEUP_SRC_REQ, SET_WAKEUP_SRC_REQ, SET_DEBUG_LEVEL_REQ, SET_UART_BAUDRATE, SET_DDRFREQ} then 1
      else if ty = SET_DRAM_CRC_PARAS then 3 else 0)"

definition dispatch ::
  "env \<Rightarrow> nat \<Rightarrow> (history \<Rightarrow> memory) \<Rightarrow> dtb_ops \<Rightarrow> message \<Rightarrow> ('a manager_state_scheme, int) state" where
  "dispatch E fuel D T m = (
     let ty = m_type m in
     if ty = CPU_OP_REQ then cpu_op E fuel D T m
     else if ty = SYS_OP_REQ then sys_op E fuel m
     else if ty = CLEAR_WAKEUP_SRC_REQ then clear_wakeup_src E (para m 0)
     else if ty = SET_WAKEUP_SRC_REQ then set_wakeup_src E (para m 0)
     else if ty = FAKE_POWER_OFF_REQ then fake_poweroff
     else if ty = SET_DEBUG_LEVEL_REQ then set_debug_level (para m 0)
     else if ty = SET_UART_BAUDRATE then uart_set_baudrate E (para m 0)
     else if ty = SET_DRAM_CRC_PARAS then do {
       w \<leftarrow> State_Monad.get;
       let (r, p) = standby_set_dram_crc_paras (para m 0) (para m 1) (para m 2) (crc_para w);
       _ \<leftarrow> State_Monad.update (\<lambda>w. w\<lparr>crc_para := p\<rparr>);
       ret r
     } else if ty = SET_DDRFREQ then do {
       w \<leftarrow> State_Monad.get;
       if platform_dram_para w \<noteq> None then call E Mctl_mdfs_software [para m 0] else ret (- EFAIL)
     } else if ty = MESSAGE_LOOPBACK then ret OK
     else ret (- ESRCH))"

definition process_message ::
  "env \<Rightarrow> nat \<Rightarrow> (history \<Rightarrow> memory) \<Rightarrow> dtb_ops \<Rightarrow> message \<Rightarrow> ('a manager_state_scheme, int \<times> message) state" where
  "process_message E fuel D T m = do {
     r \<leftarrow> (if m_count m < min_count (m_type m) then ret (- EINVAL) else dispatch E fuel D T m);
     let m = m\<lparr>m_result := of_int r\<rparr>;
     if m_attr m AND (MESSAGE_ATTR_SOFTSYN OR MESSAGE_ATTR_HARDSYN) \<noteq> 0 then do {
       feedback \<leftarrow> hwmsgbox_feedback_message E fuel (Some m) SEND_MSG_TIMEOUT;
       if feedback \<noteq> OK then ret (feedback, m) else ret (r, m)
     } else ret (r, m)
   }"

definition message_coming_notify ::
  "env \<Rightarrow> nat \<Rightarrow> (history \<Rightarrow> memory) \<Rightarrow> dtb_ops \<Rightarrow> message \<Rightarrow> ('a manager_state_scheme, int \<times> message) state" where
  "message_coming_notify E fuel D T m = do {
     (r, m) \<leftarrow> process_message E fuel D T m;
     if r \<noteq> OK then ret (r, m) else ret (OK, m)
   }"

section \<open>Stale parameters\<close>

text \<open>
  The parameter block is a static buffer that keeps the words of earlier requests. Two requests are alike if
  they differ only behind the parameters that arrived.
\<close>

definition alike :: "message \<Rightarrow> message \<Rightarrow> bool" where
  "alike m m' \<longleftrightarrow> m' = m\<lparr>m_paras := m_paras m'\<rparr> \<and> (\<forall>i < unat (m_count m). para m' i = para m i)"

lemma alikeD:
  assumes "alike m m'"
  shows "m_type m' = m_type m" "m_attr m' = m_attr m" "m_count m' = m_count m" "frame (m'\<lparr>m_result := r\<rparr>) = frame (m\<lparr>m_result := r\<rparr>)"
proof -
  obtain p where m': "m' = m\<lparr>m_paras := p\<rparr>" using assms by (auto simp: alike_def)
  then show "m_type m' = m_type m" "m_attr m' = m_attr m" "m_count m' = m_count m" by simp_all
  show "frame (m'\<lparr>m_result := r\<rparr>) = frame (m\<lparr>m_result := r\<rparr>)"
    using assms m' by (auto simp: frame_def header_word_def alike_def para_def)
qed

lemma alike_para: "alike m m' \<Longrightarrow> m_count m \<ge> n \<Longrightarrow> i < unat n \<Longrightarrow> para m' i = para m i"
  by (auto simp: alike_def word_le_nat_alt)

lemma cpu_op_para: "para m' 1 = para m 1 \<Longrightarrow> para m' 4 = para m 4 \<Longrightarrow> cpu_op E fuel D T m' = cpu_op E fuel D T m"
  unfolding cpu_op_def standby_entry_def standby_failed_def standby_sleep_def by (simp only:)

lemma sys_op_para: "para m' 0 = para m 0 \<Longrightarrow> sys_op E fuel m' = sys_op E fuel m"
  by (simp add: sys_op_def)

lemma dispatch_alike:
  assumes m: "alike m m'" and n: "\<not> m_count m < min_count (m_type m)"
  shows "dispatch E fuel D T m' = dispatch E fuel D T m"
proof -
  have p: "para m' i = para m i" if "i < unat (min_count (m_type m))" for i
    using alike_para [OF m _ that] n by simp
  show ?thesis
  proof (cases "min_count (m_type m) = 0")
    case True
    then show ?thesis by (auto simp: dispatch_def alikeD [OF m] min_count_def Let_def split: if_splits)
  next
    case False
    then have p0: "para m' 0 = para m 0" by (intro p) (simp add: word_neq_0_conv unat_gt_0)
    consider (cpu) "m_type m = CPU_OP_REQ" | (crc) "m_type m = SET_DRAM_CRC_PARAS"
      | (other) "m_type m \<noteq> CPU_OP_REQ" "m_type m \<noteq> SET_DRAM_CRC_PARAS" by blast
    then show ?thesis
    proof cases
      case cpu
      then have "para m' 1 = para m 1" "para m' 4 = para m 4" by (auto intro!: p simp: min_count_def)
      with cpu show ?thesis by (simp add: dispatch_def alikeD [OF m] cpu_op_para [of m' m])
    next
      case crc
      then have "para m' 1 = para m 1" "para m' 2 = para m 2" by (auto intro!: p simp: min_count_def)
      with crc p0 show ?thesis by (simp add: dispatch_def alikeD [OF m])
    next
      case other
      with p0 show ?thesis by (simp add: dispatch_def alikeD [OF m] Let_def sys_op_para [of m' m] cong: if_cong)
    qed
  qed
qed

text \<open>
  C16: a request never acts on parameters that did not arrive. Two requests that agree on header, count and
  the parameters up to the count, and differ arbitrarily in what the buffer holds behind them, have the same
  result and leave the machine in the same state, with the same register accesses and the same reply.
\<close>

theorem process_message_no_stale:
  assumes "alike m m'" and "bad_message (Some m') = bad_message (Some m)"
  shows "map_prod fst id (run_state (process_message E fuel D T m') w) = map_prod fst id (run_state (process_message E fuel D T m) w)"
proof -
  have reply: "hwmsgbox_feedback_message E fuel (Some (m'\<lparr>m_result := x\<rparr>)) t = hwmsgbox_feedback_message E fuel (Some (m\<lparr>m_result := x\<rparr>)) t" for x t
    using assms(2) alikeD [OF assms(1)] by (simp add: hwmsgbox_feedback_message_def bad_message_def)
  show ?thesis
    by (cases "m_count m < min_count (m_type m)")
      (simp_all add: process_message_def dispatch_alike [OF assms(1)] alikeD(1-3) [OF assms(1)] reply split_beta Let_def)
qed

definition late_words :: message where
  "late_words = \<lparr>m_state = 0, m_attr = 2, m_type = SET_WAKEUP_SRC_REQ, m_result = 0, m_count = 1, m_paras = Some [7, 1, 2]\<rparr>"

definition sample_manager :: manager_state where
  "sample_manager = standby_state.extend sample_standby \<lparr>debug_level = 1\<rparr>"

theorem process_message_no_stale_witness:
  "map_prod fst id (run_state (process_message ram_env 9 (\<lambda>_ _. 0) sample_tree (late_words\<lparr>m_paras := Some [7, 0xdead, 0xbeef]\<rparr>)) sample_manager) =
   map_prod fst id (run_state (process_message ram_env 9 (\<lambda>_ _. 0) sample_tree late_words) sample_manager)"
  by (rule process_message_no_stale) (simp_all add: alike_def late_words_def para_def bad_message_def)

section \<open>Replies\<close>

text \<open>The requests that are answered from the tables alone, and what they are answered.\<close>

definition plain_request :: "message \<Rightarrow> bool" where
  "plain_request m \<longleftrightarrow> m_count m < min_count (m_type m) \<or>
     m_type m \<notin> {CPU_OP_REQ, SYS_OP_REQ, CLEAR_WAKEUP_SRC_REQ, SET_WAKEUP_SRC_REQ, SET_UART_BAUDRATE, SET_DRAM_CRC_PARAS, SET_DDRFREQ}"

definition plain_answer :: "message \<Rightarrow> int" where
  "plain_answer m = (if m_count m < min_count (m_type m) then - EINVAL
     else if m_type m = FAKE_POWER_OFF_REQ then - EFAIL
     else if m_type m = SET_DEBUG_LEVEL_REQ \<or> m_type m = MESSAGE_LOOPBACK then OK else - ESRCH)"

definition plain_effect :: "message \<Rightarrow> 'a manager_state_scheme \<Rightarrow> 'a manager_state_scheme" where
  "plain_effect m w = (if m_type m = SET_DEBUG_LEVEL_REQ \<and> m_count m \<noteq> 0 then w\<lparr>debug_level := para m 0\<rparr> else w)"

lemma plain_wp:
  assumes "plain_request m" and "Q (plain_answer m) (plain_effect m w)"
  shows "wp (if m_count m < min_count (m_type m) then ret (- EINVAL) else dispatch E fuel D T m) Q w"
proof (cases "m_count m < min_count (m_type m)")
  case True
  then have "plain_effect m w = w" by (auto simp: plain_effect_def min_count_def)
  with True assms(2) show ?thesis by (simp add: plain_answer_def wp_return)
next
  case False
  with assms show ?thesis
    by (auto simp: plain_request_def plain_answer_def plain_effect_def dispatch_def fake_poweroff_def set_debug_level_def
        min_count_def wp_simps split: if_splits)
qed

text \<open>A reply changes no variable, unless it hangs.\<close>

definition still :: "'a manager_state_scheme \<Rightarrow> 'a manager_state_scheme" where
  "still w = w\<lparr>trace := [], hung := False\<rparr>"

lemma frames_wait_queue: "(\<And>w t. f (w\<lparr>trace := t\<rparr>) = f w) \<Longrightarrow> frames f d \<Longrightarrow> frames f (wait_queue E d reg busy n)"
  by (induction n) (auto intro!: frames_intros)

lemma frames_put_words: "frames still (put_words E fuel q t vs)"
proof -
  have "frames still (time_mdelay E fuel 1)" by (rule frames_delays) (simp_all add: still_def)
  then have "frames still (put_word E fuel q t v)" for v
    unfolding put_word_def hwmsgbox_wait_queue_not_full_def
    by (auto intro!: frames_intros frames_wait_queue simp: still_def)
  then show ?thesis by (induction vs) (auto intro!: frames_intros)
qed

lemma feedback_keeps: "wp (hwmsgbox_feedback_message E fuel pm t) (\<lambda>_ w'. still w' = still w) w"
  unfolding hwmsgbox_feedback_message_def by (intro frames_wp frames_if frames_return frames_put_words)

lemma stillD: "still v = still w \<Longrightarrow> hung v = hung w \<Longrightarrow> v = w\<lparr>trace := trace v\<rparr>"
proof -
  assume "still v = still w" and "hung v = hung w"
  moreover have "v = (still v)\<lparr>trace := trace v, hung := hung v\<rparr>" by (simp add: still_def)
  ultimately have "v = (still w)\<lparr>trace := trace v, hung := hung w\<rparr>" by (simp only:)
  then show ?thesis by (simp add: still_def)
qed

lemma feedback_wp:
  assumes "can_delay E c fuel (length (frame m) * word_budget timeout) w" and "\<not> bad_message (Some m)"
    and "m_attr m AND MESSAGE_ATTR_HARDSYN \<noteq> 0" and "paced (trace w)"
  shows "wp (hwmsgbox_feedback_message E fuel (Some m) timeout) (\<lambda>r w'. \<not> hung w' \<and>
    (\<exists>n. sent (trace w') = sent (trace w) @ take n (frame m) \<and>
      (r = OK \<and> n = length (frame m) \<or>
       r = - ETIMEOUT \<and> n < length (frame m) \<and> (\<exists>t. dev_read E t TX_STATUS = HWMSGBOX_FIFO_DEPTH)))) w"
  unfolding hwmsgbox_feedback_message_def
  using assms(2,3) wp_mono [OF put_words_wp [of E c fuel "frame m" timeout 0 w, OF _ assms(4)]] assms(1)
  by (auto simp: can_delay_def elim!: wp_mono)

lemma plain_reply_wp:
  assumes "can_delay E c fuel (length (frame m) * word_budget SEND_MSG_TIMEOUT) w" and "paced (trace w)"
    and "plain_request m" and "\<not> bad_message (Some m)" and "m_attr m AND MESSAGE_ATTR_HARDSYN \<noteq> 0"
  shows "wp (process_message E fuel D T m) (\<lambda>(r, m') w'. m' = m\<lparr>m_result := of_int (plain_answer m)\<rparr> \<and>
    w' = (plain_effect m w)\<lparr>trace := trace w'\<rparr> \<and>
    (\<exists>n. sent (trace w') = sent (trace w) @ take n (frame m') \<and>
      (r = plain_answer m \<and> n = length (frame m') \<or>
       r = - ETIMEOUT \<and> n < length (frame m') \<and> (\<exists>t. dev_read E t TX_STATUS = HWMSGBOX_FIFO_DEPTH)))) w"
proof -
  let ?w = "plain_effect m w" and ?m = "m\<lparr>m_result := of_int (plain_answer m)\<rparr>"
  have w: "can_delay E c fuel (length (frame ?m) * word_budget SEND_MSG_TIMEOUT) ?w" "trace ?w = trace w"
    using assms(1) by (auto simp: plain_effect_def can_delay_def timers_ok_def frame_def)
  have m: "\<not> bad_message (Some ?m)" "m_attr ?m AND MESSAGE_ATTR_HARDSYN \<noteq> 0"
    using assms by (auto simp: bad_message_def)
  have sync: "m_attr ?m AND (MESSAGE_ATTR_SOFTSYN OR MESSAGE_ATTR_HARDSYN) \<noteq> 0"
  proof
    assume "m_attr ?m AND (MESSAGE_ATTR_SOFTSYN OR MESSAGE_ATTR_HARDSYN) = 0"
    then have "(m_attr m AND 3) AND MESSAGE_ATTR_HARDSYN = 0" by simp
    then show False using assms(5) by (simp add: and.assoc)
  qed
  note sends = wp_conj [OF feedback_wp [OF w(1) m] feedback_keeps [of E fuel "Some ?m" SEND_MSG_TIMEOUT ?w]]
  have "\<not> hung ?w" using w by (simp add: can_delay_def)
  with sync w(2) assms(2) show ?thesis
    unfolding process_message_def
    by (intro wp_bindI plain_wp assms)
      (auto simp: Let_def wp_simps intro!: wp_bindI wp_mono [OF sends] stillD, (metis order_refl take_all_iff)+)
qed

text \<open>
  C17: replies. A request that is too short for its type is answered \<open>-EINVAL\<close>, an unknown one \<open>-ESRCH\<close>, the fake
  power-off \<open>-EFAIL\<close>, the loop-back and a change of the debug level \<open>OK\<close>. Of all variables
  only the debug level of such a change is touched. The sender waits for the answer: the reply frame carries the
  low byte of the code with the parameters of the request, and it is written completely, or the result is
  \<open>-ETIMEOUT\<close> and the FIFO had stayed full. The dispatcher does not hang.
\<close>

theorem process_message_replies:
  assumes "mbox_ready E c fuel SEND_MSG_TIMEOUT w" and "paced (trace w)"
    and "plain_request m" and "\<not> bad_message (Some m)" and "m_attr m AND MESSAGE_ATTR_HARDSYN \<noteq> 0"
  shows "wp (process_message E fuel D T m) (\<lambda>(r, m') w'. m' = m\<lparr>m_result := of_int (plain_answer m)\<rparr> \<and>
    w' = (plain_effect m w)\<lparr>trace := trace w'\<rparr> \<and>
    (\<exists>n. sent (trace w') = sent (trace w) @ take n (frame m') \<and>
      (r = plain_answer m \<and> n = length (frame m') \<or>
       r = - ETIMEOUT \<and> n < length (frame m') \<and> (\<exists>t. dev_read E t TX_STATUS = HWMSGBOX_FIFO_DEPTH)))) w"
  using plain_reply_wp [OF _ assms(2-5), of E c fuel D T] mbox_ready_can_delay [OF assms(1) frame_length [OF assms(4)], of 0] by simp

theorem process_message_replies_witness:
  "wp (process_message (box_env []) 48002 (\<lambda>_ _. 0) sample_tree (sample_message\<lparr>m_type := SET_DEBUG_LEVEL_REQ\<rparr>))
     (\<lambda>(r, m') w'. r = OK \<and> sent (trace w') = frame (sample_message\<lparr>m_type := SET_DEBUG_LEVEL_REQ\<rparr>) \<and>
       w' = sample_manager\<lparr>debug_level := 7, trace := trace w'\<rparr>) sample_manager"
proof -
  let ?m = "sample_message\<lparr>m_type := SET_DEBUG_LEVEL_REQ\<rparr>"
  have w: "trace sample_manager = []" by (simp add: sample_manager_def sample_standby_def standby_state.defs)
  have "mbox_ready (box_env []) length 48002 SEND_MSG_TIMEOUT sample_manager"
    using running_timers_ok
    by (simp add: mbox_ready_def box_env_ready timers_ok_def sample_manager_def sample_standby_def standby_state.defs
        running_timers_def idle_timers_def)
  moreover have "\<not> bad_message (Some ?m)" "m_attr ?m AND MESSAGE_ATTR_HARDSYN \<noteq> 0" "plain_request ?m"
    by (simp_all add: bad_message_def sample_message_def plain_request_def)
  moreover have "plain_answer ?m = OK" "plain_effect ?m sample_manager = sample_manager\<lparr>debug_level := 7\<rparr>" "?m\<lparr>m_result := 0\<rparr> = ?m"
    by (simp_all add: plain_answer_def plain_effect_def sample_message_def min_count_def para_def)
  ultimately show ?thesis
    using process_message_replies [of "box_env []" length 48002 sample_manager ?m "\<lambda>_ _. 0" sample_tree] w
    by (auto elim!: wp_mono simp: box_env_ready)
qed

end
