(* ===== verification/Debugger.thy ===== *)
theory Debugger
  imports Library Message_Manager
begin

text \<open>
  The console of the AR100S image (\<^verbatim>\<open>src/ar100s/system/debugger/debugger.c\<close>) and the command line of its shell
  (\<^verbatim>\<open>shell_cmd.c\<close>). Formatting works on character arrays of fixed size; a write outside them is \<open>None\<close>. Arguments of
  a variable list are words or pointers to strings.
\<close>

unbundle bit_operations_syntax

section \<open>Model\<close>

datatype va = Word u32 | Chars "u8 list"

record debugger_state = manager_state +
  print_timeflg :: u32
  debugger_buffer :: "u8 list"

abbreviation (input) DEBUG_BUFFER_SIZE :: nat where "DEBUG_BUFFER_SIZE \<equiv> 256"

definition debugger_init :: "env \<Rightarrow> ('a uart_state_scheme, int) state" where
  "debugger_init E = do {
     r \<leftarrow> uart_init E;
     if r \<noteq> OK then ret r else ret OK
   }"

definition print_align :: "u8 list \<Rightarrow> nat \<Rightarrow> nat \<Rightarrow> (u8 list \<times> nat) option" where
  "print_align string len align =
     (if len < align then map_option (\<lambda>s. (s, align - len)) (strncat string (replicate 16 0x20 @ [0]) (align - len))
      else Some (string, 0))"

text \<open>Bytes stored from the start of an array.\<close>

definition stored :: "u8 list \<Rightarrow> u8 list \<Rightarrow> u8 list option" where
  "stored bytes a = (if length bytes \<le> length a then Some (bytes @ drop (length bytes) a) else None)"

text \<open>The array \<open>string\<close>, the output buffer and the position of \<open>pdest\<close> in it.\<close>

type_synonym printing = "u8 list \<times> u8 list \<times> nat"

definition print_char :: "u8 \<Rightarrow> printing \<Rightarrow> printing option" where
  "print_char c = (\<lambda>(string, b, pdest). if pdest < length b then Some (string, b[pdest := c], pdest + 1) else None)"

definition print_number :: "u8 list option \<Rightarrow> nat \<Rightarrow> printing \<Rightarrow> printing option" where
  "print_number bytes align = (\<lambda>(string, b, pdest). do {
     bytes \<leftarrow> bytes;
     string \<leftarrow> stored bytes string;
     len \<leftarrow> strlen string;
     (string, more) \<leftarrow> print_align string len align;
     dest \<leftarrow> strcpy (drop pdest b) string;
     Some (string, take pdest b @ dest, pdest + len + more)
   })"

definition print_chars :: "u8 list \<Rightarrow> printing \<Rightarrow> printing option" where
  "print_chars psrc = (\<lambda>(string, b, pdest). do {
     len \<leftarrow> strnlen psrc (DEBUG_BUFFER_SIZE - 1 - pdest);
     dest \<leftarrow> strncpy (drop pdest b) psrc len;
     Some (string, take pdest b @ dest, pdest + len)
   })"

text \<open>One conversion: the character after the width, the arguments that are left.\<close>

definition convert :: "u8 \<Rightarrow> nat \<Rightarrow> va list \<Rightarrow> printing \<Rightarrow> (va list \<times> printing) option" where
  "convert k align args p =
     (if k = 0x64 then (case args of Word v # args \<Rightarrow> map_option (Pair args) (print_number (itoa v 10) align p) | _ \<Rightarrow> None)
      else if k = 0x78 \<or> k = 0x70 then
        (case args of Word v # args \<Rightarrow> map_option (Pair args) (print_number (utoa v 16) align p) | _ \<Rightarrow> None)
      else if k = 0x75 then (case args of Word v # args \<Rightarrow> map_option (Pair args) (print_number (utoa v 10) align p) | _ \<Rightarrow> None)
      else if k = 0x63 then (case args of Word v # args \<Rightarrow> map_option (Pair args) (print_char (ucast v) p) | _ \<Rightarrow> None)
      else if k = 0x73 then (case args of Chars s # args \<Rightarrow> map_option (Pair args) (print_chars s p) | _ \<Rightarrow> None)
      else do { p \<leftarrow> print_char 0x25 p; p \<leftarrow> print_char k p; Some (args, p) })"

text \<open>The width, one digit that is not 0, and the rest of the format.\<close>

definition split_align :: "u8 list \<Rightarrow> nat \<times> u8 list" where
  "split_align fmt = (case fmt of [] \<Rightarrow> (0, [])
     | d # rest \<Rightarrow> if 0x30 < d \<and> d \<le> 0x39 then (unat (d - 0x30), rest) else (0, fmt))"

lemma split_align_length: "snd (split_align fmt) = k # rest \<Longrightarrow> length rest < length fmt"
  by (cases fmt) (auto simp: split_align_def split: if_splits)

function (sequential) printf_loop :: "u8 list \<Rightarrow> va list \<Rightarrow> printing \<Rightarrow> printing option" where
  "printf_loop [] args p = None"
| "printf_loop (c # fmt) args p =
     (if c = 0 then Some p
      else if snd (snd p) \<ge> DEBUG_BUFFER_SIZE - 16 then Some p
      else if c = 0x25 then (case snd (split_align fmt) of [] \<Rightarrow> None
        | k # rest \<Rightarrow> (case convert k (fst (split_align fmt)) args p of None \<Rightarrow> None
            | Some (args, p) \<Rightarrow> printf_loop rest args p))
      else (case print_char c p of None \<Rightarrow> None | Some p \<Rightarrow> printf_loop fmt args p))"
  by pat_completeness auto
termination by (relation "measure (\<lambda>(fmt, _, _). length fmt)") (auto dest: split_align_length)

definition time_digit :: "u32 \<Rightarrow> u32 \<Rightarrow> u8" where
  "time_digit v d = ucast (v div d) + 0x30"

definition print_current_time :: "env \<Rightarrow> ('a debugger_state_scheme, int) state" where
  "print_current_time E = do {
     ticks \<leftarrow> current_time_tick;
     let millisec = ticks * 10;
     let sec = millisec div 1000 mod 10000;
     let ms = millisec mod 1000;
     _ \<leftarrow> uart_puts E [0x5b, time_digit sec 1000, time_digit (sec mod 1000) 100, time_digit (sec mod 1000 mod 100) 10,
       time_digit (sec mod 1000 mod 100 mod 10) 1, 0x2e, time_digit ms 100, time_digit (ms mod 100) 10, 0x5d, 0x20];
     ret OK
   }"

text \<open>
  The shift count is reduced to five bits, as the shift instruction of the processor does. \<open>string\<close> is the content
  of the local array, which the function does not initialise. \<open>None\<close> is a run that leaves an array.
\<close>

definition debugger_printf :: "env \<Rightarrow> u8 list \<Rightarrow> u32 \<Rightarrow> u8 list \<Rightarrow> va list \<Rightarrow> ('a debugger_state_scheme, int option) state" where
  "debugger_printf E string level format args = do {
     w \<leftarrow> State_Monad.get;
     if level AND drop_bit (unat ((debug_level w + 1) AND 31)) 0xf0 \<noteq> 0 then do {
       cpsr \<leftarrow> cpu_disable_int E;
       _ \<leftarrow> (if print_timeflg w \<noteq> 0 then print_current_time E else ret OK);
       w \<leftarrow> State_Monad.get;
       case printf_loop format args (string, debugger_buffer w, 0) of None \<Rightarrow> ret None
       | Some (_, b, pdest) \<Rightarrow>
           if pdest = 0 \<or> pdest \<ge> length b then ret None
           else do {
             let b' = b[pdest := 0];
             _ \<leftarrow> State_Monad.update (\<lambda>w. w\<lparr>print_timeflg := (if b ! (pdest - 1) = 10 then 1 else 0), debugger_buffer := b'\<rparr>);
             _ \<leftarrow> uart_puts E (takeWhile (\<lambda>c. c \<noteq> 0) b');
             _ \<leftarrow> cpu_enable_int E cpsr;
             ret (Some (int (pdest + 1)))
           }
     } else ret (Some OK)
   }"

subsection \<open>The shell\<close>

abbreviation (input) MAX_CMD_ARGS :: nat where "MAX_CMD_ARGS \<equiv> 5"

datatype parseState = PS_WHITESPACE | PS_TOKEN | PS_STRING | PS_ESCAPE

definition put_arg :: "nat \<Rightarrow> nat option \<Rightarrow> nat option list \<Rightarrow> nat option list option" where
  "put_arg argc a argv = (if argc < length argv then Some (argv[argc := a]) else None)"

text \<open>The arguments are positions in the command buffer; \<open>None\<close> is an access outside the buffer or the argument table.\<close>

function (sequential) parse_loop ::
  "u8 list \<Rightarrow> nat \<Rightarrow> nat \<Rightarrow> nat option list \<Rightarrow> parseState \<Rightarrow> (u8 list \<times> nat \<times> nat \<times> nat option list) option" where
  "parse_loop b p argc argv lastState =
     (if p \<ge> length b then None
      else let c = b ! p in
      if c = 0 \<or> argc > MAX_CMD_ARGS then Some (b, p, argc, argv)
      else if c = 0x3b \<and> lastState \<noteq> PS_STRING \<and> lastState \<noteq> PS_ESCAPE then Some (b, p, argc, argv)
      else if lastState = PS_ESCAPE then parse_loop b (p + 1) argc argv PS_WHITESPACE
      else if lastState = PS_STRING then
        (if c = 0x22 then parse_loop (b[p := 0]) (p + 1) argc argv PS_WHITESPACE else parse_loop b (p + 1) argc argv PS_STRING)
      else if c = 0x20 \<or> c = 0x0d \<or> c = 0x0a \<or> c = 0x09 then parse_loop (b[p := 0]) (p + 1) argc argv PS_WHITESPACE
      else if c = 0x22 then (case put_arg argc (Some (p + 1)) argv of None \<Rightarrow> None
        | Some argv \<Rightarrow> parse_loop (b[p := 0]) (p + 2) (argc + 1) argv PS_STRING)
      else if lastState = PS_WHITESPACE then (case put_arg argc (Some p) argv of None \<Rightarrow> None
        | Some argv \<Rightarrow> parse_loop b (p + 1) (argc + 1) argv PS_TOKEN)
      else parse_loop b (p + 1) argc argv PS_TOKEN)"
  by pat_completeness auto
termination by (relation "measure (\<lambda>(b, p, _). length b - p)") auto

declare parse_loop.simps [simp del] printf_loop.simps [simp del]

definition parseargs :: "u8 list \<Rightarrow> nat option list \<Rightarrow> (u8 list \<times> nat \<times> nat option list) option" where
  "parseargs b argv = (case parse_loop b 0 0 argv PS_WHITESPACE of None \<Rightarrow> None
     | Some (b, p, argc, argv) \<Rightarrow> (case put_arg argc None argv of None \<Rightarrow> None
         | Some argv \<Rightarrow> Some (if b ! p = 0x3b then b[p := 0] else b, argc, argv)))"

section \<open>Formatting\<close>

text \<open>
  The text a format stands for, without arrays: \<open>None\<close> when the arguments do not fit the conversions or a string has no
  end. It is cut before the first token that would start at position 240, and a string is cut at position 255.
\<close>

definition padded :: "u8 list \<Rightarrow> nat \<Rightarrow> u8 list" where
  "padded s align = s @ replicate (align - length s) 0x20"

definition numeral_text :: "u8 \<Rightarrow> u32 \<Rightarrow> u8 list" where
  "numeral_text k v = butlast (the (if k = 0x64 then itoa v 10 else utoa v (if k = 0x75 then 10 else 16)))"

definition token :: "u8 \<Rightarrow> nat \<Rightarrow> va list \<Rightarrow> nat \<Rightarrow> (va list \<times> u8 list) option" where
  "token k align args room =
     (if k = 0x64 \<or> k = 0x78 \<or> k = 0x70 \<or> k = 0x75 then
        (case args of Word v # args \<Rightarrow> Some (args, padded (numeral_text k v) align) | _ \<Rightarrow> None)
      else if k = 0x63 then (case args of Word v # args \<Rightarrow> Some (args, [ucast v]) | _ \<Rightarrow> None)
      else if k = 0x73 then
        (case args of Chars s # args \<Rightarrow>
           if 0 \<in> set s \<or> room \<le> length s then Some (args, take room (takeWhile (\<lambda>c. c \<noteq> 0) s)) else None
         | _ \<Rightarrow> None)
      else Some (args, [0x25, k]))"

function (sequential) formatted :: "u8 list \<Rightarrow> va list \<Rightarrow> u8 list \<Rightarrow> u8 list option" where
  "formatted [] args out = None"
| "formatted (c # fmt) args out =
     (if c = 0 \<or> 240 \<le> length out then Some out
      else if c = 0x25 then (case snd (split_align fmt) of [] \<Rightarrow> None
        | k # rest \<Rightarrow> (case token k (fst (split_align fmt)) args (255 - length out) of None \<Rightarrow> None
            | Some (args, s) \<Rightarrow> formatted rest args (out @ s)))
      else formatted fmt args (out @ [c]))"
  by pat_completeness auto
termination by (relation "measure (\<lambda>(fmt, _, _). length fmt)") (auto dest: split_align_length)

declare formatted.simps [simp del]

text \<open>The buffer holds the text so far, and the arrays have their sizes.\<close>

definition holds :: "u8 list \<Rightarrow> printing \<Rightarrow> bool" where
  "holds out = (\<lambda>(string, b, pdest). length string = 32 \<and> length b = DEBUG_BUFFER_SIZE \<and> pdest = length out \<and> pdest \<le> 255 \<and>
     take pdest b = out)"

lemma holds_append:
  assumes "holds out (string, b, pdest)" and "length string' = 32" and "length out + length s \<le> 255"
    and "length d = length (drop pdest b)" and "take (length s) d = s"
  shows "holds (out @ s) (string', take pdest b @ d, pdest + length s)"
  using assms by (auto simp: holds_def)

lemma print_char_holds:
  assumes "holds out p" and "length out < 255"
  shows "\<exists>p'. print_char c p = Some p' \<and> holds (out @ [c]) p'"
  using assms by (auto simp: print_char_def holds_def take_Suc_conv_app_nth split: prod.splits)

lemma print_number_holds:
  assumes h: "holds out p" and "length out < 240" and ds: "0 \<notin> set ds" "length ds \<le> 11" and "align \<le> 9"
  shows "\<exists>p'. print_number (Some (ds @ [0])) align p = Some p' \<and> holds (out @ padded ds align) p'"
proof -
  obtain string b pdest where p: "p = (string, b, pdest)" by (cases p) auto
  let ?n = "align - length ds" and ?r = "drop (Suc (length ds)) string"
  have l: "length string = 32" "length b = 256" "pdest = length out" "take pdest b = out"
    using h by (auto simp: holds_def p)
  have st: "stored (ds @ [0]) string = Some (ds @ 0 # ?r)" using l ds(2) by (simp add: stored_def)
  obtain string' where al: "print_align (ds @ 0 # ?r) (length ds) align = Some (string', ?n)"
    "string' = padded ds align @ 0 # drop ?n ?r"
    using l ds assms(5) by (auto simp: print_align_def padded_def strncat_fill)
  have z: "0 \<notin> set (padded ds align)" "length (padded ds align) \<le> 11" "length (padded ds align) = length ds + ?n"
    using ds assms(5) by (auto simp: padded_def)
  have cp: "strcpy (drop pdest b) string' = Some (padded ds align @ 0 # drop (Suc (length (padded ds align))) (drop pdest b))"
    unfolding al(2) by (rule strcpy_append) (use z l assms(2) in auto)
  have "holds (out @ padded ds align) (string', take pdest b @ (padded ds align @ 0 # drop (Suc (length (padded ds align))) (drop pdest b)),
      pdest + length (padded ds align))"
    by (rule holds_append [OF h [unfolded p]]) (use z l ds assms(2) al(2) in \<open>auto simp: padded_def\<close>)
  then show ?thesis
    using st al(1) cp z(3) ds(1) by (simp add: print_number_def p strlen_append add.assoc)
qed

lemma print_chars_holds:
  assumes h: "holds out p" and "length out < 240" and s: "0 \<in> set s \<or> 255 - length out \<le> length s"
  shows "\<exists>p'. print_chars s p = Some p' \<and> holds (out @ take (255 - length out) (takeWhile (\<lambda>c. c \<noteq> 0) s)) p'"
proof -
  obtain string b pdest where p: "p = (string, b, pdest)" by (cases p) auto
  define tt where "tt = take (255 - length out) (takeWhile (\<lambda>c. c \<noteq> 0) s)"
  have l: "length b = 256" "pdest = length out" using h by (auto simp: holds_def p)
  have "length tt = min (255 - length out) (length (takeWhile (\<lambda>c. c \<noteq> 0) s))" by (simp add: tt_def min.commute)
  moreover have "tt = take (min (255 - length out) (length (takeWhile (\<lambda>c. c \<noteq> 0) s))) s"
    unfolding tt_def by (subst takeWhile_eq_take) (simp only: take_take)
  ultimately have t: "take (length tt) s = tt" by simp
  have z: "0 \<notin> set tt" by (auto simp: tt_def dest!: in_set_takeD set_takeWhileD)
  have le: "length tt \<le> length s" "length tt \<le> 255 - length out"
    using length_takeWhile_le [of _ s] by (auto simp: tt_def min_le_iff_disj)
  have "strncpy (drop pdest b) s (length tt) = Some (take (length tt) s @ drop (length tt) (drop pdest b))"
    by (rule strncpy_take) (use z le l in \<open>simp_all add: t\<close>)
  moreover have "holds (out @ tt) (string, take pdest b @ (tt @ drop (length tt) (drop pdest b)), pdest + length tt)"
    by (rule holds_append [OF h [unfolded p]]) (use h le l assms(2) in \<open>auto simp: holds_def p\<close>)
  moreover have "strnlen s (255 - length out) = Some (length tt)" unfolding tt_def by (rule strnlen_take [OF s])
  ultimately show ?thesis
    unfolding tt_def [symmetric] by (simp add: print_chars_def p l t)
qed

lemma number_text:
  assumes "k = 0x64 \<or> k = 0x78 \<or> k = 0x70 \<or> k = 0x75"
  shows "\<exists>ds. (if k = 0x64 then itoa v 10 else utoa v (if k = 0x75 then 10 else 16)) = Some (ds @ [0]) \<and>
    numeral_text k v = ds \<and> 0 \<notin> set ds \<and> length ds \<le> 11"
proof -
  have "\<exists>ds. (if k = 0x64 then itoa v 10 else utoa v (if k = 0x75 then 10 else 16)) = Some (ds @ [0]) \<and> 0 \<notin> set ds \<and> length ds \<le> 11"
  proof (cases "k = 0x64")
    case True
    then show ?thesis using itoa_shape [of v] by auto
  next
    case False
    have "(if k = 0x75 then 10 else 16 :: u32) = 10 \<or> (if k = 0x75 then 10 else 16 :: u32) = 16" by simp
    from utoa_shape [OF this, of v] obtain ds where "utoa v (if k = 0x75 then 10 else 16) = Some (ds @ [0])" "0 \<notin> set ds" "length ds \<le> 10" .
    then show ?thesis using False by (intro exI [of _ ds]) simp
  qed
  then show ?thesis by (auto simp: numeral_text_def)
qed

lemma convert_holds:
  assumes h: "holds out p" and out: "length out < 240" and "align \<le> 9" and tok: "token k align args (255 - length out) = Some (args', s)"
  shows "\<exists>p'. convert k align args p = Some (args', p') \<and> holds (out @ s) p'"
proof -
  consider (num) "k = 0x64 \<or> k = 0x78 \<or> k = 0x70 \<or> k = 0x75" | (char) "k = 0x63" | (chars) "k = 0x73"
    | (other) "k \<noteq> 0x64" "k \<noteq> 0x78" "k \<noteq> 0x70" "k \<noteq> 0x75" "k \<noteq> 0x63" "k \<noteq> 0x73" by blast
  then show ?thesis
  proof cases
    case num
    then obtain v where v: "args = Word v # args'" "s = padded (numeral_text k v) align"
      using tok by (auto simp: token_def split: list.splits va.splits)
    obtain ds where "(if k = 0x64 then itoa v 10 else utoa v (if k = 0x75 then 10 else 16)) = Some (ds @ [0])"
      "numeral_text k v = ds" "0 \<notin> set ds" "length ds \<le> 11" using number_text [OF num] by blast
    then show ?thesis
      using num v print_number_holds [OF h out, of ds align] assms(3) by (auto simp: convert_def split: if_splits)
  next
    case char
    then show ?thesis
      using tok print_char_holds [OF h] out by (fastforce simp: token_def convert_def split: list.splits va.splits)
  next
    case chars
    then show ?thesis
      using tok print_chars_holds [OF h out] by (fastforce simp: token_def convert_def split: list.splits va.splits if_splits)
  next
    case other
    obtain p1 where p1: "print_char 0x25 p = Some p1" "holds (out @ [0x25]) p1" using print_char_holds [OF h] out by fastforce
    then obtain p2 where "print_char k p1 = Some p2" "holds (out @ [0x25, k]) p2" using print_char_holds [OF p1(2), of k] out by auto
    with other tok p1 show ?thesis by (auto simp: token_def convert_def)
  qed
qed

lemma split_align_le: "fst (split_align fmt) \<le> 9"
  by (cases fmt) (auto simp: split_align_def word_le_nat_alt word_less_nat_alt unat_sub_if')

lemma printf_loop_holds:
  assumes "formatted fmt args out = Some text" and "holds out p"
  shows "\<exists>p'. printf_loop fmt args p = Some p' \<and> holds text p'"
  using assms
proof (induction fmt args out arbitrary: p rule: formatted.induct)
  case (1 args out)
  then show ?case by (simp add: formatted.simps)
next
  case (2 c fmt args out)
  have pos: "snd (snd p) = length out" using 2(4) by (auto simp: holds_def)
  consider (stop) "c = 0 \<or> 240 \<le> length out" | (plain) "c \<noteq> 0" "length out < 240" "c \<noteq> 0x25"
    | (conv) "c \<noteq> 0" "length out < 240" "c = 0x25" by linarith
  then show ?case
  proof cases
    case stop
    then have "printf_loop (c # fmt) args p = Some p" "out = text"
      using 2(3) pos by (auto simp: formatted.simps printf_loop.simps)
    then show ?thesis using 2(4) by blast
  next
    case plain
    then obtain p' where "print_char c p = Some p'" "holds (out @ [c]) p'" using print_char_holds [OF 2(4)] by fastforce
    with plain 2(2) 2(3) pos show ?thesis by (auto simp: formatted.simps printf_loop.simps)
  next
    case conv
    then obtain k rest args' s where k: "snd (split_align fmt) = k # rest"
      "token k (fst (split_align fmt)) args (255 - length out) = Some (args', s)" "formatted rest args' (out @ s) = Some text"
      using 2(3) by (auto simp: formatted.simps split: list.splits option.splits)
    then obtain p' where "convert k (fst (split_align fmt)) args p = Some (args', p')" "holds (out @ s) p'"
      using convert_holds [OF 2(4) conv(2) split_align_le k(2)] by blast
    with conv 2(1) k pos show ?thesis by (auto simp: printf_loop.simps)
  qed
qed

lemma frames_uart_puts:
  fixes f :: "'a uart_state_scheme \<Rightarrow> 'b"
  assumes "\<And>w t. f (w\<lparr>trace := t\<rparr>) = f w"
  shows "frames f (uart_puts E s)"
proof -
  have poll: "frames f (poll E a P n)" for a P n by (induction n) (auto intro!: frames_intros assms)
  have "frames f (uart_putc E c)" for c unfolding uart_putc_def by (intro frames_intros poll assms)
  then have "frames f (uart_puts_loop E s)" by (induction s) (auto intro!: frames_intros)
  then show ?thesis unfolding uart_puts_def by (intro frames_intros)
qed

definition console :: "'a debugger_state_scheme \<Rightarrow> u8 list \<times> u32" where
  "console w = (debugger_buffer w, print_timeflg w)"

lemma console_trace [simp]: "console (w\<lparr>trace := t\<rparr>) = console w"
  by (simp add: console_def)

lemma console_frames:
  "frames console (uart_puts E s)" "frames console (print_current_time E)" "frames console (cpu_disable_int E)" "frames console (cpu_enable_int E c)"
  unfolding print_current_time_def current_time_tick_def Let_def by (intro frames_intros frames_uart_puts console_trace)+

text \<open>Whether a message of a level is printed.\<close>

definition printed :: "u32 \<Rightarrow> 'a debugger_state_scheme \<Rightarrow> bool" where
  "printed level w \<longleftrightarrow> level AND drop_bit (unat ((debug_level w + 1) AND 31)) 0xf0 \<noteq> 0"

text \<open>
  C24: the console stays inside its buffer. For every format whose conversions have the arguments they name, formatting
  writes nothing outside the 256 bytes of the output buffer and the 32 bytes of the scratch array, and leaves
  in the buffer the text of the format, cut where the buffer would be full, followed by its terminator.
  The result is the length with the terminator; a message that is filtered out leaves everything as it was.
\<close>

theorem debugger_printf_bounded:
  assumes "formatted format args [] = Some text" and "text \<noteq> []" and "length string = 32" and "length (debugger_buffer w) = 256"
  shows "wp (debugger_printf E string level format args) (\<lambda>r w'.
    if printed level w then r = Some (int (length text) + 1) \<and> length text \<le> 255 \<and> length (debugger_buffer w') = 256 \<and>
      take (length text + 1) (debugger_buffer w') = text @ [0] \<and> print_timeflg w' = (if last text = 10 then 1 else 0)
    else r = Some OK \<and> w' = w) w"
proof (cases "printed level w")
  case False
  then show ?thesis by (simp add: debugger_printf_def printed_def wp_simps)
next
  case True
  have "holds [] (string, debugger_buffer w, 0)" using assms by (simp add: holds_def)
  from printf_loop_holds [OF assms(1) this] obtain s b n
    where loop: "printf_loop format args (string, debugger_buffer w, 0) = Some (s, b, n)" and h: "holds text (s, b, n)" by auto
  from h have n: "n = length text" "length b = 256" "n \<le> 255" "take n b = text" by (auto simp: holds_def)
  have lst: "b ! (n - 1) = last text"
  proof -
    have "last text = text ! (n - 1)" using assms(2) by (simp add: last_conv_nth n(1))
    also have "\<dots> = take n b ! (n - 1)" by (simp only: n(4))
    also have "\<dots> = b ! (n - 1)" using assms(2) n(1) by (intro nth_take) simp
    finally show ?thesis ..
  qed
  have sub: "wp (do {
       _ \<leftarrow> State_Monad.update (\<lambda>w. w\<lparr>print_timeflg := (if b ! (n - 1) = 10 then 1 else 0), debugger_buffer := b[n := 0]\<rparr>);
       _ \<leftarrow> uart_puts E (takeWhile (\<lambda>c. c \<noteq> 0) (b[n := 0]));
       _ \<leftarrow> cpu_enable_int E cpsr;
       ret (Some (int (n + 1))) })
     (\<lambda>r w'. r = Some (int n + 1) \<and> console w' = (b[n := 0], if last text = 10 then 1 else 0)) u" for cpsr u
    by (rule wp_bindI, simp only: wp_update, rule wp_bindI, rule wp_mono [OF frames_wp [OF console_frames(1)]],
        rule wp_bindI, rule wp_mono [OF frames_wp [OF console_frames(4)]], rule wp_returnI)
      (simp add: console_def lst [simplified])
  have pre: "wp (cpu_disable_int E) (\<lambda>_ u. wp (if print_timeflg w \<noteq> 0 then print_current_time E else ret OK) (\<lambda>_ u. console u = console w) u) w"
    by (rule wp_mono [OF frames_wp [OF console_frames(3)]], rule wp_ifI, rule wp_mono [OF frames_wp [OF console_frames(2)]])
      (auto simp: wp_return)
  have full: "take (Suc n) (b[n := 0]) = text @ [0]" using n by (simp add: take_Suc_conv_app_nth)
  have loop': "printf_loop format args (string, debugger_buffer u, 0) = Some (s, b, n)" if "console u = console w" for u
    using loop that by (simp add: console_def)
  show ?thesis
    unfolding debugger_printf_def
    apply (rule wp_bindI, simp only: wp_get, rule wp_ifI)
     apply (rule wp_bindI, rule wp_mono [OF pre], rule wp_bindI, erule wp_mono, rule wp_bindI, simp only: wp_get)
     apply (subst loop', assumption, simp only: option.case prod.case Let_def)
     apply (rule wp_ifI, use n assms(2) in simp, rule wp_mono [OF sub])
     apply (use True n full in \<open>simp add: console_def\<close>)
    apply (use True in \<open>simp add: printed_def\<close>)
    done
qed

definition fresh_console :: debugger_state where
  "fresh_console = manager_state.extend sample_manager \<lparr>print_timeflg = 0, debugger_buffer = replicate 256 0\<rparr>"

theorem debugger_printf_bounded_witness:
  "wp (debugger_printf ram_env (replicate 32 0xff) 0xf (ascii ''n=%3d.'' @ [0]) [Word (- 7)])
     (\<lambda>r w'. r = Some 7 \<and> take 7 (debugger_buffer w') = ascii ''n=-7 .'' @ [0]) fresh_console"
proof -
  have f: "formatted (ascii ''n=%3d.'' @ [0]) [Word (- 7)] [] = Some (ascii ''n=-7 .'')" by code_simp
  have "printed 0xf fresh_console"
    by (simp add: printed_def fresh_console_def manager_state.defs sample_manager_def standby_state.defs)
  moreover have "length (debugger_buffer fresh_console) = 256" by (simp add: fresh_console_def manager_state.defs)
  ultimately show ?thesis
    using debugger_printf_bounded [OF f, where string = "replicate 32 0xff" and w = fresh_console and E = ram_env and level = "0xf"]
    by (auto elim!: wp_mono simp: ascii_def eval_nat_numeral)
qed

section \<open>The command line\<close>

definition blank :: "u8 \<Rightarrow> bool" where
  "blank c \<longleftrightarrow> c = 0x20 \<or> c = 0x0d \<or> c = 0x0a \<or> c = 0x09"

text \<open>The positions at which a word starts; the flag says that the character before was a blank.\<close>

fun word_starts :: "nat \<Rightarrow> bool \<Rightarrow> u8 list \<Rightarrow> nat list" where
  "word_starts p gap [] = []"
| "word_starts p gap (c # cs) =
     (if blank c then word_starts (p + 1) True cs
      else if gap then p # word_starts (p + 1) False cs else word_starts (p + 1) False cs)"

text \<open>A line without quotes, separators and terminators, and the argument table after some arguments.\<close>

definition plain_line :: "u8 list \<Rightarrow> bool" where
  "plain_line cs \<longleftrightarrow> (\<forall>c\<in>set cs. c \<noteq> 0 \<and> c \<noteq> 0x3b \<and> c \<noteq> 0x22)"

definition arg_table :: "nat list \<Rightarrow> nat option list" where
  "arg_table qs = map Some qs @ replicate (MAX_CMD_ARGS - length qs) None"

lemma put_arg_table:
  "length qs \<le> 5 \<Longrightarrow> put_arg (length qs) (Some q) (arg_table qs) = (if length qs < 5 then Some (arg_table (qs @ [q])) else None)"
  "length qs \<le> 5 \<Longrightarrow> put_arg (length qs) None (arg_table qs) = (if length qs < 5 then Some (arg_table qs) else None)"
  by (cases "5 - length qs", auto simp: put_arg_def arg_table_def list_update_append)+

lemma parse_step:
  assumes "c \<noteq> 0" "c \<noteq> 0x3b" "c \<noteq> 0x22" and "argc \<le> 5" and "st = (if gap then PS_WHITESPACE else PS_TOKEN)"
  shows "parse_loop (before @ c # cs) (length before) argc argv st =
    (if blank c then parse_loop ((before @ [0]) @ cs) (length (before @ [0])) argc argv PS_WHITESPACE
     else if gap then (case put_arg argc (Some (length before)) argv of None \<Rightarrow> None
       | Some argv \<Rightarrow> parse_loop ((before @ [c]) @ cs) (length (before @ [c])) (Suc argc) argv PS_TOKEN)
     else parse_loop ((before @ [c]) @ cs) (length (before @ [c])) argc argv PS_TOKEN)"
  using assms by (subst parse_loop.simps) (simp add: nth_append list_update_append blank_def split: option.split)

lemma parse_loop_plain:
  "plain_line cs \<Longrightarrow> length qs \<le> 5 \<Longrightarrow> p = length before \<Longrightarrow> st = (if gap then PS_WHITESPACE else PS_TOKEN) \<Longrightarrow>
   parse_loop (before @ cs @ 0 # rest) p (length qs) (arg_table qs) st =
     (let ps = qs @ word_starts p gap cs in
      if length ps \<le> 5
      then Some (before @ map (\<lambda>c. if blank c then 0 else c) cs @ 0 # rest, p + length cs, length ps, arg_table ps)
      else None)"
proof (induction cs arbitrary: before p qs gap st)
  case Nil
  then show ?case by (subst parse_loop.simps) (simp add: nth_append)
next
  case (Cons c cs)
  have c: "c \<noteq> 0" "c \<noteq> 0x3b" "c \<noteq> 0x22" "plain_line cs" using Cons.prems(1) by (auto simp: plain_line_def)
  note step = parse_step [OF c(1-3) Cons.prems(2,4), of before "cs @ 0 # rest" "arg_table qs"]
  consider (blank) "blank c" | (start) "\<not> blank c" gap | (inner) "\<not> blank c" "\<not> gap" by blast
  then show ?case
  proof cases
    case blank
    then show ?thesis
      using step Cons.IH [OF c(4) Cons.prems(2) refl, of PS_WHITESPACE True "before @ [0]"] Cons.prems(3) by (simp add: Let_def)
  next
    case start
    show ?thesis
    proof (cases "length qs < 5")
      case True
      then have "length (qs @ [p]) \<le> 5" by simp
      from Cons.IH [OF c(4) this refl, of PS_TOKEN False "before @ [c]"] show ?thesis
        using step start Cons.prems(3) True by (simp add: put_arg_table Let_def)
    next
      case False
      then have "put_arg (length qs) (Some (length before)) (arg_table qs) = None"
        using put_arg_table(1) [OF Cons.prems(2)] by simp
      then show ?thesis using step start Cons.prems(2,3) False by (simp add: Let_def)
    qed
  next
    case inner
    then show ?thesis
      using step Cons.IH [OF c(4) Cons.prems(2) refl, of PS_TOKEN False "before @ [c]"] Cons.prems(3) by (simp add: Let_def)
  qed
qed

text \<open>
  Splitting a command line. A line of up to four words is split at its blanks: the table holds the starts of the words and
  a NULL behind them, and every word is terminated. A line with more words writes behind the table of
  five entries: the bound of the loop admits six entries and the NULL is written without a check.
\<close>

theorem parseargs_splits:
  assumes "plain_line cs"
  shows "parseargs (cs @ 0 # rest) (arg_table []) =
    (let ps = word_starts 0 True cs in
     if length ps \<le> 4 then Some (map (\<lambda>c. if blank c then 0 else c) cs @ 0 # rest, length ps, arg_table ps) else None)"
proof -
  have nth: "(map f cs @ 0 # rest) ! length cs = 0" for f by (simp add: nth_append)
  show ?thesis
    using parse_loop_plain [OF assms, of "[]" 0 "[]" PS_WHITESPACE True rest]
      put_arg_table(2) [of "word_starts 0 True cs"]
    by (auto simp: parseargs_def Let_def nth split: if_splits)
qed

theorem parseargs_splits_witness:
  "parseargs (ascii ''echo 1'' @ [0]) (replicate 5 None) =
     Some (ascii ''echo'' @ [0] @ ascii ''1'' @ [0], 2, [Some 0, Some 5] @ replicate 3 None) \<and>
   parseargs (ascii ''a b c d e'' @ [0]) (replicate 5 None) = None"
proof
  have p: "plain_line (ascii ''echo 1'')" "plain_line (ascii ''a b c d e'')" by (simp_all add: plain_line_def ascii_def)
  have t: "arg_table [] = replicate 5 None" by (simp add: arg_table_def)
  show "parseargs (ascii ''echo 1'' @ [0]) (replicate 5 None) =
     Some (ascii ''echo'' @ [0] @ ascii ''1'' @ [0], 2, [Some 0, Some 5] @ replicate 3 None)"
    using parseargs_splits [OF p(1), of "[]"] t by (simp add: ascii_def blank_def arg_table_def)
  show "parseargs (ascii ''a b c d e'' @ [0]) (replicate 5 None) = None"
    using parseargs_splits [OF p(2), of "[]"] t by (simp add: ascii_def blank_def)
qed

end
