(* ===== verification/Startup.thy ===== *)
theory Startup
  imports Debugger Hw_Config Fip
begin

text \<open>
  Start-up and main loop of the AR100S firmware (\<^verbatim>\<open>src/ar100s/system/daemon\<close>: \<^verbatim>\<open>daemon.c\<close>, \<^verbatim>\<open>para.c\<close>), with the
  watchdog (\<^verbatim>\<open>driver/watchdog/watchdog.c\<close>) and the DRAM parameters of the device tree
  (\<^verbatim>\<open>driver/dram/dram_dts_para_v2.c\<close>). The device-tree library is a parameter on the memory that holds the tree.
\<close>

unbundle bit_operations_syntax

section \<open>Model\<close>

record dtb_reader =
  dt_check_header :: "memory \<Rightarrow> u32 \<Rightarrow> int"
  dt_totalsize :: "memory \<Rightarrow> u32 \<Rightarrow> u32"
  dt_path_offset :: "memory \<Rightarrow> u32 \<Rightarrow> string \<Rightarrow> int"
  dt_getprop :: "memory \<Rightarrow> u32 \<Rightarrow> int \<Rightarrow> string \<Rightarrow> (int \<times> u32) option"

record daemon_state = debugger_state +
  dtb_base :: u32
  daemon_list :: "nat option"
  dts_dram_para :: "u32 list"
  msg_paras :: "u32 list"
  pwatchdog_regs :: u32

abbreviation (input) ARISC_DTS_SIZE :: u32 where "ARISC_DTS_SIZE \<equiv> 0x00100000"
abbreviation (input) ARISC_DRAM_BASE :: u32 where "ARISC_DRAM_BASE \<equiv> 0x40000000"
abbreviation (input) ARISC_DRAM_END :: u32 where "ARISC_DRAM_END \<equiv> 0x80000000"
abbreviation (input) RTC_DTB_BASE_STORE_REG :: u32 where "RTC_DTB_BASE_STORE_REG \<equiv> 0x0709010c"
abbreviation (input) WDOG0_REG_BASE :: u32 where "WDOG0_REG_BASE \<equiv> 0x07021000"
abbreviation (input) WDOG0_WRITE_KEY :: u32 where "WDOG0_WRITE_KEY \<equiv> 0x16aa0000"
abbreviation (input) WDOG0_CLK_SRC_RTC32K :: u32 where "WDOG0_CLK_SRC_RTC32K \<equiv> 0"
abbreviation (input) WDOG0_RST_SYS :: u32 where "WDOG0_RST_SYS \<equiv> 1"
abbreviation (input) WDOG0_INTV_VALUE_04S :: u32 where "WDOG0_INTV_VALUE_04S \<equiv> 0x40"
abbreviation (input) WDOG0_EN :: u32 where "WDOG0_EN \<equiv> 1"
abbreviation (input) WDOG0_DIS :: u32 where "WDOG0_DIS \<equiv> 0"
abbreviation (input) AR100_STARTUP_NOTIFY :: u8 where "AR100_STARTUP_NOTIFY \<equiv> 0x90"
abbreviation (input) STARTUP_NOTIFY_TIMEOUT :: u32 where "STARTUP_NOTIFY_TIMEOUT \<equiv> 3000"
abbreviation (input) STARTUP_NOTIFY_PARA_WORDS :: nat where "STARTUP_NOTIFY_PARA_WORDS \<equiv> 6"
abbreviation (input) DAEMON_ONCE_TICKS :: u32 where "DAEMON_ONCE_TICKS \<equiv> 500"
abbreviation (input) DAEMON_RUN_NOTIFY :: u32 where "DAEMON_RUN_NOTIFY \<equiv> 0x100"
abbreviation (input) REC_HOTPULG :: u32 where "REC_HOTPULG \<equiv> 0xb000"

subsection \<open>The watchdog\<close>

text \<open>The registers are fields of the structure at \<open>pwatchdog_regs\<close>: config at offset 0x10, mode at 0x14.\<close>

definition watchdog_init :: "env \<Rightarrow> ('a daemon_state_scheme, int) state" where
  "watchdog_init E = do {
     _ \<leftarrow> State_Monad.update (\<lambda>w. w\<lparr>pwatchdog_regs := WDOG0_REG_BASE\<rparr>);
     v \<leftarrow> readl E (WDOG0_REG_BASE + 0x10);
     _ \<leftarrow> writel (((v AND 0xffff) AND NOT 0x103) OR WDOG0_WRITE_KEY OR WDOG0_CLK_SRC_RTC32K OR WDOG0_RST_SYS) (WDOG0_REG_BASE + 0x10);
     v \<leftarrow> readl E (WDOG0_REG_BASE + 0x14);
     _ \<leftarrow> writel (((v AND 0xffff) AND NOT 0xf0) OR WDOG0_WRITE_KEY OR WDOG0_INTV_VALUE_04S) (WDOG0_REG_BASE + 0x14);
     ret OK
   }"

definition watchdog_exit :: "('a daemon_state_scheme, int) state" where
  "watchdog_exit = do { _ \<leftarrow> State_Monad.update (\<lambda>w. w\<lparr>pwatchdog_regs := 0\<rparr>); ret OK }"

definition watchdog_enable :: "env \<Rightarrow> ('a daemon_state_scheme, int) state" where
  "watchdog_enable E = do {
     w \<leftarrow> State_Monad.get;
     v \<leftarrow> readl E (pwatchdog_regs w + 0x14);
     _ \<leftarrow> writel (((v AND 0xffff) AND NOT 1) OR WDOG0_WRITE_KEY OR WDOG0_EN) (pwatchdog_regs w + 0x14);
     ret OK
   }"

definition watchdog_disable :: "env \<Rightarrow> ('a daemon_state_scheme, int) state" where
  "watchdog_disable E = do {
     w \<leftarrow> State_Monad.get;
     v \<leftarrow> readl E (pwatchdog_regs w + 0x14);
     _ \<leftarrow> writel (((v AND 0xffff) AND NOT 1) OR WDOG0_WRITE_KEY OR WDOG0_DIS) (pwatchdog_regs w + 0x14);
     ret OK
   }"

subsection \<open>Parameters\<close>

definition read_dtb_base :: "env \<Rightarrow> ('a machine_scheme, u32) state" where
  "read_dtb_base E = readl E RTC_DTB_BASE_STORE_REG"

definition dtb_base_init :: "env \<Rightarrow> dtb_reader \<Rightarrow> (history \<Rightarrow> memory) \<Rightarrow> ('a daemon_state_scheme, int) state" where
  "dtb_base_init E R D = do {
     base \<leftarrow> read_dtb_base E;
     _ \<leftarrow> State_Monad.update (\<lambda>w. w\<lparr>dtb_base := 0\<rparr>);
     if base < ARISC_DRAM_BASE \<or> base > ARISC_DRAM_END - ARISC_DTS_SIZE then ret (- EINVAL)
     else do {
       r \<leftarrow> cpucfg_set_little_endian_address E base (base + ARISC_DTS_SIZE);
       if r \<noteq> OK then ret (- EFAIL)
       else do {
         w \<leftarrow> State_Monad.get;
         let m = D (trace w);
         if dt_check_header R m base \<noteq> 0 \<or> dt_totalsize R m base > ARISC_DTS_SIZE then do {
           _ \<leftarrow> cpucfg_remove_little_endian_address E base (base + ARISC_DTS_SIZE);
           ret (- EINVAL)
         } else do {
           _ \<leftarrow> State_Monad.update (\<lambda>w. w\<lparr>dtb_base := base\<rparr>);
           ret OK
         }
       }
     }
   }"

text \<open>The name of a property, as \<open>sprintf\<close> puts it into the local array.\<close>

definition dram_para_prop :: "nat \<Rightarrow> string" where
  "dram_para_prop i = map (\<lambda>c. char_of (unat c)) (butlast (the (sprintf (if i < 10 then ''dram_para0%d'' else ''dram_para%d'') [of_nat i])))"

fun dram_para_loop :: "dtb_reader \<Rightarrow> memory \<Rightarrow> u32 \<Rightarrow> int \<Rightarrow> nat list \<Rightarrow> ('a daemon_state_scheme, bool) state" where
  "dram_para_loop R m fdt node [] = ret True"
| "dram_para_loop R m fdt node (i # is) =
     (case dt_getprop R m fdt node (dram_para_prop i) of
        None \<Rightarrow> do { _ \<leftarrow> State_Monad.update (\<lambda>w. w\<lparr>dts_dram_para := replicate 96 0\<rparr>); ret False }
      | Some (len, v) \<Rightarrow>
          if len \<noteq> 4 then do { _ \<leftarrow> State_Monad.update (\<lambda>w. w\<lparr>dts_dram_para := replicate 96 0\<rparr>); ret False }
          else do {
            _ \<leftarrow> State_Monad.update (\<lambda>w. w\<lparr>dts_dram_para := (dts_dram_para w)[i := v]\<rparr>);
            dram_para_loop R m fdt node is
          })"

text \<open>The result is the array the pointer shows, or NULL.\<close>

definition dram_dts_parse :: "dtb_reader \<Rightarrow> (history \<Rightarrow> memory) \<Rightarrow> ('a daemon_state_scheme, u32 list option) state" where
  "dram_dts_parse R D = do {
     w \<leftarrow> State_Monad.get;
     let fdt = dtb_base w;
     let m = D (trace w);
     if dt_check_header R m fdt \<noteq> 0 then ret None
     else do {
       let node = dt_path_offset R m fdt ''/dram'';
       if node < 0 then ret None
       else do {
         found \<leftarrow> dram_para_loop R m fdt node [0..<96];
         w \<leftarrow> State_Monad.get;
         ret (if found then Some (dts_dram_para w) else None)
       }
     }
   }"

definition platform_dts_parse_late :: "dtb_reader \<Rightarrow> (history \<Rightarrow> memory) \<Rightarrow> ('a daemon_state_scheme, int) state" where
  "platform_dts_parse_late R D = do {
     p \<leftarrow> dram_dts_parse R D;
     _ \<leftarrow> State_Monad.update (\<lambda>w. w\<lparr>platform_dram_para := p\<rparr>);
     ret (if p \<noteq> None then OK else - EFAIL)
   }"

subsection \<open>The daemon\<close>

text \<open>The version string in six words, cut so that the last byte is the terminator.\<close>

definition version_words :: "u8 list \<Rightarrow> u32 list" where
  "version_words ver = (
     let bytes = take 24 (take 23 (takeWhile (\<lambda>c. c \<noteq> 0) ver) @ replicate 24 0);
         m = (\<lambda>a. bytes ! unat a)
     in map (\<lambda>i. load32 m (of_nat (4 * i))) [0..<STARTUP_NOTIFY_PARA_WORDS])"

definition startup_state_notify :: "env \<Rightarrow> nat \<Rightarrow> u8 list \<Rightarrow> int \<Rightarrow> ('a daemon_state_scheme, int) state" where
  "startup_state_notify E fuel ver result = do {
     _ \<leftarrow> save_state_flag (REC_HOTPULG OR 0xd);
     (r, _) \<leftarrow> hwmsgbox_send_message E fuel
       (Some \<lparr>m_state = 0, m_attr = MESSAGE_ATTR_HARDSYN, m_type = AR100_STARTUP_NOTIFY, m_result = of_int result,
          m_count = of_nat STARTUP_NOTIFY_PARA_WORDS, m_paras = Some (version_words ver)\<rparr>) STARTUP_NOTIFY_TIMEOUT;
     _ \<leftarrow> save_state_flag (REC_HOTPULG OR 0xe);
     ret r
   }"

definition daemon_register_service :: "env \<Rightarrow> fnptr \<Rightarrow> ('a daemon_state_scheme, int) state" where
  "daemon_register_service E pcb = do {
     w \<leftarrow> State_Monad.get;
     (r, h) \<leftarrow> notifier_insert E (daemon_list w) pcb;
     _ \<leftarrow> State_Monad.update (\<lambda>w. w\<lparr>daemon_list := h\<rparr>);
     ret r
   }"

text \<open>The stack monitor only prints; other services are reached by their address.\<close>

definition daemon_invoke :: "env \<Rightarrow> fnptr \<Rightarrow> u32 \<Rightarrow> u32 \<Rightarrow> ('a machine_scheme, int) state" where
  "daemon_invoke E f command aux = (case f of Fn c \<Rightarrow> call E (Code c) [command, aux] | _ \<Rightarrow> ret OK)"

definition cpu_init :: "env \<Rightarrow> ('a daemon_state_scheme, unit) state" where
  "cpu_init E = do { _ \<leftarrow> daemon_register_service E Cpu_stack_monitor; ret () }"

text \<open>
  The header of the message is an uninitialised local, the parameter block is static. The mailbox of the other
  processors is not configured, and its query returns at once.
\<close>

definition message_process_loop ::
  "env \<Rightarrow> nat \<Rightarrow> (history \<Rightarrow> memory) \<Rightarrow> dtb_ops \<Rightarrow> message \<Rightarrow> ('a daemon_state_scheme, unit) state" where
  "message_process_loop E fuel D T message = do {
     w \<leftarrow> State_Monad.get;
     (r, pm) \<leftarrow> hwmsgbox_query_message E fuel (Some (message\<lparr>m_paras := Some (msg_paras w)\<rparr>)) MESSAGE_PARA_MAX HWMSGBOX_QUERY_TIMEOUT;
     case pm of None \<Rightarrow> ret ()
     | Some m \<Rightarrow> do {
         _ \<leftarrow> State_Monad.update (\<lambda>w. w\<lparr>msg_paras := the (m_paras m)\<rparr>);
         if r = OK \<and> m_type m \<noteq> AR100_STARTUP_NOTIFY then do { _ \<leftarrow> message_coming_notify E fuel D T m; ret () }
         else ret ()
       }
   }"

text \<open>The loop of the daemon never ends; the fuel is the number of rounds.\<close>

fun daemon_loop :: "env \<Rightarrow> nat \<Rightarrow> (history \<Rightarrow> memory) \<Rightarrow> dtb_ops \<Rightarrow> message \<Rightarrow> nat \<Rightarrow> u32 \<Rightarrow> ('a daemon_state_scheme, unit) state" where
  "daemon_loop E fuel D T message 0 next_daemon_tick = hang"
| "daemon_loop E fuel D T message (Suc n) next_daemon_tick = do {
     _ \<leftarrow> message_process_loop E fuel D T message;
     tick \<leftarrow> current_time_tick;
     if sint (tick - next_daemon_tick) \<ge> 0 then do {
       w \<leftarrow> State_Monad.get;
       _ \<leftarrow> notifier_notify (daemon_invoke E) (daemon_list w) DAEMON_RUN_NOTIFY 0;
       daemon_loop E fuel D T message n (tick + DAEMON_ONCE_TICKS)
     } else daemon_loop E fuel D T message n next_daemon_tick
   }"

definition daemon_main :: "env \<Rightarrow> nat \<Rightarrow> (history \<Rightarrow> memory) \<Rightarrow> dtb_ops \<Rightarrow> message \<Rightarrow> ('a daemon_state_scheme, unit) state" where
  "daemon_main E fuel D T message = do {
     _ \<leftarrow> cpu_init E;
     daemon_loop E fuel D T message fuel DAEMON_ONCE_TICKS
   }"

subsection \<open>Start-up\<close>

text \<open>Clearing the zero-initialised data. The loop compares addresses and has no bound of its own.\<close>

partial_function (option) clean_bss :: "u32 \<Rightarrow> u32 \<Rightarrow> memory \<Rightarrow> memory option" where
  "clean_bss start bss_end m = (if start < bss_end then clean_bss (start + 4) bss_end (store32 start 0 m) else Some m)"

text \<open>The mandatory stages: the first error, and whether the message box was ready by then.\<close>

definition startup_drivers :: "env \<Rightarrow> nat \<Rightarrow> ('a daemon_state_scheme, int \<times> bool) state" where
  "startup_drivers E fuel = do {
     r \<leftarrow> twi_init E fuel;
     if r \<noteq> OK then ret (r, False) else do {
     _ \<leftarrow> save_state_flag (REC_HOTPULG OR 0x7);
     r \<leftarrow> pmu_init;
     if r \<noteq> OK then ret (r, False) else do {
     _ \<leftarrow> bmu_init E fuel;
     _ \<leftarrow> save_state_flag (REC_HOTPULG OR 0x8);
     r \<leftarrow> hwmsgbox_init E;
     if r \<noteq> OK then ret (r, False) else do {
     _ \<leftarrow> save_state_flag (REC_HOTPULG OR 0x9);
     _ \<leftarrow> save_state_flag (REC_HOTPULG OR 0xa);
     r \<leftarrow> timer_init E;
     if r \<noteq> OK then ret (r, True) else do {
     r \<leftarrow> standby_init;
     if r \<noteq> OK then ret (r, True) else do {
     r \<leftarrow> time_ticks_init E;
     ret (r, True)
   }}}}}}"

definition startup_report :: "env \<Rightarrow> nat \<Rightarrow> u8 list \<Rightarrow> bool \<Rightarrow> int \<Rightarrow> ('a daemon_state_scheme, unit) state" where
  "startup_report E fuel ver msgbox_ready r = do {
     _ \<leftarrow> save_state_flag (REC_HOTPULG OR 0xb00 OR (of_int (- r) AND 0xff));
     if msgbox_ready then do { _ \<leftarrow> startup_state_notify E fuel ver r; ret () } else ret ()
   }"

fun doze_forever :: "env \<Rightarrow> nat \<Rightarrow> ('a wakeup_state_scheme, unit) state" where
  "doze_forever E 0 = hang"
| "doze_forever E (Suc n) = do { _ \<leftarrow> cpu_enter_doze E; doze_forever E n }"

definition startup_entry ::
  "env \<Rightarrow> nat \<Rightarrow> dtb_reader \<Rightarrow> (history \<Rightarrow> memory) \<Rightarrow> dtb_ops \<Rightarrow> u8 list \<Rightarrow> message \<Rightarrow> ('a daemon_state_scheme, unit) state" where
  "startup_entry E fuel R D T ver message = do {
     _ \<leftarrow> cpucfg_init;
     dtb_status \<leftarrow> dtb_base_init E R D;
     _ \<leftarrow> notifier_init;
     _ \<leftarrow> save_state_flag REC_HOTPULG;
     _ \<leftarrow> ccu_init E;
     _ \<leftarrow> save_state_flag (REC_HOTPULG OR 0x1);
     _ \<leftarrow> save_state_flag (REC_HOTPULG OR 0x2);
     _ \<leftarrow> save_state_flag (REC_HOTPULG OR 0x3);
     intc_status \<leftarrow> interrupt_init E;
     if intc_status \<noteq> OK then ret ()
     else do {
       _ \<leftarrow> save_state_flag (REC_HOTPULG OR 0x4);
       _ \<leftarrow> save_state_flag (REC_HOTPULG OR 0x5);
       startup_status \<leftarrow> debugger_init E;
       _ \<leftarrow> save_state_flag (REC_HOTPULG OR 0x6);
       _ \<leftarrow> (if dtb_status \<noteq> OK then ret OK else platform_dts_parse_late R D);
       (r, msgbox_ready) \<leftarrow> startup_drivers E fuel;
       if r \<noteq> OK then do {
         _ \<leftarrow> startup_report E fuel ver msgbox_ready r;
         doze_forever E fuel
       } else do {
         r \<leftarrow> watchdog_init E;
         let startup_status = (if r \<noteq> OK \<and> startup_status = OK then r else startup_status);
         _ \<leftarrow> save_state_flag (REC_HOTPULG OR 0xc);
         _ \<leftarrow> startup_state_notify E fuel ver startup_status;
         _ \<leftarrow> save_state_flag (REC_HOTPULG OR 0xf);
         daemon_main E fuel D T message
       }
     }
   }"

section \<open>Zero-initialised data\<close>

text \<open>For bounds at a distance of whole words the loop ends and clears exactly the bytes between them.\<close>

lemma clean_bss_clears:
  assumes "unat bss_end = unat start + 4 * n"
  shows "clean_bss start bss_end m = Some (\<lambda>a. if start \<le> a \<and> a < bss_end then 0 else m a)"
  using assms
proof (induction n arbitrary: start m)
  case 0
  then have "start = bss_end" by (simp add: word_unat_eq_iff)
  then show ?case by (subst clean_bss.simps) (auto simp: fun_eq_iff)
next
  case (Suc n)
  have at: "unat (start + of_nat i) = unat start + i" if "i \<le> 4" for i
    using Suc.prems that unat_u32_lt [of bss_end] by (simp add: unat_word_ariths(1) unsigned_of_nat take_bit_nat_eq_self)
  have lt: "start < bss_end" using Suc.prems by (simp add: word_less_nat_alt)
  have "unat bss_end = unat (start + 4) + 4 * n" using at [of 4] Suc.prems by simp
  from Suc.IH [OF this] have step: "clean_bss start bss_end m = Some (\<lambda>a. if start + 4 \<le> a \<and> a < bss_end then 0 else store32 start 0 m a)"
    using lt by (subst clean_bss.simps) simp
  have split: "start \<le> a \<and> a < bss_end \<longleftrightarrow> a \<in> {start, start + 1, start + 2, start + 3} \<or> start + 4 \<le> a \<and> a < bss_end" for a
    using at [of 0] at [of 1] at [of 2] at [of 3] at [of 4] Suc.prems
    by (simp add: word_le_nat_alt word_less_nat_alt word_unat_eq_iff) linarith
  show ?case unfolding step by (auto simp: fun_eq_iff split store32_def)
qed

section \<open>The device tree from boot0 to the firmware\<close>

lemma frames_le_find: "(\<And>w t. f (w\<lparr>trace := t\<rparr>) = f w) \<Longrightarrow> frames f (le_find E s e n)"
  by (induction n) (auto intro!: frames_intros)

lemma frames_remove: "frames dtb_base (cpucfg_remove_little_endian_address E s e)"
  unfolding cpucfg_remove_little_endian_address_def Let_def by (intro frames_intros frames_le_find) simp_all

lemma set_window_wp:
  "wp (cpucfg_set_little_endian_address E s e) (\<lambda>r w'. dtb_base w' = dtb_base w \<and> dts_dram_para w' = dts_dram_para w \<and>
     (little_endian_used w < CPUCFG_LE_SPACE_NUMBER \<longrightarrow> r = OK)) w"
  by (auto simp: cpucfg_set_little_endian_address_def Let_def wp_simps)

text \<open>
  C25: the address of the device tree. Whatever the register and the memory hold, \<open>dtb_base_init\<close> either accepts an
  address whose window of 1 MB lies inside the DRAM that the core can reach, with a tree that passed the header
  check and fits the window, or it refuses and leaves the firmware without a tree.
\<close>

theorem dtb_base_init_safe:
  "wp (dtb_base_init E R D) (\<lambda>r w'.
     (r = OK \<and> 0x40000000 \<le> unat (dtb_base w') \<and> unat (dtb_base w') + unat ARISC_DTS_SIZE \<le> 0x80000000 \<and>
       (\<exists>t. dt_check_header R (D t) (dtb_base w') = 0 \<and> unat (dt_totalsize R (D t) (dtb_base w')) \<le> unat ARISC_DTS_SIZE)) \<or>
     ((r = - EINVAL \<or> r = - EFAIL) \<and> dtb_base w' = 0)) w"
proof -
  let ?b = "dev_read E (trace w) RTC_DTB_BASE_STORE_REG"
  let ?w = "w\<lparr>trace := Rd RTC_DTB_BASE_STORE_REG ?b # trace w, dtb_base := 0\<rparr>"
  have rng: "0x40000000 \<le> unat ?b" "unat ?b + unat ARISC_DTS_SIZE \<le> 0x80000000"
    if "\<not> (?b < ARISC_DRAM_BASE \<or> ?b > ARISC_DRAM_END - ARISC_DTS_SIZE)"
    using that by (auto simp: word_less_nat_alt)
  show ?thesis
    unfolding dtb_base_init_def read_dtb_base_def
    apply (rule wp_bindI, simp only: wp_readl, rule wp_bindI, simp only: wp_update, rule wp_ifI)
     apply (rule wp_returnI, simp)
    apply (rule wp_bindI, rule wp_mono [OF set_window_wp], rule wp_ifI, rule wp_returnI, simp)
    apply (rule wp_bindI, simp only: wp_get Let_def, rule wp_ifI)
     apply (rule wp_bindI, rule wp_mono [OF frames_wp [OF frames_remove]], rule wp_returnI, simp)
    apply (rule wp_bindI, simp only: wp_update, rule wp_returnI)
    using rng by (auto simp: word_less_nat_alt not_less)
qed

text \<open>
  The documented behaviour of an in-place update: the header, the nodes and the lengths of the properties stay. The
  library of the firmware reads the tree that the one of boot0 wrote.
\<close>

definition fdt_keeps :: "fdt_ops \<Rightarrow> bool" where
  "fdt_keeps F \<longleftrightarrow> (\<forall>m fdt node name v m'. fdt_setprop_inplace_u32 F m fdt node name v = (0, m') \<longrightarrow>
     fdt_check_header F m' fdt = fdt_check_header F m fdt \<and> fdt_totalsize F m' fdt = fdt_totalsize F m fdt \<and>
     (\<forall>p. fdt_path_offset F m' fdt p = fdt_path_offset F m fdt p) \<and>
     (\<forall>n s. fdt_getprop F m' fdt n s = fdt_getprop F m fdt n s))"

definition reader_of :: "fdt_ops \<Rightarrow> (memory \<Rightarrow> u32 \<Rightarrow> int \<Rightarrow> string \<Rightarrow> u32) \<Rightarrow> dtb_reader" where
  "reader_of F prop = \<lparr>dt_check_header = fdt_check_header F, dt_totalsize = fdt_totalsize F, dt_path_offset = fdt_path_offset F,
     dt_getprop = (\<lambda>m fdt n s. map_option (\<lambda>len. (len, prop m fdt n s)) (fdt_getprop F m fdt n s))\<rparr>"

lemma digits_two: "0 < i \<Longrightarrow> i < 100 \<Longrightarrow> digits 10 i = (if i < 10 then [i] else [i mod 10, i div 10])"
  by (simp add: digits_step div_eq_0_iff)

lemma itoa_two:
  assumes "i < 100"
  shows "itoa (of_nat i) 10 = Some (map ((!) digit_string) (if i < 10 then [i] else [i div 10, i mod 10]) @ [0])"
proof -
  have u: "unat (of_nat i :: u32) = i" "sint (of_nat i :: u32) = int i"
    using assms by (simp_all add: unsigned_of_nat take_bit_nat_eq_self sint_of_small_nat)
  have "(of_nat i :: u32) \<noteq> 0x80000000" using u(1) assms by (auto dest: arg_cong [of _ _ unat])
  then have "itoa (of_nat i) 10 = utoa (of_nat i) 10" using u(2) by (simp add: itoa_utoa)
  also have "\<dots> = Some (map ((!) digit_string) (if i < 10 then [i] else [i div 10, i mod 10]) @ [0])"
  proof (cases "i = 0")
    case True
    then show ?thesis by (simp add: utoa_def digit_string_def ascii_def)
  next
    case False
    then have "(of_nat i :: u32) \<noteq> 0" using u(1) by (metis unat_0)
    then show ?thesis
      using digit_loop_digits [of 10 "[]" "of_nat i"] digits_two [of i] False assms u(1) by (simp add: utoa_def)
  qed
  finally show ?thesis .
qed

lemma digit_ascii: "\<forall>d\<in>set [0..<10]. (char_of (unat (digit_string ! d)) :: char) = char_of (48 + d)"
  by code_simp

lemma name_chars:
  "(char_of (100 :: nat) :: char) = CHR ''d''" "(char_of (114 :: nat) :: char) = CHR ''r''" "(char_of (97 :: nat) :: char) = CHR ''a''"
  "(char_of (109 :: nat) :: char) = CHR ''m''" "(char_of (95 :: nat) :: char) = CHR ''_''" "(char_of (112 :: nat) :: char) = CHR ''p''"
  by code_simp+

lemma dram_para_prop_name:
  assumes "i < 96"
  shows "dram_para_prop i = para_name i"
proof -
  have d: "(char_of (unat (digit_string ! d)) :: char) = char_of (48 + d)" if "d < 10" for d
    using digit_ascii that by simp
  have "i div 10 < 10" using assms by simp
  then show ?thesis
    using assms itoa_two [of i] d [of i] d [of "i div 10"] d [of "i mod 10"]
    by (cases "i < 10") (simp_all add: dram_para_prop_def para_name_def sprintf_def ascii_def butlast_append name_chars)
qed

lemma update_keeps:
  assumes "fdt_keeps F"
  shows "update_dram_loop F fdt node dp is m = (0, m') \<Longrightarrow>
    fdt_check_header F m' fdt = fdt_check_header F m fdt \<and> fdt_totalsize F m' fdt = fdt_totalsize F m fdt \<and>
    fdt_path_offset F m' fdt p = fdt_path_offset F m fdt p \<and> fdt_getprop F m' fdt n s = fdt_getprop F m fdt n s \<and>
    (\<forall>i\<in>set is. fdt_getprop F m' fdt node (para_name i) = Some 4)"
proof (induction "is" arbitrary: m n s)
  case (Cons i "is")
  obtain r m1 where m1: "fdt_setprop_inplace_u32 F m fdt node (para_name i) (dp i) = (r, m1)" by fastforce
  with Cons.prems have *: "r = 0" "update_dram_loop F fdt node dp is m1 = (0, m')" "fdt_getprop F m fdt node (para_name i) = Some 4"
    by (auto split: option.splits if_splits)
  have k: "fdt_check_header F m1 fdt = fdt_check_header F m fdt" "fdt_totalsize F m1 fdt = fdt_totalsize F m fdt"
    "\<And>p. fdt_path_offset F m1 fdt p = fdt_path_offset F m fdt p" "\<And>n s. fdt_getprop F m1 fdt n s = fdt_getprop F m fdt n s"
    using assms m1 *(1) unfolding fdt_keeps_def by blast+
  show ?case using Cons.IH [OF *(2), of n s] Cons.IH [OF *(2), of node "para_name i"] k *(3) by simp
qed simp

lemma dram_para_loop_wp:
  assumes "\<And>i. i \<in> set is \<Longrightarrow> dt_getprop R m fdt node (dram_para_prop i) = Some (4, dp i)" and "distinct is"
    and "\<forall>i\<in>set is. i < length (dts_dram_para w)"
  shows "wp (dram_para_loop R m fdt node is) (\<lambda>r w'. r \<and>
    dts_dram_para w' = map (\<lambda>i. if i \<in> set is then dp i else dts_dram_para w ! i) [0..<length (dts_dram_para w)] \<and>
    dtb_base w' = dtb_base w) w"
  using assms
proof (induction "is" arbitrary: w)
  case Nil
  then show ?case by (simp add: wp_return map_nth)
next
  case (Cons i "is")
  let ?w = "w\<lparr>dts_dram_para := (dts_dram_para w)[i := dp i]\<rparr>"
  have "wp (dram_para_loop R m fdt node is) (\<lambda>r w'. r \<and>
    dts_dram_para w' = map (\<lambda>j. if j \<in> set is then dp j else dts_dram_para ?w ! j) [0..<length (dts_dram_para ?w)] \<and>
    dtb_base w' = dtb_base ?w) ?w"
    by (rule Cons.IH) (use Cons.prems in auto)
  then show ?case
    using Cons.prems by (auto simp: wp_simps nth_list_update elim!: wp_mono)
qed

text \<open>
  C20: the DRAM parameters on their way from boot0 to the firmware. When boot0 has patched the tree in its window and the
  register holds the address of that window, the firmware accepts the address and reads from the tree
  exactly the 96 parameters that boot0 trained, although the two programs build the names of the properties differently.
\<close>

theorem dram_parameters_handoff:
  assumes F: "fdt_sets F prop" "fdt_keeps F"
    and boot0: "a733_hw_config_update_dram F SUNXI_FIP_HW_CONFIG_BASE loaded_size (Some dp) 96 m = (0, m')"
      "loaded_size \<le> SUNXI_FIP_HW_CONFIG_MAX_SIZE"
    and "\<And>t. D t = m'" and "dev_read E (trace w) RTC_DTB_BASE_STORE_REG = SUNXI_FIP_HW_CONFIG_BASE"
    and "little_endian_used w < CPUCFG_LE_SPACE_NUMBER" and "length (dts_dram_para w) = 96"
  shows "wp (do { r \<leftarrow> dtb_base_init E (reader_of F prop) D; if r \<noteq> OK then ret r else platform_dts_parse_late (reader_of F prop) D })
    (\<lambda>r w'. r = OK \<and> dtb_base w' = SUNXI_FIP_HW_CONFIG_BASE \<and> platform_dram_para w' = Some (map dp [0..<96])) w"
proof -
  let ?b = SUNXI_FIP_HW_CONFIG_BASE and ?R = "reader_of F prop"
  let ?node = "fdt_path_offset F m ?b ''/dram''"
  have up: "update_dram_loop F ?b ?node dp [0..<96] m = (0, m')" "fdt_check_header F m ?b = 0" "fdt_totalsize F m ?b \<le> loaded_size" "0 \<le> ?node"
    using boot0(1) by (auto simp: a733_hw_config_update_dram_def Let_def not_less split: if_splits)
  note kept = update_keeps [OF F(2) up(1)]
  have four: "\<forall>i\<in>set [0..<96]. fdt_getprop F m' ?b ?node (para_name i) = Some 4" using kept by blast
  have props: "dt_getprop ?R m' ?b ?node (dram_para_prop i) = Some (4, dp i)" if "i \<in> set [0..<96]" for i
    using four update_dram_loop_sets [OF F(1) _ _ up(1)] that by (auto simp: reader_of_def dram_para_prop_name)
  have hdr: "dt_check_header ?R m' ?b = 0" "dt_totalsize ?R m' ?b \<le> ARISC_DTS_SIZE" "dt_path_offset ?R m' ?b ''/dram'' = ?node"
    using kept up boot0(2) by (auto simp: reader_of_def)
  have init: "wp (dtb_base_init E ?R D) (\<lambda>r u. r = OK \<and> dtb_base u = ?b \<and> length (dts_dram_para u) = 96) w"
    using assms(5-8) hdr
    by (auto simp: dtb_base_init_def read_dtb_base_def cpucfg_set_little_endian_address_def Let_def wp_simps not_less)
  have parse: "wp (platform_dts_parse_late ?R D) (\<lambda>r u'. r = OK \<and> dtb_base u' = ?b \<and> platform_dram_para u' = Some (map dp [0..<96])) u"
    if u: "dtb_base u = ?b" "length (dts_dram_para u) = 96" for u :: "'a daemon_state_scheme"
  proof -
    have loop: "wp (dram_para_loop ?R m' ?b ?node [0..<96]) (\<lambda>r u'. r \<and> dts_dram_para u' = map dp [0..<96] \<and> dtb_base u' = ?b) u"
      by (rule wp_mono [OF dram_para_loop_wp [where dp = dp]]) (use props u in auto)
    then show ?thesis
      using hdr up(4) u assms(5)
      by (auto simp: platform_dts_parse_late_def dram_dts_parse_def Let_def wp_simps elim!: wp_mono)
  qed
  show ?thesis by (rule wp_bindI, rule wp_mono [OF init]) (use parse in \<open>simp add: wp_simps\<close>)
qed

text \<open>A library for a tree that is a table of the 96 parameters.\<close>

definition slot :: "string \<Rightarrow> nat option" where
  "slot name = find (\<lambda>i. para_name i = name) [0..<96]"

definition table_fdt :: fdt_ops where
  "table_fdt = \<lparr>fdt_check_header = (\<lambda>_ _. 0), fdt_totalsize = (\<lambda>_ _. 384),
     fdt_path_offset = (\<lambda>_ _ _. 8), fdt_getprop = (\<lambda>_ _ _ _. Some 4),
     fdt_setprop_inplace_u32 = (\<lambda>m a _ name v. case slot name of None \<Rightarrow> (-1, m) | Some i \<Rightarrow> (0, store32 (a + of_nat (4 * i)) v m))\<rparr>"

definition table_prop :: "memory \<Rightarrow> u32 \<Rightarrow> int \<Rightarrow> string \<Rightarrow> u32" where
  "table_prop m a n name = (case slot name of None \<Rightarrow> 0 | Some i \<Rightarrow> load32 m (a + of_nat (4 * i)))"

lemma slot_Some: "slot name = Some i \<Longrightarrow> i < 96 \<and> para_name i = name"
  by (auto simp: slot_def find_Some_iff)

lemma slot_para: "i < 96 \<Longrightarrow> slot (para_name i) = Some i"
proof -
  assume i: "i < 96"
  then have "slot (para_name i) \<noteq> None" by (auto simp: slot_def find_None_iff)
  then obtain j where "slot (para_name i) = Some j" by auto
  with slot_Some [OF this] para_name_inj [of j i] i show ?thesis by simp
qed

lemma slot_outside:
  assumes "i < 96" and "x < 384" and "x < 4 * i \<or> 4 * i + 4 \<le> x"
  shows "(a :: u32) + of_nat x \<notin> region (a + of_nat (4 * i)) 4"
proof -
  have u: "unat (of_nat k :: u32) = k" if "k < 384" for k
    using that by (simp add: unsigned_of_nat take_bit_nat_eq_self)
  have "4 \<le> unat (of_nat x - of_nat (4 * i) :: u32)"
    using u [of x] u [of "4 * i"] assms by (auto simp: unat_sub_if' simp del: of_nat_mult)
  then show ?thesis by (simp add: region_def)
qed

lemma load32_other:
  assumes "i < 96" and "j < 96" and "i \<noteq> j"
  shows "load32 (store32 (a + of_nat (4 * i)) v m) (a + of_nat (4 * j)) = load32 m (a + of_nat (4 * j))"
proof -
  have "store32 (a + of_nat (4 * i)) v m (a + of_nat (4 * j + k)) = m (a + of_nat (4 * j + k))" if "k < 4" for k
    by (intro store32_other slot_outside) (use assms that in auto)
  from this [of 0] this [of 1] this [of 2] this [of 3] show ?thesis by (simp add: load32_def algebra_simps)
qed

lemma table_fdt_ok: "fdt_sets table_fdt table_prop" "fdt_keeps table_fdt"
proof -
  have one: "table_prop m' a n name = v \<and> (\<forall>other. other \<noteq> name \<longrightarrow> table_prop m' a n other = table_prop m a n other)"
    if s: "fdt_setprop_inplace_u32 table_fdt m a n name v = (0, m')" for m a n name v m'
  proof -
    obtain i where i: "slot name = Some i" "m' = store32 (a + of_nat (4 * i)) v m"
      using s by (auto simp: table_fdt_def split: option.splits)
    have "table_prop m' a n other = table_prop m a n other" if "other \<noteq> name" for other
    proof (cases "slot other")
      case (Some j)
      then have "i < 96" "j < 96" "i \<noteq> j" using slot_Some [OF i(1)] slot_Some [OF Some] that by auto
      then show ?thesis using Some i(2) load32_other by (simp add: table_prop_def)
    qed (simp add: table_prop_def)
    then show ?thesis using i by (simp add: table_prop_def load32_store32)
  qed
  have out: "snd (fdt_setprop_inplace_u32 table_fdt m a n name v) b = m b" if "b \<notin> region a 384" for m a n name v b
  proof (cases "slot name")
    case (Some i)
    have "b \<notin> region (a + of_nat (4 * i)) 4"
    proof
      assume "b \<in> region (a + of_nat (4 * i)) 4"
      then have lt: "unat (b - (a + of_nat (4 * i))) < 4" by (simp add: region_def)
      have "b - a = of_nat (4 * i) + (b - (a + of_nat (4 * i)))" by simp
      then have "unat (b - a) \<le> unat (of_nat (4 * i) :: u32) + unat (b - (a + of_nat (4 * i)))"
        by (metis unat_word_ariths(1) mod_less_eq_dividend)
      also have "\<dots> < 384"
        using lt slot_Some [OF Some] by (simp add: unsigned_of_nat take_bit_nat_eq_self del: of_nat_mult)
      finally show False using that by (simp add: region_def)
    qed
    then show ?thesis using Some by (simp add: table_fdt_def store32_other)
  qed (simp add: table_fdt_def)
  show "fdt_sets table_fdt table_prop"
    unfolding fdt_sets_def using one out by (simp add: table_fdt_def)
  show "fdt_keeps table_fdt" by (auto simp: fdt_keeps_def table_fdt_def)
qed

lemma table_update:
  assumes "set is \<subseteq> {..<96}"
  shows "fst (update_dram_loop table_fdt a n dp is m) = 0"
  using assms by (induction "is" arbitrary: m) (simp_all add: table_fdt_def slot_para)

definition booted :: daemon_state where
  "booted = debugger_state.extend fresh_console
     \<lparr>dtb_base = 0, daemon_list = None, dts_dram_para = replicate 96 0, msg_paras = replicate 32 0, pwatchdog_regs = 0\<rparr>"

theorem dram_parameters_handoff_witness:
  "\<exists>m'. a733_hw_config_update_dram table_fdt 0x48100000 384 (Some (\<lambda>i. of_nat (i * i))) 96 (\<lambda>_. 0) = (0, m') \<and>
   wp (do { r \<leftarrow> dtb_base_init (ram_env\<lparr>dev_read := \<lambda>_ _. 0x48100000\<rparr>) (reader_of table_fdt table_prop) (\<lambda>_. m');
            if r \<noteq> OK then ret r else platform_dts_parse_late (reader_of table_fdt table_prop) (\<lambda>_. m') })
     (\<lambda>r w'. r = OK \<and> platform_dram_para w' = Some (map (\<lambda>i. of_nat (i * i)) [0..<96])) booted"
proof -
  let ?u = "a733_hw_config_update_dram table_fdt 0x48100000 384 (Some (\<lambda>i. of_nat (i * i))) 96 (\<lambda>_. 0)"
  have upt: "set [0..<96] \<subseteq> {..<96 :: nat}" by auto
  have fields: "fdt_check_header table_fdt m a = 0" "fdt_totalsize table_fdt m a = 384" "fdt_path_offset table_fdt m a p = 8" for m a p
    by (simp_all add: table_fdt_def)
  have "fst ?u = 0"
    using table_update [OF upt, of "0x48100000" 8 "\<lambda>i. of_nat (i * i)" "\<lambda>_. 0"] fields
    by (simp add: a733_hw_config_update_dram_def Let_def)
  then obtain m' where m': "?u = (0, m')" by (cases ?u) auto
  have "wp (do { r \<leftarrow> dtb_base_init (ram_env\<lparr>dev_read := \<lambda>_ _. 0x48100000\<rparr>) (reader_of table_fdt table_prop) (\<lambda>_. m');
            if r \<noteq> OK then ret r else platform_dts_parse_late (reader_of table_fdt table_prop) (\<lambda>_. m') })
     (\<lambda>r w'. r = OK \<and> platform_dram_para w' = Some (map (\<lambda>i. of_nat (i * i)) [0..<96])) booted"
    by (rule wp_mono [OF dram_parameters_handoff [OF table_fdt_ok m']])
      (auto simp: booted_def debugger_state.defs fresh_console_def manager_state.defs sample_manager_def standby_state.defs sample_standby_def)
  with m' show ?thesis by blast
qed

end
