(* ===== verification/Message_Loop.thy ===== *)
theory Message_Loop
  imports Startup
begin

text \<open>
  The message loop of the daemon, from the words of a request in the receive FIFO to the words of its reply:
  the composition of the message box, the message manager and the loop.
\<close>

unbundle bit_operations_syntax

section \<open>Receiving sends nothing\<close>

definition quiet_run :: "('a manager_state_scheme, 'b) state \<Rightarrow> bool" where
  "quiet_run m \<longleftrightarrow> (\<forall>w. timers_ok w \<longrightarrow> wp m (\<lambda>_ w'. still w' = still w \<and> adds (\<lambda>e. \<forall>v. e \<noteq> Wr TX_MSG v) w w') w)"

lemma quiet_runD: "quiet_run m \<Longrightarrow> timers_ok w \<Longrightarrow> wp m (\<lambda>_ w'. still w' = still w \<and> adds (\<lambda>e. \<forall>v. e \<noteq> Wr TX_MSG v) w w') w"
  by (simp add: quiet_run_def)

lemma still_timers_ok: "still w' = still w \<Longrightarrow> timers_ok w' \<longleftrightarrow> timers_ok w"
proof -
  assume "still w' = still w"
  moreover have "timers_ok (still v) \<longleftrightarrow> timers_ok v" for v :: "'a manager_state_scheme" by (simp add: still_def timers_ok_def)
  ultimately show ?thesis by metis
qed

named_theorems quiet_intros \<open>computations that transmit nothing\<close>

lemma quiet_return [quiet_intros]: "quiet_run (ret x)"
  by (simp add: quiet_run_def wp_return)

lemma quiet_run_bind [quiet_intros]:
  assumes "quiet_run m" and "\<And>x. quiet_run (g x)"
  shows "quiet_run (m \<bind> g)"
  unfolding quiet_run_def
proof (intro allI impI wp_bindI)
  fix w :: "'a manager_state_scheme" assume "timers_ok w"
  from quiet_runD [OF assms(1) this]
  show "wp m (\<lambda>r. wp (g r) (\<lambda>_ w'. still w' = still w \<and> adds (\<lambda>e. \<forall>v. e \<noteq> Wr TX_MSG v) w w')) w"
  proof (rule wp_mono, elim conjE)
    fix r u assume u: "still u = still w" "adds (\<lambda>e. \<forall>v. e \<noteq> Wr TX_MSG v) w u"
    have "timers_ok u" using still_timers_ok [OF u(1)] \<open>timers_ok w\<close> by simp
    from quiet_runD [OF assms(2) this, of r]
    show "wp (g r) (\<lambda>_ w'. still w' = still w \<and> adds (\<lambda>e. \<forall>v. e \<noteq> Wr TX_MSG v) w w') u"
      by (rule wp_mono) (use u adds_trans [OF u(2)] in auto)
  qed
qed

lemma quiet_if [quiet_intros]: "quiet_run m \<Longrightarrow> quiet_run n \<Longrightarrow> quiet_run (if c then m else n)"
  by simp

lemma quiet_Let [quiet_intros]: "(\<And>x. quiet_run (g x)) \<Longrightarrow> quiet_run (Let a g)"
  by simp

lemma quiet_split [quiet_intros]: "(\<And>a b. quiet_run (g a b)) \<Longrightarrow> quiet_run (case p of (a, b) \<Rightarrow> g a b)"
  by (cases p) simp

lemma quiet_readl [quiet_intros]: "quiet_run (readl E a)"
  by (simp add: quiet_run_def wp_readl still_def adds_event)

lemma quiet_writel [quiet_intros]: "a \<noteq> TX_MSG \<Longrightarrow> quiet_run (writel v a)"
  by (simp add: quiet_run_def wp_writel still_def adds_event)

lemma quiet_mdelay [quiet_intros]: "quiet_run (time_mdelay E fuel ms)"
  unfolding quiet_run_def
proof (intro allI impI)
  fix w :: "'a manager_state_scheme" assume ok: "timers_ok w"
  have "frames still (time_mdelay E fuel ms)" by (rule frames_delays) (simp_all add: still_def)
  from wp_conj [OF frames_wp [OF this, of w] time_mdelay_adds [OF ok]]
  show "wp (time_mdelay E fuel ms) (\<lambda>_ w'. still w' = still w \<and> adds (\<lambda>e. \<forall>v. e \<noteq> Wr TX_MSG v) w w') w"
    by (rule wp_mono) (auto elim!: adds_mono simp: box_regs_def)
qed

lemma quiet_wait [quiet_intros]: "quiet_run (wait_queue E (time_mdelay E fuel 1) reg busy n)"
  by (induction n) (auto intro!: quiet_intros)

lemma quiet_get_word [quiet_intros]: "quiet_run (get_word E fuel q t)"
  unfolding get_word_def hwmsgbox_wait_queue_not_empty_def by (intro quiet_intros)

lemma quiet_recv_paras [quiet_intros]: "quiet_run (recv_paras E fuel q t cap i n m)"
  by (induction n arbitrary: i m) (auto intro!: quiet_intros)

lemma quiet_drain [quiet_intros]: "quiet_run (rx_drain E q n)"
  by (induction n) (auto intro!: quiet_intros)

lemma quiet_receive: "quiet_run (hwmsgbox_receive_message E fuel q m cap t)"
  unfolding hwmsgbox_receive_message_def receive_failed_def hwmsgbox_clear_receiver_pending_def Let_def
  by (intro quiet_intros) simp_all

lemma adds_not_sent:
  assumes "adds (\<lambda>e. \<forall>v. e \<noteq> Wr TX_MSG v) w w'"
  shows "sent (trace w') = sent (trace w)" "paced (trace w') \<longleftrightarrow> paced (trace w)"
proof -
  obtain es where es: "trace w' = es @ trace w" "\<forall>e\<in>set es. \<forall>v. e \<noteq> Wr TX_MSG v" using assms unfolding adds_def by blast
  have "sent (es @ t) = sent t \<and> (paced (es @ t) \<longleftrightarrow> paced t)" for t
    using es(2)
  proof (induction es)
    case (Cons e es)
    then show ?case using not_transmitted [of e "es @ t"] by simp
  qed simp
  then show "sent (trace w') = sent (trace w)" "paced (trace w') \<longleftrightarrow> paced (trace w)" by (simp_all add: es(1))
qed

section \<open>Requests and replies\<close>

lemma received_para:
  assumes "\<not> bad_message (Some m)" and "i < unat (m_count m)"
  shows "para (received m m0 32) i = para m i"
  using assms by (simp add: para_def received_def frame_def bad_message_def nth_append word_less_nat_alt)

lemma received_plain:
  assumes "\<not> bad_message (Some m)"
  shows "frame ((received m m0 32)\<lparr>m_result := r\<rparr>) = frame (m\<lparr>m_result := r\<rparr>)" "frame (received m m0 32) = frame m"
    "plain_request (received m m0 32) \<longleftrightarrow> plain_request m" "plain_answer (received m m0 32) = plain_answer m"
    "\<not> bad_message (Some (received m m0 32))" "m_attr (received m m0 32) = m_attr m" "m_type (received m m0 32) = m_type m"
proof -
  have p: "the (m_paras (received m m0 32)) ! i = the (m_paras m) ! i" if "i < unat (m_count m)" for i
    using received_para [OF assms that] by (simp add: para_def)
  show "frame ((received m m0 32)\<lparr>m_result := r\<rparr>) = frame (m\<lparr>m_result := r\<rparr>)" "frame (received m m0 32) = frame m"
    using p by (auto simp: frame_def header_word_def received_def)
  show "plain_request (received m m0 32) \<longleftrightarrow> plain_request m" "plain_answer (received m m0 32) = plain_answer m"
    "m_attr (received m m0 32) = m_attr m" "m_type (received m m0 32) = m_type m"
    by (simp_all add: plain_request_def plain_answer_def received_def)
  show "\<not> bad_message (Some (received m m0 32))" using assms by (simp add: bad_message_def received_def)
qed

lemma received_effect:
  assumes "\<not> bad_message (Some m)"
  shows "plain_effect (received m m0 32) w = plain_effect m w"
proof -
  have "m_type (received m m0 32) = m_type m" "m_count (received m m0 32) = m_count m" by (simp_all add: received_def)
  moreover have "para (received m m0 32) 0 = para m 0" if "m_count m \<noteq> 0"
    by (intro received_para assms(1)) (use that in \<open>simp add: unat_gt_0\<close>)
  ultimately show ?thesis by (simp add: plain_effect_def)
qed

lemma mbox_ready_round:
  assumes "mbox_ready E c fuel timeout w" and "n \<le> 34"
  shows "can_delay E c fuel (Suc (n * word_budget 100 + (drain_budget + n * word_budget SEND_MSG_TIMEOUT))) w"
proof -
  have "Suc (n * word_budget 100 + (drain_budget + n * word_budget SEND_MSG_TIMEOUT)) \<le> 7000000" using assms(2) by simp
  then have "Suc (n * word_budget 100 + (drain_budget + n * word_budget SEND_MSG_TIMEOUT)) * delay_cost \<le> 7000000 * delay_cost"
    by (rule mult_le_mono1)
  with assms(1) show ?thesis unfolding mbox_ready_def can_delay_def by (simp del: mult_Suc)
qed

text \<open>The request of the FIFO arrives in the buffer of the loop, and nothing is sent on the way.\<close>

lemma receive_round_wp:
  fixes w :: "'a manager_state_scheme"
  assumes "can_delay E c fuel (length (frame m) * word_budget 100 + (drain_budget + k)) w" and "paced (trace w)"
    and "\<not> bad_message (Some m)" and "delivers E (popped (trace w)) (frame m)"
    and "\<not> starves E (popped (trace w) + length (frame m))" and "m_paras m0 = Some ps" "length ps = 32"
  shows "wp (hwmsgbox_receive_message E fuel 3 m0 MESSAGE_PARA_MAX HWMSGBOX_QUERY_TIMEOUT) (\<lambda>(r, m') w'.
     r = OK \<and> m' = received m m0 32 \<and> can_delay E c fuel k w' \<and> still w' = still w \<and>
     sent (trace w') = sent (trace w) \<and> paced (trace w')) w"
proof -
  have ok: "timers_ok w" and buf: "length ps = unat (MESSAGE_PARA_MAX :: u32)" and n: "\<not> unat (m_count m) > 32"
    using assms by (simp_all add: can_delay_def bad_message_def word_less_nat_alt)
  from wp_conj [OF hwmsgbox_receive_message_wp [OF assms(1,4,6) buf] quiet_runD [OF quiet_receive ok]]
  show ?thesis by (rule wp_mono) (use assms(2,5) n adds_not_sent in \<open>auto split: if_splits\<close>)
qed

section \<open>The loop\<close>

lemma message_coming_notify_wp:
  "wp (process_message E fuel D T m) Q w \<Longrightarrow> wp (message_coming_notify E fuel D T m) Q w"
  unfolding message_coming_notify_def by (rule wp_bindI, erule wp_mono) (auto simp: wp_simps)

text \<open>What a round of the loop achieves for the request \<open>m\<close>.\<close>

definition answered :: "env \<Rightarrow> message \<Rightarrow> 'a daemon_state_scheme \<Rightarrow> 'a daemon_state_scheme \<Rightarrow> bool" where
  "answered E m w w' \<longleftrightarrow> \<not> hung w' \<and> w' = (plain_effect m w)\<lparr>trace := trace w', msg_paras := msg_paras w'\<rparr> \<and>
     (\<exists>n. sent (trace w') = sent (trace w) @ take n (frame (m\<lparr>m_result := of_int (plain_answer m)\<rparr>)) \<and>
       (n = length (frame m) \<or> (\<exists>t. dev_read E t TX_STATUS = HWMSGBOX_FIFO_DEPTH)))"

lemma reply_round_wp:
  assumes "can_delay E c fuel (length (frame m) * word_budget SEND_MSG_TIMEOUT) v" and "paced (trace v)"
    and "plain_request m" and "\<not> bad_message (Some m)" and "m_attr m AND MESSAGE_ATTR_HARDSYN \<noteq> 0"
    and "v = w\<lparr>trace := trace v, msg_paras := msg_paras v\<rparr>" and "sent (trace v) = sent (trace w)"
  shows "wp (message_coming_notify E fuel D T (received m m0 32)) (\<lambda>_ w'. answered E m w w') v"
proof (rule message_coming_notify_wp)
  note m = received_plain [OF assms(4), where ?m0.0 = m0]
  have len: "length (frame (m\<lparr>m_result := x\<rparr>)) = length (frame m)" for x by (simp add: frame_def)
  note e = received_effect [OF assms(4), where ?m0.0 = m0]
  have h: "\<not> hung (plain_effect m v)" using assms(1) by (auto simp: can_delay_def plain_effect_def)
  have pe: "plain_effect m v = (plain_effect m w)\<lparr>trace := trace v, msg_paras := msg_paras v\<rparr>"
    by (subst assms(6)) (simp add: plain_effect_def)
  have fin: "w' = (plain_effect m w)\<lparr>trace := trace w', msg_paras := msg_paras w'\<rparr> \<and> \<not> hung w'"
    if "w' = (plain_effect m v)\<lparr>trace := x\<rparr>" for w' x
    using h unfolding that pe by simp
  show "wp (process_message E fuel D T (received m m0 32)) (\<lambda>_ w'. answered E m w w') v"
  proof (rule wp_mono [OF plain_reply_wp [of E c fuel "received m m0 32" v D T]])
    fix x w' assume "(\<lambda>(r, m') w'. m' = (received m m0 32)\<lparr>m_result := of_int (plain_answer (received m m0 32))\<rparr> \<and>
      w' = (plain_effect (received m m0 32) v)\<lparr>trace := trace w'\<rparr> \<and>
      (\<exists>n. sent (trace w') = sent (trace v) @ take n (frame m') \<and>
      (r = plain_answer (received m m0 32) \<and> n = length (frame m') \<or>
       r = - ETIMEOUT \<and> n < length (frame m') \<and> (\<exists>t. dev_read E t TX_STATUS = HWMSGBOX_FIFO_DEPTH)))) x w'"
    then obtain n where x: "snd x = (received m m0 32)\<lparr>m_result := of_int (plain_answer (received m m0 32))\<rparr>"
      and n: "sent (trace w') = sent (trace v) @ take n (frame (snd x))"
        "n = length (frame (snd x)) \<or> (\<exists>t. dev_read E t TX_STATUS = HWMSGBOX_FIFO_DEPTH)"
      and w': "w' = (plain_effect (received m m0 32) v)\<lparr>trace := trace w'\<rparr>"
      unfolding split_beta by blast
    have "sent (trace w') = sent (trace w) @ take n (frame (m\<lparr>m_result := of_int (plain_answer m)\<rparr>))"
      "n = length (frame m) \<or> (\<exists>t. dev_read E t TX_STATUS = HWMSGBOX_FIFO_DEPTH)"
      using n unfolding x m(1,4) assms(7) len by blast+
    then show "answered E m w w'" unfolding answered_def using fin [OF w' [unfolded e]] by blast
  qed (use assms m in simp_all)
qed


text \<open>A board whose receive FIFO never runs empty.\<close>

definition asking_env :: "u32 list \<Rightarrow> env" where
  "asking_env ws = (box_env ws)\<lparr>dev_read := \<lambda>t a. if a = RX_STATUS then 2 else dev_read (box_env ws) t a\<rparr>"

lemma asking_env_ready:
  "counts (asking_env ws) length" "delivers (asking_env ws) 0 ws" "\<not> starves (asking_env ws) q"
  "dev_read (asking_env ws) t TX_STATUS = 0" "dev_read (asking_env ws) t RX_STATUS = 2"
  by (auto simp: counts_def asking_env_def box_env_def delivers_def starves_def)


end
