(* ===== verification/Shell.thy ===== *)
theory Shell
  imports Debugger
begin

text \<open>
  The shell of the AR100S firmware (\<^verbatim>\<open>src/ar100s/system/debugger/shell_cmd.c\<close>): the line editor behind the UART interrupt and
  the built-in commands. A string argument is the rest of the command buffer from its position on. The result
  \<open>None\<close> is an access outside the buffer or the argument table. The texts of the log macros are left out, the
  accesses in their arguments are not.
\<close>

unbundle bit_operations_syntax

section \<open>Model\<close>

abbreviation (input) MAX_CMD_LEN :: nat where "MAX_CMD_LEN \<equiv> 64"

record shell_state = debugger_state +
  cmd_buf :: "u8 list"
  curpos :: u32

datatype builtin_func_ptr = Do_echo | Do_set_debug_level | Do_set_baudrate | Do_cat | Do_print | Do_help

definition Commands_Table :: "(u8 list \<times> builtin_func_ptr) list" where
  "Commands_Table = [(ascii ''echo'' @ [0], Do_echo), (ascii ''set_debug_level'' @ [0], Do_set_debug_level),
     (ascii ''set_baudrate'' @ [0], Do_set_baudrate), (ascii ''cat'' @ [0], Do_cat), (ascii ''print'' @ [0], Do_print),
     (ascii ''help'' @ [0], Do_help)]"

fun inbuilt_loop :: "(u8 list \<times> builtin_func_ptr) list \<Rightarrow> u8 list \<Rightarrow> builtin_func_ptr option option" where
  "inbuilt_loop [] s = Some None"
| "inbuilt_loop ((name, f) # bp) s = (case strcmp name s of None \<Rightarrow> None
     | Some r \<Rightarrow> if r = 0 then Some (Some f) else inbuilt_loop bp s)"

definition inbuilt :: "u8 list \<Rightarrow> builtin_func_ptr option option" where
  "inbuilt s = inbuilt_loop Commands_Table s"

definition hex_arg :: "u8 list \<Rightarrow> u32 option" where
  "hex_arg s = (case strlen s of None \<Rightarrow> None | Some n \<Rightarrow> hstr2int s (of_nat n))"

definition dec_arg :: "u8 list \<Rightarrow> u32 option" where
  "dec_arg s = (case strlen s of None \<Rightarrow> None | Some n \<Rightarrow> dstr2int s (of_nat n))"

text \<open>A length is decimal, or hexadecimal if the decimal reading gives 0.\<close>

definition len_arg :: "u8 list \<Rightarrow> u32 option" where
  "len_arg s = (case dec_arg s of None \<Rightarrow> None | Some len \<Rightarrow> if len = 0 then hex_arg s else Some len)"

type_synonym args = "u8 list option list"

definition do_echo :: "env \<Rightarrow> args \<Rightarrow> ('a shell_state_scheme, int option) state" where
  "do_echo E args = (case (args ! 1, args ! 3) of
     (Some s1, Some s3) \<Rightarrow> (case args ! 2 of
         Some (c # _) \<Rightarrow>
           if c \<noteq> 0x3e \<or> args ! 4 \<noteq> None then ret (Some (- EINVAL))
           else (case (hex_arg s1, hex_arg s3) of
               (Some wda, Some add) \<Rightarrow>
                 if add AND 0x03 \<noteq> 0 then ret (Some (- EINVAL))
                 else do { _ \<leftarrow> writel wda add; ret (Some OK) }
             | _ \<Rightarrow> ret None)
       | _ \<Rightarrow> ret None)
   | _ \<Rightarrow> ret (Some (- EINVAL)))"

fun cat_loop :: "env \<Rightarrow> u32 \<Rightarrow> nat \<Rightarrow> ('a machine_scheme, u32) state" where
  "cat_loop E add 0 = ret add"
| "cat_loop E add (Suc n) = do { _ \<leftarrow> readl E add; cat_loop E (add + 4) n }"

definition do_cat :: "env \<Rightarrow> args \<Rightarrow> ('a shell_state_scheme, int option) state" where
  "do_cat E args = (if args ! 1 = None \<or> args ! 3 \<noteq> None then ret (Some (- EINVAL))
     else case hex_arg (the (args ! 1)) of None \<Rightarrow> ret None
     | Some add \<Rightarrow>
         if add AND 0x03 \<noteq> 0 then ret (Some (- EINVAL))
         else (case args ! 2 of
             Some s2 \<Rightarrow> (case len_arg s2 of None \<Rightarrow> ret None
               | Some len \<Rightarrow> do {
                   add \<leftarrow> cat_loop E add (unat (len - 1));
                   _ \<leftarrow> readl E add;
                   ret (Some OK)
                 })
           | None \<Rightarrow> do { _ \<leftarrow> readl E add; ret (Some OK) }))"

definition do_set_debug_level :: "args \<Rightarrow> ('a shell_state_scheme, int option) state" where
  "do_set_debug_level args = (if args ! 1 = None \<or> args ! 2 \<noteq> None then ret (Some (- EINVAL))
     else case dec_arg (the (args ! 1)) of None \<Rightarrow> ret None
     | Some level \<Rightarrow> do { _ \<leftarrow> set_debug_level level; ret (Some OK) })"

definition do_set_baudrate :: "env \<Rightarrow> args \<Rightarrow> ('a shell_state_scheme, int option) state" where
  "do_set_baudrate E args = (if args ! 1 = None \<or> args ! 2 \<noteq> None then ret (Some (- EINVAL))
     else case dec_arg (the (args ! 1)) of None \<Rightarrow> ret None
     | Some baud \<Rightarrow> do { _ \<leftarrow> uart_set_baudrate E baud; ret (Some OK) })"

text \<open>The string at an address of memory, up to its terminator; the fuel bounds its length.\<close>

fun text_at :: "nat \<Rightarrow> memory \<Rightarrow> u32 \<Rightarrow> u8 list option" where
  "text_at 0 m a = None"
| "text_at (Suc n) m a = (if m a = 0 then Some [] else map_option ((#) (m a)) (text_at n m (a + 1)))"

definition do_print :: "env \<Rightarrow> nat \<Rightarrow> (history \<Rightarrow> memory) \<Rightarrow> args \<Rightarrow> ('a shell_state_scheme, int option) state" where
  "do_print E fuel D args = (if args ! 1 = None \<or> args ! 3 \<noteq> None then ret (Some (- EINVAL))
     else case hex_arg (the (args ! 1)) of None \<Rightarrow> ret None
     | Some add \<Rightarrow> (case args ! 2 of
           Some s2 \<Rightarrow> (case len_arg s2 of None \<Rightarrow> ret None
             | Some len \<Rightarrow> do {
                 _ \<leftarrow> cpucfg_set_little_endian_address E add ((add + (len - 1) + 0x400) AND NOT 0x01ff);
                 w \<leftarrow> State_Monad.get;
                 case text_at fuel (D (trace w)) add of None \<Rightarrow> do { _ \<leftarrow> hang; ret None }
                 | Some s \<Rightarrow> do {
                     _ \<leftarrow> uart_puts E s;
                     _ \<leftarrow> time_mdelay E fuel 10;
                     _ \<leftarrow> cpucfg_remove_little_endian_address E add 0;
                     ret (Some OK)
                   }
               })
         | None \<Rightarrow> ret (Some OK)))"

definition do_help :: "('a shell_state_scheme, int option) state" where
  "do_help = ret (Some OK)"

definition call_builtin ::
  "env \<Rightarrow> nat \<Rightarrow> (history \<Rightarrow> memory) \<Rightarrow> builtin_func_ptr \<Rightarrow> args \<Rightarrow> ('a shell_state_scheme, int option) state" where
  "call_builtin E fuel D f args = (case f of Do_echo \<Rightarrow> do_echo E args | Do_set_debug_level \<Rightarrow> do_set_debug_level args
     | Do_set_baudrate \<Rightarrow> do_set_baudrate E args | Do_cat \<Rightarrow> do_cat E args | Do_print \<Rightarrow> do_print E fuel D args
     | Do_help \<Rightarrow> do_help)"

definition execute_command :: "env \<Rightarrow> nat \<Rightarrow> (history \<Rightarrow> memory) \<Rightarrow> args \<Rightarrow> ('a shell_state_scheme, int option) state" where
  "execute_command E fuel D args = (case args ! 0 of None \<Rightarrow> ret None
     | Some s \<Rightarrow> (case inbuilt s of None \<Rightarrow> ret None
         | Some None \<Rightarrow> ret (Some FAIL)
         | Some (Some f) \<Rightarrow> call_builtin E fuel D f args))"

definition execute_one_command :: "env \<Rightarrow> nat \<Rightarrow> (history \<Rightarrow> memory) \<Rightarrow> ('a shell_state_scheme, int option) state" where
  "execute_one_command E fuel D = do {
     w \<leftarrow> State_Monad.get;
     case parseargs (cmd_buf w) (replicate MAX_CMD_ARGS None) of None \<Rightarrow> ret None
     | Some (buf, argc, argv) \<Rightarrow> do {
         _ \<leftarrow> State_Monad.update (\<lambda>w. w\<lparr>cmd_buf := buf\<rparr>);
         if argc > 0 then execute_command E fuel D (map (map_option (\<lambda>p. drop p buf)) argv) else ret (Some OK)
       }
   }"

subsection \<open>The line editor\<close>

text \<open>Characters that are sent one after the other; errors of the transmitter are ignored.\<close>

fun putc_all :: "env \<Rightarrow> u8 list \<Rightarrow> ('a uart_state_scheme, unit) state" where
  "putc_all E [] = ret ()"
| "putc_all E (c # cs) = do { _ \<leftarrow> uart_putc E c; putc_all E cs }"

definition end_line :: "('a shell_state_scheme, bool) state" where
  "end_line = do {
     w \<leftarrow> State_Monad.get;
     if unat (curpos w) < length (cmd_buf w) then do {
       _ \<leftarrow> State_Monad.update (\<lambda>w. w\<lparr>cmd_buf := (cmd_buf w)[unat (curpos w) := 0]\<rparr>);
       ret True
     } else ret False
   }"

definition key_backspace :: "env \<Rightarrow> nat \<Rightarrow> ('a shell_state_scheme, int option) state" where
  "key_backspace E n = do {
     w \<leftarrow> State_Monad.get;
     _ \<leftarrow> (if n \<noteq> 0 then do {
         _ \<leftarrow> State_Monad.update (\<lambda>w. w\<lparr>curpos := curpos w - 1\<rparr>);
         if curpos w \<noteq> 0 then putc_all E [0x08, 0x20, 0x08] else ret ()
       } else ret ());
     ok \<leftarrow> end_line;
     ret (if ok then Some OK else None)
   }"

definition key_delete :: "env \<Rightarrow> ('a shell_state_scheme, int option) state" where
  "key_delete E = do {
     w \<leftarrow> State_Monad.get;
     _ \<leftarrow> putc_all E (0x0d # replicate (unat (curpos w)) 0x20 @ [0x0d]);
     _ \<leftarrow> State_Monad.update (\<lambda>w. w\<lparr>curpos := 0\<rparr>);
     ret (Some OK)
   }"

definition key_enter :: "env \<Rightarrow> nat \<Rightarrow> (history \<Rightarrow> memory) \<Rightarrow> ('a shell_state_scheme, int option) state" where
  "key_enter E fuel D = do {
     _ \<leftarrow> putc_all E [0x0d, 0x0a];
     ok \<leftarrow> end_line;
     if \<not> ok then ret None
     else do {
       w \<leftarrow> State_Monad.get;
       r \<leftarrow> (if curpos w > 1 then execute_one_command E fuel D else ret (Some OK));
       case r of None \<Rightarrow> ret None
       | Some _ \<Rightarrow> do {
           _ \<leftarrow> putc_all E [0x24, 0x20];
           _ \<leftarrow> State_Monad.update (\<lambda>w. w\<lparr>curpos := 0\<rparr>);
           ret (Some OK)
         }
     }
   }"

definition key_echo :: "env \<Rightarrow> nat \<Rightarrow> ('a shell_state_scheme, int option) state" where
  "key_echo E n = do {
     w \<leftarrow> State_Monad.get;
     if curpos w + of_nat n < of_nat MAX_CMD_LEN - 1 then do {
       _ \<leftarrow> putc_all E (take n (drop (unat (curpos w)) (cmd_buf w)));
       _ \<leftarrow> State_Monad.update (\<lambda>w. w\<lparr>curpos := curpos w + of_nat n\<rparr>);
       ret (Some OK)
     } else ret (Some OK)
   }"

text \<open>The characters received go to the buffer from \<open>curpos\<close> on, and the last of them decides.\<close>

definition getcmd :: "env \<Rightarrow> nat \<Rightarrow> (history \<Rightarrow> memory) \<Rightarrow> ('a shell_state_scheme, int option) state" where
  "getcmd E fuel D = do {
     got \<leftarrow> uart_get E fuel;
     w \<leftarrow> State_Monad.get;
     case got of Inl _ \<Rightarrow> ret None
     | Inr cs \<Rightarrow>
         let p = unat (curpos w); b = cmd_buf w; n = length cs in
         if p + n > length b \<or> p + n = 0 then ret None
         else do {
           let b = take p b @ cs @ drop (p + n) b;
           _ \<leftarrow> State_Monad.update (\<lambda>w. w\<lparr>cmd_buf := b\<rparr>);
           let c = b ! (p + n - 1);
           if c = 0x08 then key_backspace E n
           else if c = 0x7e then key_delete E
           else if c = 0x0d \<or> c = 0x0a \<or> c = 0 then key_enter E fuel D
           else key_echo E n
         }
   }"

section \<open>Console output\<close>

text \<open>Events of the console: anything but a write outside the transmit register.\<close>

definition console_event :: "event \<Rightarrow> bool" where
  "console_event e \<longleftrightarrow> (\<forall>a v. e = Wr a v \<longrightarrow> a = UART_REG_THR)"

definition typed :: "'a machine_scheme \<Rightarrow> 'a machine_scheme \<Rightarrow> bool" where
  "typed w w' \<longleftrightarrow> w' = w\<lparr>trace := trace w'\<rparr> \<and> adds console_event w w'"

lemma typed_refl [simp]: "typed w w"
  by (simp add: typed_def)

lemma typed_trans:
  assumes "typed w u" and "typed u v"
  shows "typed w v"
proof -
  obtain t where u: "u = w\<lparr>trace := t\<rparr>" using assms(1) unfolding typed_def by blast
  obtain s where v: "v = u\<lparr>trace := s\<rparr>" using assms(2) unfolding typed_def by blast
  have "v = w\<lparr>trace := trace v\<rparr>" unfolding v u by simp
  with assms show ?thesis by (auto simp: typed_def intro: adds_trans)
qed

lemma typed_event: "console_event e \<Longrightarrow> typed w (w\<lparr>trace := e # trace w\<rparr>)"
  by (simp add: typed_def adds_event)

lemma typed_poll: "wp (poll E a good n) (\<lambda>_ w'. typed w w') w"
proof (induction n arbitrary: w)
  case (Suc n)
  show ?case
    using Suc.IH [of "w\<lparr>trace := Rd a (dev_read E (trace w) a) # trace w\<rparr>"]
      typed_trans [OF typed_event [of "Rd a (dev_read E (trace w) a)" w]]
    by (auto simp: wp_simps console_event_def elim!: wp_mono intro: typed_event)
qed (simp add: wp_return)

lemma typed_putc: "wp (uart_putc E c) (\<lambda>_ w'. typed w w') w"
proof -
  have "typed w (v\<lparr>trace := Wr UART_REG_THR x # trace v\<rparr>)" if "typed w v" for v x
    using typed_trans [OF that typed_event] by (simp add: console_event_def)
  then show ?thesis
    unfolding uart_putc_def by (auto simp: wp_simps intro!: wp_mono [OF typed_poll])
qed

lemma typed_putc_all: "wp (putc_all E cs) (\<lambda>_ w'. typed w w') w"
proof (induction cs arbitrary: w)
  case (Cons c cs)
  show ?case
    by (simp, intro wp_bindI wp_mono [OF typed_putc] wp_mono [OF Cons.IH]) (rule typed_trans)
qed (simp add: wp_return)

declare putc_all.simps [simp del]

section \<open>Editing\<close>

text \<open>
  The line that has been typed so far. Its last two bytes of the buffer stay free: one for the next key and one for
  the terminator.
\<close>

definition line :: "u8 list \<Rightarrow> 'a shell_state_scheme \<Rightarrow> bool" where
  "line cs w \<longleftrightarrow> length (cmd_buf w) = MAX_CMD_LEN \<and> length cs \<le> 62 \<and> curpos w = of_nat (length cs) \<and> take (length cs) (cmd_buf w) = cs"

definition edit :: "u8 \<Rightarrow> u8 list \<Rightarrow> u8 list" where
  "edit c cs = (if c = 0x08 then butlast cs else if c = 0x7e then []
     else if length cs < 62 then cs @ [c] else cs)"

definition enter_key :: "u8 \<Rightarrow> bool" where
  "enter_key c \<longleftrightarrow> c = 0x0d \<or> c = 0x0a \<or> c = 0"

text \<open>The interrupt of one key: the receiver holds the character \<open>c\<close> and is empty when it has been read.\<close>

definition key_comes :: "env \<Rightarrow> history \<Rightarrow> u8 \<Rightarrow> bool" where
  "key_comes E t c \<longleftrightarrow> (
     let v = dev_read E t UART_REG_RFL; t1 = Rd UART_REG_RFL v # t; x = dev_read E t1 UART_REG_RBR
     in v \<noteq> 0 \<and> ucast (x AND 0xff) = c \<and> dev_read E (Rd UART_REG_RBR x # t1) UART_REG_RFL = 0)"

lemma uart_get_key:
  assumes "key_comes E (trace w) c" and "2 \<le> fuel" and "uart_lock w = 0" and "uart_pin_not_used w = 0"
  shows "wp (uart_get E fuel) (\<lambda>got w'. got = Inr [c] \<and> typed w w') w"
proof -
  obtain n where n: "fuel = Suc (Suc n)" using assms(2) by (metis Suc_le_D numeral_2_eq_2 Suc_le_mono)
  let ?v = "dev_read E (trace w) UART_REG_RFL"
  let ?w1 = "w\<lparr>trace := Rd UART_REG_RFL ?v # trace w\<rparr>"
  let ?x = "dev_read E (trace ?w1) UART_REG_RBR"
  let ?w2 = "?w1\<lparr>trace := Rd UART_REG_RBR ?x # trace ?w1\<rparr>"
  have "typed w (?w2\<lparr>trace := Rd UART_REG_RFL y # trace ?w2\<rparr>)" for y
    by (rule typed_trans [OF typed_event typed_trans [OF typed_event typed_event]]) (simp_all add: console_event_def)
  then show ?thesis
    using assms unfolding uart_get_def key_comes_def n by (simp add: wp_simps Let_def)
qed

lemma getcmd_key:
  assumes "line cs w" and "key_comes E (trace w) c" and "2 \<le> fuel" and "uart_lock w = 0" and "uart_pin_not_used w = 0"
    and "\<And>v. typed w v \<Longrightarrow> wp (if c = 0x08 then key_backspace E 1 else if c = 0x7e then key_delete E
      else if enter_key c then key_enter E fuel D else key_echo E 1) Q (v\<lparr>cmd_buf := cs @ c # drop (Suc (length cs)) (cmd_buf w)\<rparr>)"
  shows "wp (getcmd E fuel D) Q w"
  unfolding getcmd_def
proof (intro wp_bindI wp_mono [OF uart_get_key [OF assms(2-5)]], elim conjE)
  fix got v assume got: "got = Inr [c]" and v: "typed w v"
  then obtain t where t: "v = w\<lparr>trace := t\<rparr>" unfolding typed_def by blast
  have p: "unat (curpos v) = length cs" "length (cmd_buf v) = 64" "take (length cs) (cmd_buf v) = cs" "length cs \<le> 62" "cmd_buf v = cmd_buf w"
    using assms(1) by (simp_all add: t line_def unsigned_of_nat take_bit_nat_eq_self)
  have nth: "(cs @ c # r) ! length cs = c" for r by simp
  show "wp State_Monad.get (\<lambda>w. wp (case got of Inl _ \<Rightarrow> ret None
     | Inr cs \<Rightarrow>
         let p = unat (curpos w); b = cmd_buf w; n = length cs in
         if p + n > length b \<or> p + n = 0 then ret None
         else do {
           let b = take p b @ cs @ drop (p + n) b;
           _ \<leftarrow> State_Monad.update (\<lambda>w. w\<lparr>cmd_buf := b\<rparr>);
           let c = b ! (p + n - 1);
           if c = 0x08 then key_backspace E n
           else if c = 0x7e then key_delete E
           else if c = 0x0d \<or> c = 0x0a \<or> c = 0 then key_enter E fuel D
           else key_echo E n
         }) Q) v"
    using assms(6) [OF v] p unfolding got
    by (auto simp: wp_simps Let_def nth enter_key_def split: if_splits)
qed

lemma typedE:
  assumes "typed w v"
  obtains t where "v = w\<lparr>trace := t\<rparr>"
  using assms unfolding typed_def by blast

lemma lineD:
  assumes "line cs w"
  shows "length (cmd_buf w) = 64" "length cs \<le> 62" "curpos w = of_nat (length cs)" "unat (curpos w) = length cs"
  using assms by (auto simp: line_def unsigned_of_nat take_bit_nat_eq_self)

text \<open>Each key changes the line as the editor says, with room for the terminator left.\<close>

lemma key_backspace_line:
  assumes "length b = 64" and "length cs \<le> 62" and "cs \<noteq> []" and "take (length cs) b = cs"
    and "curpos v = of_nat (length cs)" and "cmd_buf v = b"
  shows "wp (key_backspace E 1) (\<lambda>r w'. r = Some OK \<and> line (butlast cs) w') v"
proof -
  have p: "curpos v - 1 = of_nat (length cs - 1)" "curpos v \<noteq> 0" "unat (of_nat (length cs - 1) :: u32) = length cs - 1"
  proof -
    obtain k where k: "length cs = Suc k" "k \<le> 61" using assms(2,3) by (cases cs) auto
    have "unat (of_nat (Suc k) :: u32) = Suc k" using k(2) by (simp add: unsigned_of_nat take_bit_nat_eq_self del: of_nat_Suc)
    then have "curpos v \<noteq> 0" using assms(5) k(1) by (metis Zero_not_Suc unat_0)
    then show "curpos v - 1 = of_nat (length cs - 1)" "curpos v \<noteq> 0" "unat (of_nat (length cs - 1) :: u32) = length cs - 1"
      using assms(5) k by (simp_all add: unsigned_of_nat take_bit_nat_eq_self)
  qed
  have "butlast cs = take (length cs - 1) (take (length cs) b)" by (simp only: assms(4) butlast_conv_take)
  then have l: "line (butlast cs) (u\<lparr>cmd_buf := b[length cs - 1 := 0]\<rparr>)" if "curpos u = of_nat (length cs - 1)" for u :: "'a shell_state_scheme"
    using that assms(1,2) by (simp add: line_def)
  show ?thesis
    unfolding key_backspace_def end_line_def
    by (simp add: wp_simps p, rule wp_mono [OF typed_putc_all], elim typedE) (use l p assms in \<open>auto simp: wp_simps\<close>)
qed

lemma key_delete_line:
  assumes "length (cmd_buf v) = 64"
  shows "wp (key_delete E) (\<lambda>r w'. r = Some OK \<and> line [] w') v"
  unfolding key_delete_def
  by (simp add: wp_simps, rule wp_mono [OF typed_putc_all], elim typedE) (use assms in \<open>simp add: wp_simps line_def\<close>)

lemma key_echo_line:
  assumes "length cs \<le> 62" and "length b = 64" and "take (Suc (length cs)) b = cs @ [c]"
    and "curpos v = of_nat (length cs)" and "cmd_buf v = b"
  shows "wp (key_echo E 1) (\<lambda>r w'. r = Some OK \<and> line (if length cs < 62 then cs @ [c] else cs) w') v"
proof -
  have lt: "curpos v + of_nat 1 < of_nat 64 - 1 \<longleftrightarrow> length cs < 62"
    using assms(1,4) by (simp add: word_less_nat_alt unat_word_ariths unsigned_of_nat take_bit_nat_eq_self)
  have "take (length cs) b = cs" using arg_cong [OF assms(3), of "take (length cs)"] by simp
  then show ?thesis
    unfolding key_echo_def
    using assms lt by (auto simp: wp_simps line_def elim!: typedE intro!: wp_mono [OF typed_putc_all])
qed


text \<open>A console at which a line has been typed, and a receiver with one key.\<close>

definition at_console :: "u8 list \<Rightarrow> shell_state" where
  "at_console cs = debugger_state.extend fresh_console \<lparr>cmd_buf = cs @ replicate (64 - length cs) 0, curpos = of_nat (length cs)\<rparr>"

lemma at_console_ready:
  "length cs \<le> 62 \<Longrightarrow> line cs (at_console cs)" "uart_lock (at_console cs) = 0" "uart_pin_not_used (at_console cs) = 0" "trace (at_console cs) = []"
  by (simp_all add: at_console_def line_def fresh_console_def sample_manager_def sample_standby_def
      standby_state.defs manager_state.defs debugger_state.defs)

definition key_env :: "u8 \<Rightarrow> env" where
  "key_env c = \<lparr>dev_read = (\<lambda>t a. if a = UART_REG_RBR then ucast c
     else if a = UART_REG_RFL then (if \<exists>v. Rd UART_REG_RBR v \<in> set t then 0 else 1) else 2), ext_call = (\<lambda>_ _ _. (0, 0))\<rparr>"

lemma key_env_comes: "key_comes (key_env 0x68) [] 0x68" "key_comes (key_env 0x0d) [] 0x0d"
  by (simp_all add: key_comes_def key_env_def Let_def)


section \<open>Commands\<close>

lemma hstr_loop_prefix: "k \<le> length x \<Longrightarrow> hstr_loop (x @ r) k tmp = hstr_loop (x @ s) k tmp"
proof (induction x arbitrary: k tmp)
  case (Cons c x)
  then show ?case by (cases k) auto
qed simp

lemma hex_arg_prefix:
  assumes "0 \<notin> set x" and "x \<noteq> []" and "length x < 2 ^ 32"
  shows "hex_arg (x @ 0 # r) = hex_arg (x @ [0])"
proof -
  have n: "unat (of_nat (length x) :: u32) = length x" using assms(3) by (simp add: unsigned_of_nat take_bit_nat_eq_self)
  obtain c0 y where x: "x = c0 # y" using assms(2) by (cases x) auto
  show ?thesis
  proof (cases y)
    case Nil
    then show ?thesis
      using assms(1) hstr_loop_prefix [of 1 x "0 # r" 0 "[0]"] by (simp add: x hex_arg_def hstr2int_def)
  next
    case (Cons c1 z)
    have "unat (of_nat (length x) - 2 :: u32) = length z"
      using assms(3) by (simp add: x Cons unsigned_of_nat take_bit_nat_eq_self)
    then have "hstr2int (x @ 0 # r) (of_nat (length x)) = hstr2int (x @ [0]) (of_nat (length x))"
      using hstr_loop_prefix [of "length z" z "0 # r" 0 "[0]"] hstr_loop_prefix [of "length x" x "0 # r" 0 "[0]"] n
      by (auto simp: x Cons hstr2int_def simp del: hstr_loop.simps)
    then show ?thesis using assms(1) by (simp add: hex_arg_def strlen_append)
  qed
qed

definition plain_word :: "u8 list \<Rightarrow> bool" where
  "plain_word x \<longleftrightarrow> x \<noteq> [] \<and> plain_line x \<and> (\<forall>c\<in>set x. \<not> blank c)"

lemma word_starts_inner: "\<forall>c\<in>set x. \<not> blank c \<Longrightarrow> word_starts p False (x @ r) = word_starts (p + length x) False r"
  by (induction x arbitrary: p) auto

lemma word_starts_word:
  "plain_word x \<Longrightarrow> word_starts p True (x @ 0x20 # r) = p # word_starts (p + length x + 1) True r"
  "plain_word x \<Longrightarrow> word_starts p True x = [p]"
proof -
  assume x: "plain_word x"
  then obtain c y where y: "x = c # y" "\<not> blank c" "\<forall>c\<in>set y. \<not> blank c" by (cases x) (auto simp: plain_word_def)
  show "word_starts p True (x @ 0x20 # r) = p # word_starts (p + length x + 1) True r"
    using word_starts_inner [OF y(3), of "p + 1" "0x20 # r"] y(1,2) by (simp add: blank_def)
  show "word_starts p True x = [p]"
    using word_starts_inner [OF y(3), of "p + 1" "[]"] y(1,2) by (simp add: blank_def)
qed

lemma words_kept: "plain_word x \<Longrightarrow> map (\<lambda>c. if blank c then 0 else c) x = x"
  by (auto simp: plain_word_def intro!: map_idI)

text \<open>The line that asks for a register to be written.\<close>

definition echo_line :: "u8 list \<Rightarrow> u8 list \<Rightarrow> u8 list" where
  "echo_line x y = ascii ''echo'' @ 0x20 # x @ 0x20 # 0x3e # 0x20 # y"

lemma parse_echo_line:
  assumes "plain_word x" and "plain_word y"
  shows "parseargs (echo_line x y @ 0 # r) (replicate 5 None) =
    Some (ascii ''echo'' @ 0 # x @ 0 # 0x3e # 0 # y @ 0 # r, 4, [Some 0, Some 5, Some (6 + length x), Some (8 + length x), None])"
proof -
  have pw: "plain_word (ascii ''echo'')" "plain_word [0x3e]" by (simp_all add: plain_word_def plain_line_def ascii_def blank_def)
  have pl: "plain_line (echo_line x y)" using assms by (auto simp: plain_word_def plain_line_def echo_line_def ascii_def)
  have "word_starts 0 True (echo_line x y) = [0, 5, 6 + length x, 8 + length x]"
    unfolding echo_line_def using word_starts_word(1) [OF pw(1), of 0 "x @ 0x20 # 0x3e # 0x20 # y"]
      word_starts_word(1) [OF assms(1), of 5 "0x3e # 0x20 # y"] word_starts_word(1) [OF pw(2), of "6 + length x" y]
      word_starts_word(2) [OF assms(2), of "8 + length x"]
    by (simp add: ascii_def eval_nat_numeral)
  then show ?thesis
    using parseargs_splits [OF pl, of r] words_kept [OF assms(1)] words_kept [OF assms(2)]
    by (simp add: arg_table_def Let_def echo_line_def ascii_def blank_def)
qed

lemma execute_echo_line:
  assumes "plain_word x" and "plain_word y" and "length x + length y \<le> 62"
    and "hex_arg (x @ [0]) = Some v" and "hex_arg (y @ [0]) = Some a" and "a AND 0x03 = 0"
    and "cmd_buf w = echo_line x y @ 0 # r"
  shows "wp (execute_one_command E fuel D) (\<lambda>res w'. res = Some OK \<and>
    (\<exists>b. w' = w\<lparr>cmd_buf := b, trace := Wr a v # trace w\<rparr> \<and> length b = length (cmd_buf w))) w"
proof -
  have x: "0 \<notin> set x" "x \<noteq> []" "length x < 2 ^ 32" and y: "0 \<notin> set y" "y \<noteq> []" "length y < 2 ^ 32"
    using assms(1-3) by (auto simp: plain_word_def plain_line_def)
  define b where "b = ascii ''echo'' @ 0 # x @ 0 # 0x3e # 0 # y @ 0 # r"
  have args: "inbuilt b = Some (Some Do_echo)" "drop 5 b = x @ 0 # 0x3e # 0 # y @ 0 # r" "drop (6 + length x) b = 0x3e # 0 # y @ 0 # r"
    "drop (8 + length x) b = y @ 0 # r" "length b = length (cmd_buf w)"
    by (simp_all add: b_def inbuilt_def Commands_Table_def assms(7) echo_line_def ascii_def eval_nat_numeral)
  have parse: "parseargs (cmd_buf w) (replicate 5 None) = Some (b, 4, [Some 0, Some 5, Some (6 + length x), Some (8 + length x), None])"
    using parse_echo_line [OF assms(1,2), of r] assms(7) by (simp add: b_def)
  have exec: "wp (execute_command E fuel D (map (map_option (\<lambda>p. drop p b)) [Some 0, Some 5, Some (6 + length x), Some (8 + length x), None]))
    Q u" if "Q (Some OK) (u\<lparr>trace := Wr a v # trace u\<rparr>)" for Q u
    using that args assms(4-6) hex_arg_prefix [OF x, of "0x3e # 0 # y @ 0 # r"] hex_arg_prefix [OF y, of r]
    by (simp add: execute_command_def call_builtin_def do_echo_def wp_simps)
  show ?thesis
    unfolding execute_one_command_def
    by (simp add: wp_simps parse del: list.map option.map, rule exec, use args(5) in auto)
qed

lemma typed_es:
  assumes "typed w u"
  obtains es where "trace u = es @ trace w" and "\<forall>e\<in>set es. console_event e"
  using assms unfolding typed_def adds_def by blast

text \<open>Enter, when the command makes one write.\<close>

lemma key_enter_wp:
  fixes u :: "'a shell_state_scheme"
  assumes "length (cmd_buf u) = 64" and "unat (curpos u) < 64" and "1 < curpos u"
    and run: "\<And>v :: 'a shell_state_scheme. cmd_buf v = (cmd_buf u)[unat (curpos u) := 0] \<Longrightarrow> wp (execute_one_command E fuel D) (\<lambda>r w'. r = Some OK \<and>
      (\<exists>b. w' = v\<lparr>cmd_buf := b, trace := Wr a x # trace v\<rparr> \<and> length b = length (cmd_buf v))) v"
  shows "wp (key_enter E fuel D) (\<lambda>r w'. r = Some OK \<and> line [] w' \<and>
    (\<exists>es es'. trace w' = es @ Wr a x # es' @ trace u \<and> (\<forall>e\<in>set (es @ es'). console_event e))) u"
  unfolding key_enter_def end_line_def
proof (intro wp_bindI wp_mono [OF typed_putc_all])
  fix q v assume v: "typed u v"
  then obtain t where t: "v = u\<lparr>trace := t\<rparr>" by (rule typedE)
  obtain es' where es': "trace v = es' @ trace u" "\<forall>e\<in>set es'. console_event e" using v by (rule typed_es)
  let ?v = "v\<lparr>cmd_buf := (cmd_buf u)[unat (curpos u) := 0]\<rparr>"
  have fin: "wp (putc_all E cs) (\<lambda>_ s. line [] (s\<lparr>curpos := 0\<rparr>) \<and>
      (\<exists>es es'. trace s = es @ Wr a x # es' @ trace u \<and> (\<forall>e\<in>set (es @ es'). console_event e))) (?v\<lparr>cmd_buf := b, trace := Wr a x # trace ?v\<rparr>)"
    if "length b = 64" for b cs
  proof (rule wp_mono [OF typed_putc_all])
    fix z s assume s: "typed (?v\<lparr>cmd_buf := b, trace := Wr a x # trace ?v\<rparr>) s"
    then obtain t' where "s = ?v\<lparr>cmd_buf := b, trace := t'\<rparr>" by (elim typedE) simp
    moreover obtain es where "trace s = es @ Wr a x # trace v" "\<forall>e\<in>set es. console_event e" using s by (elim typed_es) simp
    ultimately show "line [] (s\<lparr>curpos := 0\<rparr>) \<and>
      (\<exists>es es'. trace s = es @ Wr a x # es' @ trace u \<and> (\<forall>e\<in>set (es @ es'). console_event e))"
      using es' that by (auto simp: line_def)
  qed
  have "wp (execute_one_command E fuel D) (\<lambda>r w'. r = Some OK \<and> (\<exists>b. w' = ?v\<lparr>cmd_buf := b, trace := Wr a x # trace ?v\<rparr> \<and> length b = 64)) ?v"
    using run [of ?v] assms(1) by simp
  then show "wp State_Monad.get (\<lambda>w. wp (if unat (curpos w) < length (cmd_buf w) then do {
       _ \<leftarrow> State_Monad.update (\<lambda>w. w\<lparr>cmd_buf := (cmd_buf w)[unat (curpos w) := 0]\<rparr>);
       ret True
     } else ret False) (\<lambda>ok. wp (if \<not> ok then ret None
     else do {
       w \<leftarrow> State_Monad.get;
       r \<leftarrow> (if curpos w > 1 then execute_one_command E fuel D else ret (Some OK));
       case r of None \<Rightarrow> ret None
       | Some _ \<Rightarrow> do {
           _ \<leftarrow> putc_all E [0x24, 0x20];
           _ \<leftarrow> State_Monad.update (\<lambda>w. w\<lparr>curpos := 0\<rparr>);
           ret (Some OK)
         }
     }) (\<lambda>r w'. r = Some OK \<and> line [] w' \<and>
    (\<exists>es es'. trace w' = es @ Wr a x # es' @ trace u \<and> (\<forall>e\<in>set (es @ es'). console_event e))))) v"
    using assms(1-3) fin [of _ "[0x24, 0x20]"]
    by (auto simp: t wp_simps elim!: wp_mono) (drule meta_spec, drule meta_mp, assumption, erule wp_mono, auto simp: wp_simps)
qed

text \<open>
  C28: a command from the keyboard to the bus. When the line \<open>echo x > y\<close> has been typed, with hexadecimal numbers for \<open>x\<close>
  and a word-aligned address for \<open>y\<close>, the enter key writes exactly this value to exactly this address, once;
  every other access of the interrupt belongs to the console. The shell is ready for the next line afterwards.
\<close>

theorem shell_writes_register:
  assumes "line (echo_line x y) w" and "key_comes E (trace w) c" and "enter_key c"
    and "2 \<le> fuel" and "uart_lock w = 0" and "uart_pin_not_used w = 0"
    and "plain_word x" and "plain_word y" and "hex_arg (x @ [0]) = Some v" and "hex_arg (y @ [0]) = Some a" and "a AND 0x03 = 0"
  shows "wp (getcmd E fuel D) (\<lambda>r w'. r = Some OK \<and> line [] w' \<and>
    (\<exists>es es'. trace w' = es @ Wr a v # es' @ trace w \<and> (\<forall>e\<in>set (es @ es'). console_event e))) w"
proof (rule getcmd_key [OF assms(1,2,4-6)])
  let ?cs = "echo_line x y"
  let ?Q = "\<lambda>r w'. r = Some OK \<and> line [] w' \<and> (\<exists>es es'. trace w' = es @ Wr a v # es' @ trace w \<and> (\<forall>e\<in>set (es @ es'). console_event e))"
  fix u assume u: "typed w u"
  let ?r = "drop (Suc (length ?cs)) (cmd_buf w)" and ?u = "u\<lparr>cmd_buf := ?cs @ c # drop (Suc (length ?cs)) (cmd_buf w)\<rparr>"
  have len: "length (cmd_buf w) = 64" "length ?cs \<le> 62" "unat (curpos w) = length ?cs" "length x + length y \<le> 62" "1 < curpos w"
    using lineD [OF assms(1)] by (auto simp: echo_line_def ascii_def word_less_nat_alt)
  obtain t where t: "u = w\<lparr>trace := t\<rparr>" using u by (rule typedE)
  have "wp (key_enter E fuel D) (\<lambda>r w'. r = Some OK \<and> line [] w' \<and>
    (\<exists>es es'. trace w' = es @ Wr a v # es' @ trace ?u \<and> (\<forall>e\<in>set (es @ es'). console_event e))) ?u"
  proof (rule key_enter_wp)
    fix z :: "'a shell_state_scheme" assume "cmd_buf z = (cmd_buf ?u)[unat (curpos ?u) := 0]"
    then have "cmd_buf z = ?cs @ 0 # ?r" using len by (simp add: t list_update_append)
    then show "wp (execute_one_command E fuel D) (\<lambda>r w'. r = Some OK \<and>
      (\<exists>b. w' = z\<lparr>cmd_buf := b, trace := Wr a v # trace z\<rparr> \<and> length b = length (cmd_buf z))) z"
      using execute_echo_line [OF assms(7,8) len(4) assms(9-11)] by blast
  qed (use len in \<open>simp_all add: t\<close>)
  moreover obtain es where "trace u = es @ trace w" "\<forall>e\<in>set es. console_event e" using u by (rule typed_es)
  ultimately have enter: "wp (key_enter E fuel D) ?Q ?u"
    by (auto elim!: wp_mono) (metis Un_iff append_assoc set_append)
  have "c \<noteq> 0x08" "c \<noteq> 0x7e" using assms(3) by (auto simp: enter_key_def)
  with enter assms(3) show "wp (if c = 0x08 then key_backspace E 1 else if c = 0x7e then key_delete E
      else if enter_key c then key_enter E fuel D else key_echo E 1) ?Q ?u" by simp
qed

theorem shell_writes_register_witness:
  "wp (getcmd (key_env 0x0d) 2 (\<lambda>_ _. 0)) (\<lambda>r w'. r = Some OK \<and> line [] w' \<and>
     (\<exists>es es'. trace w' = es @ Wr 0x7090100 0x1f # es' \<and> (\<forall>e\<in>set (es @ es'). console_event e)))
     (at_console (ascii ''echo 0x1F > 7090100''))"
proof -
  have l: "echo_line (ascii ''0x1F'') (ascii ''7090100'') = ascii ''echo 0x1F > 7090100''" by (simp add: echo_line_def ascii_def)
  have "plain_word (ascii ''0x1F'')" "plain_word (ascii ''7090100'')" by (simp_all add: plain_word_def plain_line_def blank_def ascii_def)
  moreover have "hex_arg (ascii ''0x1F'' @ [0]) = Some 0x1f" "hex_arg (ascii ''7090100'' @ [0]) = Some 0x7090100"
    by code_simp+
  moreover have "line (ascii ''echo 0x1F > 7090100'') (at_console (ascii ''echo 0x1F > 7090100''))"
    by (rule at_console_ready) (simp add: ascii_def)
  ultimately show ?thesis
    using shell_writes_register [of "ascii ''0x1F''" "ascii ''7090100''" "at_console (ascii ''echo 0x1F > 7090100'')" "key_env 0x0d" "0x0d" 2
        "0x1f" "0x7090100" "\<lambda>_ _. 0"] at_console_ready(2-4) [of "ascii ''echo 0x1F > 7090100''"] key_env_comes(2)
    by (simp add: enter_key_def l)
qed

end
